(* ===== verification/Prelude.thy ===== *)
theory Prelude
  imports Main "HOL-Library.Word"
begin

text \<open>
  Shared vocabulary of the development: the collections of rewrite rules the component
  theories feed, the names of the machine types the Rust code uses, a result type with
  the error on the left, and generic lemmas on lists and options.
\<close>

section \<open>Collections\<close>

named_theorems str_simps \<open>unconditional facts on the string operations of the Rust standard library\<close>
named_theorems model_defs \<open>definitions of operations that are unfolded when a component is evaluated\<close>
named_theorems inv_intros \<open>introduction rules for component invariants\<close>

section \<open>Machine types\<close>

type_synonym u8 = "8 word"
type_synonym u32 = "32 word"
type_synonym u64 = "64 word"

text \<open>\<open>u32::saturating_add\<close>.\<close>

definition sat_add32 :: "u32 \<Rightarrow> u32 \<Rightarrow> u32" where
  "sat_add32 a b = word_of_nat (min (unat a + unat b) (2 ^ 32 - 1))"

lemma unat_sat_add32: "unat (sat_add32 a b) = min (unat a + unat b) (2 ^ 32 - 1)"
  by (simp add: sat_add32_def unat_of_nat take_bit_nat_eq_self)

section \<open>Lists and options\<close>

lemma map_filter_fst_zip:
  "length xs = length ys \<Longrightarrow> map fst (zip xs ys) = xs"
  by simp

lemma map_sum_inr: "map_sum id f x = Inr y \<longleftrightarrow> (\<exists>z. x = Inr z \<and> y = f z)"
  by (cases x) auto

lemma length_filter_partition:
  "length (filter P xs) + length (filter (\<lambda>x. \<not> P x) xs) = length xs"
  by (induction xs) auto

lemma take_Suc_length_less: "i < length xs \<Longrightarrow> take (Suc i) xs = take i xs @ [xs ! i]"
  by (rule take_Suc_conv_app_nth)

lemma find_Some_first:
  assumes "find P xs = Some x"
  shows "\<exists>us vs. xs = us @ x # vs \<and> P x \<and> (\<forall>u\<in>set us. \<not> P u)"
proof -
  from assms obtain i where i: "i < length xs" "P (xs ! i)" "x = xs ! i"
      and before: "\<forall>j<i. \<not> P (xs ! j)"
    by (auto simp: find_Some_iff)
  have "xs = take i xs @ x # drop (Suc i) xs"
    using i by (simp add: id_take_nth_drop[symmetric])
  moreover have "\<forall>u\<in>set (take i xs). \<not> P u"
    using before i by (auto simp: in_set_conv_nth)
  ultimately show ?thesis
    using i by blast
qed

lemma find_append_Some:
  "(\<forall>u\<in>set us. \<not> P u) \<Longrightarrow> P x \<Longrightarrow> find P (us @ x # vs) = Some x"
  by (induction us) auto

lemma find_None_all: "find P xs = None \<longleftrightarrow> (\<forall>x\<in>set xs. \<not> P x)"
  by (auto simp: find_None_iff)

end
