(* ===== verification/RustStr.thy ===== *)
theory RustStr
  imports Prelude
begin

text \<open>
  The operations of Rust's \<open>str\<close> that the code uses, on the UTF-8 bytes of the text: a
  \<open>string\<close> is a list of bytes, an offset is a byte offset, as in Rust. White space and
  case mapping are those of ASCII; text whose white space is beyond ASCII is outside the
  model.
\<close>

section \<open>Characters\<close>

abbreviation NL :: char where "NL \<equiv> CHR 0x0A"
abbreviation CR :: char where "CR \<equiv> CHR 0x0D"
abbreviation ESC :: char where "ESC \<equiv> CHR 0x1B"
abbreviation DQ :: char where "DQ \<equiv> CHR 0x22"
abbreviation SQ :: char where "SQ \<equiv> CHR 0x27"
abbreviation BSL :: char where "BSL \<equiv> CHR 0x5C"
abbreviation NUL :: char where "NUL \<equiv> CHR 0x00"

text \<open>The three bytes of the em dash the messages contain.\<close>

abbreviation em_dash :: string where "em_dash \<equiv> [CHR 0xE2, CHR 0x80, CHR 0x94]"

definition byte :: "char \<Rightarrow> nat" where
  "byte c = of_char c"

definition is_space :: "char \<Rightarrow> bool" where
  "is_space c \<longleftrightarrow> byte c = 32 \<or> 9 \<le> byte c \<and> byte c \<le> 13"

definition is_digit :: "char \<Rightarrow> bool" where
  "is_digit c \<longleftrightarrow> 48 \<le> byte c \<and> byte c \<le> 57"

definition is_lower :: "char \<Rightarrow> bool" where
  "is_lower c \<longleftrightarrow> 97 \<le> byte c \<and> byte c \<le> 122"

definition is_upper :: "char \<Rightarrow> bool" where
  "is_upper c \<longleftrightarrow> 65 \<le> byte c \<and> byte c \<le> 90"

definition is_alpha :: "char \<Rightarrow> bool" where
  "is_alpha c \<longleftrightarrow> is_lower c \<or> is_upper c"

definition is_alnum :: "char \<Rightarrow> bool" where
  "is_alnum c \<longleftrightarrow> is_alpha c \<or> is_digit c"

definition is_hexdigit :: "char \<Rightarrow> bool" where
  "is_hexdigit c \<longleftrightarrow> is_digit c \<or> 97 \<le> byte c \<and> byte c \<le> 102 \<or> 65 \<le> byte c \<and> byte c \<le> 70"

definition is_ascii :: "char \<Rightarrow> bool" where
  "is_ascii c \<longleftrightarrow> byte c < 128"

definition to_lower1 :: "char \<Rightarrow> char" where
  "to_lower1 c = (if is_upper c then char_of (byte c + 32) else c)"

definition to_lower :: "string \<Rightarrow> string" where
  "to_lower s = map to_lower1 s"

text \<open>A continuation byte of UTF-8, where no slice may start.\<close>

definition is_cont :: "char \<Rightarrow> bool" where
  "is_cont c \<longleftrightarrow> byte c div 64 = 2"

text \<open>\<open>str::chars\<close> as far as ASCII matters: one byte for each character, its first.\<close>

definition char_heads :: "string \<Rightarrow> string" where
  "char_heads s = filter (\<lambda>c. \<not> is_cont c) s"

text \<open>\<open>chars().take(n).collect()\<close>.\<close>

fun take_chars :: "nat \<Rightarrow> string \<Rightarrow> string" where
  "take_chars n [] = []"
| "take_chars n (c # s) =
     (if is_cont c then c # take_chars n s else if n = 0 then [] else c # take_chars (n - 1) s)"

lemmas char_class_defs = byte_def is_space_def is_digit_def is_lower_def is_upper_def
  is_alpha_def is_alnum_def is_hexdigit_def is_ascii_def to_lower1_def to_lower_def

section \<open>Prefixes and searching\<close>

fun starts_with :: "string \<Rightarrow> string \<Rightarrow> bool" where
  "starts_with s [] = True"
| "starts_with [] (p # ps) = False"
| "starts_with (c # s) (p # ps) = (c = p \<and> starts_with s ps)"

definition ends_with :: "string \<Rightarrow> string \<Rightarrow> bool" where
  "ends_with s p = starts_with (rev s) (rev p)"

fun find_sub :: "string \<Rightarrow> string \<Rightarrow> nat option" where
  "find_sub [] p = (if p = [] then Some 0 else None)"
| "find_sub (c # s) p =
     (if starts_with (c # s) p then Some 0 else map_option Suc (find_sub s p))"

definition contains :: "string \<Rightarrow> string \<Rightarrow> bool" where
  "contains s p \<longleftrightarrow> find_sub s p \<noteq> None"

definition rfind_sub :: "string \<Rightarrow> string \<Rightarrow> nat option" where
  "rfind_sub s p = map_option (\<lambda>i. length s - i - length p) (find_sub (rev s) (rev p))"

definition strip_prefix :: "string \<Rightarrow> string \<Rightarrow> string option" where
  "strip_prefix s p = (if starts_with s p then Some (drop (length p) s) else None)"

definition split_once :: "string \<Rightarrow> string \<Rightarrow> (string \<times> string) option" where
  "split_once s p = map_option (\<lambda>i. (take i s, drop (i + length p) s)) (find_sub s p)"

lemma starts_with_append [simp, str_simps]: "starts_with (p @ s) p"
  by (induction p) auto

lemma starts_with_iff: "starts_with s p \<longleftrightarrow> (\<exists>t. s = p @ t)"
  by (induction s p rule: starts_with.induct) auto

lemma starts_with_refl [simp, str_simps]: "starts_with s s"
  by (induction s) auto

lemma starts_with_drop: "starts_with s p \<Longrightarrow> s = p @ drop (length p) s"
  by (auto simp: starts_with_iff)

lemma starts_with_length: "starts_with s p \<Longrightarrow> length p \<le> length s"
  by (auto simp: starts_with_iff)

lemma find_sub_Some:
  "find_sub s p = Some i \<Longrightarrow> s = take i s @ p @ drop (i + length p) s \<and> i + length p \<le> length s"
proof (induction s p arbitrary: i rule: find_sub.induct)
  case (1 p)
  then show ?case by (simp split: if_splits)
next
  case (2 c s p)
  show ?case
  proof (cases "starts_with (c # s) p")
    case True
    with "2.prems" show ?thesis
      using starts_with_drop[OF True] starts_with_length[OF True] by simp
  next
    case False
    with "2.prems" obtain j where "find_sub s p = Some j" "i = Suc j"
      by auto
    with "2.IH"[OF False] show ?thesis by simp
  qed
qed

lemma find_sub_bound: "find_sub s p = Some i \<Longrightarrow> i + length p \<le> length s"
  using find_sub_Some by blast

lemma find_sub_None: "find_sub s p = None \<longleftrightarrow> (\<nexists>u v. s = u @ p @ v)"
proof (induction s p rule: find_sub.induct)
  case (1 p)
  then show ?case by auto
next
  case (2 c s p)
  show ?case
  proof (cases "starts_with (c # s) p")
    case True
    then have "\<exists>u v. c # s = u @ p @ v"
      unfolding starts_with_iff by (metis append_Nil)
    with True show ?thesis by simp
  next
    case False
    have "(\<exists>u v. c # s = u @ p @ v) \<longleftrightarrow> (\<exists>u v. s = u @ p @ v)"
    proof
      assume "\<exists>u v. c # s = u @ p @ v"
      then obtain u v where uv: "c # s = u @ p @ v" by blast
      with False have "u \<noteq> []" by (auto simp: starts_with_iff)
      with uv show "\<exists>u v. s = u @ p @ v" by (cases u) auto
    next
      assume "\<exists>u v. s = u @ p @ v"
      then obtain u v where "s = u @ p @ v" by blast
      then have "c # s = (c # u) @ p @ v" by simp
      then show "\<exists>u v. c # s = u @ p @ v" by blast
    qed
    with False 2 show ?thesis by simp
  qed
qed

lemma contains_iff: "contains s p \<longleftrightarrow> (\<exists>u v. s = u @ p @ v)"
  unfolding contains_def by (simp add: find_sub_None)

lemma contains_append_left: "contains s p \<Longrightarrow> contains (t @ s) p"
  by (metis append_assoc contains_iff)

lemma contains_append_right: "contains s p \<Longrightarrow> contains (s @ t) p"
  unfolding contains_iff by (metis append_assoc)

lemma contains_infix [simp, str_simps]: "contains (u @ p @ v) p"
  by (auto simp: contains_iff)

lemma contains_concat: "y \<in> set ys \<Longrightarrow> contains y p \<Longrightarrow> contains (concat ys) p"
  by (induction ys) (auto intro: contains_append_left contains_append_right)

lemma contains_concat_map: "x \<in> set xs \<Longrightarrow> contains (f x) p \<Longrightarrow> contains (concat (map f xs)) p"
  by (rule contains_concat[of "f x"]) auto

lemma contains_start: "contains (p @ s) p"
  using contains_infix[of "[]" p s] by simp

lemma contains_ConsI: "contains s p \<Longrightarrow> contains (c # s) p"
  using contains_append_left[of s p "[c]"] by simp

lemma contains_trans: "contains s p \<Longrightarrow> contains p q \<Longrightarrow> contains s q"
  unfolding contains_iff by (metis append_assoc)

lemma starts_with_contains: "starts_with s p \<Longrightarrow> contains s p"
  unfolding contains_iff starts_with_iff by (metis append_Nil)

lemma find_sub_minimal:
  "find_sub s p = Some i \<Longrightarrow> j < i \<Longrightarrow> \<not> starts_with (drop j s) p"
proof (induction s p arbitrary: i j rule: find_sub.induct)
  case (1 p)
  then show ?case by (simp split: if_splits)
next
  case (2 c s p)
  show ?case
  proof (cases "starts_with (c # s) p")
    case True
    with "2.prems" show ?thesis by simp
  next
    case False
    with "2.prems" obtain k where k: "find_sub s p = Some k" "i = Suc k"
      by auto
    with False "2.prems" "2.IH"[OF False k(1)] show ?thesis
      by (cases j) auto
  qed
qed

lemma strip_prefix_Some: "strip_prefix s p = Some t \<longleftrightarrow> s = p @ t"
  unfolding strip_prefix_def by (auto simp: starts_with_iff)

lemma split_once_Some:
  "split_once s p = Some (u, v) \<Longrightarrow> s = u @ p @ v"
  unfolding split_once_def using find_sub_Some by fastforce

section \<open>Trimming\<close>

definition trim_start :: "string \<Rightarrow> string" where
  "trim_start s = dropWhile is_space s"

definition trim_end :: "string \<Rightarrow> string" where
  "trim_end s = rev (dropWhile is_space (rev s))"

definition trim :: "string \<Rightarrow> string" where
  "trim s = trim_end (trim_start s)"

definition trim_start_char :: "char \<Rightarrow> string \<Rightarrow> string" where
  "trim_start_char c s = dropWhile (\<lambda>x. x = c) s"

definition trim_end_char :: "char \<Rightarrow> string \<Rightarrow> string" where
  "trim_end_char c s = rev (dropWhile (\<lambda>x. x = c) (rev s))"

definition trim_char :: "char \<Rightarrow> string \<Rightarrow> string" where
  "trim_char c s = trim_end_char c (trim_start_char c s)"

text \<open>\<open>trim_start_matches\<close> with a string pattern: the prefix is removed as often as it occurs.\<close>

function trim_start_str :: "string \<Rightarrow> string \<Rightarrow> string" where
  "trim_start_str p s =
     (if p \<noteq> [] \<and> starts_with s p then trim_start_str p (drop (length p) s) else s)"
  by pat_completeness auto
termination
  by (relation "measure (\<lambda>(p, s). length s)")
     (auto dest!: starts_with_length intro!: diff_less simp: Suc_le_eq length_greater_0_conv[symmetric]
           simp del: length_greater_0_conv)

declare trim_start_str.simps [simp del]

lemma trim_end_suffix: "\<exists>w. s = trim_end s @ w \<and> (\<forall>c\<in>set w. is_space c)"
proof -
  have "rev s = takeWhile is_space (rev s) @ dropWhile is_space (rev s)"
    by simp
  then have "s = rev (dropWhile is_space (rev s)) @ rev (takeWhile is_space (rev s))"
    by (metis rev_append rev_rev_ident)
  moreover have "\<forall>c\<in>set (rev (takeWhile is_space (rev s))). is_space c"
    by (auto dest: set_takeWhileD)
  ultimately show ?thesis
    unfolding trim_end_def by blast
qed

lemma length_trim_le: "length (trim s) \<le> length s"
  unfolding trim_def trim_end_def trim_start_def
  by (metis length_dropWhile_le length_rev order_trans)

section \<open>Splitting and joining\<close>

fun split_char :: "char \<Rightarrow> string \<Rightarrow> string list" where
  "split_char c [] = [[]]"
| "split_char c (x # xs) =
     (if x = c then [] # split_char c xs
      else case split_char c xs of [] \<Rightarrow> [[x]] | w # ws \<Rightarrow> (x # w) # ws)"

fun join :: "string \<Rightarrow> string list \<Rightarrow> string" where
  "join sep [] = []"
| "join sep [w] = w"
| "join sep (w # ws) = w @ sep @ join sep ws"

definition strip_cr :: "string \<Rightarrow> string" where
  "strip_cr l = (if l \<noteq> [] \<and> last l = CR then butlast l else l)"

text \<open>\<open>str::lines\<close>: the text after the last line feed is a line only if it is not empty, and
  only a line that ended in a line feed loses a carriage return.\<close>

definition lines :: "string \<Rightarrow> string list" where
  "lines s = (let ps = split_char NL s in
     map strip_cr (butlast ps) @ (if last ps = [] then [] else [last ps]))"

fun split_ws_acc :: "string \<Rightarrow> string \<Rightarrow> string list" where
  "split_ws_acc w [] = (if w = [] then [] else [rev w])"
| "split_ws_acc w (c # s) =
     (if is_space c then (if w = [] then split_ws_acc [] s else rev w # split_ws_acc [] s)
      else split_ws_acc (c # w) s)"

definition split_whitespace :: "string \<Rightarrow> string list" where
  "split_whitespace s = split_ws_acc [] s"

lemma split_char_nonempty [simp, str_simps]: "split_char c s \<noteq> []"
  by (induction s) (auto split: list.splits)

lemma join_Cons: "ws \<noteq> [] \<Longrightarrow> join sep (w # ws) = w @ sep @ join sep ws"
  by (cases ws) auto

lemma join_split_char: "join [c] (split_char c s) = s"
proof (induction s)
  case Nil
  then show ?case by simp
next
  case (Cons x xs)
  obtain w ws where w: "split_char c xs = w # ws"
    by (cases "split_char c xs") auto
  with Cons show ?case
    by (cases ws) auto
qed

lemma split_char_no_sep: "w \<in> set (split_char c s) \<Longrightarrow> c \<notin> set w"
proof (induction s arbitrary: w)
  case Nil
  then show ?case by simp
next
  case (Cons x xs)
  obtain v vs where v: "split_char c xs = v # vs"
    by (cases "split_char c xs") auto
  with Cons show ?case
    by (fastforce split: if_splits)
qed

section \<open>Replacing\<close>

text \<open>\<open>str::replace\<close> with a non-empty pattern: leftmost, non-overlapping occurrences.\<close>

function replace_str :: "string \<Rightarrow> string \<Rightarrow> string \<Rightarrow> string" where
  "replace_str p r [] = []"
| "replace_str p r (c # s) =
     (if p \<noteq> [] \<and> starts_with (c # s) p then r @ replace_str p r (drop (length p) (c # s))
      else c # replace_str p r s)"
  by pat_completeness auto
termination
  by (relation "measure (\<lambda>(p, r, s). length s)")
     (auto simp: less_Suc_eq_le diff_le_self Suc_le_eq length_greater_0_conv[symmetric]
           simp del: length_greater_0_conv)

section \<open>Decimal numbers\<close>

definition digit_char :: "nat \<Rightarrow> char" where
  "digit_char d = char_of (48 + d)"

definition digit_val :: "char \<Rightarrow> nat" where
  "digit_val c = byte c - 48"

fun show_nat :: "nat \<Rightarrow> string" where
  "show_nat n = (if n < 10 then [digit_char n] else show_nat (n div 10) @ [digit_char (n mod 10)])"

declare show_nat.simps [simp del]

definition digits_val :: "string \<Rightarrow> nat" where
  "digits_val ds = foldl (\<lambda>a c. 10 * a + digit_val c) 0 ds"

text \<open>\<open>str::parse\<close> for an unsigned integer of \<open>w\<close> bits: an optional plus sign, at least one digit, no overflow.\<close>

definition parse_uint :: "nat \<Rightarrow> string \<Rightarrow> nat option" where
  "parse_uint w s =
     (let ds = (if starts_with s ''+'' then drop 1 s else s) in
      if ds \<noteq> [] \<and> list_all is_digit ds \<and> int (digits_val ds) < 2 ^ w then Some (digits_val ds) else None)"

lemma digit_char_props:
  assumes "d < 10"
  shows "is_digit (digit_char d)" and "digit_val (digit_char d) = d" and "digit_char d \<noteq> CHR ''+''"
proof -
  have b: "byte (digit_char d) = 48 + d"
    using assms by (simp add: byte_def digit_char_def)
  with assms show "is_digit (digit_char d)" "digit_val (digit_char d) = d"
    by (simp_all add: is_digit_def digit_val_def)
  have "byte (CHR ''+'') = 43"
    by (simp add: byte_def)
  with b assms show "digit_char d \<noteq> CHR ''+''"
    by auto
qed

lemma digits_val_append1: "digits_val (ds @ [c]) = 10 * digits_val ds + digit_val c"
  by (simp add: digits_val_def)

lemma show_nat_digits:
  "show_nat n \<noteq> [] \<and> list_all is_digit (show_nat n) \<and> digits_val (show_nat n) = n"
proof (induction n rule: show_nat.induct)
  case (1 n)
  show ?case
  proof (cases "n < 10")
    case True
    then show ?thesis
      by (simp add: show_nat.simps[of n] digits_val_def digit_char_props)
  next
    case False
    with 1 show ?thesis
      by (simp add: show_nat.simps[of n] digits_val_append1 digit_char_props)
  qed
qed

lemma parse_show_nat: "n < 2 ^ w \<Longrightarrow> parse_uint w (show_nat n) = Some n"
proof -
  assume n: "n < 2 ^ w"
  obtain c cs where s: "show_nat n = c # cs"
    using show_nat_digits[of n] by (cases "show_nat n") auto
  have "is_digit c"
    using show_nat_digits[of n] s by simp
  then have "c \<noteq> CHR ''+''"
    by (auto simp: is_digit_def byte_def)
  then have "\<not> starts_with (show_nat n) ''+''"
    by (simp add: s)
  moreover have "int n < 2 ^ w"
    using n by (metis of_nat_less_iff of_nat_numeral of_nat_power)
  ultimately show ?thesis
    using show_nat_digits[of n] by (simp add: parse_uint_def)
qed

section \<open>Paths\<close>

text \<open>\<open>Path::join\<close>: an absolute right-hand side replaces the left.\<close>

definition path_join :: "string \<Rightarrow> string \<Rightarrow> string" where
  "path_join a b =
     (if starts_with b ''/'' \<or> a = [] then b
      else if ends_with a ''/'' then a @ b else a @ ''/'' @ b)"

end
