(* ===== verification/RustFloat.thy ===== *)
theory RustFloat
  imports RustStr Complex_Main
begin

text \<open>
  Rust's floating-point numbers, exact to the bit pattern up to the sign of zero: a value is a
  rational, an infinity or not-a-number, and every arithmetic operation is the exact result
  rounded to nearest, ties to even, with 53 bits and exponent floor -1074 (\<open>f64\<close>) or 24 bits
  and -149 (\<open>f32\<close>). The rounding is monotone and leaves representable numbers alone, which is
  what the accounting proofs need.
\<close>

section \<open>Powers of two and binary logarithms\<close>

definition pow2 :: "int \<Rightarrow> rat" where
  "pow2 e = (if 0 \<le> e then 2 ^ nat e else 1 / 2 ^ nat (- e))"

function bit_len :: "int \<Rightarrow> nat" where
  "bit_len n = (if n \<le> 0 then 0 else Suc (bit_len (n div 2)))"
  by pat_completeness auto
termination
  by (relation "measure nat") auto

declare bit_len.simps [simp del]

definition ilog2 :: "rat \<Rightarrow> int" where
  "ilog2 x = (case quotient_of x of (n, d) \<Rightarrow>
     let k = int (bit_len n) - int (bit_len d) in if pow2 k \<le> x then k else k - 1)"

lemma pow2_pos [simp]: "0 < pow2 e"
  by (simp add: pow2_def)

lemma pow2_nz [simp]: "pow2 e \<noteq> 0"
  using pow2_pos[of e] by linarith

lemma pow2_0 [simp]: "pow2 0 = 1"
  by (simp add: pow2_def)

lemma pow2_Suc: "pow2 (e + 1) = 2 * pow2 e"
proof (cases "0 \<le> e")
  case True
  then show ?thesis
    by (simp add: pow2_def nat_add_distrib)
next
  case False
  show ?thesis
  proof (cases "e = -1")
    case True
    then show ?thesis by (simp add: pow2_def)
  next
    case n: False
    with False have "nat (- e) = Suc (nat (- (e + 1)))" and "e + 1 < 0"
      by linarith+
    then show ?thesis
      by (simp add: pow2_def)
  qed
qed

lemma pow2_add_nat: "pow2 (e + int n) = pow2 e * 2 ^ n"
proof (induction n)
  case 0
  then show ?case by simp
next
  case (Suc n)
  have "pow2 (e + int (Suc n)) = pow2 ((e + int n) + 1)"
    by (simp add: algebra_simps)
  with Suc show ?case
    by (simp add: pow2_Suc)
qed

lemma pow2_le: "a \<le> b \<Longrightarrow> pow2 a \<le> pow2 b"
proof -
  assume "a \<le> b"
  then have "pow2 b = pow2 a * 2 ^ nat (b - a)"
    using pow2_add_nat[of a "nat (b - a)"] by simp
  moreover have "(1::rat) \<le> 2 ^ nat (b - a)"
    by simp
  ultimately show ?thesis
    by (metis mult_le_cancel_left1 pow2_pos not_less_iff_gr_or_eq)
qed

lemma pow2_diff: "a \<le> b \<Longrightarrow> pow2 b / pow2 a = of_int (2 ^ nat (b - a))"
  using pow2_add_nat[of a "nat (b - a)"] pow2_pos[of a] by (simp add: field_simps)

lemma pow2_less: "a < b \<Longrightarrow> pow2 a < pow2 b"
proof -
  assume "a < b"
  then have "pow2 (a + 1) \<le> pow2 b" by (intro pow2_le) simp
  then have "2 * pow2 a \<le> pow2 b" by (simp only: pow2_Suc)
  then show ?thesis
    using pow2_pos[of a] by linarith
qed

lemma bit_len_bounds: "0 < n \<Longrightarrow> 2 ^ bit_len n \<le> 2 * n \<and> n < 2 ^ bit_len n"
proof (induction n rule: bit_len.induct)
  case (1 n)
  show ?case
  proof (cases "n div 2 = 0")
    case True
    with "1.prems" have "n = 1" by simp
    then show ?thesis by (simp add: bit_len.simps)
  next
    case False
    with "1.prems" have "0 < n div 2" by presburger
    with 1 have "2 ^ bit_len (n div 2) \<le> 2 * (n div 2)" "n div 2 < 2 ^ bit_len (n div 2)"
      by auto
    then have "2 * 2 ^ bit_len (n div 2) \<le> 2 * n" "n < 2 * 2 ^ bit_len (n div 2)"
      by linarith+
    with "1.prems" show ?thesis
      by (simp add: bit_len.simps[of n])
  qed
qed

lemma pow2_of_nat: "pow2 (int k) = 2 ^ k"
  by (simp add: pow2_def)

lemma ilog2_bounds:
  assumes "0 < x"
  shows "pow2 (ilog2 x) \<le> x \<and> x < pow2 (ilog2 x + 1)"
proof -
  obtain n d where q: "quotient_of x = (n, d)" by (cases "quotient_of x") auto
  have d: "0 < d" using q by (rule quotient_of_denom_pos)
  have x: "x = of_int n / of_int d" using q by (rule quotient_of_div)
  with assms d have n: "0 < n" by (simp add: zero_less_divide_iff)
  define k where "k = int (bit_len n) - int (bit_len d)"
  have N: "2 ^ bit_len n \<le> 2 * n" "n < 2 ^ bit_len n"
    using bit_len_bounds[OF n] by simp_all
  have D: "2 ^ bit_len d \<le> 2 * d" "d < 2 ^ bit_len d"
    using bit_len_bounds[OF d] by simp_all
  have N': "(2::rat) ^ bit_len n \<le> 2 * of_int n" "of_int n < (2::rat) ^ bit_len n"
    using N by (metis of_int_le_iff of_int_mult of_int_numeral of_int_power,
                metis of_int_less_iff of_int_numeral of_int_power)
  have D': "(2::rat) ^ bit_len d \<le> 2 * of_int d" "of_int d < (2::rat) ^ bit_len d"
    using D by (metis of_int_le_iff of_int_mult of_int_numeral of_int_power,
                metis of_int_less_iff of_int_numeral of_int_power)
  have p: "pow2 k * 2 ^ bit_len d = 2 ^ bit_len n"
    using pow2_add_nat[of k "bit_len d"] by (simp add: k_def pow2_of_nat)
  have D0: "(0::rat) < of_int d" using d by simp
  have "pow2 k * of_int d \<le> pow2 k * 2 ^ bit_len d"
    using D' by simp
  then have lo: "pow2 k * of_int d \<le> 2 * of_int n"
    using p N' by linarith
  have "of_int n < pow2 k * 2 ^ bit_len d"
    using p N' by linarith
  also have "\<dots> \<le> pow2 k * (2 * of_int d)"
    using D' by simp
  finally have hi: "of_int n < pow2 k * (2 * of_int d)" .
  have lo': "pow2 k \<le> 2 * x"
    using lo D0 by (simp add: x field_simps)
  have hi': "x < 2 * pow2 k"
    using hi D0 by (simp add: x field_simps)
  have il: "ilog2 x = (if pow2 k \<le> x then k else k - 1)"
    by (simp add: ilog2_def q Let_def k_def)
  show ?thesis
  proof (cases "pow2 k \<le> x")
    case True
    with il hi' show ?thesis by (simp add: pow2_Suc)
  next
    case False
    have "pow2 k = 2 * pow2 (k - 1)"
      using pow2_Suc[of "k - 1"] by simp
    with False il lo' show ?thesis by simp
  qed
qed

lemma ilog2_le: "0 < x \<Longrightarrow> x \<le> y \<Longrightarrow> ilog2 x \<le> ilog2 y"
proof (rule ccontr)
  assume x: "0 < x" "x \<le> y" and "\<not> ilog2 x \<le> ilog2 y"
  then have "pow2 (ilog2 y + 1) \<le> pow2 (ilog2 x)" by (intro pow2_le) simp
  with ilog2_bounds[of x] ilog2_bounds[of y] x show False by linarith
qed

lemma ilog2_less: "0 < x \<Longrightarrow> x < pow2 e \<Longrightarrow> ilog2 x < e"
proof (rule ccontr)
  assume x: "0 < x" "x < pow2 e" and "\<not> ilog2 x < e"
  then have "pow2 e \<le> pow2 (ilog2 x)" by (intro pow2_le) simp
  with ilog2_bounds[of x] x show False by linarith
qed

section \<open>Rounding to nearest, ties to even\<close>

definition rne :: "rat \<Rightarrow> int" where
  "rne x = (let f = \<lfloor>x\<rfloor>; d = x - of_int f in
     if d < 1 / 2 then f else if 1 / 2 < d then f + 1 else if even f then f else f + 1)"

lemma rne_of_int [simp]: "rne (of_int k) = k"
  by (simp add: rne_def)

lemma rne_floor: "rne x = \<lfloor>x\<rfloor> \<or> rne x = \<lfloor>x\<rfloor> + 1"
  by (auto simp: rne_def Let_def)

lemma rne_mono: "x \<le> y \<Longrightarrow> rne x \<le> rne y"
proof -
  assume xy: "x \<le> y"
  then have f: "\<lfloor>x\<rfloor> \<le> \<lfloor>y\<rfloor>" by (rule floor_mono)
  show ?thesis
  proof (cases "\<lfloor>x\<rfloor> = \<lfloor>y\<rfloor>")
    case True
    with xy show ?thesis
      by (auto simp: rne_def Let_def)
  next
    case False
    with f have "\<lfloor>x\<rfloor> + 1 \<le> \<lfloor>y\<rfloor>" by simp
    with rne_floor[of x] rne_floor[of y] show ?thesis by linarith
  qed
qed

definition quantum :: "nat \<Rightarrow> int \<Rightarrow> rat \<Rightarrow> int" where
  "quantum p emin x = max (ilog2 \<bar>x\<bar> - (int p - 1)) emin"

lemma quantum_pos: "0 < x \<Longrightarrow> quantum p emin x = max (ilog2 x - (int p - 1)) emin"
  by (simp add: quantum_def)

definition round_fin :: "nat \<Rightarrow> int \<Rightarrow> rat \<Rightarrow> rat" where
  "round_fin p emin x =
     (if x = 0 then 0
      else let q = quantum p emin x in of_int (rne (x / pow2 q)) * pow2 q)"

lemma round_fin_0 [simp]: "round_fin p emin 0 = 0"
  by (simp add: round_fin_def)

definition representable :: "nat \<Rightarrow> int \<Rightarrow> rat \<Rightarrow> bool" where
  "representable p emin y \<longleftrightarrow> round_fin p emin y = y"

lemma round_fin_nonneg: "0 \<le> x \<Longrightarrow> 0 \<le> round_fin p emin x"
proof -
  assume "0 \<le> x"
  then have "rne 0 \<le> rne (x / pow2 (quantum p emin x))"
    by (intro rne_mono) (simp add: less_imp_le)
  moreover have "rne 0 = 0" using rne_of_int[of 0] by simp
  ultimately show ?thesis
    by (simp add: round_fin_def Let_def less_imp_le)
qed

lemma rne_div_ge:
  assumes "q \<le> e" and "pow2 e \<le> x"
  shows "pow2 e \<le> of_int (rne (x / pow2 q)) * pow2 q"
proof -
  have "of_int (2 ^ nat (e - q)) \<le> x / pow2 q"
    using assms pow2_diff[of q e] by (metis divide_right_mono less_imp_le pow2_pos)
  then have "2 ^ nat (e - q) \<le> rne (x / pow2 q)"
    using rne_mono rne_of_int by metis
  then have "of_int (2 ^ nat (e - q)) \<le> (of_int (rne (x / pow2 q)) :: rat)"
    by (simp only: of_int_le_iff)
  then have "pow2 e / pow2 q \<le> of_int (rne (x / pow2 q))"
    using assms by (simp only: pow2_diff)
  then show ?thesis
    by (simp add: pos_divide_le_eq)
qed

lemma rne_div_le:
  assumes "q \<le> e" and "x \<le> pow2 e"
  shows "of_int (rne (x / pow2 q)) * pow2 q \<le> pow2 e"
proof -
  have "x / pow2 q \<le> of_int (2 ^ nat (e - q))"
    using assms pow2_diff[of q e] by (metis divide_right_mono less_imp_le pow2_pos)
  then have "rne (x / pow2 q) \<le> 2 ^ nat (e - q)"
    using rne_mono rne_of_int by metis
  then have "(of_int (rne (x / pow2 q)) :: rat) \<le> of_int (2 ^ nat (e - q))"
    by (simp only: of_int_le_iff)
  then have "of_int (rne (x / pow2 q)) \<le> pow2 e / pow2 q"
    using assms by (simp only: pow2_diff)
  then show ?thesis
    by (simp add: pos_le_divide_eq)
qed

lemma round_fin_mono:
  assumes "0 \<le> x" and "x \<le> y" and "0 < p"
  shows "round_fin p emin x \<le> round_fin p emin y"
proof (cases "x = 0")
  case True
  with assms show ?thesis by (simp add: round_fin_nonneg)
next
  case False
  with assms have x: "0 < x" "0 < y" by simp_all
  have il: "ilog2 x \<le> ilog2 y" using x assms by (intro ilog2_le) simp_all
  let ?qx = "quantum p emin x" and ?qy = "quantum p emin y"
  have r: "round_fin p emin x = of_int (rne (x / pow2 ?qx)) * pow2 ?qx"
          "round_fin p emin y = of_int (rne (y / pow2 ?qy)) * pow2 ?qy"
    using x by (simp_all add: round_fin_def Let_def)
  have le: "?qx \<le> ?qy"
    using il x by (auto simp: quantum_def)
  show ?thesis
  proof (cases "?qx = ?qy")
    case True
    have "x / pow2 ?qx \<le> y / pow2 ?qx"
      using assms by (simp add: divide_right_mono less_imp_le)
    then have "rne (x / pow2 ?qx) \<le> rne (y / pow2 ?qx)" by (rule rne_mono)
    with True r show ?thesis
      by (simp add: mult_right_mono less_imp_le)
  next
    case False
    with le have lt: "?qx < ?qy" by simp
    then have qy: "?qy = ilog2 y - (int p - 1)" "emin < ?qy"
      using x by (auto simp: quantum_def split: if_splits)
    with assms(3) have e: "?qy \<le> ilog2 y" by simp
    have "ilog2 x < ilog2 y"
      using lt qy x by (auto simp: quantum_def)
    then have "x \<le> pow2 (ilog2 y)"
      using ilog2_bounds[OF x(1)] pow2_le[of "ilog2 x + 1" "ilog2 y"] by simp
    then have "round_fin p emin x \<le> pow2 (ilog2 y)"
      unfolding r using lt e by (intro rne_div_le) simp_all
    also have "pow2 (ilog2 y) \<le> round_fin p emin y"
      unfolding r using e ilog2_bounds[OF x(2)] by (intro rne_div_ge) simp_all
    finally show ?thesis .
  qed
qed

lemma round_fin_grid:
  assumes y: "y = of_int m * pow2 q" "0 < m" "m \<le> 2 ^ p" "emin \<le> q" and p: "0 < p"
  shows "round_fin p emin y = y"
proof -
  have ypos: "0 < y" using y by simp
  have "\<exists>k. y = of_int k * pow2 (quantum p emin y)"
  proof (cases "m = 2 ^ p")
    case True
    then have yp: "y = pow2 (q + int p)"
      using y pow2_add_nat[of q p] by simp
    have "ilog2 y < q + int p + 1"
      using ypos yp pow2_less[of "q + int p" "q + int p + 1"] by (intro ilog2_less) simp_all
    then have "quantum p emin y \<le> q + 1"
      using y(4) p by (simp add: quantum_pos[OF ypos])
    then have "quantum p emin y \<le> q + int p" using p by simp
    then have "y / pow2 (quantum p emin y) = of_int (2 ^ nat (q + int p - quantum p emin y))"
      unfolding yp by (rule pow2_diff)
    then show ?thesis
      by (metis nonzero_eq_divide_eq pow2_nz)
  next
    case False
    then have "m < 2 ^ p" using y by simp
    then have "(of_int m :: rat) < of_int (2 ^ p)" by (simp only: of_int_less_iff)
    then have "y < 2 ^ p * pow2 q"
      using y by simp
    then have "y < pow2 (q + int p)"
      using pow2_add_nat[of q p] by (simp add: mult.commute)
    then have "ilog2 y < q + int p" using ypos by (intro ilog2_less)
    then have le: "quantum p emin y \<le> q"
      using y(4) by (simp add: quantum_pos[OF ypos])
    then have "pow2 q = of_int (2 ^ nat (q - quantum p emin y)) * pow2 (quantum p emin y)"
      using pow2_diff[OF le] by (metis nonzero_eq_divide_eq pow2_nz)
    then have "y = of_int (m * 2 ^ nat (q - quantum p emin y)) * pow2 (quantum p emin y)"
      using y by (metis mult.assoc of_int_mult)
    then show ?thesis by blast
  qed
  then obtain k where k: "y = of_int k * pow2 (quantum p emin y)" by blast
  then have "y / pow2 (quantum p emin y) = of_int k"
    by (metis nonzero_eq_divide_eq pow2_nz)
  then have "rne (y / pow2 (quantum p emin y)) = k" by simp
  with k show ?thesis
    by (simp add: round_fin_def Let_def)
qed

lemma round_fin_idem:
  assumes "0 \<le> x" and "0 < p"
  shows "round_fin p emin (round_fin p emin x) = round_fin p emin x"
proof (cases "round_fin p emin x = 0")
  case True
  then show ?thesis by simp
next
  case False
  with assms have x: "0 < x" by (cases "x = 0") simp_all
  let ?q = "quantum p emin x"
  let ?m = "rne (x / pow2 ?q)"
  have y: "round_fin p emin x = of_int ?m * pow2 ?q"
    using x by (simp add: round_fin_def Let_def)
  have "0 < round_fin p emin x"
    using False round_fin_nonneg[of x p emin] x by simp
  then have "(0::rat) < of_int ?m"
    unfolding y using pow2_pos zero_less_mult_pos2 by blast
  then have m0: "0 < ?m" by simp
  have "ilog2 x + 1 \<le> ?q + int p"
    using x by (simp add: quantum_def)
  then have "pow2 (ilog2 x + 1) \<le> pow2 (?q + int p)" by (rule pow2_le)
  then have "x \<le> pow2 (?q + int p)"
    using ilog2_bounds[OF x] by linarith
  then have "of_int ?m * pow2 ?q \<le> pow2 (?q + int p)"
    by (intro rne_div_le) simp_all
  then have "(of_int ?m :: rat) \<le> 2 ^ p"
    using pow2_add_nat[of ?q p] by (simp add: mult.commute)
  then have "(of_int ?m :: rat) \<le> of_int (2 ^ p)" by simp
  then have "?m \<le> 2 ^ p" by (simp only: of_int_le_iff)
  moreover have "emin \<le> ?q" by (simp add: quantum_def)
  ultimately show ?thesis
    using y m0 assms by (intro round_fin_grid[of _ ?m ?q]) simp_all
qed

section \<open>Values and operations\<close>

datatype float = Fin rat | PInf | NInf | NaN

definition clamp_inf :: "int \<Rightarrow> rat \<Rightarrow> float" where
  "clamp_inf emax y = (if pow2 emax \<le> y then PInf else if y \<le> - pow2 emax then NInf else Fin y)"

definition to_f64 :: "rat \<Rightarrow> float" where
  "to_f64 x = clamp_inf 1024 (round_fin 53 (-1074) x)"

definition to_f32 :: "rat \<Rightarrow> float" where
  "to_f32 x = clamp_inf 128 (round_fin 24 (-149) x)"

fun fadd64 :: "float \<Rightarrow> float \<Rightarrow> float" where
  "fadd64 (Fin a) (Fin b) = to_f64 (a + b)"
| "fadd64 NaN _ = NaN"
| "fadd64 _ NaN = NaN"
| "fadd64 PInf NInf = NaN"
| "fadd64 NInf PInf = NaN"
| "fadd64 PInf _ = PInf"
| "fadd64 NInf _ = NInf"
| "fadd64 _ PInf = PInf"
| "fadd64 _ NInf = NInf"

definition inf_sign :: "rat \<Rightarrow> float" where
  "inf_sign x = (if x = 0 then NaN else if 0 < x then PInf else NInf)"

fun fmul64 :: "float \<Rightarrow> float \<Rightarrow> float" where
  "fmul64 (Fin a) (Fin b) = to_f64 (a * b)"
| "fmul64 NaN _ = NaN"
| "fmul64 _ NaN = NaN"
| "fmul64 (Fin a) PInf = inf_sign a"
| "fmul64 (Fin a) NInf = inf_sign (- a)"
| "fmul64 PInf (Fin b) = inf_sign b"
| "fmul64 NInf (Fin b) = inf_sign (- b)"
| "fmul64 PInf PInf = PInf"
| "fmul64 NInf NInf = PInf"
| "fmul64 _ _ = NInf"

text \<open>Division by a non-zero finite number, the only division the code performs on floats.\<close>

fun fdiv64_by :: "float \<Rightarrow> rat \<Rightarrow> float" where
  "fdiv64_by (Fin a) b = to_f64 (a / b)"
| "fdiv64_by NaN b = NaN"
| "fdiv64_by PInf b = inf_sign b"
| "fdiv64_by NInf b = inf_sign (- b)"

fun fle :: "float \<Rightarrow> float \<Rightarrow> bool" where
  "fle NaN _ = False"
| "fle _ NaN = False"
| "fle (Fin a) (Fin b) = (a \<le> b)"
| "fle NInf _ = True"
| "fle _ PInf = True"
| "fle _ _ = False"

fun flt :: "float \<Rightarrow> float \<Rightarrow> bool" where
  "flt NaN _ = False"
| "flt _ NaN = False"
| "flt (Fin a) (Fin b) = (a < b)"
| "flt NInf NInf = False"
| "flt NInf _ = True"
| "flt PInf _ = False"
| "flt _ PInf = True"
| "flt _ _ = False"

text \<open>\<open>as u64\<close> truncates towards zero and saturates.\<close>

fun f64_as_u64 :: "float \<Rightarrow> u64" where
  "f64_as_u64 (Fin a) = (if a \<le> 0 then 0 else word_of_int (min \<lfloor>a\<rfloor> (2 ^ 64 - 1)))"
| "f64_as_u64 PInf = word_of_int (2 ^ 64 - 1)"
| "f64_as_u64 NInf = 0"
| "f64_as_u64 NaN = 0"

lemma fle_refl: "x \<noteq> NaN \<Longrightarrow> fle x x"
  by (cases x) auto

lemma fle_total: "x \<noteq> NaN \<Longrightarrow> y \<noteq> NaN \<Longrightarrow> fle x y \<or> fle y x"
  by (cases x; cases y) auto

lemma fle_trans: "fle x y \<Longrightarrow> fle y z \<Longrightarrow> fle x z"
  by (cases x; cases y; cases z) auto

lemma flt_iff_not_fle: "x \<noteq> NaN \<Longrightarrow> y \<noteq> NaN \<Longrightarrow> flt x y \<longleftrightarrow> \<not> fle y x"
  by (cases x; cases y) auto

text \<open>A non-negative \<open>f64\<close>: infinite, or finite and left alone by the rounding.\<close>

fun nonneg64 :: "float \<Rightarrow> bool" where
  "nonneg64 (Fin a) = (0 \<le> a \<and> representable 53 (-1074) a \<and> a < pow2 1024)"
| "nonneg64 PInf = True"
| "nonneg64 _ = False"

lemma nonneg64_to_f64: "0 \<le> x \<Longrightarrow> nonneg64 (to_f64 x)"
proof -
  assume x: "0 \<le> x"
  have nn: "0 \<le> round_fin 53 (-1074) x" using x by (rule round_fin_nonneg)
  have "\<not> round_fin 53 (-1074) x \<le> - pow2 1024"
    using nn pow2_pos[of 1024] by linarith
  with nn x show ?thesis
    by (simp add: to_f64_def clamp_inf_def representable_def round_fin_idem)
qed

lemma nonneg64_0: "nonneg64 (Fin 0)"
  by (simp add: representable_def)

lemma fadd64_nonneg:
  assumes "nonneg64 a" and "nonneg64 b"
  shows "nonneg64 (fadd64 a b) \<and> fle a (fadd64 a b)"
proof (cases a)
  case (Fin x)
  show ?thesis
  proof (cases b)
    case b: (Fin y)
    have xy: "0 \<le> x" "0 \<le> y" "representable 53 (-1074) x"
      using assms Fin b by simp_all
    have "round_fin 53 (-1074) x \<le> round_fin 53 (-1074) (x + y)"
      using xy by (intro round_fin_mono) simp_all
    then have le: "x \<le> round_fin 53 (-1074) (x + y)"
      using xy by (simp add: representable_def)
    have "\<not> round_fin 53 (-1074) (x + y) \<le> - pow2 1024"
      using le xy pow2_pos[of 1024] by linarith
    then have "fle a (fadd64 a b)"
      using le Fin b by (simp add: to_f64_def clamp_inf_def)
    moreover have "nonneg64 (fadd64 a b)"
      using nonneg64_to_f64[of "x + y"] xy Fin b by simp
    ultimately show ?thesis by simp
  qed (use assms Fin in simp_all)
next
  case PInf
  then show ?thesis using assms by (cases b) simp_all
qed (use assms in simp_all)

lemma fmul64_nonneg:
  "nonneg64 (Fin a) \<Longrightarrow> 0 \<le> b \<Longrightarrow> nonneg64 (fmul64 (Fin a) (Fin b))"
  by (simp add: nonneg64_to_f64)

section \<open>Formatting with two decimals\<close>

definition fmt2_rat :: "rat \<Rightarrow> string" where
  "fmt2_rat x =
     (let n = nat (rne (\<bar>x\<bar> * 100)) in
      (if x < 0 then ''-'' else []) @ show_nat (n div 100) @ ''.''
        @ [digit_char (n div 10 mod 10), digit_char (n mod 10)])"

fun fmt2 :: "float \<Rightarrow> string" where
  "fmt2 (Fin x) = fmt2_rat x"
| "fmt2 PInf = ''inf''"
| "fmt2 NInf = ''-inf''"
| "fmt2 NaN = ''NaN''"

section \<open>Parsing\<close>

text \<open>\<open>str::parse::<f64>\<close>: a sign, then \<open>inf\<close>, \<open>infinity\<close> or \<open>nan\<close> in any case, or digits with at
  most one point (at least one digit), then an optional exponent.\<close>

definition parse_int_exp :: "string \<Rightarrow> int option" where
  "parse_int_exp s =
     (let neg = starts_with s ''-'';
          ds = (if neg \<or> starts_with s ''+'' then drop 1 s else s) in
      if ds \<noteq> [] \<and> list_all is_digit ds
      then Some (if neg then - int (digits_val ds) else int (digits_val ds)) else None)"

definition pow10 :: "int \<Rightarrow> rat" where
  "pow10 e = (if 0 \<le> e then 10 ^ nat e else 1 / 10 ^ nat (- e))"

definition parse_decimal :: "string \<Rightarrow> rat option" where
  "parse_decimal s =
     (let ip = takeWhile is_digit s; r1 = dropWhile is_digit s;
          dot = starts_with r1 ''.'';
          fp = (if dot then takeWhile is_digit (drop 1 r1) else []);
          r2 = (if dot then dropWhile is_digit (drop 1 r1) else r1);
          mant = of_nat (digits_val (ip @ fp)) * pow10 (- int (length fp)) in
      if ip = [] \<and> fp = [] then None
      else if r2 = [] then Some mant
      else if to_lower1 (hd r2) = CHR ''e''
        then map_option (\<lambda>e. mant * pow10 e) (parse_int_exp (drop 1 r2))
      else None)"

definition parse_f64 :: "string \<Rightarrow> float option" where
  "parse_f64 s =
     (let neg = starts_with s ''-'';
          b = (if neg \<or> starts_with s ''+'' then drop 1 s else s);
          l = to_lower b in
      if l = ''nan'' then Some NaN
      else if l = ''inf'' \<or> l = ''infinity'' then Some (if neg then NInf else PInf)
      else map_option (\<lambda>x. to_f64 (if neg then - x else x)) (parse_decimal b))"

end
