(* ===== verification/Disk.thy ===== *)
theory Disk
  imports RustStr
begin

text \<open>
  The file system as the code sees it: a map from paths to contents, every operation of which may
  fail. An operation is numbered by the operations before it, and an oracle says of each number
  whether it fails and what a failed write leaves behind. Also the path operations of the standard
  library, for paths without doubled or trailing separators, and without dot components.
\<close>

section \<open>A disk whose every operation may fail\<close>

record disk =
  dk_files :: "string \<rightharpoonup> string"
  dk_writes :: nat

text \<open>The \<open>n\<close>-th write: \<open>None\<close> if it succeeds, else the error and what it leaves in the file.\<close>

type_synonym write_oracle = "nat \<Rightarrow> (string \<times> string option) option"

definition fs_write :: "write_oracle \<Rightarrow> string \<Rightarrow> string \<Rightarrow> disk \<Rightarrow> string option \<times> disk" where
  "fs_write wr path body d =
     (case wr (dk_writes d) of
        None \<Rightarrow> (None, d\<lparr>dk_files := (dk_files d)(path \<mapsto> body), dk_writes := dk_writes d + 1\<rparr>)
      | Some (e, None) \<Rightarrow> (Some e, d\<lparr>dk_writes := dk_writes d + 1\<rparr>)
      | Some (e, Some left) \<Rightarrow>
          (Some e, d\<lparr>dk_files := (dk_files d)(path \<mapsto> left), dk_writes := dk_writes d + 1\<rparr>))"

text \<open>\<open>std::fs::rename\<close>: the target is replaced in one step or not at all.\<close>

definition fs_rename :: "(nat \<Rightarrow> string option) \<Rightarrow> string \<Rightarrow> string \<Rightarrow> disk \<Rightarrow> string option \<times> disk" where
  "fs_rename rn a b d =
     (let d1 = d\<lparr>dk_writes := dk_writes d + 1\<rparr> in
      case rn (dk_writes d) of
        Some e \<Rightarrow> (Some e, d1)
      | None \<Rightarrow>
          (case dk_files d a of
             None \<Rightarrow> (Some ''No such file or directory (os error 2)'', d1)
           | Some c \<Rightarrow> (None, d1\<lparr>dk_files := ((dk_files d)(a := None))(b \<mapsto> c)\<rparr>)))"

lemma fs_write_None: "fs_write wr p b d = (None, d') \<Longrightarrow> dk_files d' p = Some b"
  by (auto simp: fs_write_def split: option.splits prod.splits)

lemma fs_write_other: "q \<noteq> p \<Longrightarrow> dk_files (snd (fs_write wr p b d)) q = dk_files d q"
  by (auto simp: fs_write_def split: option.splits prod.splits)

lemma fs_rename_cases:
  assumes "fs_rename rn a b d = (r, d')" and "dk_files d a = Some c"
  shows "if r = None then dk_files d' b = Some c else dk_files d' = dk_files d"
  using assms by (auto simp: fs_rename_def Let_def split: option.splits)

section \<open>Paths\<close>

text \<open>\<open>Path::parent\<close>, \<open>Path::extension\<close>, \<open>Path::with_extension\<close> and \<open>Path::strip_prefix\<close>.\<close>

definition path_parent :: "string \<Rightarrow> string option" where
  "path_parent p =
     (if p = [] \<or> p = ''/'' then None
      else case rfind_sub p ''/'' of
             None \<Rightarrow> Some []
           | Some i \<Rightarrow> Some (if i = 0 then ''/'' else take i p))"

definition path_file_name :: "string \<Rightarrow> string" where
  "path_file_name p = (case rfind_sub p ''/'' of None \<Rightarrow> p | Some i \<Rightarrow> drop (Suc i) p)"

definition file_stem :: "string \<Rightarrow> string" where
  "file_stem f = (case rfind_sub f ''.'' of None \<Rightarrow> f | Some i \<Rightarrow> if i = 0 then f else take i f)"

text \<open>\<open>Path::extension\<close> of a file name: what follows the last dot, unless the only dot leads.\<close>

definition extension :: "string \<Rightarrow> string option" where
  "extension fname =
     (case rfind_sub fname ''.'' of
        None \<Rightarrow> None
      | Some i \<Rightarrow> if i = 0 then None else Some (drop (Suc i) fname))"

text \<open>\<open>Path\<close> is ordered by components, not by characters: \<open>a/b\<close> comes before \<open>a-b\<close>.\<close>

definition path_key :: "string \<Rightarrow> string list" where
  "path_key p = split_char (CHR ''/'') p"

definition path_extension :: "string \<Rightarrow> string option" where
  "path_extension p = extension (path_file_name p)"

definition with_extension :: "string \<Rightarrow> string \<Rightarrow> string" where
  "with_extension p ext =
     (let f = path_file_name p; dir = take (length p - length f) p in
      if f = [] then p
      else if ext = [] then dir @ file_stem f else dir @ file_stem f @ ''.'' @ ext)"

definition path_strip_prefix :: "string \<Rightarrow> string \<Rightarrow> string option" where
  "path_strip_prefix p base =
     (if base = [] then Some p
      else if p = base then Some []
      else strip_prefix p (if ends_with base ''/'' then base else base @ ''/''))"

lemma path_strip_prefix_join:
  assumes "\<not> starts_with q ''/''" and "q \<noteq> []"
  shows "path_strip_prefix (path_join base q) base = Some q"
proof (cases "base = []")
  case True
  then show ?thesis by (simp add: path_strip_prefix_def path_join_def)
next
  case False
  have ne: "base @ x \<noteq> base" if "x \<noteq> []" for x using that by simp
  show ?thesis
    using assms False by (auto simp: path_strip_prefix_def path_join_def strip_prefix_Some)
qed

lemma last_with_extension: "path_file_name p \<noteq> [] \<Longrightarrow> ext \<noteq> [] \<Longrightarrow> last (with_extension p ext) = last ext"
  by (simp add: with_extension_def Let_def)

lemma path_tests:
  "path_extension ''/p/src/T.sol'' = Some ''sol''"
  "path_extension ''/p.d/src'' = None"
  "path_extension ''.sol'' = None"
  "path_parent ''/p/vergil-out/confirm/state.json'' = Some ''/p/vergil-out/confirm''"
  "path_parent ''state.json'' = Some []"
  "path_parent ''/state.json'' = Some ''/''"
  "with_extension ''/p/confirm/state.json'' ''json.tmp'' = ''/p/confirm/state.json.tmp''"
  "with_extension ''/p.d/state'' ''tmp'' = ''/p.d/state.tmp''"
  "path_strip_prefix ''/p/src/T.sol'' ''/p'' = Some ''src/T.sol''"
  "path_strip_prefix ''/q/src/T.sol'' ''/p'' = None"
  by code_simp+

section \<open>Directory trees\<close>

text \<open>
  A directory as a walk sees it: a file with its bytes, or the entries of a directory in the
  order the file system lists them; \<open>None\<close> is a read that fails.
\<close>

datatype fs_node = FileN "string option" | DirN "(string \<times> fs_node) list option"

fun is_dir_node :: "fs_node \<Rightarrow> bool" where
  "is_dir_node (DirN es) = True"
| "is_dir_node (FileN b) = False"

text \<open>\<open>Path::join\<close> followed by \<open>is_dir\<close>, \<open>is_file\<close> or a read: the entry of a directory.\<close>

definition child :: "fs_node \<Rightarrow> string \<Rightarrow> fs_node option" where
  "child node name = (case node of DirN (Some es) \<Rightarrow> map_of es name | _ \<Rightarrow> None)"

definition child_is_file :: "fs_node \<Rightarrow> string \<Rightarrow> bool" where
  "child_is_file node name = (case child node name of Some (FileN b) \<Rightarrow> True | _ \<Rightarrow> False)"

definition child_read :: "fs_node \<Rightarrow> string \<Rightarrow> string option" where
  "child_read node name = (case child node name of Some (FileN b) \<Rightarrow> b | _ \<Rightarrow> None)"

end
