(* ===== verification/Mutation.thy ===== *)
theory Mutation
  imports RustFloat Disk
begin

text \<open>
  Mutation testing (\<open>crates/vergil-mutation/src\<close>): \<open>gambit.rs\<close>, which produces the mutants, and
  \<open>scorer.rs\<close>, which writes each over the user's source, runs the specification and puts the source
  back. The disk is a map from paths to contents; every write may fail, with the file left as it was
  or cut, as an oracle on the number of writes says; the runner may do anything to the disk.
\<close>

section \<open>Generating mutants\<close>

datatype mutation_error =
    GambitMissing
  | MSpawn string
  | NonZeroExit int string
  | MTimeout
  | MissingResults string
  | MParse string

record mutant =
  mu_id :: string
  mu_description :: string
  mu_diff :: string
  mu_name :: string
  mu_original :: string
  mu_sourceroot :: string

record mutator =
  mr_binary :: string
  mr_budget_ms :: u64

definition mutator_default :: mutator where
  "mutator_default = \<lparr>mr_binary = ''gambit'', mr_budget_ms = 120000\<rparr>"

text \<open>
  What the operating system answers; \<open>GcExit\<close> holds \<open>None\<close> for a child killed by a signal. The files of the output
  directory are a map: \<open>ge_remove\<close> says what is left of them after \<open>remove_dir_all\<close>, nothing if it works, and the
  child says what it makes of them.
\<close>

datatype gambit_child = GcNotFound | GcIoError string | GcElapsed | GcExit "int option" string

type_synonym files = "string \<rightharpoonup> string"

record gambit_env =
  ge_exists :: "string \<Rightarrow> bool"
  ge_remove :: "files \<Rightarrow> files"
  ge_create_dir :: "string \<Rightarrow> string option"
  ge_parent :: "string \<Rightarrow> string option"
  ge_child :: "string \<Rightarrow> string list \<Rightarrow> u64 \<Rightarrow> files \<Rightarrow> gambit_child \<times> files"
  ge_utf8 :: "string \<Rightarrow> string + string"
  ge_decode :: "string \<Rightarrow> string + mutant list"

definition parse_results :: "(string \<Rightarrow> string + mutant list) \<Rightarrow> string \<Rightarrow> mutation_error + mutant list" where
  "parse_results decode raw = (case decode raw of Inl e \<Rightarrow> Inl (MParse e) | Inr ms \<Rightarrow> Inr ms)"

definition gambit_args :: "gambit_env \<Rightarrow> string \<Rightarrow> string \<Rightarrow> string list" where
  "gambit_args env src outdir =
     [''mutate'', ''--filename'', src, ''--outdir'', outdir, ''--sourceroot'',
      (case ge_parent env src of Some p \<Rightarrow> p | None \<Rightarrow> ''.'')]"

definition gambit_results :: "gambit_env \<Rightarrow> string \<Rightarrow> files \<Rightarrow> mutation_error + mutant list" where
  "gambit_results env outdir fs =
     (let results_path = path_join outdir ''gambit_results.json'' in
      case fs results_path of
        None \<Rightarrow> Inl (MissingResults results_path)
      | Some body \<Rightarrow>
          (case ge_utf8 env body of
             Inl e \<Rightarrow> Inl (MSpawn (''read results: '' @ e))
           | Inr raw \<Rightarrow> parse_results (ge_decode env) raw))"

text \<open>The result, and the files of the output directory afterwards.\<close>

definition gambit_generate ::
    "gambit_env \<Rightarrow> mutator \<Rightarrow> string \<Rightarrow> string \<Rightarrow> files \<Rightarrow> (mutation_error + mutant list) \<times> files" where
  "gambit_generate env m src outdir fs =
     (if \<not> ge_exists env src then (Inl (MSpawn (''source not found: '' @ src)), fs)
      else
        (let fs1 = ge_remove env fs in
         case ge_create_dir env outdir of
           Some e \<Rightarrow> (Inl (MSpawn (''create outdir: '' @ e)), fs1)
         | None \<Rightarrow>
             (case ge_child env (mr_binary m) (gambit_args env src outdir) (mr_budget_ms m) fs1 of
                (GcNotFound, fs2) \<Rightarrow> (Inl GambitMissing, fs2)
              | (GcIoError e, fs2) \<Rightarrow> (Inl (MSpawn e), fs2)
              | (GcElapsed, fs2) \<Rightarrow> (Inl MTimeout, fs2)
              | (GcExit code stderr, fs2) \<Rightarrow>
                  (if code \<noteq> Some 0 then (Inl (NonZeroExit (case code of Some c \<Rightarrow> c | None \<Rightarrow> -1) stderr), fs2)
                   else (gambit_results env outdir fs2, fs2)))))"

text \<open>\<open>is_available\<close>: whether the child for \<open>--help\<close> could be started and succeeded.\<close>

definition gambit_is_available :: "(string \<Rightarrow> string list \<Rightarrow> bool option) \<Rightarrow> mutator \<Rightarrow> bool" where
  "gambit_is_available run m = (case run (mr_binary m) [''--help''] of Some ok \<Rightarrow> ok | None \<Rightarrow> False)"

text \<open>Results of an earlier run are not taken for those of this one, as long as they can be removed.\<close>

lemma no_stale_mutants:
  assumes "ge_remove env fs = Map.empty" and "gambit_generate env m src outdir fs = (Inr ms, fs2)"
  shows "\<exists>stderr body. ge_child env (mr_binary m) (gambit_args env src outdir) (mr_budget_ms m) Map.empty = (GcExit (Some 0) stderr, fs2)
     \<and> fs2 (path_join outdir ''gambit_results.json'') = Some body"
  using assms
  by (auto simp: gambit_generate_def gambit_results_def Let_def split: if_splits option.splits prod.splits gambit_child.splits)

section \<open>Scoring\<close>

datatype mutation_verdict = Killed | Survived | Inconclusive

datatype score_error = ScIo string string | ScRunner string string

record mutation_score =
  sc_total :: nat
  sc_killed :: nat
  sc_survived :: nat
  sc_inconclusive :: nat

definition coverage :: "mutation_score \<Rightarrow> float" where
  "coverage s =
     (let evaluated = sc_killed s + sc_survived s in
      if evaluated = 0 then Fin 0
      else (case to_f64 (of_nat evaluated) of
              Fin q \<Rightarrow> fdiv64_by (to_f64 (of_nat (sc_killed s))) q
            | _ \<Rightarrow> NaN))"

definition bump :: "string + mutation_verdict \<Rightarrow> mutation_score \<Rightarrow> mutation_score" where
  "bump v s =
     (case v of
        Inr Killed \<Rightarrow> s\<lparr>sc_killed := sc_killed s + 1\<rparr>
      | Inr Survived \<Rightarrow> s\<lparr>sc_survived := sc_survived s + 1\<rparr>
      | Inr Inconclusive \<Rightarrow> s\<lparr>sc_inconclusive := sc_inconclusive s + 1\<rparr>
      | Inl msg \<Rightarrow> s\<lparr>sc_inconclusive := sc_inconclusive s + 1\<rparr>)"

fun score_loop ::
    "write_oracle \<Rightarrow> (string \<Rightarrow> disk \<Rightarrow> (string + mutation_verdict) \<times> disk) \<Rightarrow> string \<Rightarrow> string \<Rightarrow> string
     \<Rightarrow> mutant list \<Rightarrow> mutation_score \<Rightarrow> disk \<Rightarrow> (score_error + mutation_score) \<times> disk" where
  "score_loop wr runner outdir src saved [] s d = (Inr s, d)"
| "score_loop wr runner outdir src saved (m # ms) s d =
     (case dk_files d (path_join outdir (mu_name m)) of
        None \<Rightarrow> score_loop wr runner outdir src saved ms (s\<lparr>sc_inconclusive := sc_inconclusive s + 1\<rparr>) d
      | Some body \<Rightarrow>
          (case fs_write wr src body d of
             (Some e, d1) \<Rightarrow> (Inl (ScIo src e), snd (fs_write wr src saved d1))
           | (None, d1) \<Rightarrow>
               (case runner src d1 of
                  (v, d2) \<Rightarrow>
                    (case fs_write wr src saved d2 of
                       (Some e, d3) \<Rightarrow> (Inl (ScIo src e), d3)
                     | (None, d3) \<Rightarrow> score_loop wr runner outdir src saved ms (bump v s) d3))))"

text \<open>A path that is not in the map cannot be read; the message is the system's.\<close>

definition score ::
    "write_oracle \<Rightarrow> (string \<Rightarrow> disk \<Rightarrow> (string + mutation_verdict) \<times> disk) \<Rightarrow> string \<Rightarrow> string \<Rightarrow> string
     \<Rightarrow> mutant list \<Rightarrow> disk \<Rightarrow> (score_error + mutation_score) \<times> disk" where
  "score wr runner read_error outdir src ms d =
     (case dk_files d src of
        None \<Rightarrow> (Inl (ScIo src read_error), d)
      | Some saved \<Rightarrow>
          score_loop wr runner outdir src saved ms
            \<lparr>sc_total = length ms, sc_killed = 0, sc_survived = 0, sc_inconclusive = 0\<rparr> d)"

section \<open>Lemmas\<close>

definition counted :: "mutation_score \<Rightarrow> nat" where
  "counted s = sc_killed s + sc_survived s + sc_inconclusive s"

lemma bump_counted [simp]: "counted (bump v s) = counted s + 1" "sc_total (bump v s) = sc_total s"
  by (cases v; simp add: bump_def counted_def split: mutation_verdict.split)+

lemma score_loop_Inr:
  "score_loop wr runner outdir src saved ms s d = (Inr s', d') \<Longrightarrow> dk_files d src = Some saved \<Longrightarrow>
     dk_files d' src = Some saved \<and> sc_total s' = sc_total s \<and> counted s' = counted s + length ms"
proof (induction ms arbitrary: s d)
  case Nil
  then show ?case by simp
next
  case (Cons m ms)
  show ?case
  proof (cases "dk_files d (path_join outdir (mu_name m))")
    case None
    with Cons.IH[OF _ Cons.prems(2)] Cons.prems(1) show ?thesis
      by (fastforce simp: counted_def)
  next
    case (Some body)
    obtain e1 d1 where w1: "fs_write wr src body d = (e1, d1)" by (cases "fs_write wr src body d")
    obtain v d2 where r: "runner src d1 = (v, d2)" by (cases "runner src d1")
    obtain e3 d3 where w3: "fs_write wr src saved d2 = (e3, d3)" by (cases "fs_write wr src saved d2")
    from Cons.prems(1) Some w1 r w3 have e: "e1 = None" "e3 = None"
      and rest: "score_loop wr runner outdir src saved ms (bump v s) d3 = (Inr s', d')"
      by (auto split: option.splits)
    from Cons.IH[OF rest fs_write_None] w3 e show ?thesis by simp
  qed
qed

text \<open>After a failure the source is the saved one, or the write that should have put it back failed.\<close>

lemma score_loop_Inl:
  "score_loop wr runner outdir src saved ms s d = (Inl err, d') \<Longrightarrow>
     dk_files d' src = Some saved \<or> (\<exists>n. wr n \<noteq> None)"
proof (induction ms arbitrary: s d)
  case Nil
  then show ?case by simp
next
  case (Cons m ms)
  show ?case
  proof (cases "\<forall>n. wr n = None")
    case False
    then show ?thesis by blast
  next
    case True
    then have w: "fs_write wr p b x = (None, x\<lparr>dk_files := (dk_files x)(p \<mapsto> b), dk_writes := dk_writes x + 1\<rparr>)"
      for p b x by (simp add: fs_write_def)
    show ?thesis
      using Cons by (auto simp: w split: option.splits prod.splits)
  qed
qed

lemma to_f64_nat_cases:
  "to_f64 (of_nat n) = PInf \<or> (\<exists>q. to_f64 (of_nat n) = Fin q \<and> 0 \<le> q)"
proof -
  have "0 \<le> round_fin 53 (-1074) (of_nat n)" by (rule round_fin_nonneg) simp
  moreover have "\<not> round_fin 53 (-1074) (of_nat n) \<le> - pow2 1024"
    using calculation pow2_pos[of 1024] by linarith
  ultimately show ?thesis by (auto simp: to_f64_def clamp_inf_def)
qed

lemma to_f64_Fin: "to_f64 x = Fin q \<Longrightarrow> q = round_fin 53 (-1074) x"
  by (auto simp: to_f64_def clamp_inf_def split: if_splits)

lemma round_fin_1: "round_fin 53 (-1074) 1 = 1"
  by (rule round_fin_grid[of 1 1 0]) simp_all

lemma coverage_bounds:
  assumes f: "to_f64 (of_nat (sc_killed s + sc_survived s)) = Fin q"
  shows "fle (Fin 0) (coverage s) \<and> fle (coverage s) (Fin 1)"
proof (cases "sc_killed s + sc_survived s = 0")
  case True
  then show ?thesis by (simp add: coverage_def)
next
  case False
  have q: "q = round_fin 53 (-1074) (of_nat (sc_killed s + sc_survived s))" using f by (rule to_f64_Fin)
  have "round_fin 53 (-1074) 1 \<le> q"
    unfolding q using False by (intro round_fin_mono) auto
  then have q1: "1 \<le> q" by (simp add: round_fin_1)
  let ?k = "round_fin 53 (-1074) (of_nat (sc_killed s))"
  have kq: "?k \<le> q"
    unfolding q by (intro round_fin_mono) auto
  have k0: "0 \<le> ?k" by (rule round_fin_nonneg) simp
  have qlt: "q < pow2 1024" using f by (auto simp: to_f64_def clamp_inf_def q split: if_splits)
  then have k: "to_f64 (of_nat (sc_killed s)) = Fin ?k"
    using kq k0 pow2_pos[of 1024] by (auto simp: to_f64_def clamp_inf_def)
  have d: "0 \<le> ?k / q" "?k / q \<le> 1" using k0 kq q1 by simp_all
  have r0: "0 \<le> round_fin 53 (-1074) (?k / q)" using d by (intro round_fin_nonneg)
  have "round_fin 53 (-1074) (?k / q) \<le> round_fin 53 (-1074) 1" using d by (intro round_fin_mono) simp_all
  then have r1: "round_fin 53 (-1074) (?k / q) \<le> 1" by (simp add: round_fin_1)
  have "(1::rat) < pow2 1024" using pow2_less[of 0 1024] by simp
  with r0 r1 have c: "to_f64 (?k / q) = Fin (round_fin 53 (-1074) (?k / q))"
    by (auto simp: to_f64_def clamp_inf_def)
  have "coverage s = Fin (round_fin 53 (-1074) (?k / q))"
    using False f k c by (simp add: coverage_def Let_def)
  with r0 r1 show ?thesis by simp
qed

section \<open>Properties\<close>

text \<open>C30: Scoring mutants leaves the user's source as it was: if it returns a score, the source file holds
  its original content again, whatever the runner did to the disk, and every mutant was counted once,
  as killed, survived or inconclusive; if it returns an error, the original content is back or some
  write to the disk failed.\<close>

theorem score_restores_source:
  "case score wr runner read_error outdir src ms d of
     (Inr s, d') \<Rightarrow> dk_files d' src = dk_files d src \<and> dk_files d src \<noteq> None
       \<and> sc_total s = length ms \<and> sc_killed s + sc_survived s + sc_inconclusive s = length ms
   | (Inl e, d') \<Rightarrow> dk_files d' src = dk_files d src \<or> (\<exists>n. wr n \<noteq> None)"
proof (cases "dk_files d src")
  case None
  then show ?thesis by (simp add: score_def)
next
  case (Some saved)
  let ?s0 = "\<lparr>sc_total = length ms, sc_killed = 0, sc_survived = 0, sc_inconclusive = 0\<rparr>"
  have sc: "score wr runner read_error outdir src ms d = score_loop wr runner outdir src saved ms ?s0 d"
    using Some by (simp add: score_def)
  show ?thesis
    using score_loop_Inr[of wr runner outdir src saved ms ?s0 d] score_loop_Inl[of wr runner outdir src saved ms ?s0 d]
    unfolding sc by (auto simp: Some counted_def split: prod.split sum.split)
qed

text \<open>Coverage is a fraction: for every score whose mutants can be counted in 64 bits, the floating-point
  value lies between 0 and 1, roundings included, and it is 0 when nothing was decided.\<close>

theorem coverage_is_fraction:
  assumes "sc_killed s + sc_survived s < 2 ^ 64"
  shows "fle (Fin 0) (coverage s) \<and> fle (coverage s) (Fin 1)"
proof -
  have "round_fin 53 (-1074) (of_nat (sc_killed s + sc_survived s)) \<le> round_fin 53 (-1074) (pow2 64)"
    using assms pow2_of_nat[of 64] by (intro round_fin_mono) (simp_all add: of_nat_less_numeral_power_cancel_iff less_imp_le)
  moreover have "round_fin 53 (-1074) (pow2 64) = pow2 64"
    by (rule round_fin_grid[of _ 1 64]) simp_all
  moreover have "pow2 64 < pow2 1024" by (rule pow2_less) simp
  ultimately have "\<not> pow2 1024 \<le> round_fin 53 (-1074) (of_nat (sc_killed s + sc_survived s))" by linarith
  then have "to_f64 (of_nat (sc_killed s + sc_survived s)) \<noteq> PInf"
    by (simp add: to_f64_def clamp_inf_def)
  then show ?thesis using to_f64_nat_cases coverage_bounds by blast
qed

theorem coverage_is_fraction_witness:
  "fle (Fin 0) (coverage \<lparr>sc_total = 4, sc_killed = 2, sc_survived = 1, sc_inconclusive = 1\<rparr>)
   \<and> fle (coverage \<lparr>sc_total = 4, sc_killed = 2, sc_survived = 1, sc_inconclusive = 1\<rparr>) (Fin 1)"
  by (rule coverage_is_fraction) simp

end
