(* ===== verification/Json.thy ===== *)
theory Json
  imports RustFloat
begin

text \<open>
  The values of \<open>serde_json\<close>, as its documentation gives them, for the code that builds a
  document: requests, schemas, telemetry payloads and HTTP bodies. Text to value and value to
  text are the library's and stay parameters of the operations that use them.
\<close>

datatype json =
    JNull
  | JBool bool
  | JNum int
  | JFloat float
  | JStr string
  | JArr "json list"
  | JObj "(string \<times> json) list"

fun json_get :: "string \<Rightarrow> json \<Rightarrow> json option" where
  "json_get k (JObj kvs) = map_of kvs k"
| "json_get k _ = None"

text \<open>How serde writes an option: \<open>None\<close> is null.\<close>

definition opt_json :: "('a \<Rightarrow> json) \<Rightarrow> 'a option \<Rightarrow> json" where
  "opt_json f x = (case x of None \<Rightarrow> JNull | Some v \<Rightarrow> f v)"

text \<open>The shapes the JSON schemas of the code are made of.\<close>

definition js_string :: json where
  "js_string = JObj [(''type'', JStr ''string'')]"

definition js_enum :: "string list \<Rightarrow> json" where
  "js_enum vs = JObj [(''type'', JStr ''string''), (''enum'', JArr (map JStr vs))]"

definition js_unit_number :: json where
  "js_unit_number = JObj [(''type'', JStr ''number''), (''minimum'', JNum 0), (''maximum'', JNum 1)]"

definition js_object :: "string list \<Rightarrow> (string \<times> json) list \<Rightarrow> json" where
  "js_object req props =
     JObj [(''type'', JStr ''object''), (''required'', JArr (map JStr req)), (''properties'', JObj props)]"

definition js_array :: "json \<Rightarrow> json" where
  "js_array items = JObj [(''type'', JStr ''array''), (''items'', items)]"

text \<open>A schema is coherent when every key it requires is one of the properties it declares.\<close>

definition required_keys :: "json \<Rightarrow> string list" where
  "required_keys j = (case json_get ''required'' j of
     Some (JArr ks) \<Rightarrow> List.map_filter (\<lambda>k. case k of JStr s \<Rightarrow> Some s | _ \<Rightarrow> None) ks | _ \<Rightarrow> [])"

definition property_keys :: "json \<Rightarrow> string list" where
  "property_keys j = (case json_get ''properties'' j of Some (JObj ps) \<Rightarrow> map fst ps | _ \<Rightarrow> [])"

definition schema_coherent :: "json \<Rightarrow> bool" where
  "schema_coherent j \<longleftrightarrow> list_all (\<lambda>k. List.member (property_keys j) k) (required_keys j)"

end
