(* ===== verification/JobStore.thy ===== *)
theory JobStore
  imports Json "HOL-Library.AList" "HOL-Library.List_Lexorder" "HOL-Library.Char_ord" "HOL-Library.Multiset"
begin

text \<open>
  The job model and the job store of the service (\<open>crates/vergil-service/src/job.rs\<close>,
  \<open>store.rs\<close>). The trait \<open>JobStore\<close> is a locale: what its clients rely on; the in-memory store is the
  implementation, an association list for each hash map. Clock, UUIDs and the iteration order of a
  hash map are parameters.
\<close>

section \<open>Jobs\<close>

datatype job_status = Pending | Running | Completed | Failed

fun job_status_str :: "job_status \<Rightarrow> string" where
  "job_status_str Pending = ''pending''"
| "job_status_str Running = ''running''"
| "job_status_str Completed = ''completed''"
| "job_status_str Failed = ''failed''"

record job_request =
  jr_contract_source :: string
  jr_intent :: string
  jr_properties_yaml :: "string option"
  jr_cost_budget_usd :: "float option"
  jr_wall_clock_budget_seconds :: "u64 option"

record job =
  jb_id :: string
  jb_status :: job_status
  jb_submitted_at :: string
  jb_started_at :: "string option"
  jb_completed_at :: "string option"
  jb_cost_usd :: "float option"
  jb_failure_reason :: "string option"

record job_result =
  jl_proof :: json

definition job_new_pending :: "string \<Rightarrow> string \<Rightarrow> job" where
  "job_new_pending uuid now =
     \<lparr>jb_id = uuid, jb_status = Pending, jb_submitted_at = now, jb_started_at = None, jb_completed_at = None,
      jb_cost_usd = None, jb_failure_reason = None\<rparr>"

datatype store_error = NotFound string | Backend string

fun store_error_str :: "store_error \<Rightarrow> string" where
  "store_error_str (NotFound i) = ''job not found: '' @ i"
| "store_error_str (Backend m) = ''storage backend error: '' @ m"

section \<open>The in-memory store\<close>

record mem_store =
  im_jobs :: "(string \<times> job) list"
  im_results :: "(string \<times> job_result) list"

definition mem_new :: mem_store where
  "mem_new = \<lparr>im_jobs = [], im_results = []\<rparr>"

definition mem_submit :: "job \<Rightarrow> mem_store \<Rightarrow> (store_error + unit) \<times> mem_store" where
  "mem_submit j s = (Inr (), s\<lparr>im_jobs := AList.update (jb_id j) j (im_jobs s)\<rparr>)"

definition mem_get :: "string \<Rightarrow> mem_store \<Rightarrow> store_error + job" where
  "mem_get i s = (case map_of (im_jobs s) i of Some j \<Rightarrow> Inr j | None \<Rightarrow> Inl (NotFound i))"

text \<open>\<open>order\<close> is the order in which the hash map yields its values; the sort is stable.\<close>

definition sort_newest :: "job list \<Rightarrow> job list" where
  "sort_newest js = rev (sort_key jb_submitted_at (rev js))"

definition mem_list ::
    "(job list \<Rightarrow> job list) \<Rightarrow> job_status option \<Rightarrow> nat \<Rightarrow> mem_store \<Rightarrow> store_error + job list" where
  "mem_list order status_filter limit s =
     Inr (take limit (sort_newest
       (filter (\<lambda>j. case status_filter of Some st \<Rightarrow> st = jb_status j | None \<Rightarrow> True)
          (order (map snd (im_jobs s))))))"

definition job_set_status :: "string \<Rightarrow> job_status \<Rightarrow> string option \<Rightarrow> job \<Rightarrow> job" where
  "job_set_status now status reason j =
     (let j1 = (case status of
                  Running \<Rightarrow> (if jb_started_at j = None then j\<lparr>jb_started_at := Some now\<rparr> else j)
                | Completed \<Rightarrow> (if jb_completed_at j = None then j\<lparr>jb_completed_at := Some now\<rparr> else j)
                | Failed \<Rightarrow> (if jb_completed_at j = None then j\<lparr>jb_completed_at := Some now\<rparr> else j)
                | Pending \<Rightarrow> j);
          j2 = j1\<lparr>jb_status := status\<rparr>
      in case reason of Some r \<Rightarrow> j2\<lparr>jb_failure_reason := Some r\<rparr> | None \<Rightarrow> j2)"

definition mem_update_status ::
    "string \<Rightarrow> string \<Rightarrow> job_status \<Rightarrow> string option \<Rightarrow> mem_store \<Rightarrow> (store_error + unit) \<times> mem_store" where
  "mem_update_status now i status reason s =
     (case map_of (im_jobs s) i of
        None \<Rightarrow> (Inl (NotFound i), s)
      | Some j \<Rightarrow> (Inr (), s\<lparr>im_jobs := AList.update i (job_set_status now status reason j) (im_jobs s)\<rparr>))"

definition mem_set_result :: "string \<Rightarrow> job_result \<Rightarrow> mem_store \<Rightarrow> (store_error + unit) \<times> mem_store" where
  "mem_set_result i r s =
     (if map_of (im_jobs s) i = None then (Inl (NotFound i), s)
      else (Inr (), s\<lparr>im_results := AList.update i r (im_results s)\<rparr>))"

definition mem_get_result :: "string \<Rightarrow> mem_store \<Rightarrow> store_error + job_result" where
  "mem_get_result i s = (case map_of (im_results s) i of Some r \<Rightarrow> Inr r | None \<Rightarrow> Inl (NotFound i))"

section \<open>The contract of a store\<close>

locale job_store =
  fixes submit :: "job \<Rightarrow> 's \<Rightarrow> (store_error + unit) \<times> 's"
    and get :: "string \<Rightarrow> 's \<Rightarrow> store_error + job"
    and update_status :: "string \<Rightarrow> string \<Rightarrow> job_status \<Rightarrow> string option \<Rightarrow> 's \<Rightarrow> (store_error + unit) \<times> 's"
    and set_result :: "string \<Rightarrow> job_result \<Rightarrow> 's \<Rightarrow> (store_error + unit) \<times> 's"
    and get_result :: "string \<Rightarrow> 's \<Rightarrow> store_error + job_result"
    and inv :: "'s \<Rightarrow> bool"
  assumes submit_inv: "inv s \<Longrightarrow> inv (snd (submit j s))"
    and update_inv: "inv s \<Longrightarrow> inv (snd (update_status now i st why s))"
    and result_inv: "inv s \<Longrightarrow> inv (snd (set_result i r s))"
    and result_known: "inv s \<Longrightarrow> get_result i s = Inr r \<Longrightarrow> \<exists>j. get i s = Inr j"
    and get_submit: "inv s \<Longrightarrow> fst (submit j s) = Inr () \<Longrightarrow>
        get i (snd (submit j s)) = (if i = jb_id j then Inr j else get i s)"
    and submit_fails: "fst (submit j s) \<noteq> Inr () \<Longrightarrow> snd (submit j s) = s"
    and get_update: "inv s \<Longrightarrow> get i (snd (update_status now k st why s)) =
        (if i = k then map_sum id (job_set_status now st why) (get i s) else get i s)"
    and update_unknown: "get k s = Inl e \<Longrightarrow> fst (update_status now k st why s) = Inl e"
    and get_set_result: "get i (snd (set_result k r s)) = get i s"
    and result_set_result: "inv s \<Longrightarrow> get k s = Inr j \<Longrightarrow>
        fst (set_result k r s) = Inr () \<and> get_result i (snd (set_result k r s)) = (if i = k then Inr r else get_result i s)"
    and result_submit: "get_result i (snd (submit j s)) = get_result i s"
    and result_update: "get_result i (snd (update_status now k st why s)) = get_result i s"

text \<open>The operations of a worker as data, so that a history is a list.\<close>

datatype store_op =
    OSubmit job
  | OUpdate string string job_status "string option"
  | OSetResult string job_result

context job_store begin

fun apply_op :: "store_op \<Rightarrow> 's \<Rightarrow> 's" where
  "apply_op (OSubmit j) s = snd (submit j s)"
| "apply_op (OUpdate now i st why) s = snd (update_status now i st why s)"
| "apply_op (OSetResult i r) s = snd (set_result i r s)"

lemma apply_op_inv: "inv s \<Longrightarrow> inv (apply_op op s)"
  by (cases op) (simp_all add: submit_inv update_inv result_inv)

lemma run_inv: "inv s \<Longrightarrow> inv (fold apply_op ops s)"
  by (induction ops arbitrary: s) (simp_all add: apply_op_inv)

text \<open>A result is only ever served for a job that is known.\<close>

lemma run_result_known:
  "inv s \<Longrightarrow> get_result i (fold apply_op ops s) = Inr r \<Longrightarrow> \<exists>j. get i (fold apply_op ops s) = Inr j"
  by (rule result_known[OF run_inv])

lemma apply_op_keeps:
  "inv s \<Longrightarrow> get i s = Inr j \<Longrightarrow> \<exists>j'. get i (apply_op op s) = Inr j'"
proof (cases op)
  case (OSubmit x)
  assume "inv s" "get i s = Inr j"
  then show ?thesis
    using OSubmit get_submit[of s x i] submit_fails[of x s] by (cases "fst (submit x s) = Inr ()") auto
next
  case (OUpdate now k st why)
  assume "inv s" "get i s = Inr j"
  then show ?thesis using OUpdate by (cases "i = k") (auto simp: get_update)
next
  case (OSetResult k r)
  assume "inv s" "get i s = Inr j"
  then show ?thesis using OSetResult by (simp add: get_set_result)
qed

text \<open>No history forgets a job.\<close>

lemma run_keeps:
  "inv s \<Longrightarrow> get i s = Inr j \<Longrightarrow> \<exists>j'. get i (fold apply_op ops s) = Inr j'"
proof (induction ops arbitrary: s j)
  case Nil
  then show ?case by simp
next
  case (Cons op ops)
  from apply_op_keeps[OF Cons.prems] obtain j' where "get i (apply_op op s) = Inr j'" by blast
  from Cons.IH[OF apply_op_inv[OF Cons.prems(1)] this] show ?case by simp
qed

end

text \<open>The two time stamps are written once: later updates of the same job keep them.\<close>

lemma job_set_status_sticky:
  "jb_started_at j = Some t \<Longrightarrow> jb_started_at (job_set_status now st why j) = Some t"
  "jb_completed_at j = Some t \<Longrightarrow> jb_completed_at (job_set_status now st why j) = Some t"
  "jb_id (job_set_status now st why j) = jb_id j"
  "jb_submitted_at (job_set_status now st why j) = jb_submitted_at j"
  "jb_status (job_set_status now st why j) = st"
  "jb_failure_reason j = Some f \<Longrightarrow> jb_failure_reason (job_set_status now st why j) \<noteq> None"
  by (auto simp: job_set_status_def Let_def split: job_status.split option.split)

definition mem_inv :: "mem_store \<Rightarrow> bool" where
  "mem_inv s \<longleftrightarrow>
     distinct (map fst (im_jobs s)) \<and> distinct (map fst (im_results s))
     \<and> dom (map_of (im_results s)) \<subseteq> dom (map_of (im_jobs s))
     \<and> (\<forall>i j. map_of (im_jobs s) i = Some j \<longrightarrow> jb_id j = i)"

interpretation mem: job_store mem_submit mem_get mem_update_status mem_set_result mem_get_result mem_inv
proof unfold_locales
  fix s :: mem_store and j now i st why r k e
  show "mem_inv s \<Longrightarrow> mem_inv (snd (mem_submit j s))"
    by (auto simp: mem_inv_def mem_submit_def update_conv' distinct_update)
  show "mem_inv s \<Longrightarrow> mem_inv (snd (mem_update_status now i st why s))"
    by (auto simp: mem_inv_def mem_update_status_def update_conv' distinct_update job_set_status_sticky
        simp del: map_of_eq_Some_iff Some_eq_map_of_iff split: option.split)
  show "mem_inv s \<Longrightarrow> mem_inv (snd (mem_set_result i r s))"
    by (auto simp: mem_inv_def mem_set_result_def update_conv' distinct_update)
  show "mem_inv s \<Longrightarrow> mem_get_result i s = Inr r \<Longrightarrow> \<exists>j. mem_get i s = Inr j"
    by (auto simp: mem_inv_def mem_get_result_def mem_get_def simp del: map_of_eq_Some_iff Some_eq_map_of_iff
        split: option.splits)
  show "mem_inv s \<Longrightarrow> fst (mem_submit j s) = Inr () \<Longrightarrow>
        mem_get i (snd (mem_submit j s)) = (if i = jb_id j then Inr j else mem_get i s)"
    by (simp add: mem_get_def mem_submit_def update_conv')
  show "fst (mem_submit j s) \<noteq> Inr () \<Longrightarrow> snd (mem_submit j s) = s"
    by (simp add: mem_submit_def)
  show "mem_inv s \<Longrightarrow> mem_get i (snd (mem_update_status now k st why s)) =
        (if i = k then map_sum id (job_set_status now st why) (mem_get i s) else mem_get i s)"
    by (auto simp: mem_get_def mem_update_status_def update_conv' split: option.split)
  show "mem_get k s = Inl e \<Longrightarrow> fst (mem_update_status now k st why s) = Inl e"
    by (auto simp: mem_get_def mem_update_status_def split: option.splits)
  show "mem_get i (snd (mem_set_result k r s)) = mem_get i s"
    by (simp add: mem_get_def mem_set_result_def)
  show "mem_inv s \<Longrightarrow> mem_get k s = Inr j \<Longrightarrow> fst (mem_set_result k r s) = Inr ()
      \<and> mem_get_result i (snd (mem_set_result k r s)) = (if i = k then Inr r else mem_get_result i s)"
    by (auto simp: mem_get_def mem_get_result_def mem_set_result_def update_conv' split: option.splits)
  show "mem_get_result i (snd (mem_submit j s)) = mem_get_result i s"
    by (simp add: mem_get_result_def mem_submit_def)
  show "mem_get_result i (snd (mem_update_status now k st why s)) = mem_get_result i s"
    by (simp add: mem_get_result_def mem_update_status_def split: option.split)
qed

text \<open>A history of the in-memory store.\<close>

fun mem_apply :: "store_op \<Rightarrow> mem_store \<Rightarrow> mem_store" where
  "mem_apply (OSubmit j) s = snd (mem_submit j s)"
| "mem_apply (OUpdate now i st why) s = snd (mem_update_status now i st why s)"
| "mem_apply (OSetResult i r) s = snd (mem_set_result i r s)"

lemma mem_apply_eq: "mem_apply = mem.apply_op"
proof (intro ext)
  show "mem_apply x s = mem.apply_op x s" for x s by (cases x) simp_all
qed

section \<open>Properties\<close>

text \<open>After any history of submissions, status updates and results, a stored job is never forgotten, its
  key is its id, ids are unique, and a result can be fetched only for a job that can be fetched.\<close>

theorem mem_store_history:
  "mem_inv (fold mem_apply ops mem_new)
   \<and> (case mem_get_result i (fold mem_apply ops mem_new) of
        Inr r \<Rightarrow> \<exists>j. mem_get i (fold mem_apply ops mem_new) = Inr j \<and> jb_id j = i
      | Inl e \<Rightarrow> e = NotFound i)
   \<and> (case mem_get i (fold mem_apply ops mem_new) of
        Inr j \<Rightarrow> \<exists>j'. mem_get i (fold mem_apply later (fold mem_apply ops mem_new)) = Inr j'
      | Inl e \<Rightarrow> e = NotFound i)"
proof -
  let ?s = "fold mem_apply ops mem_new"
  have "mem_inv mem_new" by (simp add: mem_inv_def mem_new_def)
  then have inv: "mem_inv ?s" unfolding mem_apply_eq by (rule mem.run_inv)
  have "case mem_get_result i ?s of
        Inr r \<Rightarrow> \<exists>j. mem_get i ?s = Inr j \<and> jb_id j = i | Inl e \<Rightarrow> e = NotFound i"
  proof (cases "mem_get_result i ?s")
    case (Inl e)
    then show ?thesis by (auto simp: mem_get_result_def split: option.splits)
  next
    case (Inr r)
    from mem.result_known[OF inv Inr] obtain j where j: "mem_get i ?s = Inr j" by blast
    then have "map_of (im_jobs ?s) i = Some j"
      by (simp add: mem_get_def split: option.splits)
    with inv have "jb_id j = i" by (simp add: mem_inv_def)
    with j Inr show ?thesis by simp
  qed
  moreover have "case mem_get i ?s of
        Inr j \<Rightarrow> \<exists>j'. mem_get i (fold mem_apply later ?s) = Inr j' | Inl e \<Rightarrow> e = NotFound i"
  proof (cases "mem_get i ?s")
    case (Inl e)
    then show ?thesis by (auto simp: mem_get_def split: option.splits)
  next
    case (Inr j)
    with mem.run_keeps[OF inv Inr] show ?thesis by (simp add: mem_apply_eq)
  qed
  ultimately show ?thesis using inv by blast
qed

text \<open>Listing returns at most \<open>limit\<close> of the stored jobs, each with the requested status, newest
  submission first, and leaves out a matching job only if the limit is reached by jobs submitted no
  earlier; the order in which the hash map yields its entries can only permute equal time stamps.\<close>

theorem mem_list_newest:
  assumes "mset (order (map snd (im_jobs s))) = mset (map snd (im_jobs s))"
  shows "\<exists>out rest. mem_list order flt_st limit s = Inr out \<and> length out \<le> limit
     \<and> sorted (rev (map jb_submitted_at (out @ rest)))
     \<and> mset (out @ rest) = filter_mset (\<lambda>j. case flt_st of Some st \<Rightarrow> st = jb_status j | None \<Rightarrow> True)
         (mset (map snd (im_jobs s)))
     \<and> (rest = [] \<or> length out = limit)"
proof -
  let ?all = "filter (\<lambda>j. case flt_st of Some st \<Rightarrow> st = jb_status j | None \<Rightarrow> True) (order (map snd (im_jobs s)))"
  let ?srt = "sort_newest ?all"
  have m: "mset ?srt = mset ?all" by (simp add: sort_newest_def)
  have "sorted (rev (map jb_submitted_at ?srt))"
    by (simp add: sort_newest_def rev_map)
  moreover have "mset ?all = filter_mset (\<lambda>j. case flt_st of Some st \<Rightarrow> st = jb_status j | None \<Rightarrow> True)
         (mset (map snd (im_jobs s)))"
    using assms by simp
  ultimately show ?thesis
    using m by (intro exI[of _ "take limit ?srt"] exI[of _ "drop limit ?srt"])
      (auto simp: mem_list_def mset_append[symmetric] simp del: mset_append)
qed

theorem mem_list_newest_witness:
  "\<exists>out rest. mem_list rev None 1 (snd (mem_submit (job_new_pending ''b'' ''2024'') (snd (mem_submit (job_new_pending ''a'' ''2023'') mem_new))))
       = Inr out \<and> length out \<le> 1 \<and> sorted (rev (map jb_submitted_at (out @ rest)))
     \<and> size (mset (out @ rest)) = 2 \<and> (rest = [] \<or> length out = 1)"
proof -
  let ?s = "snd (mem_submit (job_new_pending ''b'' ''2024'') (snd (mem_submit (job_new_pending ''a'' ''2023'') mem_new)))"
  have j: "map snd (im_jobs ?s) = [job_new_pending ''a'' ''2023'', job_new_pending ''b'' ''2024'']"
    by (simp add: mem_submit_def mem_new_def job_new_pending_def)
  have "mset (rev (map snd (im_jobs ?s))) = mset (map snd (im_jobs ?s))" by simp
  from mem_list_newest[where order = rev and s = ?s and flt_st = None and limit = 1, OF this] obtain out rest where
    o: "mem_list rev None 1 ?s = Inr out" "length out \<le> 1" "sorted (rev (map jb_submitted_at (out @ rest)))"
    "mset (out @ rest) = filter_mset (\<lambda>j. True) (mset (map snd (im_jobs ?s)))" "rest = [] \<or> length out = 1"
    unfolding option.case by blast
  from o(4) have "size (mset (out @ rest)) = 2" unfolding j by simp
  with o show ?thesis by blast
qed

end
