(* ===== verification/ServiceApi.thy ===== *)
theory ServiceApi
  imports JobStore "HOL-Library.Product_Lexorder"
begin

text \<open>
  The HTTP service on top of the store: authentication (\<open>auth.rs\<close>), the metrics registry
  (\<open>metrics.rs\<close>) and the handlers with their routes (\<open>handlers.rs\<close>, \<open>lib.rs\<close>), all under
  \<open>crates/vergil-service/src\<close>. A handler takes the value of the \<open>Authorization\<close> header that
  axum hands it and gives the response and the store.
\<close>

section \<open>Authentication\<close>

datatype auth_error = MissingHeader | Malformed | Rejected

fun auth_error_str :: "auth_error \<Rightarrow> string" where
  "auth_error_str MissingHeader = ''missing Authorization header''"
| "auth_error_str Malformed = ''malformed Authorization header (expected `Bearer <token>`)''"
| "auth_error_str Rejected = ''token rejected''"

record auth_identity =
  ai_tenant_id :: string

record single_token_auth =
  sa_expected :: string
  sa_tenant_id :: string

definition single_token_new :: "string \<Rightarrow> single_token_auth" where
  "single_token_new expected = \<lparr>sa_expected = expected, sa_tenant_id = ''internal''\<rparr>"

definition with_tenant_id :: "string \<Rightarrow> single_token_auth \<Rightarrow> single_token_auth" where
  "with_tenant_id t a = a\<lparr>sa_tenant_id := t\<rparr>"

definition authenticate :: "single_token_auth \<Rightarrow> string option \<Rightarrow> auth_error + auth_identity" where
  "authenticate a auth_header =
     (case auth_header of
        None \<Rightarrow> Inl MissingHeader
      | Some header \<Rightarrow>
          (case strip_prefix header ''Bearer '' of
             None \<Rightarrow> Inl Malformed
           | Some token \<Rightarrow>
               (if token \<noteq> sa_expected a then Inl Rejected else Inr \<lparr>ai_tenant_id = sa_tenant_id a\<rparr>)))"

text \<open>What the handlers rely on: whoever is let in presented a header.\<close>

locale auth_provider =
  fixes auth :: "string option \<Rightarrow> auth_error + auth_identity"
    and credential :: "string \<Rightarrow> bool"
  assumes no_header: "auth None = Inl MissingHeader"
    and accepted: "auth (Some h) = Inr i \<Longrightarrow> credential h"
    and credential_ok: "credential h \<Longrightarrow> \<exists>i. auth (Some h) = Inr i"
begin

lemma auth_iff: "(\<exists>i. auth hdr = Inr i) \<longleftrightarrow> (\<exists>h. hdr = Some h \<and> credential h)"
  using no_header accepted credential_ok by (cases hdr) auto

end

lemma authenticate_Some:
  "authenticate a (Some h) = Inr i \<longleftrightarrow>
     h = ''Bearer '' @ sa_expected a \<and> i = \<lparr>ai_tenant_id = sa_tenant_id a\<rparr>"
  by (auto simp: authenticate_def strip_prefix_def starts_with_iff)

interpretation st: auth_provider "authenticate a" "\<lambda>h. h = ''Bearer '' @ sa_expected a"
  by unfold_locales (auto simp: authenticate_Some authenticate_def[of a None])

section \<open>Metrics\<close>

definition JOBS_TOTAL :: string where "JOBS_TOTAL = ''vergil_jobs_total''"
definition TELEMETRY_EVENTS_TOTAL :: string where
  "TELEMETRY_EVENTS_TOTAL = ''vergil_telemetry_events_total''"
definition COST_MICRO_USD_TOTAL :: string where "COST_MICRO_USD_TOTAL = ''vergil_cost_micro_usd_total''"

type_synonym metric_key = "string \<times> (string \<times> string) list"

text \<open>The ordered map behind the lock, as its entries in key order; \<open>mt_poisoned\<close> is the lock.\<close>

record metrics =
  mt_inner :: "(metric_key \<times> u64) list"
  mt_poisoned :: bool

definition metrics_new :: metrics where "metrics_new = \<lparr>mt_inner = [], mt_poisoned = False\<rparr>"

fun entry_add :: "metric_key \<Rightarrow> u64 \<Rightarrow> (metric_key \<times> u64) list \<Rightarrow> (metric_key \<times> u64) list" where
  "entry_add k delta [] = [(k, delta)]"
| "entry_add k delta ((k', v) # es) =
     (if k < k' then (k, delta) # (k', v) # es
      else if k = k' then (k', v + delta) # es
      else (k', v) # entry_add k delta es)"

definition metrics_inc :: "string \<Rightarrow> (string \<times> string) list \<Rightarrow> u64 \<Rightarrow> metrics \<Rightarrow> metrics" where
  "metrics_inc name labels delta m =
     (if mt_poisoned m then m else m\<lparr>mt_inner := entry_add (name, sort labels) delta (mt_inner m)\<rparr>)"

definition escape_label_value :: "string \<Rightarrow> string" where
  "escape_label_value s =
     replace_str [NL] [BSL, CHR ''n''] (replace_str [DQ] [BSL, DQ] (replace_str [BSL] [BSL, BSL] s))"

definition series_line :: "string \<Rightarrow> (string \<times> string) list \<Rightarrow> u64 \<Rightarrow> string" where
  "series_line name labels v =
     (if labels = [] then name @ '' '' @ show_nat (unat v) @ [NL]
      else name @ ''{'' @ join '','' (map (\<lambda>(k, x). k @ ''='' @ [DQ] @ escape_label_value x @ [DQ]) labels)
             @ ''} '' @ show_nat (unat v) @ [NL])"

definition metric_block :: "metrics \<Rightarrow> string \<Rightarrow> string" where
  "metric_block m name =
     (let series = filter (\<lambda>((n, ls), v). n = name) (mt_inner m) in
      ''# TYPE '' @ name @ '' counter'' @ [NL]
      @ concat (map (\<lambda>((n, ls), v). series_line name ls v) series)
      @ (if series = [] then name @ '' 0'' @ [NL] else []))"

definition render_text :: "metrics \<Rightarrow> string" where
  "render_text m =
     (if mt_poisoned m then []
      else concat (map (metric_block m) [JOBS_TOTAL, TELEMETRY_EVENTS_TOTAL, COST_MICRO_USD_TOTAL]))"

section \<open>Handlers\<close>

datatype body = JsonBody json | TextBody string string

record response =
  re_status :: nat
  re_body :: body

record list_jobs_query =
  lq_status :: "job_status option"
  lq_limit :: "nat option"
  lq_cursor :: "string option"

record app_state =
  st_store :: mem_store
  st_auth :: single_token_auth
  st_metrics :: metrics

definition api_error :: "nat \<Rightarrow> string \<Rightarrow> string \<Rightarrow> response" where
  "api_error status err detail =
     \<lparr>re_status = status, re_body = JsonBody (JObj [(''error'', JStr err), (''detail'', JStr detail)])\<rparr>"

fun auth_error_code :: "auth_error \<Rightarrow> string" where
  "auth_error_code MissingHeader = ''missing_authorization''"
| "auth_error_code Malformed = ''malformed_authorization''"
| "auth_error_code Rejected = ''token_rejected''"

definition require_auth :: "app_state \<Rightarrow> string option \<Rightarrow> response + auth_identity" where
  "require_auth st hdr =
     (case authenticate (st_auth st) hdr of
        Inr i \<Rightarrow> Inr i
      | Inl e \<Rightarrow> Inl (api_error 401 (auth_error_code e) (auth_error_str e)))"

definition not_implemented :: "string \<Rightarrow> response" where
  "not_implemented m =
     api_error 501 ''not_implemented''
       (m @ '' '' @ em_dash @ '' V2 implements the bodies; Phase 4 ships the contract only'')"

definition job_json :: "job \<Rightarrow> json" where
  "job_json j =
     JObj [(''id'', JStr (jb_id j)), (''status'', JStr (job_status_str (jb_status j))),
           (''submitted_at'', JStr (jb_submitted_at j)),
           (''started_at'', opt_json JStr (jb_started_at j)),
           (''completed_at'', opt_json JStr (jb_completed_at j)),
           (''cost_usd'', opt_json JFloat (jb_cost_usd j)),
           (''failure_reason'', opt_json JStr (jb_failure_reason j))]"

definition submit_job ::
    "string \<Rightarrow> string \<Rightarrow> string option \<Rightarrow> job_request \<Rightarrow> app_state \<Rightarrow> response \<times> app_state" where
  "submit_job uuid now hdr req st =
     (case require_auth st hdr of
        Inl resp \<Rightarrow> (resp, st)
      | Inr i \<Rightarrow>
          (case mem_submit (job_new_pending uuid now) (st_store st) of
             (Inl e, s') \<Rightarrow> (api_error 500 ''storage_error'' (store_error_str e), st\<lparr>st_store := s'\<rparr>)
           | (Inr u, s') \<Rightarrow> (not_implemented ''submit_job: queue not wired'', st\<lparr>st_store := s'\<rparr>)))"

definition clamp_limit :: "nat option \<Rightarrow> nat" where
  "clamp_limit l = max 1 (min 200 (case l of Some n \<Rightarrow> n | None \<Rightarrow> 50))"

definition list_jobs ::
    "(job list \<Rightarrow> job list) \<Rightarrow> string option \<Rightarrow> list_jobs_query \<Rightarrow> app_state \<Rightarrow> response" where
  "list_jobs order hdr q st =
     (case require_auth st hdr of
        Inl resp \<Rightarrow> resp
      | Inr i \<Rightarrow>
          (case mem_list order (lq_status q) (clamp_limit (lq_limit q)) (st_store st) of
             Inr jobs \<Rightarrow> \<lparr>re_status = 200,
               re_body = JsonBody (JObj [(''jobs'', JArr (map job_json jobs)), (''next_cursor'', JNull)])\<rparr>
           | Inl e \<Rightarrow> api_error 500 ''storage_error'' (store_error_str e)))"

definition get_job :: "string option \<Rightarrow> string \<Rightarrow> app_state \<Rightarrow> response" where
  "get_job hdr i st =
     (case require_auth st hdr of
        Inl resp \<Rightarrow> resp
      | Inr _ \<Rightarrow>
          (case mem_get i (st_store st) of
             Inr j \<Rightarrow> \<lparr>re_status = 200, re_body = JsonBody (job_json j)\<rparr>
           | Inl _ \<Rightarrow> api_error 404 ''not_found'' (''unknown job id: '' @ i)))"

definition get_job_result :: "string option \<Rightarrow> string \<Rightarrow> app_state \<Rightarrow> response" where
  "get_job_result hdr i st =
     (case require_auth st hdr of
        Inl resp \<Rightarrow> resp
      | Inr _ \<Rightarrow>
          (case mem_get_result i (st_store st) of
             Inr r \<Rightarrow> \<lparr>re_status = 200, re_body = JsonBody (jl_proof r)\<rparr>
           | Inl _ \<Rightarrow> api_error 404 ''not_found'' (''no result for job id (yet): '' @ i)))"

definition healthz :: response where
  "healthz = \<lparr>re_status = 200, re_body = JsonBody (JObj [(''status'', JStr ''ok'')])\<rparr>"

definition metrics_endpoint :: "app_state \<Rightarrow> response" where
  "metrics_endpoint st =
     \<lparr>re_status = 200, re_body = TextBody ''text/plain; version=0.0.4'' (render_text (st_metrics st))\<rparr>"

text \<open>The routes, as the requests the router tells apart.\<close>

datatype api_request =
    PostJobs string string job_request
  | GetJobs list_jobs_query
  | GetJob string
  | GetJobResult string
  | GetHealthz
  | GetMetrics

fun router :: "(job list \<Rightarrow> job list) \<Rightarrow> string option \<Rightarrow> api_request \<Rightarrow> app_state \<Rightarrow> response \<times> app_state" where
  "router order hdr (PostJobs uuid now req) st = submit_job uuid now hdr req st"
| "router order hdr (GetJobs q) st = (list_jobs order hdr q st, st)"
| "router order hdr (GetJob i) st = (get_job hdr i st, st)"
| "router order hdr (GetJobResult i) st = (get_job_result hdr i st, st)"
| "router order hdr GetHealthz st = (healthz, st)"
| "router order hdr GetMetrics st = (metrics_endpoint st, st)"

fun public_route :: "api_request \<Rightarrow> bool" where
  "public_route GetHealthz = True"
| "public_route GetMetrics = True"
| "public_route _ = False"

section \<open>Lemmas\<close>

lemma require_auth_Inr: "(\<exists>i. require_auth st hdr = Inr i) \<longleftrightarrow> hdr = Some (''Bearer '' @ sa_expected (st_auth st))"
  using st.auth_iff[of "st_auth st" hdr] by (auto simp: require_auth_def split: sum.splits)

lemma require_auth_Inl: "require_auth st hdr = Inl r \<Longrightarrow> re_status r = 401"
  by (auto simp: require_auth_def api_error_def split: sum.splits)

lemma router_rejects:
  "require_auth st hdr = Inl r \<Longrightarrow> \<not> public_route q \<Longrightarrow> router order hdr q st = (r, st)"
  by (cases q) (simp_all add: submit_job_def list_jobs_def get_job_def get_job_result_def)

text \<open>Escaping works character by character, whatever the order of the three replacements.\<close>

fun escape_char :: "char \<Rightarrow> string" where
  "escape_char c =
     (if c = BSL then [BSL, BSL] else if c = DQ then [BSL, DQ] else if c = NL then [BSL, CHR ''n''] else [c])"

lemma replace_str_single: "replace_str [p] r s = concat (map (\<lambda>c. if c = p then r else [c]) s)"
  by (induction s) (auto simp: starts_with_iff)

lemma replace_str_single_append: "replace_str [p] r (s @ t) = replace_str [p] r s @ replace_str [p] r t"
  by (simp add: replace_str_single)

lemma escape_label_value_chars: "escape_label_value s = concat (map escape_char s)"
  unfolding escape_label_value_def
  by (induction s) (simp_all add: replace_str_single)

text \<open>The reader of the exposition format.\<close>

fun unescape_label_value :: "string \<Rightarrow> string" where
  "unescape_label_value (a # b # s) =
     (if a = BSL then (if b = CHR ''n'' then NL else b) # unescape_label_value s
      else a # unescape_label_value (b # s))"
| "unescape_label_value s = s"

lemma unescape_append_plain:
  "a \<noteq> BSL \<Longrightarrow> unescape_label_value (a # s) = a # unescape_label_value s"
  by (cases s) simp_all

lemma unescape_escape: "unescape_label_value (concat (map escape_char s)) = s"
  by (induction s) (auto simp: unescape_append_plain)

section \<open>The value of a series\<close>

definition series_value :: "(metric_key \<times> u64) list \<Rightarrow> metric_key \<Rightarrow> u64" where
  "series_value es k = (case map_of es k of Some v \<Rightarrow> v | None \<Rightarrow> 0)"

definition keys_sorted :: "(metric_key \<times> u64) list \<Rightarrow> bool" where
  "keys_sorted es \<longleftrightarrow> sorted_wrt (<) (map fst es)"

lemma entry_add_keys: "set (map fst (entry_add k d es)) = insert k (set (map fst es))"
  by (induction k d es rule: entry_add.induct) auto

lemma entry_add_sorted: "keys_sorted es \<Longrightarrow> keys_sorted (entry_add k d es)"
proof (induction k d es rule: entry_add.induct)
  case (1 k delta)
  then show ?case by (simp add: keys_sorted_def)
next
  case (2 k delta k' v es)
  show ?case
  proof (cases "k < k'")
    case True
    with 2 show ?thesis by (auto simp: keys_sorted_def intro: less_trans)
  next
    case False
    show ?thesis
    proof (cases "k = k'")
      case True
      with 2 show ?thesis by (simp add: keys_sorted_def)
    next
      case ne: False
      with False have "k' < k" by simp
      have "keys_sorted (entry_add k delta es)"
        using 2 False ne by (simp add: keys_sorted_def)
      moreover have "\<forall>x \<in> set (map fst (entry_add k delta es)). k' < x"
        unfolding entry_add_keys using 2(2) \<open>k' < k\<close> by (auto simp: keys_sorted_def)
      ultimately show ?thesis using False ne by (simp add: keys_sorted_def)
    qed
  qed
qed

lemma series_value_add:
  "keys_sorted es \<Longrightarrow>
     series_value (entry_add k d es) q = (if q = k then series_value es q + d else series_value es q)"
proof (induction k d es rule: entry_add.induct)
  case (1 k delta)
  then show ?case by (simp add: series_value_def)
next
  case (2 k delta k' v es)
  have notin: "map_of es k = None" if "k < k'"
    using that 2(2) by (auto simp: keys_sorted_def map_of_eq_None_iff dest: less_trans)
  have IH: "series_value (entry_add k delta es) q = (if q = k then series_value es q + delta else series_value es q)"
    if "\<not> k < k'" "k \<noteq> k'" using 2(1)[OF that] 2(2) by (simp add: keys_sorted_def)
  show ?case
    using notin IH by (auto simp: series_value_def split: if_splits)
qed

definition inc_all :: "(string \<times> (string \<times> string) list \<times> u64) list \<Rightarrow> metrics \<Rightarrow> metrics" where
  "inc_all incs m = fold (\<lambda>(name, labels, delta). metrics_inc name labels delta) incs m"

lemma inc_all_value:
  "\<not> mt_poisoned m \<Longrightarrow> keys_sorted (mt_inner m) \<Longrightarrow>
     \<not> mt_poisoned (inc_all incs m) \<and> keys_sorted (mt_inner (inc_all incs m))
     \<and> series_value (mt_inner (inc_all incs m)) k = series_value (mt_inner m) k
         + sum_list (map (\<lambda>(name, labels, delta). if (name, sort labels) = k then delta else 0) incs)"
proof (induction incs arbitrary: m)
  case Nil
  then show ?case by (simp add: inc_all_def)
next
  case (Cons x incs)
  obtain name labels delta where x: "x = (name, labels, delta)" by (cases x)
  let ?m = "metrics_inc name labels delta m"
  have "\<not> mt_poisoned ?m" "keys_sorted (mt_inner ?m)"
    "series_value (mt_inner ?m) k
      = (if k = (name, sort labels) then series_value (mt_inner m) k + delta else series_value (mt_inner m) k)"
    using Cons.prems by (simp_all add: metrics_inc_def entry_add_sorted series_value_add)
  with Cons.IH[of ?m] show ?case by (auto simp: x inc_all_def)
qed

section \<open>Properties\<close>

text \<open>C32: Every route but the health check and the metrics is closed: a request is let through exactly when
  its Authorization header is ``Bearer '' followed by the configured token; any other request gets a
  401 and leaves the state as it was, and the two public routes never change the state.\<close>

theorem api_closed_without_token:
  "if public_route q then re_status (fst (router order hdr q st)) = 200 \<and> snd (router order hdr q st) = st
   else (hdr = Some (''Bearer '' @ sa_expected (st_auth st)))
          = (re_status (fst (router order hdr q st)) \<noteq> 401)
        \<and> (hdr = Some (''Bearer '' @ sa_expected (st_auth st)) \<or> snd (router order hdr q st) = st)"
proof (cases "public_route q")
  case True
  then show ?thesis by (cases q) (simp_all add: healthz_def metrics_endpoint_def)
next
  case False
  show ?thesis
  proof (cases "require_auth st hdr")
    case (Inl r)
    with require_auth_Inr[of st hdr] have "hdr \<noteq> Some (''Bearer '' @ sa_expected (st_auth st))" by auto
    with False Inl router_rejects[OF Inl False, of order] require_auth_Inl[OF Inl] show ?thesis by simp
  next
    case (Inr i)
    with require_auth_Inr[of st hdr] have "hdr = Some (''Bearer '' @ sa_expected (st_auth st))" by auto
    moreover have "re_status (fst (router order hdr q st)) \<noteq> 401"
      using Inr False
      by (cases q) (auto simp: submit_job_def list_jobs_def get_job_def get_job_result_def mem_submit_def
          not_implemented_def api_error_def mem_list_def split: sum.split)
    ultimately show ?thesis using False by simp
  qed
qed

text \<open>A job that an authorised client posts is stored as pending and is what a later request for its id
  returns, although the answer to the post is 501.\<close>

theorem submit_then_get:
  "case submit_job uuid now (Some (''Bearer '' @ sa_expected (st_auth st))) req st of
     (resp, st') \<Rightarrow> re_status resp = 501
       \<and> get_job (Some (''Bearer '' @ sa_expected (st_auth st))) uuid st'
           = \<lparr>re_status = 200, re_body = JsonBody (job_json (job_new_pending uuid now))\<rparr>"
proof -
  let ?h = "Some (''Bearer '' @ sa_expected (st_auth st))"
  obtain i where i: "require_auth st ?h = Inr i" using require_auth_Inr[of st ?h] by blast
  let ?st = "st\<lparr>st_store := snd (mem_submit (job_new_pending uuid now) (st_store st))\<rparr>"
  have a: "require_auth ?st ?h = Inr i" using i by (simp add: require_auth_def)
  have "mem_get uuid (snd (mem_submit (job_new_pending uuid now) (st_store st))) = Inr (job_new_pending uuid now)"
    by (simp add: mem_get_def mem_submit_def update_conv' job_new_pending_def)
  with a have "get_job ?h uuid ?st
      = \<lparr>re_status = 200, re_body = JsonBody (job_json (job_new_pending uuid now))\<rparr>"
    by (simp add: get_job_def)
  moreover have "submit_job uuid now ?h req st = (not_implemented ''submit_job: queue not wired'', ?st)"
    using i by (simp add: submit_job_def mem_submit_def)
  ultimately show ?thesis by (simp add: not_implemented_def api_error_def)
qed

text \<open>A series of the metrics holds the sum, modulo two to the 64, of the increments made under its name
  and set of labels, in whatever order the labels were given, and the entries stay in key order.\<close>

theorem metrics_count:
  "series_value (mt_inner (inc_all incs metrics_new)) (name, labels)
     = sum_list (map (\<lambda>(n, ls, delta). if n = name \<and> sort ls = labels then delta else 0) incs)
   \<and> keys_sorted (mt_inner (inc_all incs metrics_new))"
  using inc_all_value[of metrics_new incs "(name, labels)"]
  by (simp add: metrics_new_def keys_sorted_def series_value_def case_prod_beta)

text \<open>The escaping of label values loses nothing and keeps the exposition format intact: the reader gets
  the value back, and the escaped text contains no line break.\<close>

theorem escape_roundtrip:
  "unescape_label_value (escape_label_value s) = s \<and> NL \<notin> set (escape_label_value s)"
  unfolding escape_label_value_chars
  by (rule conjI[OF unescape_escape]) (induction s, auto)

end
