(* ===== verification/Halmos.thy ===== *)
theory Halmos
  imports RustFloat Disk "HOL-Library.List_Lexorder" "HOL-Library.Char_ord" "HOL-Library.Multiset"
begin

text \<open>
  The Halmos wrapper (\<open>crates/vergil-solidity/src/halmos.rs\<close>): the parser that turns the
  tool's console output into a typed result, the hashing and persisting of the SMT-LIB files
  it dumps, the configuration and its builders, and the run that ties them together. The child
  process, SHA-256 and the file system's answers are parameters.
\<close>

section \<open>Results\<close>

datatype error_stage = Build | Runtime

fun error_stage_str :: "error_stage \<Rightarrow> string" where
  "error_stage_str Build = ''build''"
| "error_stage_str Runtime = ''runtime''"

record named_value =
  nv_name :: string
  nv_hex_value :: string

record storage_write =
  sw_slot :: string
  sw_value :: string

record trace =
  tr_property :: string
  tr_inputs :: "named_value list"
  tr_storage_writes :: "storage_write list"

datatype halmos_result =
    HVerified (hv_property: string) (hv_paths: u32) (hv_wall_clock_ms: u64) (hv_sha: "string option")
  | HCounterexample (hc_trace: trace) (hc_wall_clock_ms: u64)
  | HUnknown (hu_property: string) (hu_reason: string) (hu_wall_clock_ms: u64)
  | HTimeout (ht_property: string) (ht_wall_clock_ms: u64)
  | HError (he_stage: error_stage) (he_message: string)

section \<open>The output parser\<close>

text \<open>After \<open>ESC [\<close> everything up to and including the next ASCII letter is skipped.\<close>

fun skip_csi :: "string \<Rightarrow> string" where
  "skip_csi [] = []"
| "skip_csi (c # cs) = (if is_alpha c then cs else skip_csi cs)"

lemma length_skip_csi: "length (skip_csi s) \<le> length s"
  by (induction s) auto

function strip_ansi :: "string \<Rightarrow> string" where
  "strip_ansi [] = []"
| "strip_ansi (c # cs) =
     (if c \<noteq> ESC then c # strip_ansi cs
      else case cs of
             [] \<Rightarrow> []
           | d # ds \<Rightarrow> if d \<noteq> CHR ''['' then strip_ansi cs else strip_ansi (skip_csi ds))"
  by pat_completeness auto
termination
  by (relation "measure length") (auto simp: less_Suc_eq_le intro: le_SucI length_skip_csi)

definition build_error_line :: "string \<Rightarrow> bool" where
  "build_error_line line \<longleftrightarrow>
     contains line ''Error'' \<or> contains line ''error:'' \<or> contains line ''Compiler run failed''
     \<or> contains line ''Build failed'' \<or> starts_with (trim_start line) ''|''
     \<or> starts_with (trim_start line) ''--> ''"

definition parse_build_error :: "string \<Rightarrow> halmos_result option" where
  "parse_build_error text =
     (if contains text ''Build failed:'' \<or> contains text ''Compiler run failed:'' then
        (let message = join [NL] (filter build_error_line (lines text));
             message' = (if message = [] then text else message)
         in Some (HError Build message'))
      else None)"

definition status_tag :: "string \<Rightarrow> string" where
  "status_tag tag = ''['' @ tag @ '']''"

definition find_status_line :: "string \<Rightarrow> string \<Rightarrow> string option" where
  "find_status_line text tag = find (\<lambda>l. contains l (status_tag tag)) (lines text)"

definition status_tags :: "string list" where
  "status_tags = [''[PASS]'', ''[FAIL]'', ''[TIMEOUT]'', ''[UNKNOWN]'', ''[ERROR]'']"

definition property_after :: "string \<Rightarrow> string" where
  "property_after after =
     (let trimmed = trim_start after;
          e = (case find_sub trimmed ''('' of
                 None \<Rightarrow> length trimmed
               | Some i \<Rightarrow> (case find_sub (drop i trimmed) '')'' of
                     Some sig_start \<Rightarrow> i + sig_start + 1
                   | None \<Rightarrow> i))
      in trim (take e trimmed))"

fun property_in_line :: "string list \<Rightarrow> string \<Rightarrow> string option" where
  "property_in_line [] line = None"
| "property_in_line (tag # tags) line =
     (case find_sub line tag of
        Some idx \<Rightarrow> Some (property_after (drop (idx + length tag) line))
      | None \<Rightarrow> property_in_line tags line)"

fun property_in_lines :: "string list \<Rightarrow> string option" where
  "property_in_lines [] = None"
| "property_in_lines (line # ls) =
     (case property_in_line status_tags line of Some p \<Rightarrow> Some p | None \<Rightarrow> property_in_lines ls)"

definition extract_property :: "string \<Rightarrow> string option" where
  "extract_property text = property_in_lines (lines text)"

definition extract_paths :: "string \<Rightarrow> u32 option" where
  "extract_paths status_line =
     (case find_sub status_line ''paths:'' of
        None \<Rightarrow> None
      | Some i \<Rightarrow>
          (let rest = drop (i + length ''paths:'') status_line;
               comma = (case find_sub rest '','' of Some c \<Rightarrow> c | None \<Rightarrow> length rest)
           in map_option word_of_nat (parse_uint 32 (trim (take comma rest)))))"

definition extract_total_time_ms :: "string \<Rightarrow> u64 option" where
  "extract_total_time_ms text =
     (case find (\<lambda>l. contains l ''Symbolic test result'') (rev (lines text)) of
        None \<Rightarrow> None
      | Some line \<Rightarrow>
          (case rfind_sub line ''time:'' of
             None \<Rightarrow> None
           | Some idx \<Rightarrow>
               map_option (\<lambda>secs. f64_as_u64 (fmul64 secs (Fin 1000)))
                 (parse_f64 (trim_end_char (CHR ''s'') (trim (drop (idx + length ''time:'') line))))))"

definition extract_warning :: "string \<Rightarrow> string option" where
  "extract_warning text =
     map_option (\<lambda>line. trim (trim_start_str ''WARNING'' line))
       (find (\<lambda>l. starts_with (trim_start l) ''WARNING'') (lines text))"

definition extract_error_message :: "string \<Rightarrow> string option" where
  "extract_error_message text =
     map_option (\<lambda>line. trim (trim_start_str ''ERROR'' line))
       (find (\<lambda>l. starts_with (trim_start l) ''ERROR'') (lines text))"

definition type_keywords :: "string list" where
  "type_keywords =
     [''uint256'', ''uint128'', ''uint64'', ''uint32'', ''uint16'', ''uint8'', ''int256'', ''int128'',
      ''int64'', ''int32'', ''int16'', ''int8'', ''address'', ''bool'', ''bytes32'', ''bytes'']"

fun first_type_index :: "nat \<Rightarrow> string list \<Rightarrow> nat option" where
  "first_type_index i [] = None"
| "first_type_index i (p # ps) =
     (if p \<in> set type_keywords then Some i else first_type_index (Suc i) ps)"

definition recover_logical_name :: "string \<Rightarrow> string" where
  "recover_logical_name raw =
     (let stripped = (case strip_prefix raw ''p_'' of Some t \<Rightarrow> t | None \<Rightarrow> raw);
          parts = split_char (CHR ''_'') stripped in
      if length parts \<le> 2 then hd parts
      else (let name_end = (case first_type_index 0 parts of Some i \<Rightarrow> i | None \<Rightarrow> length parts)
            in if name_end = 0 then hd parts else join ''_'' (take name_end parts)))"

definition parse_cex_line :: "string \<Rightarrow> named_value option" where
  "parse_cex_line line =
     (case split_once line ''='' of
        None \<Rightarrow> None
      | Some (lhs, rhs) \<Rightarrow>
          (let raw_name = trim lhs; hex = trim rhs in
           if \<not> starts_with hex ''0x'' then None
           else Some \<lparr>nv_name = recover_logical_name raw_name, nv_hex_value = hex\<rparr>))"

text \<open>The loop over the lines; the flag is \<open>in_cex\<close>.\<close>

fun cex_inputs :: "bool \<Rightarrow> string list \<Rightarrow> named_value list" where
  "cex_inputs in_cex [] = []"
| "cex_inputs in_cex (line # ls) =
     (let trimmed = trim line in
      if starts_with trimmed ''Counterexample'' then cex_inputs True ls
      else if \<not> in_cex then cex_inputs in_cex ls
      else if trimmed = [] \<or> starts_with trimmed ''['' \<or> starts_with trimmed ''Symbolic'' then []
      else case parse_cex_line trimmed of
             Some input \<Rightarrow> input # cex_inputs in_cex ls
           | None \<Rightarrow> cex_inputs in_cex ls)"

definition extract_counterexample_inputs :: "string \<Rightarrow> named_value list" where
  "extract_counterexample_inputs text = cex_inputs False (lines text)"

definition halmos_parse :: "string \<Rightarrow> halmos_result" where
  "halmos_parse raw =
     (let text = strip_ansi raw in
      case parse_build_error text of
        Some err \<Rightarrow> err
      | None \<Rightarrow>
        (let property = (case extract_property text of Some p \<Rightarrow> p | None \<Rightarrow> ''<unknown>'');
             wall = (case extract_total_time_ms text of Some t \<Rightarrow> t | None \<Rightarrow> 0) in
         case find_status_line text ''PASS'' of
           Some pass \<Rightarrow>
             HVerified property (case extract_paths pass of Some n \<Rightarrow> n | None \<Rightarrow> 0) wall None
         | None \<Rightarrow>
             if find_status_line text ''TIMEOUT'' \<noteq> None then HTimeout property wall
             else if find_status_line text ''UNKNOWN'' \<noteq> None then
               HUnknown property
                 (case extract_warning text of Some w \<Rightarrow> w | None \<Rightarrow> ''solver returned unknown'') wall
             else if find_status_line text ''FAIL'' \<noteq> None then
               HCounterexample \<lparr>tr_property = property, tr_inputs = extract_counterexample_inputs text,
                                tr_storage_writes = []\<rparr> wall
             else if find_status_line text ''ERROR'' \<noteq> None then
               HError Runtime (case extract_error_message text of Some m \<Rightarrow> m | None \<Rightarrow> text)
             else HError Runtime (''unrecognized halmos output:'' @ [NL] @ trim text)))"

section \<open>Hexadecimal digests\<close>

definition hex_digit :: "u8 \<Rightarrow> char" where
  "hex_digit w = ''0123456789abcdef'' ! unat w"

fun hex_lower :: "u8 list \<Rightarrow> string" where
  "hex_lower [] = []"
| "hex_lower (b # bs) = hex_digit (drop_bit 4 b) # hex_digit (and b 15) # hex_lower bs"

section \<open>The SMT dump\<close>

text \<open>The dump is a directory tree of theory Disk.\<close>

definition rel_join :: "string \<Rightarrow> string \<Rightarrow> string" where
  "rel_join pre fname = (if pre = [] then fname else pre @ ''/'' @ fname)"

fun collect_smt_files :: "string \<Rightarrow> (string \<times> fs_node) list \<Rightarrow> (string \<times> string option) list option" where
  "collect_smt_files pre [] = Some []"
| "collect_smt_files pre ((fname, DirN None) # es) = None"
| "collect_smt_files pre ((fname, DirN (Some sub)) # es) =
     (case collect_smt_files (rel_join pre fname) sub of
        None \<Rightarrow> None
      | Some xs \<Rightarrow> map_option (\<lambda>ys. xs @ ys) (collect_smt_files pre es))"
| "collect_smt_files pre ((fname, FileN body) # es) =
     map_option (\<lambda>ys. (if extension fname = Some ''smt2'' then [(rel_join pre fname, body)] else []) @ ys)
       (collect_smt_files pre es)"

fun dump_bytes :: "(string \<times> string option) list \<Rightarrow> string option" where
  "dump_bytes [] = Some []"
| "dump_bytes ((rel, None) # es) = None"
| "dump_bytes ((rel, Some body) # es) =
     map_option (\<lambda>rest. rel @ [NUL] @ body @ [NUL] @ rest) (dump_bytes es)"

text \<open>\<open>sha\<close> is SHA-256. The outer option is the I/O result, the inner one the code's own.\<close>

definition hash_smt_dump :: "(string \<Rightarrow> u8 list) \<Rightarrow> fs_node \<Rightarrow> string option option" where
  "hash_smt_dump sha dir =
     (case dir of
        DirN (Some es) \<Rightarrow>
          (case collect_smt_files [] es of
             None \<Rightarrow> None
           | Some entries \<Rightarrow>
               if entries = [] then Some None
               else map_option (\<lambda>bytes. Some (hex_lower (sha bytes))) (dump_bytes (sort_key fst entries)))
      | _ \<Rightarrow> None)"

text \<open>
  The destination directory as a map from file names to contents; existing files are kept.
  \<open>wr\<close> says which file names can be written. The state is returned also when the copy stops
  at an I/O error (\<open>None\<close>).
\<close>

fun persist_entries ::
    "(string \<Rightarrow> u8 list) \<Rightarrow> (string \<Rightarrow> bool) \<Rightarrow> (string \<times> string option) list
     \<Rightarrow> nat \<Rightarrow> (string \<rightharpoonup> string) \<Rightarrow> nat option \<times> (string \<rightharpoonup> string)" where
  "persist_entries sha wr [] copied dest = (Some copied, dest)"
| "persist_entries sha wr ((rel, None) # es) copied dest = (None, dest)"
| "persist_entries sha wr ((rel, Some body) # es) copied dest =
     (let f = hex_lower (sha body) @ ''.smt2'' in
      if dest f \<noteq> None then persist_entries sha wr es (copied + 1) dest
      else if wr f then persist_entries sha wr es (copied + 1) (dest(f \<mapsto> body))
      else (None, dest))"

definition persist_smt_files ::
    "(string \<Rightarrow> u8 list) \<Rightarrow> bool \<Rightarrow> (string \<Rightarrow> bool) \<Rightarrow> fs_node \<Rightarrow> (string \<rightharpoonup> string)
     \<Rightarrow> nat option \<times> (string \<rightharpoonup> string)" where
  "persist_smt_files sha mkdir_ok wr dump dest =
     (if \<not> mkdir_ok then (None, dest)
      else case dump of
        DirN (Some es) \<Rightarrow>
          (case collect_smt_files [] es of
             None \<Rightarrow> (None, dest)
           | Some entries \<Rightarrow> persist_entries sha wr entries 0 dest)
      | _ \<Rightarrow> (None, dest))"

definition sanitize_for_path :: "string \<Rightarrow> string" where
  "sanitize_for_path s = map (\<lambda>c. if is_alnum c then c else CHR ''_'') (char_heads s)"

section \<open>Configuration\<close>

record halmos_run =
  hr_project :: string
  hr_check_fn :: string
  hr_wall_clock_ms :: u64
  hr_solver_timeout_ms :: u64
  hr_dump_smt2 :: bool
  hr_dump_smt_directory :: "string option"
  hr_smt_persist_directory :: "string option"
  hr_extra_args :: "string list"

definition halmos_run_new :: "string \<Rightarrow> string \<Rightarrow> halmos_run" where
  "halmos_run_new project check_fn =
     \<lparr>hr_project = project, hr_check_fn = check_fn, hr_wall_clock_ms = 120000,
      hr_solver_timeout_ms = 30000, hr_dump_smt2 = False, hr_dump_smt_directory = None,
      hr_smt_persist_directory = None, hr_extra_args = []\<rparr>"

definition with_extra_arg :: "halmos_run \<Rightarrow> string \<Rightarrow> halmos_run" where
  "with_extra_arg r a = r\<lparr>hr_extra_args := hr_extra_args r @ [a]\<rparr>"

definition with_extra_args :: "halmos_run \<Rightarrow> string list \<Rightarrow> halmos_run" where
  "with_extra_args r as = r\<lparr>hr_extra_args := as\<rparr>"

definition hr_with_wall_clock :: "halmos_run \<Rightarrow> u64 \<Rightarrow> halmos_run" where
  "hr_with_wall_clock r ms = r\<lparr>hr_wall_clock_ms := ms\<rparr>"

definition hr_with_solver_timeout_ms :: "halmos_run \<Rightarrow> u64 \<Rightarrow> halmos_run" where
  "hr_with_solver_timeout_ms r ms = r\<lparr>hr_solver_timeout_ms := ms\<rparr>"

definition with_dump_smt2 :: "halmos_run \<Rightarrow> bool \<Rightarrow> halmos_run" where
  "with_dump_smt2 r b = r\<lparr>hr_dump_smt2 := b\<rparr>"

definition with_dump_smt_directory :: "halmos_run \<Rightarrow> string \<Rightarrow> halmos_run" where
  "with_dump_smt_directory r d = r\<lparr>hr_dump_smt_directory := Some d, hr_dump_smt2 := True\<rparr>"

definition with_smt_persist_directory :: "halmos_run \<Rightarrow> string \<Rightarrow> halmos_run" where
  "with_smt_persist_directory r d = r\<lparr>hr_smt_persist_directory := Some d, hr_dump_smt2 := True\<rparr>"

section \<open>The run\<close>

text \<open>What became of the child process: its two output streams, an I/O error, or the budget elapsed.\<close>

datatype child_result = ChildOutput string string | ChildIoError string | ChildElapsed

text \<open>The answers of the machine one run sees.\<close>

record halmos_env =
  env_is_file :: "string \<Rightarrow> bool"
  env_mkdir :: "string \<Rightarrow> bool"
  env_temp_dir :: string
  env_pid :: nat
  env_child :: "string list \<Rightarrow> u64 \<Rightarrow> child_result"
  env_dump :: "string \<Rightarrow> fs_node"
  env_sha :: "string \<Rightarrow> u8 list"
  env_write :: "string \<Rightarrow> bool"

definition resolve_dump_dir :: "halmos_env \<Rightarrow> halmos_run \<Rightarrow> string option" where
  "resolve_dump_dir env cfg =
     (case hr_dump_smt_directory cfg of
        Some p \<Rightarrow> if env_mkdir env p then Some p else None
      | None \<Rightarrow>
          (let base = path_join (env_temp_dir env)
                        (''vergil-halmos-smt-'' @ sanitize_for_path (hr_check_fn cfg) @ ''-''
                           @ show_nat (env_pid env))
           in if env_mkdir env base then Some base else None))"

definition halmos_args :: "halmos_run \<Rightarrow> string option \<Rightarrow> string list" where
  "halmos_args cfg dump_dir =
     [''--function'', hr_check_fn cfg, ''--solver-timeout-assertion'',
      show_nat (unat (hr_solver_timeout_ms cfg))]
     @ (case dump_dir of Some d \<Rightarrow> [''--dump-smt-queries'', ''--dump-smt-directory'', d] | None \<Rightarrow> [])
     @ hr_extra_args cfg"

text \<open>A hash is attached to a verified result only; an unreadable or empty dump leaves it out.\<close>

definition attach_hash ::
    "halmos_env \<Rightarrow> halmos_run \<Rightarrow> string option \<Rightarrow> halmos_result \<Rightarrow> (string \<rightharpoonup> string)
     \<Rightarrow> halmos_result \<times> (string \<rightharpoonup> string)" where
  "attach_hash env cfg dump_dir parsed dest =
     (case (dump_dir, parsed) of
        (Some dir, HVerified p n w h) \<Rightarrow>
          (case hash_smt_dump (env_sha env) (env_dump env dir) of
             Some (Some hash) \<Rightarrow>
               (HVerified p n w (Some hash),
                case hr_smt_persist_directory cfg of
                  Some persist \<Rightarrow>
                    snd (persist_smt_files (env_sha env) (env_mkdir env persist) (env_write env)
                           (env_dump env dir) dest)
                | None \<Rightarrow> dest)
           | _ \<Rightarrow> (parsed, dest))
      | _ \<Rightarrow> (parsed, dest))"

definition halmos_exec ::
    "halmos_env \<Rightarrow> halmos_run \<Rightarrow> (string \<rightharpoonup> string) \<Rightarrow> halmos_result \<times> (string \<rightharpoonup> string)" where
  "halmos_exec env cfg dest =
     (if \<not> env_is_file env (path_join (hr_project cfg) ''foundry.toml'') then
        (HError Runtime (''no foundry.toml in project dir: '' @ hr_project cfg), dest)
      else
        (let dump_dir = (if hr_dump_smt2 cfg then resolve_dump_dir env cfg else None) in
         case env_child env (halmos_args cfg dump_dir) (hr_wall_clock_ms cfg) of
           ChildOutput out err \<Rightarrow> attach_hash env cfg dump_dir (halmos_parse (out @ err)) dest
         | ChildIoError e \<Rightarrow> (HError Runtime (''failed to spawn halmos: '' @ e), dest)
         | ChildElapsed \<Rightarrow> (HTimeout (hr_check_fn cfg) (hr_wall_clock_ms cfg), dest)))"

definition halmos_run_simple ::
    "halmos_env \<Rightarrow> string \<Rightarrow> string \<Rightarrow> u64 \<Rightarrow> (string \<rightharpoonup> string) \<Rightarrow> halmos_result \<times> (string \<rightharpoonup> string)" where
  "halmos_run_simple env project check_fn budget dest =
     halmos_exec env (hr_with_wall_clock (halmos_run_new project check_fn) budget) dest"

definition halmos_run_with_args ::
    "halmos_env \<Rightarrow> string \<Rightarrow> string \<Rightarrow> u64 \<Rightarrow> string list \<Rightarrow> (string \<rightharpoonup> string)
     \<Rightarrow> halmos_result \<times> (string \<rightharpoonup> string)" where
  "halmos_run_with_args env project check_fn budget args dest =
     halmos_exec env
       (with_extra_args (hr_with_wall_clock (halmos_run_new project check_fn) budget) args) dest"

section \<open>Facts on the parser\<close>

lemma set_strip_ansi: "ESC \<notin> set (strip_ansi s)"
  by (induction s rule: strip_ansi.induct) (auto split: list.splits)

lemma strip_ansi_id: "ESC \<notin> set s \<Longrightarrow> strip_ansi s = s"
  by (induction s rule: strip_ansi.induct) auto

definition has_status :: "string \<Rightarrow> string \<Rightarrow> bool" where
  "has_status tag text \<longleftrightarrow> list_ex (\<lambda>l. contains l (status_tag tag)) (lines text)"

definition build_failed :: "string \<Rightarrow> bool" where
  "build_failed text \<longleftrightarrow> contains text ''Build failed:'' \<or> contains text ''Compiler run failed:''"

lemma find_status_line_None: "find_status_line text tag = None \<longleftrightarrow> \<not> has_status tag text"
  by (auto simp: find_status_line_def has_status_def find_None_iff list_ex_iff)

lemma find_status_line_Some: "find_status_line text tag = Some l \<Longrightarrow> has_status tag text"
  using find_status_line_None[of "text" tag] by simp

lemma parse_build_error_cases:
  "parse_build_error text = (if build_failed text then
     Some (HError Build (if join [NL] (filter build_error_line (lines text)) = [] then text
                         else join [NL] (filter build_error_line (lines text)))) else None)"
  by (simp add: parse_build_error_def build_failed_def Let_def)

lemma halmos_parse_build: "build_failed (strip_ansi raw) \<Longrightarrow> \<exists>m. halmos_parse raw = HError Build m"
  by (simp add: halmos_parse_def Let_def parse_build_error_cases)

lemma halmos_parse_pass:
  "\<not> build_failed (strip_ansi raw) \<Longrightarrow> find_status_line (strip_ansi raw) ''PASS'' = Some l \<Longrightarrow>
     halmos_parse raw =
       HVerified (case extract_property (strip_ansi raw) of Some p \<Rightarrow> p | None \<Rightarrow> ''<unknown>'')
         (case extract_paths l of Some n \<Rightarrow> n | None \<Rightarrow> 0)
         (case extract_total_time_ms (strip_ansi raw) of Some t \<Rightarrow> t | None \<Rightarrow> 0) None"
  by (simp add: halmos_parse_def Let_def parse_build_error_cases)

lemma halmos_parse_not_pass:
  "\<not> build_failed (strip_ansi raw) \<Longrightarrow> find_status_line (strip_ansi raw) ''PASS'' = None \<Longrightarrow>
     halmos_parse raw \<noteq> HVerified p n w h"
  by (simp add: halmos_parse_def Let_def parse_build_error_cases)

lemma parse_HVerified_iff:
  "(\<exists>p n w h. halmos_parse raw = HVerified p n w h) \<longleftrightarrow>
     \<not> build_failed (strip_ansi raw) \<and> has_status ''PASS'' (strip_ansi raw)"
proof (cases "build_failed (strip_ansi raw)")
  case True
  with halmos_parse_build[OF True] show ?thesis by auto
next
  case False
  then show ?thesis
    using halmos_parse_pass[OF False] halmos_parse_not_pass[OF False]
      find_status_line_None[of "strip_ansi raw" "''PASS''"]
    by (cases "find_status_line (strip_ansi raw) ''PASS''") auto
qed

lemma parse_sha_None: "halmos_parse raw = HVerified p n w h \<Longrightarrow> h = None"
  using halmos_parse_build[of raw] halmos_parse_pass[of raw] halmos_parse_not_pass[of raw]
  by (cases "build_failed (strip_ansi raw)"; cases "find_status_line (strip_ansi raw) ''PASS''") auto

lemma cex_inputs_hex: "nv \<in> set (cex_inputs b ls) \<Longrightarrow> starts_with (nv_hex_value nv) ''0x''"
  by (induction b ls rule: cex_inputs.induct)
     (auto simp: Let_def parse_cex_line_def split: if_splits option.splits)

section \<open>Facts on digests and dumps\<close>

lemma hex_digit_inj: "unat a < 16 \<Longrightarrow> unat b < 16 \<Longrightarrow> hex_digit a = hex_digit b \<Longrightarrow> a = b"
proof -
  assume ab: "unat a < 16" "unat b < 16" "hex_digit a = hex_digit b"
  have "distinct ''0123456789abcdef''" by simp
  then have "unat a = unat b"
    using ab by (simp add: hex_digit_def nth_eq_iff_index_eq)
  then show "a = b" by (simp add: word_unat_eq_iff)
qed

lemma nibble_bounds: "unat (drop_bit 4 (b :: u8)) < 16" "unat (and b 15) < 16"
proof -
  have "unat b < 256" using unsigned_less[of b] by simp
  then have "drop_bit 4 (unat b) < 16"
    by (simp add: drop_bit_eq_div)
  then show "unat (drop_bit 4 b) < 16"
    by (simp only: unat_drop_bit_eq)
  have "and b 15 = take_bit 4 b"
    by (simp add: take_bit_eq_mask mask_eq_exp_minus_1)
  moreover have "unat (take_bit 4 b) < 2 ^ 4"
    by (simp only: unsigned_take_bit_eq take_bit_nat_less_exp)
  ultimately show "unat (and b 15) < 16" by simp
qed

lemma byte_of_nibbles: "drop_bit 4 a = drop_bit 4 b \<Longrightarrow> and a 15 = and b 15 \<Longrightarrow> a = (b :: u8)"
proof -
  assume h: "drop_bit 4 a = drop_bit 4 b" and l: "and a 15 = and b 15"
  have m: "and x 15 = take_bit 4 x" for x :: u8
    by (simp add: take_bit_eq_mask mask_eq_exp_minus_1)
  have "a = push_bit 4 (drop_bit 4 a) + take_bit 4 a"
    by (simp add: bits_ident)
  also have "\<dots> = push_bit 4 (drop_bit 4 b) + take_bit 4 b"
    using h l by (simp add: m)
  also have "\<dots> = b" by (simp add: bits_ident)
  finally show "a = b" .
qed

lemma hex_lower_inj: "hex_lower xs = hex_lower ys \<Longrightarrow> xs = ys"
proof (induction xs arbitrary: ys)
  case Nil
  then show ?case by (cases ys) auto
next
  case (Cons x xs)
  then obtain y ys' where y: "ys = y # ys'" by (cases ys) auto
  with Cons.prems have "hex_digit (drop_bit 4 x) = hex_digit (drop_bit 4 y)"
    "hex_digit (and x 15) = hex_digit (and y 15)" "hex_lower xs = hex_lower ys'"
    by auto
  then have "x = y" "xs = ys'"
    using Cons.IH hex_digit_inj nibble_bounds byte_of_nibbles by metis+
  with y show ?case by simp
qed

lemma length_hex_lower: "length (hex_lower bs) = 2 * length bs"
  by (induction bs) auto

lemma sort_key_unique:
  assumes "mset xs = mset ys" and "distinct (map f xs)"
  shows "sort_key f xs = sort_key f ys"
proof (rule sort_key_eq_sort_key)
  show "mset xs = mset ys" by fact
  show "inj_on f (set xs)" using assms(2) by (simp add: distinct_map)
qed

section \<open>Facts on the run\<close>

lemma attach_hash_kind:
  "fst (attach_hash env cfg dd r dest) = HVerified p n w h \<Longrightarrow> \<exists>h'. r = HVerified p n w h'"
  by (auto simp: attach_hash_def split: option.splits halmos_result.splits)

lemma attach_hash_keeps:
  "(\<nexists>p n w h. r = HVerified p n w h) \<Longrightarrow> attach_hash env cfg dd r dest = (r, dest)"
  by (cases r) (auto simp: attach_hash_def split: option.splits)

lemma attach_hash_sha:
  "fst (attach_hash env cfg dd (HVerified p n w None) dest) = HVerified p n w (Some h) \<Longrightarrow>
     \<exists>dir. dd = Some dir \<and> hash_smt_dump (env_sha env) (env_dump env dir) = Some (Some h)"
  by (auto simp: attach_hash_def split: option.splits)

lemma halmos_exec_Verified:
  "(fst (halmos_exec env cfg dest) = HVerified p n w h) \<Longrightarrow>
     env_is_file env (path_join (hr_project cfg) ''foundry.toml'')
     \<and> (\<exists>out err.
          env_child env
            (halmos_args cfg (if hr_dump_smt2 cfg then resolve_dump_dir env cfg else None))
            (hr_wall_clock_ms cfg) = ChildOutput out err
          \<and> halmos_parse (out @ err) = HVerified p n w None)"
proof -
  assume v: "fst (halmos_exec env cfg dest) = HVerified p n w h"
  let ?dd = "if hr_dump_smt2 cfg then resolve_dump_dir env cfg else None"
  have f: "env_is_file env (path_join (hr_project cfg) ''foundry.toml'')"
    using v by (auto simp: halmos_exec_def split: if_splits)
  obtain out err where c: "env_child env (halmos_args cfg ?dd) (hr_wall_clock_ms cfg) = ChildOutput out err"
    using v f by (cases "env_child env (halmos_args cfg ?dd) (hr_wall_clock_ms cfg)")
      (simp_all add: halmos_exec_def Let_def)
  then have "fst (attach_hash env cfg ?dd (halmos_parse (out @ err)) dest) = HVerified p n w h"
    using v f by (simp add: halmos_exec_def Let_def)
  then obtain h' where r: "halmos_parse (out @ err) = HVerified p n w h'"
    using attach_hash_kind by blast
  with parse_sha_None have "halmos_parse (out @ err) = HVerified p n w None" by metis
  with f c show ?thesis by blast
qed

text \<open>A directory of query files is content-addressed when every file is named by its digest.\<close>

definition content_addressed :: "(string \<Rightarrow> u8 list) \<Rightarrow> (string \<rightharpoonup> string) \<Rightarrow> bool" where
  "content_addressed sha dest \<longleftrightarrow> (\<forall>f body. dest f = Some body \<longrightarrow> f = hex_lower (sha body) @ ''.smt2'')"

lemma content_addressed_upd:
  "content_addressed sha dest \<Longrightarrow>
     content_addressed sha (dest(hex_lower (sha body) @ ''.smt2'' \<mapsto> body))"
  by (simp add: content_addressed_def)

lemma persist_entries_Some:
  "persist_entries sha wr ((rel, Some body) # es) k dest =
     (if dest (hex_lower (sha body) @ ''.smt2'') \<noteq> None then persist_entries sha wr es (k + 1) dest
      else if wr (hex_lower (sha body) @ ''.smt2'')
      then persist_entries sha wr es (k + 1) (dest(hex_lower (sha body) @ ''.smt2'' \<mapsto> body))
      else (None, dest))"
  by (simp add: Let_def)

lemma persist_entries_addressed:
  "content_addressed sha dest \<Longrightarrow> content_addressed sha (snd (persist_entries sha wr es k dest))"
proof (induction es arbitrary: k dest)
  case Nil
  then show ?case by simp
next
  case (Cons e es)
  obtain rel ob where e: "e = (rel, ob)" by (cases e)
  show ?case
  proof (cases ob)
    case None
    with Cons.prems e show ?thesis by simp
  next
    case (Some b)
    have A: "content_addressed sha (snd (persist_entries sha wr es (k + 1) dest))"
      using Cons.prems by (rule Cons.IH)
    have B: "content_addressed sha
        (snd (persist_entries sha wr es (k + 1) (dest(hex_lower (sha b) @ ''.smt2'' \<mapsto> b))))"
      using content_addressed_upd[OF Cons.prems] by (rule Cons.IH)
    show ?thesis
      unfolding e Some persist_entries_Some using A B Cons.prems by (simp only: snd_conv split: if_split) blast
  qed
qed

lemma persist_entries_keeps:
  "dest f = Some body \<Longrightarrow> snd (persist_entries sha wr es k dest) f = Some body"
proof (induction es arbitrary: k dest)
  case Nil
  then show ?case by simp
next
  case (Cons e es)
  obtain rel ob where e: "e = (rel, ob)" by (cases e)
  show ?case
  proof (cases ob)
    case None
    with Cons.prems e show ?thesis by simp
  next
    case (Some b)
    let ?f = "hex_lower (sha b) @ ''.smt2''"
    have A: "snd (persist_entries sha wr es (k + 1) dest) f = Some body"
      using Cons.prems by (rule Cons.IH)
    have B: "snd (persist_entries sha wr es (k + 1) (dest(?f \<mapsto> b))) f = Some body" if "dest ?f = None"
      by (rule Cons.IH) (use that Cons.prems in auto)
    show ?thesis
      unfolding e Some persist_entries_Some using A B Cons.prems by (simp only: snd_conv split: if_split) blast
  qed
qed

lemma persist_entries_all:
  "persist_entries sha wr es k dest = (Some m, dest') \<Longrightarrow>
     m = k + length es \<and> list_all (\<lambda>(r, b). b \<noteq> None \<and> hex_lower (sha (the b)) @ ''.smt2'' \<in> dom dest') es"
proof (induction es arbitrary: k dest)
  case Nil
  then show ?case by simp
next
  case (Cons e es)
  obtain rel ob where e: "e = (rel, ob)" by (cases e)
  with Cons.prems obtain b where b: "ob = Some b" by (cases ob) auto
  let ?f = "hex_lower (sha b) @ ''.smt2''"
  obtain dest1 v where d: "dest1 ?f = Some v" "persist_entries sha wr es (k + 1) dest1 = (Some m, dest')"
  proof (cases "dest ?f")
    case None
    with Cons.prems have "persist_entries sha wr es (k + 1) (dest(?f \<mapsto> b)) = (Some m, dest')"
      unfolding e b persist_entries_Some by (simp only: split: if_splits) simp_all
    then show ?thesis by (intro that[of "dest(?f \<mapsto> b)" b]) (simp_all only: fun_upd_same)
  next
    case (Some v)
    with Cons.prems have "persist_entries sha wr es (k + 1) dest = (Some m, dest')"
      unfolding e b persist_entries_Some by (simp only: split: if_splits) simp_all
    with Some show ?thesis by (intro that)
  qed
  have "snd (persist_entries sha wr es (k + 1) dest1) ?f = Some v"
    using d(1) by (rule persist_entries_keeps)
  with d(2) have "?f \<in> dom dest'" by auto
  with Cons.IH[OF d(2)] show ?case
    unfolding e b by simp
qed

section \<open>Properties\<close>

text \<open>Halmos' console output is read as a proof exactly when, after colour codes are stripped,
  it reports no failed build and some line carries the PASS tag; in particular a FAIL, TIMEOUT,
  UNKNOWN or ERROR line elsewhere in the output does not prevent it.\<close>

theorem halmos_verified_iff:
  "(\<exists>p n w h. halmos_parse raw = HVerified p n w h) =
     (\<not> build_failed (strip_ansi raw) \<and> has_status ''PASS'' (strip_ansi raw))"
  by (rule parse_HVerified_iff)


definition demo_env :: halmos_env where
  "demo_env = \<lparr>env_is_file = (\<lambda>_. True), env_mkdir = (\<lambda>_. True), env_temp_dir = ''/tmp'', env_pid = 7,
     env_child = (\<lambda>_ _. ChildOutput ''[PASS] check_a() (paths: 3, time: 0.1s)'' []),
     env_dump = (\<lambda>_. DirN (Some [])), env_sha = (\<lambda>_. [0]), env_write = (\<lambda>_. True)\<rparr>"

lemma demo_parse: "halmos_parse ''[PASS] check_a() (paths: 3, time: 0.1s)'' = HVerified ''check_a()'' 3 0 None"
  by code_simp

lemma demo_exec:
  "fst (halmos_exec demo_env (halmos_run_new ''p'' ''check_a'') Map.empty) = HVerified ''check_a()'' 3 0 None"
  by (simp add: halmos_exec_def demo_env_def halmos_run_new_def demo_parse attach_hash_def)


text \<open>With several tests in one output the parser can name the wrong one: here the output says
  that \<open>check_a\<close> fails and \<open>check_b\<close> passes, and the parsed result is that \<open>check_a\<close> is
  verified.\<close>

theorem halmos_pass_shadows_fail:
  "halmos_parse (''[FAIL] check_a()'' @ [NL] @ ''[PASS] check_b()'') = HVerified ''check_a()'' 0 0 None"
  by code_simp

text \<open>Stripping colour codes leaves no escape character and does not touch text without one, so
  it is idempotent.\<close>

theorem strip_ansi_clean:
  "ESC \<notin> set (strip_ansi s) \<and> strip_ansi (strip_ansi s) = strip_ansi s"
  using set_strip_ansi strip_ansi_id by blast

text \<open>The digest of a query dump does not depend on the order in which the file system lists the
  entries: two walks that collect the same files, under distinct relative paths, give the same
  outcome, and the outcome is "no hash" exactly when there is no \<open>.smt2\<close> file.\<close>

theorem hash_smt_dump_order_independent:
  assumes "collect_smt_files [] es1 = Some fs1" and "collect_smt_files [] es2 = Some fs2"
    and "mset fs1 = mset fs2" and "distinct (map fst fs1)"
  shows "hash_smt_dump sha (DirN (Some es1)) = hash_smt_dump sha (DirN (Some es2))
     \<and> (hash_smt_dump sha (DirN (Some es1)) = Some None) = (fs1 = [])"
proof -
  have "sort_key fst fs1 = sort_key fst fs2"
    using assms(3,4) by (rule sort_key_unique)
  moreover have "fs1 = [] \<longleftrightarrow> fs2 = []"
    using assms(3) by auto
  ultimately show ?thesis
    using assms(1,2) by (auto simp: hash_smt_dump_def)
qed

theorem hash_smt_dump_order_independent_witness:
  "hash_smt_dump (\<lambda>_. [1]) (DirN (Some [(''a.smt2'', FileN (Some ''x'')), (''b.smt2'', FileN (Some ''y''))]))
   = hash_smt_dump (\<lambda>_. [1]) (DirN (Some [(''b.smt2'', FileN (Some ''y'')), (''a.smt2'', FileN (Some ''x''))]))"
proof -
  have e: "extension ''a.smt2'' = Some ''smt2''" "extension ''b.smt2'' = Some ''smt2''"
    by (simp_all add: extension_def rfind_sub_def)
  show ?thesis
    by (rule hash_smt_dump_order_independent
          [of _ "[(''a.smt2'', Some ''x''), (''b.smt2'', Some ''y'')]" _
              "[(''b.smt2'', Some ''y''), (''a.smt2'', Some ''x'')]", THEN conjunct1])
       (simp_all add: e rel_join_def)
qed

text \<open>Persisting a dump keeps the query directory content-addressed (every file is named by the
  digest of its bytes), never overwrites a file that was there, and a successful return counts
  every collected file and finds each of them in the directory.\<close>

theorem persist_keeps_content_addressed:
  assumes "content_addressed sha dest" and "collect_smt_files [] es = Some fs"
    and "persist_smt_files sha True wr (DirN (Some es)) dest = (Some m, dest')"
  shows "content_addressed sha dest' \<and> dest \<subseteq>\<^sub>m dest' \<and> m = length fs
     \<and> list_all (\<lambda>(r, b). b \<noteq> None \<and> hex_lower (sha (the b)) @ ''.smt2'' \<in> dom dest') fs"
proof -
  have p: "persist_entries sha wr fs 0 dest = (Some m, dest')"
    using assms(2,3) by (simp add: persist_smt_files_def)
  have "content_addressed sha dest'"
    using persist_entries_addressed[OF assms(1), of wr fs 0] p by simp
  moreover have "dest \<subseteq>\<^sub>m dest'"
    unfolding map_le_def
  proof
    fix f
    assume "f \<in> dom dest"
    then obtain body where f: "dest f = Some body" by blast
    then have "snd (persist_entries sha wr fs 0 dest) f = Some body"
      by (rule persist_entries_keeps)
    with f p show "dest f = dest' f" by simp
  qed
  ultimately show ?thesis
    using persist_entries_all[OF p] by simp
qed

theorem persist_keeps_content_addressed_witness:
  "content_addressed (\<lambda>_. [255]) [''ff.smt2'' \<mapsto> ''x'']"
proof -
  have e: "extension ''a.smt2'' = Some ''smt2''"
    by (simp add: extension_def rfind_sub_def)
  show ?thesis
    by (rule persist_keeps_content_addressed
          [of _ Map.empty "[(''a.smt2'', FileN (Some ''x''))]" "[(''a.smt2'', Some ''x'')]" "\<lambda>_. True" 1,
           THEN conjunct1])
       (simp_all add: content_addressed_def e rel_join_def persist_smt_files_def hex_digit_def)
qed

text \<open>The lower-case hexadecimal form of a digest has two characters for each byte and
  determines the digest.\<close>

theorem hex_lower_faithful:
  "length (hex_lower xs) = 2 * length xs \<and> (hex_lower xs = hex_lower ys) = (xs = ys)"
  using length_hex_lower hex_lower_inj by blast

end
