(* ===== verification/SmtChecker.thy ===== *)
theory SmtChecker
  imports Halmos Json
begin

text \<open>
  The SMTChecker wrapper (\<open>crates/vergil-solidity/src/smtchecker.rs\<close>): the three passes that
  classify the diagnostics of \<open>solc\<close>, the digest of the printed queries, the configuration and
  the run. Reading JSON (\<open>decode\<close>, \<open>query_messages\<close>), writing it (\<open>render\<close>), the child
  process and SHA-256 are parameters.
\<close>

section \<open>Results\<close>

datatype property_kind = Assertion | Overflow | Underflow | DivisionByZero | OutOfBounds | Other

datatype smt_result =
    SVerified (sv_count: u32) (sv_wall_clock_ms: u64) (sv_sha: "string option")
  | SViolation (sx_kind: property_kind) (sx_message: string) (sx_wall_clock_ms: u64)
  | SUnknownR (su_reason: string) (su_wall_clock_ms: u64)
  | SError (se_message: string)

record solc_diagnostic =
  sd_severity :: string
  sd_message :: string

section \<open>Classifying diagnostics\<close>

definition is_chc_message :: "string \<Rightarrow> bool" where
  "is_chc_message m \<longleftrightarrow> contains m ''CHC:'' \<or> contains m ''BMC:''"

definition mentions_violation :: "string \<Rightarrow> bool" where
  "mentions_violation m \<longleftrightarrow>
     contains m ''happens here'' \<or> contains m ''violated'' \<or> contains m ''Assertion violation''"

definition classify_property :: "string \<Rightarrow> property_kind" where
  "classify_property m =
     (let l = to_lower m in
      if contains l ''overflow'' then Overflow
      else if contains l ''underflow'' then Underflow
      else if contains l ''division by zero'' then DivisionByZero
      else if contains l ''out of bounds'' \<or> contains l ''index out of'' then OutOfBounds
      else if contains l ''assert'' then Assertion
      else Other)"

definition parse_count_from_message :: "string \<Rightarrow> u32 option" where
  "parse_count_from_message m =
     (case split_once m ''CHC:'' of
        None \<Rightarrow> None
      | Some (_, after) \<Rightarrow>
          (case split_whitespace (trim_start after) of
             [] \<Rightarrow> None
           | t # _ \<Rightarrow> map_option word_of_nat (parse_uint 32 t)))"

fun first_hard_error :: "solc_diagnostic list \<Rightarrow> smt_result option" where
  "first_hard_error [] = None"
| "first_hard_error (d # ds) =
     (if sd_severity d = ''error'' \<and> \<not> is_chc_message (sd_message d) then Some (SError (sd_message d))
      else first_hard_error ds)"

definition says_safe :: "string \<Rightarrow> bool" where
  "says_safe m \<longleftrightarrow> contains m ''check is safe'' \<or> contains m ''proved safe''"

definition says_unknown :: "string \<Rightarrow> bool" where
  "says_unknown m \<longleftrightarrow>
     contains m ''could not be proved'' \<or> contains m ''could not prove'' \<or> contains m ''unknown''"

fun first_finding :: "solc_diagnostic list \<Rightarrow> smt_result option" where
  "first_finding [] = None"
| "first_finding (d # ds) =
     (let m = sd_message d in
      if \<not> is_chc_message m then first_finding ds
      else if says_safe m then first_finding ds
      else if contains m ''Counterexample'' \<or> mentions_violation m
        then Some (SViolation (classify_property m) m 0)
      else if says_unknown m then Some (SUnknownR m 0)
      else first_finding ds)"

text \<open>The counters of the third pass: \<open>aggregated\<close>, \<open>individual\<close>, \<open>chc_diag_count\<close>.\<close>

fun tally :: "solc_diagnostic list \<Rightarrow> u32 \<times> u32 \<times> nat \<Rightarrow> u32 \<times> u32 \<times> nat" where
  "tally [] acc = acc"
| "tally (d # ds) (agg, ind, n) =
     (let m = sd_message d in
      if \<not> is_chc_message m then tally ds (agg, ind, n)
      else if contains m ''proved safe'' then
        tally ds ((case parse_count_from_message m of Some k \<Rightarrow> max agg k | None \<Rightarrow> agg), ind, n + 1)
      else if contains m ''check is safe'' then tally ds (agg, ind + 1, n + 1)
      else tally ds (agg, ind, n + 1))"

definition classify_diagnostics :: "solc_diagnostic list \<Rightarrow> smt_result" where
  "classify_diagnostics ds =
     (case first_hard_error ds of
        Some e \<Rightarrow> e
      | None \<Rightarrow>
          (case first_finding ds of
             Some r \<Rightarrow> r
           | None \<Rightarrow>
               (case tally ds (0, 0, 0) of (agg, ind, n) \<Rightarrow>
                  if n = 0 then
                    SUnknownR ''solc emitted no CHC diagnostics (model checker did not engage)'' 0
                  else SVerified (max agg ind) 0 None)))"

definition parse_standard_json ::
    "(string \<Rightarrow> string + solc_diagnostic list) \<Rightarrow> string \<Rightarrow> smt_result" where
  "parse_standard_json decode js =
     (case decode js of
        Inl e \<Rightarrow> SError (''invalid solc JSON: '' @ e)
      | Inr ds \<Rightarrow> classify_diagnostics ds)"

section \<open>The digest of the printed queries\<close>

definition query_prefix :: string where
  "query_prefix = ''CHC: Requested query:''"

text \<open>The messages in emission order; a diagnostic without a message ends the extraction with no digest.\<close>

fun query_bytes :: "string option list \<Rightarrow> bool \<Rightarrow> string \<Rightarrow> (bool \<times> string) option" where
  "query_bytes [] found acc = Some (found, acc)"
| "query_bytes (None # ms) found acc = None"
| "query_bytes (Some m # ms) found acc =
     (case strip_prefix m query_prefix of
        None \<Rightarrow> query_bytes ms found acc
      | Some body \<Rightarrow> query_bytes ms True (acc @ trim_start body @ [NUL]))"

definition extract_query_hash ::
    "(string \<Rightarrow> u8 list) \<Rightarrow> (string \<Rightarrow> string option list option) \<Rightarrow> string \<Rightarrow> string option" where
  "extract_query_hash sha query_messages stdout =
     (case query_messages stdout of
        None \<Rightarrow> None
      | Some ms \<Rightarrow>
          (case query_bytes ms False [] of
             None \<Rightarrow> None
           | Some (found, bytes) \<Rightarrow> if found then Some (hex_lower (sha bytes)) else None))"

section \<open>Configuration and run\<close>

record smt_run =
  sm_project :: string
  sm_source :: string
  sm_wall_clock_ms :: u64
  sm_solver_timeout_ms :: u64
  sm_print_query :: bool

definition smt_run_new :: "string \<Rightarrow> string \<Rightarrow> smt_run" where
  "smt_run_new project source =
     \<lparr>sm_project = project, sm_source = source, sm_wall_clock_ms = 120000,
      sm_solver_timeout_ms = 30000, sm_print_query = False\<rparr>"

definition sm_with_wall_clock :: "smt_run \<Rightarrow> u64 \<Rightarrow> smt_run" where
  "sm_with_wall_clock r ms = r\<lparr>sm_wall_clock_ms := ms\<rparr>"

definition sm_with_solver_timeout_ms :: "smt_run \<Rightarrow> u64 \<Rightarrow> smt_run" where
  "sm_with_solver_timeout_ms r ms = r\<lparr>sm_solver_timeout_ms := ms\<rparr>"

definition sm_with_print_query :: "smt_run \<Rightarrow> bool \<Rightarrow> smt_run" where
  "sm_with_print_query r b = r\<lparr>sm_print_query := b\<rparr>"

fun annotate_wall_clock :: "smt_result \<Rightarrow> u64 \<Rightarrow> smt_result" where
  "annotate_wall_clock (SVerified n _ h) ms = SVerified n ms h"
| "annotate_wall_clock (SViolation k m _) ms = SViolation k m ms"
| "annotate_wall_clock (SUnknownR r _) ms = SUnknownR r ms"
| "annotate_wall_clock (SError m) ms = SError m"

definition model_checker_settings :: "smt_run \<Rightarrow> json" where
  "model_checker_settings cfg =
     JObj ([(''engine'', JStr ''chc''),
            (''targets'', JArr (map JStr [''assert'', ''overflow'', ''underflow'', ''divByZero'', ''outOfBounds''])),
            (''timeout'', JNum (uint (sm_solver_timeout_ms cfg))),
            (''showProvedSafe'', JBool True),
            (''solvers'', JArr (map JStr [''z3'', ''smtlib2'']))]
           @ (if sm_print_query cfg then [(''printQuery'', JBool True)] else []))"

definition solc_input :: "smt_run \<Rightarrow> string \<Rightarrow> string \<Rightarrow> json" where
  "solc_input cfg source_key content =
     JObj [(''language'', JStr ''Solidity''),
           (''sources'', JObj [(source_key, JObj [(''content'', JStr content)])]),
           (''settings'', JObj
              [(''modelChecker'', model_checker_settings cfg),
               (''outputSelection'', JObj [(''*'', JObj [(''*'', JArr [JStr ''abi''])])])])]"

text \<open>What became of \<open>solc\<close>; the last two carry the elapsed milliseconds.\<close>

datatype solc_child =
    SolcSpawnFailed string
  | SolcStdinFailed string
  | SolcWaitFailed string
  | SolcElapsed u64
  | SolcOutput string u64

record smt_env =
  se_is_file :: "string \<Rightarrow> bool"
  se_read :: "string \<Rightarrow> string + string"
  se_file_name :: "string \<Rightarrow> string option"
  se_render :: "json \<Rightarrow> string"
  se_child :: "string \<Rightarrow> u64 \<Rightarrow> solc_child"
  se_decode :: "string \<Rightarrow> string + solc_diagnostic list"
  se_query_messages :: "string \<Rightarrow> string option list option"
  se_sha :: "string \<Rightarrow> u8 list"

definition smt_finish :: "smt_env \<Rightarrow> smt_run \<Rightarrow> string \<Rightarrow> u64 \<Rightarrow> smt_result" where
  "smt_finish env cfg stdout elapsed_ms =
     (let parsed = annotate_wall_clock (parse_standard_json (se_decode env) stdout) elapsed_ms in
      if sm_print_query cfg then
        (case parsed of
           SVerified n w _ \<Rightarrow> SVerified n w (extract_query_hash (se_sha env) (se_query_messages env) stdout)
         | _ \<Rightarrow> parsed)
      else parsed)"

definition smt_exec :: "smt_env \<Rightarrow> smt_run \<Rightarrow> smt_result" where
  "smt_exec env cfg =
     (if \<not> se_is_file env (sm_source cfg) then SError (''source not found: '' @ sm_source cfg)
      else case se_read env (sm_source cfg) of
        Inl e \<Rightarrow> SError (''could not read source '' @ sm_source cfg @ '': '' @ e)
      | Inr content \<Rightarrow>
          (let source_key = (case se_file_name env (sm_source cfg) of
                               Some n \<Rightarrow> n | None \<Rightarrow> ''source.sol'');
               input = solc_input cfg source_key content in
           case se_child env (se_render env input) (sm_wall_clock_ms cfg) of
             SolcSpawnFailed e \<Rightarrow> SError (''failed to spawn solc: '' @ e)
           | SolcStdinFailed e \<Rightarrow> SError (''failed writing to solc stdin: '' @ e)
           | SolcWaitFailed e \<Rightarrow> SError (''solc wait failed: '' @ e)
           | SolcElapsed ms \<Rightarrow> SUnknownR ''wall-clock budget exceeded'' ms
           | SolcOutput out ms \<Rightarrow> smt_finish env cfg out ms))"

definition smt_run_simple :: "smt_env \<Rightarrow> string \<Rightarrow> string \<Rightarrow> u64 \<Rightarrow> smt_result" where
  "smt_run_simple env project source budget =
     smt_exec env (sm_with_wall_clock (smt_run_new project source) budget)"

section \<open>Facts\<close>

definition hard_error :: "solc_diagnostic \<Rightarrow> bool" where
  "hard_error d \<longleftrightarrow> sd_severity d = ''error'' \<and> \<not> is_chc_message (sd_message d)"

definition chc_diag :: "solc_diagnostic \<Rightarrow> bool" where
  "chc_diag d \<longleftrightarrow> is_chc_message (sd_message d)"

text \<open>A model-checker message that the second pass turns into a verdict.\<close>

definition adverse :: "solc_diagnostic \<Rightarrow> bool" where
  "adverse d \<longleftrightarrow> chc_diag d \<and> \<not> says_safe (sd_message d)
     \<and> (contains (sd_message d) ''Counterexample'' \<or> mentions_violation (sd_message d)
        \<or> says_unknown (sd_message d))"

lemma first_hard_error_None: "first_hard_error ds = None \<longleftrightarrow> \<not> list_ex hard_error ds"
  by (induction ds) (auto simp: hard_error_def)

lemma first_hard_error_Some: "first_hard_error ds = Some r \<Longrightarrow> \<exists>m. r = SError m"
  by (induction ds) (auto split: if_splits)

lemma first_finding_None: "first_finding ds = None \<longleftrightarrow> \<not> list_ex adverse ds"
  by (induction ds) (auto simp: Let_def adverse_def chc_diag_def)

lemma first_finding_Some:
  "first_finding ds = Some r \<Longrightarrow>
     (\<exists>d k. d \<in> set ds \<and> adverse d \<and>
        (r = SViolation k (sd_message d) 0 \<or> r = SUnknownR (sd_message d) 0))"
proof (induction ds)
  case Nil
  then show ?case by simp
next
  case (Cons d ds)
  show ?case
  proof (cases "adverse d")
    case True
    with Cons.prems show ?thesis
      by (auto simp: Let_def adverse_def chc_diag_def split: if_splits)
  next
    case False
    then have "first_finding (d # ds) = first_finding ds"
      by (auto simp: Let_def adverse_def chc_diag_def)
    with Cons show ?thesis by auto
  qed
qed

lemma tally_count: "snd (snd (tally ds (a, i, n))) = n + length (filter chc_diag ds)"
  by (induction ds arbitrary: a i n) (simp_all add: Let_def chc_diag_def)

lemma tally_zero: "snd (snd (tally ds (0, 0, 0))) = 0 \<longleftrightarrow> \<not> list_ex chc_diag ds"
  by (auto simp: tally_count filter_empty_conv list_ex_iff)

lemma classify_Verified_iff:
  "(\<exists>n w h. classify_diagnostics ds = SVerified n w h) \<longleftrightarrow>
     \<not> list_ex hard_error ds \<and> \<not> list_ex adverse ds \<and> list_ex chc_diag ds"
proof (cases "list_ex hard_error ds \<or> list_ex adverse ds")
  case True
  then show ?thesis
    using first_hard_error_None[of ds] first_hard_error_Some[of ds] first_finding_None[of ds]
      first_finding_Some[of ds]
    by (cases "first_hard_error ds"; cases "first_finding ds") (fastforce simp: classify_diagnostics_def)+
next
  case False
  then have "first_hard_error ds = None" "first_finding ds = None"
    by (simp_all add: first_hard_error_None first_finding_None)
  then show ?thesis
    using False tally_zero[of ds] by (auto simp: classify_diagnostics_def split: prod.splits)
qed

lemma annotate_Verified: "annotate_wall_clock r ms = SVerified n w h \<longleftrightarrow> (\<exists>w'. r = SVerified n w' h) \<and> w = ms"
  by (cases r) auto

lemma smt_finish_Verified:
  "smt_finish env cfg out ms = SVerified n w h \<Longrightarrow>
     w = ms \<and> (\<exists>w' h'. parse_standard_json (se_decode env) out = SVerified n w' h')"
  by (cases "parse_standard_json (se_decode env) out")
     (auto simp: smt_finish_def Let_def split: if_splits)

lemma smt_exec_Verified:
  assumes "smt_exec env cfg = SVerified n w h"
  shows "\<exists>content key out. se_read env (sm_source cfg) = Inr content
     \<and> se_child env (se_render env (solc_input cfg key content)) (sm_wall_clock_ms cfg) = SolcOutput out w
     \<and> (\<exists>w' h'. parse_standard_json (se_decode env) out = SVerified n w' h')"
proof -
  have f: "se_is_file env (sm_source cfg)"
    using assms by (auto simp: smt_exec_def split: if_splits)
  with assms obtain content where c: "se_read env (sm_source cfg) = Inr content"
    by (auto simp: smt_exec_def split: sum.splits)
  let ?key = "case se_file_name env (sm_source cfg) of Some n \<Rightarrow> n | None \<Rightarrow> ''source.sol''"
  let ?child = "se_child env (se_render env (solc_input cfg ?key content)) (sm_wall_clock_ms cfg)"
  obtain out ms where o: "?child = SolcOutput out ms"
    using assms f c by (cases ?child) (simp_all add: smt_exec_def Let_def)
  then have "smt_finish env cfg out ms = SVerified n w h"
    using assms f c by (simp add: smt_exec_def Let_def)
  with smt_finish_Verified o c show ?thesis by blast
qed

lemma smt_exec_Verified_diagnostics:
  assumes "smt_exec env cfg = SVerified n w h"
  shows "\<exists>content key out ds. se_read env (sm_source cfg) = Inr content
     \<and> se_child env (se_render env (solc_input cfg key content)) (sm_wall_clock_ms cfg) = SolcOutput out w
     \<and> se_decode env out = Inr ds
     \<and> \<not> list_ex hard_error ds \<and> \<not> list_ex adverse ds \<and> list_ex chc_diag ds"
proof -
  from smt_exec_Verified[OF assms] obtain content key out
    where e: "se_read env (sm_source cfg) = Inr content"
      "se_child env (se_render env (solc_input cfg key content)) (sm_wall_clock_ms cfg) = SolcOutput out w"
      and "\<exists>w' h'. parse_standard_json (se_decode env) out = SVerified n w' h'"
    by blast
  then have "\<exists>n w h. parse_standard_json (se_decode env) out = SVerified n w h" by blast
  then obtain ds where "se_decode env out = Inr ds" "\<not> list_ex hard_error ds" "\<not> list_ex adverse ds"
    "list_ex chc_diag ds"
    by (auto simp: parse_standard_json_def classify_Verified_iff split: sum.splits)
  with e show ?thesis by blast
qed

section \<open>Properties\<close>

text \<open>The diagnostics of \<open>solc\<close> count as a proof exactly when the output decodes, no diagnostic is a
  hard compiler error, at least one comes from the model checker, and none of the model
  checker's messages that are not worded as safe mentions a counterexample, a violation or an
  unproved target. An engine that did not engage is never a proof.\<close>

theorem smt_verified_iff:
  "(\<exists>n w h. parse_standard_json decode js = SVerified n w h) =
     (\<exists>ds. decode js = Inr ds \<and> \<not> list_ex hard_error ds \<and> \<not> list_ex adverse ds \<and> list_ex chc_diag ds)"
  by (auto simp: parse_standard_json_def classify_Verified_iff[symmetric] split: sum.splits)

text \<open>C8: A run of the model checker reports a proof only when the source was read, \<open>solc\<close> finished
  within the budget on the input built from that source, and its output satisfies the
  criterion above; the reported time is the measured one.\<close>

theorem smt_exec_sound:
  assumes "smt_exec env cfg = SVerified n w h"
  shows "\<exists>content key out ds. se_read env (sm_source cfg) = Inr content
     \<and> se_child env (se_render env (solc_input cfg key content)) (sm_wall_clock_ms cfg) = SolcOutput out w
     \<and> se_decode env out = Inr ds
     \<and> \<not> list_ex hard_error ds \<and> \<not> list_ex adverse ds \<and> list_ex chc_diag ds"
  using assms by (rule smt_exec_Verified_diagnostics)

definition demo_smt_env :: smt_env where
  "demo_smt_env = \<lparr>se_is_file = (\<lambda>_. True), se_read = (\<lambda>_. Inr ''contract C {}''),
     se_file_name = (\<lambda>_. Some ''C.sol''), se_render = (\<lambda>_. []),
     se_child = (\<lambda>_ _. SolcOutput ''out'' 12),
     se_decode = (\<lambda>_. Inr [\<lparr>sd_severity = ''info'', sd_message = ''CHC: Overflow check is safe!''\<rparr>]),
     se_query_messages = (\<lambda>_. None), se_sha = (\<lambda>_. [])\<rparr>"

theorem smt_exec_sound_witness:
  "\<exists>out ds. se_decode demo_smt_env out = Inr ds \<and> list_ex chc_diag ds"
proof -
  have "classify_diagnostics [\<lparr>sd_severity = ''info'', sd_message = ''CHC: Overflow check is safe!''\<rparr>]
      = SVerified 1 0 None"
    by code_simp
  then have "smt_exec demo_smt_env (smt_run_new ''p'' ''C.sol'') = SVerified 1 12 None"
    by (simp add: smt_exec_def smt_finish_def demo_smt_env_def smt_run_new_def parse_standard_json_def)
  from smt_exec_sound[OF this] show ?thesis by blast
qed

text \<open>The criterion accepts more than it should: the message \<open>solc\<close> prints for an overflow target
  it could not prove ("might happen here") is none of the adverse wordings, so a run whose only
  finding is an undecided overflow is reported as verified, with no target proved safe.\<close>

theorem undecided_overflow_is_verified:
  "classify_diagnostics
     [\<lparr>sd_severity = ''warning'',
       sd_message = ''CHC: Overflow (resulting value larger than 2**256 - 1) might happen here.''\<rparr>]
   = SVerified 0 0 None"
  by code_simp

text \<open>The same wording for an assertion is read as a violation although the model checker only
  failed to decide it.\<close>

theorem undecided_assertion_is_violation:
  "classify_diagnostics
     [\<lparr>sd_severity = ''warning'', sd_message = ''CHC: Assertion violation might happen here.''\<rparr>]
   = SViolation Assertion ''CHC: Assertion violation might happen here.'' 0"
  by code_simp

end
