(* ===== verification/Portfolio.thy ===== *)
theory Portfolio
  imports SmtChecker
begin

text \<open>
  Portfolio dispatch (\<open>crates/vergil-core/src/portfolio.rs\<close>): both back ends run concurrently
  and the first definitive verdict wins. Each turn of the \<open>select!\<close> loop is a step of an
  inductive relation on the loop's local variables, so every interleaving the runtime may
  choose is a run; a schedule makes the same loop a function. A task's join result is its
  value or a panic message.
\<close>

section \<open>Verdicts and outcomes\<close>

datatype backend = BHalmos | BSmtChecker

datatype backend_state = BVerified | BCounterexample | BUnknown | BTimeout | BError

record backend_outcome =
  bo_backend :: backend
  bo_state :: backend_state
  bo_detail :: string
  bo_wall_clock_ms :: u64
  bo_sha :: "string option"

datatype verdict =
    VVerified backend u64 "string option"
  | VCounterexample backend string string u64
  | VUnknown "backend_outcome list"
  | VError "backend_outcome list"

record portfolio_result =
  pr_property :: string
  pr_verdict :: verdict

record portfolio_config =
  pc_project :: string
  pc_property :: string
  pc_smtchecker_source :: string
  pc_budget_ms :: u64
  pc_capture_smt_queries :: bool
  pc_smt_persist_dir :: "string option"

definition with_smt_capture :: "portfolio_config \<Rightarrow> portfolio_config" where
  "with_smt_capture c =
     (let c' = c\<lparr>pc_capture_smt_queries := True\<rparr> in
      if pc_smt_persist_dir c' = None
      then c'\<lparr>pc_smt_persist_dir := Some (path_join (path_join (pc_project c') ''vergil-out'') ''smt'')\<rparr>
      else c')"

section \<open>From a back end's result to an outcome\<close>

definition outcome :: "backend \<Rightarrow> backend_state \<Rightarrow> string \<Rightarrow> u64 \<Rightarrow> string option \<Rightarrow> backend_outcome" where
  "outcome b st d ms sha =
     \<lparr>bo_backend = b, bo_state = st, bo_detail = d, bo_wall_clock_ms = ms, bo_sha = sha\<rparr>"

fun halmos_to_outcome :: "string + halmos_result \<Rightarrow> backend_outcome" where
  "halmos_to_outcome (Inl e) = outcome BHalmos BError (''halmos task panic: '' @ e) 0 None"
| "halmos_to_outcome (Inr (HVerified p n ms sha)) = outcome BHalmos BVerified ''verified'' ms sha"
| "halmos_to_outcome (Inr (HCounterexample tr ms)) =
     outcome BHalmos BCounterexample
       (''counterexample with '' @ show_nat (length (tr_inputs tr)) @ '' inputs'') ms None"
| "halmos_to_outcome (Inr (HUnknown p reason ms)) = outcome BHalmos BUnknown reason ms None"
| "halmos_to_outcome (Inr (HTimeout p ms)) = outcome BHalmos BTimeout ''wall-clock timeout'' ms None"
| "halmos_to_outcome (Inr (HError stage message)) =
     outcome BHalmos BError (error_stage_str stage @ '' error: '' @ message) 0 None"

fun smt_to_outcome :: "string + smt_result \<Rightarrow> backend_outcome" where
  "smt_to_outcome (Inl e) = outcome BSmtChecker BError (''smtchecker task panic: '' @ e) 0 None"
| "smt_to_outcome (Inr (SVerified n ms sha)) =
     outcome BSmtChecker BVerified (show_nat (unat n) @ '' target(s) proved safe'') ms sha"
| "smt_to_outcome (Inr (SViolation k message ms)) = outcome BSmtChecker BCounterexample message ms None"
| "smt_to_outcome (Inr (SUnknownR reason ms)) = outcome BSmtChecker BUnknown reason ms None"
| "smt_to_outcome (Inr (SError message)) = outcome BSmtChecker BError message 0 None"

definition try_definitive :: "backend_outcome \<Rightarrow> string \<Rightarrow> verdict option" where
  "try_definitive o1 property =
     (case bo_state o1 of
        BVerified \<Rightarrow> Some (VVerified (bo_backend o1) (bo_wall_clock_ms o1) (bo_sha o1))
      | BCounterexample \<Rightarrow>
          Some (VCounterexample (bo_backend o1) property (bo_detail o1) (bo_wall_clock_ms o1))
      | _ \<Rightarrow> None)"

section \<open>The select loop\<close>

text \<open>
  The local variables of \<open>dispatch\<close> while the loop runs. A pending task holds the join
  result it will deliver; an aborted task is no longer pending and delivers nothing.
\<close>

record select_state =
  pending_halmos :: "(string + halmos_result) option"
  pending_smt :: "(string + smt_result) option"
  halmos_outcome :: "backend_outcome option"
  smt_outcome :: "backend_outcome option"
  definitive :: "verdict option"

definition select_start :: "string + halmos_result \<Rightarrow> string + smt_result \<Rightarrow> select_state" where
  "select_start h s =
     \<lparr>pending_halmos = Some h, pending_smt = Some s, halmos_outcome = None, smt_outcome = None,
      definitive = None\<rparr>"

text \<open>The bodies of the two branches; a definitive verdict aborts the other task and leaves the loop.\<close>

definition halmos_branch :: "string \<Rightarrow> string + halmos_result \<Rightarrow> select_state \<Rightarrow> select_state" where
  "halmos_branch property res st =
     (let o1 = halmos_to_outcome res in
      case try_definitive o1 property of
        Some v \<Rightarrow> st\<lparr>pending_halmos := None, definitive := Some v, pending_smt := None,
                    halmos_outcome := Some o1\<rparr>
      | None \<Rightarrow> st\<lparr>pending_halmos := None, halmos_outcome := Some o1\<rparr>)"

definition smt_branch :: "string \<Rightarrow> string + smt_result \<Rightarrow> select_state \<Rightarrow> select_state" where
  "smt_branch property res st =
     (let o1 = smt_to_outcome res in
      case try_definitive o1 property of
        Some v \<Rightarrow> st\<lparr>pending_smt := None, definitive := Some v, pending_halmos := None,
                    smt_outcome := Some o1\<rparr>
      | None \<Rightarrow> st\<lparr>pending_smt := None, smt_outcome := Some o1\<rparr>)"

text \<open>Which pending task the runtime finds finished is not determined.\<close>

inductive select_step :: "string \<Rightarrow> select_state \<Rightarrow> select_state \<Rightarrow> bool" for property where
  halmos_done: "definitive st = None \<Longrightarrow> pending_halmos st = Some res \<Longrightarrow>
     select_step property st (halmos_branch property res st)"
| smt_done: "definitive st = None \<Longrightarrow> pending_smt st = Some res \<Longrightarrow>
     select_step property st (smt_branch property res st)"

inductive_cases select_stepE: "select_step property st st'"

inductive select_run :: "string \<Rightarrow> select_state \<Rightarrow> select_state \<Rightarrow> bool" for property where
  finished: "definitive st \<noteq> None \<or> pending_halmos st = None \<and> pending_smt st = None \<Longrightarrow>
     select_run property st st"
| turn: "select_step property st st' \<Longrightarrow> select_run property st' st'' \<Longrightarrow> select_run property st st''"

definition aggregate :: "select_state \<Rightarrow> verdict" where
  "aggregate st =
     (case definitive st of
        Some v \<Rightarrow> v
      | None \<Rightarrow>
          (let all = (case halmos_outcome st of Some o1 \<Rightarrow> [o1] | None \<Rightarrow> [])
                   @ (case smt_outcome st of Some o1 \<Rightarrow> [o1] | None \<Rightarrow> []);
               only_errors = (all \<noteq> [] \<and> list_all (\<lambda>o1. bo_state o1 = BError) all)
           in if only_errors then VError all else VUnknown all))"

text \<open>The loop as a function: \<open>halmos_first\<close> says whether Halmos is the first to be found finished.\<close>

definition dispatch_loop :: "bool \<Rightarrow> string \<Rightarrow> string + halmos_result \<Rightarrow> string + smt_result \<Rightarrow> select_state" where
  "dispatch_loop halmos_first property h s =
     (let st = select_start h s;
          st1 = (if halmos_first then halmos_branch property h st else smt_branch property s st) in
      if definitive st1 \<noteq> None then st1
      else if halmos_first then smt_branch property s st1 else halmos_branch property h st1)"

text \<open>
  The whole dispatch: the two tasks as the configuration builds them, an arbitrary panic
  message in place of a result, and the loop. \<open>dest\<close> is the content of the persist directory.
\<close>

definition halmos_task_cfg :: "portfolio_config \<Rightarrow> halmos_run" where
  "halmos_task_cfg c =
     (let run_cfg = hr_with_wall_clock (halmos_run_new (pc_project c) (pc_property c)) (pc_budget_ms c) in
      if pc_capture_smt_queries c then
        (let run_cfg = with_dump_smt2 run_cfg True in
         case pc_smt_persist_dir c of
           Some persist \<Rightarrow> with_smt_persist_directory run_cfg persist
         | None \<Rightarrow> run_cfg)
      else run_cfg)"

definition smt_task_cfg :: "(string \<Rightarrow> string option) \<Rightarrow> portfolio_config \<Rightarrow> smt_run" where
  "smt_task_cfg parent c =
     (let src = pc_smtchecker_source c;
          dummy_project = (case parent src of Some p \<Rightarrow> p | None \<Rightarrow> ''.'');
          run_cfg = sm_with_wall_clock (smt_run_new dummy_project src) (pc_budget_ms c) in
      if pc_capture_smt_queries c then sm_with_print_query run_cfg True else run_cfg)"

definition portfolio_dispatch ::
    "halmos_env \<Rightarrow> smt_env \<Rightarrow> (string \<Rightarrow> string option) \<Rightarrow> (string \<rightharpoonup> string)
     \<Rightarrow> string option \<Rightarrow> string option \<Rightarrow> bool \<Rightarrow> portfolio_config \<Rightarrow> portfolio_result" where
  "portfolio_dispatch henv senv parent dest hpanic spanic halmos_first c =
     (let h = (case hpanic of Some e \<Rightarrow> Inl e
                 | None \<Rightarrow> Inr (fst (halmos_exec henv (halmos_task_cfg c) dest)));
          s = (case spanic of Some e \<Rightarrow> Inl e | None \<Rightarrow> Inr (smt_exec senv (smt_task_cfg parent c)))
      in \<lparr>pr_property = pc_property c,
          pr_verdict = aggregate (dispatch_loop halmos_first (pc_property c) h s)\<rparr>)"

section \<open>Every interleaving is one of the two schedules\<close>

lemma branch_simps [simp]:
  "pending_halmos (halmos_branch p r st) = None"
  "pending_smt (smt_branch p s st) = None"
  "definitive st = None \<Longrightarrow> definitive (halmos_branch p r st) = try_definitive (halmos_to_outcome r) p"
  "definitive st = None \<Longrightarrow> definitive (smt_branch p s st) = try_definitive (smt_to_outcome s) p"
  "halmos_outcome (halmos_branch p r st) = Some (halmos_to_outcome r)"
  "smt_outcome (smt_branch p s st) = Some (smt_to_outcome s)"
  "smt_outcome (halmos_branch p r st) = smt_outcome st"
  "halmos_outcome (smt_branch p s st) = halmos_outcome st"
  by (simp_all add: halmos_branch_def smt_branch_def Let_def split: option.splits)

lemma branch_pending:
  "pending_smt (halmos_branch p r st) =
     (if try_definitive (halmos_to_outcome r) p = None then pending_smt st else None)"
  "pending_halmos (smt_branch p s st) =
     (if try_definitive (smt_to_outcome s) p = None then pending_halmos st else None)"
  by (simp_all add: halmos_branch_def smt_branch_def Let_def split: option.splits)

lemma select_start_simps [simp]:
  "definitive (select_start h s) = None"
  "pending_halmos (select_start h s) = Some h"
  "pending_smt (select_start h s) = Some s"
  "halmos_outcome (select_start h s) = None"
  "smt_outcome (select_start h s) = None"
  by (simp_all add: select_start_def)

text \<open>What is still owed to the loop: at most two tasks, and each turn settles one.\<close>

definition tasks_left :: "select_state \<Rightarrow> nat" where
  "tasks_left st = (if pending_halmos st = None then 0 else 1) + (if pending_smt st = None then 0 else 1)"

lemma select_step_decreases: "select_step p st st' \<Longrightarrow> tasks_left st' < tasks_left st"
  by (erule select_stepE) (simp_all add: tasks_left_def branch_pending)

lemma select_progress:
  "definitive st = None \<Longrightarrow> pending_halmos st \<noteq> None \<or> pending_smt st \<noteq> None \<Longrightarrow>
     \<exists>st'. select_step p st st'"
  by (auto intro: select_step.intros)

lemma select_run_exists: "\<exists>st'. select_run p st st'"
proof (induction "tasks_left st" arbitrary: st rule: less_induct)
  case less
  show ?case
  proof (cases "definitive st \<noteq> None \<or> pending_halmos st = None \<and> pending_smt st = None")
    case True
    then show ?thesis by (blast intro: select_run.finished)
  next
    case False
    then obtain st1 where s: "select_step p st st1"
      using select_progress by blast
    from less.hyps[OF select_step_decreases[OF s]] obtain st2 where "select_run p st1 st2" by blast
    with s show ?thesis by (blast intro: select_run.turn)
  qed
qed

inductive_cases select_runE: "select_run p st st'"

lemma select_run_finished:
  "select_run p st st' \<Longrightarrow> definitive st \<noteq> None \<or> pending_halmos st = None \<and> pending_smt st = None \<Longrightarrow> st' = st"
  by (erule select_runE) (auto elim: select_stepE)

lemma run_after_halmos:
  assumes "select_run p st st'" and "definitive st = None" "pending_halmos st = None" "pending_smt st = Some s"
  shows "st' = smt_branch p s st"
  using assms(1)
proof (cases rule: select_run.cases)
  case finished
  with assms show ?thesis by simp
next
  case (turn st1)
  from turn(1) assms have "st1 = smt_branch p s st" by (auto elim: select_stepE)
  moreover have "st' = st1"
    using turn(2) \<open>st1 = _\<close> assms by (intro select_run_finished) (simp_all add: branch_pending)
  ultimately show ?thesis by simp
qed

lemma run_after_smt:
  assumes "select_run p st st'" and "definitive st = None" "pending_halmos st = Some h" "pending_smt st = None"
  shows "st' = halmos_branch p h st"
  using assms(1)
proof (cases rule: select_run.cases)
  case finished
  with assms show ?thesis by simp
next
  case (turn st1)
  from turn(1) assms have "st1 = halmos_branch p h st" by (auto elim: select_stepE)
  moreover have "st' = st1"
    using turn(2) \<open>st1 = _\<close> assms by (intro select_run_finished) (simp_all add: branch_pending)
  ultimately show ?thesis by simp
qed

lemma select_run_schedule:
  "select_run p (select_start h s) st' \<Longrightarrow> \<exists>first. st' = dispatch_loop first p h s"
proof -
  assume r: "select_run p (select_start h s) st'"
  then obtain st1 where s1: "select_step p (select_start h s) st1" and r1: "select_run p st1 st'"
    by (cases rule: select_run.cases) auto
  from s1 have "st1 = halmos_branch p h (select_start h s) \<or> st1 = smt_branch p s (select_start h s)"
    by (auto elim: select_stepE)
  then show ?thesis
  proof
    assume e: "st1 = halmos_branch p h (select_start h s)"
    show ?thesis
    proof (cases "definitive st1")
      case None
      with e have "st' = smt_branch p s st1"
        using r1 by (intro run_after_halmos) (simp_all add: branch_pending)
      with None e show ?thesis
        by (intro exI[of _ True]) (simp add: dispatch_loop_def)
    next
      case (Some v)
      with r1 have "st' = st1" by (intro select_run_finished) simp_all
      with Some e show ?thesis
        by (intro exI[of _ True]) (simp add: dispatch_loop_def)
    qed
  next
    assume e: "st1 = smt_branch p s (select_start h s)"
    show ?thesis
    proof (cases "definitive st1")
      case None
      with e have "st' = halmos_branch p h st1"
        using r1 by (intro run_after_smt) (simp_all add: branch_pending)
      with None e show ?thesis
        by (intro exI[of _ False]) (simp add: dispatch_loop_def)
    next
      case (Some v)
      with r1 have "st' = st1" by (intro select_run_finished) simp_all
      with Some e show ?thesis
        by (intro exI[of _ False]) (simp add: dispatch_loop_def)
    qed
  qed
qed

section \<open>The interface of a back end\<close>

text \<open>
  What the portfolio relies on: the outcome carries the back end's own name, and a task that
  panicked is an error. The rest follows from \<open>try_definitive\<close>.
\<close>

locale back_end =
  fixes conv :: "string + 'r \<Rightarrow> backend_outcome"
    and self :: backend
  assumes conv_backend: "bo_backend (conv r) = self"
    and conv_panic: "bo_state (conv (Inl e)) = BError"
begin

lemma definitive_cases:
  assumes "try_definitive (conv r) p = Some v"
  shows "bo_state (conv r) = BVerified \<and> v = VVerified self (bo_wall_clock_ms (conv r)) (bo_sha (conv r))
    \<or> bo_state (conv r) = BCounterexample
      \<and> v = VCounterexample self p (bo_detail (conv r)) (bo_wall_clock_ms (conv r))"
  using assms conv_backend[of r] by (auto simp: try_definitive_def split: backend_state.splits)

lemma panic_not_definitive: "try_definitive (conv (Inl e)) p = None"
  by (simp add: try_definitive_def conv_panic)

lemma error_not_definitive: "bo_state (conv r) = BError \<Longrightarrow> try_definitive (conv r) p = None"
  by (simp add: try_definitive_def)

lemma verified_iff:
  "(\<exists>b ms sha. try_definitive (conv r) p = Some (VVerified b ms sha)) \<longleftrightarrow> bo_state (conv r) = BVerified"
  by (auto simp: try_definitive_def split: backend_state.splits)

end

interpretation hb: back_end halmos_to_outcome BHalmos
proof unfold_locales
  show "bo_backend (halmos_to_outcome r) = BHalmos" for r
    by (cases r rule: halmos_to_outcome.cases) (simp_all add: outcome_def)
  show "bo_state (halmos_to_outcome (Inl e)) = BError" for e
    by (simp add: outcome_def)
qed

interpretation sb: back_end smt_to_outcome BSmtChecker
proof unfold_locales
  show "bo_backend (smt_to_outcome r) = BSmtChecker" for r
    by (cases r rule: smt_to_outcome.cases) (simp_all add: outcome_def)
  show "bo_state (smt_to_outcome (Inl e)) = BError" for e
    by (simp add: outcome_def)
qed

section \<open>What the loop computes\<close>

definition definitive_of_halmos :: "string \<Rightarrow> string + halmos_result \<Rightarrow> verdict option" where
  "definitive_of_halmos p h = try_definitive (halmos_to_outcome h) p"

definition definitive_of_smt :: "string \<Rightarrow> string + smt_result \<Rightarrow> verdict option" where
  "definitive_of_smt p s = try_definitive (smt_to_outcome s) p"

text \<open>The specification: the first definitive answer in completion order, else the aggregate.\<close>

definition portfolio_spec :: "bool \<Rightarrow> string \<Rightarrow> string + halmos_result \<Rightarrow> string + smt_result \<Rightarrow> verdict" where
  "portfolio_spec halmos_first p h s =
     (let hv = definitive_of_halmos p h; sv = definitive_of_smt p s;
          both = [halmos_to_outcome h, smt_to_outcome s];
          none = (if list_all (\<lambda>o1. bo_state o1 = BError) both then VError both else VUnknown both) in
      case (if halmos_first then hv else sv) of
        Some v \<Rightarrow> v
      | None \<Rightarrow> (case (if halmos_first then sv else hv) of Some v \<Rightarrow> v | None \<Rightarrow> none))"

lemma aggregate_dispatch_loop: "aggregate (dispatch_loop first p h s) = portfolio_spec first p h s"
proof (cases first)
  case True
  show ?thesis
    by (cases "definitive_of_halmos p h"; cases "definitive_of_smt p s")
       (simp_all add: True dispatch_loop_def portfolio_spec_def aggregate_def definitive_of_halmos_def
         definitive_of_smt_def)
next
  case False
  show ?thesis
    by (cases "definitive_of_halmos p h"; cases "definitive_of_smt p s")
       (simp_all add: False dispatch_loop_def portfolio_spec_def aggregate_def definitive_of_halmos_def
         definitive_of_smt_def)
qed

lemma definitive_of_halmos_Verified:
  "definitive_of_halmos p h = Some (VVerified b ms sha) \<longleftrightarrow>
     b = BHalmos \<and> (\<exists>q n. h = Inr (HVerified q n ms sha))"
  by (cases h rule: halmos_to_outcome.cases)
     (auto simp: definitive_of_halmos_def try_definitive_def outcome_def)

lemma definitive_of_smt_Verified:
  "definitive_of_smt p s = Some (VVerified b ms sha) \<longleftrightarrow>
     b = BSmtChecker \<and> (\<exists>n. s = Inr (SVerified n ms sha))"
  by (cases s rule: smt_to_outcome.cases)
     (auto simp: definitive_of_smt_def try_definitive_def outcome_def)

lemma portfolio_spec_Verified:
  "portfolio_spec first p h s = VVerified b ms sha \<Longrightarrow>
     definitive_of_halmos p h = Some (VVerified b ms sha) \<or> definitive_of_smt p s = Some (VVerified b ms sha)"
  by (cases "definitive_of_halmos p h"; cases "definitive_of_smt p s")
     (auto simp: portfolio_spec_def Let_def split: if_splits)

lemma portfolio_spec_Error:
  "portfolio_spec first p h s = VError bs \<longleftrightarrow>
     bo_state (halmos_to_outcome h) = BError \<and> bo_state (smt_to_outcome s) = BError
     \<and> bs = [halmos_to_outcome h, smt_to_outcome s]"
proof -
  have h: "definitive_of_halmos p h \<noteq> Some (VError bs)" "definitive_of_smt p s \<noteq> Some (VError bs)"
    using hb.definitive_cases[of h p] sb.definitive_cases[of s p]
    by (auto simp: definitive_of_halmos_def definitive_of_smt_def)
  have n: "bo_state (halmos_to_outcome h) = BError \<Longrightarrow> definitive_of_halmos p h = None"
    "bo_state (smt_to_outcome s) = BError \<Longrightarrow> definitive_of_smt p s = None"
    unfolding definitive_of_halmos_def definitive_of_smt_def
    by (rule hb.error_not_definitive, assumption) (rule sb.error_not_definitive, assumption)
  show ?thesis
    using h n by (cases "definitive_of_halmos p h"; cases "definitive_of_smt p s")
      (auto simp: portfolio_spec_def Let_def)
qed

lemma portfolio_spec_agree:
  "definitive_of_halmos p h = None \<or> definitive_of_smt p s = None \<Longrightarrow>
     portfolio_spec first p h s = portfolio_spec first' p h s"
  by (auto simp: portfolio_spec_def Let_def split: option.splits)

lemma dispatch_loop_run: "select_run p (select_start h s) (dispatch_loop first p h s)"
proof (cases first)
  case True
  let ?st = "halmos_branch p h (select_start h s)"
  have s1: "select_step p (select_start h s) ?st" by (rule select_step.halmos_done) simp_all
  show ?thesis
  proof (cases "definitive ?st")
    case None
    then have s2: "select_step p ?st (smt_branch p s ?st)"
      by (intro select_step.smt_done) (simp_all add: branch_pending)
    from None have "select_run p (smt_branch p s ?st) (smt_branch p s ?st)"
      by (intro select_run.finished) (simp add: branch_pending)
    from select_run.turn[OF s1 select_run.turn[OF s2 this]] None True show ?thesis
      by (simp add: dispatch_loop_def)
  next
    case (Some v)
    then have "select_run p ?st ?st" by (intro select_run.finished) simp
    from select_run.turn[OF s1 this] Some True show ?thesis
      by (simp add: dispatch_loop_def)
  qed
next
  case False
  let ?st = "smt_branch p s (select_start h s)"
  have s1: "select_step p (select_start h s) ?st" by (rule select_step.smt_done) simp_all
  show ?thesis
  proof (cases "definitive ?st")
    case None
    then have s2: "select_step p ?st (halmos_branch p h ?st)"
      by (intro select_step.halmos_done) (simp_all add: branch_pending)
    from None have "select_run p (halmos_branch p h ?st) (halmos_branch p h ?st)"
      by (intro select_run.finished) (simp add: branch_pending)
    from select_run.turn[OF s1 select_run.turn[OF s2 this]] None False show ?thesis
      by (simp add: dispatch_loop_def)
  next
    case (Some v)
    then have "select_run p ?st ?st" by (intro select_run.finished) simp
    from select_run.turn[OF s1 this] Some False show ?thesis
      by (simp add: dispatch_loop_def)
  qed
qed

text \<open>A Verified verdict always rests on the output of a back end that ran to its end within the budget
  and did not panic: for Halmos, in a directory with a \<open>foundry.toml\<close>, an output with a PASS line and no
  build failure; for SMTChecker, on the source as read, diagnostics without a hard error and without an
  adverse CHC message, at least one of them from the CHC engine.\<close>

lemma portfolio_verified_source:
  "case pr_verdict (portfolio_dispatch henv senv parent dest hpanic spanic halmos_first c) of
     VVerified BHalmos ms sha \<Rightarrow>
       hpanic = None \<and> env_is_file henv (path_join (pc_project c) ''foundry.toml'')
       \<and> (\<exists>args out err. env_child henv args (pc_budget_ms c) = ChildOutput out err
            \<and> \<not> build_failed (strip_ansi (out @ err)) \<and> has_status ''PASS'' (strip_ansi (out @ err)))
   | VVerified BSmtChecker ms sha \<Rightarrow>
       spanic = None
       \<and> (\<exists>content key out ds. se_read senv (pc_smtchecker_source c) = Inr content
            \<and> se_child senv (se_render senv (solc_input (smt_task_cfg parent c) key content)) (pc_budget_ms c)
                = SolcOutput out ms
            \<and> se_decode senv out = Inr ds
            \<and> \<not> list_ex hard_error ds \<and> \<not> list_ex adverse ds \<and> list_ex chc_diag ds)
   | _ \<Rightarrow> True"
proof (cases "pr_verdict (portfolio_dispatch henv senv parent dest hpanic spanic halmos_first c)")
  case (VVerified b ms sha)
  let ?h = "case hpanic of Some e \<Rightarrow> Inl e | None \<Rightarrow> Inr (fst (halmos_exec henv (halmos_task_cfg c) dest))"
  let ?s = "case spanic of Some e \<Rightarrow> Inl e | None \<Rightarrow> Inr (smt_exec senv (smt_task_cfg parent c))"
  have "portfolio_spec halmos_first (pc_property c) ?h ?s = VVerified b ms sha"
    using VVerified by (simp add: portfolio_dispatch_def Let_def aggregate_dispatch_loop)
  from portfolio_spec_Verified[OF this]
  consider (h) q n where "b = BHalmos" "?h = Inr (HVerified q n ms sha)"
    | (s) n where "b = BSmtChecker" "?s = Inr (SVerified n ms sha)"
    unfolding definitive_of_halmos_Verified definitive_of_smt_Verified by blast
  then show ?thesis
  proof cases
    case h
    then have p: "hpanic = None" "fst (halmos_exec henv (halmos_task_cfg c) dest) = HVerified q n ms sha"
      by (auto split: option.splits)
    have cfg: "hr_project (halmos_task_cfg c) = pc_project c" "hr_wall_clock_ms (halmos_task_cfg c) = pc_budget_ms c"
      by (simp_all add: halmos_task_cfg_def Let_def hr_with_wall_clock_def halmos_run_new_def with_dump_smt2_def
          with_smt_persist_directory_def split: option.split)
    from halmos_exec_Verified[OF p(2)] obtain args out err where
      f: "env_is_file henv (path_join (pc_project c) ''foundry.toml'')"
      and ch: "env_child henv args (pc_budget_ms c) = ChildOutput out err"
      and pv: "halmos_parse (out @ err) = HVerified q n ms None"
      unfolding cfg by blast
    from pv have "\<exists>p n w h. halmos_parse (out @ err) = HVerified p n w h" by blast
    with f ch p(1) h(1) show ?thesis unfolding VVerified parse_HVerified_iff by auto
  next
    case s
    then have p: "spanic = None" "smt_exec senv (smt_task_cfg parent c) = SVerified n ms sha"
      by (auto split: option.splits)
    have cfg: "sm_source (smt_task_cfg parent c) = pc_smtchecker_source c"
      "sm_wall_clock_ms (smt_task_cfg parent c) = pc_budget_ms c"
      by (simp_all add: smt_task_cfg_def Let_def sm_with_wall_clock_def smt_run_new_def sm_with_print_query_def)
    from smt_exec_Verified_diagnostics[OF p(2)] p(1) s(1) show ?thesis
      unfolding VVerified cfg by auto
  qed
qed simp_all

section \<open>Properties\<close>

text \<open>C6: The verdicts that the interleavings of the select loop can end with are exactly the two
  of the specification: the definitive answer of the back end that finished first, else the
  definitive answer of the other, else the aggregate of both outcomes.\<close>

theorem portfolio_run_refines_spec:
  "{v. \<exists>st. select_run p (select_start h s) st \<and> aggregate st = v} =
     {portfolio_spec True p h s, portfolio_spec False p h s}"
proof -
  have "aggregate st \<in> {portfolio_spec True p h s, portfolio_spec False p h s}"
    if r: "select_run p (select_start h s) st" for st
  proof -
    from select_run_schedule[OF r] obtain first where "st = dispatch_loop first p h s" by blast
    then show ?thesis by (cases first) (simp_all add: aggregate_dispatch_loop)
  qed
  moreover have "\<exists>st. select_run p (select_start h s) st \<and> aggregate st = portfolio_spec first p h s" for first
    using dispatch_loop_run[of p h s first] aggregate_dispatch_loop[of first p h s] by blast
  ultimately show ?thesis by auto
qed

text \<open>The select loop always terminates: no infinite sequence of turns exists, and from the start
  some run reaches a state where the loop is left.\<close>

theorem portfolio_loop_terminates:
  "wfp (\<lambda>st' st. select_step p st st') \<and> (\<exists>st. select_run p (select_start h s) st)"
proof
  have "wfp (\<lambda>st' st. tasks_left st' < tasks_left st)"
    by (rule wfp_if_convertible_to_nat[of _ tasks_left])
  then show "wfp (\<lambda>st' st. select_step p st st')"
    by (rule wfp_subset[rule_format]) (use select_step_decreases in auto)
  show "\<exists>st. select_run p (select_start h s) st"
    by (rule select_run_exists)
qed

text \<open>Whatever the interleaving, the verdict is an error exactly when both back ends ended in an
  error, and it then lists both outcomes; one error beside an undecided back end is an Unknown.\<close>

theorem portfolio_error_iff_both_error:
  assumes "select_run p (select_start h s) st"
  shows "(aggregate st = VError bs) =
    (bo_state (halmos_to_outcome h) = BError \<and> bo_state (smt_to_outcome s) = BError
     \<and> bs = [halmos_to_outcome h, smt_to_outcome s])"
proof -
  from select_run_schedule[OF assms] obtain first where "st = dispatch_loop first p h s" by blast
  then show ?thesis by (simp add: aggregate_dispatch_loop portfolio_spec_Error)
qed

theorem portfolio_error_iff_both_error_witness:
  "\<exists>st. aggregate st = VError [halmos_to_outcome (Inl ''a''), smt_to_outcome (Inl ''b'')]"
proof -
  obtain st where r: "select_run ''p'' (select_start (Inl ''a'') (Inl ''b'')) st"
    using select_run_exists by blast
  show ?thesis
    by (intro exI[of _ st] portfolio_error_iff_both_error[OF r, THEN iffD2]) (simp add: outcome_def)
qed

text \<open>The race matters only when both back ends are definitive: if one of them has no definitive
  answer, all interleavings end with the same verdict.\<close>

theorem portfolio_race_free:
  assumes "select_run p (select_start h s) st1" and "select_run p (select_start h s) st2"
    and "try_definitive (halmos_to_outcome h) p = None \<or> try_definitive (smt_to_outcome s) p = None"
  shows "aggregate st1 = aggregate st2"
proof -
  from select_run_schedule[OF assms(1)] obtain f1 where "st1 = dispatch_loop f1 p h s" by blast
  moreover from select_run_schedule[OF assms(2)] obtain f2 where "st2 = dispatch_loop f2 p h s" by blast
  ultimately show ?thesis
    using assms(3) portfolio_spec_agree[of p h s f1 f2]
    by (simp add: aggregate_dispatch_loop definitive_of_halmos_def definitive_of_smt_def)
qed

theorem portfolio_race_free_witness:
  "aggregate (dispatch_loop True ''p'' (Inl ''a'') (Inr (SVerified 1 5 None)))
     = aggregate (dispatch_loop False ''p'' (Inl ''a'') (Inr (SVerified 1 5 None)))"
  by (rule portfolio_race_free[OF dispatch_loop_run dispatch_loop_run]) (simp add: try_definitive_def outcome_def)

end
