(* ===== verification/ProofArtifact.thy ===== *)
theory ProofArtifact
  imports Halmos
begin

text \<open>
  The proof artifact (\<open>crates/vergil-proof/src/schema.rs\<close>) and its re-verification
  (\<open>verify.rs\<close>, the \<open>vergil prove\<close> command). The file system, serde's decoder and SHA-256 are
  parameters.
\<close>

section \<open>The schema\<close>

datatype tier = ZeroConfig | Intent

datatype proof_source =
    PsUserIntent | PsAttackCatalog | PsConformance | PsTests | PsNatSpec | PsStructural

record run_meta =
  rm_run_id :: string
  rm_intent :: string
  rm_project_root :: string
  rm_started_at :: string

record toolchain_versions =
  tv_solc :: string
  tv_halmos :: string
  tv_slither :: string
  tv_z3 :: string
  tv_cvc5 :: string
  tv_gambit :: "string option"

record source_file =
  sf_path :: string
  sf_sha256 :: string

record manifest_validation_status =
  mv_storage_ok :: bool
  mv_modifiers_ok :: bool
  mv_external_calls_ok :: bool
  mv_warnings :: "string list"

record verified_property =
  vp_name :: string
  vp_backend :: string
  vp_spec_sha256 :: string
  vp_template_ref :: "string option"
  vp_wall_clock_ms :: u64
  vp_smt_query_sha256 :: "string option"
  vp_manifest_validation :: manifest_validation_status
  vp_tier :: tier
  vp_source :: proof_source

record counterexample_summary =
  cx_property :: string
  cx_backend :: string
  cx_cex_file :: string
  cx_wall_clock_ms :: u64
  cx_trace_summary :: string

record quality_metrics =
  qm_mutation_coverage_min :: "float option"
  qm_critique_pass_rate :: float
  qm_mutation_testing_enabled :: bool

record proof_cost =
  pc_tokens_in :: u32
  pc_tokens_out :: u32
  pc_usd_estimate :: float
  pc_wall_clock_ms :: u64

record proof_artifact =
  pa_vergil_version :: string
  pa_schema_version :: u32
  pa_run :: run_meta
  pa_toolchain :: toolchain_versions
  pa_source_files :: "source_file list"
  pa_verified_properties :: "verified_property list"
  pa_counterexamples :: "counterexample_summary list"
  pa_quality_metrics :: quality_metrics
  pa_cost :: proof_cost

definition schema_version_current :: u32 where "schema_version_current = 1"

fun check_hash_lengths :: "source_file list \<Rightarrow> string + unit" where
  "check_hash_lengths [] = Inr ()"
| "check_hash_lengths (f # fs) =
     (if length (sf_sha256 f) \<noteq> 64
      then Inl (''source_files['' @ sf_path f @ ''].sha256 must be 64 hex chars'')
      else check_hash_lengths fs)"

definition artifact_validate :: "proof_artifact \<Rightarrow> string + unit" where
  "artifact_validate a =
     (if pa_schema_version a \<noteq> schema_version_current
      then Inl (''schema_version mismatch: got '' @ show_nat (unat (pa_schema_version a))
             @ '', expected '' @ show_nat (unat schema_version_current))
      else if pa_source_files a = [] then Inl ''source_files must not be empty''
      else check_hash_lengths (pa_source_files a))"

definition sha256_hex :: "(string \<Rightarrow> u8 list) \<Rightarrow> string \<Rightarrow> string" where
  "sha256_hex sha body = hex_lower (sha body)"

section \<open>Re-verification\<close>

datatype prove_error =
    PeIo string string
  | PeParse string string
  | PeSchema string
  | PeSourceShaMismatch string string string

record prove_report =
  pv_artifact_path :: string
  pv_source_files_rehashed :: nat
  pv_verified_properties :: nat
  pv_re_dispatch_attempted :: nat

fun rehash_loop ::
    "(string \<Rightarrow> u8 list) \<Rightarrow> (string \<Rightarrow> string + string) \<Rightarrow> string \<Rightarrow> source_file list \<Rightarrow> nat
     \<Rightarrow> prove_error + nat" where
  "rehash_loop sha read proot [] rehashed = Inr rehashed"
| "rehash_loop sha read proot (f # fs) rehashed =
     (let path = path_join proot (sf_path f) in
      case read path of
        Inl e \<Rightarrow> Inl (PeIo path e)
      | Inr body \<Rightarrow>
          (let actual = sha256_hex sha body in
           if actual \<noteq> sf_sha256 f then Inl (PeSourceShaMismatch (sf_path f) (sf_sha256 f) actual)
           else rehash_loop sha read proot fs (rehashed + 1)))"

definition verify_artifact ::
    "(string \<Rightarrow> u8 list) \<Rightarrow> (string \<Rightarrow> string + string) \<Rightarrow> (string \<Rightarrow> string + proof_artifact)
     \<Rightarrow> string \<Rightarrow> string option \<Rightarrow> prove_error + prove_report" where
  "verify_artifact sha read decode artifact_path root_override =
     (case read artifact_path of
        Inl e \<Rightarrow> Inl (PeIo artifact_path e)
      | Inr bytes \<Rightarrow>
          (case decode bytes of
             Inl e \<Rightarrow> Inl (PeParse artifact_path e)
           | Inr a \<Rightarrow>
               (case artifact_validate a of
                  Inl e \<Rightarrow> Inl (PeSchema e)
                | Inr _ \<Rightarrow>
                    (let proot = (case root_override of Some r \<Rightarrow> r | None \<Rightarrow> rm_project_root (pa_run a)) in
                     case rehash_loop sha read proot (pa_source_files a) 0 of
                       Inl e \<Rightarrow> Inl e
                     | Inr n \<Rightarrow> Inr
                         \<lparr>pv_artifact_path = artifact_path, pv_source_files_rehashed = n,
                          pv_verified_properties = length (pa_verified_properties a),
                          pv_re_dispatch_attempted = 0\<rparr>))))"

section \<open>Lemmas\<close>

lemma check_hash_lengths_Inr:
  "check_hash_lengths fs = Inr u \<longleftrightarrow> list_all (\<lambda>f. length (sf_sha256 f) = 64) fs"
  by (induction fs) auto

lemma artifact_validate_Inr:
  "artifact_validate a = Inr u \<longleftrightarrow>
     pa_schema_version a = schema_version_current \<and> pa_source_files a \<noteq> []
     \<and> list_all (\<lambda>f. length (sf_sha256 f) = 64) (pa_source_files a)"
  by (simp add: artifact_validate_def check_hash_lengths_Inr)

definition file_matches :: "(string \<Rightarrow> u8 list) \<Rightarrow> (string \<Rightarrow> string + string) \<Rightarrow> string \<Rightarrow> source_file \<Rightarrow> bool" where
  "file_matches sha read proot f =
     (case read (path_join proot (sf_path f)) of Inl e \<Rightarrow> False | Inr body \<Rightarrow> sha256_hex sha body = sf_sha256 f)"

lemma rehash_loop_Inr:
  "rehash_loop sha read proot fs n = Inr m \<longleftrightarrow> m = n + length fs \<and> list_all (file_matches sha read proot) fs"
  by (induction fs arbitrary: n) (auto simp: file_matches_def Let_def split: sum.splits)

lemma rehash_loop_Inl:
  "rehash_loop sha read proot fs n = Inl e \<Longrightarrow>
     \<exists>us f vs. fs = us @ f # vs \<and> list_all (file_matches sha read proot) us \<and> \<not> file_matches sha read proot f"
proof (induction fs arbitrary: n)
  case Nil
  then show ?case by simp
next
  case (Cons f fs)
  show ?case
  proof (cases "file_matches sha read proot f")
    case True
    with Cons.prems have "rehash_loop sha read proot fs (n + 1) = Inl e"
      by (auto simp: file_matches_def Let_def split: sum.splits)
    from Cons.IH[OF this] obtain us g vs where
      "fs = us @ g # vs" "list_all (file_matches sha read proot) us" "\<not> file_matches sha read proot g" by blast
    with True show ?thesis by (intro exI[of _ "f # us"] exI[of _ g] exI[of _ vs]) simp
  next
    case False
    then show ?thesis by (intro exI[of _ "[]"] exI[of _ f] exI[of _ fs]) simp
  qed
qed

section \<open>Properties\<close>


text \<open>Tampering is detected: after a run was accepted, changing any recorded source file to a content with
  another digest makes \<open>vergil prove\<close> fail, provided the artifact itself is untouched and the change
  leaves no other file of the project different.\<close>

theorem verify_artifact_detects_tampering:
  assumes "verify_artifact sha read decode path ovr = Inr report"
    and "read path = Inr bytes" and "decode bytes = Inr a" and "f \<in> set (pa_source_files a)"
    and "victim = path_join (case ovr of Some r \<Rightarrow> r | None \<Rightarrow> rm_project_root (pa_run a)) (sf_path f)"
    and "victim \<noteq> path"
    and "sha256_hex sha body' \<noteq> sf_sha256 f"
  shows "\<exists>e. verify_artifact sha (read(victim := Inr body')) decode path ovr = Inl e"
proof (cases "verify_artifact sha (read(victim := Inr body')) decode path ovr")
  case (Inl e)
  then show ?thesis by blast
next
  case (Inr r)
  have "\<not> file_matches sha (read(victim := Inr body'))
      (case ovr of Some r \<Rightarrow> r | None \<Rightarrow> rm_project_root (pa_run a)) f"
    using assms(5,7) by (simp add: file_matches_def)
  moreover have "list_all (file_matches sha (read(victim := Inr body'))
      (case ovr of Some r \<Rightarrow> r | None \<Rightarrow> rm_project_root (pa_run a))) (pa_source_files a)"
    using Inr assms(2,3,6) unfolding verify_artifact_def
    by (auto simp: rehash_loop_Inr Let_def split: sum.splits)
  ultimately show ?thesis using assms(4) by (auto simp: list_all_iff)
qed

definition demo_artifact :: proof_artifact where
  "demo_artifact =
     \<lparr>pa_vergil_version = ''0.1'', pa_schema_version = 1,
      pa_run = \<lparr>rm_run_id = ''r'', rm_intent = ''i'', rm_project_root = ''p'', rm_started_at = ''t''\<rparr>,
      pa_toolchain = \<lparr>tv_solc = [], tv_halmos = [], tv_slither = [], tv_z3 = [], tv_cvc5 = [], tv_gambit = None\<rparr>,
      pa_source_files = [\<lparr>sf_path = ''A.sol'', sf_sha256 = hex_lower (replicate 32 1)\<rparr>],
      pa_verified_properties = [], pa_counterexamples = [],
      pa_quality_metrics = \<lparr>qm_mutation_coverage_min = None, qm_critique_pass_rate = Fin 1,
        qm_mutation_testing_enabled = False\<rparr>,
      pa_cost = \<lparr>pc_tokens_in = 0, pc_tokens_out = 0, pc_usd_estimate = Fin 0, pc_wall_clock_ms = 0\<rparr>\<rparr>"

definition demo_sha :: "string \<Rightarrow> u8 list" where
  "demo_sha s = (if s = ''contract A {}'' then replicate 32 1 else replicate 32 2)"

definition demo_read :: "string \<Rightarrow> string + string" where
  "demo_read p = (if p = ''p/A.sol'' then Inr ''contract A {}'' else Inr ''json'')"

theorem verify_artifact_detects_tampering_witness:
  "\<exists>e. verify_artifact demo_sha (demo_read(''p/A.sol'' := Inr ''contract A { }''))
         (\<lambda>_. Inr demo_artifact) ''proof.json'' None = Inl e"
proof -
  have "isl (verify_artifact demo_sha demo_read (\<lambda>_. Inr demo_artifact) ''proof.json'' None) = False"
    by code_simp
  then obtain r where r: "verify_artifact demo_sha demo_read (\<lambda>_. Inr demo_artifact) ''proof.json'' None = Inr r"
    by (cases "verify_artifact demo_sha demo_read (\<lambda>_. Inr demo_artifact) ''proof.json'' None") simp_all
  show ?thesis
  proof (rule verify_artifact_detects_tampering[OF r])
    show "demo_read ''proof.json'' = Inr ''json''" by code_simp
    show "(Inr demo_artifact :: string + proof_artifact) = Inr demo_artifact" ..
    show "hd (pa_source_files demo_artifact) \<in> set (pa_source_files demo_artifact)" by (simp add: demo_artifact_def)
    show "''p/A.sol'' = path_join (case None of Some r \<Rightarrow> r | None \<Rightarrow> rm_project_root (pa_run demo_artifact))
        (sf_path (hd (pa_source_files demo_artifact)))" by code_simp
    show "''p/A.sol'' \<noteq> ''proof.json''" by simp
    show "sha256_hex demo_sha ''contract A { }'' \<noteq> sf_sha256 (hd (pa_source_files demo_artifact))" by code_simp
  qed
qed

end
