(* ===== verification/Layout.thy ===== *)
theory Layout
  imports ProofArtifact 
begin

text \<open>
  The paths of the artifact tree \<open>vergil-out/\<close> (\<open>crates/vergil-cli/src/output/layout.rs\<close>) and the
  creation of its directories. A directory tree is the list of the directories made so far.
\<close>

definition vergil_out :: "string \<Rightarrow> string" where
  "vergil_out project = path_join project ''vergil-out''"

definition top_level_proof_json :: "string \<Rightarrow> string" where
  "top_level_proof_json project = path_join (vergil_out project) ''proof.json''"

definition report_md_path :: "string \<Rightarrow> string" where
  "report_md_path project = path_join (vergil_out project) ''report.md''"

definition counterexamples_dir :: "string \<Rightarrow> string" where
  "counterexamples_dir project = path_join (vergil_out project) ''counterexamples''"

definition smt_dir :: "string \<Rightarrow> string" where
  "smt_dir project = path_join (vergil_out project) ''smt''"

definition trace_jsonl :: "string \<Rightarrow> string" where
  "trace_jsonl project = path_join (path_join (vergil_out project) ''trace'') ''run.jsonl''"

definition confirm_state_path :: "string \<Rightarrow> string" where
  "confirm_state_path project = path_join (path_join (vergil_out project) ''confirm'') ''state.json''"

fun tier_dir :: "string \<Rightarrow> tier \<Rightarrow> string" where
  "tier_dir project ZeroConfig = path_join (vergil_out project) ''zero-config''"
| "tier_dir project Intent = path_join (vergil_out project) ''intent''"

definition source_dir :: "string \<Rightarrow> tier \<Rightarrow> proof_source \<Rightarrow> string" where
  "source_dir project t s =
     (let base = tier_dir project t in
      case t of
        ZeroConfig \<Rightarrow>
          (case s of
             PsAttackCatalog \<Rightarrow> path_join base ''attack-catalog''
           | PsConformance \<Rightarrow> path_join base ''conformance''
           | PsTests \<Rightarrow> path_join base ''tests''
           | PsNatSpec \<Rightarrow> path_join base ''natspec''
           | PsStructural \<Rightarrow> path_join base ''structural''
           | PsUserIntent \<Rightarrow> base)
      | Intent \<Rightarrow> base)"

definition attack_catalog_per_template_proof :: "string \<Rightarrow> string \<Rightarrow> string" where
  "attack_catalog_per_template_proof project attack_id =
     path_join (source_dir project ZeroConfig PsAttackCatalog) (attack_id @ ''.proof.json'')"

text \<open>\<open>create_dir_all\<close> of one directory after another; the first failure ends it.\<close>

fun make_dirs :: "(string \<Rightarrow> string option) \<Rightarrow> string list \<Rightarrow> string list \<Rightarrow> string option \<times> string list" where
  "make_dirs mkdir [] made = (None, made)"
| "make_dirs mkdir (p # ps) made =
     (case mkdir p of Some e \<Rightarrow> (Some e, made) | None \<Rightarrow> make_dirs mkdir ps (made @ [p]))"

definition ensure_tree :: "(string \<Rightarrow> string option) \<Rightarrow> string \<Rightarrow> string option \<times> string list" where
  "ensure_tree mkdir project =
     make_dirs mkdir
       [vergil_out project, counterexamples_dir project, smt_dir project,
        path_join (vergil_out project) ''trace'',
        source_dir project ZeroConfig PsAttackCatalog, source_dir project ZeroConfig PsConformance,
        source_dir project ZeroConfig PsTests, source_dir project ZeroConfig PsNatSpec,
        source_dir project ZeroConfig PsStructural, tier_dir project Intent] []"

lemmas layout_defs = vergil_out_def counterexamples_dir_def smt_dir_def source_dir_def tier_dir.simps
  confirm_state_path_def trace_jsonl_def

section \<open>Lemmas\<close>

lemma make_dirs_prefix:
  "make_dirs mkdir ps made = (r, made') \<Longrightarrow>
     \<exists>us vs. ps = us @ vs \<and> made' = made @ us \<and> (r = None \<longleftrightarrow> vs = []) \<and> list_all (\<lambda>p. mkdir p = None) us"
proof (induction ps arbitrary: made)
  case Nil
  then show ?case by auto
next
  case (Cons p ps)
  show ?case
  proof (cases "mkdir p")
    case None
    with Cons.prems have "make_dirs mkdir ps (made @ [p]) = (r, made')" by simp
    from Cons.IH[OF this] obtain us vs where "ps = us @ vs" "made' = (made @ [p]) @ us" "r = None \<longleftrightarrow> vs = []"
      "list_all (\<lambda>p. mkdir p = None) us"
      by blast
    with None have "p # ps = (p # us) @ vs \<and> made' = made @ p # us \<and> (r = None \<longleftrightarrow> vs = [])
        \<and> list_all (\<lambda>p. mkdir p = None) (p # us)"
      by simp
    then show ?thesis by blast
  next
    case (Some e)
    with Cons.prems have "r = Some e" "made' = made" by simp_all
    then have "p # ps = [] @ (p # ps) \<and> made' = made @ [] \<and> (r = None \<longleftrightarrow> p # ps = [])
        \<and> list_all (\<lambda>p. mkdir p = None) []" by simp
    then show ?thesis by blast
  qed
qed

text \<open>Every directory a source writes to is made before it is used.\<close>

lemma ensure_tree_covers:
  assumes "ensure_tree mkdir project = (None, made)"
  shows "s \<noteq> PsUserIntent \<Longrightarrow> source_dir project ZeroConfig s \<in> set made"
    and "source_dir project Intent s \<in> set made"
    and "counterexamples_dir project \<in> set made"
  using make_dirs_prefix[OF assms[unfolded ensure_tree_def]]
  by (auto simp: source_dir_def Let_def split: proof_source.splits)

lemma last_path_join: "b \<noteq> [] \<Longrightarrow> last (path_join a b) = last b"
  by (simp add: path_join_def)

lemma rfind_sub_single:
  "rfind_sub (u @ c # v) [c] = Some (length u)" if "c \<notin> set v"
proof -
  have "find_sub (rev v @ c # w) [c] = Some (length v)" if "c \<notin> set v" for v w
    using that
  proof (induction v arbitrary: w rule: rev_induct)
    case (snoc x xs)
    then show ?case by auto
  qed simp
  then show ?thesis
    using that by (simp add: rfind_sub_def)
qed

lemma path_file_name_join:
  assumes "CHR ''/'' \<notin> set b"
  shows "path_file_name (path_join a b) = b"
proof (cases "a = []")
  case True
  have "find_sub (rev b) ''/'' = None"
    using assms by (auto simp: find_sub_None) (metis in_set_conv_decomp set_rev)
  with True show ?thesis by (simp add: path_join_def path_file_name_def rfind_sub_def)
next
  case False
  have nb: "\<not> starts_with b ''/''" using assms by (cases b) auto
  have f: "path_file_name (u @ CHR ''/'' # b) = b" for u
    using rfind_sub_single[OF assms, of u] by (simp add: path_file_name_def)
  show ?thesis
  proof (cases "ends_with a ''/''")
    case True
    then obtain u where "a = u @ ''/''"
      unfolding ends_with_def starts_with_iff by (auto simp: rev_swap[symmetric])
    with f[of u] nb False True show ?thesis by (simp add: path_join_def)
  next
    case e: False
    with f[of a] nb False show ?thesis by (simp add: path_join_def)
  qed
qed

text \<open>The temporary file next to the confirmation state is another file.\<close>

lemma confirm_tmp_differs: "with_extension (confirm_state_path project) ''json.tmp'' \<noteq> confirm_state_path project"
proof -
  have f: "path_file_name (confirm_state_path project) = ''state.json''"
    unfolding confirm_state_path_def by (rule path_file_name_join) simp
  have "last (with_extension (confirm_state_path project) ''json.tmp'') = CHR ''p''"
    by (subst last_with_extension) (simp_all add: f)
  moreover have "last (confirm_state_path project) = CHR ''n''"
    unfolding confirm_state_path_def by (subst last_path_join) simp_all
  ultimately show ?thesis by auto
qed

end
