(* ===== verification/Signatures.thy ===== *)
theory Signatures
  imports RustStr
begin

text \<open>
  The scanner that reads Solidity source without a parser
  (\<open>crates/vergil-solidity/src/signatures.rs\<close>): comments, function signatures, interface tags,
  constructor parameters and function bodies. Source text is its bytes; a slice that does not start
  at a character boundary panics in Rust, and is \<open>None\<close> here. An outer \<open>None\<close> is always a panic.
\<close>

section \<open>Helpers\<close>

definition is_ident :: "char \<Rightarrow> bool" where
  "is_ident c \<longleftrightarrow> is_alnum c \<or> c = CHR ''_''"

definition slice_from :: "string \<Rightarrow> nat \<Rightarrow> string option" where
  "slice_from s i =
     (if length s < i then None
      else if drop i s \<noteq> [] \<and> is_cont (hd (drop i s)) then None
      else Some (drop i s))"

text \<open>\<open>out.push(b as char)\<close> for a byte: beyond ASCII the byte becomes the two bytes of a Latin-1 letter.\<close>

definition push_byte :: "char \<Rightarrow> string" where
  "push_byte c = (if is_ascii c then [c] else [char_of (192 + byte c div 64), char_of (128 + byte c mod 64)])"

text \<open>What follows a comment whose opening mark was read.\<close>

fun skip_block :: "string \<Rightarrow> string" where
  "skip_block (a # b # s) = (if a = CHR ''*'' \<and> b = CHR ''/'' then s else skip_block (b # s))"
| "skip_block s = []"

lemma skip_block_length: "length (skip_block s) \<le> length s"
  by (induction s rule: skip_block.induct) auto

function strip_comments :: "string \<Rightarrow> string" where
  "strip_comments [] = []"
| "strip_comments (c # s) =
     (if starts_with (c # s) ''//'' then strip_comments (dropWhile (\<lambda>x. x \<noteq> NL) s)
      else if starts_with (c # s) ''/*'' then strip_comments (skip_block (drop 1 s))
      else push_byte c @ strip_comments s)"
  by pat_completeness auto
termination
proof (relation "measure length")
  show "(dropWhile (\<lambda>x. x \<noteq> NL) s, c # s) \<in> measure length" for c s
    using length_dropWhile_le[of "\<lambda>x. x \<noteq> NL" s] by (simp add: less_Suc_eq_le)
  show "(skip_block (drop 1 s), c # s) \<in> measure length" for c s
    using skip_block_length[of "drop 1 s"] by (simp add: less_Suc_eq_le)
qed simp_all

text \<open>The offset of the bracket that closes the first one, for the scan that starts at depth \<open>d\<close>.\<close>

fun match_close :: "char \<Rightarrow> char \<Rightarrow> nat \<Rightarrow> string \<Rightarrow> nat option" where
  "match_close op cl d [] = None"
| "match_close op cl d (c # s) =
     (if c = op then map_option Suc (match_close op cl (d + 1) s)
      else if c = cl then (if d = 1 then Some 0 else map_option Suc (match_close op cl (d - 1) s))
      else map_option Suc (match_close op cl d s))"

definition match_paren :: "string \<Rightarrow> nat \<Rightarrow> nat option" where
  "match_paren s i = map_option (\<lambda>n. i + n) (match_close (CHR ''('') (CHR '')'') 0 (drop i s))"

definition match_brace :: "string \<Rightarrow> nat \<Rightarrow> nat option" where
  "match_brace s i = map_option (\<lambda>n. i + n) (match_close (CHR ''{'') (CHR ''}'') 0 (drop i s))"

section \<open>Function signatures\<close>

record function_signature =
  fs_name :: string
  fs_args :: string
  fs_visibility :: string
  fs_returns :: string
  fs_is_view_pure :: bool

definition signature_render :: "function_signature \<Rightarrow> string" where
  "signature_render s =
     ''function '' @ fs_name s @ fs_args s @ '' '' @ fs_visibility s
     @ (if fs_is_view_pure s then '' view'' else [])
     @ (if fs_returns s = [] then [] else '' '' @ fs_returns s)"

definition extract_returns :: "string \<Rightarrow> string" where
  "extract_returns mods =
     (case find_sub mods ''returns'' of
        None \<Rightarrow> []
      | Some idx \<Rightarrow>
          (let trimmed = trim_start (drop (idx + 7) mods) in
           if \<not> starts_with trimmed ''('' then []
           else (case match_paren trimmed 0 of
                   None \<Rightarrow> []
                 | Some e \<Rightarrow> ''returns '' @ take (e + 1) trimmed)))"

text \<open>The end of the modifiers: the first brace or semicolon outside parentheses.\<close>

fun scan_mods :: "nat \<Rightarrow> string \<Rightarrow> nat option" where
  "scan_mods d [] = None"
| "scan_mods d (c # s) =
     (if c = CHR ''('' then map_option Suc (scan_mods (d + 1) s)
      else if c = CHR '')'' then map_option Suc (scan_mods (d - 1) s)
      else if (c = CHR ''{'' \<or> c = CHR '';'') \<and> d = 0 then Some 0
      else map_option Suc (scan_mods d s))"

definition view_pure :: "string \<Rightarrow> bool" where
  "view_pure mods \<longleftrightarrow>
     contains mods '' view '' \<or> contains mods ('' view'' @ [NL]) \<or> ends_with mods ''view''
     \<or> contains mods '' pure '' \<or> contains mods ('' pure'' @ [NL]) \<or> ends_with mods ''pure''"

definition skipped_names :: "string list" where
  "skipped_names = [[], ''constructor'', ''receive'', ''fallback'']"

text \<open>The main loop on the text from position \<open>i\<close> on.\<close>

function extract_loop :: "string \<Rightarrow> function_signature list option" where
  "extract_loop rest =
     (if rest = [] then Some []
      else if is_cont (hd rest) then None
      else
        (case find_sub rest ''function '' of
           None \<Rightarrow> Some []
         | Some rel \<Rightarrow>
             (let after_kw = drop (rel + 9) rest in
              if after_kw = [] then Some []
              else
                (let name = takeWhile is_ident after_kw; r1 = dropWhile is_ident after_kw in
                 if name \<in> set skipped_names then extract_loop r1
                 else
                   (let r2 = dropWhile is_space r1 in
                    if r2 = [] \<or> hd r2 \<noteq> CHR ''('' then extract_loop r2
                    else
                      (case match_paren r2 0 of
                         None \<Rightarrow> extract_loop (drop 1 r2)
                       | Some args_end \<Rightarrow>
                           (let args = take (args_end + 1) r2;
                                r3 = drop (args_end + 1) r2;
                                block_end = (case scan_mods 0 r3 of Some n \<Rightarrow> n | None \<Rightarrow> 0);
                                mods = take block_end r3;
                                r4 = drop (block_end + 1) r3
                            in if contains mods ''external'' \<or> contains mods ''public''
                               then map_option (Cons
                                      \<lparr>fs_name = name, fs_args = args,
                                       fs_visibility = (if contains mods ''external'' then ''external'' else ''public''),
                                       fs_returns = extract_returns mods, fs_is_view_pure = view_pure mods\<rparr>)
                                      (extract_loop r4)
                               else extract_loop r4)))))))"
  by pat_completeness auto
termination
proof (relation "measure length", goal_cases)
  case 1
  then show ?case by simp
next
  case (2 rest rel after_kw name r1)
  then show ?case
    using find_sub_bound[of rest "''function ''" rel] length_dropWhile_le[of is_ident "drop (rel + 9) rest"]
    by simp
next
  case (3 rest rel after_kw name r1 r2)
  then show ?case
    using find_sub_bound[of rest "''function ''" rel] length_dropWhile_le[of is_ident "drop (rel + 9) rest"]
      length_dropWhile_le[of is_space "dropWhile is_ident (drop (rel + 9) rest)"]
    by simp
next
  case (4 rest rel after_kw name r1 r2)
  then show ?case
    using find_sub_bound[of rest "''function ''" rel] length_dropWhile_le[of is_ident "drop (rel + 9) rest"]
      length_dropWhile_le[of is_space "dropWhile is_ident (drop (rel + 9) rest)"]
    by simp
next
  case (5 rest rel after_kw name r1 r2 args_end args r3 block_end mods r4)
  then show ?case
    using find_sub_bound[of rest "''function ''" rel] length_dropWhile_le[of is_ident "drop (rel + 9) rest"]
      length_dropWhile_le[of is_space "dropWhile is_ident (drop (rel + 9) rest)"]
    by simp
next
  case (6 rest rel after_kw name r1 r2 args_end args r3 block_end mods r4)
  then show ?case
    using find_sub_bound[of rest "''function ''" rel] length_dropWhile_le[of is_ident "drop (rel + 9) rest"]
      length_dropWhile_le[of is_space "dropWhile is_ident (drop (rel + 9) rest)"]
    by simp
qed

declare extract_loop.simps [simp del]

definition extract_signatures :: "string \<Rightarrow> function_signature list option" where
  "extract_signatures src = extract_loop (strip_comments src)"

definition render_available_methods :: "function_signature list \<Rightarrow> string" where
  "render_available_methods sigs =
     (if sigs = [] then ''(no external functions detected '' @ em_dash @ '' read the contract source above)''
      else join [NL] (map (\<lambda>s. ''- '' @ signature_render s) sigs))"

section \<open>Interface tags\<close>

definition push_tag :: "string \<Rightarrow> string list \<Rightarrow> string list" where
  "push_tag t tags = (if List.member tags t then tags else tags @ [t])"

text \<open>One rule of the classifier per line: when it fires, its tag is added unless present.\<close>

definition add_if :: "bool \<Rightarrow> string \<Rightarrow> string list \<Rightarrow> string list" where
  "add_if b t tags = (if b then push_tag t tags else tags)"

definition tags_of :: "string list \<Rightarrow> string \<Rightarrow> string list" where
  "tags_of names text0 =
     (let has = List.member names;
          is_erc721 = (has ''ownerOf''
            \<and> (has ''setApprovalForAll'' \<or> has ''getApproved'' \<or> has ''isApprovedForAll''));
          is_erc4626 = (has ''asset''
            \<and> (has ''convertToShares'' \<or> has ''convertToAssets'' \<or> has ''totalAssets''
               \<or> (has ''deposit'' \<and> has ''redeem'')));
          is_erc20 = (has ''allowance'' \<and> has ''transfer'' \<and> has ''transferFrom'' \<and> \<not> is_erc721);
          t1 = add_if is_erc721 ''ERC721'' [];
          t2 = (if is_erc4626 then push_tag ''ERC20'' (push_tag ''ERC4626'' t1) else add_if is_erc20 ''ERC20'' t1);
          t3 = add_if (has ''transferOwnership'' \<or> has ''owner'') ''Ownable'' t2;
          t4 = add_if (has ''acceptOwnership'' \<or> has ''pendingOwner'') ''Ownable2Step'' t3;
          t5 = add_if (has ''paused'' \<or> contains text0 ''whenNotPaused'') ''Pausable'' t4;
          t6 = add_if (has ''hasRole'' \<and> has ''grantRole'') ''AccessControl'' t5;
          t7 = add_if (has ''confirmTransaction'' \<or> has ''executeTransaction'' \<or> has ''submitTransaction''
                 \<or> (has ''required'' \<and> contains text0 ''isOwner'')) ''Multisig'' t6;
          t8 = add_if (has ''getMinDelay'' \<or> has ''schedule''
                 \<or> (has ''release'' \<and> (has ''beneficiary'' \<or> contains text0 ''releaseTime''))) ''Timelock'' t7;
          t9 = add_if (contains text0 ''nonReentrant'' \<or> contains text0 ''ReentrancyGuard'') ''ReentrancyGuard'' t8
      in add_if (has ''cap'') ''Capped'' t9)"

definition detect_interfaces :: "string \<Rightarrow> string list option" where
  "detect_interfaces src =
     map_option (\<lambda>sigs. tags_of (map fs_name sigs) (strip_comments src)) (extract_signatures src)"

section \<open>Constructors\<close>

record ctor_param =
  cp_ty :: string
  cp_pname :: string

definition ctor_param_of :: "string \<Rightarrow> ctor_param option" where
  "ctor_param_of p =
     (let toks = split_whitespace p in
      if length toks < 2 then None else Some \<lparr>cp_ty = hd toks, cp_pname = last toks\<rparr>)"

definition extract_constructor :: "string \<Rightarrow> ctor_param list" where
  "extract_constructor src =
     (let s = strip_comments src in
      case find_sub s ''constructor'' of
        None \<Rightarrow> []
      | Some idx \<Rightarrow>
          (let after_kw = idx + 11 in
           case find_sub (drop after_kw s) ''('' of
             None \<Rightarrow> []
           | Some open_rel \<Rightarrow>
               (let op = after_kw + open_rel in
                case match_paren s op of
                  None \<Rightarrow> []
                | Some cl \<Rightarrow>
                    List.map_filter ctor_param_of (split_char (CHR '','') (take (cl - (op + 1)) (drop (op + 1) s))))))"

definition synthesize_ctor_arg :: "string \<Rightarrow> string option" where
  "synthesize_ctor_arg ty =
     (if ends_with ty ''[]'' then None
      else if ty = ''address'' then Some ''address(this)''
      else if ty = ''bool'' then Some ''false''
      else if ty = ''string'' then Some ([DQ] @ ''X'' @ [DQ])
      else if ty = ''bytes'' then Some [DQ, DQ]
      else if ty = ''bytes32'' then Some ''bytes32(0)''
      else if starts_with ty ''uint'' then
        (let bits = (case strip_prefix ty ''uint'' of
                       Some b \<Rightarrow> (if b = [] then 256 else case parse_uint 32 b of Some n \<Rightarrow> n | None \<Rightarrow> 256)
                     | None \<Rightarrow> 256)
         in Some (if bits \<le> 8 then ''1'' else if bits \<le> 16 then ''100''
                  else if bits < 96 then ''1000'' else ''1000000 ether''))
      else if starts_with ty ''int'' then Some ''1''
      else None)"

fun ctor_args_loop :: "ctor_param list \<Rightarrow> string list option" where
  "ctor_args_loop [] = Some []"
| "ctor_args_loop (p # ps) =
     (case synthesize_ctor_arg (cp_ty p) of
        None \<Rightarrow> None
      | Some a \<Rightarrow> map_option (Cons a) (ctor_args_loop ps))"

definition synthesize_ctor_args :: "ctor_param list \<Rightarrow> string option" where
  "synthesize_ctor_args params =
     (if params = [] then Some [] else map_option (join '', '') (ctor_args_loop params))"

section \<open>Function bodies\<close>

text \<open>\<open>i\<close> is the offset of \<open>rest\<close> in the text.\<close>

function locate_from :: "string \<Rightarrow> nat \<Rightarrow> string \<Rightarrow> nat option" where
  "locate_from fn_name i rest =
     (if length rest \<le> 9 then None
      else
        (case find_sub rest ''function '' of
           None \<Rightarrow> None
         | Some rel \<Rightarrow>
             (let after_kw = drop (rel + 9) rest; name = takeWhile is_ident after_kw in
              if name = fn_name then Some (i + rel)
              else locate_from fn_name (i + rel + 9 + length name) (dropWhile is_ident after_kw))))"
  by pat_completeness auto
termination
proof (relation "measure (\<lambda>(f, i, rest). length rest)", goal_cases)
  case 1
  then show ?case by simp
next
  case (2 fn_name i rest rel after_kw name)
  then show ?case
    using find_sub_bound[of rest "''function ''" rel] length_dropWhile_le[of is_ident "drop (rel + 9) rest"]
    by simp
qed

declare locate_from.simps [simp del]

definition locate_function :: "string \<Rightarrow> string \<Rightarrow> nat option" where
  "locate_function src fn_name = locate_from fn_name 0 src"

text \<open>\<open>i\<close> is the offset of the text in the original, \<open>k\<close> the bytes still to be counted. A block comment
  that is not closed moves the offset beyond the end, as in the code.\<close>

fun block_length :: "string \<Rightarrow> nat" where
  "block_length (a # b # s) = (if a = CHR ''*'' \<and> b = CHR ''/'' then 2 else Suc (block_length (b # s)))"
| "block_length s = 2"

lemma block_length_pos: "2 \<le> block_length s"
  by (induction s rule: block_length.induct) auto

function project_from :: "nat \<Rightarrow> nat \<Rightarrow> string \<Rightarrow> nat option" where
  "project_from k i [] = (if k = 0 then Some i else None)"
| "project_from k i (c # s) =
     (if k = 0 then Some i
      else if starts_with (c # s) ''//'' then
        (let n = length (takeWhile (\<lambda>x. x \<noteq> NL) (c # s)) in project_from k (i + n) (drop n (c # s)))
      else if starts_with (c # s) ''/*'' then
        (let n = 2 + block_length (drop 1 s) in project_from k (i + n) (drop n (c # s)))
      else project_from (k - 1) (Suc i) s)"
  by pat_completeness auto
termination
proof (relation "measure (\<lambda>(k, i, s). length s)", goal_cases)
  case 1
  then show ?case by simp
next
  case (2 k i c s n)
  then have "c = CHR ''/''" by (cases s) auto
  with 2 show ?case by simp
next
  case (3 k i c s n)
  then show ?case by simp
next
  case (4 k i c s)
  then show ?case by simp
qed

definition project_index :: "string \<Rightarrow> nat \<Rightarrow> nat option" where
  "project_index original stripped_idx = project_from stripped_idx 0 original"

fun find_body_open_at :: "nat \<Rightarrow> string \<Rightarrow> nat option" where
  "find_body_open_at d [] = None"
| "find_body_open_at d (c # s) =
     (if c = CHR ''('' then map_option Suc (find_body_open_at (d + 1) s)
      else if c = CHR '')'' then map_option Suc (find_body_open_at (d - 1) s)
      else if c = CHR ''{'' \<and> d = 0 then Some 0
      else if c = CHR '';'' \<and> d = 0 then None
      else map_option Suc (find_body_open_at d s))"

definition find_body_open :: "string \<Rightarrow> nat option" where
  "find_body_open src = find_body_open_at 0 src"

definition body_for :: "string \<Rightarrow> string \<Rightarrow> string option option" where
  "body_for fn_name src =
     (case locate_function (strip_comments src) fn_name of
        None \<Rightarrow> Some None
      | Some stripped_idx \<Rightarrow>
          (case project_index src stripped_idx of
             None \<Rightarrow> Some None
           | Some original_fn_idx \<Rightarrow>
               (case slice_from src original_fn_idx of
                  None \<Rightarrow> None
                | Some from_fn \<Rightarrow>
                    (case find_body_open from_fn of
                       None \<Rightarrow> Some None
                     | Some open_offset \<Rightarrow>
                         (let body_open = original_fn_idx + open_offset in
                          case match_brace src body_open of
                            None \<Rightarrow> Some None
                          | Some body_close \<Rightarrow>
                              (if body_close \<le> body_open + 1 then Some (Some [])
                               else Some (Some (take (body_close - (body_open + 1)) (drop (body_open + 1) src)))))))))"

section \<open>Lemmas\<close>

text \<open>Opening minus closing brackets.\<close>

definition net :: "char \<Rightarrow> char \<Rightarrow> string \<Rightarrow> int" where
  "net op cl s = int (count_list s op) - int (count_list s cl)"

lemma net_simps [simp]:
  "net op cl [] = 0"
  "net op cl (c # s) = (if c = op then 1 else 0) - (if c = cl then 1 else 0) + net op cl s"
  by (simp_all add: net_def)

definition balanced :: "char \<Rightarrow> char \<Rightarrow> string \<Rightarrow> bool" where
  "balanced op cl s \<longleftrightarrow> net op cl s = 0 \<and> list_all (\<lambda>k. 0 \<le> net op cl (take k s)) [0..<length s]"

lemma match_close_Some:
  assumes "op \<noteq> cl" "match_close op cl (Suc d) s = Some n"
  shows "n < length s \<and> s ! n = cl \<and> int d + net op cl (take n s) = 0
    \<and> (\<forall>k\<le>n. 0 \<le> int d + net op cl (take k s))"
  using assms(2)
proof (induction s arbitrary: d n)
  case Nil
  then show ?case by simp
next
  case (Cons c s)
  show ?case
  proof (cases "c = op")
    case True
    with Cons.prems obtain m where m: "match_close op cl (Suc (Suc d)) s = Some m" "n = Suc m" by auto
    from Cons.IH[OF m(1)] have IH: "m < length s" "s ! m = cl" "int (Suc d) + net op cl (take m s) = 0"
      "\<forall>k\<le>m. 0 \<le> int (Suc d) + net op cl (take k s)" by blast+
    have "0 \<le> int d + net op cl (take k (c # s))" if "k \<le> n" for k
      using that IH(4) True assms(1) m(2) by (cases k) auto
    with IH True assms(1) m(2) show ?thesis by simp
  next
    case no: False
    show ?thesis
    proof (cases "c = cl")
      case True
      show ?thesis
      proof (cases d)
        case 0
        with True Cons.prems assms(1) show ?thesis by simp
      next
        case (Suc e)
        with True Cons.prems assms(1) obtain m where m: "match_close op cl (Suc e) s = Some m" "n = Suc m" by auto
        from Cons.IH[OF m(1)] have IH: "m < length s" "s ! m = cl" "int e + net op cl (take m s) = 0"
          "\<forall>k\<le>m. 0 \<le> int e + net op cl (take k s)" by blast+
        have "0 \<le> int d + net op cl (take k (c # s))" if "k \<le> n" for k
          using that IH(4) True no m(2) Suc by (cases k) auto
        with IH True no m(2) Suc show ?thesis by simp
      qed
    next
      case False
      with no Cons.prems obtain m where m: "match_close op cl (Suc d) s = Some m" "n = Suc m" by auto
      from Cons.IH[OF m(1)] have IH: "m < length s" "s ! m = cl" "int d + net op cl (take m s) = 0"
        "\<forall>k\<le>m. 0 \<le> int d + net op cl (take k s)" by blast+
      have "0 \<le> int d + net op cl (take k (c # s))" if "k \<le> n" for k
        using that IH(4) False no m(2) by (cases k) auto
      with IH False no m(2) show ?thesis by simp
    qed
  qed
qed

lemma match_close_open:
  assumes "op \<noteq> cl" "match_close op cl 0 (op # s) = Some n"
  shows "\<exists>b post. s = b @ cl # post \<and> balanced op cl b \<and> n = Suc (length b)"
proof -
  from assms obtain m where m: "match_close op cl (Suc 0) s = Some m" "n = Suc m" by auto
  from match_close_Some[OF assms(1) m(1)]
  have r: "m < length s" "s ! m = cl" "net op cl (take m s) = 0" "\<forall>k\<le>m. 0 \<le> net op cl (take k s)" by auto
  then have "s = take m s @ cl # drop (Suc m) s" using id_take_nth_drop[of m s] by simp
  moreover have "balanced op cl (take m s)" using r by (auto simp: balanced_def list_all_iff min_def)
  ultimately show ?thesis using m(2) r(1) by (intro exI[of _ "take m s"] exI[of _ "drop (Suc m) s"]) simp
qed

section \<open>What the signatures are\<close>

definition signature_ok :: "string \<Rightarrow> function_signature \<Rightarrow> bool" where
  "signature_ok text0 g \<longleftrightarrow>
     fs_name g \<notin> set skipped_names \<and> list_all is_ident (fs_name g)
     \<and> contains text0 (''function '' @ fs_name g)
     \<and> (fs_visibility g = ''external'' \<or> fs_visibility g = ''public'')
     \<and> (\<exists>b. fs_args g = ''('' @ b @ '')'' \<and> balanced (CHR ''('') (CHR '')'') b)"

lemma contains_drop: "contains s p \<Longrightarrow> contains (u @ s) p"
  unfolding contains_iff by (metis append.assoc)

lemma signature_ok_drop: "signature_ok (drop n s) g \<Longrightarrow> signature_ok s g"
  unfolding signature_ok_def using contains_drop[of "drop n s" _ "take n s"] by auto

lemma match_paren_head:
  assumes "s \<noteq> []" "hd s = CHR ''(''" "match_paren s 0 = Some n"
  shows "\<exists>b. take (n + 1) s = ''('' @ b @ '')'' \<and> balanced (CHR ''('') (CHR '')'') b"
proof -
  from assms(1,2) obtain t where s: "s = CHR ''('' # t" by (cases s) auto
  from assms(3) s have "match_close (CHR ''('') (CHR '')'') 0 (CHR ''('' # t) = Some n"
    by (simp add: match_paren_def split: option.splits)
  from match_close_open[OF _ this] obtain b post where
    "t = b @ CHR '')'' # post" "balanced (CHR ''('') (CHR '')'') b" "n = Suc (length b)" by auto
  then show ?thesis by (intro exI[of _ b]) (simp add: s)
qed

lemma dropWhile_as_drop: "\<exists>n. dropWhile P s = drop n s"
  by (metis dropWhile_eq_drop)

lemma extract_loop_ok:
  "extract_loop rest = Some sigs \<Longrightarrow> list_all (signature_ok rest) sigs"
proof (induction rest arbitrary: sigs rule: extract_loop.induct)
  case (1 rest)
  have lift: "list_all (signature_ok rest) gs" if "list_all (signature_ok (drop n rest)) gs" for n gs
    using that by (auto simp: list_all_iff intro: signature_ok_drop)
  show ?case
  proof (cases "rest = [] \<or> is_cont (hd rest) \<or> find_sub rest ''function '' = None")
    case True
    with "1.prems" show ?thesis by (auto simp: extract_loop.simps[of rest] split: if_splits)
  next
    case False
    then obtain rel where rel: "find_sub rest ''function '' = Some rel" and ne: "rest \<noteq> []" "\<not> is_cont (hd rest)"
      by auto
    define aft where "aft = drop (rel + 9) rest"
    define name where "name = takeWhile is_ident aft"
    define r1 where "r1 = dropWhile is_ident aft"
    define r2 where "r2 = dropWhile is_space r1"
    have unf0: "extract_loop rest =
        (if aft = [] then Some [] else if name \<in> set skipped_names then extract_loop r1
         else if r2 = [] \<or> hd r2 \<noteq> CHR ''('' then extract_loop r2
         else (case match_paren r2 0 of
             None \<Rightarrow> extract_loop (drop 1 r2)
           | Some args_end \<Rightarrow>
               (let args = take (args_end + 1) r2;
                    r3 = drop (args_end + 1) r2;
                    block_end = (case scan_mods 0 r3 of Some n \<Rightarrow> n | None \<Rightarrow> 0);
                    mods = take block_end r3;
                    r4 = drop (block_end + 1) r3
                in if contains mods ''external'' \<or> contains mods ''public''
                   then map_option (Cons
                          \<lparr>fs_name = name, fs_args = args,
                           fs_visibility = (if contains mods ''external'' then ''external'' else ''public''),
                           fs_returns = extract_returns mods, fs_is_view_pure = view_pure mods\<rparr>)
                          (extract_loop r4)
                   else extract_loop r4)))"
      unfolding aft_def name_def r1_def r2_def
      by (subst extract_loop.simps) (simp only: rel ne option.case if_False Let_def)
    obtain n1 where n1: "r1 = drop n1 rest"
      unfolding r1_def aft_def using dropWhile_as_drop by (metis drop_drop)
    obtain n2 where n2: "r2 = drop n2 rest"
      unfolding r2_def n1 using dropWhile_as_drop by (metis drop_drop)
    show ?thesis
    proof (cases "aft = [] \<or> name \<in> set skipped_names \<or> r2 = [] \<or> hd r2 \<noteq> CHR ''('' \<or> match_paren r2 0 = None")
      case True
      then consider "aft = []" | "aft \<noteq> []" "name \<in> set skipped_names"
        | "aft \<noteq> []" "name \<notin> set skipped_names" "r2 = [] \<or> hd r2 \<noteq> CHR ''(''"
        | "aft \<noteq> []" "name \<notin> set skipped_names" "\<not> (r2 = [] \<or> hd r2 \<noteq> CHR ''('')" "match_paren r2 0 = None"
        by argo
      then show ?thesis
      proof cases
        case 1
        with "1.prems" show ?thesis unfolding unf0 by simp
      next
        case 2
        then have "extract_loop r1 = Some sigs"
          using "1.prems" unfolding unf0 by simp
        from "1.IH"(1)[OF ne rel aft_def 2(1) name_def r1_def 2(2) this] show ?thesis
          unfolding n1 by (rule lift)
      next
        case 3
        then have "extract_loop r2 = Some sigs"
          using "1.prems" unfolding unf0 by simp
        from "1.IH"(2)[OF ne rel aft_def 3(1) name_def r1_def 3(2) r2_def 3(3) this] show ?thesis
          unfolding n2 by (rule lift)
      next
        case 4
        then have "extract_loop (drop 1 r2) = Some sigs"
          using "1.prems" unfolding unf0 by simp
        from "1.IH"(3)[OF ne rel aft_def 4(1) name_def r1_def 4(2) r2_def 4(3) 4(4) this] show ?thesis
          unfolding n2 drop_drop by (rule lift)
      qed
    next
      case False
      then obtain e where c: "aft \<noteq> []" "name \<notin> set skipped_names" "\<not> (r2 = [] \<or> hd r2 \<noteq> CHR ''('')"
        "match_paren r2 0 = Some e" by auto
      define r3 where "r3 = drop (e + 1) r2"
      define be where "be = (case scan_mods 0 r3 of Some n \<Rightarrow> n | None \<Rightarrow> 0)"
      define mods where "mods = take be r3"
      define r4 where "r4 = drop (be + 1) r3"
      have r4: "r4 = drop (be + 1 + (e + 1) + n2) rest"
        by (simp add: r4_def r3_def n2 add.commute add.left_commute)
      let ?g = "\<lparr>fs_name = name, fs_args = take (e + 1) r2,
         fs_visibility = (if contains mods ''external'' then ''external'' else ''public''),
         fs_returns = extract_returns mods, fs_is_view_pure = view_pure mods\<rparr>"
      have unf: "extract_loop rest = (if contains mods ''external'' \<or> contains mods ''public''
          then map_option (Cons ?g) (extract_loop r4) else extract_loop r4)"
        using c unfolding unf0 r4_def mods_def be_def r3_def by (simp add: Let_def)
      have l9: "length ''function '' = 9" by simp
      have "rest = take rel rest @ ''function '' @ aft"
        using conjunct1[OF find_sub_Some[OF rel]] unfolding aft_def l9 .
      moreover have "aft = name @ r1" by (simp add: name_def r1_def)
      ultimately have "rest = take rel rest @ (''function '' @ name) @ r1" by (simp del: append_take_drop_id)
      then have "contains rest (''function '' @ name)" unfolding contains_iff by blast
      then have g: "signature_ok rest ?g"
        using c match_paren_head[of r2 e] by (auto simp: signature_ok_def name_def list_all_iff dest: set_takeWhileD)
      show ?thesis
      proof (cases "contains mods ''external'' \<or> contains mods ''public''")
        case True
        with unf "1.prems" have "map_option (Cons ?g) (extract_loop r4) = Some sigs" by simp
        then obtain gs where gs: "extract_loop r4 = Some gs" "sigs = ?g # gs"
          by (cases "extract_loop r4") auto
        from "1.IH"(4)[OF ne rel aft_def c(1) name_def r1_def c(2) r2_def c(3) c(4) refl r3_def be_def mods_def r4_def True gs(1)]
        have "list_all (signature_ok rest) gs" unfolding r4 by (rule lift)
        with g gs show ?thesis by simp
      next
        case False
        with unf "1.prems" have "extract_loop r4 = Some sigs" by simp
        from "1.IH"(5)[OF ne rel aft_def c(1) name_def r1_def c(2) r2_def c(3) c(4) refl r3_def be_def mods_def r4_def False this]
        show ?thesis unfolding r4 by (rule lift)
      qed
    qed
  qed
qed

section \<open>Bodies of functions in plain text\<close>

text \<open>Plain text: ASCII without comments. There the two offsets of \<open>body_for\<close> agree.\<close>

definition plain :: "string \<Rightarrow> bool" where
  "plain s \<longleftrightarrow> list_all is_ascii s \<and> \<not> contains s ''//'' \<and> \<not> contains s ''/*''"

lemma contains_Cons: "\<not> contains (c # s) p \<Longrightarrow> \<not> starts_with (c # s) p \<and> \<not> contains s p"
  by (auto simp: contains_def split: if_splits)

lemma plain_Cons: "plain (c # s) \<Longrightarrow>
    is_ascii c \<and> plain s \<and> \<not> starts_with (c # s) ''//'' \<and> \<not> starts_with (c # s) ''/*''"
  unfolding plain_def using contains_Cons[of c s "''//''"] contains_Cons[of c s "''/*''"] by simp

lemma strip_comments_plain: "plain s \<Longrightarrow> strip_comments s = s"
proof (induction s)
  case Nil
  then show ?case by simp
next
  case (Cons c s)
  from plain_Cons[OF Cons.prems] Cons.IH show ?case by (simp add: push_byte_def del: starts_with.simps)
qed

lemma project_from_plain: "plain s \<Longrightarrow> k \<le> length s \<Longrightarrow> project_from k i s = Some (i + k)"
proof (induction s arbitrary: k i)
  case Nil
  then show ?case by simp
next
  case (Cons c s)
  from plain_Cons[OF Cons.prems(1)] Cons.IH[of "k - 1" "Suc i"] Cons.prems(2) show ?case
    by (cases k) (simp_all del: starts_with.simps)
qed

lemma ascii_not_cont: "is_ascii c \<Longrightarrow> \<not> is_cont c"
  by (simp add: is_ascii_def is_cont_def)

lemma slice_from_plain:
  assumes "plain s" "i \<le> length s"
  shows "slice_from s i = Some (drop i s)"
proof -
  have "\<not> is_cont (hd (drop i s))" if "drop i s \<noteq> []"
  proof -
    from that have "hd (drop i s) \<in> set s" by (metis in_set_dropD list.set_sel(1))
    with assms(1) have "is_ascii (hd (drop i s))" by (simp add: plain_def list_all_iff)
    then show ?thesis by (rule ascii_not_cont)
  qed
  with assms(2) show ?thesis by (auto simp: slice_from_def)
qed

lemma locate_from_Some:
  "locate_from f i rest = Some j \<Longrightarrow>
     \<exists>n. j = i + n \<and> n \<le> length rest
       \<and> (\<exists>tl. drop n rest = ''function '' @ f @ tl \<and> (tl = [] \<or> \<not> is_ident (hd tl))) \<and> list_all is_ident f"
proof (induction f i rest rule: locate_from.induct)
  case (1 f i rest)
  from "1.prems" obtain rel where len: "\<not> length rest \<le> 9" and rel: "find_sub rest ''function '' = Some rel"
    by (auto simp: locate_from.simps[of f i rest] split: if_splits option.splits)
  define aft where "aft = drop (rel + 9) rest"
  define name where "name = takeWhile is_ident aft"
  have l9: "length ''function '' = 9" by simp
  have "rest = take rel rest @ ''function '' @ aft"
    using conjunct1[OF find_sub_Some[OF rel]] unfolding aft_def l9 .
  have rl: "rel + 9 \<le> length rest" using find_sub_bound[OF rel] unfolding l9 .
  have d: "drop rel rest = ''function '' @ aft"
    using \<open>rest = _\<close> rl by (metis append_eq_conv_conj length_take min.absorb2 add_leD1)
  have an: "aft = name @ dropWhile is_ident aft" by (simp add: name_def)
  have unf: "locate_from f i rest = (if name = f then Some (i + rel)
      else locate_from f (i + rel + 9 + length name) (dropWhile is_ident aft))"
    unfolding aft_def name_def
    by (subst locate_from.simps) (simp only: rel len option.case if_False Let_def)
  show ?case
  proof (cases "name = f")
    case True
    have "dropWhile is_ident aft = [] \<or> \<not> is_ident (hd (dropWhile is_ident aft))"
      using hd_dropWhile by blast
    moreover have "list_all is_ident f" using True by (auto simp: name_def list_all_iff dest: set_takeWhileD)
    moreover have "drop rel rest = ''function '' @ f @ dropWhile is_ident aft" using d an True by simp
    ultimately show ?thesis using True unf "1.prems" rl by (intro exI[of _ rel]) auto
  next
    case False
    with unf "1.prems" have "locate_from f (i + rel + 9 + length name) (dropWhile is_ident aft) = Some j" by simp
    from "1.IH"[OF len rel aft_def name_def False this] obtain n tl where
      n: "j = i + rel + 9 + length name + n" "n \<le> length (dropWhile is_ident aft)"
      "drop n (dropWhile is_ident aft) = ''function '' @ f @ tl" "tl = [] \<or> \<not> is_ident (hd tl)"
      "list_all is_ident f" by blast
    have dw: "dropWhile is_ident aft = drop (rel + 9 + length name) rest"
      unfolding name_def aft_def by (simp add: dropWhile_eq_drop add.commute)
    have "drop (rel + 9 + length name + n) rest = ''function '' @ f @ tl"
      using n(3) unfolding dw by (simp add: add.commute add.left_commute)
    moreover have "rel + 9 + length name + n \<le> length rest"
    proof -
      have "drop (rel + 9 + length name + n) rest \<noteq> []" using calculation by simp
      then show ?thesis by simp
    qed
    ultimately show ?thesis using n(1,4,5) by (intro exI[of _ "rel + 9 + length name + n"]) auto
  qed
qed

lemma find_body_open_at_Some:
  "find_body_open_at d s = Some n \<Longrightarrow> n < length s \<and> s ! n = CHR ''{''"
  by (induction s arbitrary: d n) (auto split: if_splits)

lemma ident_not_brace: "is_ident c \<Longrightarrow> c \<noteq> CHR ''{''"
  by (auto simp: is_ident_def char_class_defs)

lemma body_for_plain:
  assumes p: "plain src" and b: "body_for f src = Some (Some body)"
  shows "\<exists>pre mid post. src = pre @ ''function '' @ f @ mid @ ''{'' @ body @ ''}'' @ post
    \<and> balanced (CHR ''{'') (CHR ''}'') body \<and> (mid = [] \<or> \<not> is_ident (hd mid))"
proof -
  from b p obtain i where i: "locate_function src f = Some i"
    by (auto simp: body_for_def strip_comments_plain split: option.splits)
  from locate_from_Some[OF i[unfolded locate_function_def]] obtain tl where
    il: "i \<le> length src" and tl: "drop i src = ''function '' @ f @ tl" "tl = [] \<or> \<not> is_ident (hd tl)"
    and fi: "list_all is_ident f" by auto
  have proj: "project_index src i = Some i"
    unfolding project_index_def using project_from_plain[OF p il, of 0] by simp
  have sl: "slice_from src i = Some (drop i src)" by (rule slice_from_plain[OF p il])
  from b p i proj sl obtain n where n: "find_body_open (drop i src) = Some n"
    by (auto simp: body_for_def strip_comments_plain split: option.splits)
  from find_body_open_at_Some[OF n[unfolded find_body_open_def]]
  have nl: "n < length (drop i src)" and nb: "drop i src ! n = CHR ''{''" by auto
  from b p i proj sl n obtain cl where cl: "match_brace src (i + n) = Some cl"
    and body: "body = (if cl \<le> i + n + 1 then [] else take (cl - (i + n + 1)) (drop (i + n + 1) src))"
    by (auto simp: body_for_def strip_comments_plain Let_def split: option.splits if_splits)
  have h: "9 + length f \<le> n"
  proof (rule ccontr)
    assume c: "\<not> 9 + length f \<le> n"
    define hh where "hh = ''function '' @ f"
    have e: "drop i src = hh @ tl" unfolding hh_def using tl(1) by simp
    have l: "n < length hh" unfolding hh_def using c by simp
    then have "drop i src ! n = hh ! n" unfolding e by (simp add: nth_append)
    with nb l have "CHR ''{'' \<in> set hh" by (metis nth_mem)
    moreover have "CHR ''{'' \<notin> set f" using fi ident_not_brace by (auto simp: list_all_iff)
    ultimately show False by (simp add: hh_def)
  qed
  define mid where "mid = take (n - (9 + length f)) tl"
  have dn: "drop (i + n) src = CHR ''{'' # drop (i + n + 1) src"
  proof -
    have il: "i + n < length src" using nl by simp
    have "src ! (i + n) = CHR ''{''" using nb il by simp
    with Cons_nth_drop_Suc[OF il] show ?thesis by simp
  qed
  have tln: "drop (n - (9 + length f)) tl = drop (i + n) src"
  proof -
    have "drop (i + n) src = drop n (drop i src)" by (simp add: add.commute)
    also have "\<dots> = drop (n - (9 + length f)) tl"
    proof -
      define hh where "hh = ''function '' @ f"
      have "drop i src = hh @ tl" unfolding hh_def using tl(1) by simp
      moreover have "length hh = 9 + length f" by (simp add: hh_def)
      ultimately show ?thesis using h by simp
    qed
    finally show ?thesis ..
  qed
  from cl dn obtain m where m: "match_close (CHR ''{'') (CHR ''}'') 0 (CHR ''{'' # drop (i + n + 1) src) = Some m"
    "cl = i + n + m" by (auto simp: match_brace_def)
  from match_close_open[OF _ m(1)] obtain bd post where
    bd: "drop (i + n + 1) src = bd @ CHR ''}'' # post" "balanced (CHR ''{'') (CHR ''}'') bd" "m = Suc (length bd)" by auto
  have body': "body = bd" using body m(2) bd by auto
  have "src = take i src @ drop i src" by simp
  also have "drop i src = ''function '' @ f @ tl" by (rule tl(1))
  also have "tl = mid @ drop (n - (9 + length f)) tl" by (simp add: mid_def)
  also have "drop (n - (9 + length f)) tl = ''{'' @ body @ ''}'' @ post"
    using tln dn bd(1) body' by simp
  finally have "src = take i src @ ''function '' @ f @ mid @ ''{'' @ body @ ''}'' @ post" by simp
  moreover have "mid = [] \<or> \<not> is_ident (hd mid)" using tl(2) by (cases tl) (auto simp: mid_def take_Cons split: nat.splits)
  ultimately show ?thesis using bd(2) body' by blast
qed

lemma body_for_plain_total: "plain src \<Longrightarrow> body_for f src \<noteq> None"
proof -
  assume p: "plain src"
  show ?thesis
  proof (cases "locate_function src f")
    case None
    with p show ?thesis by (simp add: body_for_def strip_comments_plain)
  next
    case (Some i)
    from locate_from_Some[OF Some[unfolded locate_function_def]] have il: "i \<le> length src" by auto
    have "project_index src i = Some i"
      unfolding project_index_def using project_from_plain[OF p il, of 0] by simp
    with p Some slice_from_plain[OF p il] show ?thesis
      by (auto simp: body_for_def strip_comments_plain Let_def split: option.split)
  qed
qed

section \<open>Properties\<close>

text \<open>The scanner invents no method: every signature it extracts from any source, comments stripped, has a
  proper identifier as its name that follows a \<open>function\<close> keyword of the source, is external or public,
  is not a constructor, receive or fallback, and has a balanced parenthesised argument list.\<close>

theorem signatures_are_real:
  "case extract_signatures src of
     None \<Rightarrow> True
   | Some sigs \<Rightarrow> list_all (signature_ok (strip_comments src)) sigs"
  using extract_loop_ok[of "strip_comments src"] by (simp add: extract_signatures_def split: option.split)

text \<open>In ASCII source without comments, looking up a function body never panics and returns exactly the
  text between the opening brace of a function of that very name and its matching closing brace.\<close>

theorem body_for_exact:
  assumes "plain src"
  shows "case body_for f src of
     None \<Rightarrow> False
   | Some None \<Rightarrow> True
   | Some (Some body) \<Rightarrow> \<exists>pre mid post. src = pre @ ''function '' @ f @ mid @ ''{'' @ body @ ''}'' @ post
       \<and> balanced (CHR ''{'') (CHR ''}'') body \<and> (mid = [] \<or> \<not> is_ident (hd mid))"
proof (cases "body_for f src")
  case None
  with body_for_plain_total[OF assms, of f] show ?thesis by simp
next
  case (Some r)
  show ?thesis
  proof (cases r)
    case None
    with Some show ?thesis by simp
  next
    case (Some body)
    with \<open>body_for f src = Some r\<close> body_for_plain[OF assms] show ?thesis by simp
  qed
qed

theorem body_for_exact_witness:
  "\<exists>pre mid post. ''contract T { function foo() public { a { b } } }''
     = pre @ ''function '' @ ''foo'' @ mid @ ''{'' @ '' a { b } '' @ ''}'' @ post
   \<and> balanced (CHR ''{'') (CHR ''}'') '' a { b } '' \<and> (mid = [] \<or> \<not> is_ident (hd mid))"
proof -
  let ?s = "''contract T { function foo() public { a { b } } }''"
  have p: "plain ?s" by code_simp
  have b: "body_for ''foo'' ?s = Some (Some '' a { b } '')" by code_simp
  from body_for_exact[OF p, of "''foo''"] show ?thesis unfolding b option.case .
qed

text \<open>Outside plain text the lookup can go wrong, and the scanner can panic: a brace in a comment ends the
  body early; letters beyond ASCII before a function (of which the stripped copy has twice the bytes)
  make it return the body of another function; and a signature followed directly by such a letter
  makes the extraction panic.\<close>

theorem body_for_confused:
  "body_for ''f'' (''function f() { a; // }'' @ [NL] @ '' b; }'') = Some (Some '' a; // '')
   \<and> body_for ''a'' (concat (replicate 8 [CHR 0xC3, CHR 0xA9]) @ ''function a(){X}function b(){Y}'') = Some (Some ''Y'')
   \<and> extract_signatures (''function f()'' @ [CHR 0xC3, CHR 0xA9]) = None"
  by code_simp

text \<open>The interface tags of a contract are distinct; a token of the fungible kind is recognised by its
  allowance, transfer and transferFrom functions, and an ERC-721 contract carries the ERC-20 tag only
  if it is a vault as well.\<close>

theorem interface_tags:
  "distinct (tags_of names text0)
   \<and> (''ERC20'' \<in> set (tags_of names text0))
      = (''ERC4626'' \<in> set (tags_of names text0)
         \<or> List.member names ''allowance'' \<and> List.member names ''transfer'' \<and> List.member names ''transferFrom''
           \<and> ''ERC721'' \<notin> set (tags_of names text0))"
proof -
  have d: "distinct (add_if b t ts) = distinct ts" "distinct (push_tag t ts) = distinct ts" for b t ts
    by (auto simp: add_if_def push_tag_def)
  have m: "x \<in> set (add_if b t ts) \<longleftrightarrow> x \<in> set ts \<or> b \<and> x = t"
    "x \<in> set (push_tag t ts) \<longleftrightarrow> x \<in> set ts \<or> x = t" for b t ts x
    by (auto simp: add_if_def push_tag_def)
  have i: "distinct (if b then xs else ys) = (if b then distinct xs else distinct ys)"
    "x \<in> set (if b then xs else ys) \<longleftrightarrow> (if b then x \<in> set xs else x \<in> set ys)" for b and x :: string and xs ys
    by simp_all
  show ?thesis
    unfolding tags_of_def Let_def d m i by simp argo
qed

end
