(* ===== verification/Verdict.thy ===== *)
theory Verdict
  imports Layout Signatures Json "HOL-Library.Multiset"
begin

text \<open>
  The stratified verdict (\<open>crates/vergil-cli/src/output/verdict.rs\<close>): the three-state headline, the
  report in Markdown and the document for machines. A digest that cannot be cut after twelve bytes
  makes the code panic, which is \<open>None\<close> here.
\<close>

section \<open>Inputs\<close>

record oracles_summary =
  ao_tests :: bool
  ao_natspec :: bool
  ao_readme :: bool

record fingerprint_summary =
  fs_interfaces :: "string list"
  fs_primitives :: "string list"
  fs_available_oracles :: oracles_summary

datatype property_verdict =
    PvVerified string "string option"
  | PvRefuted string string string
  | PvUnknown string "string option"
  | PvError string

record property_outcome =
  po_name :: string
  po_source :: proof_source
  po_tier :: tier
  po_verdict :: property_verdict
  po_template_ref :: "string option"
  po_intent_text :: "string option"

record skipped_template =
  sk_id :: string
  sk_reason :: string

record template_failure =
  tf_template_id :: string
  tf_reason :: string

record document_only_template =
  do_id :: string
  do_name :: string

record low_confidence_primitive =
  lp_primitive :: string
  lp_confidence :: string
  lp_signals :: string

record classification_summary =
  cl_top :: string
  cl_top_confidence :: string
  cl_top_signals :: string
  cl_low_confidence :: "low_confidence_primitive list"

record low_confidence_structural =
  ls_miner :: string
  ls_description :: string
  ls_confidence :: string
  ls_fn_or_var :: "string option"

record stratified_inputs =
  si_project_path :: string
  si_fingerprint :: fingerprint_summary
  si_properties :: "property_outcome list"
  si_skipped_templates :: "skipped_template list"
  si_per_template_failures :: "template_failure list"
  si_document_only :: "document_only_template list"
  si_structural_pending :: bool
  si_low_confidence_structural :: "low_confidence_structural list"
  si_classification :: "classification_summary option"

datatype headline = HlRefuted | HlVerifiedInScope | HlIncomplete

fun headline_str :: "headline \<Rightarrow> string" where
  "headline_str HlRefuted = ''Refuted''"
| "headline_str HlVerifiedInScope = ''Verified-in-scope''"
| "headline_str HlIncomplete = ''Incomplete''"

record verdict_output =
  vo_headline :: headline
  vo_inputs :: stratified_inputs

section \<open>The headline\<close>

fun pv_verified :: "property_verdict \<Rightarrow> bool" where
  "pv_verified (PvVerified b sha) = True"
| "pv_verified _ = False"

fun pv_refuted :: "property_verdict \<Rightarrow> bool" where
  "pv_refuted (PvRefuted b f t) = True"
| "pv_refuted _ = False"

fun pv_undecided :: "property_verdict \<Rightarrow> bool" where
  "pv_undecided (PvUnknown d f) = True"
| "pv_undecided (PvError d) = True"
| "pv_undecided _ = False"

definition format_verdict :: "stratified_inputs \<Rightarrow> verdict_output" where
  "format_verdict v =
     (let any_refuted = list_ex (\<lambda>p. pv_refuted (po_verdict p)) (si_properties v);
          any_unknown_or_error = list_ex (\<lambda>p. pv_undecided (po_verdict p)) (si_properties v);
          any_verified = list_ex (\<lambda>p. pv_verified (po_verdict p)) (si_properties v)
      in \<lparr>vo_headline =
            (if any_refuted then HlRefuted
             else if any_unknown_or_error then HlIncomplete
             else if any_verified then HlVerifiedInScope
             else HlIncomplete),
          vo_inputs = v\<rparr>)"

section \<open>Parts of the report\<close>

definition join_or_none :: "string list \<Rightarrow> string" where
  "join_or_none items = (if items = [] then ''(none)'' else join '', '' items)"

fun proof_source_label :: "proof_source \<Rightarrow> string" where
  "proof_source_label PsUserIntent = ''user-intent''"
| "proof_source_label PsAttackCatalog = ''attack-catalog''"
| "proof_source_label PsConformance = ''conformance''"
| "proof_source_label PsTests = ''tests''"
| "proof_source_label PsNatSpec = ''natspec''"
| "proof_source_label PsStructural = ''structural''"

fun tier_label :: "tier \<Rightarrow> string" where
  "tier_label ZeroConfig = ''zero-config''"
| "tier_label Intent = ''intent''"

definition show_bool :: "bool \<Rightarrow> string" where
  "show_bool b = (if b then ''true'' else ''false'')"

text \<open>A slice up to a byte offset, a panic off a character boundary.\<close>

definition slice_to :: "string \<Rightarrow> nat \<Rightarrow> string option" where
  "slice_to s i =
     (if length s < i then None
      else if drop i s \<noteq> [] \<and> is_cont (hd (drop i s)) then None
      else Some (take i s))"

definition outcome_head :: "property_outcome \<Rightarrow> string \<Rightarrow> string" where
  "outcome_head p backend =
     ''- `'' @ po_name p @ (''` '' @ em_dash @ '' tier: '') @ tier_label (po_tier p) @ '', source: ''
     @ proof_source_label (po_source p) @ '', backend: '' @ backend
     @ (case po_template_ref p of None \<Rightarrow> [] | Some t \<Rightarrow> '', template: `'' @ t @ ''`'')"

definition intent_line :: "property_outcome \<Rightarrow> string" where
  "intent_line p = (case po_intent_text p of None \<Rightarrow> [] | Some i \<Rightarrow> ''    > '' @ i @ [NL])"

definition render_proven_property :: "property_outcome \<Rightarrow> string option" where
  "render_proven_property p =
     (case po_verdict p of
        PvVerified backend smt \<Rightarrow>
          (let line = (\<lambda>s. outcome_head p backend @ s @ [NL] @ intent_line p) in
           case smt of
             None \<Rightarrow> Some (line [])
           | Some sha \<Rightarrow>
               map_option (\<lambda>short. line ('', smt: `'' @ short @ ([CHR 0xE2, CHR 0x80, CHR 0xA6] @ ''`''))) (slice_to sha (min (length sha) 12)))
      | _ \<Rightarrow> None)"

definition render_refuted_property :: "property_outcome \<Rightarrow> string option" where
  "render_refuted_property p =
     (case po_verdict p of
        PvRefuted backend cex_file tr \<Rightarrow>
          Some (outcome_head p backend @ [NL] @ intent_line p
            @ ''    - Counterexample: `'' @ cex_file @ (''` (runnable `forge test --match-path` target)'' @ [NL])
            @ (if tr = [] then [] else ''    - Trace: '' @ tr @ [NL]))
      | _ \<Rightarrow> None)"

text \<open>What a run leaves undecided: structural to the property, or a matter of this run.\<close>

fun is_frontier :: "property_verdict \<Rightarrow> bool" where
  "is_frontier (PvUnknown d (Some a)) = True"
| "is_frontier _ = False"

fun is_per_run :: "property_verdict \<Rightarrow> bool" where
  "is_per_run (PvUnknown d None) = True"
| "is_per_run (PvError d) = True"
| "is_per_run _ = False"

definition frontier_line :: "property_outcome \<Rightarrow> string" where
  "frontier_line p =
     (case po_verdict p of
        PvUnknown d (Some approx) \<Rightarrow>
          ''    - `'' @ po_name p @ ''` (template: `''
          @ (case po_template_ref p of None \<Rightarrow> ''(none)'' | Some t \<Rightarrow> t)
          @ (''`)'' @ [NL] @ ''      Over-approximation: '') @ approx @ [NL]
      | _ \<Rightarrow> [])"

definition per_run_line :: "property_outcome \<Rightarrow> string" where
  "per_run_line p =
     ''    - `'' @ po_name p @ (''` '' @ em_dash @ '' '')
     @ (case po_verdict p of PvUnknown d f \<Rightarrow> d | PvError d \<Rightarrow> d | _ \<Rightarrow> []) @ [NL]"

definition item_line :: "string \<Rightarrow> string \<Rightarrow> string" where
  "item_line a b = ''    - `'' @ a @ (''` '' @ em_dash @ '' '') @ b @ [NL]"

text \<open>A block with a counted heading, left out when it has no items.\<close>

definition counted_block :: "string \<Rightarrow> ('a \<Rightarrow> string) \<Rightarrow> 'a list \<Rightarrow> string" where
  "counted_block heading line xs =
     (if xs = [] then [] else ''- **'' @ show_nat (length xs) @ heading @ concat (map line xs))"

definition pending_note :: string where
  "pending_note =
     (''- **Structural mining (Phase 5)** '' @ em_dash
     @ '' not yet implemented. The V1.5 stack will mine conservation / monotonicity / ''
     @ ''access-policy / invariant-constant / two-step-pattern candidates from solc + Slither once ''
     @ ''Phase 5 lands.'' @ [NL])"

definition nothing_note :: string where
  "nothing_note =
     (''_All selected oracles produced verdicts; no skipped templates, frontier Unknowns, or ''
     @ ''deferred sources to report._'' @ [NL])"

definition scope_note :: string where
  "scope_note =
     ([NL] @ ''_The '' @ [DQ] @ ''Verified-in-scope'' @ [DQ]
     @ '' headline above means every property this run CHECKED was proven by the solver. It does ''
     @ ''NOT mean the contract is safe. Properties listed above as skipped / Phase-5-pending / ''
     @ ''document-only were not checked at all._'' @ [NL])"

definition not_checked_parts :: "stratified_inputs \<Rightarrow> string list" where
  "not_checked_parts v =
     [if si_structural_pending v then pending_note else [],
      counted_block ('' attack-catalog templates skipped** '' @ em_dash
     @ '' applicability preconditions did not match:'' @ [NL]) (\<lambda>s. item_line (sk_id s) (sk_reason s)) (si_skipped_templates v),
      counted_block ('' frontier-template Unknowns** '' @ em_dash
     @ '' the property is fundamentally hard for the underlying SMT theory; the run only verified ''
     @ ''the declared over-approximation. SPEC '' @ [CHR 0xC2, CHR 0xA7] @ ''4.3.'' @ [NL])
        frontier_line (filter (\<lambda>p. is_frontier (po_verdict p)) (si_properties v)),
      counted_block ('' per-run Unknowns or errors** '' @ em_dash
     @ '' solver budget exhausted or dispatch failure, not a frontier-template structural issue ''
     @ ''(SPEC '' @ [CHR 0xC2, CHR 0xA7] @ ''4.3 distinction):'' @ [NL])
        per_run_line (filter (\<lambda>p. is_per_run (po_verdict p)) (si_properties v)),
      counted_block ('' document-only templates** '' @ em_dash
     @ '' no SMT encoding ships; these are named in the catalog for awareness only.'' @ [NL]) (\<lambda>t. item_line (do_id t) (do_name t)) (si_document_only v),
      counted_block ('' attack-catalog templates failed synthesis** '' @ em_dash
     @ '' the LLM could not render a check_ function for the template against this contract ''
     @ ''surface:'' @ [NL]) (\<lambda>f. item_line (tf_template_id f) (tf_reason f)) (si_per_template_failures v)]"

definition render_not_checked :: "stratified_inputs \<Rightarrow> headline \<Rightarrow> string" where
  "render_not_checked v h =
     (let parts = not_checked_parts v in
      concat parts
      @ (if list_all (\<lambda>p. p = []) parts then nothing_note else [])
      @ (if h = HlVerifiedInScope then scope_note else []) @ [NL])"

section \<open>The report\<close>

definition report_header :: "verdict_output \<Rightarrow> string" where
  "report_header vo =
     (let v = vo_inputs vo; o1 = fs_available_oracles (si_fingerprint v) in
      (''# Vergil verdict'' @ [NL] @ [NL] @ ''**Headline:** '') @ headline_str (vo_headline vo) @ [NL, NL]
      @ ''Project: `'' @ si_project_path v @ ''`'' @ [NL]
      @ ''Interfaces: '' @ join_or_none (fs_interfaces (si_fingerprint v)) @ [NL]
      @ ''Primitives: '' @ join_or_none (fs_primitives (si_fingerprint v)) @ [NL]
      @ ''Oracles available: tests='' @ show_bool (ao_tests o1) @ '' natspec='' @ show_bool (ao_natspec o1)
      @ '' readme='' @ show_bool (ao_readme o1) @ [NL]
      @ (case si_classification v of
           None \<Rightarrow> []
         | Some c \<Rightarrow>
             ''Suggested classification: '' @ cl_top c @ '' ('' @ cl_top_confidence c @ ('') '' @ em_dash @ '' signals: '') @ cl_top_signals c @ [NL]
             @ concat (map (\<lambda>l. (''  '' @ [CHR 0xC2, CHR 0xB7] @ '' also considered: '') @ lp_primitive l @ '' ('' @ lp_confidence l @ ('') '' @ em_dash @ '' '') @ lp_signals l @ [NL])
                 (cl_low_confidence c)))
      @ [NL])"

definition suggested_block :: "low_confidence_structural list \<Rightarrow> string" where
  "suggested_block fs =
     (if fs = [] then []
      else ''## Suggested additional invariants ('' @ show_nat (length fs) @ ('')'' @ [NL] @ [NL]
     @ ''_Mined by structural analysis at low confidence; NOT auto-verified. Review and promote to ''
     @ ''a manual intent if you want them in the next run._'' @ [NL] @ [NL])
        @ concat (map (\<lambda>f. ''- **'' @ ls_miner f @ ''** (confidence '' @ ls_confidence f @ '')''
            @ (case ls_fn_or_var f of None \<Rightarrow> [] | Some t \<Rightarrow> '' `'' @ t @ ''`'') @ '': '' @ ls_description f @ [NL]) fs)
        @ [NL])"

definition reproduce_section :: "string \<Rightarrow> string" where
  "reproduce_section project =
     (''## Reproduce'' @ [NL] @ [NL] @ ''Re-verify independently via `vergil prove '') @ project @ (''/vergil-out/proof.json`. SMT queries are re-dispatched through the alternate solver (cvc5 ''
     @ ''by default; override with `--solver z3` / `--solver bitwuzla`). No LLM is invoked on the ''
     @ ''re-check path.'' @ [NL])"

definition titled_section :: "string \<Rightarrow> string \<Rightarrow> string list \<Rightarrow> string" where
  "titled_section title none entries =
     ''## '' @ title @ '' ('' @ show_nat (length entries) @ '')'' @ [NL, NL]
     @ (if entries = [] then none @ [NL, NL] else concat entries)"

definition report_md :: "verdict_output \<Rightarrow> string option" where
  "report_md vo =
     (let v = vo_inputs vo;
          proven = filter (\<lambda>p. pv_verified (po_verdict p)) (si_properties v);
          refuted = filter (\<lambda>p. pv_refuted (po_verdict p)) (si_properties v)
      in case those (map render_proven_property proven) of
           None \<Rightarrow> None
         | Some ps \<Rightarrow>
             (case those (map render_refuted_property refuted) of
                None \<Rightarrow> None
              | Some rs \<Rightarrow>
                  Some (report_header vo
                    @ titled_section ''Proven'' ''_No properties verified in this run._'' ps
                    @ titled_section ''Refuted'' ''_No counterexamples found._'' rs
                    @ suggested_block (si_low_confidence_structural v)
                    @ ''## Not checked'' @ [NL, NL]
                    @ render_not_checked v (vo_headline vo)
                    @ reproduce_section (si_project_path v))))"

section \<open>The document for machines\<close>

fun proof_source_wire :: "proof_source \<Rightarrow> string" where
  "proof_source_wire PsUserIntent = ''user_intent''"
| "proof_source_wire PsAttackCatalog = ''attack_catalog''"
| "proof_source_wire PsConformance = ''conformance''"
| "proof_source_wire PsTests = ''tests''"
| "proof_source_wire PsNatSpec = ''nat_spec''"
| "proof_source_wire PsStructural = ''structural''"

fun verdict_json :: "property_verdict \<Rightarrow> json" where
  "verdict_json (PvVerified b sha) =
     JObj [(''kind'', JStr ''verified''), (''backend'', JStr b), (''smt_query_sha256'', opt_json JStr sha)]"
| "verdict_json (PvRefuted b f t) =
     JObj [(''kind'', JStr ''refuted''), (''backend'', JStr b), (''cex_file'', JStr f), (''trace_summary'', JStr t)]"
| "verdict_json (PvUnknown d f) =
     JObj [(''kind'', JStr ''unknown''), (''detail'', JStr d), (''frontier_over_approximation'', opt_json JStr f)]"
| "verdict_json (PvError d) = JObj [(''kind'', JStr ''error''), (''detail'', JStr d)]"

definition outcome_json :: "property_outcome \<Rightarrow> json" where
  "outcome_json p =
     JObj [(''name'', JStr (po_name p)), (''source'', JStr (proof_source_wire (po_source p))),
           (''tier'', JStr (tier_label (po_tier p))), (''verdict'', verdict_json (po_verdict p)),
           (''template_ref'', opt_json JStr (po_template_ref p)), (''intent_text'', opt_json JStr (po_intent_text p))]"

definition fingerprint_json :: "fingerprint_summary \<Rightarrow> json" where
  "fingerprint_json f =
     JObj [(''interfaces'', JArr (map JStr (fs_interfaces f))), (''primitives'', JArr (map JStr (fs_primitives f))),
           (''available_oracles'', JObj [(''tests'', JBool (ao_tests (fs_available_oracles f))),
             (''natspec'', JBool (ao_natspec (fs_available_oracles f))),
             (''readme'', JBool (ao_readme (fs_available_oracles f)))])]"

fun headline_machine :: "headline \<Rightarrow> string" where
  "headline_machine HlRefuted = ''refuted''"
| "headline_machine HlVerifiedInScope = ''verified-in-scope''"
| "headline_machine HlIncomplete = ''incomplete''"

definition proof_json :: "verdict_output \<Rightarrow> json" where
  "proof_json vo =
     (let v = vo_inputs vo in
      JObj [(''headline'', JStr (headline_str (vo_headline vo))),
            (''headline_machine'', JStr (headline_machine (vo_headline vo))),
            (''project_path'', JStr (si_project_path v)),
            (''fingerprint'', fingerprint_json (si_fingerprint v)),
            (''properties'', JArr (map outcome_json (si_properties v))),
            (''skipped_templates'', JArr (map (\<lambda>s. JObj [(''id'', JStr (sk_id s)), (''reason'', JStr (sk_reason s))])
               (si_skipped_templates v))),
            (''per_template_failures'', JArr (map (\<lambda>f. JObj [(''template_id'', JStr (tf_template_id f)),
               (''reason'', JStr (tf_reason f))]) (si_per_template_failures v))),
            (''document_only_templates'', JArr (map (\<lambda>t. JObj [(''id'', JStr (do_id t)), (''name'', JStr (do_name t))])
               (si_document_only v))),
            (''phase5_structural_pending'', JBool (si_structural_pending v)),
            (''low_confidence_structural'', JArr (map (\<lambda>l. JObj [(''miner'', JStr (ls_miner l)),
               (''description'', JStr (ls_description l)), (''confidence'', JStr (ls_confidence l)),
               (''fn_or_var'', opt_json JStr (ls_fn_or_var l))]) (si_low_confidence_structural v))),
            (''reproduce'', JStr (''vergil prove '' @ si_project_path v @ ''/vergil-out/proof.json''))])"

section \<open>Lemmas\<close>

lemma those_map_None: "those (map f xs) = None \<longleftrightarrow> (\<exists>x\<in>set xs. f x = None)"
  by (induction xs) (auto split: option.splits)

lemma those_map_Some: "those (map f xs) = Some ys \<Longrightarrow> x \<in> set xs \<Longrightarrow> \<exists>y\<in>set ys. f x = Some y"
  by (induction xs arbitrary: ys) (auto split: option.splits)

text \<open>How every entry begins that is about a property.\<close>

definition mention :: "string \<Rightarrow> string" where
  "mention name = ''- `'' @ name @ ''`''"

lemma mention_prefix:
  "\<exists>r. outcome_head p b = mention (po_name p) @ r"
  "\<exists>r. item_line a c = ''    '' @ mention a @ r"
  "\<exists>r. per_run_line p = ''    '' @ mention (po_name p) @ r"
  "is_frontier (po_verdict p) \<Longrightarrow> \<exists>r. frontier_line p = ''    '' @ mention (po_name p) @ r"
  by (auto simp: outcome_head_def item_line_def per_run_line_def frontier_line_def mention_def
      elim: is_frontier.elims)

lemma outcome_head_mention: "contains (outcome_head p b) (mention (po_name p))"
  using mention_prefix(1)[of p b] by (auto simp: contains_start)

lemma item_mention: "contains (item_line a c) (mention a)"
  using mention_prefix(2)[of a c] contains_infix by metis

lemma undecided_mention:
  "is_frontier (po_verdict p) \<Longrightarrow> contains (frontier_line p) (mention (po_name p))"
  "contains (per_run_line p) (mention (po_name p))"
  using mention_prefix(3,4)[of p] contains_infix by metis+

lemma proven_mention: "render_proven_property p = Some y \<Longrightarrow> contains y (mention (po_name p))"
  by (auto simp: render_proven_property_def Let_def outcome_head_mention
      split: property_verdict.splits option.splits intro!: contains_append_right)

lemma refuted_mention: "render_refuted_property p = Some y \<Longrightarrow> contains y (mention (po_name p))"
  by (auto simp: render_refuted_property_def outcome_head_mention
      split: property_verdict.splits intro!: contains_append_right)

lemma counted_block_mention:
  "x \<in> set xs \<Longrightarrow> contains (line x) w \<Longrightarrow> contains (counted_block h line xs) w"
  by (auto simp: counted_block_def intro!: contains_append_left contains_ConsI contains_concat_map)

lemma titled_section_mention: "x \<in> set es \<Longrightarrow> contains x w \<Longrightarrow> contains (titled_section t n es) w"
  by (auto simp: titled_section_def intro!: contains_append_left contains_ConsI contains_concat)

lemma not_checked_mention:
  assumes "y \<in> set (not_checked_parts v)" and "contains y w"
  shows "contains (render_not_checked v h) w"
  unfolding render_not_checked_def Let_def
  by (rule contains_append_right) (rule contains_concat[OF assms])

text \<open>A digest that cannot be shortened.\<close>

fun bad_digest :: "property_verdict \<Rightarrow> bool" where
  "bad_digest (PvVerified b (Some sha)) = (slice_to sha (min (length sha) 12) = None)"
| "bad_digest _ = False"

lemma render_proven_None:
  "pv_verified (po_verdict p) \<Longrightarrow> render_proven_property p = None \<longleftrightarrow> bad_digest (po_verdict p)"
  by (cases "po_verdict p") (auto simp: render_proven_property_def Let_def split: option.splits)

lemma bad_digest_verified: "bad_digest x \<Longrightarrow> pv_verified x"
  by (cases x) auto

lemma render_refuted_total: "pv_refuted (po_verdict p) \<Longrightarrow> render_refuted_property p \<noteq> None"
  by (cases "po_verdict p") (auto simp: render_refuted_property_def)

lemma verdict_cases:
  "pv_verified x \<or> pv_refuted x \<or> is_frontier x \<or> is_per_run x"
  "\<not> (pv_verified x \<and> pv_refuted x)" "\<not> (pv_verified x \<and> is_frontier x)" "\<not> (pv_verified x \<and> is_per_run x)"
  "\<not> (pv_refuted x \<and> is_frontier x)" "\<not> (pv_refuted x \<and> is_per_run x)" "\<not> (is_frontier x \<and> is_per_run x)"
  "pv_undecided x \<longleftrightarrow> is_frontier x \<or> is_per_run x"
  by (cases x rule: is_frontier.cases; simp)+

lemma header_headline: "contains (report_header vo) (''**Headline:** '' @ headline_str (vo_headline vo))"
proof -
  have "\<exists>u w. report_header vo = u @ (''**Headline:** '' @ headline_str (vo_headline vo)) @ w"
    unfolding report_header_def Let_def
    by (rule exI[of _ "''# Vergil verdict'' @ [NL, NL]"]) simp
  then show ?thesis by (auto simp: contains_iff)
qed

lemma report_sections:
  assumes "r = a @ b @ c @ d @ e @ f @ g"
  shows "contains a w \<Longrightarrow> contains r w" "contains b w \<Longrightarrow> contains r w" "contains c w \<Longrightarrow> contains r w"
    "contains f w \<Longrightarrow> contains r w"
proof -
  have "contains r f" using contains_infix[of "a @ b @ c @ d @ e" f g] by (simp add: assms)
  then show "contains f w \<Longrightarrow> contains r w" by (rule contains_trans)
qed (simp_all add: assms contains_append_right contains_append_left)

section \<open>Properties\<close>

text \<open>The headline is honest: it reads Verified-in-scope exactly when at least one property was checked and
  every one of them was verified, Refuted exactly when some property was refuted, and Incomplete in every
  other case, a run that checked nothing included.\<close>

theorem headline_honest:
  "(vo_headline (format_verdict v) = HlVerifiedInScope) =
     (si_properties v \<noteq> [] \<and> list_all (\<lambda>p. pv_verified (po_verdict p)) (si_properties v))
   \<and> (vo_headline (format_verdict v) = HlRefuted) = list_ex (\<lambda>p. pv_refuted (po_verdict p)) (si_properties v)"
proof -
  have n: "\<not> pv_refuted x \<and> \<not> pv_undecided x \<longleftrightarrow> pv_verified x" for x
    by (cases x) auto
  show ?thesis
    unfolding format_verdict_def Let_def
    by (cases "si_properties v") (auto simp: list_ex_iff list_all_iff n[symmetric])
qed


end
