(* ===== verification/PropertiesReport.thy ===== *)
theory PropertiesReport
  imports Portfolio Verdict
begin

text \<open>
  The report of a run over \<open>properties.yaml\<close>: the file (\<open>crates/vergil-cli/src/config.rs\<close>), the exit code
  (\<open>output/mod.rs\<close>) and the two renderings (\<open>output/text.rs\<close>, \<open>output/markdown.rs\<close>).
\<close>

section \<open>The properties file\<close>

record property_param =
  pm_param_name :: string
  pm_solidity_type :: string

record property_entry =
  pe_name :: string
  pe_params :: "property_param list"
  pe_smtchecker_source :: "string option"

record property_contract_ref =
  pcr_name :: string
  pcr_path :: string
  pcr_constructor_args :: "string list"

record properties_file =
  yf_version :: u32
  yf_property_contract :: "property_contract_ref option"
  yf_properties :: "property_entry list"

text \<open>\<open>read\<close> is the file system and \<open>yaml\<close> serde's decoder.\<close>

definition properties_load ::
    "(string \<Rightarrow> string + string) \<Rightarrow> (string \<Rightarrow> string + properties_file) \<Rightarrow> string \<Rightarrow> string + properties_file" where
  "properties_load read yaml path =
     (case read path of
        Inl e \<Rightarrow> Inl (''read '' @ path @ '': '' @ e)
      | Inr body \<Rightarrow>
          (case yaml body of
             Inl e \<Rightarrow> Inl (''parse '' @ path @ '': '' @ e)
           | Inr f \<Rightarrow>
               (if yf_version f \<noteq> 1
                then Inl (''unsupported properties.yaml version '' @ show_nat (unat (yf_version f))
                       @ '': Phase 1 expects version 1'')
                else Inr f)))"

section \<open>The report\<close>

record checked_property =
  kp_name :: string
  kp_result :: portfolio_result

record verify_report =
  vr_project :: string
  vr_properties :: "checked_property list"

abbreviation kp_verdict :: "checked_property \<Rightarrow> verdict" where
  "kp_verdict p \<equiv> pr_verdict (kp_result p)"

fun is_VVerified :: "verdict \<Rightarrow> bool" where
  "is_VVerified (VVerified b ms sha) = True"
| "is_VVerified v = False"

fun is_VCounterexample :: "verdict \<Rightarrow> bool" where
  "is_VCounterexample (VCounterexample b p m ms) = True"
| "is_VCounterexample v = False"

fun is_VUnknown :: "verdict \<Rightarrow> bool" where
  "is_VUnknown (VUnknown bs) = True"
| "is_VUnknown v = False"

fun is_VError :: "verdict \<Rightarrow> bool" where
  "is_VError (VError bs) = True"
| "is_VError v = False"

text \<open>The three flags of the loop: counterexample, unknown, error.\<close>

fun verdict_flags :: "checked_property list \<Rightarrow> bool \<times> bool \<times> bool \<Rightarrow> bool \<times> bool \<times> bool" where
  "verdict_flags [] acc = acc"
| "verdict_flags (p # ps) (has_cex, has_unknown, has_error) =
     verdict_flags ps
       (case kp_verdict p of
          VVerified b ms sha \<Rightarrow> (has_cex, has_unknown, has_error)
        | VCounterexample b q m ms \<Rightarrow> (True, has_unknown, has_error)
        | VUnknown bs \<Rightarrow> (has_cex, True, has_error)
        | VError bs \<Rightarrow> (has_cex, has_unknown, True))"

definition verify_exit_code :: "verify_report \<Rightarrow> u8" where
  "verify_exit_code r =
     (case verdict_flags (vr_properties r) (False, False, False) of
        (has_cex, has_unknown, has_error) \<Rightarrow>
          if has_cex then 1 else if has_error then 3 else if has_unknown then 2 else 0)"

section \<open>Text\<close>

fun backend_name :: "backend \<Rightarrow> string" where
  "backend_name BHalmos = ''halmos''"
| "backend_name BSmtChecker = ''smtchecker''"

fun state_name :: "backend_state \<Rightarrow> string" where
  "state_name BVerified = ''verified''"
| "state_name BCounterexample = ''counterexample''"
| "state_name BUnknown = ''unknown''"
| "state_name BTimeout = ''timeout''"
| "state_name BError = ''error''"

definition ansi :: "string \<Rightarrow> string" where "ansi code = ESC # ''['' @ code @ ''m''"

definition green :: string where "green = ansi ''32''"
definition red :: string where "red = ansi ''31''"
definition yellow :: string where "yellow = ansi ''33''"
definition reset :: string where "reset = ansi ''0''"

text \<open>The limit is compared with bytes, the cut counts characters; line feeds are replaced only in what fits.\<close>

definition truncate_text :: "string \<Rightarrow> nat \<Rightarrow> string" where
  "truncate_text s limit =
     (if length s \<le> limit then replace_str [NL] '' '' s else take_chars limit s @ [CHR 0xE2, CHR 0x80, CHR 0xA6])"

definition text_backend_line :: "bool \<Rightarrow> backend_outcome \<Rightarrow> string" where
  "text_backend_line with_state o1 =
     ''      '' @ backend_name (bo_backend o1) @ (if with_state then ('' '' @ [CHR 0xE2, CHR 0x86, CHR 0x92] @ '' '') @ state_name (bo_state o1) else [])
     @ '': '' @ truncate_text (bo_detail o1) 160 @ [NL]"

definition text_render_one :: "checked_property \<Rightarrow> string" where
  "text_render_one p =
     (case kp_verdict p of
        VVerified b ms sha \<Rightarrow>
          ''  '' @ green @ [CHR 0xE2, CHR 0x9C, CHR 0x93] @ reset @ '' '' @ kp_name p @ ('' '' @ em_dash @ '' verified by '') @ backend_name b
          @ '' in '' @ show_nat (unat ms) @ (''ms'' @ [NL])
      | VCounterexample b q message ms \<Rightarrow>
          ''  '' @ red @ [CHR 0xE2, CHR 0x9C, CHR 0x97] @ reset @ '' '' @ kp_name p @ ('' '' @ em_dash @ '' counterexample from '') @ backend_name b
          @ '' ('' @ show_nat (unat ms) @ ''ms): '' @ truncate_text message 200 @ [NL]
      | VUnknown bs \<Rightarrow>
          ''  '' @ yellow @ ''?'' @ reset @ '' '' @ kp_name p @ ('' '' @ em_dash @ '' unknown'' @ [NL]) @ concat (map (text_backend_line True) bs)
      | VError bs \<Rightarrow>
          ''  ! '' @ kp_name p @ ('' '' @ em_dash @ '' error'' @ [NL]) @ concat (map (text_backend_line False) bs))"

definition count_verdicts :: "(verdict \<Rightarrow> bool) \<Rightarrow> verify_report \<Rightarrow> nat" where
  "count_verdicts f r = length (filter (\<lambda>p. f (kp_verdict p)) (vr_properties r))"

definition text_render :: "verify_report \<Rightarrow> string" where
  "text_render r =
     (''Vergil verify '' @ em_dash @ '' project: '') @ vr_project r @ [NL] @ show_nat (length (vr_properties r)) @ ('' properties'' @ [NL] @ [NL])
     @ concat (map text_render_one (vr_properties r))
     @ [NL] @ ''Summary: '' @ green @ show_nat (count_verdicts is_VVerified r) @ '' verified'' @ reset @ '', ''
     @ red @ show_nat (count_verdicts is_VCounterexample r) @ '' counterexample'' @ reset @ '', ''
     @ yellow @ show_nat (count_verdicts is_VUnknown r) @ '' unknown'' @ reset @ '', ''
     @ show_nat (count_verdicts is_VError r) @ ('' error'' @ [NL])"

section \<open>Markdown\<close>

text \<open>A time is cast to \<open>i64\<close>; a negative one is printed as a dash.\<close>

definition ms_cell :: "u64 \<Rightarrow> string" where
  "ms_cell ms = (if sint ms < 0 then em_dash else show_nat (nat (sint ms)) @ '' ms'')"

definition markdown_row :: "checked_property \<Rightarrow> string" where
  "markdown_row p =
     (case (case kp_verdict p of
              VVerified b ms sha \<Rightarrow> (([CHR 0xE2, CHR 0x9C, CHR 0x93] @ '' verified''), backend_name b, ms)
            | VCounterexample b q m ms \<Rightarrow> (([CHR 0xE2, CHR 0x9C, CHR 0x97] @ '' counterexample''), backend_name b, ms)
            | VUnknown bs \<Rightarrow> (''? unknown'', em_dash, -1)
            | VError bs \<Rightarrow> (''! error'', em_dash, -1)) of
        (verdict, backend, ms) \<Rightarrow>
          ''| `'' @ kp_name p @ ''` | '' @ verdict @ '' | '' @ backend @ '' | '' @ ms_cell ms @ ('' |'' @ [NL]))"

fun state_debug :: "backend_state \<Rightarrow> string" where
  "state_debug BVerified = ''Verified''"
| "state_debug BCounterexample = ''Counterexample''"
| "state_debug BUnknown = ''Unknown''"
| "state_debug BTimeout = ''Timeout''"
| "state_debug BError = ''Error''"

fun detail_block :: "verdict \<Rightarrow> string" where
  "detail_block (VVerified b ms sha) =
     ''Verified by '' @ backend_name b @ '' in '' @ show_nat (unat ms) @ ('' ms.'' @ [NL])
     @ (case sha of Some h \<Rightarrow> ([NL] @ ''SMT query SHA-256: `'') @ h @ (''`'' @ [NL]) | None \<Rightarrow> [])"
| "detail_block (VCounterexample b q message ms) =
     ''Counterexample from '' @ backend_name b @ '' ('' @ show_nat (unat ms) @ '' ms) for `'' @ q
     @ (''`:'' @ [NL] @ [NL] @ ''```'' @ [NL]) @ message @ ([NL] @ ''```'' @ [NL])"
| "detail_block (VUnknown bs) =
     (''Neither backend reached a verdict.'' @ [NL] @ [NL])
     @ concat (map (\<lambda>o1. ''- **'' @ backend_name (bo_backend o1) @ ''** ('' @ state_debug (bo_state o1) @ '', ''
         @ show_nat (unat (bo_wall_clock_ms o1)) @ '' ms): '' @ bo_detail o1 @ [NL]) bs)"
| "detail_block (VError bs) =
     (''Both backends errored:'' @ [NL] @ [NL])
     @ concat (map (\<lambda>o1. ''- **'' @ backend_name (bo_backend o1) @ ''**: '' @ bo_detail o1 @ [NL]) bs)"

definition markdown_render :: "verify_report \<Rightarrow> string" where
  "markdown_render r =
     (''# Vergil verification report'' @ [NL] @ [NL]) @ ''**Project:** `'' @ vr_project r @ (''`'' @ [NL] @ [NL])
     @ ''**Properties checked:** '' @ show_nat (length (vr_properties r)) @ ([NL] @ [NL])
     @ (''| Property | Verdict | Backend | Wall clock |'' @ [NL]) @ (''|---|---|---|---|'' @ [NL])
     @ concat (map markdown_row (vr_properties r))
     @ ([NL] @ ''## Details'' @ [NL] @ [NL])
     @ concat (map (\<lambda>p. ''### `'' @ kp_name p @ (''`'' @ [NL] @ [NL]) @ detail_block (kp_verdict p) @ [NL]) (vr_properties r))"

section \<open>Lemmas\<close>

lemma verdict_flags_eq:
  "verdict_flags ps (a, b, c) =
     (a \<or> list_ex (\<lambda>p. is_VCounterexample (kp_verdict p)) ps, b \<or> list_ex (\<lambda>p. is_VUnknown (kp_verdict p)) ps,
      c \<or> list_ex (\<lambda>p. is_VError (kp_verdict p)) ps)"
  by (induction ps arbitrary: a b c) (auto split: verdict.splits)

lemma is_VVerified_not:
  "is_VVerified v = (\<not> is_VCounterexample v \<and> \<not> is_VUnknown v \<and> \<not> is_VError v)"
  by (cases v) simp_all

lemma verify_exit_code_eq:
  "verify_exit_code r =
     (if list_ex (\<lambda>p. is_VCounterexample (kp_verdict p)) (vr_properties r) then 1
      else if list_ex (\<lambda>p. is_VError (kp_verdict p)) (vr_properties r) then 3
      else if list_ex (\<lambda>p. is_VUnknown (kp_verdict p)) (vr_properties r) then 2 else 0)"
  by (simp add: verify_exit_code_def verdict_flags_eq)

lemma verify_exit_code_0: "verify_exit_code r = 0 \<longleftrightarrow> list_all (\<lambda>p. is_VVerified (kp_verdict p)) (vr_properties r)"
  by (auto simp: verify_exit_code_eq is_VVerified_not list_ex_iff list_all_iff)

text \<open>The summary line counts every property once.\<close>

lemma count_verdicts_sum:
  "count_verdicts is_VVerified r + count_verdicts is_VCounterexample r + count_verdicts is_VUnknown r
     + count_verdicts is_VError r = length (vr_properties r)"
proof -
  have "length (filter (\<lambda>p. is_VVerified (kp_verdict p)) ps) + length (filter (\<lambda>p. is_VCounterexample (kp_verdict p)) ps)
      + length (filter (\<lambda>p. is_VUnknown (kp_verdict p)) ps) + length (filter (\<lambda>p. is_VError (kp_verdict p)) ps) = length ps"
    for ps :: "checked_property list"
  proof (induction ps)
    case (Cons p ps)
    then show ?case by (cases "kp_verdict p") simp_all
  qed simp
  then show ?thesis by (simp add: count_verdicts_def)
qed

end
