(* ===== verification/Llm.thy ===== *)
theory Llm
  imports Json 
begin

text \<open>
  The LLM client surface (\<open>crates/vergil-llm/src/lib.rs\<close>), the retry primitive
  (\<open>retry.rs\<close>), the fixture-driven provider of the tests (\<open>mock.rs\<close>) and the prompt renderer
  (\<open>prompts.rs\<close>). A provider is a parameter: what it answers is any value of the result types
  below.
\<close>

section \<open>Requests, responses and errors\<close>

datatype provider_id = Anthropic | OpenAi | Voyage | Mock

fun provider_id_str :: "provider_id \<Rightarrow> string" where
  "provider_id_str Anthropic = ''anthropic''"
| "provider_id_str OpenAi = ''openai''"
| "provider_id_str Voyage = ''voyage''"
| "provider_id_str Mock = ''mock''"

datatype role = User | Assistant

record message =
  ms_role :: role
  ms_content :: string

record completion_request =
  cr_model :: string
  cr_messages :: "message list"
  cr_system :: "string option"
  cr_temperature :: float
  cr_max_tokens :: u32

record completion =
  co_content :: string
  co_tokens_in :: u32
  co_tokens_out :: u32
  co_latency_ms :: u64
  co_request_id :: "string option"

record structured_request =
  st_model :: string
  st_messages :: "message list"
  st_system :: "string option"
  st_temperature :: float
  st_max_tokens :: u32
  st_schema_name :: string
  st_schema :: json

record structured_response =
  rs_value :: json
  rs_tokens_in :: u32
  rs_tokens_out :: u32
  rs_latency_ms :: u64
  rs_request_id :: "string option"

record embed_request =
  er_model :: string
  er_input :: "string list"

record embedding =
  em_vectors :: "float list list"
  em_tokens :: u32
  em_latency_ms :: u64

text \<open>A duration is its number of nanoseconds.\<close>

datatype llm_error =
    Transient string
  | Permanent string
  | RateLimit nat
  | Auth string
  | ContextLength u32 u32
  | Schema string

text \<open>\<open>Debug\<close> for \<open>Duration\<close>: the largest unit that is not zero, fraction without trailing zeros.\<close>

fun pad_left :: "nat \<Rightarrow> string \<Rightarrow> string" where
  "pad_left n s = replicate (n - length s) (CHR ''0'') @ s"

definition frac_str :: "nat \<Rightarrow> nat \<Rightarrow> string" where
  "frac_str digits f = (if f = 0 then [] else ''.'' @ trim_end_char (CHR ''0'') (pad_left digits (show_nat f)))"

definition duration_debug :: "nat \<Rightarrow> string" where
  "duration_debug ns =
     (if 1000000000 \<le> ns then show_nat (ns div 1000000000) @ frac_str 9 (ns mod 1000000000) @ ''s''
      else if 1000000 \<le> ns then show_nat (ns div 1000000) @ frac_str 6 (ns mod 1000000) @ ''ms''
      else if 1000 \<le> ns then show_nat (ns div 1000) @ frac_str 3 (ns mod 1000) @ [CHR 0xC2, CHR 0xB5, CHR ''s'']
      else show_nat ns @ ''ns'')"

fun llm_error_str :: "llm_error \<Rightarrow> string" where
  "llm_error_str (Transient m) = ''transient: '' @ m"
| "llm_error_str (Permanent m) = ''permanent: '' @ m"
| "llm_error_str (RateLimit d) = ''rate limit: retry after '' @ duration_debug d"
| "llm_error_str (Auth m) = ''auth: '' @ m"
| "llm_error_str (ContextLength needed mx) =
     ''context length: needed '' @ show_nat (unat needed) @ '' tokens, max '' @ show_nat (unat mx)"
| "llm_error_str (Schema m) = ''schema mismatch: '' @ m"

section \<open>Retry\<close>

definition max_attempts :: nat where "max_attempts = 3"
definition base_delay :: nat where "base_delay = 200000000"
definition jitter_max_ms :: nat where "jitter_max_ms = 250"

text \<open>The jitter is drawn from \<open>0..250\<close> milliseconds; \<open>j\<close> is the number drawn.\<close>

definition jitter :: "nat \<Rightarrow> nat" where
  "jitter j = (j mod jitter_max_ms) * 1000000"

definition exp_with_jitter :: "nat \<Rightarrow> nat \<Rightarrow> nat" where
  "exp_with_jitter j attempt = base_delay * 2 ^ attempt + jitter j"

fun retry_delay :: "nat \<Rightarrow> llm_error \<Rightarrow> nat \<Rightarrow> nat option" where
  "retry_delay j (Transient _) attempt = Some (exp_with_jitter j attempt)"
| "retry_delay j (RateLimit d) attempt = Some (d + jitter j)"
| "retry_delay j _ attempt = None"

text \<open>
  The loop over the attempts: \<open>f\<close> is the caller's operation on the world state, \<open>rnd\<close> the
  random number of each attempt, \<open>lst\<close> the last error, \<open>sleeps\<close> the sleeps so far.
\<close>

fun retry_loop ::
    "(nat \<Rightarrow> nat) \<Rightarrow> ('s \<Rightarrow> (llm_error + 't) \<times> 's) \<Rightarrow> nat list \<Rightarrow> llm_error option \<Rightarrow> nat list \<Rightarrow> 's
     \<Rightarrow> (llm_error + 't) \<times> nat list \<times> 's" where
  "retry_loop rnd f [] lst sleeps s =
     (Inl (case lst of Some e \<Rightarrow> e | None \<Rightarrow> Permanent ''retry: no attempts made''), sleeps, s)"
| "retry_loop rnd f (attempt # as) lst sleeps s =
     (case f s of
        (Inr v, s') \<Rightarrow> (Inr v, sleeps, s')
      | (Inl e, s') \<Rightarrow>
          (case retry_delay (rnd attempt) e attempt of
             Some d \<Rightarrow> retry_loop rnd f as (Some e) (sleeps @ [d]) s'
           | None \<Rightarrow> (Inl e, sleeps, s')))"

definition with_retry ::
    "(nat \<Rightarrow> nat) \<Rightarrow> ('s \<Rightarrow> (llm_error + 't) \<times> 's) \<Rightarrow> 's \<Rightarrow> (llm_error + 't) \<times> nat list \<times> 's" where
  "with_retry rnd f s = retry_loop rnd f [0..<max_attempts] None [] s"

section \<open>The fixture provider\<close>

datatype fixture =
    FxCompletion completion
  | FxStructured structured_response
  | FxEmbed embedding

text \<open>
  \<open>sha_of\<close> is the hexadecimal digest of the serialised request, \<open>read\<close> the file system,
  \<open>body\<close> the pretty-printed request, \<open>parse\<close> the fixture's JSON; all are parameters.
\<close>

definition load_fixture ::
    "('r \<Rightarrow> string) \<Rightarrow> (string \<Rightarrow> string + string) \<Rightarrow> ('r \<Rightarrow> string) \<Rightarrow> (string \<Rightarrow> string + fixture)
     \<Rightarrow> string \<Rightarrow> 'r \<Rightarrow> string \<Rightarrow> llm_error + fixture" where
  "load_fixture sha_of read body parse dir req kind_label =
     (let hex = sha_of req; path = dir @ ''/'' @ hex @ ''.json'' in
      case read path of
        Inl e \<Rightarrow> Inl (Permanent
          (''mock fixture not found for '' @ kind_label @ '' call: '' @ path @ '' (sha='' @ hex @ '', err='' @ e
           @ ''). Drop the expected response at this path. Request body:'' @ [NL] @ body req))
      | Inr bytes \<Rightarrow>
          (case parse bytes of
             Inl e \<Rightarrow> Inl (Permanent (''mock fixture '' @ path @ '' is not valid JSON: '' @ e))
           | Inr fx \<Rightarrow> Inr fx))"

text \<open>\<open>disc\<close> prints the discriminant of the fixture that was found.\<close>

definition mock_complete :: "(fixture \<Rightarrow> string) \<Rightarrow> llm_error + fixture \<Rightarrow> llm_error + completion" where
  "mock_complete disc r =
     (case r of
        Inl e \<Rightarrow> Inl e
      | Inr (FxCompletion c) \<Rightarrow> Inr c
      | Inr other \<Rightarrow> Inl (Permanent (''mock fixture kind mismatch: expected completion, got '' @ disc other)))"

definition mock_complete_structured ::
    "(fixture \<Rightarrow> string) \<Rightarrow> llm_error + fixture \<Rightarrow> llm_error + structured_response" where
  "mock_complete_structured disc r =
     (case r of
        Inl e \<Rightarrow> Inl e
      | Inr (FxStructured c) \<Rightarrow> Inr c
      | Inr other \<Rightarrow> Inl (Permanent (''mock fixture kind mismatch: expected structured, got '' @ disc other)))"

definition mock_embed :: "(fixture \<Rightarrow> string) \<Rightarrow> llm_error + fixture \<Rightarrow> llm_error + embedding" where
  "mock_embed disc r =
     (case r of
        Inl e \<Rightarrow> Inl e
      | Inr (FxEmbed c) \<Rightarrow> Inr c
      | Inr other \<Rightarrow> Inl (Permanent (''mock fixture kind mismatch: expected embed, got '' @ disc other)))"

section \<open>Prompts\<close>

datatype prompt_error = MissingVar string string | UnrenderedPlaceholder string string

fun prompt_error_str :: "prompt_error \<Rightarrow> string" where
  "prompt_error_str (MissingVar k name) = ''missing variable '' @ k @ '' in prompt '' @ name"
| "prompt_error_str (UnrenderedPlaceholder name t) = ''unrendered placeholders left in '' @ name @ '': '' @ t"

record prompt =
  pt_name :: string
  pt_body :: string

function render_loop ::
    "string \<Rightarrow> (string \<rightharpoonup> string) \<Rightarrow> string \<Rightarrow> string \<Rightarrow> prompt_error + string" where
  "render_loop name vars rest out =
     (case find_sub rest ''{{'' of
        None \<Rightarrow>
          (let out = out @ rest in
           if contains out ''{{'' then Inl (UnrenderedPlaceholder name out) else Inr out)
      | Some op \<Rightarrow>
          (let after_open = drop (op + 2) rest in
           case find_sub after_open ''}}'' of
             None \<Rightarrow> Inl (UnrenderedPlaceholder name rest)
           | Some cl \<Rightarrow>
               (let key = trim (take cl after_open) in
                case vars key of
                  None \<Rightarrow> Inl (MissingVar key name)
                | Some v \<Rightarrow> render_loop name vars (drop (cl + 2) after_open) (out @ take op rest @ v))))"
  by pat_completeness auto
termination
  by (relation "measure (\<lambda>(name, vars, rest, out). length rest)") (auto dest!: find_sub_bound)

declare render_loop.simps [simp del]

definition prompt_render :: "prompt \<Rightarrow> (string \<rightharpoonup> string) \<Rightarrow> prompt_error + string" where
  "prompt_render p vars = render_loop (pt_name p) vars (pt_body p) []"

section \<open>Retry, as one statement about the calls\<close>

text \<open>The results of \<open>n\<close> successive calls.\<close>

fun calls :: "('s \<Rightarrow> 'r \<times> 's) \<Rightarrow> 's \<Rightarrow> nat \<Rightarrow> 'r list" where
  "calls f s 0 = []"
| "calls f s (Suc n) = (case f s of (r, s') \<Rightarrow> r # calls f s' n)"

fun passing :: "llm_error \<Rightarrow> bool" where
  "passing (Transient _) = True"
| "passing (RateLimit _) = True"
| "passing _ = False"

definition retriable :: "llm_error + 't \<Rightarrow> bool" where
  "retriable r = (case r of Inl e \<Rightarrow> passing e | Inr _ \<Rightarrow> False)"

lemma retriable_simps [simp]: "retriable (Inl e) = passing e" "\<not> retriable (Inr v)"
  by (simp_all add: retriable_def)

lemma retry_delay_None: "retry_delay j e a = None \<longleftrightarrow> \<not> passing e"
  by (cases e) auto

lemma retry_delay_Some: "retry_delay j e a = Some d \<Longrightarrow> passing e"
  by (cases e) auto

lemma retry_loop_result:
  "fst (retry_loop rnd f as lst sl s) =
     (case find (\<lambda>r. \<not> retriable r) (calls f s (length as)) of
        Some r \<Rightarrow> r
      | None \<Rightarrow> (if as = [] then Inl (case lst of Some e \<Rightarrow> e | None \<Rightarrow> Permanent ''retry: no attempts made'')
                else last (calls f s (length as))))"
proof (induction as arbitrary: lst sl s)
  case Nil
  then show ?case by simp
next
  case (Cons a as)
  obtain r s' where f: "f s = (r, s')" by (cases "f s")
  show ?case
  proof (cases r)
    case (Inr v)
    with f show ?thesis by simp
  next
    case (Inl e)
    show ?thesis
    proof (cases "retry_delay (rnd a) e a")
      case None
      then have "\<not> passing e" by (simp add: retry_delay_None)
      with f Inl None show ?thesis by simp
    next
      case (Some d)
      then have "passing e" by (rule retry_delay_Some)
      moreover have "calls f s' (length as) = [] \<longleftrightarrow> as = []"
        by (cases as) (auto split: prod.splits)
      ultimately show ?thesis
        using f Inl Some Cons.IH[of "Some e" "sl @ [d]" s'] by (simp split: option.splits)
    qed
  qed
qed

lemma retry_loop_sleeps:
  "fst (snd (retry_loop rnd f as lst sl s)) =
     sl @ map (\<lambda>(a, r). the (retry_delay (rnd a) (projl r) a))
            (takeWhile (\<lambda>(a, r). retriable r) (zip as (calls f s (length as))))"
proof (induction as arbitrary: lst sl s)
  case Nil
  then show ?case by simp
next
  case (Cons a as)
  obtain r s' where f: "f s = (r, s')" by (cases "f s")
  show ?case
  proof (cases r)
    case (Inr v)
    with f show ?thesis by simp
  next
    case (Inl e)
    show ?thesis
    proof (cases "retry_delay (rnd a) e a")
      case None
      then have "\<not> passing e" by (simp add: retry_delay_None)
      with f Inl None show ?thesis by simp
    next
      case (Some d)
      then have "passing e" by (rule retry_delay_Some)
      then show ?thesis
        using f Inl Some Cons.IH[of "Some e" "sl @ [d]" s'] by simp
    qed
  qed
qed

section \<open>Rendering, as one substitution\<close>

datatype part = Lit string | Hole string

text \<open>The literals and the variable names of a template body; \<open>None\<close> if a hole is not closed.\<close>

function template_parts :: "string \<Rightarrow> part list option" where
  "template_parts rest =
     (case find_sub rest ''{{'' of
        None \<Rightarrow> Some [Lit rest]
      | Some op \<Rightarrow>
          (case find_sub (drop (op + 2) rest) ''}}'' of
             None \<Rightarrow> None
           | Some cl \<Rightarrow>
               map_option (\<lambda>ps. Lit (take op rest) # Hole (trim (take cl (drop (op + 2) rest))) # ps)
                 (template_parts (drop (cl + 2) (drop (op + 2) rest)))))"
  by pat_completeness auto
termination
  by (relation "measure length") (auto dest!: find_sub_bound)

declare template_parts.simps [simp del]

fun fill :: "(string \<rightharpoonup> string) \<Rightarrow> part list \<Rightarrow> string option" where
  "fill vars [] = Some []"
| "fill vars (Lit t # ps) = map_option (\<lambda>r. t @ r) (fill vars ps)"
| "fill vars (Hole k # ps) =
     (case vars k of None \<Rightarrow> None | Some v \<Rightarrow> map_option (\<lambda>r. v @ r) (fill vars ps))"

lemma render_loop_Inr:
  "render_loop name vars rest out = Inr t \<longleftrightarrow>
     (\<exists>ps r. template_parts rest = Some ps \<and> fill vars ps = Some r \<and> t = out @ r \<and> \<not> contains t ''{{'')"
proof (induction name vars rest out rule: render_loop.induct)
  case (1 name vars rest out)
  show ?case
  proof (cases "find_sub rest ''{{''")
    case None
    then show ?thesis
      by (auto simp: render_loop.simps[of name vars rest out] template_parts.simps[of rest] Let_def)
  next
    case (Some op)
    show ?thesis
    proof (cases "find_sub (drop (op + 2) rest) ''}}''")
      case None
      with Some show ?thesis
        by (simp add: render_loop.simps[of name vars rest out] template_parts.simps[of rest])
    next
      case cl: (Some cl)
      let ?key = "trim (take cl (drop (op + 2) rest))"
      show ?thesis
      proof (cases "vars ?key")
        case None
        with Some cl show ?thesis
          by (auto simp: render_loop.simps[of name vars rest out] template_parts.simps[of rest])
      next
        case v: (Some v)
        have IH: "render_loop name vars (drop (cl + 2) (drop (op + 2) rest)) (out @ take op rest @ v) = Inr t \<longleftrightarrow>
          (\<exists>ps r. template_parts (drop (cl + 2) (drop (op + 2) rest)) = Some ps \<and> fill vars ps = Some r
             \<and> t = (out @ take op rest @ v) @ r \<and> \<not> contains t ''{{'')"
          using "1.IH"[OF Some refl cl refl v] .
        have "render_loop name vars rest out
            = render_loop name vars (drop (cl + 2) (drop (op + 2) rest)) (out @ take op rest @ v)"
          using Some cl v by (simp add: render_loop.simps[of name vars rest out])
        moreover have "template_parts rest =
            map_option (\<lambda>ps. Lit (take op rest) # Hole ?key # ps) (template_parts (drop (cl + 2) (drop (op + 2) rest)))"
          using Some cl by (simp add: template_parts.simps[of rest])
        ultimately show ?thesis
          using IH v by (cases "template_parts (drop (cl + 2) (drop (op + 2) rest))") fastforce+
      qed
    qed
  qed
qed


section \<open>Properties\<close>

text \<open>A retried operation returns the first of its at most three results that is a value or an
  error that is not retried (authentication, schema, context length, permanent), and the third error
  if all three are transient or rate limits; it sleeps once after each such passing error, the last
  attempt included, for the delay of that error.\<close>

theorem with_retry_outcome:
  "fst (with_retry rnd f s) =
     (case find (\<lambda>r. \<not> retriable r) (calls f s 3) of Some r \<Rightarrow> r | None \<Rightarrow> last (calls f s 3))
   \<and> fst (snd (with_retry rnd f s)) =
     map (\<lambda>(a, r). the (retry_delay (rnd a) (projl r) a))
         (takeWhile (\<lambda>(a, r). retriable r) (zip [0, 1, 2] (calls f s 3)))"
proof
  have up: "[0..<3] = [0, 1, 2::nat]" by (simp add: upt_conv_Cons)
  then have l: "length [0..<3::nat] = 3" by simp
  show "fst (with_retry rnd f s) =
     (case find (\<lambda>r. \<not> retriable r) (calls f s 3) of Some r \<Rightarrow> r | None \<Rightarrow> last (calls f s 3))"
    unfolding with_retry_def max_attempts_def retry_loop_result l by (simp add: up)
  show "fst (snd (with_retry rnd f s)) =
     map (\<lambda>(a, r). the (retry_delay (rnd a) (projl r) a))
         (takeWhile (\<lambda>(a, r). retriable r) (zip [0, 1, 2] (calls f s 3)))"
    unfolding with_retry_def max_attempts_def retry_loop_sleeps l by (simp add: up)
qed

text \<open>Rendering is one simultaneous substitution: a prompt renders to a text exactly when its body
  splits into literals and closed holes, every hole names a bound variable, and the text is the
  concatenation of literals and values and contains no opening braces (a value is never expanded
  again, one that contains opening braces is refused).\<close>

theorem prompt_render_iff:
  "prompt_render p vars = Inr t \<longleftrightarrow>
     Option.bind (template_parts (pt_body p)) (fill vars) = Some t \<and> \<not> contains t ''{{''"
  unfolding prompt_render_def render_loop_Inr by (auto simp: bind_eq_Some_conv)

end
