(* ===== verification/Synthesis.thy ===== *)
theory Synthesis
  imports Llm
begin

text \<open>
  Spec synthesis (\<open>crates/vergil-core/src/synthesis.rs\<close>): the prompt of one request, the \<open>k\<close>
  samples of the model, and the tolerant parser of their answers. The model is an arbitrary function
  of the sample's index and its request (\<open>join_all\<close> keeps the order of the tasks); the JSON decoders
  of serde are parameters.
\<close>

record synthesis_config =
  sc_model :: string
  sc_max_tokens :: u32
  sc_samples :: nat
  sc_deterministic_temp :: float
  sc_exploratory_temp :: float

datatype source = UserIntent | AttackCatalog | Conformance | Tests | NatSpec | Structural

record spec_candidate =
  sp_name :: string
  sp_halmos :: string
  sp_smtchecker :: string
  sp_template_ref :: "string option"
  sp_intent_satisfied :: bool
  sp_source :: source
  sp_intent_text :: "string option"

record sample_stat =
  ss_index :: nat
  ss_temperature :: float
  ss_tokens_in :: u32
  ss_tokens_out :: u32
  ss_latency_ms :: u64
  ss_candidate_count :: nat

record synthesis_report =
  sr_candidates :: "spec_candidate list"
  sr_samples :: "sample_stat list"
  sr_parse_failures :: "nat list"

record retrieved_hint =
  rh_template_id :: string
  rh_description :: string
  rh_halmos_snippet :: string

datatype synthesis_error = SynPrompt prompt_error | SynLlm llm_error

fun synthesis_error_str :: "synthesis_error \<Rightarrow> string" where
  "synthesis_error_str (SynPrompt e) = ''prompt render: '' @ prompt_error_str e"
| "synthesis_error_str (SynLlm e) = ''llm: '' @ llm_error_str e"

definition default_for_anthropic :: synthesis_config where
  "default_for_anthropic =
     \<lparr>sc_model = ''claude-sonnet-4-6'', sc_max_tokens = 4096, sc_samples = 16,
      sc_deterministic_temp = to_f32 0, sc_exploratory_temp = to_f32 (7 / 10)\<rparr>"

definition for_tests :: synthesis_config where
  "for_tests =
     \<lparr>sc_model = ''mock'', sc_max_tokens = 1024, sc_samples = 1,
      sc_deterministic_temp = to_f32 0, sc_exploratory_temp = to_f32 0\<rparr>"

section \<open>The prompt\<close>

definition harness_for_prompt :: "string \<Rightarrow> string" where
  "harness_for_prompt scaffold =
     replace_str ''{{NAME}}'' ''check_property''
       (replace_str ''{{CHECK_FN}}'' ''// <<< your check_ function is inserted here >>>'' scaffold)"

definition hint_text :: "retrieved_hint \<Rightarrow> string" where
  "hint_text r =
     ''---'' @ [NL] @ ''id: '' @ rh_template_id r @ [NL] @ ''description: '' @ rh_description r
       @ [NL] @ ''encoding:'' @ [NL] @ rh_halmos_snippet r"

definition synthesize_vars ::
    "string \<Rightarrow> string \<Rightarrow> string \<Rightarrow> retrieved_hint list \<Rightarrow> string \<Rightarrow> string \<Rightarrow> string \<rightharpoonup> string" where
  "synthesize_vars intent available_methods sa retrieved contract_source scaffold =
     [''intent'' \<mapsto> intent,
      ''available_methods'' \<mapsto>
        (if available_methods = []
         then ''(no external functions detected '' @ em_dash @ '' read the contract source above)''
         else available_methods),
      ''static_analysis_summary'' \<mapsto> sa,
      ''retrieved_templates'' \<mapsto> join [NL] (map hint_text retrieved),
      ''contract_source'' \<mapsto> contract_source,
      ''scaffold'' \<mapsto>
        (if trim scaffold = []
         then ''(no explicit harness '' @ em_dash
            @ '' assume your check_ function is a method on a contract that already ''
            @ ''holds the deployed target in a state variable named `token`; do not use vm.* cheatcodes ''
            @ ''or declare your own instance)''
         else harness_for_prompt scaffold)]"

text \<open>\<open>tpl\<close> is the template file \<open>synthesize.txt\<close>.\<close>

definition render_prompt ::
    "prompt \<Rightarrow> string \<Rightarrow> string \<Rightarrow> string \<Rightarrow> retrieved_hint list \<Rightarrow> string \<Rightarrow> string \<Rightarrow> prompt_error + string" where
  "render_prompt tpl intent available_methods sa retrieved contract_source scaffold =
     prompt_render tpl (synthesize_vars intent available_methods sa retrieved contract_source scaffold)"

section \<open>The answers\<close>

definition trim_start_nl :: "string \<Rightarrow> string" where
  "trim_start_nl = trim_start_char NL"

definition fence :: string where "fence = ''```''"

definition strip_code_fence :: "string \<Rightarrow> string" where
  "strip_code_fence s0 =
     (let s = trim s0 in
      case (case strip_prefix s (fence @ ''json'') of Some r \<Rightarrow> Some r | None \<Rightarrow> strip_prefix s fence) of
        Some rest0 \<Rightarrow>
          (let rest = trim_start_nl rest0 in
           case rfind_sub rest fence of Some e \<Rightarrow> take e rest | None \<Rightarrow> rest)
      | None \<Rightarrow> s)"

text \<open>Length of the prefix that ends where the bracket depth first returns to zero.\<close>

fun array_end :: "int \<Rightarrow> string \<Rightarrow> nat option" where
  "array_end depth [] = None"
| "array_end depth (c # cs) =
     (if c = CHR ''['' then map_option Suc (array_end (depth + 1) cs)
      else if c = CHR '']'' then
        (if depth - 1 = 0 then Some 1 else map_option Suc (array_end (depth - 1) cs))
      else map_option Suc (array_end depth cs))"

definition extract_first_json_array :: "string \<Rightarrow> string option" where
  "extract_first_json_array s =
     (case find_sub s ''['' of
        None \<Rightarrow> None
      | Some start \<Rightarrow>
          map_option (\<lambda>n. take n (drop start s)) (array_end 0 (drop start s)))"

definition parse_candidates ::
    "(string \<Rightarrow> 'c list option) \<Rightarrow> (string \<Rightarrow> 'c option) \<Rightarrow> string \<Rightarrow> 'c list" where
  "parse_candidates dec_vec dec_one raw =
     (let body = trim (strip_code_fence (trim raw)) in
      case dec_vec body of
        Some v \<Rightarrow> v
      | None \<Rightarrow>
          (case dec_one body of
             Some one \<Rightarrow> [one]
           | None \<Rightarrow>
               (case extract_first_json_array body of
                  None \<Rightarrow> []
                | Some arr \<Rightarrow> (case dec_vec arr of Some v \<Rightarrow> v | None \<Rightarrow> []))))"

text \<open>The unit tests of the parser.\<close>

lemma strip_code_fence_tests:
  "strip_code_fence (''```json'' @ [NL] @ ''[1]'' @ [NL] @ ''```'') = ''[1]'' @ [NL]"
  "strip_code_fence (''```'' @ [NL] @ ''[1]'' @ [NL] @ ''```'') = ''[1]'' @ [NL]"
  "strip_code_fence '' [1] '' = ''[1]''"
  "extract_first_json_array ''Here: [[1],[2]] done]'' = Some ''[[1],[2]]''"
  "harness_for_prompt ''a {{CHECK_FN}} {{NAME}}''
     = ''a // <<< your check_ function is inserted here >>> check_property''"
  by code_simp+

section \<open>Synthesis\<close>

definition synthesis_system :: string where
  "synthesis_system =
     ''You are a formal verification expert generating Halmos check_ functions and SMTChecker assertions for Solidity smart contracts. ''
   @ ''Reply with ONLY a JSON array of SpecCandidate objects per the user prompt'' @ [SQ]
   @ ''s schema. No prose. No code fences.''"

definition synthesis_request :: "synthesis_config \<Rightarrow> string \<Rightarrow> nat \<Rightarrow> completion_request" where
  "synthesis_request cfg prompt_text i =
     \<lparr>cr_model = sc_model cfg,
      cr_messages = [\<lparr>ms_role = User, ms_content = prompt_text\<rparr>],
      cr_system = Some synthesis_system,
      cr_temperature = (if i = 0 then sc_deterministic_temp cfg else sc_exploratory_temp cfg),
      cr_max_tokens = sc_max_tokens cfg\<rparr>"

definition add_outcome ::
    "(string \<Rightarrow> spec_candidate list) \<Rightarrow> nat \<times> float \<times> (llm_error + completion)
     \<Rightarrow> synthesis_report \<Rightarrow> synthesis_report" where
  "add_outcome parse o1 report =
     (case o1 of (i, temp, res) \<Rightarrow>
        (case res of
           Inr c \<Rightarrow>
             (let parsed = parse (co_content c); count = length parsed in
              report\<lparr>sr_parse_failures := sr_parse_failures report @ (if count = 0 then [i] else []),
                     sr_samples := sr_samples report @
                       [\<lparr>ss_index = i, ss_temperature = temp, ss_tokens_in = co_tokens_in c,
                         ss_tokens_out = co_tokens_out c, ss_latency_ms = co_latency_ms c,
                         ss_candidate_count = count\<rparr>],
                     sr_candidates := sr_candidates report @ parsed\<rparr>)
         | Inl e \<Rightarrow>
             report\<lparr>sr_parse_failures := sr_parse_failures report @ [i],
                    sr_samples := sr_samples report @
                      [\<lparr>ss_index = i, ss_temperature = temp, ss_tokens_in = 0, ss_tokens_out = 0,
                        ss_latency_ms = 0, ss_candidate_count = 0\<rparr>]\<rparr>))"

definition empty_report :: synthesis_report where
  "empty_report = \<lparr>sr_candidates = [], sr_samples = [], sr_parse_failures = []\<rparr>"

definition synthesize ::
    "(string \<Rightarrow> spec_candidate list option) \<Rightarrow> (string \<Rightarrow> spec_candidate option)
     \<Rightarrow> (nat \<Rightarrow> completion_request \<Rightarrow> llm_error + completion) \<Rightarrow> prompt
     \<Rightarrow> string \<Rightarrow> string \<Rightarrow> string \<Rightarrow> retrieved_hint list \<Rightarrow> string \<Rightarrow> string \<Rightarrow> synthesis_config
     \<Rightarrow> synthesis_error + synthesis_report" where
  "synthesize dec_vec dec_one answer tpl intent methods sa retrieved contract_source scaffold cfg =
     (case render_prompt tpl intent methods sa retrieved contract_source scaffold of
        Inl e \<Rightarrow> Inl (SynPrompt e)
      | Inr prompt_text \<Rightarrow>
          (let samples = max (sc_samples cfg) 1;
               outcomes = map (\<lambda>i. (let req = synthesis_request cfg prompt_text i in
                                    (i, cr_temperature req, answer i req))) [0..<samples]
           in Inr (fold (add_outcome (parse_candidates dec_vec dec_one)) outcomes empty_report)))"

section \<open>Lemmas\<close>

text \<open>Brackets of a text, opening minus closing.\<close>

definition bracket_depth :: "string \<Rightarrow> int" where
  "bracket_depth s = int (count_list s (CHR ''['')) - int (count_list s (CHR '']''))"

lemma bracket_depth_simps [simp]:
  "bracket_depth [] = 0"
  "bracket_depth (c # cs) =
     (if c = CHR ''['' then 1 else if c = CHR '']'' then -1 else 0) + bracket_depth cs"
  by (simp_all add: bracket_depth_def)

lemma array_end_Some:
  assumes "array_end d s = Some n"
  shows "0 < n \<and> n \<le> length s \<and> d + bracket_depth (take n s) = 0"
  using assms
proof (induction s arbitrary: d n)
  case Nil
  then show ?case by simp
next
  case (Cons c cs)
  show ?case
  proof (cases "c = CHR '']'' \<and> d = 1")
    case True
    with Cons.prems show ?thesis by auto
  next
    case False
    let ?d = "d + (if c = CHR ''['' then 1 else if c = CHR '']'' then -1 else 0)"
    from Cons.prems False have "\<exists>m. array_end ?d cs = Some m \<and> n = Suc m"
      by (auto split: if_splits)
    then obtain m where m: "array_end ?d cs = Some m" and n: "n = Suc m" by blast
    from Cons.IH[OF m] n show ?thesis by auto
  qed
qed

lemma array_end_first:
  assumes "array_end d s = Some n" and "0 < k" "k < n" and "0 \<le> d" and "d = 0 \<longrightarrow> hd s = CHR ''[''"
  shows "0 < d + bracket_depth (take k s)"
  using assms
proof (induction s arbitrary: d n k)
  case Nil
  then show ?case by simp
next
  case (Cons c cs)
  let ?d = "d + (if c = CHR ''['' then 1 else if c = CHR '']'' then -1 else 0)"
  have ne: "\<not> (c = CHR '']'' \<and> d = 1)" using Cons.prems by auto
  from Cons.prems(1) ne have "\<exists>m. array_end ?d cs = Some m \<and> n = Suc m"
    by (auto split: if_splits)
  then obtain m where m: "array_end ?d cs = Some m" and n: "n = Suc m" by blast
  have pos: "0 < ?d" using Cons.prems ne by (auto split: if_splits)
  obtain k' where k: "k = Suc k'" using Cons.prems(2) by (cases k) auto
  show ?case
  proof (cases "k' = 0")
    case True
    with pos k show ?thesis by simp
  next
    case False
    have "0 < ?d + bracket_depth (take k' cs)"
      using Cons.IH[OF m] False Cons.prems(3) n k pos by simp
    with k show ?thesis by simp
  qed
qed

lemma array_end_None:
  "array_end d s = None \<Longrightarrow> 0 \<le> d \<Longrightarrow> d = 0 \<longrightarrow> s \<noteq> [] \<and> hd s = CHR ''['' \<Longrightarrow> 0 < k \<Longrightarrow>
     0 < d + bracket_depth (take k s)"
proof (induction s arbitrary: d k)
  case Nil
  then show ?case by auto
next
  case (Cons c cs)
  let ?d = "d + (if c = CHR ''['' then 1 else if c = CHR '']'' then -1 else 0)"
  have ne: "\<not> (c = CHR '']'' \<and> d = 1)" using Cons.prems by auto
  have m: "array_end ?d cs = None" using Cons.prems(1) ne by (auto split: if_splits)
  have pos: "0 < ?d" using Cons.prems ne by (auto split: if_splits)
  obtain k' where k: "k = Suc k'" using Cons.prems by (cases k) auto
  show ?case
  proof (cases "k' = 0")
    case True
    with pos k show ?thesis by simp
  next
    case False
    have "0 < ?d + bracket_depth (take k' cs)"
      using Cons.IH[OF m] False pos by simp
    with k show ?thesis by simp
  qed
qed

lemma find_sub_single:
  "find_sub s [c] = (if c \<in> set s then Some (length (takeWhile (\<lambda>x. x \<noteq> c) s)) else None)"
  by (induction s) (auto simp: starts_with_iff)

lemma add_outcome_fields:
  "sr_samples (add_outcome parse (i, t, r) rep) = sr_samples rep @
     [\<lparr>ss_index = i, ss_temperature = t,
       ss_tokens_in = (case r of Inr c \<Rightarrow> co_tokens_in c | Inl _ \<Rightarrow> 0),
       ss_tokens_out = (case r of Inr c \<Rightarrow> co_tokens_out c | Inl _ \<Rightarrow> 0),
       ss_latency_ms = (case r of Inr c \<Rightarrow> co_latency_ms c | Inl _ \<Rightarrow> 0),
       ss_candidate_count = (case r of Inr c \<Rightarrow> length (parse (co_content c)) | Inl _ \<Rightarrow> 0)\<rparr>]"
  "sr_candidates (add_outcome parse (i, t, r) rep) = sr_candidates rep @
     (case r of Inr c \<Rightarrow> parse (co_content c) | Inl _ \<Rightarrow> [])"
  "sr_parse_failures (add_outcome parse (i, t, r) rep) = sr_parse_failures rep @
     (if (case r of Inr c \<Rightarrow> parse (co_content c) | Inl _ \<Rightarrow> []) = [] then [i] else [])"
  by (simp_all add: add_outcome_def Let_def split: sum.splits)

definition report_ok :: "synthesis_report \<Rightarrow> bool" where
  "report_ok rep \<longleftrightarrow>
     sr_parse_failures rep = map ss_index (filter (\<lambda>s. ss_candidate_count s = 0) (sr_samples rep))
     \<and> length (sr_candidates rep) = sum_list (map ss_candidate_count (sr_samples rep))"

lemma report_ok_add: "report_ok rep \<Longrightarrow> report_ok (add_outcome parse o1 rep)"
  by (cases o1) (auto simp: report_ok_def add_outcome_fields split: sum.splits)

lemma fold_add_outcome:
  "report_ok rep \<Longrightarrow>
     report_ok (fold (add_outcome parse) os rep)
     \<and> map ss_index (sr_samples (fold (add_outcome parse) os rep)) = map ss_index (sr_samples rep) @ map fst os
     \<and> map ss_temperature (sr_samples (fold (add_outcome parse) os rep))
         = map ss_temperature (sr_samples rep) @ map (fst \<circ> snd) os
     \<and> sr_candidates (fold (add_outcome parse) os rep) = sr_candidates rep
         @ concat (map (\<lambda>(i, t, r). case r of Inr c \<Rightarrow> parse (co_content c) | Inl _ \<Rightarrow> []) os)"
proof (induction os arbitrary: rep)
  case Nil
  then show ?case by simp
next
  case (Cons o1 os)
  obtain i t r where o1: "o1 = (i, t, r)" by (cases o1)
  from Cons.IH[OF report_ok_add[OF Cons.prems]]
  show ?case by (simp add: o1 add_outcome_fields)
qed

section \<open>Properties\<close>

text \<open>Synthesis fails only when the prompt does not render, never because of the model: otherwise
  it reports one sample per index from 0 to max(k, 1) - 1, the first at the deterministic temperature
  and the rest at the exploratory one, the candidates of all answers in the order of the indices, and
  as parse failures exactly the samples that contributed no candidate.\<close>

theorem synthesize_report:
  "case synthesize dec_vec dec_one answer tpl intent methods sa hints src scaffold cfg of
     Inl err \<Rightarrow> \<exists>e. err = SynPrompt e \<and> render_prompt tpl intent methods sa hints src scaffold = Inl e
   | Inr rep \<Rightarrow>
       \<exists>text. render_prompt tpl intent methods sa hints src scaffold = Inr text
       \<and> map ss_index (sr_samples rep) = [0..<max (sc_samples cfg) 1]
       \<and> map ss_temperature (sr_samples rep)
           = sc_deterministic_temp cfg # replicate (sc_samples cfg - 1) (sc_exploratory_temp cfg)
       \<and> sr_candidates rep
           = concat (map (\<lambda>i. case answer i (synthesis_request cfg text i) of
                                Inr c \<Rightarrow> parse_candidates dec_vec dec_one (co_content c)
                              | Inl _ \<Rightarrow> []) [0..<max (sc_samples cfg) 1])
       \<and> report_ok rep"
proof (cases "render_prompt tpl intent methods sa hints src scaffold")
  case (Inl e)
  then show ?thesis by (simp add: synthesize_def)
next
  case (Inr t)
  have r0: "report_ok empty_report" by (simp add: report_ok_def empty_report_def)
  have "[0..<max k 1] = 0 # [1..<max k 1]" for k :: nat
    by (simp add: upt_conv_Cons)
  then have temps: "map (\<lambda>i. cr_temperature (synthesis_request cfg t i)) [0..<max (sc_samples cfg) 1]
      = sc_deterministic_temp cfg # replicate (sc_samples cfg - 1) (sc_exploratory_temp cfg)"
    by (auto simp: synthesis_request_def intro!: nth_equalityI)
  show ?thesis
    using fold_add_outcome[OF r0, of "parse_candidates dec_vec dec_one"
        "map (\<lambda>i. (i, cr_temperature (synthesis_request cfg t i), answer i (synthesis_request cfg t i)))
           [0..<max (sc_samples cfg) 1]"]
    by (simp add: synthesize_def Inr Let_def comp_def temps empty_report_def del: One_nat_def)
qed

text \<open>The array that is cut out of prose is the shortest text that starts at the first opening
  bracket and in which brackets balance (brackets inside string literals count too); nothing is cut
  exactly when no such text exists.\<close>

theorem extract_first_json_array_balanced:
  "case extract_first_json_array s of
     Some arr \<Rightarrow>
       (\<exists>post. s = takeWhile (\<lambda>c. c \<noteq> CHR ''['') s @ arr @ post)
       \<and> arr \<noteq> [] \<and> bracket_depth arr = 0
       \<and> list_all (\<lambda>k. 0 < bracket_depth (take k arr)) [1..<length arr]
   | None \<Rightarrow>
       (let rest = dropWhile (\<lambda>c. c \<noteq> CHR ''['') s in
        list_all (\<lambda>k. 0 < bracket_depth (take k rest)) [1..<Suc (length rest)])"
proof (cases "CHR ''['' \<in> set s")
  case False
  then have e: "dropWhile (\<lambda>c. c \<noteq> CHR ''['') s = []" by (auto simp: dropWhile_eq_Nil_conv)
  have n: "extract_first_json_array s = None"
    using False by (simp add: extract_first_json_array_def find_sub_single)
  show ?thesis unfolding e n by simp
next
  case True
  let ?P = "\<lambda>c. c \<noteq> CHR ''[''"
  let ?rest = "dropWhile ?P s"
  have d: "drop (length (takeWhile ?P s)) s = ?rest" by (simp add: dropWhile_eq_drop)
  have ne: "?rest \<noteq> []" using True by (auto simp: dropWhile_eq_Nil_conv)
  then have hd: "hd ?rest = CHR ''[''" using hd_dropWhile[of ?P s] by blast
  show ?thesis
  proof (cases "array_end 0 ?rest")
    case None
    then have "0 < bracket_depth (take k ?rest)" if "0 < k" for k
      using array_end_None[OF None, of k] that ne hd by simp
    then have "list_all (\<lambda>k. 0 < bracket_depth (take k ?rest)) [1..<Suc (length ?rest)]"
      by (simp only: list_all_iff set_upt) auto
    moreover have "extract_first_json_array s = None"
      using True None d by (simp add: extract_first_json_array_def find_sub_single)
    ultimately show ?thesis by (simp only: option.case Let_def)
  next
    case (Some n)
    have n: "0 < n" "n \<le> length ?rest" "bracket_depth (take n ?rest) = 0"
      using array_end_Some[OF Some] by simp_all
    have "0 < bracket_depth (take k ?rest)" if "0 < k" "k < n" for k
      using array_end_first[OF Some that] hd by simp
    moreover have "s = takeWhile ?P s @ take n ?rest @ drop n ?rest" by simp
    ultimately show ?thesis
      using True Some d n
      by (auto simp: extract_first_json_array_def find_sub_single list_all_iff simp del: append_take_drop_id)
  qed
qed

end
