(* ===== verification/Confirm.thy ===== *)
theory Confirm
  imports Layout Synthesis
begin

text \<open>
  The intent confirmation gate (\<open>crates/vergil-core/src/confirm.rs\<close>) and the terminal prompter of
  the unified command (\<open>StdinPrompter\<close> of \<open>crates/vergil-cli/src/commands/verify_unified.rs\<close>): the
  state file, the three ways decisions are taken, the incremental persistence of every decision and
  the resumption of an interrupted gate. serde, the disk, standard input and the agent's answers are
  parameters.
\<close>

section \<open>The state\<close>

record proposed_intent =
  pi_id :: string
  pi_source :: source
  pi_intent_text :: string
  pi_rationale :: string
  pi_confidence :: float
  pi_template_ref :: "string option"

datatype decision = DConfirm | DSkip | DEdit string

record decision_record =
  dr_intent_id :: string
  dr_decision :: decision
  dr_decided_at :: string

datatype confirm_status = CsPending | CsInProgress | CsComplete

record confirm_state =
  cf_schema_version :: u32
  cf_run_id :: string
  cf_proposed_intents :: "proposed_intent list"
  cf_decisions :: "decision_record list"
  cf_status :: confirm_status
  cf_started_at :: string
  cf_updated_at :: string

definition CONFIRM_STATE_SCHEMA_VERSION :: u32 where "CONFIRM_STATE_SCHEMA_VERSION = 1"

definition confirm_state_new :: "string \<Rightarrow> proposed_intent list \<Rightarrow> string \<Rightarrow> confirm_state" where
  "confirm_state_new run_id intents now =
     \<lparr>cf_schema_version = CONFIRM_STATE_SCHEMA_VERSION, cf_run_id = run_id, cf_proposed_intents = intents,
      cf_decisions = [], cf_status = CsPending, cf_started_at = now, cf_updated_at = now\<rparr>"

definition decided_ids :: "confirm_state \<Rightarrow> string list" where
  "decided_ids st = map dr_intent_id (cf_decisions st)"

definition undecided :: "confirm_state \<Rightarrow> proposed_intent list" where
  "undecided st = filter (\<lambda>i. \<not> List.member (decided_ids st) (pi_id i)) (cf_proposed_intents st)"

text \<open>A decision counts for the first proposed intent with its id.\<close>

fun confirmed_from :: "proposed_intent list \<Rightarrow> decision_record list \<Rightarrow> (proposed_intent \<times> decision) list" where
  "confirmed_from intents [] = []"
| "confirmed_from intents (d # ds) =
     (case find (\<lambda>i. pi_id i = dr_intent_id d) intents of
        None \<Rightarrow> confirmed_from intents ds
      | Some intent \<Rightarrow>
          (case dr_decision d of
             DSkip \<Rightarrow> confirmed_from intents ds
           | _ \<Rightarrow> (intent, dr_decision d) # confirmed_from intents ds))"

definition confirmed_intents :: "confirm_state \<Rightarrow> (proposed_intent \<times> decision) list" where
  "confirmed_intents st = confirmed_from (cf_proposed_intents st) (cf_decisions st)"

datatype confirm_error =
    CfIo string string
  | CfParse string string
  | CfSchemaMismatch u32 u32
  | CfRunIdMismatch string string
  | CfPrompt string
  | CfInvalidAgentDecision string

section \<open>The state file\<close>

text \<open>
  \<open>ce_ser\<close> and \<open>ce_de\<close> are serde's pretty printer and parser for the state, the other fields the
  answers of the operating system by the number of the operation.
\<close>

record confirm_env =
  ce_ser :: "confirm_state \<Rightarrow> string + string"
  ce_de :: "string \<Rightarrow> string + confirm_state"
  ce_mkdir :: "nat \<Rightarrow> string option"
  ce_write :: write_oracle
  ce_rename :: "nat \<Rightarrow> string option"

definition save_body :: "confirm_env \<Rightarrow> string \<Rightarrow> confirm_state \<Rightarrow> disk \<Rightarrow> confirm_error option \<times> disk" where
  "save_body env path st d =
     (let tmp = with_extension path ''json.tmp'' in
      case ce_ser env st of
        Inl e \<Rightarrow> (Some (CfParse path e), d)
      | Inr body \<Rightarrow>
          (case fs_write (ce_write env) tmp body d of
             (Some e, d1) \<Rightarrow> (Some (CfIo tmp e), d1)
           | (None, d1) \<Rightarrow>
               (case fs_rename (ce_rename env) tmp path d1 of
                  (Some e, d2) \<Rightarrow> (Some (CfIo path e), d2)
                | (None, d2) \<Rightarrow> (None, d2))))"

definition save_state :: "confirm_env \<Rightarrow> string \<Rightarrow> confirm_state \<Rightarrow> disk \<Rightarrow> confirm_error option \<times> disk" where
  "save_state env path st d =
     (case path_parent path of
        None \<Rightarrow> save_body env path st d
      | Some parent \<Rightarrow>
          (case ce_mkdir env (dk_writes d) of
             Some e \<Rightarrow> (Some (CfIo parent e), d)
           | None \<Rightarrow> save_body env path st d))"

definition load_state :: "confirm_env \<Rightarrow> string \<Rightarrow> string \<Rightarrow> disk \<Rightarrow> confirm_error + confirm_state" where
  "load_state env read_error path d =
     (case dk_files d path of
        None \<Rightarrow> Inl (CfIo path read_error)
      | Some body \<Rightarrow>
          (case ce_de env body of
             Inl e \<Rightarrow> Inl (CfParse path e)
           | Inr st \<Rightarrow>
               (if cf_schema_version st \<noteq> CONFIRM_STATE_SCHEMA_VERSION
                then Inl (CfSchemaMismatch (cf_schema_version st) CONFIRM_STATE_SCHEMA_VERSION)
                else Inr st)))"

section \<open>Taking decisions\<close>

text \<open>
  A driver takes the decision for one intent, with a state of its own: \<open>GateMode::AutoYes\<close>, the
  prompter of a terminal, and the exchange of JSON lines with an agent.
\<close>

definition decide_auto :: "proposed_intent \<Rightarrow> 's \<Rightarrow> (confirm_error + decision) \<times> 's" where
  "decide_auto i s = (Inr DConfirm, s)"

definition decide_tty ::
    "(proposed_intent \<Rightarrow> 's \<Rightarrow> (confirm_error + decision) \<times> 's) \<Rightarrow> ('s \<Rightarrow> bool)
     \<Rightarrow> proposed_intent \<Rightarrow> 's \<Rightarrow> (confirm_error + decision) \<times> 's" where
  "decide_tty prompt all_yes_armed i s = (if all_yes_armed s then (Inr DConfirm, s) else prompt i s)"

fun source_wire :: "source \<Rightarrow> string" where
  "source_wire UserIntent = ''user_intent''"
| "source_wire AttackCatalog = ''attack_catalog''"
| "source_wire Conformance = ''conformance''"
| "source_wire Tests = ''tests''"
| "source_wire NatSpec = ''nat_spec''"
| "source_wire Structural = ''structural''"

text \<open>
  The agent's side: \<open>ag_in\<close> the answers of \<open>read_line\<close> to come (none left is the end of the input),
  \<open>ag_out\<close> what was written, \<open>ag_write_err\<close> the failures of writing or flushing by their number.
\<close>

record agent_io =
  ag_in :: "(string + string) list"
  ag_out :: "json list"
  ag_write_err :: "string option list"

definition intent_prompt :: "proposed_intent \<Rightarrow> json" where
  "intent_prompt i =
     JObj [(''kind'', JStr ''intent_prompt''), (''id'', JStr (pi_id i)), (''source'', JStr (source_wire (pi_source i))),
           (''intent_text'', JStr (pi_intent_text i)), (''rationale'', JStr (pi_rationale i)),
           (''confidence'', JFloat (pi_confidence i)), (''template_ref'', opt_json JStr (pi_template_ref i))]"

text \<open>\<open>parse\<close> is serde's parser of a decision, \<open>dbg\<close> the debug format of a string.\<close>

definition decide_json ::
    "(string \<Rightarrow> string + decision) \<Rightarrow> (string \<Rightarrow> string)
     \<Rightarrow> proposed_intent \<Rightarrow> agent_io \<Rightarrow> (confirm_error + decision) \<times> agent_io" where
  "decide_json parse dbg i s =
     (let werr = (case ag_write_err s of [] \<Rightarrow> None | w # ws \<Rightarrow> w);
          s1 = s\<lparr>ag_write_err := drop 1 (ag_write_err s)\<rparr> in
      case werr of
        Some e \<Rightarrow> (Inl (CfPrompt e), s1)
      | None \<Rightarrow>
          (let s2 = s1\<lparr>ag_out := ag_out s1 @ [intent_prompt i], ag_in := drop 1 (ag_in s1)\<rparr> in
           case ag_in s1 of
             [] \<Rightarrow> (Inl (CfInvalidAgentDecision ''EOF before decision''), s2)
           | Inl e # rest \<Rightarrow> (Inl (CfPrompt e), s2)
           | Inr line # rest \<Rightarrow>
               (if line = [] then (Inl (CfInvalidAgentDecision ''EOF before decision''), s2)
                else case parse (trim line) of
                       Inl e \<Rightarrow> (Inl (CfInvalidAgentDecision (e @ '': input was '' @ dbg line)), s2)
                     | Inr dec \<Rightarrow> (Inr dec, s2))))"

text \<open>
  The prompter on standard input: \<open>tt_in\<close> the answers of \<open>read_line\<close> to come, \<open>tt_flush\<close> the failures
  of flushing standard error to come. At the end of the input \<open>read_line\<close> gives the empty line.
\<close>

record tty_io =
  tt_in :: "(string + string) list"
  tt_flush :: "string option list"
  tt_all_yes :: bool

definition next_line :: "(string + string) list \<Rightarrow> string + string" where
  "next_line ls = (case ls of [] \<Rightarrow> Inr [] | l # _ \<Rightarrow> l)"

definition next_err :: "string option list \<Rightarrow> string option" where
  "next_err es = (case es of [] \<Rightarrow> None | e # _ \<Rightarrow> e)"

definition edit_prompt :: "tty_io \<Rightarrow> (confirm_error + decision) \<times> tty_io" where
  "edit_prompt s =
     (let s1 = s\<lparr>tt_flush := drop 1 (tt_flush s)\<rparr> in
      case next_err (tt_flush s) of
        Some e \<Rightarrow> (Inl (CfPrompt e), s1)
      | None \<Rightarrow>
          (let s2 = s1\<lparr>tt_in := drop 1 (tt_in s1)\<rparr> in
           case next_line (tt_in s1) of
             Inl e \<Rightarrow> (Inl (CfPrompt e), s2)
           | Inr line \<Rightarrow> (Inr (DEdit (trim line)), s2)))"

function stdin_prompt :: "proposed_intent \<Rightarrow> tty_io \<Rightarrow> (confirm_error + decision) \<times> tty_io" where
  "stdin_prompt i s =
     (let s1 = s\<lparr>tt_flush := drop 1 (tt_flush s)\<rparr> in
      case next_err (tt_flush s) of
        Some e \<Rightarrow> (Inl (CfPrompt e), s1)
      | None \<Rightarrow>
          (let s2 = s1\<lparr>tt_in := drop 1 (tt_in s1)\<rparr> in
           case next_line (tt_in s) of
             Inl e \<Rightarrow> (Inl (CfPrompt e), s2)
           | Inr line \<Rightarrow>
               (let t = trim line in
                if t = ''c'' \<or> t = '''' then (Inr DConfirm, s2)
                else if t = ''s'' then (Inr DSkip, s2)
                else if t = ''a'' then (Inr DConfirm, s2\<lparr>tt_all_yes := True\<rparr>)
                else if t = ''e'' then edit_prompt s2
                else stdin_prompt i s2)))"
  by pat_completeness auto
termination
  by (relation "measure (\<lambda>(i, s). length (tt_in s))")
     (auto simp: next_line_def trim_def trim_start_def trim_end_def split: list.splits)

declare stdin_prompt.simps [simp del]

section \<open>Driving the gate\<close>

definition record_decision :: "string \<Rightarrow> proposed_intent \<Rightarrow> decision \<Rightarrow> confirm_state \<Rightarrow> confirm_state" where
  "record_decision now i dec st =
     st\<lparr>cf_decisions := cf_decisions st @ [\<lparr>dr_intent_id = pi_id i, dr_decision = dec, dr_decided_at = now\<rparr>],
        cf_updated_at := now\<rparr>"

fun confirm_loop ::
    "confirm_env \<Rightarrow> (proposed_intent \<Rightarrow> 's \<Rightarrow> (confirm_error + decision) \<times> 's) \<Rightarrow> string \<Rightarrow> string
     \<Rightarrow> proposed_intent list \<Rightarrow> confirm_state \<Rightarrow> 's \<Rightarrow> disk \<Rightarrow> (confirm_error + confirm_state) \<times> 's \<times> disk" where
  "confirm_loop env decide path now [] st s d = (Inr st, s, d)"
| "confirm_loop env decide path now (i # is) st s d =
     (case decide i s of
        (Inl e, s1) \<Rightarrow> (Inl e, s1, d)
      | (Inr dec, s1) \<Rightarrow>
          (let st1 = record_decision now i dec st in
           case save_state env path st1 d of
             (Some e, d1) \<Rightarrow> (Inl e, s1, d1)
           | (None, d1) \<Rightarrow> confirm_loop env decide path now is st1 s1 d1))"

text \<open>Each of the three arms of the match is the loop with the driver of its mode.\<close>

definition run_gate ::
    "confirm_env \<Rightarrow> (proposed_intent \<Rightarrow> 's \<Rightarrow> (confirm_error + decision) \<times> 's) \<Rightarrow> string \<Rightarrow> string
     \<Rightarrow> confirm_state \<Rightarrow> 's \<Rightarrow> disk \<Rightarrow> (confirm_error + confirm_state) \<times> 's \<times> disk" where
  "run_gate env decide path now start s d =
     (if cf_proposed_intents start = [] then
        (let st = start\<lparr>cf_status := CsComplete, cf_updated_at := now\<rparr> in
         case save_state env path st d of
           (Some e, d1) \<Rightarrow> (Inl e, s, d1)
         | (None, d1) \<Rightarrow> (Inr st, s, d1))
      else
        (let st = start\<lparr>cf_status := CsInProgress\<rparr> in
         case save_state env path st d of
           (Some e, d1) \<Rightarrow> (Inl e, s, d1)
         | (None, d1) \<Rightarrow>
             (case confirm_loop env decide path now (undecided st) st s d1 of
                (Inl e, s2, d2) \<Rightarrow> (Inl e, s2, d2)
              | (Inr st2, s2, d2) \<Rightarrow>
                  (let st3 = st2\<lparr>cf_status := CsComplete, cf_updated_at := now\<rparr> in
                   case save_state env path st3 d2 of
                     (Some e, d3) \<Rightarrow> (Inl e, s2, d3)
                   | (None, d3) \<Rightarrow> (Inr st3, s2, d3)))))"

definition resume_or_new ::
    "confirm_env \<Rightarrow> string \<Rightarrow> string \<Rightarrow> string \<Rightarrow> proposed_intent list \<Rightarrow> string \<Rightarrow> disk \<Rightarrow> confirm_error + confirm_state" where
  "resume_or_new env read_error path run_id fresh now d =
     (if dk_files d path = None then Inr (confirm_state_new run_id fresh now)
      else case load_state env read_error path d of
             Inl e \<Rightarrow> Inl e
           | Inr existing \<Rightarrow>
               (if cf_run_id existing \<noteq> run_id then Inl (CfRunIdMismatch (cf_run_id existing) run_id)
                else
                  (let fresh_ids = map pi_id fresh;
                       surviving = filter (\<lambda>d. List.member fresh_ids (dr_intent_id d)) (cf_decisions existing);
                       merged = (confirm_state_new run_id fresh (cf_started_at existing))
                                  \<lparr>cf_decisions := surviving, cf_updated_at := now\<rparr>
                   in Inr (merged\<lparr>cf_status :=
                        (if length surviving = length fresh then CsComplete
                         else if surviving = [] then CsPending else CsInProgress)\<rparr>))))"

section \<open>Lemmas\<close>

definition answers :: "string \<Rightarrow> proposed_intent list \<Rightarrow> decision list \<Rightarrow> decision_record list" where
  "answers now is ds = map2 (\<lambda>i x. \<lparr>dr_intent_id = pi_id i, dr_decision = x, dr_decided_at = now\<rparr>) is ds"

text \<open>A state in which the first intents of a list were decided, everything else unchanged.\<close>

definition advanced ::
    "string \<Rightarrow> proposed_intent list \<Rightarrow> decision list \<Rightarrow> confirm_state \<Rightarrow> confirm_state \<Rightarrow> bool" where
  "advanced now is ds st0 st \<longleftrightarrow>
     length ds \<le> length is \<and> cf_decisions st = cf_decisions st0 @ answers now is ds
     \<and> cf_schema_version st = cf_schema_version st0 \<and> cf_run_id st = cf_run_id st0
     \<and> cf_proposed_intents st = cf_proposed_intents st0 \<and> cf_started_at st = cf_started_at st0"

definition file_holds :: "confirm_env \<Rightarrow> string \<Rightarrow> confirm_state \<Rightarrow> disk \<Rightarrow> bool" where
  "file_holds env path st d \<longleftrightarrow> (\<exists>b. ce_ser env st = Inr b \<and> dk_files d path = Some b)"

definition file_ok :: "confirm_env \<Rightarrow> string \<Rightarrow> string \<Rightarrow> proposed_intent list \<Rightarrow> confirm_state \<Rightarrow> disk \<Rightarrow> disk \<Rightarrow> bool" where
  "file_ok env path now is st0 d d' \<longleftrightarrow>
     dk_files d' path = dk_files d path \<or> (\<exists>st ds. advanced now is ds st0 st \<and> file_holds env path st d')"

lemma answers_simps [simp]:
  "answers now is [] = []"
  "answers now (i # is) (x # ds) = \<lparr>dr_intent_id = pi_id i, dr_decision = x, dr_decided_at = now\<rparr> # answers now is ds"
  by (simp_all add: answers_def)

lemma map_id_answers: "length ds \<le> length is \<Longrightarrow> map dr_intent_id (answers now is ds) = map pi_id (take (length ds) is)"
proof (induction ds arbitrary: "is")
  case Nil
  then show ?case by simp
next
  case (Cons x ds)
  then show ?case by (cases "is") auto
qed

lemma advanced_refl: "advanced now is [] st st"
  by (simp add: advanced_def)

lemma advanced_fields: "advanced now is ds st0 (st\<lparr>cf_status := v, cf_updated_at := t\<rparr>) = advanced now is ds st0 st"
  "advanced now is ds (st0\<lparr>cf_status := v\<rparr>) st = advanced now is ds st0 st"
  "advanced now is ds st0 (st\<lparr>cf_status := v\<rparr>) = advanced now is ds st0 st"
  by (simp_all add: advanced_def)

lemma advanced_step:
  "advanced now is ds (record_decision now i x st0) st \<Longrightarrow> advanced now (i # is) (x # ds) st0 st"
  by (simp add: advanced_def record_decision_def)

lemma save_state_file:
  assumes "save_state env path st d = (r, d')" and tmp: "with_extension path ''json.tmp'' \<noteq> path"
  shows "if r = None then file_holds env path st d' else dk_files d' path = dk_files d path"
proof -
  have b: "if r = None then file_holds env path st d' else dk_files d' path = dk_files d path"
    if sb: "save_body env path st d = (r, d')"
  proof (cases "ce_ser env st")
    case (Inl e)
    with sb show ?thesis by (auto simp: save_body_def)
  next
    case (Inr body)
    obtain e1 d1 where w: "fs_write (ce_write env) (with_extension path ''json.tmp'') body d = (e1, d1)"
      by fastforce
    have o1: "dk_files d1 path = dk_files d path"
      using fs_write_other[OF tmp[symmetric], of "ce_write env" body d] w by simp
    show ?thesis
    proof (cases e1)
      case (Some e)
      with sb Inr w o1 show ?thesis by (auto simp: save_body_def Let_def)
    next
      case None
      obtain e2 d2 where rn: "fs_rename (ce_rename env) (with_extension path ''json.tmp'') path d1 = (e2, d2)"
        by fastforce
      from fs_rename_cases[OF rn] fs_write_None w None o1
      have "if e2 = None then dk_files d2 path = Some body else dk_files d2 path = dk_files d path" by auto
      with sb Inr w None rn show ?thesis
        by (cases e2) (auto simp: save_body_def Let_def file_holds_def)
    qed
  qed
  with assms(1) show ?thesis
    by (auto simp: save_state_def split: option.splits if_splits)
qed

lemma confirm_loop_ok:
  assumes "confirm_loop env decide path now is st s d = (r, s', d')" and tmp: "with_extension path ''json.tmp'' \<noteq> path"
  shows "file_ok env path now is st d d'
    \<and> (case r of Inl e \<Rightarrow> True | Inr st' \<Rightarrow> \<exists>ds. length ds = length is \<and> advanced now is ds st st')"
  using assms(1)
proof (induction "is" arbitrary: st s d)
  case Nil
  then show ?case by (auto simp: file_ok_def intro: advanced_refl)
next
  case (Cons i "is")
  obtain rd s1 where dec: "decide i s = (rd, s1)" by fastforce
  show ?case
  proof (cases rd)
    case (Inl e)
    with Cons.prems dec show ?thesis by (auto simp: file_ok_def)
  next
    case (Inr x)
    let ?st1 = "record_decision now i x st"
    obtain e d1 where sv: "save_state env path ?st1 d = (e, d1)" by fastforce
    note f = save_state_file[OF sv tmp]
    have adv1: "advanced now (i # is) [x] st ?st1"
      by (rule advanced_step) (rule advanced_refl)
    show ?thesis
    proof (cases e)
      case (Some err)
      with Cons.prems dec Inr sv f show ?thesis by (auto simp: file_ok_def)
    next
      case None
      with Cons.prems dec Inr sv have "confirm_loop env decide path now is ?st1 s1 d1 = (r, s', d')"
        by simp
      note IH = Cons.IH[OF this]
      have "file_ok env path now (i # is) st d d'"
        using IH None f adv1 unfolding file_ok_def file_holds_def
        by (metis advanced_step)
      moreover have "case r of Inl e \<Rightarrow> True
          | Inr st' \<Rightarrow> \<exists>ds. length ds = length (i # is) \<and> advanced now (i # is) ds st st'"
      proof (cases r)
        case (Inr st')
        with IH obtain ds where "length ds = length is" "advanced now is ds ?st1 st'" by auto
        then have "length (x # ds) = length (i # is) \<and> advanced now (i # is) (x # ds) st st'"
          by (simp add: advanced_step)
        then show ?thesis unfolding Inr sum.case by (rule exI)
      qed simp
      ultimately show ?thesis by blast
    qed
  qed
qed

lemma undecided_advanced:
  assumes "advanced now (undecided st0) ds st0 st" and "length ds = length (undecided st0)"
  shows "undecided st = []"
proof -
  have ids: "set (decided_ids st) = set (decided_ids st0) \<union> pi_id ` set (undecided st0)"
    using assms map_id_answers[of ds "undecided st0" now] by (simp add: advanced_def decided_ids_def)
  have "i \<in> set (undecided st0) \<or> pi_id i \<in> set (decided_ids st0)" if "i \<in> set (cf_proposed_intents st0)" for i
    using that by (simp add: undecided_def List.member_iff)
  then have "pi_id i \<in> set (decided_ids st)" if "i \<in> set (cf_proposed_intents st0)" for i
    using that unfolding ids by blast
  moreover have "cf_proposed_intents st = cf_proposed_intents st0" using assms by (simp add: advanced_def)
  ultimately show ?thesis by (simp add: undecided_def filter_empty_conv List.member_iff)
qed

lemma undecided_status [simp]:
  "undecided (st\<lparr>cf_status := v\<rparr>) = undecided st"
  "undecided (st\<lparr>cf_status := v, cf_updated_at := t\<rparr>) = undecided st"
  by (simp_all add: undecided_def decided_ids_def)

lemma file_ok_refl: "dk_files d' path = dk_files d path \<Longrightarrow> file_ok env path now is st d d'"
  by (simp add: file_ok_def)

lemma file_ok_holds: "advanced now is ds st st' \<Longrightarrow> file_holds env path st' d' \<Longrightarrow> file_ok env path now is st d d'"
  unfolding file_ok_def by blast

lemma file_ok_trans:
  "file_ok env path now is st d d1 \<Longrightarrow> file_ok env path now is (st\<lparr>cf_status := v\<rparr>) d1 d2
     \<Longrightarrow> file_ok env path now is st d d2"
  unfolding file_ok_def file_holds_def advanced_fields by metis

definition gate_result ::
    "confirm_env \<Rightarrow> string \<Rightarrow> string \<Rightarrow> confirm_state \<Rightarrow> disk \<Rightarrow> confirm_error + confirm_state \<Rightarrow> disk \<Rightarrow> bool" where
  "gate_result env path now st d r d' \<longleftrightarrow>
     file_ok env path now (undecided st) st d d'
     \<and> (case r of
          Inl e \<Rightarrow> True
        | Inr st' \<Rightarrow> cf_status st' = CsComplete \<and> undecided st' = [] \<and> file_holds env path st' d'
            \<and> (\<exists>ds. length ds = length (undecided st) \<and> advanced now (undecided st) ds st st'))"

lemma save_then:
  assumes sv: "save_state env path st1 d = (e, d1)" and tmp: "with_extension path ''json.tmp'' \<noteq> path"
    and adv: "advanced now is ds st st1"
  shows "file_ok env path now is st d d1" and "e = None \<Longrightarrow> file_holds env path st1 d1"
  using save_state_file[OF sv tmp] file_ok_holds[OF adv] by (auto simp: file_ok_def split: if_splits)

lemma run_gate_result:
  assumes rg: "run_gate env decide path now st s d = (r, s', d')" and tmp: "with_extension path ''json.tmp'' \<noteq> path"
  shows "gate_result env path now st d r d'"
proof (cases "cf_proposed_intents st = []")
  case True
  let ?st = "st\<lparr>cf_status := CsComplete, cf_updated_at := now\<rparr>"
  have u: "undecided st = []" by (simp add: undecided_def True)
  have adv: "advanced now (undecided st) [] st ?st" by (simp add: advanced_def)
  obtain e d1 where sv: "save_state env path ?st d = (e, d1)" by fastforce
  note f = save_then[OF sv tmp adv]
  show ?thesis
    using rg True sv f adv u by (cases e) (auto simp: run_gate_def Let_def gate_result_def)
next
  case False
  let ?st = "st\<lparr>cf_status := CsInProgress\<rparr>" and ?is = "undecided st"
  have adv0: "advanced now ?is [] st ?st" by (simp add: advanced_def)
  obtain e d1 where sv: "save_state env path ?st d = (e, d1)" by fastforce
  note f1 = save_then[OF sv tmp adv0]
  show ?thesis
  proof (cases e)
    case (Some err)
    with rg False sv f1 show ?thesis by (auto simp: run_gate_def Let_def gate_result_def)
  next
    case None
    obtain r2 s2 d2 where lp: "confirm_loop env decide path now ?is ?st s d1 = (r2, s2, d2)"
      by (metis prod_cases3)
    note L = confirm_loop_ok[OF lp tmp]
    have f2: "file_ok env path now ?is st d d2"
      using L file_ok_trans[OF f1(1)] by blast
    show ?thesis
    proof (cases r2)
      case (Inl err)
      with rg False sv None lp f2 show ?thesis by (auto simp: run_gate_def Let_def gate_result_def)
    next
      case (Inr st2)
      with L obtain ds where ds: "length ds = length ?is" "advanced now ?is ds ?st st2" by auto
      let ?st3 = "st2\<lparr>cf_status := CsComplete, cf_updated_at := now\<rparr>"
      have adv: "advanced now ?is ds st ?st3" using ds(2) by (simp add: advanced_fields)
      obtain e3 d3 where sv3: "save_state env path ?st3 d2 = (e3, d3)" by fastforce
      note f3 = save_then[OF sv3 tmp adv]
      have "undecided ?st3 = []" by (rule undecided_advanced[OF adv ds(1)])
      moreover have "file_ok env path now ?is st d d3"
        using f2 f3(1) unfolding file_ok_def file_holds_def by metis
      ultimately show ?thesis
        using rg False sv None lp Inr sv3 f3 adv ds(1)
        by (cases e3) (auto simp: run_gate_def Let_def gate_result_def)
    qed
  qed
qed

lemma find_id:
  "distinct (map pi_id is) \<Longrightarrow> i \<in> set is \<Longrightarrow> find (\<lambda>j. pi_id j = pi_id i) is = Some i"
  by (induction "is") auto

lemma confirmed_answers:
  assumes "distinct (map pi_id all)"
  shows "set is \<subseteq> set all \<Longrightarrow> length ds = length is \<Longrightarrow>
    confirmed_from all (answers now is ds) = filter (\<lambda>(i, x). x \<noteq> DSkip) (zip is ds)"
proof (induction "is" arbitrary: ds)
  case Nil
  then show ?case by simp
next
  case (Cons i "is")
  then obtain x ds' where ds: "ds = x # ds'" by (cases ds) auto
  have "find (\<lambda>j. pi_id j = pi_id i) all = Some i" using Cons.prems by (intro find_id[OF assms]) simp
  with Cons ds show ?case by (cases x) auto
qed

lemma undecided_new [simp]: "undecided (confirm_state_new run_id is now) = is"
  by (simp add: undecided_def confirm_state_new_def decided_ids_def List.member_iff)

lemma confirm_new_fields [simp]:
  "cf_decisions (confirm_state_new run_id is now) = []"
  "cf_proposed_intents (confirm_state_new run_id is now) = is"
  "cf_run_id (confirm_state_new run_id is now) = run_id"
  "cf_schema_version (confirm_state_new run_id is now) = CONFIRM_STATE_SCHEMA_VERSION"
  by (simp_all add: confirm_state_new_def)

lemma undecided_after:
  assumes "distinct (map pi_id is)" and "cf_proposed_intents st = is"
    and "cf_decisions st = answers now is ds" and "length ds \<le> length is"
  shows "undecided st = drop (length ds) is"
proof -
  let ?n = "length ds"
  have ids: "set (decided_ids st) = pi_id ` set (take ?n is)"
    using assms map_id_answers[of ds "is" now] by (simp add: decided_ids_def)
  have d: "distinct (map pi_id (take ?n is @ drop ?n is))" using assms(1) by simp
  have "\<forall>i\<in>set (drop ?n is). pi_id i \<notin> pi_id ` set (take ?n is)"
    using d unfolding map_append distinct_append by auto
  moreover have "filter (\<lambda>i. pi_id i \<notin> pi_id ` set (take ?n is)) (take ?n is @ drop ?n is)
      = filter (\<lambda>i. pi_id i \<notin> pi_id ` set (take ?n is)) (drop ?n is)"
    unfolding filter_append by (simp add: filter_empty_conv)
  ultimately show ?thesis
    by (simp add: undecided_def List.member_iff ids assms(2) filter_True)
qed

lemma filter_surviving:
  "length ds \<le> length is \<Longrightarrow>
   filter (\<lambda>d. List.member (map pi_id is) (dr_intent_id d)) (answers now is ds) = answers now is ds"
proof (rule filter_True, rule ballI)
  fix r assume l: "length ds \<le> length is" and r: "r \<in> set (answers now is ds)"
  from r have "dr_intent_id r \<in> set (map dr_intent_id (answers now is ds))" by simp
  then have "dr_intent_id r \<in> pi_id ` set (take (length ds) is)" unfolding map_id_answers[OF l] by simp
  then show "List.member (map pi_id is) (dr_intent_id r)"
    by (auto simp: List.member_iff dest: in_set_takeD)
qed

lemma stdin_prompt_eof [simp]:
  "tt_in s = [] \<Longrightarrow> tt_flush s = [] \<Longrightarrow> stdin_prompt i s = (Inr DConfirm, s)"
  by (simp add: stdin_prompt.simps[of i s] next_err_def next_line_def trim_def trim_start_def trim_end_def Let_def)

lemma confirm_loop_const:
  assumes "\<And>i. decide i s = (Inr x, s)"
  shows "case confirm_loop env decide path now xs st s d of
     (Inr st', _, _) \<Rightarrow> cf_decisions st' = cf_decisions st @ answers now xs (replicate (length xs) x)
   | (Inl e, _, _) \<Rightarrow> \<exists>st' d'. fst (save_state env path st' d') = Some e"
proof (induction xs arbitrary: st d)
  case Nil
  then show ?case by simp
next
  case (Cons i xs)
  let ?st1 = "record_decision now i x st"
  obtain e d1 where sv: "save_state env path ?st1 d = (e, d1)" by fastforce
  have ds: "cf_decisions ?st1 @ answers now xs (replicate (length xs) x)
      = cf_decisions st @ answers now (i # xs) (replicate (length (i # xs)) x)"
    by (simp add: record_decision_def)
  show ?case
  proof (cases e)
    case None
    with Cons[of ?st1 d1] sv show ?thesis unfolding ds by (simp add: assms)
  next
    case (Some err)
    with sv have "fst (save_state env path ?st1 d) = Some err" by simp
    then have "\<exists>st' d'. fst (save_state env path st' d') = Some err" by blast
    with Some sv show ?thesis by (auto simp: assms)
  qed
qed

section \<open>Drivers that always decide\<close>

text \<open>
  The contract of a driver that never gives up: from a good state it takes a decision and its state
  stays good. A gate over such a driver fails only where the disk does.
\<close>

locale willing_driver =
  fixes decide :: "proposed_intent \<Rightarrow> 's \<Rightarrow> (confirm_error + decision) \<times> 's"
    and good :: "'s \<Rightarrow> bool"
  assumes decides: "good s \<Longrightarrow> \<exists>x s'. decide i s = (Inr x, s') \<and> good s'"
begin

lemma loop_fails_on_disk:
  "good s \<Longrightarrow> confirm_loop env decide path now xs st s d = (Inl e, s', d') \<Longrightarrow>
     \<exists>st1 d1. fst (save_state env path st1 d1) = Some e"
proof (induction xs arbitrary: st s d)
  case Nil
  then show ?case by simp
next
  case (Cons i xs)
  obtain x s1 where x: "decide i s = (Inr x, s1)" "good s1" using decides Cons.prems(1) by blast
  let ?st1 = "record_decision now i x st"
  obtain e1 d1 where sv: "save_state env path ?st1 d = (e1, d1)" by fastforce
  show ?case
  proof (cases e1)
    case None
    with Cons.prems(2) x sv have "confirm_loop env decide path now xs ?st1 s1 d1 = (Inl e, s', d')" by simp
    from Cons.IH[OF x(2) this] show ?thesis .
  next
    case (Some e2)
    with Cons.prems(2) x sv have "fst (save_state env path ?st1 d) = Some e" by simp
    then show ?thesis by blast
  qed
qed

lemma gate_fails_on_disk:
  assumes "good s" and "run_gate env decide path now st s d = (Inl e, s', d')"
  shows "\<exists>st1 d1. fst (save_state env path st1 d1) = Some e"
proof -
  have sv: "\<exists>st1 d1. fst (save_state env path st1 d1) = Some x" if "save_state env path st1 d1 = (Some x, d2)"
    for st1 d1 d2 x using that by (metis fst_conv)
  from assms(2) show ?thesis
    by (auto simp: run_gate_def Let_def split: if_splits option.splits prod.splits sum.splits
        intro: sv loop_fails_on_disk[OF assms(1)])
qed

end

definition tty_works :: "tty_io \<Rightarrow> bool" where
  "tty_works s \<longleftrightarrow> list_all (\<lambda>l. isl l = False) (tt_in s) \<and> list_all (\<lambda>e. e = None) (tt_flush s)"

lemma tty_works_drop: "tty_works s \<Longrightarrow> tty_works (s\<lparr>tt_flush := drop 1 (tt_flush s), tt_in := drop 1 (tt_in s)\<rparr>)"
  by (cases "tt_flush s"; cases "tt_in s") (auto simp: tty_works_def)

lemma tty_works_next:
  assumes "tty_works s"
  shows "next_err (tt_flush s) = None" and "\<exists>l. next_line (tt_in s) = Inr l"
proof -
  show "next_err (tt_flush s) = None" using assms by (cases "tt_flush s") (auto simp: tty_works_def next_err_def)
  show "\<exists>l. next_line (tt_in s) = Inr l"
  proof (cases "tt_in s")
    case (Cons l ls)
    with assms show ?thesis by (cases l) (auto simp: tty_works_def next_line_def)
  qed (simp add: next_line_def)
qed

lemma edit_prompt_works: "tty_works s \<Longrightarrow> \<exists>x s'. edit_prompt s = (Inr x, s') \<and> tty_works s'"
  using tty_works_next[of s] tty_works_drop[of s] by (auto simp: edit_prompt_def Let_def)

lemma stdin_prompt_works: "tty_works s \<Longrightarrow> \<exists>x s'. stdin_prompt i s = (Inr x, s') \<and> tty_works s'"
proof (induction i s rule: stdin_prompt.induct)
  case (1 i s)
  let ?s2 = "s\<lparr>tt_flush := drop 1 (tt_flush s), tt_in := drop 1 (tt_in s)\<rparr>"
  note w = tty_works_next[OF "1.prems"] tty_works_drop[OF "1.prems"]
  from w(2) obtain l where l: "next_line (tt_in s) = Inr l" by blast
  have aw: "tty_works (?s2\<lparr>tt_all_yes := True\<rparr>)" using w(3) by (simp add: tty_works_def)
  show ?case
  proof (cases "trim l \<in> {''c'', [], ''s'', ''a'', ''e''}")
    case True
    then show ?thesis
      using w(1,3) l aw edit_prompt_works[OF w(3)]
      by (auto simp: stdin_prompt.simps[of i s] Let_def)
  next
    case False
    then have "stdin_prompt i s = stdin_prompt i ?s2"
      using w(1) l by (simp add: stdin_prompt.simps[of i s] Let_def)
    moreover have "\<exists>x s'. stdin_prompt i ?s2 = (Inr x, s') \<and> tty_works s'"
      using "1.IH" w l False by auto
    ultimately show ?thesis by simp
  qed
qed

interpretation ad: willing_driver decide_auto "\<lambda>_. True"
  by unfold_locales (simp add: decide_auto_def)

interpretation td: willing_driver "decide_tty stdin_prompt tt_all_yes" tty_works
proof unfold_locales
  fix s :: tty_io and i
  assume "tty_works s"
  then show "\<exists>x s'. decide_tty stdin_prompt tt_all_yes i s = (Inr x, s') \<and> tty_works s'"
    using stdin_prompt_works[of s i] by (auto simp: decide_tty_def)
qed

section \<open>Properties\<close>


text \<open>What feeds the solver is what was confirmed: when a gate over intents with different ids returns, the
  confirmed intents are the proposed ones in their order, paired with the answer that was given to each,
  without the skipped ones.\<close>

theorem confirmed_is_answered:
  assumes "distinct (map pi_id intents)"
    and "run_gate env decide (confirm_state_path project) now (confirm_state_new run_id intents t0) s d = (Inr st', s', d')"
  shows "\<exists>ds. length ds = length intents
    \<and> confirmed_intents st' = filter (\<lambda>(i, x). x \<noteq> DSkip) (zip intents ds)"
  using run_gate_result[OF assms(2) confirm_tmp_differs] confirmed_answers[OF assms(1), of intents]
  by (auto simp: gate_result_def advanced_def confirmed_intents_def)


text \<open>Resuming under another run id is an error, never a fresh start: when the state file parses and names
  another run, the resumption fails with a mismatch, whatever the intents.\<close>

lemma resume_other_run_fails:
  assumes "dk_files d path = Some body" and "ce_de env body = Inr st"
    and "cf_schema_version st = CONFIRM_STATE_SCHEMA_VERSION" and "cf_run_id st \<noteq> run_id"
  shows "resume_or_new env read_error path run_id fresh now d = Inl (CfRunIdMismatch (cf_run_id st) run_id)"
  using assms by (simp add: resume_or_new_def load_state_def)

text \<open>On a terminal whose input is at its end the gate confirms every intent: the empty line that the end of
  the input gives counts as a confirmation, so no answer is consent.\<close>

theorem eof_confirms_everything:
  "case run_gate env (decide_tty stdin_prompt tt_all_yes) path now (confirm_state_new run_id intents t0)
          \<lparr>tt_in = [], tt_flush = [], tt_all_yes = False\<rparr> d of
     (Inr st', _, _) \<Rightarrow> cf_decisions st' = answers now intents (replicate (length intents) DConfirm)
   | (Inl e, _, _) \<Rightarrow> \<exists>st' d'. fst (save_state env path st' d') = Some e"
proof -
  let ?s = "\<lparr>tt_in = [], tt_flush = [], tt_all_yes = False\<rparr>"
  let ?st = "(confirm_state_new run_id intents t0)\<lparr>cf_status := CsInProgress\<rparr>"
  have "decide_tty stdin_prompt tt_all_yes i ?s = (Inr DConfirm, ?s)" for i
    by (simp add: decide_tty_def)
  note L = confirm_loop_const[where decide = "decide_tty stdin_prompt tt_all_yes", OF this]
  have c: "cf_decisions ?st @ xs = xs" for xs by simp
  have L0: "case confirm_loop env (decide_tty stdin_prompt tt_all_yes) path now intents ?st ?s d1 of
      (Inr st', _, _) \<Rightarrow> cf_decisions st' = answers now intents (replicate (length intents) DConfirm)
    | (Inl e, _, _) \<Rightarrow> \<exists>st' d'. fst (save_state env path st' d') = Some e" for d1
    using L[where env = env and path = path and now = now and xs = intents and st = ?st and d = d1] unfolding c .
  have sv: "\<exists>st' d'. fst (save_state env path st' d') = Some e" if "save_state env path st1 d1 = (Some e, d2)" for st1 d1 d2 e
    using that by (metis fst_conv)
  show ?thesis
  proof (cases "intents = []")
    case True
    then show ?thesis
      by (auto simp: run_gate_def Let_def split: option.split prod.split intro: sv)
  next
    case False
    have L1: "cf_decisions st' = answers now intents (replicate (length intents) DConfirm)"
      if "confirm_loop env (decide_tty stdin_prompt tt_all_yes) path now intents ?st ?s d1 = (Inr st', a, b)" for st' a b d1
      using L0[of d1] that by simp
    have L2: "\<exists>st' d'. fst (save_state env path st' d') = Some e"
      if "confirm_loop env (decide_tty stdin_prompt tt_all_yes) path now intents ?st ?s d1 = (Inl e, a, b)" for e a b d1
      using L0[of d1] that by simp
    show ?thesis
      using False by (auto simp: run_gate_def Let_def split: option.split prod.split sum.split intro: sv L2 dest: L1)
  qed
qed

text \<open>C26: On a terminal that can be read and written the gate stops with an error only when the disk fails:
  whatever lines the user types, each prompt ends with a decision, so the error is one of saving the
  state; with \<open>--yes\<close> the same holds of every input.\<close>

theorem gate_fails_only_on_disk:
  assumes "tty_works s"
  shows "(case run_gate env (decide_tty stdin_prompt tt_all_yes) path now st s d of
       (Inl e, _, _) \<Rightarrow> \<exists>st1 d1. fst (save_state env path st1 d1) = Some e | _ \<Rightarrow> True)
    \<and> (case run_gate env decide_auto path now st io d of
       (Inl e, _, _) \<Rightarrow> \<exists>st1 d1. fst (save_state env path st1 d1) = Some e | _ \<Rightarrow> True)"
  using td.gate_fails_on_disk[OF assms] ad.gate_fails_on_disk
  by (auto split: prod.split sum.split)

section \<open>Examples\<close>

definition demo_intent :: "string \<Rightarrow> proposed_intent" where
  "demo_intent n = \<lparr>pi_id = n, pi_source = Tests, pi_intent_text = n, pi_rationale = [], pi_confidence = Fin 1,
     pi_template_ref = None\<rparr>"

text \<open>A printer for two states, which writes how many decisions a state has, and its parser.\<close>

definition demo_state :: "nat \<Rightarrow> confirm_state" where
  "demo_state n = (let st = (confirm_state_new ''r'' [demo_intent ''a'', demo_intent ''b''] ''t'')\<lparr>cf_status := CsInProgress\<rparr> in
     if n = 0 then st else record_decision ''t'' (demo_intent ''a'') DConfirm st)"

definition demo_confirm_env :: confirm_env where
  "demo_confirm_env =
     \<lparr>ce_ser = (\<lambda>st. if st = demo_state 0 then Inr ''0'' else if st = demo_state 1 then Inr ''1'' else Inl ''full''),
      ce_de = (\<lambda>b. if b = ''0'' then Inr (demo_state 0) else if b = ''1'' then Inr (demo_state 1) else Inl ''bad''),
      ce_mkdir = (\<lambda>_. None), ce_write = (\<lambda>_. None), ce_rename = (\<lambda>_. None)\<rparr>"

definition answer_lines :: "string list \<Rightarrow> tty_io" where
  "answer_lines ls = \<lparr>tt_in = map Inr ls, tt_flush = [], tt_all_yes = False\<rparr>"

lemma prompt_tests:
  "fst (stdin_prompt (demo_intent ''a'') (answer_lines [''x'', '' s'' @ [NL]])) = Inr DSkip"
  "fst (stdin_prompt (demo_intent ''a'') (answer_lines [''e'', ''  new text '' @ [NL]])) = Inr (DEdit ''new text'')"
  "tt_all_yes (snd (stdin_prompt (demo_intent ''a'') (answer_lines [''a'']))) = True"
  "fst (stdin_prompt (demo_intent ''a'') (answer_lines [''x''])) = Inr DConfirm"
  by code_simp+

section \<open>Witnesses\<close>

definition demo_answers_env :: confirm_env where
  "demo_answers_env = demo_confirm_env\<lparr>ce_ser := (\<lambda>st. Inr ''x'')\<rparr>"

definition empty_disk :: disk where
  "empty_disk = \<lparr>dk_files = (\<lambda>_. None), dk_writes = 0\<rparr>"

definition demo_gate :: "(confirm_error + confirm_state) \<times> tty_io \<times> disk" where
  "demo_gate = run_gate demo_answers_env (decide_tty stdin_prompt tt_all_yes) (confirm_state_path ''p'') ''t''
     (confirm_state_new ''r'' [demo_intent ''a'', demo_intent ''b''] ''t'') (answer_lines [''s'', ''c'']) empty_disk"

definition demo_stop :: "(confirm_error + confirm_state) \<times> unit \<times> disk" where
  "demo_stop = run_gate demo_confirm_env decide_auto (confirm_state_path ''p'') ''t''
     (confirm_state_new ''r'' [demo_intent ''a'', demo_intent ''b''] ''t'') () empty_disk"

lemma demo_gate_Inr: "demo_gate = (Inr (projr (fst demo_gate)), fst (snd demo_gate), snd (snd demo_gate))"
proof -
  have "isl (fst demo_gate) = False" by code_simp
  then show ?thesis by (simp add: prod_eq_iff)
qed

lemma demo_stop_Inl: "demo_stop = (Inl (projl (fst demo_stop)), fst (snd demo_stop), snd (snd demo_stop))"
proof -
  have "isl (fst demo_stop) = True" by code_simp
  then show ?thesis by (simp add: prod_eq_iff)
qed

lemma demo_gate_ok:
  "run_gate demo_answers_env (decide_tty stdin_prompt tt_all_yes) (confirm_state_path ''p'') ''t''
     (confirm_state_new ''r'' [demo_intent ''a'', demo_intent ''b''] ''t'') (answer_lines [''s'', ''c'']) empty_disk
   = (Inr (projr (fst demo_gate)), fst (snd demo_gate), snd (snd demo_gate))"
  using demo_gate_Inr unfolding demo_gate_def .

theorem confirmed_is_answered_witness:
  "\<exists>ds. length ds = length [demo_intent ''a'', demo_intent ''b'']
    \<and> confirmed_intents (projr (fst demo_gate))
      = filter (\<lambda>(i, x). x \<noteq> DSkip) (zip [demo_intent ''a'', demo_intent ''b''] ds)"
  by (rule confirmed_is_answered[OF _ demo_gate_ok]) (simp add: demo_intent_def)


theorem gate_fails_only_on_disk_witness:
  "(case run_gate demo_confirm_env (decide_tty stdin_prompt tt_all_yes) ''f'' ''t'' (demo_state 0) (answer_lines [''c'']) empty_disk of
       (Inl e, _, _) \<Rightarrow> \<exists>st1 d1. fst (save_state demo_confirm_env ''f'' st1 d1) = Some e | _ \<Rightarrow> True)
    \<and> (case run_gate demo_confirm_env decide_auto ''f'' ''t'' (demo_state 0) () empty_disk of
       (Inl e, _, _) \<Rightarrow> \<exists>st1 d1. fst (save_state demo_confirm_env ''f'' st1 d1) = Some e | _ \<Rightarrow> True)"
  by (rule gate_fails_only_on_disk) (simp add: tty_works_def answer_lines_def)

end
