(* ===== verification/Critique.thy ===== *)
theory Critique
  imports Synthesis "HOL-Library.Multiset"
begin

text \<open>
  The critique pass (\<open>crates/vergil-core/src/critique.rs\<close>): a second model scores each candidate,
  and only an explicit acceptance with every axis at the threshold keeps it. The model is an
  arbitrary function of the candidate's position and the request, serde's decoder a parameter.
\<close>

datatype critique_verdict = Accept | Reject

record critique_scores =
  cs_vacuity :: float
  cs_body_independence :: float
  cs_testability :: float
  cs_restate_the_source :: float

record critique_result =
  ct_verdict :: critique_verdict
  ct_scores :: critique_scores
  ct_rationale :: string

record critique_config =
  cc_model :: string
  cc_max_tokens :: u32
  cc_temperature :: float
  cc_min_axis :: float

record critic =
  ck_provider :: provider_id
  ck_synth_provider :: provider_id
  ck_cfg :: critique_config

record filter_outcome =
  fo_kept :: "(spec_candidate \<times> critique_result) list"
  fo_dropped :: "(spec_candidate \<times> critique_result) list"

record critique_outcome_counts =
  oc_accepted :: nat
  oc_rejected :: nat
  oc_error :: nat

definition one_f32 :: float where "one_f32 = Fin 1"

definition critique_default_for_openai :: critique_config where
  "critique_default_for_openai =
     \<lparr>cc_model = ''gpt-5.5'', cc_max_tokens = 1024, cc_temperature = to_f32 (2 / 10), cc_min_axis = to_f32 (1 / 2)\<rparr>"

definition critique_anthropic_fallback :: critique_config where
  "critique_anthropic_fallback =
     \<lparr>cc_model = ''claude-sonnet-4-6'', cc_max_tokens = 1024, cc_temperature = to_f32 (4 / 10),
      cc_min_axis = to_f32 (1 / 2)\<rparr>"

definition critique_for_tests :: critique_config where
  "critique_for_tests =
     \<lparr>cc_model = ''mock'', cc_max_tokens = 512, cc_temperature = to_f32 0, cc_min_axis = to_f32 (1 / 2)\<rparr>"

definition is_cross_provider :: "critic \<Rightarrow> bool" where
  "is_cross_provider k \<longleftrightarrow> ck_provider k \<noteq> ck_synth_provider k"

section \<open>The request\<close>

fun source_label :: "source \<Rightarrow> string" where
  "source_label UserIntent = ''user_intent''"
| "source_label AttackCatalog = ''attack_catalog''"
| "source_label Conformance = ''conformance''"
| "source_label Tests = ''tests''"
| "source_label NatSpec = ''natspec''"
| "source_label Structural = ''structural''"

definition source_guidance :: "source \<Rightarrow> string" where
  "source_guidance src =
     (case src of
        Tests \<Rightarrow> (''The candidate was derived from a Foundry / Halmos test function (Phase 4 ''
     @ [CHR 0xC2, CHR 0xA7] @ ''3.4a). Score restate_the_source LOW when the derived intent ''
     @ em_dash @ '' or the spec_source itself '' @ em_dash
     @ '' is just a literal paraphrase of the test'' @ [SQ] @ ''s '' @ [CHR 0x60] @ ''assertEq''
     @ [CHR 0x60] @ '' / '' @ [CHR 0x60] @ ''assertTrue'' @ [CHR 0x60] @ '' / bare '' @ [CHR 0x60]
     @ ''assert(...)'' @ [CHR 0x60]
     @ '' calls without generalizing across symbolic inputs. A candidate that asserts the SAME ''
     @ ''concrete check the test does (hardcoded amounts / addresses / single equality, no ''
     @ ''quantifier) belongs below the threshold. A candidate that generalizes the test (e.g. ''
     @ [DQ] @ ''for any amount, transfer preserves totalSupply'' @ [DQ]
     @ '' from a single-amount test) belongs at or above the threshold.'')
      | NatSpec \<Rightarrow> (''The candidate was derived from a NatSpec doc comment (Phase 4 '' @ [CHR 0xC2, CHR 0xA7]
     @ ''3.4b). Score restate_the_source LOW when the derived intent '' @ em_dash
     @ '' or the spec_source '' @ em_dash @ '' is just a paraphrase of the doc comment'' @ [SQ]
     @ ''s English without adding verifiable contract-state structure. A candidate that turns ''
     @ [CHR 0x60] @ ''@notice transfers tokens'' @ [CHR 0x60] @ '' into '' @ [CHR 0x60]
     @ ''assert(transferHappened)'' @ [CHR 0x60]
     @ '' belongs below the threshold (the spec adds no real state-level check). A candidate that ''
     @ ''turns the doc comment into a state-level invariant (e.g. '' @ [DQ] @ ''transfer'' @ [SQ]
     @ ''s accounting preserves totalSupply'' @ [DQ] @ '') belongs at or above the threshold. ''
     @ [CHR 0x60] @ ''@invariant'' @ [CHR 0x60] @ '' and '' @ [CHR 0x60] @ ''@custom:security''
     @ [CHR 0x60]
     @ '' tags are by-design verbatim invariants; for those, the restate_the_source axis is ''
     @ ''satisfied as long as the spec_source actually exercises the named state.'')
      | _ \<Rightarrow> (''The candidate is not Phase-4-extracted; the restate-the-source axis does not apply. Score ''
     @ ''restate_the_source = 1.0 unconditionally.''))"

definition critique_spec_source :: "spec_candidate \<Rightarrow> string" where
  "critique_spec_source c =
     ''// Halmos check_ function'' @ [NL] @ sp_halmos c
     @ (if sp_smtchecker c = [] then []
        else [NL, NL] @ ''// SMTChecker fragment'' @ [NL] @ sp_smtchecker c)"

definition critique_vars :: "string \<Rightarrow> spec_candidate \<Rightarrow> string option \<Rightarrow> float \<Rightarrow> string \<rightharpoonup> string" where
  "critique_vars intent c description min_axis =
     (let desc = (case map_option trim description of
                    Some d \<Rightarrow> (if d = [] then (''(none '' @ em_dash @ '' score against the broader intent)'') else d)
                  | None \<Rightarrow> (''(none '' @ em_dash @ '' score against the broader intent)''))
      in [''intent'' \<mapsto> intent,
          ''description'' \<mapsto> desc,
          ''spec_source'' \<mapsto> critique_spec_source c,
          ''min_axis'' \<mapsto> fmt2 min_axis,
          ''source_kind'' \<mapsto> source_label (sp_source c),
          ''source_guidance'' \<mapsto> source_guidance (sp_source c),
          ''derived_intent'' \<mapsto> (case sp_intent_text c of Some t \<Rightarrow> t | None \<Rightarrow> ''(none)'')])"

definition critique_render ::
    "prompt \<Rightarrow> string \<Rightarrow> spec_candidate \<Rightarrow> string option \<Rightarrow> float \<Rightarrow> prompt_error + string" where
  "critique_render tpl intent c description min_axis =
     prompt_render tpl (critique_vars intent c description min_axis)"

definition critique_schema :: json where
  "critique_schema =
     js_object [''verdict'', ''scores'', ''rationale'']
       [(''verdict'', js_enum [''accept'', ''reject'']),
        (''scores'', js_object [''vacuity'', ''body_independence'', ''testability'', ''restate_the_source'']
           [(''vacuity'', js_unit_number), (''body_independence'', js_unit_number),
            (''testability'', js_unit_number), (''restate_the_source'', js_unit_number)]),
        (''rationale'', js_string)]"

definition reject_with :: "string \<Rightarrow> spec_candidate \<Rightarrow> critique_result" where
  "reject_with reason c =
     \<lparr>ct_verdict = Reject,
      ct_scores = \<lparr>cs_vacuity = Fin 0, cs_body_independence = Fin 0, cs_testability = Fin 0,
                   cs_restate_the_source =
                     (if sp_source c = Tests \<or> sp_source c = NatSpec then Fin 0 else Fin 1)\<rparr>,
      ct_rationale = ''critique-pass error: '' @ reason\<rparr>"

definition critique_request :: "critique_config \<Rightarrow> string \<Rightarrow> structured_request" where
  "critique_request cfg prompt_text =
     \<lparr>st_model = cc_model cfg,
      st_messages = [\<lparr>ms_role = User, ms_content = prompt_text\<rparr>],
      st_system = Some (''You are an adversarial reviewer of formal specifications. Return ONLY the JSON object the ''
     @ ''user prompt'' @ [SQ] @ ''s schema describes.''),
      st_temperature = cc_temperature cfg,
      st_max_tokens = cc_max_tokens cfg,
      st_schema_name = ''Critique'',
      st_schema = critique_schema\<rparr>"

definition critique_one ::
    "(json \<Rightarrow> string + critique_result) \<Rightarrow> prompt \<Rightarrow> critic
     \<Rightarrow> (structured_request \<Rightarrow> llm_error + structured_response)
     \<Rightarrow> spec_candidate \<Rightarrow> string \<Rightarrow> string option \<Rightarrow> critique_result" where
  "critique_one dec tpl k answer c intent description =
     (case critique_render tpl intent c description (cc_min_axis (ck_cfg k)) of
        Inl e \<Rightarrow> reject_with (''prompt render failed: '' @ prompt_error_str e) c
      | Inr prompt_text \<Rightarrow>
          (case answer (critique_request (ck_cfg k) prompt_text) of
             Inl e \<Rightarrow> reject_with (llm_error_str e) c
           | Inr resp \<Rightarrow>
               (case dec (rs_value resp) of
                  Inl e \<Rightarrow> reject_with (''critique JSON shape: '' @ e) c
                | Inr parsed \<Rightarrow> parsed)))"

definition critique_all ::
    "(json \<Rightarrow> string + critique_result) \<Rightarrow> prompt \<Rightarrow> critic
     \<Rightarrow> (nat \<Rightarrow> structured_request \<Rightarrow> llm_error + structured_response)
     \<Rightarrow> spec_candidate list \<Rightarrow> string \<Rightarrow> string option \<Rightarrow> critique_result list" where
  "critique_all dec tpl k answer cs intent description =
     map (\<lambda>(i, c). critique_one dec tpl k (answer i) c intent description) (enumerate 0 cs)"

section \<open>The filter\<close>

definition passes_axes :: "critique_config \<Rightarrow> critique_scores \<Rightarrow> bool" where
  "passes_axes cfg s \<longleftrightarrow>
     fle (cc_min_axis cfg) (cs_vacuity s)
     \<and> fle (cc_min_axis cfg) (cs_body_independence s)
     \<and> fle (cc_min_axis cfg) (cs_testability s)
     \<and> fle (cc_min_axis cfg) (cs_restate_the_source s)"

fun filter_loop ::
    "critique_config \<Rightarrow> (spec_candidate \<times> critique_result) list \<Rightarrow> filter_outcome \<Rightarrow> filter_outcome" where
  "filter_loop cfg [] out = out"
| "filter_loop cfg ((c, r) # rest) out =
     (if ct_verdict r = Accept \<and> passes_axes cfg (ct_scores r)
      then filter_loop cfg rest (out\<lparr>fo_kept := fo_kept out @ [(c, r)]\<rparr>)
      else filter_loop cfg rest (out\<lparr>fo_dropped := fo_dropped out @ [(c, r)]\<rparr>))"

text \<open>\<open>None\<close> is the panic of the length assertion.\<close>

definition filter_accepted ::
    "critique_config \<Rightarrow> spec_candidate list \<Rightarrow> critique_result list \<Rightarrow> filter_outcome option" where
  "filter_accepted cfg cs rs =
     (if length cs \<noteq> length rs then None
      else Some (filter_loop cfg (zip cs rs) \<lparr>fo_kept = [], fo_dropped = []\<rparr>))"

definition count_outcome :: "critique_result \<Rightarrow> critique_outcome_counts \<Rightarrow> critique_outcome_counts" where
  "count_outcome r out =
     (case ct_verdict r of
        Accept \<Rightarrow> out\<lparr>oc_accepted := oc_accepted out + 1\<rparr>
      | Reject \<Rightarrow>
          (if starts_with (ct_rationale r) ''critique-pass error''
           then out\<lparr>oc_error := oc_error out + 1\<rparr>
           else out\<lparr>oc_rejected := oc_rejected out + 1\<rparr>))"

definition classify_critique_outcomes :: "critique_result list \<Rightarrow> critique_outcome_counts" where
  "classify_critique_outcomes rs =
     fold count_outcome rs \<lparr>oc_accepted = 0, oc_rejected = 0, oc_error = 0\<rparr>"

section \<open>Lemmas\<close>

definition accepted :: "critique_config \<Rightarrow> spec_candidate \<times> critique_result \<Rightarrow> bool" where
  "accepted cfg cr \<longleftrightarrow> ct_verdict (snd cr) = Accept \<and> passes_axes cfg (ct_scores (snd cr))"

lemma filter_loop_filter:
  "filter_loop cfg crs out =
     out\<lparr>fo_kept := fo_kept out @ filter (accepted cfg) crs,
         fo_dropped := fo_dropped out @ filter (\<lambda>cr. \<not> accepted cfg cr) crs\<rparr>"
  by (induction cfg crs out rule: filter_loop.induct) (auto simp: accepted_def)

lemma filter_accepted_eq:
  "length cs = length rs \<Longrightarrow>
     filter_accepted cfg cs rs = Some \<lparr>fo_kept = filter (accepted cfg) (zip cs rs),
       fo_dropped = filter (\<lambda>cr. \<not> accepted cfg cr) (zip cs rs)\<rparr>"
  by (simp add: filter_accepted_def filter_loop_filter)

lemma length_critique_all [simp]:
  "length (critique_all dec tpl k answer cs intent d) = length cs"
  by (simp add: critique_all_def)

lemma nth_critique_all:
  "i < length cs \<Longrightarrow>
     critique_all dec tpl k answer cs intent d ! i = critique_one dec tpl k (answer i) (cs ! i) intent d"
  by (simp add: critique_all_def nth_enumerate_eq)

lemma reject_with_not_accepted [simp]: "\<not> accepted cfg (c, reject_with reason c')"
  by (simp add: accepted_def reject_with_def)

lemma accepted_critique_one:
  "accepted cfg (c, critique_one dec tpl k answer c intent d) \<Longrightarrow>
     \<exists>t resp r. critique_render tpl intent c d (cc_min_axis (ck_cfg k)) = Inr t
       \<and> answer (critique_request (ck_cfg k) t) = Inr resp
       \<and> dec (rs_value resp) = Inr r \<and> accepted cfg (c, r)"
  by (auto simp: critique_one_def split: sum.splits)

lemma count_outcome_total:
  "oc_accepted (fold count_outcome rs o1) + oc_rejected (fold count_outcome rs o1) + oc_error (fold count_outcome rs o1)
     = oc_accepted o1 + oc_rejected o1 + oc_error o1 + length rs"
  by (induction rs arbitrary: o1) (auto simp: count_outcome_def split: critique_verdict.split)

section \<open>Properties\<close>

text \<open>C10: The critique pass fails closed: filtering the results of \<open>critique_all\<close> never panics, keeps
  and drops every candidate exactly once and in order, and a candidate is kept only if the prompt
  rendered, the model answered, its answer decoded to an acceptance and all four axes reach the
  threshold.\<close>

theorem critique_fails_closed:
  "\<exists>out. filter_accepted cfg cs (critique_all dec tpl k answer cs intent d) = Some out
     \<and> mset (map fst (fo_kept out)) + mset (map fst (fo_dropped out)) = mset cs
     \<and> fo_kept out = filter (accepted cfg) (zip cs (critique_all dec tpl k answer cs intent d))
     \<and> list_all (\<lambda>(c, r). \<exists>i t resp. critique_render tpl intent c d (cc_min_axis (ck_cfg k)) = Inr t
          \<and> answer i (critique_request (ck_cfg k) t) = Inr resp \<and> dec (rs_value resp) = Inr r
          \<and> ct_verdict r = Accept \<and> passes_axes cfg (ct_scores r)) (fo_kept out)"
proof -
  let ?rs = "critique_all dec tpl k answer cs intent d"
  let ?out = "\<lparr>fo_kept = filter (accepted cfg) (zip cs ?rs),
       fo_dropped = filter (\<lambda>cr. \<not> accepted cfg cr) (zip cs ?rs)\<rparr>"
  have "mset (map fst (filter P xs)) + mset (map fst (filter (\<lambda>x. \<not> P x) xs)) = mset (map fst xs)"
    for P and xs :: "(spec_candidate \<times> critique_result) list"
    by (induction xs) auto
  from this[of "accepted cfg" "zip cs ?rs"]
  have "mset (map fst (fo_kept ?out)) + mset (map fst (fo_dropped ?out)) = mset cs"
    by simp
  moreover have "\<exists>i t resp. critique_render tpl intent c d (cc_min_axis (ck_cfg k)) = Inr t
      \<and> answer i (critique_request (ck_cfg k) t) = Inr resp \<and> dec (rs_value resp) = Inr r
      \<and> ct_verdict r = Accept \<and> passes_axes cfg (ct_scores r)"
    if cr: "(c, r) \<in> set (fo_kept ?out)" for c r
  proof -
    from cr have a: "accepted cfg (c, r)" and z: "(c, r) \<in> set (zip cs ?rs)" by simp_all
    from z obtain i where i: "i < length cs" "c = cs ! i" "r = ?rs ! i"
      by (auto simp: in_set_zip)
    with a have "accepted cfg (c, critique_one dec tpl k (answer i) c intent d)"
      by (simp add: nth_critique_all)
    from accepted_critique_one[OF this] obtain t resp r' where
      "critique_render tpl intent c d (cc_min_axis (ck_cfg k)) = Inr t"
      "answer i (critique_request (ck_cfg k) t) = Inr resp" "dec (rs_value resp) = Inr r'" by blast
    moreover from this i have "r = r'" by (simp add: nth_critique_all critique_one_def)
    ultimately show ?thesis using a by (auto simp: accepted_def)
  qed
  moreover have "filter_accepted cfg cs ?rs = Some ?out"
    by (rule filter_accepted_eq) simp
  ultimately show ?thesis
    by (intro exI[of _ ?out]) (auto simp: list_all_iff)
qed

end
