(* ===== verification/Refinement.thy ===== *)
theory Refinement
  imports Critique
begin

text \<open>
  Failure triage (\<open>crates/vergil-core/src/diagnosis.rs\<close>) and the refinement drivers
  (\<open>refinement.rs\<close>). The model is an arbitrary function of the request, the serde decoders
  are parameters.
\<close>

section \<open>Diagnosis\<close>

datatype diagnosis_class = CodeBug | SpecBug | Ambiguous

record diagnosis =
  dg_class :: diagnosis_class
  dg_rationale :: string
  dg_fix_hint :: "string option"

text \<open>\<open>DiagnosisConfig\<close> and \<open>RefinementConfig\<close> have the same three fields.\<close>

record agent_config =
  ac_model :: string
  ac_max_tokens :: u32
  ac_temperature :: float

definition diagnosis_default :: agent_config where
  "diagnosis_default = \<lparr>ac_model = ''claude-sonnet-4-6'', ac_max_tokens = 1024, ac_temperature = to_f32 0\<rparr>"

definition diagnosis_for_tests :: agent_config where
  "diagnosis_for_tests = \<lparr>ac_model = ''mock'', ac_max_tokens = 512, ac_temperature = to_f32 0\<rparr>"

definition diagnosis_render :: "prompt \<Rightarrow> string \<Rightarrow> string \<Rightarrow> string \<Rightarrow> prompt_error + string" where
  "diagnosis_render tpl intent spec_source trace =
     prompt_render tpl
       [''intent'' \<mapsto> intent, ''spec_source'' \<mapsto> spec_source, ''counterexample_trace'' \<mapsto> trace]"

definition diagnosis_schema :: json where
  "diagnosis_schema =
     js_object [''class'', ''rationale'']
       [(''class'', js_enum [''CodeBug'', ''SpecBug'', ''Ambiguous'']),
        (''rationale'', js_string),
        (''fix_hint'', js_string)]"

definition ambiguous_with :: "string \<Rightarrow> diagnosis" where
  "ambiguous_with reason =
     \<lparr>dg_class = Ambiguous, dg_rationale = ''diagnose failed, defaulting Ambiguous: '' @ reason,
      dg_fix_hint = None\<rparr>"

definition agent_request ::
    "agent_config \<Rightarrow> string \<Rightarrow> string \<Rightarrow> string \<Rightarrow> json \<Rightarrow> structured_request" where
  "agent_request cfg sys prompt_text name schema =
     \<lparr>st_model = ac_model cfg,
      st_messages = [\<lparr>ms_role = User, ms_content = prompt_text\<rparr>],
      st_system = Some sys,
      st_temperature = ac_temperature cfg,
      st_max_tokens = ac_max_tokens cfg,
      st_schema_name = name,
      st_schema = schema\<rparr>"

definition diagnosis_system :: string where
  "diagnosis_system = (''You are a triage engineer for verification failures. Return ONLY the JSON object the user ''
     @ ''prompt'' @ [SQ] @ ''s schema describes.'')"

definition diagnose ::
    "(json \<Rightarrow> string + diagnosis) \<Rightarrow> prompt \<Rightarrow> agent_config
     \<Rightarrow> (structured_request \<Rightarrow> llm_error + structured_response)
     \<Rightarrow> string \<Rightarrow> string \<Rightarrow> string \<Rightarrow> diagnosis" where
  "diagnose dec tpl cfg answer intent spec_source trace =
     (case diagnosis_render tpl intent spec_source trace of
        Inl e \<Rightarrow> ambiguous_with (''prompt render failed: '' @ prompt_error_str e)
      | Inr t \<Rightarrow>
          (case answer (agent_request cfg diagnosis_system t ''Diagnosis'' diagnosis_schema) of
             Inl e \<Rightarrow> ambiguous_with (''llm: '' @ llm_error_str e)
           | Inr resp \<Rightarrow>
               (case dec (rs_value resp) of
                  Inl e \<Rightarrow> ambiguous_with (''diagnosis JSON shape: '' @ e)
                | Inr d \<Rightarrow> d)))"

section \<open>Refinement\<close>

record code_patch =
  cp_file :: string
  cp_before :: string
  cp_after :: string
  cp_rationale :: string

record code_repair_plan =
  rp_patches :: "code_patch list"
  rp_summary :: string

record refined_spec =
  rf_name :: string
  rf_halmos :: string
  rf_smtchecker :: string
  rf_delta :: string

record decompose_sub_property =
  dp_name :: string
  dp_halmos :: string
  dp_smtchecker :: string
  dp_implies :: string
  dp_cost_class :: string

record decompose_result =
  dr_sub_properties :: "decompose_sub_property list"
  dr_composition_argument :: string

datatype refine_error = RfPrompt prompt_error | RfLlm llm_error | RfSchema string

definition refinement_default :: agent_config where
  "refinement_default = \<lparr>ac_model = ''claude-sonnet-4-6'', ac_max_tokens = 4096, ac_temperature = to_f32 0\<rparr>"

definition refinement_for_tests :: agent_config where
  "refinement_for_tests = \<lparr>ac_model = ''mock'', ac_max_tokens = 1024, ac_temperature = to_f32 0\<rparr>"

definition spec_source_blob :: "spec_candidate \<Rightarrow> string" where
  "spec_source_blob c =
     ''// Halmos check_ function'' @ [NL] @ sp_halmos c
     @ (if sp_smtchecker c = [] then []
        else [NL, NL] @ ''// SMTChecker fragment'' @ [NL] @ sp_smtchecker c)"

definition refine_vars :: "string \<Rightarrow> spec_candidate \<Rightarrow> string \<Rightarrow> string \<Rightarrow> string \<rightharpoonup> string" where
  "refine_vars intent c contract_source trace =
     [''intent'' \<mapsto> intent, ''spec_source'' \<mapsto> spec_source_blob c,
      ''contract_source'' \<mapsto> contract_source, ''counterexample_trace'' \<mapsto> trace]"

definition render_repair_code ::
    "prompt \<Rightarrow> string \<Rightarrow> spec_candidate \<Rightarrow> string \<Rightarrow> string \<Rightarrow> prompt_error + string" where
  "render_repair_code tpl intent c contract_source trace =
     prompt_render tpl (refine_vars intent c contract_source trace)"

definition render_refine_spec ::
    "prompt \<Rightarrow> string \<Rightarrow> spec_candidate \<Rightarrow> string \<Rightarrow> string \<Rightarrow> prompt_error + string" where
  "render_refine_spec tpl intent c contract_source trace =
     prompt_render tpl (refine_vars intent c contract_source trace)"

definition render_decompose :: "prompt \<Rightarrow> string \<Rightarrow> spec_candidate \<Rightarrow> string \<Rightarrow> prompt_error + string" where
  "render_decompose tpl intent c timeout_context =
     prompt_render tpl
       [''intent'' \<mapsto> intent, ''spec_source'' \<mapsto> spec_source_blob c, ''timeout_context'' \<mapsto> timeout_context]"

definition repair_schema :: json where
  "repair_schema =
     js_object [''patches'', ''summary'']
       [(''patches'', js_array (js_object [''file'', ''before'', ''after'', ''rationale'']
           [(''file'', js_string), (''before'', js_string), (''after'', js_string), (''rationale'', js_string)])),
        (''summary'', js_string)]"

definition refine_schema :: json where
  "refine_schema =
     js_object [''refined'']
       [(''refined'', js_object [''name'', ''halmos'', ''delta'']
           [(''name'', js_string), (''halmos'', js_string), (''smtchecker'', js_string), (''delta'', js_string)])]"

definition decompose_schema :: json where
  "decompose_schema =
     js_object [''sub_properties'', ''composition_argument'']
       [(''sub_properties'', js_array (js_object [''name'', ''halmos'', ''implies'', ''cost_class'']
           [(''name'', js_string), (''halmos'', js_string), (''smtchecker'', js_string), (''implies'', js_string),
            (''cost_class'', js_enum [''trivial'', ''cheap'', ''medium''])])),
        (''composition_argument'', js_string)]"

definition refiner_system :: string where
  "refiner_system = (''You refine a Vergil verification artifact. Return ONLY the JSON object the user prompt''
     @ [SQ] @ ''s schema describes.'')"

definition call_structured ::
    "agent_config \<Rightarrow> (structured_request \<Rightarrow> llm_error + structured_response)
     \<Rightarrow> string \<Rightarrow> string \<Rightarrow> json \<Rightarrow> refine_error + json" where
  "call_structured cfg answer prompt_text name schema =
     (case answer (agent_request cfg refiner_system prompt_text name schema) of
        Inl e \<Rightarrow> Inl (RfLlm e)
      | Inr resp \<Rightarrow> Inr (rs_value resp))"

definition repair_code ::
    "(json \<Rightarrow> string + code_repair_plan) \<Rightarrow> prompt \<Rightarrow> agent_config
     \<Rightarrow> (structured_request \<Rightarrow> llm_error + structured_response)
     \<Rightarrow> string \<Rightarrow> spec_candidate \<Rightarrow> string \<Rightarrow> string \<Rightarrow> refine_error + code_repair_plan" where
  "repair_code dec tpl cfg answer intent c contract_source trace =
     (case render_repair_code tpl intent c contract_source trace of
        Inl e \<Rightarrow> Inl (RfPrompt e)
      | Inr t \<Rightarrow>
          (case call_structured cfg answer t ''CodeRepairPlan'' repair_schema of
             Inl e \<Rightarrow> Inl e
           | Inr v \<Rightarrow> (case dec v of Inl e \<Rightarrow> Inl (RfSchema e) | Inr p \<Rightarrow> Inr p)))"

definition refine_spec ::
    "(json \<Rightarrow> string + refined_spec) \<Rightarrow> prompt \<Rightarrow> agent_config
     \<Rightarrow> (structured_request \<Rightarrow> llm_error + structured_response)
     \<Rightarrow> string \<Rightarrow> spec_candidate \<Rightarrow> string \<Rightarrow> string \<Rightarrow> refine_error + refined_spec" where
  "refine_spec dec tpl cfg answer intent c contract_source trace =
     (case render_refine_spec tpl intent c contract_source trace of
        Inl e \<Rightarrow> Inl (RfPrompt e)
      | Inr t \<Rightarrow>
          (case call_structured cfg answer t ''RefinedSpec'' refine_schema of
             Inl e \<Rightarrow> Inl e
           | Inr v \<Rightarrow>
               (case dec (case json_get ''refined'' v of Some r \<Rightarrow> r | None \<Rightarrow> v) of
                  Inl e \<Rightarrow> Inl (RfSchema e) | Inr p \<Rightarrow> Inr p)))"

definition decompose ::
    "(json \<Rightarrow> string + decompose_result) \<Rightarrow> prompt \<Rightarrow> agent_config
     \<Rightarrow> (structured_request \<Rightarrow> llm_error + structured_response)
     \<Rightarrow> string \<Rightarrow> spec_candidate \<Rightarrow> string \<Rightarrow> refine_error + decompose_result" where
  "decompose dec tpl cfg answer intent c timeout_context =
     (case render_decompose tpl intent c timeout_context of
        Inl e \<Rightarrow> Inl (RfPrompt e)
      | Inr t \<Rightarrow>
          (case call_structured cfg answer t ''Decompose'' decompose_schema of
             Inl e \<Rightarrow> Inl e
           | Inr v \<Rightarrow> (case dec v of Inl e \<Rightarrow> Inl (RfSchema e) | Inr p \<Rightarrow> Inr p)))"

section \<open>Lemmas\<close>

lemma diagnose_not_Ambiguous:
  "dg_class (diagnose dec tpl cfg answer intent s t) \<noteq> Ambiguous \<Longrightarrow>
     \<exists>p resp d. diagnosis_render tpl intent s t = Inr p
       \<and> answer (agent_request cfg diagnosis_system p ''Diagnosis'' diagnosis_schema) = Inr resp
       \<and> dec (rs_value resp) = Inr d \<and> diagnose dec tpl cfg answer intent s t = d"
  by (auto simp: diagnose_def ambiguous_with_def split: sum.splits)

text \<open>The critic and the refiner show the model the same text for the same candidate.\<close>

lemma critique_spec_source_blob: "critique_spec_source = spec_source_blob"
  by (rule ext) (simp add: critique_spec_source_def spec_source_blob_def)

section \<open>Properties\<close>

text \<open>Every JSON schema the agents send to the model is coherent, on every level: each key it
  requires is among the properties it declares.\<close>

theorem agent_schemas_coherent:
  "list_all schema_coherent
     [critique_schema, diagnosis_schema, repair_schema, refine_schema, decompose_schema]
   \<and> list_all (\<lambda>(k, s). Option.is_none (Option.bind (Option.bind (json_get ''properties'' s) (json_get k))
                          (Some \<circ> schema_coherent)) = False
                  \<and> Option.bind (Option.bind (json_get ''properties'' s) (json_get k)) (Some \<circ> schema_coherent) = Some True)
       [(''scores'', critique_schema), (''refined'', refine_schema)]
   \<and> list_all (\<lambda>(k, s). Option.bind (Option.bind (Option.bind (json_get ''properties'' s) (json_get k))
                            (json_get ''items'')) (Some \<circ> schema_coherent) = Some True)
       [(''patches'', repair_schema), (''sub_properties'', decompose_schema)]"
  by code_simp

end
