(* ===== verification/Telemetry.thy ===== *)
theory Telemetry
  imports Json "HOL-Library.Sublist"
begin

text \<open>
  Structured telemetry (\<open>crates/vergil-core/src/telemetry.rs\<close>): the events, the two sinks, and the
  contract a sink keeps: whatever goes wrong, recording only ever appends. The clock, serde's
  serialiser and the operating system's writes are parameters.
\<close>

record telemetry_event =
  te_timestamp :: string
  te_tenant_id :: string
  te_run_id :: string
  te_iteration :: nat
  te_kind :: string
  te_fields :: json

definition SYNTH_SAMPLE :: string where "SYNTH_SAMPLE = ''synth_sample''"
definition CRITIQUE_SUMMARY :: string where "CRITIQUE_SUMMARY = ''critique_summary''"
definition MUTATION_SUMMARY :: string where "MUTATION_SUMMARY = ''mutation_summary''"
definition DISPATCH_SUMMARY :: string where "DISPATCH_SUMMARY = ''dispatch_summary''"
definition COST :: string where "COST = ''cost''"
definition WALL_CLOCK :: string where "WALL_CLOCK = ''wall_clock''"
definition RUN_COMPLETE :: string where "RUN_COMPLETE = ''run_complete''"
definition COUNTEREXAMPLE_FOUND :: string where "COUNTEREXAMPLE_FOUND = ''counterexample_found''"
definition STRUCTURAL_CANDIDATES_EMITTED :: string where
  "STRUCTURAL_CANDIDATES_EMITTED = ''structural_candidates_emitted''"

definition telemetry_event_of ::
    "string \<Rightarrow> string \<Rightarrow> string \<Rightarrow> nat \<Rightarrow> string \<Rightarrow> json \<Rightarrow> telemetry_event" where
  "telemetry_event_of now tenant run_id iteration kind payload =
     \<lparr>te_timestamp = now, te_tenant_id = tenant, te_run_id = run_id, te_iteration = iteration,
      te_kind = kind, te_fields = payload\<rparr>"

record cost_accounting =
  ca_tokens_in :: u32
  ca_tokens_out :: u32
  ca_usd_estimate :: float
  ca_wall_clock_ms :: u64

definition as_fields :: "cost_accounting \<Rightarrow> json" where
  "as_fields c =
     JObj [(''tokens_in'', JNum (uint (ca_tokens_in c))), (''tokens_out'', JNum (uint (ca_tokens_out c))),
           (''usd_estimate'', JFloat (ca_usd_estimate c)), (''wall_clock_ms'', JNum (uint (ca_wall_clock_ms c)))]"

section \<open>The sinks\<close>

definition null_record :: "telemetry_event \<Rightarrow> unit \<Rightarrow> unit" where
  "null_record e s = s"

text \<open>
  The file behind a sink. The \<open>n\<close>-th write is cut after \<open>jl_cut n\<close> bytes when that is a number, and
  complete when it is \<open>None\<close>; a poisoned lock is never taken again.
\<close>

record jsonl_sink =
  jl_content :: string
  jl_writes :: nat
  jl_poisoned :: bool
  jl_cut :: "nat \<Rightarrow> nat option"

text \<open>
  Opening: \<open>parent\<close> is the parent directory of the path, \<open>mkdir\<close> and \<open>opn\<close> the answers of the
  operating system (\<open>opn\<close> gives the present content, empty for a new file).
\<close>

definition jsonl_open ::
    "(string \<Rightarrow> string option) \<Rightarrow> (string \<Rightarrow> string option) \<Rightarrow> (string \<Rightarrow> string + string)
     \<Rightarrow> (nat \<Rightarrow> nat option) \<Rightarrow> string \<Rightarrow> string + jsonl_sink" where
  "jsonl_open parent mkdir opn cuts path =
     (let err = (case parent path of
                   None \<Rightarrow> None
                 | Some p \<Rightarrow> (if p = [] then None else mkdir p)) in
      case err of
        Some e \<Rightarrow> Inl e
      | None \<Rightarrow>
          (case opn path of
             Inl e \<Rightarrow> Inl e
           | Inr c \<Rightarrow> Inr \<lparr>jl_content = c, jl_writes = 0, jl_poisoned = False, jl_cut = cuts\<rparr>))"

definition jsonl_record ::
    "(telemetry_event \<Rightarrow> string option) \<Rightarrow> telemetry_event \<Rightarrow> jsonl_sink \<Rightarrow> jsonl_sink" where
  "jsonl_record ser e s =
     (case ser e of
        None \<Rightarrow> s
      | Some line \<Rightarrow>
          (if jl_poisoned s then s
           else
             (let bytes = line @ [NL];
                  written = (case jl_cut s (jl_writes s) of None \<Rightarrow> bytes | Some k \<Rightarrow> take k bytes)
              in s\<lparr>jl_content := jl_content s @ written, jl_writes := jl_writes s + 1\<rparr>)))"

section \<open>The contract of a sink\<close>

locale sink_contract =
  fixes rec :: "telemetry_event \<Rightarrow> 's \<Rightarrow> 's"
    and log :: "'s \<Rightarrow> string"
    and line :: "telemetry_event \<Rightarrow> string"
  assumes appends: "\<exists>n. log (rec e s) = log s @ take n (line e)"
begin

lemma record_all:
  "\<exists>ns. length ns = length es \<and> log (fold rec es s) = log s @ concat (map2 take ns (map line es))"
proof (induction es arbitrary: s)
  case Nil
  then show ?case by (intro exI[of _ "[]"]) simp
next
  case (Cons e es)
  from appends obtain n where n: "log (rec e s) = log s @ take n (line e)" by blast
  from Cons[of "rec e s"] obtain ns where
    ns: "length ns = length es" "log (fold rec es (rec e s)) = log (rec e s) @ concat (map2 take ns (map line es))"
    by blast
  with n show ?case by (intro exI[of _ "n # ns"]) simp
qed

lemma record_keeps: "prefix (log s) (log (fold rec es s))"
  using record_all[of es s] by (auto simp: prefix_def)

end

definition event_line :: "(telemetry_event \<Rightarrow> string option) \<Rightarrow> telemetry_event \<Rightarrow> string" where
  "event_line ser e = (case ser e of Some l \<Rightarrow> l @ [NL] | None \<Rightarrow> [])"

interpretation ns: sink_contract null_record "\<lambda>_. []" "event_line ser"
  by unfold_locales (auto intro: exI[of _ 0])

lemma jsonl_record_content:
  "\<exists>n. jl_content (jsonl_record ser e s) = jl_content s @ take n (event_line ser e)"
proof (cases "ser e")
  case None
  then show ?thesis by (simp add: jsonl_record_def event_line_def)
next
  case (Some l)
  show ?thesis
  proof (cases "jl_poisoned s")
    case True
    with Some show ?thesis by (simp add: jsonl_record_def)
  next
    case False
    show ?thesis
    proof (cases "jl_cut s (jl_writes s)")
      case None
      with Some False show ?thesis
        by (intro exI[of _ "Suc (length l)"]) (simp add: jsonl_record_def event_line_def)
    next
      case (Some k)
      with \<open>ser e = Some l\<close> False show ?thesis
        by (intro exI[of _ k]) (simp add: jsonl_record_def event_line_def)
    qed
  qed
qed

interpretation js: sink_contract "jsonl_record ser" jl_content "event_line ser"
  by unfold_locales (rule jsonl_record_content)

lemma jsonl_record_healthy:
  "\<not> jl_poisoned s \<Longrightarrow> jl_cut s = (\<lambda>_. None) \<Longrightarrow>
     jl_content (jsonl_record ser e s) = jl_content s @ event_line ser e
     \<and> \<not> jl_poisoned (jsonl_record ser e s) \<and> jl_cut (jsonl_record ser e s) = (\<lambda>_. None)"
  by (simp add: jsonl_record_def event_line_def Let_def split: option.splits)

lemma jsonl_records_healthy:
  "\<not> jl_poisoned s \<Longrightarrow> jl_cut s = (\<lambda>_. None) \<Longrightarrow>
     jl_content (fold (jsonl_record ser) es s) = jl_content s @ concat (map (event_line ser) es)"
proof (induction es arbitrary: s)
  case Nil
  then show ?case by simp
next
  case (Cons e es)
  from jsonl_record_healthy[OF Cons.prems, of ser e] Cons.IH[of "jsonl_record ser e s"]
  show ?case by simp
qed

section \<open>Properties\<close>

text \<open>The telemetry file is append-only: whatever serialisations fail and however writes are cut,
  recording a list of events keeps everything already in the file and adds, in order, a prefix of
  each event's line; with no failed write it adds exactly the lines of the events that serialise.\<close>

theorem telemetry_append_only:
  "(\<exists>ns. length ns = length es \<and>
      jl_content (fold (jsonl_record ser) es s)
        = jl_content s @ concat (map2 take ns (map (event_line ser) es)))
   \<and> jl_content (fold (jsonl_record ser) es (s\<lparr>jl_poisoned := False, jl_cut := \<lambda>_. None\<rparr>))
        = jl_content s @ concat (map (event_line ser) es)"
  using js.record_all[of es ser s]
    jsonl_records_healthy[of "s\<lparr>jl_poisoned := False, jl_cut := \<lambda>_. None\<rparr>" ser es]
  by simp

end
