(* ===== verification/Cegis.thy ===== *)
theory Cegis
  imports Refinement Telemetry
begin

text \<open>
  The CEGIS outer loop (\<open>crates/vergil-core/src/cegis.rs\<close>). Everything outside (models, verifier,
  mutation gate, clock) is an oracle indexed by the iteration and the position in it, so a run is
  a function of the answers it receives. \<open>None\<close> stands for a panic.
\<close>

section \<open>Types\<close>

record cegis_config =
  cg_max_iterations :: nat
  cg_synthesis :: synthesis_config
  cg_cost_budget_usd :: float
  cg_cost_per_mtok_in_usd :: float
  cg_cost_per_mtok_out_usd :: float
  cg_tenant_id :: string
  cg_run_id :: "string option"

definition cegis_default :: cegis_config where
  "cegis_default =
     \<lparr>cg_max_iterations = 10, cg_synthesis = default_for_anthropic, cg_cost_budget_usd = to_f64 200,
      cg_cost_per_mtok_in_usd = to_f64 15, cg_cost_per_mtok_out_usd = to_f64 75,
      cg_tenant_id = ''internal'', cg_run_id = None\<rparr>"

definition cegis_for_tests :: cegis_config where
  "cegis_for_tests =
     \<lparr>cg_max_iterations = 3, cg_synthesis = for_tests, cg_cost_budget_usd = to_f64 1,
      cg_cost_per_mtok_in_usd = to_f64 15, cg_cost_per_mtok_out_usd = to_f64 75,
      cg_tenant_id = ''test'', cg_run_id = Some ''test-run''\<rparr>"

datatype verifier_verdict =
    VvNotRun
  | VvVerified string "string option"
  | VvCounterexample string
  | VvUnknown string
  | VvError string

definition default_backend_label :: string where "default_backend_label = ''halmos''"

definition vv_verified :: verifier_verdict where
  "vv_verified = VvVerified default_backend_label None"

record candidate_outcome =
  cn_candidate :: spec_candidate
  cn_critique :: "critique_result option"
  cn_mutation_coverage :: "float option"
  cn_manifest_warnings :: "string list"
  cn_verdict :: verifier_verdict

record iteration_stats =
  it_iteration :: nat
  it_synthesized :: nat
  it_dropped_critique :: nat
  it_dropped_mutation :: nat
  it_dropped_manifest :: nat
  it_dispatched :: nat
  it_verified :: nat
  it_counterexamples :: nat
  it_tokens_in :: u32
  it_tokens_out :: u32
  it_wall_clock_ms :: u64
  it_diagnosis :: "diagnosis_class option"

record cegis_run =
  rn_iterations :: "iteration_stats list"
  rn_outcomes :: "candidate_outcome list"
  rn_total_cost_usd :: float
  rn_stop_reason :: "string option"
  rn_repaired_code :: "code_repair_plan option"
  rn_refined_specs :: "refined_spec list"
  rn_final_diagnosis :: "diagnosis option"

datatype cegis_error = CeSynthesis synthesis_error

text \<open>The oracles: what the world answers in iteration \<open>i\<close> to the \<open>j\<close>-th question of a kind.\<close>

record cegis_env =
  ev_synth :: "nat \<Rightarrow> nat \<Rightarrow> completion_request \<Rightarrow> llm_error + completion"
  ev_critic :: "nat \<Rightarrow> nat \<Rightarrow> structured_request \<Rightarrow> llm_error + structured_response"
  ev_diagnose :: "nat \<Rightarrow> structured_request \<Rightarrow> llm_error + structured_response"
  ev_refine :: "nat \<Rightarrow> structured_request \<Rightarrow> llm_error + structured_response"
  ev_mutation_gate :: "(nat \<Rightarrow> nat \<Rightarrow> spec_candidate \<Rightarrow> float) option"
  ev_dispatch :: "nat \<Rightarrow> nat \<Rightarrow> spec_candidate \<Rightarrow> verifier_verdict"
  ev_now :: "nat \<Rightarrow> string"
  ev_run_stamp :: string
  ev_elapsed_ms :: "nat \<Rightarrow> u64"
  ev_run_elapsed_ms :: u64
  ev_dec_specs :: "string \<Rightarrow> spec_candidate list option"
  ev_dec_spec :: "string \<Rightarrow> spec_candidate option"
  ev_dec_critique :: "json \<Rightarrow> string + critique_result"
  ev_dec_diagnosis :: "json \<Rightarrow> string + diagnosis"
  ev_dec_repair :: "json \<Rightarrow> string + code_repair_plan"
  ev_dec_refined :: "json \<Rightarrow> string + refined_spec"
  ev_synthesize_tpl :: prompt
  ev_critique_tpl :: prompt
  ev_diagnose_tpl :: prompt
  ev_repair_tpl :: prompt
  ev_refine_tpl :: prompt

text \<open>The loop object and the arguments of a run.\<close>

record cegis_loop_cfg =
  cl_critic :: critic
  cl_diagnosis :: agent_config
  cl_refiner :: agent_config
  cl_cfg :: cegis_config
  cl_mutation_min :: float

record cegis_input =
  ci_intent :: string
  ci_description :: "string option"
  ci_methods :: string
  ci_analysis :: string
  ci_hints :: "retrieved_hint list"
  ci_source :: string
  ci_scaffold :: string

text \<open>The mutable state: the run and the telemetry recorded so far.\<close>

record cegis_state =
  cs_run :: cegis_run
  cs_events :: "telemetry_event list"

section \<open>The phases of an iteration\<close>

definition run_id_of :: "cegis_env \<Rightarrow> cegis_loop_cfg \<Rightarrow> string" where
  "run_id_of ev lp = (case cg_run_id (cl_cfg lp) of Some r \<Rightarrow> r | None \<Rightarrow> ev_run_stamp ev)"

definition emit :: "cegis_env \<Rightarrow> cegis_loop_cfg \<Rightarrow> nat \<Rightarrow> string \<Rightarrow> json \<Rightarrow> telemetry_event list \<Rightarrow> telemetry_event list" where
  "emit ev lp i kind payload es =
     es @ [telemetry_event_of (ev_now ev (length es)) (cg_tenant_id (cl_cfg lp)) (run_id_of ev lp) i kind payload]"

definition sample_cost :: "cegis_config \<Rightarrow> sample_stat \<Rightarrow> float" where
  "sample_cost cfg s =
     fadd64 (fmul64 (fdiv64_by (to_f64 (of_int (uint (ss_tokens_in s)))) 1000000) (cg_cost_per_mtok_in_usd cfg))
            (fmul64 (fdiv64_by (to_f64 (of_int (uint (ss_tokens_out s)))) 1000000) (cg_cost_per_mtok_out_usd cfg))"

definition account_for_sample ::
    "cegis_config \<Rightarrow> sample_stat \<Rightarrow> iteration_stats \<times> float \<Rightarrow> iteration_stats \<times> float" where
  "account_for_sample cfg s acc =
     (case acc of (stats, usd) \<Rightarrow>
        (stats\<lparr>it_tokens_in := sat_add32 (it_tokens_in stats) (ss_tokens_in s),
               it_tokens_out := sat_add32 (it_tokens_out stats) (ss_tokens_out s)\<rparr>,
         fadd64 usd (sample_cost cfg s)))"

definition sample_fields :: "sample_stat \<Rightarrow> json" where
  "sample_fields s =
     JObj [(''sample_index'', JNum (int (ss_index s))), (''temperature'', JFloat (ss_temperature s)),
           (''tokens_in'', JNum (uint (ss_tokens_in s))), (''tokens_out'', JNum (uint (ss_tokens_out s))),
           (''latency_ms'', JNum (uint (ss_latency_ms s))),
           (''candidate_count'', JNum (int (ss_candidate_count s)))]"

fun account_samples ::
    "cegis_env \<Rightarrow> cegis_loop_cfg \<Rightarrow> nat \<Rightarrow> sample_stat list \<Rightarrow> iteration_stats \<Rightarrow> float \<Rightarrow> telemetry_event list
     \<Rightarrow> iteration_stats \<times> float \<times> telemetry_event list" where
  "account_samples ev lp i [] stats usd es = (stats, usd, es)"
| "account_samples ev lp i (s # ss) stats usd es =
     (case account_for_sample (cl_cfg lp) s (stats, usd) of
        (stats', usd') \<Rightarrow>
          account_samples ev lp i ss stats' usd' (emit ev lp i SYNTH_SAMPLE (sample_fields s) es))"

text \<open>The mutation gate: the candidates that go on, and the outcomes of those it drops.\<close>

fun gate_loop ::
    "cegis_env \<Rightarrow> cegis_loop_cfg \<Rightarrow> nat \<Rightarrow> nat \<Rightarrow> (spec_candidate \<times> critique_result) list
     \<Rightarrow> (spec_candidate \<times> critique_result \<times> float option) list \<times> candidate_outcome list" where
  "gate_loop ev lp i j [] = ([], [])"
| "gate_loop ev lp i j ((c, r) # rest) =
     (let coverage = map_option (\<lambda>g. g i j c) (ev_mutation_gate ev);
          tail = gate_loop ev lp i (Suc j) rest in
      if (case coverage of Some cov \<Rightarrow> flt cov (cl_mutation_min lp) | None \<Rightarrow> False)
      then (fst tail,
            \<lparr>cn_candidate = c, cn_critique = Some r, cn_mutation_coverage = coverage,
             cn_manifest_warnings = [], cn_verdict = VvNotRun\<rparr> # snd tail)
      else ((c, r, coverage) # fst tail, snd tail))"

fun is_verified :: "verifier_verdict \<Rightarrow> bool" where
  "is_verified (VvVerified _ _) = True"
| "is_verified _ = False"

fun is_counterexample :: "verifier_verdict \<Rightarrow> bool" where
  "is_counterexample (VvCounterexample _) = True"
| "is_counterexample _ = False"

fun dispatch_survivors ::
    "cegis_env \<Rightarrow> nat \<Rightarrow> nat \<Rightarrow> (spec_candidate \<times> critique_result \<times> float option) list
     \<Rightarrow> iteration_stats \<Rightarrow> candidate_outcome list \<Rightarrow> iteration_stats \<times> candidate_outcome list" where
  "dispatch_survivors ev i j [] stats outs = (stats, outs)"
| "dispatch_survivors ev i j ((c, r, cov) # rest) stats outs =
     (let verdict = ev_dispatch ev i j c;
          stats1 = (if is_verified verdict then stats\<lparr>it_verified := it_verified stats + 1\<rparr>
                    else if is_counterexample verdict
                    then stats\<lparr>it_counterexamples := it_counterexamples stats + 1\<rparr>
                    else stats)
      in dispatch_survivors ev i (Suc j) rest
           (stats1\<lparr>it_dispatched := it_dispatched stats1 + 1\<rparr>)
           (outs @ [\<lparr>cn_candidate = c, cn_critique = Some r, cn_mutation_coverage = cov,
                     cn_manifest_warnings = [], cn_verdict = verdict\<rparr>]))"

text \<open>The counterexample that is diagnosed: the search runs from the end.\<close>

fun find_cex :: "candidate_outcome list \<Rightarrow> (spec_candidate \<times> string) option" where
  "find_cex [] = None"
| "find_cex (x # xs) =
     (case cn_verdict x of VvCounterexample m \<Rightarrow> Some (cn_candidate x, m) | _ \<Rightarrow> find_cex xs)"

definition diagnosed_cex :: "candidate_outcome list \<Rightarrow> (spec_candidate \<times> string) option" where
  "diagnosed_cex outs = find_cex (rev outs)"

datatype iteration_result =
    IterError cegis_error
  | IterStop cegis_state
  | IterNext cegis_state

definition stop_with :: "string \<Rightarrow> cegis_run \<Rightarrow> telemetry_event list \<Rightarrow> iteration_result" where
  "stop_with reason run es = IterStop \<lparr>cs_run = run\<lparr>rn_stop_reason := Some reason\<rparr>, cs_events = es\<rparr>"

definition refine_error_str :: "refine_error \<Rightarrow> string" where
  "refine_error_str e =
     (case e of
        RfPrompt p \<Rightarrow> ''prompt render: '' @ prompt_error_str p
      | RfLlm l \<Rightarrow> ''llm: '' @ llm_error_str l
      | RfSchema m \<Rightarrow> ''schema: '' @ m)"

text \<open>Step 6 of an iteration: the budget.\<close>

definition budget_check :: "cegis_loop_cfg \<Rightarrow> cegis_run \<Rightarrow> telemetry_event list \<Rightarrow> iteration_result" where
  "budget_check lp run es =
     (if fle (cg_cost_budget_usd (cl_cfg lp)) (rn_total_cost_usd run)
      then stop_with (''cost budget $'' @ fmt2 (rn_total_cost_usd run) @ '' reached (limit $''
             @ fmt2 (cg_cost_budget_usd (cl_cfg lp)) @ '')'') run es
      else IterNext \<lparr>cs_run = run, cs_events = es\<rparr>)"

text \<open>Step 5: stop, or diagnose and repair.\<close>

definition decide ::
    "cegis_env \<Rightarrow> cegis_loop_cfg \<Rightarrow> cegis_input \<Rightarrow> nat \<Rightarrow> cegis_run \<Rightarrow> telemetry_event list \<Rightarrow> iteration_result" where
  "decide ev lp inp i run es =
     (if list_ex (\<lambda>x. is_verified (cn_verdict x)) (rn_outcomes run) then stop_with ''verified'' run es
      else
        (case diagnosed_cex (rn_outcomes run) of
           None \<Rightarrow> stop_with ''no_definitive_verdict'' run es
         | Some (spec, trace) \<Rightarrow>
             (let diag = diagnose (ev_dec_diagnosis ev) (ev_diagnose_tpl ev) (cl_diagnosis lp) (ev_diagnose ev i)
                           (ci_intent inp) (spec_source_blob spec) trace;
                  run1 = run\<lparr>rn_iterations := butlast (rn_iterations run)
                               @ (case rn_iterations run of [] \<Rightarrow> []
                                  | _ \<Rightarrow> [(last (rn_iterations run))\<lparr>it_diagnosis := Some (dg_class diag)\<rparr>]),
                             rn_final_diagnosis := Some diag\<rparr>
              in case dg_class diag of
                   CodeBug \<Rightarrow>
                     (case repair_code (ev_dec_repair ev) (ev_repair_tpl ev) (cl_refiner lp) (ev_refine ev i)
                             (ci_intent inp) spec (ci_source inp) trace of
                        Inr plan \<Rightarrow> budget_check lp (run1\<lparr>rn_repaired_code := Some plan\<rparr>) es
                      | Inl e \<Rightarrow> stop_with (''repair_code error: '' @ refine_error_str e) run1 es)
                 | SpecBug \<Rightarrow>
                     (case refine_spec (ev_dec_refined ev) (ev_refine_tpl ev) (cl_refiner lp) (ev_refine ev i)
                             (ci_intent inp) spec (ci_source inp) trace of
                        Inr refined \<Rightarrow>
                          budget_check lp (run1\<lparr>rn_refined_specs := rn_refined_specs run1 @ [refined]\<rparr>) es
                      | Inl e \<Rightarrow> stop_with (''refine_spec error: '' @ refine_error_str e) run1 es)
                 | Ambiguous \<Rightarrow> stop_with ''ambiguous_diagnosis'' run1 es)))"

definition fresh_stats :: "nat \<Rightarrow> iteration_stats" where
  "fresh_stats i =
     \<lparr>it_iteration = i, it_synthesized = 0, it_dropped_critique = 0, it_dropped_mutation = 0,
      it_dropped_manifest = 0, it_dispatched = 0, it_verified = 0, it_counterexamples = 0,
      it_tokens_in = 0, it_tokens_out = 0, it_wall_clock_ms = 0, it_diagnosis = None\<rparr>"

text \<open>Steps 2 to 4 on the candidates that were synthesised, then the decision.\<close>

definition judge_candidates ::
    "cegis_env \<Rightarrow> cegis_loop_cfg \<Rightarrow> cegis_input \<Rightarrow> nat \<Rightarrow> spec_candidate list \<Rightarrow> iteration_stats
     \<Rightarrow> cegis_run \<Rightarrow> telemetry_event list \<Rightarrow> iteration_result option" where
  "judge_candidates ev lp inp i cands stats run es =
     (let critiques = critique_all (ev_dec_critique ev) (ev_critique_tpl ev) (cl_critic lp) (ev_critic ev i)
                        cands (ci_intent inp) (ci_description inp) in
      case filter_accepted (ck_cfg (cl_critic lp)) cands critiques of
        None \<Rightarrow> None
      | Some fo \<Rightarrow>
          (let stats1 = stats\<lparr>it_dropped_critique := length (fo_dropped fo)\<rparr>;
               es1 = emit ev lp i CRITIQUE_SUMMARY
                       (JObj [(''kept'', JNum (int (length (fo_kept fo)))),
                              (''dropped'', JNum (int (length (fo_dropped fo))))]) es;
               gate = gate_loop ev lp i 0 (fo_kept fo);
               survivors = fst gate;
               dropped = snd gate;
               stats2 = stats1\<lparr>it_dropped_mutation := it_dropped_mutation stats1 + length dropped\<rparr>;
               es2 = emit ev lp i MUTATION_SUMMARY
                       (JObj [(''kept'', JNum (int (length survivors))),
                              (''dropped'', JNum (int (it_dropped_mutation stats2))),
                              (''mutation_min'', JFloat (cl_mutation_min lp))]) es1;
               dispatched = dispatch_survivors ev i 0 survivors stats2 (rn_outcomes run @ dropped);
               stats3 = fst dispatched;
               es3 = emit ev lp i DISPATCH_SUMMARY
                       (JObj [(''dispatched'', JNum (int (it_dispatched stats3))),
                              (''verified'', JNum (int (it_verified stats3))),
                              (''counterexamples'', JNum (int (it_counterexamples stats3)))]) es2;
               stats4 = stats3\<lparr>it_wall_clock_ms := ev_elapsed_ms ev i\<rparr>
           in Some (decide ev lp inp i
                      (run\<lparr>rn_iterations := rn_iterations run @ [stats4], rn_outcomes := snd dispatched\<rparr>) es3)))"

definition cegis_iteration ::
    "cegis_env \<Rightarrow> cegis_loop_cfg \<Rightarrow> cegis_input \<Rightarrow> nat \<Rightarrow> cegis_state \<Rightarrow> iteration_result option" where
  "cegis_iteration ev lp inp i st =
     (let cfg = cl_cfg lp; run = cs_run st in
      case synthesize (ev_dec_specs ev) (ev_dec_spec ev) (ev_synth ev i) (ev_synthesize_tpl ev)
             (ci_intent inp) (ci_methods inp) (ci_analysis inp) (ci_hints inp) (ci_source inp) (ci_scaffold inp)
             (cg_synthesis cfg) of
        Inl e \<Rightarrow> Some (IterError (CeSynthesis e))
      | Inr synth \<Rightarrow>
          (case account_samples ev lp i (sr_samples synth)
                  ((fresh_stats i)\<lparr>it_synthesized := length (sr_candidates synth)\<rparr>)
                  (rn_total_cost_usd run) (cs_events st) of
             (stats, usd, es) \<Rightarrow>
               judge_candidates ev lp inp i (sr_candidates synth) stats (run\<lparr>rn_total_cost_usd := usd\<rparr>) es))"

section \<open>The loop\<close>

function cegis_loop ::
    "cegis_env \<Rightarrow> cegis_loop_cfg \<Rightarrow> cegis_input \<Rightarrow> nat \<Rightarrow> cegis_state
     \<Rightarrow> (cegis_error + nat \<times> cegis_state) option" where
  "cegis_loop ev lp inp i st =
     (if cg_max_iterations (cl_cfg lp) \<le> i
      then Some (Inr (i, st\<lparr>cs_run := (cs_run st)\<lparr>rn_stop_reason :=
             Some (''max_iterations ('' @ show_nat (cg_max_iterations (cl_cfg lp)) @ '')'')\<rparr>\<rparr>))
      else
        (case cegis_iteration ev lp inp i st of
           None \<Rightarrow> None
         | Some (IterError e) \<Rightarrow> Some (Inl e)
         | Some (IterStop st') \<Rightarrow> Some (Inr (i, st'))
         | Some (IterNext st') \<Rightarrow> cegis_loop ev lp inp (Suc i) st'))"
  by pat_completeness auto
termination
  by (relation "measure (\<lambda>(ev, lp, inp, i, st). cg_max_iterations (cl_cfg lp) - i)") auto

declare cegis_loop.simps [simp del]

definition empty_run :: cegis_run where
  "empty_run =
     \<lparr>rn_iterations = [], rn_outcomes = [], rn_total_cost_usd = Fin 0, rn_stop_reason = None,
      rn_repaired_code = None, rn_refined_specs = [], rn_final_diagnosis = None\<rparr>"

text \<open>\<open>Iterator::sum\<close> on \<open>u32\<close> wraps around in a release build.\<close>

definition run_cost :: "cegis_env \<Rightarrow> cegis_run \<Rightarrow> cost_accounting" where
  "run_cost ev run =
     \<lparr>ca_tokens_in = sum_list (map it_tokens_in (rn_iterations run)),
      ca_tokens_out = sum_list (map it_tokens_out (rn_iterations run)),
      ca_usd_estimate = rn_total_cost_usd run, ca_wall_clock_ms = ev_run_elapsed_ms ev\<rparr>"

definition finish_run ::
    "cegis_env \<Rightarrow> cegis_loop_cfg \<Rightarrow> nat \<times> cegis_state \<Rightarrow> cegis_state" where
  "finish_run ev lp ist =
     (case ist of (i, st) \<Rightarrow>
        (let run = (case rn_stop_reason (cs_run st) of
                      None \<Rightarrow> (cs_run st)\<lparr>rn_stop_reason := Some ''loop_completed''\<rparr>
                    | Some _ \<Rightarrow> cs_run st);
             es1 = emit ev lp i COST (as_fields (run_cost ev run)) (cs_events st);
             verified = length (filter (\<lambda>x. is_verified (cn_verdict x)) (rn_outcomes run));
             es2 = emit ev lp i RUN_COMPLETE
                     (JObj [(''iterations'', JNum (int (length (rn_iterations run)))),
                            (''outcomes'', JNum (int (length (rn_outcomes run)))),
                            (''verified'', JNum (int verified)),
                            (''stop_reason'', JStr (case rn_stop_reason run of Some r \<Rightarrow> r | None \<Rightarrow> ''(unset)'')),
                            (''cost_usd'', JFloat (rn_total_cost_usd run)),
                            (''wall_clock_ms'', JNum (uint (ev_run_elapsed_ms ev)))]) es1
         in \<lparr>cs_run = run, cs_events = es2\<rparr>))"

definition run_with_description ::
    "cegis_env \<Rightarrow> cegis_loop_cfg \<Rightarrow> cegis_input \<Rightarrow> (cegis_error + cegis_state) option" where
  "run_with_description ev lp inp =
     (case cegis_loop ev lp inp 0 \<lparr>cs_run = empty_run, cs_events = []\<rparr> of
        None \<Rightarrow> None
      | Some (Inl e) \<Rightarrow> Some (Inl e)
      | Some (Inr ist) \<Rightarrow> Some (Inr (finish_run ev lp ist)))"

definition cegis_run_plain ::
    "cegis_env \<Rightarrow> cegis_loop_cfg \<Rightarrow> cegis_input \<Rightarrow> (cegis_error + cegis_state) option" where
  "cegis_run_plain ev lp inp =
     run_with_description ev lp (inp\<lparr>ci_description := None, ci_methods := []\<rparr>)"

section \<open>What one iteration keeps\<close>

definition any_verified :: "cegis_run \<Rightarrow> bool" where
  "any_verified run = list_ex (\<lambda>x. is_verified (cn_verdict x)) (rn_outcomes run)"

text \<open>A candidate's outcome is vetted: the critic accepted it, the gate (if any) scored it, and its
  verdict is the verifier's unless its score is below the minimum.\<close>

definition outcome_ok :: "cegis_env \<Rightarrow> cegis_loop_cfg \<Rightarrow> candidate_outcome \<Rightarrow> bool" where
  "outcome_ok ev lp x \<longleftrightarrow>
     (\<exists>r. cn_critique x = Some r \<and> accepted (ck_cfg (cl_critic lp)) (cn_candidate x, r))
     \<and> (\<exists>i j. cn_mutation_coverage x = map_option (\<lambda>g. g i j (cn_candidate x)) (ev_mutation_gate ev))
     \<and> (if (case cn_mutation_coverage x of Some cov \<Rightarrow> flt cov (cl_mutation_min lp) | None \<Rightarrow> False)
        then cn_verdict x = VvNotRun
        else (\<exists>i j. cn_verdict x = ev_dispatch ev i j (cn_candidate x)))"

definition iteration_kinds :: "cegis_loop_cfg \<Rightarrow> string list" where
  "iteration_kinds lp =
     replicate (max (sc_samples (cg_synthesis (cl_cfg lp))) 1) SYNTH_SAMPLE
     @ [CRITIQUE_SUMMARY, MUTATION_SUMMARY, DISPATCH_SUMMARY]"

lemma map_kind_emit [simp]: "map te_kind (emit ev lp i k f es) = map te_kind es @ [k]"
  by (simp add: emit_def telemetry_event_of_def)

lemma account_samples_kinds:
  "account_samples ev lp i ss stats usd es = (stats', usd', es') \<Longrightarrow>
     map te_kind es' = map te_kind es @ replicate (length ss) SYNTH_SAMPLE"
  by (induction ss arbitrary: stats usd es)
    (auto simp: account_for_sample_def replicate_append_same split: prod.splits)

lemma gate_loop_survivors:
  "\<forall>x\<in>set (fst (gate_loop ev lp i j crs)). \<exists>c r cov. x = (c, r, cov) \<and> (c, r) \<in> set crs
     \<and> (\<exists>k. cov = map_option (\<lambda>g. g i k c) (ev_mutation_gate ev))
     \<and> \<not> (case cov of Some v \<Rightarrow> flt v (cl_mutation_min lp) | None \<Rightarrow> False)"
proof (induction crs arbitrary: j)
  case Nil
  then show ?case by simp
next
  case (Cons cr crs)
  obtain c r where cr: "cr = (c, r)" by (cases cr)
  show ?case
    using Cons.IH[of "Suc j"] unfolding cr gate_loop.simps Let_def by (simp split: if_split) blast
qed

lemma gate_loop_dropped:
  "list_all (\<lambda>cr. accepted (ck_cfg (cl_critic lp)) cr) crs \<Longrightarrow>
     list_all (outcome_ok ev lp) (snd (gate_loop ev lp i j crs))
     \<and> list_all (\<lambda>x. cn_verdict x = VvNotRun) (snd (gate_loop ev lp i j crs))"
proof (induction crs arbitrary: j)
  case Nil
  then show ?case by simp
next
  case (Cons cr crs)
  obtain c r where cr: "cr = (c, r)" by (cases cr)
  show ?case
    using Cons.IH[of "Suc j"] Cons.prems unfolding cr gate_loop.simps Let_def
    by (auto simp: outcome_ok_def split: if_split)
qed

lemma dispatch_survivors_ok:
  assumes "\<forall>(c, r, cov)\<in>set svs. accepted (ck_cfg (cl_critic lp)) (c, r)
       \<and> (\<exists>i j. cov = map_option (\<lambda>g. g i j c) (ev_mutation_gate ev))
       \<and> \<not> (case cov of Some v \<Rightarrow> flt v (cl_mutation_min lp) | None \<Rightarrow> False)"
    and "list_all (outcome_ok ev lp) outs"
  shows "list_all (outcome_ok ev lp) (snd (dispatch_survivors ev i j svs stats outs))"
  using assms
proof (induction svs arbitrary: j stats outs)
  case Nil
  then show ?case by simp
next
  case (Cons x svs)
  obtain c r cov where x: "x = (c, r, cov)" by (cases x)
  let ?o = "\<lparr>cn_candidate = c, cn_critique = Some r, cn_mutation_coverage = cov,
      cn_manifest_warnings = [], cn_verdict = ev_dispatch ev i j c\<rparr>"
  have "outcome_ok ev lp ?o"
    using Cons.prems(1) by (auto simp: x outcome_ok_def)
  then have "list_all (outcome_ok ev lp) (outs @ [?o])"
    using Cons.prems(2) by simp
  then show ?case
    using Cons.IH[of "outs @ [?o]"] Cons.prems(1) by (simp add: x Let_def)
qed

section \<open>What the decision keeps\<close>

definition same_run :: "cegis_run \<Rightarrow> telemetry_event list \<Rightarrow> cegis_state \<Rightarrow> bool" where
  "same_run run es st \<longleftrightarrow>
     cs_events st = es \<and> rn_outcomes (cs_run st) = rn_outcomes run
     \<and> rn_total_cost_usd (cs_run st) = rn_total_cost_usd run
     \<and> length (rn_iterations (cs_run st)) = length (rn_iterations run)
     \<and> map it_tokens_in (rn_iterations (cs_run st)) = map it_tokens_in (rn_iterations run)"

definition decided :: "cegis_loop_cfg \<Rightarrow> cegis_run \<Rightarrow> telemetry_event list \<Rightarrow> iteration_result \<Rightarrow> bool" where
  "decided lp run es res \<longleftrightarrow>
     (case res of
        IterError e \<Rightarrow> False
      | IterStop st \<Rightarrow> same_run run es st
          \<and> (\<exists>why. rn_stop_reason (cs_run st) = Some why \<and> why \<noteq> ''loop_completed''
               \<and> (why = ''verified'' \<longleftrightarrow> any_verified run))
      | IterNext st \<Rightarrow> same_run run es st \<and> rn_stop_reason (cs_run st) = rn_stop_reason run
          \<and> \<not> any_verified run \<and> \<not> fle (cg_cost_budget_usd (cl_cfg lp)) (rn_total_cost_usd run)
          \<and> diagnosed_cex (rn_outcomes run) \<noteq> None)"

lemma same_run_refl [simp]: "same_run run es \<lparr>cs_run = run, cs_events = es\<rparr>"
  by (simp add: same_run_def)

lemma decided_stop:
  "same_run run es \<lparr>cs_run = run', cs_events = es\<rparr> \<Longrightarrow> why \<noteq> ''loop_completed'' \<Longrightarrow>
     why = ''verified'' \<longleftrightarrow> any_verified run \<Longrightarrow> decided lp run es (stop_with why run' es)"
  by (simp add: decided_def stop_with_def same_run_def)

lemma decided_budget:
  assumes "same_run run es \<lparr>cs_run = run', cs_events = es\<rparr>" "\<not> any_verified run"
    "rn_stop_reason run' = rn_stop_reason run" "diagnosed_cex (rn_outcomes run) \<noteq> None"
  shows "decided lp run es (budget_check lp run' es)"
proof (cases "fle (cg_cost_budget_usd (cl_cfg lp)) (rn_total_cost_usd run')")
  case True
  with assms show ?thesis unfolding budget_check_def by (simp add: decided_stop)
next
  case False
  then have "budget_check lp run' es = IterNext \<lparr>cs_run = run', cs_events = es\<rparr>"
    by (simp add: budget_check_def)
  with assms False show ?thesis by (simp add: decided_def same_run_def)
qed

lemma map_butlast_last:
  "f (g (last xs)) = f (last xs) \<Longrightarrow>
     map f (butlast xs @ (case xs of [] \<Rightarrow> [] | _ \<Rightarrow> [g (last xs)])) = map f xs"
  by (cases xs rule: rev_cases) (simp_all add: list.case_eq_if)

lemma length_butlast_last:
  "length (butlast xs @ (case xs of [] \<Rightarrow> [] | _ \<Rightarrow> [g (last xs)])) = length xs"
  by (cases xs) auto

lemma decide_decided: "decided lp run es (decide ev lp inp i run es)"
proof (cases "any_verified run")
  case True
  then show ?thesis by (simp add: decide_def any_verified_def[symmetric] decided_stop)
next
  case False
  show ?thesis
  proof (cases "diagnosed_cex (rn_outcomes run)")
    case None
    with False show ?thesis by (simp add: decide_def any_verified_def[symmetric] decided_stop)
  next
    case (Some ct)
    then have ne: "diagnosed_cex (rn_outcomes run) \<noteq> None" by simp
    obtain spec trace where ct: "ct = (spec, trace)" by (cases ct)
    define diag where "diag = diagnose (ev_dec_diagnosis ev) (ev_diagnose_tpl ev) (cl_diagnosis lp)
      (ev_diagnose ev i) (ci_intent inp) (spec_source_blob spec) trace"
    define run1 where "run1 = run\<lparr>rn_iterations := butlast (rn_iterations run)
        @ (case rn_iterations run of [] \<Rightarrow> []
           | _ \<Rightarrow> [(last (rn_iterations run))\<lparr>it_diagnosis := Some (dg_class diag)\<rparr>]),
      rn_final_diagnosis := Some diag\<rparr>"
    have same: "same_run run es \<lparr>cs_run = run1, cs_events = es\<rparr>"
      "same_run run es \<lparr>cs_run = run1\<lparr>rn_repaired_code := p\<rparr>, cs_events = es\<rparr>"
      "same_run run es \<lparr>cs_run = run1\<lparr>rn_refined_specs := q\<rparr>, cs_events = es\<rparr>" for p q
      unfolding same_run_def run1_def by (simp_all add: map_butlast_last length_butlast_last del: map_append length_append)
    have r: "rn_stop_reason run1 = rn_stop_reason run" by (simp add: run1_def)
    have "decide ev lp inp i run es =
      (case dg_class diag of
         CodeBug \<Rightarrow>
           (case repair_code (ev_dec_repair ev) (ev_repair_tpl ev) (cl_refiner lp) (ev_refine ev i)
                   (ci_intent inp) spec (ci_source inp) trace of
              Inr plan \<Rightarrow> budget_check lp (run1\<lparr>rn_repaired_code := Some plan\<rparr>) es
            | Inl e \<Rightarrow> stop_with (''repair_code error: '' @ refine_error_str e) run1 es)
       | SpecBug \<Rightarrow>
           (case refine_spec (ev_dec_refined ev) (ev_refine_tpl ev) (cl_refiner lp) (ev_refine ev i)
                   (ci_intent inp) spec (ci_source inp) trace of
              Inr refined \<Rightarrow> budget_check lp (run1\<lparr>rn_refined_specs := rn_refined_specs run1 @ [refined]\<rparr>) es
            | Inl e \<Rightarrow> stop_with (''refine_spec error: '' @ refine_error_str e) run1 es)
       | Ambiguous \<Rightarrow> stop_with ''ambiguous_diagnosis'' run1 es)"
      using False Some ct unfolding decide_def any_verified_def[symmetric] diag_def run1_def
      by (simp add: Let_def del: map_append)
    moreover have "decided lp run es (stop_with (''repair_code error: '' @ refine_error_str e) run1 es)"
      "decided lp run es (stop_with (''refine_spec error: '' @ refine_error_str e) run1 es)"
      "decided lp run es (stop_with ''ambiguous_diagnosis'' run1 es)" for e
      using False same by (auto intro!: decided_stop)
    moreover have "decided lp run es (budget_check lp (run1\<lparr>rn_repaired_code := Some plan\<rparr>) es)"
      "decided lp run es (budget_check lp (run1\<lparr>rn_refined_specs := q\<rparr>) es)" for plan q
      using False same ne r by (auto intro!: decided_budget)
    ultimately show ?thesis by (simp split: diagnosis_class.split sum.split)
  qed
qed

section \<open>The loop invariant\<close>

definition loop_inv :: "cegis_env \<Rightarrow> cegis_loop_cfg \<Rightarrow> nat \<Rightarrow> cegis_state \<Rightarrow> bool" where
  "loop_inv ev lp n st \<longleftrightarrow>
     length (rn_iterations (cs_run st)) = n
     \<and> list_all (outcome_ok ev lp) (rn_outcomes (cs_run st))
     \<and> map te_kind (cs_events st) = concat (replicate n (iteration_kinds lp))"

definition stopped :: "cegis_state \<Rightarrow> bool" where
  "stopped st \<longleftrightarrow>
     (\<exists>why. rn_stop_reason (cs_run st) = Some why \<and> why \<noteq> ''loop_completed''
        \<and> (why = ''verified'' \<longleftrightarrow> any_verified (cs_run st)))"

lemma any_verified_same: "same_run run es st \<Longrightarrow> any_verified (cs_run st) = any_verified run"
  by (simp add: same_run_def any_verified_def)

lemma loop_inv_same:
  "same_run run es st \<Longrightarrow> loop_inv ev lp n \<lparr>cs_run = run, cs_events = es\<rparr> \<Longrightarrow> loop_inv ev lp n st"
  by (simp add: same_run_def loop_inv_def)

lemma judge_candidates_inv:
  assumes inv: "loop_inv ev lp n \<lparr>cs_run = run, cs_events = es0\<rparr>"
    and kinds: "map te_kind es = map te_kind es0
      @ replicate (max (sc_samples (cg_synthesis (cl_cfg lp))) 1) SYNTH_SAMPLE"
  obtains run' es' where
    "judge_candidates ev lp inp i cands stats run es = Some (decide ev lp inp i run' es')"
    "loop_inv ev lp (Suc n) \<lparr>cs_run = run', cs_events = es'\<rparr>"
    "rn_stop_reason run' = rn_stop_reason run"
    "rn_total_cost_usd run' = rn_total_cost_usd run"
proof -
  let ?rs = "critique_all (ev_dec_critique ev) (ev_critique_tpl ev) (cl_critic lp) (ev_critic ev i)
               cands (ci_intent inp) (ci_description inp)"
  define fo where "fo = \<lparr>fo_kept = filter (accepted (ck_cfg (cl_critic lp))) (zip cands ?rs),
       fo_dropped = filter (\<lambda>cr. \<not> accepted (ck_cfg (cl_critic lp)) cr) (zip cands ?rs)\<rparr>"
  have fo: "filter_accepted (ck_cfg (cl_critic lp)) cands ?rs = Some fo"
    unfolding fo_def by (rule filter_accepted_eq) simp
  have kept: "list_all (accepted (ck_cfg (cl_critic lp))) (fo_kept fo)"
    by (simp add: fo_def list_all_iff)
  have ok0: "list_all (outcome_ok ev lp) (rn_outcomes run @ snd (gate_loop ev lp i 0 (fo_kept fo)))"
    using inv gate_loop_dropped[OF kept] by (simp add: loop_inv_def)
  have "\<forall>(c, r, cov)\<in>set (fst (gate_loop ev lp i 0 (fo_kept fo))).
      accepted (ck_cfg (cl_critic lp)) (c, r)
      \<and> (\<exists>i j. cov = map_option (\<lambda>g. g i j c) (ev_mutation_gate ev))
      \<and> \<not> (case cov of Some v \<Rightarrow> flt v (cl_mutation_min lp) | None \<Rightarrow> False)"
    using gate_loop_survivors[of ev lp i 0 "fo_kept fo"] kept unfolding list_all_iff by fast
  from dispatch_survivors_ok[OF this ok0]
  have ok: "list_all (outcome_ok ev lp) (snd (dispatch_survivors ev i 0
      (fst (gate_loop ev lp i 0 (fo_kept fo))) st
      (rn_outcomes run @ snd (gate_loop ev lp i 0 (fo_kept fo)))))" for st by blast
  have conc: "concat (replicate (Suc n) (iteration_kinds lp))
      = concat (replicate n (iteration_kinds lp)) @ iteration_kinds lp"
    by (induction n) simp_all
  show ?thesis
    apply (rule that)
       apply (simp only: judge_candidates_def Let_def fo option.case)
      apply (simp add: loop_inv_def ok kinds conc del: replicate.simps)
    using inv apply (simp_all add: loop_inv_def iteration_kinds_def)
    done
qed

lemma synthesize_samples:
  "synthesize dv d1 answer tpl a b c d e f cfg = Inr rep \<Longrightarrow> length (sr_samples rep) = max (sc_samples cfg) 1"
  "synthesize dv d1 answer tpl a b c d e f cfg = Inl err \<Longrightarrow> \<exists>p. err = SynPrompt p \<and> render_prompt tpl a b c d e f = Inl p"
proof -
  have r0: "report_ok empty_report" by (simp add: report_ok_def empty_report_def)
  assume "synthesize dv d1 answer tpl a b c d e f cfg = Inr rep"
  then obtain t where rep: "rep = fold (add_outcome (parse_candidates dv d1))
       (map (\<lambda>i. (i, cr_temperature (synthesis_request cfg t i), answer i (synthesis_request cfg t i)))
          [0..<max (sc_samples cfg) 1]) empty_report"
    by (auto simp: synthesize_def Let_def split: sum.splits)
  have "length (map ss_index (sr_samples rep)) = max (sc_samples cfg) 1"
    unfolding rep using fold_add_outcome[OF r0] by (simp add: empty_report_def)
  then show "length (sr_samples rep) = max (sc_samples cfg) 1" by simp
next
  assume "synthesize dv d1 answer tpl a b c d e f cfg = Inl err"
  then show "\<exists>p. err = SynPrompt p \<and> render_prompt tpl a b c d e f = Inl p"
    by (auto simp: synthesize_def Let_def split: sum.splits)
qed

definition prompt_of :: "cegis_env \<Rightarrow> cegis_input \<Rightarrow> prompt_error + string" where
  "prompt_of ev inp =
     render_prompt (ev_synthesize_tpl ev) (ci_intent inp) (ci_methods inp) (ci_analysis inp) (ci_hints inp)
       (ci_source inp) (ci_scaffold inp)"

lemma cegis_iteration_inv:
  assumes inv: "loop_inv ev lp n st"
  shows "case cegis_iteration ev lp inp i st of
           None \<Rightarrow> False
         | Some (IterError (CeSynthesis e)) \<Rightarrow> (\<exists>p. e = SynPrompt p \<and> prompt_of ev inp = Inl p)
         | Some (IterStop st') \<Rightarrow> loop_inv ev lp (Suc n) st' \<and> stopped st'
         | Some (IterNext st') \<Rightarrow> loop_inv ev lp (Suc n) st' \<and> rn_stop_reason (cs_run st') = rn_stop_reason (cs_run st)
             \<and> \<not> any_verified (cs_run st')
             \<and> \<not> fle (cg_cost_budget_usd (cl_cfg lp)) (rn_total_cost_usd (cs_run st'))
             \<and> diagnosed_cex (rn_outcomes (cs_run st')) \<noteq> None"
proof (cases "synthesize (ev_dec_specs ev) (ev_dec_spec ev) (ev_synth ev i) (ev_synthesize_tpl ev)
             (ci_intent inp) (ci_methods inp) (ci_analysis inp) (ci_hints inp) (ci_source inp) (ci_scaffold inp)
             (cg_synthesis (cl_cfg lp))")
  case (Inl e)
  with synthesize_samples(2)[OF Inl] show ?thesis
    by (simp add: cegis_iteration_def prompt_of_def)
next
  case (Inr synth)
  obtain stats usd es where acc: "account_samples ev lp i (sr_samples synth)
      ((fresh_stats i)\<lparr>it_synthesized := length (sr_candidates synth)\<rparr>)
      (rn_total_cost_usd (cs_run st)) (cs_events st) = (stats, usd, es)"
    by (metis prod_cases3)
  have kinds: "map te_kind es = map te_kind (cs_events st)
      @ replicate (max (sc_samples (cg_synthesis (cl_cfg lp))) 1) SYNTH_SAMPLE"
    using account_samples_kinds[OF acc] synthesize_samples(1)[OF Inr] by simp
  have inv': "loop_inv ev lp n \<lparr>cs_run = (cs_run st)\<lparr>rn_total_cost_usd := usd\<rparr>, cs_events = cs_events st\<rparr>"
    using inv by (simp add: loop_inv_def)
  from judge_candidates_inv[OF inv' kinds] obtain run' es' where
    j: "judge_candidates ev lp inp i (sr_candidates synth) stats ((cs_run st)\<lparr>rn_total_cost_usd := usd\<rparr>) es
        = Some (decide ev lp inp i run' es')"
    and li: "loop_inv ev lp (Suc n) \<lparr>cs_run = run', cs_events = es'\<rparr>"
    and sr: "rn_stop_reason run' = rn_stop_reason (cs_run st)"
    by (metis (no_types, lifting) cegis_run.select_convs(4) cegis_run.surjective cegis_run.update_convs(3))
  have it: "cegis_iteration ev lp inp i st = Some (decide ev lp inp i run' es')"
    using Inr acc j by (simp add: cegis_iteration_def)
  have d: "decided lp run' es' (decide ev lp inp i run' es')" by (rule decide_decided)
  show ?thesis
  proof (cases "decide ev lp inp i run' es'")
    case (IterError e)
    with d show ?thesis by (simp add: decided_def)
  next
    case (IterStop st')
    with d have "same_run run' es' st'" by (simp add: decided_def)
    from loop_inv_same[OF this li] any_verified_same[OF this] d IterStop show ?thesis
      by (simp add: it decided_def stopped_def)
  next
    case (IterNext st')
    with d have s: "same_run run' es' st'" by (simp add: decided_def)
    then have "rn_outcomes (cs_run st') = rn_outcomes run'"
      "rn_total_cost_usd (cs_run st') = rn_total_cost_usd run'" by (simp_all add: same_run_def)
    with loop_inv_same[OF s li] any_verified_same[OF s] d IterNext sr show ?thesis
      by (simp add: it decided_def)
  qed
qed

lemma cegis_loop_inv:
  assumes "loop_inv ev lp i st" "rn_stop_reason (cs_run st) = None" "\<not> any_verified (cs_run st)"
    "i \<le> cg_max_iterations (cl_cfg lp)"
  shows "case cegis_loop ev lp inp i st of
           None \<Rightarrow> False
         | Some (Inl (CeSynthesis e)) \<Rightarrow> (\<exists>p. e = SynPrompt p \<and> prompt_of ev inp = Inl p)
         | Some (Inr (k, st')) \<Rightarrow>
             (\<exists>n. n \<le> cg_max_iterations (cl_cfg lp) \<and> loop_inv ev lp n st' \<and> stopped st')"
  using assms
proof (induction ev lp inp i st rule: cegis_loop.induct)
  case (1 ev lp inp i st)
  show ?case
  proof (cases "cg_max_iterations (cl_cfg lp) \<le> i")
    case True
    then have e: "cegis_loop ev lp inp i st = Some (Inr (i, st\<lparr>cs_run := (cs_run st)\<lparr>rn_stop_reason :=
        Some (''max_iterations ('' @ show_nat (cg_max_iterations (cl_cfg lp)) @ '')'')\<rparr>\<rparr>))"
      by (simp add: cegis_loop.simps[of ev lp inp i st])
    show ?thesis
      unfolding e option.case sum.case prod.case
      using "1.prems" by (intro exI[of _ i]) (simp add: loop_inv_def stopped_def any_verified_def)
  next
    case False
    note it = cegis_iteration_inv[OF "1.prems"(1), of inp i]
    show ?thesis
    proof (cases "cegis_iteration ev lp inp i st")
      case None
      with it show ?thesis by simp
    next
      case (Some res)
      show ?thesis
      proof (cases res)
        case (IterError e)
        then show ?thesis using it Some False
          by (cases e) (simp add: cegis_loop.simps[of ev lp inp i st])
      next
        case (IterStop st')
        then show ?thesis using it Some False
          by (auto simp: cegis_loop.simps[of ev lp inp i st] intro!: exI[of _ "Suc i"])
      next
        case (IterNext st')
        with it Some have "loop_inv ev lp (Suc i) st'" "rn_stop_reason (cs_run st') = None" "\<not> any_verified (cs_run st')"
          using "1.prems"(2) by simp_all
        with "1.IH"[OF False Some IterNext] False Some IterNext show ?thesis
          by (simp add: cegis_loop.simps[of ev lp inp i st])
      qed
    qed
  qed
qed

lemma run_with_description_inv:
  "case run_with_description ev lp inp of
     None \<Rightarrow> False
   | Some (Inl (CeSynthesis e)) \<Rightarrow> (\<exists>p. e = SynPrompt p \<and> prompt_of ev inp = Inl p)
   | Some (Inr st) \<Rightarrow> (\<exists>n. n \<le> cg_max_iterations (cl_cfg lp)
       \<and> length (rn_iterations (cs_run st)) = n
       \<and> list_all (outcome_ok ev lp) (rn_outcomes (cs_run st))
       \<and> map te_kind (cs_events st) = concat (replicate n (iteration_kinds lp)) @ [COST, RUN_COMPLETE]
       \<and> stopped st)"
proof -
  let ?st = "\<lparr>cs_run = empty_run, cs_events = []\<rparr>"
  have "loop_inv ev lp 0 ?st" "rn_stop_reason (cs_run ?st) = None" "\<not> any_verified (cs_run ?st)"
    by (simp_all add: loop_inv_def empty_run_def any_verified_def)
  note li = cegis_loop_inv[OF this, of inp]
  show ?thesis
  proof (cases "cegis_loop ev lp inp 0 ?st")
    case None
    with li show ?thesis by simp
  next
    case (Some r)
    show ?thesis
    proof (cases r)
      case (Inl e)
      with li Some show ?thesis by (cases e) (simp add: run_with_description_def)
    next
      case (Inr ist)
      obtain k st' where ist: "ist = (k, st')" by (cases ist)
      from li Some Inr ist obtain n where n: "n \<le> cg_max_iterations (cl_cfg lp)" "loop_inv ev lp n st'" "stopped st'"
        by auto
      then obtain why where why: "rn_stop_reason (cs_run st') = Some why" by (auto simp: stopped_def)
      have "cs_run (finish_run ev lp ist) = cs_run st'"
        "map te_kind (cs_events (finish_run ev lp ist)) = map te_kind (cs_events st') @ [COST, RUN_COMPLETE]"
        by (simp_all add: finish_run_def ist why Let_def)
      with n Some Inr show ?thesis
        by (simp add: run_with_description_def loop_inv_def stopped_def)
    qed
  qed
qed

lemma find_cex_Some:
  "find_cex xs = Some (c, m) \<longleftrightarrow>
     (\<exists>us x vs. xs = us @ x # vs \<and> list_all (\<lambda>y. \<not> is_counterexample (cn_verdict y)) us
        \<and> cn_verdict x = VvCounterexample m \<and> cn_candidate x = c)"
proof (induction xs)
  case Nil
  then show ?case by simp
next
  case (Cons a xs)
  show ?case
  proof (cases "is_counterexample (cn_verdict a)")
    case True
    then obtain k where k: "cn_verdict a = VvCounterexample k" by (cases "cn_verdict a") auto
    have "(\<exists>us x vs. a # xs = us @ x # vs \<and> list_all (\<lambda>y. \<not> is_counterexample (cn_verdict y)) us
        \<and> cn_verdict x = VvCounterexample m \<and> cn_candidate x = c) \<longleftrightarrow> cn_candidate a = c \<and> k = m"
      (is "?L = ?R")
    proof
      assume ?L
      then obtain us x vs where u: "a # xs = us @ x # vs" "list_all (\<lambda>y. \<not> is_counterexample (cn_verdict y)) us"
        "cn_verdict x = VvCounterexample m" "cn_candidate x = c" by blast
      with True have "us = []" by (cases us) auto
      with u k show ?R by simp
    next
      assume ?R
      with k show ?L by (intro exI[of _ "[]"] exI[of _ a] exI[of _ xs]) simp
    qed
    with k show ?thesis by auto
  next
    case False
    then have "find_cex (a # xs) = find_cex xs" by (cases "cn_verdict a") simp_all
    moreover have "(\<exists>us x vs. a # xs = us @ x # vs \<and> list_all (\<lambda>y. \<not> is_counterexample (cn_verdict y)) us
        \<and> cn_verdict x = VvCounterexample m \<and> cn_candidate x = c) \<longleftrightarrow>
      (\<exists>us x vs. xs = us @ x # vs \<and> list_all (\<lambda>y. \<not> is_counterexample (cn_verdict y)) us
        \<and> cn_verdict x = VvCounterexample m \<and> cn_candidate x = c)" (is "?L = ?R")
    proof
      assume ?L
      then obtain us x vs where u: "a # xs = us @ x # vs" "list_all (\<lambda>y. \<not> is_counterexample (cn_verdict y)) us"
        "cn_verdict x = VvCounterexample m" "cn_candidate x = c" by blast
      with False obtain us' where "us = a # us'" by (cases us) auto
      with u show ?R by (intro exI[of _ us'] exI[of _ x] exI[of _ vs]) simp
    next
      assume ?R
      then obtain us x vs where "xs = us @ x # vs" "list_all (\<lambda>y. \<not> is_counterexample (cn_verdict y)) us"
        "cn_verdict x = VvCounterexample m" "cn_candidate x = c" by blast
      with False show ?L by (intro exI[of _ "a # us"] exI[of _ x] exI[of _ vs]) simp
    qed
    ultimately show ?thesis using Cons.IH by simp
  qed
qed

lemma diagnosed_cex_Some:
  "diagnosed_cex outs = Some (c, m) \<longleftrightarrow>
     (\<exists>us x vs. outs = us @ x # vs \<and> list_all (\<lambda>y. \<not> is_counterexample (cn_verdict y)) vs
        \<and> cn_verdict x = VvCounterexample m \<and> cn_candidate x = c)"
  unfolding diagnosed_cex_def find_cex_Some
proof
  assume "\<exists>us x vs. rev outs = us @ x # vs \<and> list_all (\<lambda>y. \<not> is_counterexample (cn_verdict y)) us
        \<and> cn_verdict x = VvCounterexample m \<and> cn_candidate x = c"
  then obtain us x vs where u: "rev outs = us @ x # vs" "list_all (\<lambda>y. \<not> is_counterexample (cn_verdict y)) us"
    "cn_verdict x = VvCounterexample m" "cn_candidate x = c" by blast
  from u(1) have "outs = rev vs @ x # rev us" by (metis append.assoc append_Cons append_Nil rev.simps(2) rev_append rev_rev_ident)
  with u show "\<exists>us x vs. outs = us @ x # vs \<and> list_all (\<lambda>y. \<not> is_counterexample (cn_verdict y)) vs
        \<and> cn_verdict x = VvCounterexample m \<and> cn_candidate x = c"
    by (intro exI[of _ "rev vs"] exI[of _ x] exI[of _ "rev us"]) (simp add: list_all_iff)
next
  assume "\<exists>us x vs. outs = us @ x # vs \<and> list_all (\<lambda>y. \<not> is_counterexample (cn_verdict y)) vs
        \<and> cn_verdict x = VvCounterexample m \<and> cn_candidate x = c"
  then obtain us x vs where u: "outs = us @ x # vs" "list_all (\<lambda>y. \<not> is_counterexample (cn_verdict y)) vs"
    "cn_verdict x = VvCounterexample m" "cn_candidate x = c" by blast
  then show "\<exists>us x vs. rev outs = us @ x # vs \<and> list_all (\<lambda>y. \<not> is_counterexample (cn_verdict y)) us
        \<and> cn_verdict x = VvCounterexample m \<and> cn_candidate x = c"
    by (intro exI[of _ "rev vs"] exI[of _ x] exI[of _ "rev us"]) (simp add: list_all_iff)
qed

section \<open>Properties\<close>


text \<open>C5: No candidate reaches the verifier unvetted: every outcome of a run is of a candidate the critic
  accepted on all axes; it was scored by the mutation gate when there is one; if its coverage is below
  the minimum its verdict is NotRun, and otherwise the verdict is what the verifier answered for it.\<close>

theorem cegis_outcomes_vetted:
  "case run_with_description ev lp inp of
     Some (Inr st) \<Rightarrow> list_all (outcome_ok ev lp) (rn_outcomes (cs_run st))
   | Some (Inl e) \<Rightarrow> \<exists>p. e = CeSynthesis (SynPrompt p) \<and> prompt_of ev inp = Inl p
   | None \<Rightarrow> False"
  using run_with_description_inv[where ev = ev and lp = lp and inp = inp]
  by (auto split: option.splits sum.splits cegis_error.splits)

text \<open>The loop goes on to another iteration only if nothing in the whole run is Verified, the cost so
  far is below the budget, and some outcome is a counterexample; the one it diagnosed is the latest
  counterexample of the run (of an earlier iteration if this one found none), and the diagnosis was a
  code bug that got a repair plan or a spec bug that got a refined spec.\<close>

theorem cegis_continues_only_undecided:
  "case decide ev lp inp i run es of
     IterError e \<Rightarrow> False
   | IterStop st \<Rightarrow> rn_stop_reason (cs_run st) \<noteq> None \<and> rn_outcomes (cs_run st) = rn_outcomes run
   | IterNext st \<Rightarrow>
       rn_outcomes (cs_run st) = rn_outcomes run
       \<and> \<not> list_ex (\<lambda>x. is_verified (cn_verdict x)) (rn_outcomes run)
       \<and> \<not> fle (cg_cost_budget_usd (cl_cfg lp)) (rn_total_cost_usd (cs_run st))
       \<and> (\<exists>us x vs m d. rn_outcomes run = us @ x # vs
            \<and> list_all (\<lambda>y. \<not> is_counterexample (cn_verdict y)) vs
            \<and> cn_verdict x = VvCounterexample m
            \<and> d = diagnose (ev_dec_diagnosis ev) (ev_diagnose_tpl ev) (cl_diagnosis lp) (ev_diagnose ev i)
                    (ci_intent inp) (spec_source_blob (cn_candidate x)) m
            \<and> rn_final_diagnosis (cs_run st) = Some d
            \<and> (dg_class d = CodeBug \<and> rn_repaired_code (cs_run st) \<noteq> None
               \<or> dg_class d = SpecBug \<and> length (rn_refined_specs (cs_run st)) = length (rn_refined_specs run) + 1))"
proof (cases "decide ev lp inp i run es")
  case (IterError e)
  with decide_decided[of lp run es ev inp i] show ?thesis by (simp add: decided_def)
next
  case (IterStop st)
  with decide_decided[of lp run es ev inp i] show ?thesis by (auto simp: decided_def same_run_def)
next
  case (IterNext st)
  with decide_decided[of lp run es ev inp i]
  have d: "same_run run es st" "\<not> any_verified run"
    "\<not> fle (cg_cost_budget_usd (cl_cfg lp)) (rn_total_cost_usd run)" "diagnosed_cex (rn_outcomes run) \<noteq> None"
    by (simp_all add: decided_def)
  then obtain c m where cm: "diagnosed_cex (rn_outcomes run) = Some (c, m)" by auto
  then obtain us x vs where x: "rn_outcomes run = us @ x # vs"
    "list_all (\<lambda>y. \<not> is_counterexample (cn_verdict y)) vs" "cn_verdict x = VvCounterexample m" "cn_candidate x = c"
    unfolding diagnosed_cex_Some by blast
  let ?d = "diagnose (ev_dec_diagnosis ev) (ev_diagnose_tpl ev) (cl_diagnosis lp) (ev_diagnose ev i)
                    (ci_intent inp) (spec_source_blob c) m"
  have nv: "\<not> list_ex (\<lambda>x. is_verified (cn_verdict x)) (rn_outcomes run)"
    using d(2) by (simp add: any_verified_def)
  have "rn_final_diagnosis (cs_run st) = Some ?d
      \<and> (dg_class ?d = CodeBug \<and> rn_repaired_code (cs_run st) \<noteq> None
         \<or> dg_class ?d = SpecBug \<and> length (rn_refined_specs (cs_run st)) = length (rn_refined_specs run) + 1)"
    using IterNext nv unfolding decide_def cm
    by (auto simp: Let_def stop_with_def budget_check_def split: diagnosis_class.splits sum.splits if_splits)
  with x have rest: "\<exists>us x vs m d. rn_outcomes run = us @ x # vs
      \<and> list_all (\<lambda>y. \<not> is_counterexample (cn_verdict y)) vs
      \<and> cn_verdict x = VvCounterexample m
      \<and> d = diagnose (ev_dec_diagnosis ev) (ev_diagnose_tpl ev) (cl_diagnosis lp) (ev_diagnose ev i)
              (ci_intent inp) (spec_source_blob (cn_candidate x)) m
      \<and> rn_final_diagnosis (cs_run st) = Some d
      \<and> (dg_class d = CodeBug \<and> rn_repaired_code (cs_run st) \<noteq> None
         \<or> dg_class d = SpecBug \<and> length (rn_refined_specs (cs_run st)) = length (rn_refined_specs run) + 1)"
    by (intro exI[of _ us] exI[of _ x] exI[of _ vs] exI[of _ m] exI[of _ ?d]) simp
  have "rn_outcomes (cs_run st) = rn_outcomes run"
    "\<not> fle (cg_cost_budget_usd (cl_cfg lp)) (rn_total_cost_usd (cs_run st))"
    using d by (simp_all add: same_run_def)
  then show ?thesis
    unfolding IterNext iteration_result.case by (intro conjI nv rest)
qed

end
