(* ===== verification/Dispatcher.thy ===== *)
theory Dispatcher
  imports Portfolio Cegis Layout
begin

text \<open>
  The dispatcher between the CEGIS loop and the portfolio (\<open>HalmosDispatcher\<close> in
  \<open>crates/vergil-cli/src/commands/intent.rs\<close>): a candidate is rendered into the scaffold, written as
  the test file of the project, and the portfolio runs on the project. Halmos compiles that file, so
  its environment depends on the text that was written; solc is handed only the source it is to check.
\<close>

record dispatcher =
  hd_project :: string
  hd_scaffold :: string
  hd_budget_ms :: u64
  hd_smtchecker_source :: "string option"

definition dispatcher_new :: "string \<Rightarrow> string \<Rightarrow> u64 \<Rightarrow> dispatcher" where
  "dispatcher_new project scaffold budget =
     \<lparr>hd_project = project, hd_scaffold = scaffold, hd_budget_ms = budget, hd_smtchecker_source = None\<rparr>"

definition with_smtchecker_source :: "dispatcher \<Rightarrow> string \<Rightarrow> dispatcher" where
  "with_smtchecker_source dp p = dp\<lparr>hd_smtchecker_source := Some p\<rparr>"

definition check_fn_mark :: string where "check_fn_mark = ''{{CHECK_FN}}''"

definition name_mark :: string where "name_mark = ''{{NAME}}''"

definition render_spec :: "dispatcher \<Rightarrow> spec_candidate \<Rightarrow> string" where
  "render_spec dp spec =
     replace_str name_mark (sp_name spec) (replace_str check_fn_mark (sp_halmos spec) (hd_scaffold dp))"

text \<open>
  One dispatch meets an environment: the answers of the file system, the entries of \<open>src\<close> if it can
  be listed, Halmos on a project with the given test file, solc, the content of the persist directory,
  panics of the two tasks, and which back end is found finished first.
\<close>

record dispatch_env =
  de_mkdir :: "string \<Rightarrow> string option"
  de_write :: write_oracle
  de_src_entries :: "string list option"
  de_halmos :: "string \<Rightarrow> halmos_env"
  de_smt :: smt_env
  de_persisted :: "string \<rightharpoonup> string"
  de_halmos_panic :: "string option"
  de_smt_panic :: "string option"
  de_halmos_first :: bool

definition is_sol :: "string \<Rightarrow> bool" where
  "is_sol p = (path_extension p = Some ''sol'')"

definition default_smtchecker_source :: "dispatch_env \<Rightarrow> dispatcher \<Rightarrow> string" where
  "default_smtchecker_source env dp =
     (case hd_smtchecker_source dp of
        Some p \<Rightarrow> p
      | None \<Rightarrow>
          (let src = path_join (hd_project dp) ''src'' in
           case de_src_entries env of
             None \<Rightarrow> path_join src ''Token.sol''
           | Some es \<Rightarrow> (case find is_sol es of Some p \<Rightarrow> p | None \<Rightarrow> path_join src ''Token.sol'')))"

definition dispatch_config :: "dispatch_env \<Rightarrow> dispatcher \<Rightarrow> spec_candidate \<Rightarrow> portfolio_config" where
  "dispatch_config env dp spec =
     \<lparr>pc_project = hd_project dp, pc_property = sp_name spec,
      pc_smtchecker_source = default_smtchecker_source env dp, pc_budget_ms = hd_budget_ms dp,
      pc_capture_smt_queries = True,
      pc_smt_persist_dir = Some (path_join (path_join (hd_project dp) ''vergil-out'') ''smt'')\<rparr>"

fun backend_debug :: "backend \<Rightarrow> string" where
  "backend_debug BHalmos = ''Halmos''"
| "backend_debug BSmtChecker = ''SmtChecker''"

fun backend_label :: "backend \<Rightarrow> string" where
  "backend_label BHalmos = ''halmos''"
| "backend_label BSmtChecker = ''smtchecker''"

definition summarize_backends :: "backend_outcome list \<Rightarrow> string" where
  "summarize_backends bs = join ''; '' (map (\<lambda>b. backend_debug (bo_backend b) @ ''='' @ bo_detail b) bs)"

fun verdict_of_portfolio :: "verdict \<Rightarrow> verifier_verdict" where
  "verdict_of_portfolio (VVerified b ms sha) = VvVerified (backend_label b) sha"
| "verdict_of_portfolio (VCounterexample b property message ms) = VvCounterexample (property @ '': '' @ message)"
| "verdict_of_portfolio (VUnknown bs) = VvUnknown (summarize_backends bs)"
| "verdict_of_portfolio (VError bs) = VvError (summarize_backends bs)"

definition cegis_test_file :: "dispatcher \<Rightarrow> string" where
  "cegis_test_file dp = path_join (path_join (hd_project dp) ''test'') ''CegisProperties.t.sol''"

definition run_portfolio :: "dispatch_env \<Rightarrow> dispatcher \<Rightarrow> spec_candidate \<Rightarrow> verdict" where
  "run_portfolio env dp spec =
     pr_verdict (portfolio_dispatch (de_halmos env (render_spec dp spec)) (de_smt env) path_parent
       (de_persisted env) (de_halmos_panic env) (de_smt_panic env) (de_halmos_first env)
       (dispatch_config env dp spec))"

definition dispatch_spec :: "dispatch_env \<Rightarrow> dispatcher \<Rightarrow> spec_candidate \<Rightarrow> disk \<Rightarrow> verifier_verdict \<times> disk" where
  "dispatch_spec env dp spec d =
     (let test_dir = path_join (hd_project dp) ''test''; file = cegis_test_file dp in
      case de_mkdir env test_dir of
        Some e \<Rightarrow> (VvError (''mkdir '' @ test_dir @ '': '' @ e), d)
      | None \<Rightarrow>
          (case fs_write (de_write env) file (render_spec dp spec) d of
             (Some e, d1) \<Rightarrow> (VvError (''write '' @ file @ '': '' @ e), d1)
           | (None, d1) \<Rightarrow> (verdict_of_portfolio (run_portfolio env dp spec), d1)))"

section \<open>Where a verdict comes from\<close>

text \<open>
  The evidence behind a Verified verdict: the console output of Halmos on the file with this
  specification, or solc's diagnostics on the source of the contract.
\<close>

definition halmos_evidence :: "dispatch_env \<Rightarrow> dispatcher \<Rightarrow> spec_candidate \<Rightarrow> bool" where
  "halmos_evidence env dp spec \<longleftrightarrow>
     de_halmos_panic env = None
     \<and> (\<exists>args out err. env_child (de_halmos env (render_spec dp spec)) args (hd_budget_ms dp) = ChildOutput out err
          \<and> \<not> build_failed (strip_ansi (out @ err)) \<and> has_status ''PASS'' (strip_ansi (out @ err)))"

definition smt_evidence :: "dispatch_env \<Rightarrow> dispatcher \<Rightarrow> bool" where
  "smt_evidence env dp \<longleftrightarrow>
     de_smt_panic env = None
     \<and> (\<exists>content input out ms ds. se_read (de_smt env) (default_smtchecker_source env dp) = Inr content
          \<and> se_child (de_smt env) input (hd_budget_ms dp) = SolcOutput out ms
          \<and> se_decode (de_smt env) out = Inr ds
          \<and> \<not> list_ex hard_error ds \<and> \<not> list_ex adverse ds \<and> list_ex chc_diag ds)"

lemma dispatch_Verified:
  assumes "dispatch_spec env dp spec d = (VvVerified b sha, d')"
  shows "b = ''halmos'' \<and> halmos_evidence env dp spec \<or> b = ''smtchecker'' \<and> smt_evidence env dp"
proof -
  from assms have v: "verdict_of_portfolio (run_portfolio env dp spec) = VvVerified b sha"
    by (auto simp: dispatch_spec_def Let_def split: option.splits prod.splits)
  then obtain bk ms where bk: "run_portfolio env dp spec = VVerified bk ms sha" "b = backend_label bk"
    by (cases "run_portfolio env dp spec") auto
  note S = portfolio_verified_source[where henv = "de_halmos env (render_spec dp spec)" and senv = "de_smt env"
      and parent = path_parent and dest = "de_persisted env" and hpanic = "de_halmos_panic env"
      and spanic = "de_smt_panic env" and halmos_first = "de_halmos_first env" and c = "dispatch_config env dp spec",
      folded run_portfolio_def, unfolded bk(1)]
  show ?thesis
  proof (cases bk)
    case BHalmos
    with S bk show ?thesis by (auto simp: halmos_evidence_def dispatch_config_def)
  next
    case BSmtChecker
    with S bk show ?thesis by (auto simp: smt_evidence_def dispatch_config_def)
  qed
qed

lemma pc_property_dispatch: "pc_property (dispatch_config env dp spec) = sp_name spec"
  by (simp add: dispatch_config_def)

lemma smt_task_ignores_spec:
  "smt_task_cfg parent (dispatch_config env dp spec) = smt_task_cfg parent (dispatch_config env dp spec')"
  by (simp add: smt_task_cfg_def dispatch_config_def Let_def)

lemma dispatch_smt_first:
  assumes "de_mkdir env (path_join (hd_project dp) ''test'') = None" and "de_write env (dk_writes d) = None"
    and "de_smt_panic env = None" and "\<not> de_halmos_first env"
    and "smt_exec (de_smt env) (smt_task_cfg path_parent (dispatch_config env dp spec)) = SVerified n ms sha"
  shows "fst (dispatch_spec env dp spec d) = VvVerified ''smtchecker'' sha"
proof -
  have "run_portfolio env dp spec = VVerified BSmtChecker ms sha"
    using assms(3-5)
    by (simp add: run_portfolio_def portfolio_dispatch_def Let_def dispatch_loop_def smt_branch_def select_start_def
        aggregate_def try_definitive_def outcome_def)
  with assms(1,2) show ?thesis by (simp add: dispatch_spec_def Let_def fs_write_def)
qed

text \<open>C3: The verdict of SMTChecker says nothing of the property: solc gets the contract's source only, so when
  SMTChecker finishes first and one candidate is reported verified by it, every other candidate, the
  negation of the first included, is reported verified with the same digest.\<close>

theorem smtchecker_verdict_ignores_spec:
  assumes "fst (dispatch_spec env dp spec d) = VvVerified ''smtchecker'' sha" and "\<not> de_halmos_first env"
  shows "fst (dispatch_spec env dp spec' d) = VvVerified ''smtchecker'' sha"
proof -
  let ?s = "smt_exec (de_smt env) (smt_task_cfg path_parent (dispatch_config env dp spec))"
  from assms(1) have ops: "de_mkdir env (path_join (hd_project dp) ''test'') = None" "de_write env (dk_writes d) = None"
    and v: "verdict_of_portfolio (run_portfolio env dp spec) = VvVerified ''smtchecker'' sha"
    by (auto simp: dispatch_spec_def Let_def fs_write_def split: option.splits prod.splits)
  from v obtain ms where "run_portfolio env dp spec = VVerified BSmtChecker ms sha"
    by (cases "run_portfolio env dp spec"; cases "case run_portfolio env dp spec of VVerified b _ _ \<Rightarrow> b") auto
  then have "portfolio_spec False (sp_name spec)
      (case de_halmos_panic env of Some e \<Rightarrow> Inl e | None \<Rightarrow> Inr (fst (halmos_exec (de_halmos env (render_spec dp spec))
         (halmos_task_cfg (dispatch_config env dp spec)) (de_persisted env))))
      (case de_smt_panic env of Some e \<Rightarrow> Inl e | None \<Rightarrow> Inr ?s) = VVerified BSmtChecker ms sha"
    using assms(2)
    by (simp add: run_portfolio_def portfolio_dispatch_def Let_def aggregate_dispatch_loop pc_property_dispatch)
  from portfolio_spec_Verified[OF this]
  obtain n where "de_smt_panic env = None" "?s = SVerified n ms sha"
    unfolding definitive_of_halmos_Verified definitive_of_smt_Verified by (auto split: option.splits)
  then show ?thesis
    using dispatch_smt_first[OF ops(1,2) _ assms(2)] smt_task_ignores_spec[of path_parent env dp spec' spec] by metis
qed

definition demo_dispatch_env :: dispatch_env where
  "demo_dispatch_env =
     \<lparr>de_mkdir = (\<lambda>_. None), de_write = (\<lambda>_. None), de_src_entries = Some [''p/src/C.sol''],
      de_halmos = (\<lambda>body. \<lparr>env_is_file = (\<lambda>_. False), env_mkdir = (\<lambda>_. True), env_temp_dir = [], env_pid = 1,
        env_child = (\<lambda>_ _. ChildElapsed), env_dump = (\<lambda>_. FileN None), env_sha = (\<lambda>_. []), env_write = (\<lambda>_. True)\<rparr>),
      de_smt = demo_smt_env, de_persisted = (\<lambda>_. None), de_halmos_panic = None, de_smt_panic = None,
      de_halmos_first = False\<rparr>"

definition demo_spec :: "string \<Rightarrow> spec_candidate" where
  "demo_spec body =
     \<lparr>sp_name = ''check_p'', sp_halmos = body, sp_smtchecker = [], sp_template_ref = None,
      sp_intent_satisfied = True, sp_source = UserIntent, sp_intent_text = None\<rparr>"

definition demo_dispatcher :: dispatcher where
  "demo_dispatcher = dispatcher_new ''p'' ''contract CegisProperties { {{CHECK_FN}} }'' 1000"

lemma demo_smt_verified:
  "fst (dispatch_spec demo_dispatch_env demo_dispatcher (demo_spec ''assert(false);'') \<lparr>dk_files = (\<lambda>_. None), dk_writes = 0\<rparr>)
   = VvVerified ''smtchecker'' None"
proof -
  have "classify_diagnostics [\<lparr>sd_severity = ''info'', sd_message = ''CHC: Overflow check is safe!''\<rparr>]
      = SVerified 1 0 None"
    by code_simp
  then have "smt_exec demo_smt_env (smt_task_cfg path_parent (dispatch_config demo_dispatch_env demo_dispatcher
      (demo_spec ''assert(false);''))) = SVerified 1 12 None"
    by (simp add: smt_exec_def smt_finish_def demo_smt_env_def smt_task_cfg_def dispatch_config_def Let_def
        smt_run_new_def sm_with_wall_clock_def sm_with_print_query_def parse_standard_json_def extract_query_hash_def)
  then show ?thesis
    by (intro dispatch_smt_first) (simp_all add: demo_dispatch_env_def)
qed

theorem smtchecker_verdict_ignores_spec_witness:
  "fst (dispatch_spec demo_dispatch_env demo_dispatcher (demo_spec ''assert(true);'') \<lparr>dk_files = (\<lambda>_. None), dk_writes = 0\<rparr>)
   = VvVerified ''smtchecker'' None"
  by (rule smtchecker_verdict_ignores_spec[OF demo_smt_verified]) (simp add: demo_dispatch_env_def)

end
