(* ===== verification/Classify.thy ===== *)
theory Classify
  imports RustFloat Signatures "HOL-Library.Monad_Syntax"
begin

text \<open>
  The classifier of financial primitives (\<open>crates/vergil-properties/src/classify.rs\<close>): eleven detectors
  over the text of the sources, each with its confidence and the signals that drove it. The storage
  layouts are passed along and read by none of the detectors, so the model leaves them out. A window
  of 300 bytes that ends inside a character panics, which is \<open>None\<close>.
\<close>

section \<open>Primitives and matches\<close>

datatype primitive =
    TokenErc20 | TokenErc721 | TokenErc1155 | Vault | LendingMarket | Amm | Vesting | Airdrop
  | Governance | Staking | Bridge | OraclePrimitive | AccessControlledGeneric

fun primitive_id :: "primitive \<Rightarrow> string" where
  "primitive_id TokenErc20 = ''token-erc20''"
| "primitive_id TokenErc721 = ''token-erc721''"
| "primitive_id TokenErc1155 = ''token-erc1155''"
| "primitive_id Vault = ''vault''"
| "primitive_id LendingMarket = ''lending-market''"
| "primitive_id Amm = ''amm''"
| "primitive_id Vesting = ''vesting''"
| "primitive_id Airdrop = ''airdrop''"
| "primitive_id Governance = ''governance''"
| "primitive_id Staking = ''staking''"
| "primitive_id Bridge = ''bridge''"
| "primitive_id OraclePrimitive = ''oracle''"
| "primitive_id AccessControlledGeneric = ''access-controlled-generic''"

definition primitive_all :: "primitive list" where
  "primitive_all =
     [TokenErc20, TokenErc721, TokenErc1155, Vault, LendingMarket, Amm, Vesting, Airdrop, Governance,
      Staking, Bridge, OraclePrimitive, AccessControlledGeneric]"

definition primitive_from_id :: "string \<Rightarrow> primitive option" where
  "primitive_from_id s = List.find (\<lambda>p. primitive_id p = s) primitive_all"

record primitive_match =
  pm_primitive :: primitive
  pm_confidence :: float
  pm_signals :: "string list"

record primitive_classification =
  pc_matches :: "primitive_match list"

text \<open>\<open>max_by\<close> keeps the last of several maxima; two confidences that do not compare count as equal.\<close>

definition later_max :: "primitive_match \<Rightarrow> primitive_match \<Rightarrow> primitive_match" where
  "later_max a b = (if flt (pm_confidence b) (pm_confidence a) then a else b)"

definition classification_top :: "primitive_classification \<Rightarrow> primitive_match option" where
  "classification_top c =
     (case pc_matches c of [] \<Rightarrow> None | m # ms \<Rightarrow> Some (fold (\<lambda>b a. later_max a b) ms m))"

definition classification_above :: "float \<Rightarrow> primitive_classification \<Rightarrow> primitive_match list" where
  "classification_above threshold c = filter (\<lambda>m. fle threshold (pm_confidence m)) (pc_matches c)"

record classify_config =
  clc_min_confidence :: float

definition threshold_06 :: float where "threshold_06 = to_f32 (6 / 10)"

definition classify_config_default :: classify_config where
  "classify_config_default = \<lparr>clc_min_confidence = threshold_06\<rparr>"

text \<open>The confidences, as \<open>f32\<close> literals.\<close>

definition c95 :: float where "c95 = to_f32 (95 / 100)"
definition c90 :: float where "c90 = to_f32 (90 / 100)"
definition c85 :: float where "c85 = to_f32 (85 / 100)"
definition c75 :: float where "c75 = to_f32 (75 / 100)"
definition c70 :: float where "c70 = to_f32 (70 / 100)"
definition c65 :: float where "c65 = to_f32 (65 / 100)"

definition match_of :: "primitive \<Rightarrow> float \<Rightarrow> string list \<Rightarrow> primitive_match" where
  "match_of p c s = \<lparr>pm_primitive = p, pm_confidence = c, pm_signals = s\<rparr>"

text \<open>\<open>signals.push(s)\<close> under a condition.\<close>

definition sig :: "bool \<Rightarrow> string \<Rightarrow> string list" where
  "sig b s = (if b then [s] else [])"

section \<open>Detectors on the text\<close>

function inherits_from :: "string \<Rightarrow> string \<Rightarrow> nat \<Rightarrow> bool option" where
  "inherits_from source parent i =
     (case find_sub (drop i source) ''contract '' of
        None \<Rightarrow> Some False
      | Some rel \<Rightarrow>
          (let start = i + rel + 9; stop = min (length source) (start + 300) in
           if stop < length source \<and> is_cont (source ! stop) then None
           else
             (let window = take (stop - start) (drop start source) in
              if contains window parent
                 \<and> (case find_sub window '' is '' of
                      None \<Rightarrow> False
                    | Some is_idx \<Rightarrow>
                        contains (takeWhile (\<lambda>c. c \<noteq> CHR ''{'') (drop (is_idx + 4) window)) parent)
              then Some True
              else inherits_from source parent start)))"
  by pat_completeness auto
termination
  by (relation "measure (\<lambda>(source, parent, i). length source - i)") (auto dest: find_sub_bound)

declare inherits_from.simps [simp del]

definition has_inheritance_of :: "string \<Rightarrow> string \<Rightarrow> bool option" where
  "has_inheritance_of source parent = inherits_from source parent 0"

text \<open>The loops over parents stop at the first that is inherited.\<close>

fun first_parent :: "string \<Rightarrow> string list \<Rightarrow> string option option" where
  "first_parent source [] = Some None"
| "first_parent source (p # ps) =
     do { b \<leftarrow> has_inheritance_of source p; if b then Some (Some p) else first_parent source ps }"

definition any_parent :: "string \<Rightarrow> string list \<Rightarrow> bool option" where
  "any_parent source ps = map_option (\<lambda>p. p \<noteq> None) (first_parent source ps)"

definition has_function_starting_with :: "string \<Rightarrow> string \<Rightarrow> bool" where
  "has_function_starting_with source prefix0 = contains source (''function '' @ prefix0)"

definition has_reserves_storage :: "string \<Rightarrow> bool" where
  "has_reserves_storage source =
     list_ex (\<lambda>name. contains source name
         \<and> (contains source (''uint256 public '' @ name) \<or> contains source (''uint256 '' @ name)
            \<or> contains source (''uint128 public '' @ name) \<or> contains source (''uint128 '' @ name)
            \<or> contains source (''public '' @ name)))
       [''reserve0'', ''reserve1'', ''reserveX'', ''reserveY'', ''reserves0'', ''reserves1'']"

function pair_contract_from :: "string \<Rightarrow> nat \<Rightarrow> bool" where
  "pair_contract_from source i =
     (case find_sub (drop i source) ''contract '' of
        None \<Rightarrow> False
      | Some rel \<Rightarrow>
          (let start = i + rel + 9; name = takeWhile (\<lambda>c. c \<noteq> CHR '' '' \<and> c \<noteq> CHR ''{'') (drop start source) in
           if ends_with name ''Pair'' \<and> 4 < length name then True else pair_contract_from source start))"
  by pat_completeness auto
termination
  by (relation "measure (\<lambda>(source, i). length source - i)") (auto dest: find_sub_bound)

declare pair_contract_from.simps [simp del]

definition contains_pair_contract :: "string \<Rightarrow> bool" where
  "contains_pair_contract source = pair_contract_from source 0"

section \<open>Tokens and vaults\<close>

definition erc20_parents :: "string list" where
  "erc20_parents =
     [''ERC20'', ''ERC20Burnable'', ''ERC20Capped'', ''ERC20Pausable'', ''ERC20Permit'', ''ERC20Votes'',
      ''ERC20Wrapper'', ''ERC20FlashMint'', ''ERC1363'', ''ERC20PresetMinterPauser'', ''ERC20PresetFixedSupply'']"

definition erc721_parents :: "string list" where
  "erc721_parents =
     [''ERC721'', ''ERC721Burnable'', ''ERC721Enumerable'', ''ERC721Pausable'', ''ERC721URIStorage'',
      ''ERC721Votes'', ''ERC721Wrapper'', ''ERC721Royalty'', ''ERC721Consecutive'', ''ERC721Holder'']"

definition erc1155_parents :: "string list" where
  "erc1155_parents =
     [''ERC1155'', ''ERC1155Burnable'', ''ERC1155Pausable'', ''ERC1155Supply'', ''ERC1155URIStorage'', ''ERC1155Holder'']"

text \<open>What the shapes of the storage and of the functions say; \<open>fingerprint.rs\<close> uses the same tests.\<close>

definition public_allowance :: "string \<Rightarrow> bool" where
  "public_allowance source = contains source ''public allowance''"

definition public_balanceof :: "string \<Rightarrow> bool" where
  "public_balanceof source \<longleftrightarrow>
     contains source ''public balanceOf'' \<or> contains source ''public balances'' \<or> contains source ''balanceOf[''"

definition function_transfer :: "string \<Rightarrow> bool" where
  "function_transfer source = contains source ''function transfer(''"

definition function_transferfrom :: "string \<Rightarrow> bool" where
  "function_transferfrom source = contains source ''function transferFrom(''"

definition erc4626_shape :: "string \<Rightarrow> bool" where
  "erc4626_shape source \<longleftrightarrow>
     contains source ''convertToShares'' \<or> contains source ''convertToAssets''
     \<or> contains source ''totalAssets'' \<and> contains source ''totalShares''"

definition erc721_shape :: "string \<Rightarrow> bool" where
  "erc721_shape source \<longleftrightarrow>
     contains source ''ownerOf'' \<and> (contains source ''safeTransferFrom'' \<or> contains source ''setApprovalForAll'')"

definition erc1155_shape :: "string \<Rightarrow> bool" where
  "erc1155_shape source \<longleftrightarrow> contains source ''safeBatchTransferFrom'' \<and> contains source ''balanceOfBatch''"

definition totalsupply_shape :: "string \<Rightarrow> bool" where
  "totalsupply_shape source \<longleftrightarrow>
     contains source ''public totalSupply'' \<or> contains source ''totalSupply()''
     \<or> contains source ''uint256 public totalSupply''"

text \<open>\<open>detected\<close> is a set of tags of which only membership is asked, listed here; \<open>interface_signals\<close> keeps
  the order of the pushes.\<close>

definition token_matches :: "string list \<Rightarrow> string list \<Rightarrow> primitive_match list" where
  "token_matches detected extra =
     (if List.member detected ''ERC20'' then [match_of TokenErc20 c95 (''ERC20 interface'' # extra)] else [])
     @ (if List.member detected ''ERC721''
        then [match_of TokenErc721 c95 [''ERC721 interface (ownerOf + approval surface)'']] else [])
     @ (if List.member detected ''ERC1155''
        then [match_of TokenErc1155 c95 [''safeBatchTransferFrom + balanceOfBatch present'']] else [])"

definition classify_tokens :: "string \<Rightarrow> primitive_match list option" where
  "classify_tokens source = do {
     found \<leftarrow> detect_interfaces source;
     in20 \<leftarrow> any_parent source erc20_parents;
     in721 \<leftarrow> any_parent source erc721_parents;
     in1155 \<leftarrow> any_parent source erc1155_parents;
     in4626 \<leftarrow> has_inheritance_of source ''ERC4626'';
     (let full = function_transfer source \<and> function_transferfrom source \<and> public_allowance source
            \<and> \<not> erc721_shape source;
          balances = public_balanceof source \<and> function_transfer source \<and> public_allowance source
            \<and> \<not> erc721_shape source;
          minimal = function_transfer source \<and> public_balanceof source \<and> totalsupply_shape source
            \<and> \<not> erc721_shape source;
          detected = found @ sig (full \<or> balances \<or> minimal \<or> in20) ''ERC20''
            @ sig (erc721_shape source \<or> in721) ''ERC721'' @ sig (erc1155_shape source \<or> in1155) ''ERC1155''
            @ sig (erc4626_shape source \<or> in4626) ''ERC4626'';
          extra = sig (found \<noteq> []) ''detect_interfaces match''
            @ sig full ''public allowance + transfer + transferFrom''
            @ sig minimal ''minimal ERC20: transfer + balanceOf + totalSupply''
            @ sig (erc1155_shape source) ''safeBatchTransferFrom + balanceOfBatch''
            @ sig in20 ''inherits OZ ERC20-family'' @ sig in721 ''inherits OZ ERC721-family''
            @ sig in1155 ''inherits OZ ERC1155-family''
      in if List.member detected ''ERC4626'' then Some []
         else Some (token_matches detected extra))
   }"

definition classify_vault :: "string \<Rightarrow> primitive_match list option" where
  "classify_vault source = do {
     inh \<leftarrow> has_inheritance_of source ''ERC4626'';
     (let signals = sig inh ''inherits ERC4626''
            @ sig (contains source ''contract ERC4626'' \<or> contains source ''contract Vault'') ''contract named ERC4626 / Vault''
            @ sig (contains source ''convertToShares'' \<and> contains source ''convertToAssets'') ''convertToShares + convertToAssets''
            @ sig (contains source ''function totalAssets'' \<or> contains source ''totalAssets()'') ''totalAssets() surface''
            @ sig (contains source ''function asset('') ''asset() getter''
      in Some (if signals = [] then []
               else [match_of Vault (if 2 \<le> length signals then c95 else c70) signals]))
   }"

section \<open>Markets\<close>

definition classify_amm :: "string \<Rightarrow> primitive_match list" where
  "classify_amm source =
     (let signals = sig (has_function_starting_with source ''swap'') ''swap* function present''
            @ sig (has_reserves_storage source) ''reserves storage (reserve0/1 or reserveX/Y)''
            @ sig (contains source ''contract AMM'' \<or> contains_pair_contract source) ''AMM / Pair contract name''
      in if signals = [] then []
         else [match_of Amm (if 2 \<le> length signals then c90 else c65) signals])"

definition classify_lending :: "string \<Rightarrow> primitive_match list" where
  "classify_lending source =
     (let signals = sig (has_function_starting_with source ''borrow'') ''borrow() surface''
            @ sig (has_function_starting_with source ''repay'') ''repay() surface''
            @ sig (has_function_starting_with source ''liquidate'') ''liquidate() surface''
      in if signals = [] then []
         else if 3 \<le> length signals then [match_of LendingMarket c90 signals]
         else if length signals = 2 then [match_of LendingMarket c65 signals]
         else [])"

section \<open>The long tail\<close>

definition classify_vesting :: "string \<Rightarrow> primitive_match list option" where
  "classify_vesting source = do {
     parent \<leftarrow> first_parent source [''VestingWallet'', ''VestingWalletCliff'', ''VestingWalletUpgradeable''];
     (case parent of
        Some p \<Rightarrow> Some [match_of Vesting c95 [''inherits '' @ p]]
      | None \<Rightarrow>
          (let signals = sig (has_function_starting_with source ''release'') ''release() surface''
                 @ sig (contains source ''beneficiary()'' \<or> contains source ''function beneficiary''
                        \<or> contains source '' beneficiary'' \<or> contains source ''releaseTime''
                        \<or> contains source ''releasable'' \<or> contains source ''vestingSchedule'')
                     ''vesting state (beneficiary / releaseTime / releasable)''
           in Some (if length signals < 2 then [] else [match_of Vesting c75 signals])))
   }"

definition classify_airdrop :: "string \<Rightarrow> primitive_match list" where
  "classify_airdrop source =
     (let signals = sig (has_function_starting_with source ''claim'') ''claim() surface''
            @ (if contains source ''merkleRoot'' \<or> contains source ''merkle_root'' \<or> contains source ''MerkleProof''
               then [''merkleRoot / MerkleProof'']
               else sig (contains source ''claimed['' \<or> contains source ''hasClaimed['') ''claimed[address] mapping'')
      in if length signals < 2 then [] else [match_of Airdrop c75 signals])"

definition governor_parents :: "string list" where
  "governor_parents =
     [''Governor'', ''GovernorBravo'', ''GovernorVotes'', ''GovernorVotesQuorumFraction'',
      ''GovernorTimelockControl'', ''GovernorCountingSimple'', ''GovernorSettings'']"

definition classify_governance :: "string \<Rightarrow> primitive_match list option" where
  "classify_governance source = do {
     parent \<leftarrow> first_parent source governor_parents;
     (case parent of
        Some p \<Rightarrow> Some [match_of Governance c90 [''inherits '' @ p]]
      | None \<Rightarrow>
          (let signals = sig (has_function_starting_with source ''propose'') ''propose() surface''
                 @ sig (contains source ''castVote'' \<or> contains source ''function vote('') ''castVote / vote() surface''
                 @ sig (has_function_starting_with source ''queue'' \<or> has_function_starting_with source ''execute'')
                     ''queue() / execute() surface''
           in Some (if length signals < 2 then [] else [match_of Governance c75 signals])))
   }"

definition classify_staking :: "string \<Rightarrow> primitive_match list" where
  "classify_staking source =
     (let signals = sig (has_function_starting_with source ''stake'') ''stake() surface''
            @ sig (has_function_starting_with source ''unstake'' \<or> contains source ''function withdraw(uint256'')
                ''unstake() / withdraw() surface''
            @ sig (contains source ''rewards'' \<or> contains source ''Rewards'' \<or> contains source ''rewardPerToken'')
                ''rewards state / function''
      in if length signals < 2 then [] else [match_of Staking c75 signals])"

definition classify_bridge :: "string \<Rightarrow> primitive_match list" where
  "classify_bridge source =
     (let finalize = (contains source ''finalizeDeposit'' \<or> contains source ''finalizeWithdrawal'');
          signals = sig (has_function_starting_with source ''deposit'' \<and> finalize) ''deposit + finalize* (L1 bridge)''
            @ sig (contains source ''claimWithdrawal'' \<or> contains source ''proveWithdrawal'')
                ''claimWithdrawal / proveWithdrawal (L2 bridge)''
      in if signals = [] then [] else [match_of Bridge c75 signals])"

definition classify_oracle :: "string \<Rightarrow> primitive_match list" where
  "classify_oracle source =
     (let chainlink = (contains source ''latestAnswer'' \<and> contains source ''decimals()'');
          custom = ((contains source ''getPrice'' \<or> contains source ''function price'')
            \<and> (has_function_starting_with source ''update'' \<or> contains source ''postPrice''));
          signals = sig chainlink ''latestAnswer() + decimals() (Chainlink shape)''
            @ sig custom ''getPrice() + update() (custom oracle)''
      in if signals = [] then [] else [match_of OraclePrimitive c75 signals])"

definition strong_parents :: "string list" where
  "strong_parents =
     [''Ownable'', ''Ownable2Step'', ''AccessControl'', ''AccessControlEnumerable'',
      ''AccessControlDefaultAdminRules'', ''AccessManager'', ''AccessManaged'', ''Pausable'', ''TimelockController'']"

text \<open>This loop does not stop at the first hit.\<close>

fun inherited_parents :: "string \<Rightarrow> string list \<Rightarrow> string list option" where
  "inherited_parents source [] = Some []"
| "inherited_parents source (p # ps) =
     do { b \<leftarrow> has_inheritance_of source p; rest \<leftarrow> inherited_parents source ps; Some (sig b p @ rest) }"

definition classify_access_controlled_generic :: "string \<Rightarrow> primitive_match list \<Rightarrow> primitive_match list option" where
  "classify_access_controlled_generic source existing =
     (if list_ex (\<lambda>m. fle threshold_06 (pm_confidence m)) existing then Some []
      else do {
        parents \<leftarrow> inherited_parents source strong_parents;
        (let s1 = map (\<lambda>p. ''inherits '' @ p) parents
               @ sig (contains source ''confirm(uint256'' \<and> contains source ''confirmed[''
                      \<and> (contains source ''executed['' \<or> contains source ''confirmationCount''))
                   ''multisig confirm/confirmed/executed pattern''
               @ sig (contains source ''onlyOwner'' \<or> contains source ''modifier onlyOwner'') ''onlyOwner modifier''
               @ sig (contains source ''onlyRole('') ''onlyRole(...) modifier''
               @ sig (contains source ''hasRole('') ''hasRole(...) check'';
             signals = s1 @ sig (contains source ''AccessControl'' \<and> \<not> list_ex (\<lambda>s. contains s ''inherits'') s1)
               ''AccessControl reference''
         in Some (if signals = [] then []
                  else [match_of AccessControlledGeneric (if parents \<noteq> [] then c85 else c65) signals]))
      })"

section \<open>The classifier\<close>

definition classify :: "string \<Rightarrow> primitive_classification option" where
  "classify source = do {
     tokens \<leftarrow> classify_tokens source;
     vault \<leftarrow> classify_vault source;
     vesting \<leftarrow> classify_vesting source;
     governance \<leftarrow> classify_governance source;
     (let ms = tokens @ vault @ classify_amm source @ classify_lending source @ vesting
            @ classify_airdrop source @ governance @ classify_staking source @ classify_bridge source
            @ classify_oracle source
      in do {
        generic \<leftarrow> classify_access_controlled_generic source ms;
        Some \<lparr>pc_matches = ms @ generic\<rparr>
      })
   }"

section \<open>Lemmas\<close>

lemma confidences:
  "list_all (fle threshold_06) [c95, c90, c85, c75, c70, c65]"
  by code_simp

definition sound_match :: "primitive list \<Rightarrow> primitive_match \<Rightarrow> bool" where
  "sound_match ps m \<longleftrightarrow> pm_primitive m \<in> set ps \<and> pm_confidence m \<in> {c95, c90, c85, c75, c70, c65}
     \<and> pm_signals m \<noteq> []"

lemma sound_match_of [simp]:
  "sound_match ps (match_of p c s) \<longleftrightarrow> p \<in> set ps \<and> c \<in> {c95, c90, c85, c75, c70, c65} \<and> s \<noteq> []"
  by (simp add: sound_match_def match_of_def)

lemma pm_primitive_match_of [simp]: "pm_primitive (match_of p c s) = p"
  by (simp add: match_of_def)

text \<open>A detector reports primitives of its own kind only, each at most once.\<close>

definition detects :: "primitive list \<Rightarrow> primitive_match list \<Rightarrow> bool" where
  "detects ps ms \<longleftrightarrow> list_all (sound_match ps) ms \<and> distinct (map pm_primitive ms)"

lemma detects_simps [simp]:
  "detects ps []" "detects ps [m] = sound_match ps m"
  by (simp_all add: detects_def)

lemma detects_token_matches: "detects [TokenErc20, TokenErc721, TokenErc1155] (token_matches detected extra)"
  by (simp add: token_matches_def detects_def)

lemma detects_mono: "detects ps ms \<Longrightarrow> set ps = set qs \<Longrightarrow> detects qs ms"
  by (auto simp: detects_def sound_match_def list_all_iff)

lemma detectors:
  "classify_tokens source = Some ms \<Longrightarrow> detects [TokenErc20, TokenErc721, TokenErc1155] ms"
  "classify_vault source = Some ms \<Longrightarrow> detects [Vault] ms"
  "detects [Amm] (classify_amm source)"
  "detects [LendingMarket] (classify_lending source)"
  "classify_vesting source = Some ms \<Longrightarrow> detects [Vesting] ms"
  "detects [Airdrop] (classify_airdrop source)"
  "classify_governance source = Some ms \<Longrightarrow> detects [Governance] ms"
  "detects [Staking] (classify_staking source)"
  "detects [Bridge] (classify_bridge source)"
  "detects [OraclePrimitive] (classify_oracle source)"
  "classify_access_controlled_generic source ex = Some ms \<Longrightarrow> detects [AccessControlledGeneric] ms"
  subgoal by (auto simp: classify_tokens_def Let_def bind_eq_Some_conv detects_token_matches split: if_split_asm)
  subgoal by (auto simp: classify_vault_def Let_def bind_eq_Some_conv split: if_splits)
  subgoal by (simp add: classify_amm_def Let_def)
  subgoal by (simp add: classify_lending_def Let_def)
  subgoal by (auto simp: classify_vesting_def Let_def bind_eq_Some_conv split: if_splits option.splits)
  subgoal by (auto simp: classify_airdrop_def Let_def)
  subgoal by (auto simp: classify_governance_def Let_def bind_eq_Some_conv split: if_splits option.splits)
  subgoal by (auto simp: classify_staking_def Let_def)
  subgoal by (simp add: classify_bridge_def Let_def)
  subgoal by (simp add: classify_oracle_def Let_def)
  subgoal by (auto simp: classify_access_controlled_generic_def Let_def bind_eq_Some_conv split: if_splits)
  done

lemma detects_append:
  "detects ps ms \<Longrightarrow> detects qs ns \<Longrightarrow> set ps \<inter> set qs = {} \<Longrightarrow> detects (ps @ qs) (ms @ ns)"
  by (auto simp: detects_def list_all_iff sound_match_def)

text \<open>The ten detectors that look for one kind each.\<close>

definition specific_primitives :: "primitive list" where
  "specific_primitives = butlast primitive_all"

lemma specific_detected:
  assumes "classify_tokens source = Some t" "classify_vault source = Some v"
    and "classify_vesting source = Some ve" "classify_governance source = Some g"
  shows "detects specific_primitives (t @ v @ classify_amm source @ classify_lending source @ ve
            @ classify_airdrop source @ g @ classify_staking source @ classify_bridge source @ classify_oracle source)"
proof -
  have "detects ([TokenErc20, TokenErc721, TokenErc1155] @ [Vault] @ [Amm] @ [LendingMarket] @ [Vesting] @ [Airdrop]
      @ [Governance] @ [Staking] @ [Bridge] @ [OraclePrimitive])
    (t @ v @ classify_amm source @ classify_lending source @ ve
            @ classify_airdrop source @ g @ classify_staking source @ classify_bridge source @ classify_oracle source)"
    by (intro detects_append detectors(1)[OF assms(1)] detectors(2)[OF assms(2)] detectors(3,4,6,8,9,10)
        detectors(5)[OF assms(3)] detectors(7)[OF assms(4)]) simp_all
  then show ?thesis by (rule detects_mono) (auto simp: specific_primitives_def primitive_all_def)
qed

text \<open>What a classification looks like: each primitive at most once, with at least one signal and one of six
  confidences; the catch-all only where nothing else matched. All six confidences reach the
  threshold of 0.6, so the selection of the catalogue takes every match and none is left to be
  suggested at low confidence.\<close>

theorem classification_shape:
  "case classify source of
     None \<Rightarrow> True
   | Some c \<Rightarrow>
       distinct (map pm_primitive (pc_matches c))
       \<and> list_all (\<lambda>m. pm_signals m \<noteq> [] \<and> pm_confidence m \<in> {c95, c90, c85, c75, c70, c65}) (pc_matches c)
       \<and> (if List.member (map pm_primitive (pc_matches c)) AccessControlledGeneric then length (pc_matches c) = 1 else True)
       \<and> classification_above threshold_06 c = pc_matches c"
proof (cases "classify source")
  case (Some c)
  then obtain t v ve g gen where parts: "classify_tokens source = Some t" "classify_vault source = Some v"
    "classify_vesting source = Some ve" "classify_governance source = Some g"
    and gen: "classify_access_controlled_generic source (t @ v @ classify_amm source @ classify_lending source @ ve
            @ classify_airdrop source @ g @ classify_staking source @ classify_bridge source @ classify_oracle source) = Some gen"
    and c: "pc_matches c = (t @ v @ classify_amm source @ classify_lending source @ ve
            @ classify_airdrop source @ g @ classify_staking source @ classify_bridge source @ classify_oracle source) @ gen"
    by (auto simp: classify_def Let_def bind_eq_Some_conv)
  obtain ms where ms: "detects specific_primitives ms" "pc_matches c = ms @ gen"
    "classify_access_controlled_generic source ms = Some gen"
    using specific_detected[OF parts] c gen by blast
  have d: "detects (specific_primitives @ [AccessControlledGeneric]) (ms @ gen)"
    by (rule detects_append[OF ms(1) detectors(11)[OF ms(3)]]) (simp add: specific_primitives_def primitive_all_def)
  have hi: "fle threshold_06 x" if "x \<in> {c95, c90, c85, c75, c70, c65}" for x
    using that confidences by auto
  have "ms = []" if "AccessControlledGeneric \<in> pm_primitive ` set (ms @ gen)"
  proof (rule ccontr)
    assume "ms \<noteq> []"
    then have "list_ex (\<lambda>m. fle threshold_06 (pm_confidence m)) ms"
      using ms(1) hi by (cases ms) (auto simp: detects_def sound_match_def)
    then have "gen = []" using ms(3) by (simp add: classify_access_controlled_generic_def)
    with that ms(1) show False
      by (auto simp: detects_def list_all_iff sound_match_def specific_primitives_def primitive_all_def)
  qed
  moreover have "length gen \<le> 1"
    using ms(3) by (auto simp: classify_access_controlled_generic_def Let_def bind_eq_Some_conv split: if_splits)
  ultimately have one: "length (ms @ gen) = 1" if "AccessControlledGeneric \<in> pm_primitive ` set (ms @ gen)"
    using that by (cases gen) auto
  have "classification_above threshold_06 c = pc_matches c"
    using d hi ms(2) by (auto simp: classification_above_def detects_def list_all_iff sound_match_def filter_id_conv)
  with d one ms(2) Some show ?thesis
    by (auto simp: detects_def list_all_iff sound_match_def List.member_iff)
qed simp

end
