(* ===== verification/DocText.thy ===== *)
theory DocText
  imports Signatures Disk "HOL-Library.Monad_Syntax" "HOL-Library.List_Lexorder" "HOL-Library.Char_ord"
begin

text \<open>
  What the parsers of NatSpec comments and of Foundry tests share
  (\<open>crates/vergil-solidity/src/natspec.rs\<close> and \<open>test_parser.rs\<close>): blanking comments byte by byte, and
  the walk back from a declaration to the comment above it. The walk reads bytes as Latin-1
  characters, two of which beyond ASCII are white space, and cuts the text where it stops: a cut inside a
  character panics, which is \<open>None\<close> here.
\<close>

section \<open>UTF-8\<close>

definition is_tail :: "nat \<Rightarrow> nat \<Rightarrow> char \<Rightarrow> bool" where
  "is_tail lo hi c \<longleftrightarrow> lo \<le> byte c \<and> byte c \<le> hi"

text \<open>\<open>String::from_utf8\<close>: the well-formed byte sequences of the Unicode standard.\<close>

fun utf8_valid :: "string \<Rightarrow> bool" where
  "utf8_valid [] = True"
| "utf8_valid (a # s) =
     (if byte a < 128 then utf8_valid s
      else if is_tail 194 223 a then (case s of b # s1 \<Rightarrow> is_tail 128 191 b \<and> utf8_valid s1 | _ \<Rightarrow> False)
      else if is_tail 224 239 a then
        (case s of b # c # s1 \<Rightarrow>
             is_tail (if byte a = 224 then 160 else 128) (if byte a = 237 then 159 else 191) b
             \<and> is_tail 128 191 c \<and> utf8_valid s1
         | _ \<Rightarrow> False)
      else if is_tail 240 244 a then
        (case s of b # c # d # s1 \<Rightarrow>
             is_tail (if byte a = 240 then 144 else 128) (if byte a = 244 then 143 else 191) b
             \<and> is_tail 128 191 c \<and> is_tail 128 191 d \<and> utf8_valid s1
         | _ \<Rightarrow> False)
      else False)"

definition from_utf8 :: "string \<Rightarrow> string option" where
  "from_utf8 s = (if utf8_valid s then Some s else None)"

lemma utf8_valid_ascii: "list_all is_ascii s \<Longrightarrow> utf8_valid s"
  by (induction s) (auto simp: is_ascii_def)

text \<open>\<open>(b as char).is_whitespace()\<close> for a byte.\<close>

definition byte_space :: "char \<Rightarrow> bool" where
  "byte_space c \<longleftrightarrow> is_space c \<or> byte c = 0x85 \<or> byte c = 0xA0"

section \<open>Blanking\<close>

text \<open>The inside of a block comment; what is left starts behind its end, or is at most one byte.\<close>

fun blank_block :: "string \<Rightarrow> string \<times> string" where
  "blank_block (a # b # s) =
     (if a = CHR ''*'' \<and> b = CHR ''/'' then ('' '' @ '' '', s)
      else (case blank_block (b # s) of (out, rest) \<Rightarrow> ((if a = NL then NL else CHR '' '') # out, rest)))"
| "blank_block s = ([], s)"

lemma blank_block_length: "length (fst (blank_block s)) + length (snd (blank_block s)) = length s"
  by (induction s rule: blank_block.induct) (auto split: prod.splits)

lemma blank_block_rest: "length (snd (blank_block s)) \<le> length s"
  using blank_block_length[of s] by linarith

text \<open>\<open>line\<close> and \<open>block\<close> say which comments are blanked, given the text from its mark on.\<close>

function blank_with :: "(string \<Rightarrow> bool) \<Rightarrow> (string \<Rightarrow> bool) \<Rightarrow> string \<Rightarrow> string" where
  "blank_with line block [] = []"
| "blank_with line block (a # s) =
     (if line (a # s) then
        (let n = max 1 (length (takeWhile (\<lambda>x. x \<noteq> NL) (a # s)))
         in replicate n (CHR '' '') @ blank_with line block (drop n (a # s)))
      else if block (a # s) then
        (case blank_block (drop 1 s) of (out, rest) \<Rightarrow> '' '' @ '' '' @ out @ blank_with line block rest)
      else a # blank_with line block s)"
  by pat_completeness auto
termination
proof (relation "measure (\<lambda>(line, block, s). length s)", goal_cases)
  case 1
  then show ?case by simp
next
  case (2 line block a s n)
  then show ?case by auto
next
  case (3 line block a s out rest)
  then have "length rest \<le> length (drop 1 s)" using blank_block_rest[of "drop 1 s"] by (metis snd_conv)
  then show ?case by simp
next
  case (4 line block a s)
  then show ?case by simp
qed

declare blank_with.simps(2) [simp del]

section \<open>The comment above a declaration\<close>

text \<open>The walk back over white space with at most one new line, given last byte first.\<close>

fun strip_back :: "nat \<Rightarrow> string \<Rightarrow> string" where
  "strip_back nl [] = []"
| "strip_back nl (c # r) =
     (if c = NL then (if 1 < nl + 1 then c # r else strip_back (nl + 1) r)
      else if byte_space c then strip_back nl r
      else c # r)"

definition head_of :: "string \<Rightarrow> string option" where
  "head_of pre =
     (let n = length (strip_back 0 (rev pre)) in
      if n < length pre \<and> is_cont (pre ! n) then None else Some (take n pre))"

text \<open>The contiguous \<open>///\<close> lines that end at \<open>line_end\<close>, last line first, with their offsets.\<close>

lemma rfind_sub_bound: "rfind_sub s p = Some i \<Longrightarrow> i + length p \<le> length s"
  by (auto simp: rfind_sub_def dest: find_sub_bound split: option.splits)

function doc_lines :: "string \<Rightarrow> nat \<Rightarrow> (string \<times> nat) list" where
  "doc_lines head0 line_end =
     (if line_end = 0 then []
      else
        (let upto = take line_end head0;
             start = (case rfind_sub upto [NL] of Some p \<Rightarrow> p + 1 | None \<Rightarrow> 0);
             line = trim_start (trim_end_char CR (drop start upto))
         in if starts_with line ''///''
            then (trim (trim_start_str ''///'' line), start) # (if start = 0 then [] else doc_lines head0 (start - 1))
            else []))"
  by pat_completeness auto
termination
  by (relation "measure snd") (auto split: option.splits dest: rfind_sub_bound)

declare doc_lines.simps [simp del]

text \<open>The lines of the block comment that ends the text, and its offset: \<open>None\<close> when the slice panics,
  \<open>Some None\<close> when no block starts.\<close>

definition block_lines :: "string \<Rightarrow> (string list \<times> nat) option option" where
  "block_lines trimmed =
     (case rfind_sub trimmed ''/**'' of
        None \<Rightarrow> Some None
      | Some start \<Rightarrow>
          (if length trimmed - 2 < start + 3 then None
           else Some (Some
             (map (\<lambda>l. trim (trim_start_char (CHR ''*'') (trim l)))
                (lines (take (length trimmed - 2 - (start + 3)) (drop (start + 3) trimmed))), start))))"

section \<open>Lemmas\<close>

text \<open>Blanking keeps the length and every line break: a byte stays or becomes a space.\<close>

definition blanked_as :: "char \<Rightarrow> char \<Rightarrow> bool" where
  "blanked_as b a \<longleftrightarrow> b = a \<or> b = CHR '' '' \<and> a \<noteq> NL"

lemma blank_block_aligned:
  "blank_block s = (out, rest) \<Longrightarrow> \<exists>u. s = u @ rest \<and> list_all2 blanked_as out u"
proof (induction s arbitrary: out rest rule: blank_block.induct)
  case (1 a b s)
  show ?case
  proof (cases "a = CHR ''*'' \<and> b = CHR ''/''")
    case True
    with 1(2) show ?thesis by (intro exI[of _ "[a, b]"]) (auto simp: blanked_as_def)
  next
    case False
    obtain o1 r1 where r: "blank_block (b # s) = (o1, r1)" by (cases "blank_block (b # s)")
    from 1(1)[OF False r] obtain u where u: "b # s = u @ r1" "list_all2 blanked_as o1 u" by blast
    have "out = (if a = NL then NL else CHR '' '') # o1" "rest = r1" using 1(2) False r by auto
    moreover have "blanked_as (if a = NL then NL else CHR '' '') a" by (simp add: blanked_as_def)
    ultimately show ?thesis using u by (intro exI[of _ "a # u"]) simp
  qed
qed auto

lemma blank_with_aligned:
  assumes "\<And>s. line s \<Longrightarrow> starts_with s ''//''" "\<And>s. block s \<Longrightarrow> starts_with s ''/*''"
  shows "list_all2 blanked_as (blank_with line block s) s"
  using assms
proof (induction line block s rule: blank_with.induct)
  case (2 line block a s)
  show ?case
  proof (cases "line (a # s)")
    case True
    then have a: "a = CHR ''/''" using 2(4)[of "a # s"] by (cases s) auto
    let ?n = "length (takeWhile (\<lambda>x. x \<noteq> NL) (a # s))"
    have n: "max 1 ?n = ?n" using a by simp
    have "list_all2 blanked_as (replicate ?n (CHR '' '')) (takeWhile (\<lambda>x. x \<noteq> NL) (a # s))"
      using set_takeWhileD[of _ "\<lambda>x. x \<noteq> NL" "a # s"]
      by (auto simp: list_all2_conv_all_nth blanked_as_def simp del: takeWhile.simps dest!: nth_mem)
    moreover have "list_all2 blanked_as (blank_with line block (drop ?n (a # s))) (drop ?n (a # s))"
      using 2(1)[OF True refl 2(4,5)] n by simp
    moreover have "takeWhile (\<lambda>x. x \<noteq> NL) (a # s) = take ?n (a # s)" by (rule takeWhile_eq_take)
    ultimately have "list_all2 blanked_as (replicate ?n (CHR '' '') @ blank_with line block (drop ?n (a # s)))
        (take ?n (a # s) @ drop ?n (a # s))"
      by (metis list_all2_appendI)
    with True n show ?thesis by (subst blank_with.simps) (simp only: append_take_drop_id Let_def if_True)
  next
    case l: False
    show ?thesis
    proof (cases "block (a # s)")
      case True
      obtain b t where s: "s = b # t" "a = CHR ''/''" "b = CHR ''*''" using 2(5)[OF True] by (cases s) auto
      obtain o1 r1 where r: "blank_block (drop 1 s) = (o1, r1)" by (cases "blank_block (drop 1 s)")
      obtain u where u: "t = u @ r1" "list_all2 blanked_as o1 u" using blank_block_aligned[OF r] s(1) by auto
      have "list_all2 blanked_as (blank_with line block r1) r1"
        using 2(2)[OF l True r[symmetric] 2(4,5)] by simp
      then have "list_all2 blanked_as ('' '' @ '' '' @ o1 @ blank_with line block r1) ([a, b] @ u @ r1)"
        using u(2) s list_all2_appendI[OF u(2)] by (simp add: blanked_as_def[of "CHR '' ''"])
      with l True r s u show ?thesis by (subst blank_with.simps) simp
    next
      case False
      have "blanked_as a a" by (simp add: blanked_as_def)
      with False l 2 show ?thesis by (subst blank_with.simps) simp
    qed
  qed
qed simp

abbreviation ascii_text :: "string \<Rightarrow> bool" where
  "ascii_text s \<equiv> list_all is_ascii s"

lemma ascii_blanked:
  assumes "list_all2 blanked_as b s" "ascii_text s"
  shows "ascii_text b"
  using assms by (induction rule: list_all2_induct) (auto simp: blanked_as_def char_class_defs)

lemma ascii_head:
  assumes "ascii_text pre"
  shows "head_of pre \<noteq> None"
proof -
  have "\<not> is_cont (pre ! n)" if "n < length pre" for n
    using assms that by (auto simp: list_all_length is_cont_def char_class_defs)
  then show ?thesis by (auto simp: head_of_def Let_def)
qed

lemma head_of_take: "head_of pre = Some h \<Longrightarrow> \<exists>n. h = take n pre"
  by (auto simp: head_of_def Let_def split: if_splits)

text \<open>The slice of a block panics only on the empty block comment.\<close>

lemma block_lines_None:
  assumes "block_lines trimmed = None" "ends_with trimmed ''*/''"
  shows "contains trimmed ''/**/''"
proof -
  obtain start where st: "rfind_sub trimmed ''/**'' = Some start" "length trimmed - 2 < start + 3"
    using assms(1) by (auto simp: block_lines_def split: option.splits if_splits)
  obtain i where i: "find_sub (rev trimmed) ''**/'' = Some i" "start = length trimmed - i - 3"
    using st(1) by (auto simp: rfind_sub_def)
  have b: "i + 3 \<le> length trimmed" using find_sub_bound[OF i(1)] by simp
  with i(2) st(2) have "i < 2" by linarith
  obtain u where r: "rev trimmed = take i (rev trimmed) @ ''**/'' @ u"
    using find_sub_Some[OF i(1)] by metis
  from assms(2) obtain v where v: "rev trimmed = CHR ''/'' # CHR ''*'' # v"
    by (auto simp: ends_with_def starts_with_iff)
  have "i = 1"
  proof (rule ccontr)
    assume "i \<noteq> 1"
    with \<open>i < 2\<close> have "i = 0" by simp
    with r v show False by simp
  qed
  with r v have "rev trimmed = ''/**/'' @ u" by simp
  then have "trimmed = rev u @ ''/**/''" by (metis rev_append rev_rev_ident rev.simps append.simps)
  then show ?thesis by (auto simp: contains_iff)
qed

lemma contains_take: "contains (take n s) p \<Longrightarrow> contains s p"
  by (metis append_take_drop_id contains_append_right)

lemma contains_trim_end: "contains (trim_end s) p \<Longrightarrow> contains s p"
  by (metis contains_append_right trim_end_suffix)

end
