(* ===== verification/NatSpec.thy ===== *)
theory NatSpec
  imports DocText
begin

text \<open>
  NatSpec comments (\<open>crates/vergil-solidity/src/natspec.rs\<close>): the declarations of a source, the comment
  block above each, its tags, and the walk over the sources of a project. \<open>None\<close> is a panic.
\<close>

section \<open>Blocks\<close>

datatype natspec_target = NtContract string | NtFunction string | NtStorage string

record source_span =
  sn_start :: nat
  sn_end :: nat

record natspec_block =
  nb_target :: natspec_target
  nb_notice :: "string option"
  nb_dev :: "string list"
  nb_invariant :: "string list"
  nb_custom_security :: "string list"
  nb_source_span :: source_span

datatype natspec_error = NsNotADirectory string | NsIo string

section \<open>Tags\<close>

datatype tag_kind = TagNotice | TagDev | TagInvariant | TagCustomSecurity

definition strip_tag :: "string \<Rightarrow> string \<Rightarrow> string option" where
  "strip_tag line tag =
     (if \<not> starts_with line tag then None
      else
        (let after = drop (length tag) line in
         if after = [] then Some []
         else if is_space (hd after) \<or> hd after = CHR '':'' then Some (trim_start (trim_start_char (CHR '':'') after))
         else None))"

text \<open>The variables of the loop over the lines of a block.\<close>

record block_state =
  bs_notice :: "string option"
  bs_dev :: "string list"
  bs_invariant :: "string list"
  bs_custom_security :: "string list"
  bs_implicit :: "string list"
  bs_tag :: "tag_kind option"
  bs_buf :: "string list"

definition flush_tag :: "block_state \<Rightarrow> block_state" where
  "flush_tag st =
     (case bs_tag st of
        None \<Rightarrow> st
      | Some t \<Rightarrow>
          (let joined = trim (join [NL] (bs_buf st)); st1 = st\<lparr>bs_tag := None, bs_buf := []\<rparr> in
           if joined = [] then st1
           else
             (case t of
                TagNotice \<Rightarrow> st1\<lparr>bs_notice := Some joined\<rparr>
              | TagDev \<Rightarrow> st1\<lparr>bs_dev := bs_dev st1 @ [joined]\<rparr>
              | TagInvariant \<Rightarrow> st1\<lparr>bs_invariant := bs_invariant st1 @ [joined]\<rparr>
              | TagCustomSecurity \<Rightarrow> st1\<lparr>bs_custom_security := bs_custom_security st1 @ [joined]\<rparr>)))"

definition open_tag :: "tag_kind \<Rightarrow> string \<Rightarrow> block_state \<Rightarrow> block_state" where
  "open_tag t rest st = (let st1 = flush_tag st in st1\<lparr>bs_tag := Some t, bs_buf := bs_buf st1 @ [rest]\<rparr>)"

definition block_line :: "string \<Rightarrow> block_state \<Rightarrow> block_state" where
  "block_line raw st =
     (let trimmed = trim raw in
      if trimmed = [] then st
      else
        (case strip_tag trimmed ''@notice'' of
           Some rest \<Rightarrow> open_tag TagNotice rest st
         | None \<Rightarrow>
        (case strip_tag trimmed ''@dev'' of
           Some rest \<Rightarrow> open_tag TagDev rest st
         | None \<Rightarrow>
        (case strip_tag trimmed ''@invariant'' of
           Some rest \<Rightarrow> open_tag TagInvariant rest st
         | None \<Rightarrow>
        (case strip_tag trimmed ''@custom:security'' of
           Some rest \<Rightarrow> open_tag TagCustomSecurity rest st
         | None \<Rightarrow>
           if starts_with trimmed ''@'' then (flush_tag st)\<lparr>bs_tag := None\<rparr>
           else if bs_tag st \<noteq> None then st\<lparr>bs_buf := bs_buf st @ [trimmed]\<rparr>
           else st\<lparr>bs_implicit := bs_implicit st @ [trimmed]\<rparr>)))))"

definition empty_block_state :: block_state where
  "empty_block_state =
     \<lparr>bs_notice = None, bs_dev = [], bs_invariant = [], bs_custom_security = [], bs_implicit = [],
      bs_tag = None, bs_buf = []\<rparr>"

definition finalize_block :: "string list \<Rightarrow> natspec_target \<Rightarrow> source_span \<Rightarrow> natspec_block option" where
  "finalize_block ls target span =
     (let st = flush_tag (fold block_line ls empty_block_state);
          notice = (if bs_notice st = None \<and> bs_implicit st \<noteq> [] then Some (join [NL] (bs_implicit st))
                    else bs_notice st)
      in if notice = None \<and> bs_dev st = [] \<and> bs_invariant st = [] \<and> bs_custom_security st = [] then None
         else Some \<lparr>nb_target = target, nb_notice = notice, nb_dev = bs_dev st, nb_invariant = bs_invariant st,
                    nb_custom_security = bs_custom_security st, nb_source_span = span\<rparr>)"

section \<open>Declarations\<close>

text \<open>Comments that are not documentation are blanked.\<close>

definition plain_line :: "string \<Rightarrow> bool" where
  "plain_line s \<longleftrightarrow> starts_with s ''//'' \<and> 2 < length s \<and> s ! 2 \<noteq> CHR ''/''"

definition plain_block :: "string \<Rightarrow> bool" where
  "plain_block s \<longleftrightarrow> starts_with s ''/*'' \<and> 2 < length s \<and> s ! 2 \<noteq> CHR ''*''"

definition natspec_blank :: "string \<Rightarrow> string" where
  "natspec_blank source = blank_with plain_line plain_block source"

record declaration_site =
  dn_start :: nat
  dn_target :: natspec_target

definition is_token_start :: "string \<Rightarrow> nat \<Rightarrow> bool" where
  "is_token_start s at \<longleftrightarrow> at = 0 \<or> \<not> is_ident (s ! (at - 1))"

definition read_ident :: "string \<Rightarrow> nat \<Rightarrow> string option" where
  "read_ident s at =
     (let name = takeWhile is_ident (dropWhile byte_space (drop at s)) in
      if name = [] then None else Some name)"

text \<open>The offsets of a keyword, each search starting behind the last hit.\<close>

function occurrences :: "string \<Rightarrow> string \<Rightarrow> nat \<Rightarrow> nat list" where
  "occurrences s kw i =
     (if kw = [] then []
      else (case find_sub (drop i s) kw of
              None \<Rightarrow> []
            | Some rel \<Rightarrow> (i + rel) # occurrences s kw (i + rel + length kw)))"
  by pat_completeness auto
termination
  by (relation "measure (\<lambda>(s, kw, i). Suc (length s) - i)")
    (auto dest!: find_sub_bound simp flip: length_greater_0_conv)

declare occurrences.simps [simp del]

definition sites_of :: "string \<Rightarrow> string \<Rightarrow> (string \<Rightarrow> natspec_target option) \<Rightarrow> declaration_site list" where
  "sites_of blanked kw target =
     List.map_filter (\<lambda>at.
        if is_token_start blanked at then
          (case read_ident blanked (at + length kw) of
             None \<Rightarrow> None
           | Some name \<Rightarrow> map_option (\<lambda>t. \<lparr>dn_start = at, dn_target = t\<rparr>) (target name))
        else None) (occurrences blanked kw 0)"

definition is_storage_first_token :: "string \<Rightarrow> bool" where
  "is_storage_first_token t \<longleftrightarrow>
     t \<in> {''uint256'', ''uint128'', ''uint64'', ''uint32'', ''uint16'', ''uint8'', ''uint'', ''int256'',
          ''int128'', ''int'', ''address'', ''bool'', ''bytes32'', ''bytes'', ''string'', ''mapping''}
     \<or> t \<noteq> [] \<and> is_upper (hd t)"

text \<open>The maximal runs of identifier characters.\<close>

fun ident_runs :: "string \<Rightarrow> string \<Rightarrow> string list" where
  "ident_runs w [] = (if w = [] then [] else [rev w])"
| "ident_runs w (c # s) =
     (if is_ident c then ident_runs (c # w) s
      else if w = [] then ident_runs [] s else rev w # ident_runs [] s)"

definition extract_storage_name :: "string \<Rightarrow> string option" where
  "extract_storage_name line =
     (let body = takeWhile (\<lambda>c. c \<noteq> CHR ''='') (takeWhile (\<lambda>c. c \<noteq> CHR '';'') line);
          runs = ident_runs [] body
      in if runs = [] then None
         else if List.last runs \<in> {''public'', ''private'', ''internal'', ''constant'', ''immutable'', ''memory'', ''storage''}
         then None else Some (List.last runs))"

definition storage_line :: "string \<Rightarrow> string \<Rightarrow> bool" where
  "storage_line line rest \<longleftrightarrow>
     list_ex (contains rest) ['' public '', '' private '', '' internal '', '' constant '', '' immutable '',
                              ''public '', ''private '', ''internal '']
     \<or> contains line '';'' \<and> \<not> contains line ''{''
       \<and> list_ex (contains line) [''public'', ''private'', ''internal'', ''constant'', ''immutable'']"

definition storage_site :: "nat \<Rightarrow> string \<Rightarrow> declaration_site option" where
  "storage_site line_start line =
     (let trimmed = trim_start line;
          type_tok = takeWhile is_ident trimmed; rest = dropWhile is_ident trimmed in
      if type_tok = [] then None
      else if \<not> is_storage_first_token type_tok then None
      else if \<not> storage_line line rest then None
      else map_option (\<lambda>name. \<lparr>dn_start = line_start + (length line - length trimmed), dn_target = NtStorage name\<rparr>)
             (extract_storage_name line))"

fun storage_sites_from :: "nat \<Rightarrow> string list \<Rightarrow> declaration_site list" where
  "storage_sites_from at [] = []"
| "storage_sites_from at (l # ls) =
     (case storage_site at l of Some d \<Rightarrow> [d] | None \<Rightarrow> []) @ storage_sites_from (at + length l + 1) ls"

definition find_storage_sites :: "string \<Rightarrow> declaration_site list" where
  "find_storage_sites blanked = storage_sites_from 0 (split_char NL blanked)"

definition function_target :: "string \<Rightarrow> natspec_target option" where
  "function_target name =
     (if name \<in> {''constructor'', ''receive'', ''fallback''} then None else Some (NtFunction name))"

definition find_declaration_sites :: "string \<Rightarrow> declaration_site list option" where
  "find_declaration_sites source =
     map_option (\<lambda>blanked.
        sort_key dn_start
          (concat (map (\<lambda>kw. sites_of blanked kw (\<lambda>name. Some (NtContract name)))
              [''contract '', ''library '', ''interface '', ''abstract contract ''])
           @ sites_of blanked ''function '' function_target
           @ find_storage_sites blanked))
       (from_utf8 (natspec_blank source))"

section \<open>The block above a declaration\<close>

definition extract_block_above :: "string \<Rightarrow> declaration_site \<Rightarrow> natspec_block option option" where
  "extract_block_above source site =
     (case head_of (take (dn_start site) source) of
        None \<Rightarrow> None
      | Some head0 \<Rightarrow>
          (let trimmed = trim_end head0 in
           if ends_with trimmed ''*/'' then
             (case block_lines trimmed of
                None \<Rightarrow> None
              | Some None \<Rightarrow> Some None
              | Some (Some (ls, start)) \<Rightarrow>
                  Some (finalize_block ls (dn_target site) \<lparr>sn_start = start, sn_end = length trimmed\<rparr>))
           else
             (let collected = doc_lines head0 (length head0) in
              if collected = [] then Some None
              else Some (finalize_block (rev (map fst collected)) (dn_target site)
                     \<lparr>sn_start = snd (List.last collected), sn_end = length head0\<rparr>))))"

fun collect_blocks :: "string \<Rightarrow> declaration_site list \<Rightarrow> natspec_block list option" where
  "collect_blocks source [] = Some []"
| "collect_blocks source (d # ds) =
     do { b \<leftarrow> extract_block_above source d;
          bs \<leftarrow> collect_blocks source ds;
          Some (case b of Some x \<Rightarrow> x # bs | None \<Rightarrow> bs) }"

definition parse_natspec :: "string \<Rightarrow> natspec_block list option" where
  "parse_natspec source = do { sites \<leftarrow> find_declaration_sites source; collect_blocks source sites }"

section \<open>The sources of a project\<close>

definition vendored_dir :: "string \<Rightarrow> bool" where
  "vendored_dir name \<longleftrightarrow>
     name \<in> {''lib'', ''node_modules'', ''out'', ''cache'', ''broadcast''} \<or> starts_with name ''.''"

fun collect_sol_files :: "string \<Rightarrow> (string \<times> fs_node) list \<Rightarrow> natspec_error + (string \<times> string option) list" where
  "collect_sol_files dir [] = Inr []"
| "collect_sol_files dir ((name, DirN None) # es) =
     (if vendored_dir name then collect_sol_files dir es else Inl (NsIo (path_join dir name)))"
| "collect_sol_files dir ((name, DirN (Some sub)) # es) =
     (if vendored_dir name then collect_sol_files dir es
      else
        (case collect_sol_files (path_join dir name) sub of
           Inl e \<Rightarrow> Inl e
         | Inr xs \<Rightarrow> (case collect_sol_files dir es of Inl e \<Rightarrow> Inl e | Inr ys \<Rightarrow> Inr (xs @ ys))))"
| "collect_sol_files dir ((name, FileN body) # es) =
     (case collect_sol_files dir es of
        Inl e \<Rightarrow> Inl e
      | Inr ys \<Rightarrow> Inr ((if extension name = Some ''sol'' then [(path_join dir name, body)] else []) @ ys))"

fun collect_sol_files_shallow :: "string \<Rightarrow> (string \<times> fs_node) list \<Rightarrow> (string \<times> string option) list" where
  "collect_sol_files_shallow dir [] = []"
| "collect_sol_files_shallow dir ((name, DirN sub) # es) = collect_sol_files_shallow dir es"
| "collect_sol_files_shallow dir ((name, FileN body) # es) =
     (if extension name = Some ''sol'' then [(path_join dir name, body)] else []) @ collect_sol_files_shallow dir es"

definition natspec_files :: "string \<Rightarrow> fs_node \<Rightarrow> natspec_error + (string \<times> string option) list" where
  "natspec_files root_path node =
     (case child node ''src'' of
        Some (DirN (Some es)) \<Rightarrow> collect_sol_files (path_join root_path ''src'') es
      | Some (DirN None) \<Rightarrow> Inl (NsIo (path_join root_path ''src''))
      | _ \<Rightarrow> (case node of DirN (Some es) \<Rightarrow> Inr (collect_sol_files_shallow root_path es)
                         | _ \<Rightarrow> Inl (NsIo root_path)))"

fun natspec_of_files ::
    "string \<Rightarrow> (string \<times> string option) list \<Rightarrow> (natspec_error + (string \<times> natspec_block) list) option" where
  "natspec_of_files root_path [] = Some (Inr [])"
| "natspec_of_files root_path ((path, None) # fs) = Some (Inl (NsIo path))"
| "natspec_of_files root_path ((path, Some src) # fs) =
     (case parse_natspec src of
        None \<Rightarrow> None
      | Some blocks \<Rightarrow>
          (case natspec_of_files root_path fs of
             Some (Inr rest) \<Rightarrow>
               Some (Inr (map (Pair (case path_strip_prefix path root_path of Some r \<Rightarrow> r | None \<Rightarrow> path)) blocks @ rest))
           | r \<Rightarrow> r))"

definition parse_natspec_dir :: "string \<Rightarrow> fs_node \<Rightarrow> (natspec_error + (string \<times> natspec_block) list) option" where
  "parse_natspec_dir root_path node =
     (if \<not> is_dir_node node then Some (Inl (NsNotADirectory root_path))
      else
        (case natspec_files root_path node of
           Inl e \<Rightarrow> Some (Inl e)
         | Inr files \<Rightarrow> natspec_of_files root_path (sort_key (path_key \<circ> fst) files)))"

section \<open>Lemmas\<close>

lemma demo_blocks:
  "parse_natspec (''/// @invariant sum is kept'' @ [NL] @ ''contract C { uint256 public x; }'')
   = Some [\<lparr>nb_target = NtContract ''C'', nb_notice = None, nb_dev = [], nb_invariant = [''sum is kept''],
            nb_custom_security = [], nb_source_span = \<lparr>sn_start = 0, sn_end = 26\<rparr>\<rparr>]"
  by code_simp

lemma natspec_blank_aligned: "list_all2 blanked_as (natspec_blank s) s"
  unfolding natspec_blank_def by (rule blank_with_aligned) (simp_all add: plain_line_def plain_block_def)

lemma find_declaration_sites_ascii: "ascii_text source \<Longrightarrow> find_declaration_sites source \<noteq> None"
  using ascii_blanked[OF natspec_blank_aligned, of source] utf8_valid_ascii
  by (simp add: find_declaration_sites_def from_utf8_def)

lemma extract_block_above_ascii:
  assumes "ascii_text source" "\<not> contains source ''/**/''"
  shows "extract_block_above source d \<noteq> None"
proof -
  let ?pre = "take (dn_start d) source"
  have "ascii_text ?pre" using assms(1) by (auto simp: list_all_iff dest: in_set_takeD)
  then obtain h where h: "head_of ?pre = Some h" using ascii_head by blast
  have "\<not> contains (trim_end h) ''/**/''"
    using assms(2) contains_take contains_trim_end head_of_take[OF h] by metis
  then have "ends_with (trim_end h) ''*/'' \<Longrightarrow> block_lines (trim_end h) \<noteq> None"
    using block_lines_None by blast
  with h show ?thesis by (auto simp: extract_block_above_def Let_def split: option.split)
qed

lemma natspec_total:
  assumes "ascii_text source" "\<not> contains source ''/**/''"
  shows "parse_natspec source \<noteq> None"
proof -
  have "collect_blocks source ds \<noteq> None" for ds
  proof (induction ds)
    case (Cons d ds)
    then show ?case using extract_block_above_ascii[OF assms, of d] by auto
  qed simp
  then show ?thesis using find_declaration_sites_ascii[OF assms(1)] by (auto simp: parse_natspec_def)
qed

end
