(* ===== verification/TestParser.thy ===== *)
theory TestParser
  imports NatSpec
begin

text \<open>
  Foundry and Halmos tests (\<open>crates/vergil-solidity/src/test_parser.rs\<close>): test functions with their
  bodies, comments and assertion sites, and the walk over the test directories. \<open>None\<close> is a panic.
  The warning about a Hardhat project is logging and left out.
\<close>

section \<open>Blanking\<close>

definition any_line :: "string \<Rightarrow> bool" where "any_line s \<longleftrightarrow> starts_with s ''//''"
definition any_block :: "string \<Rightarrow> bool" where "any_block s \<longleftrightarrow> starts_with s ''/*''"

definition test_blank :: "string \<Rightarrow> string option" where
  "test_blank source = from_utf8 (blank_with any_line any_block source)"

text \<open>The inside of a string literal, up to and with the closing quote.\<close>

fun blank_quoted :: "char \<Rightarrow> string \<Rightarrow> string \<times> string" where
  "blank_quoted q [] = ([], [])"
| "blank_quoted q (a # s) =
     (if a = q then ([a], s)
      else if a = BSL \<and> s \<noteq> [] then
        (case blank_quoted q (drop 1 s) of (out, rest) \<Rightarrow> ('' '' @ '' '' @ out, rest))
      else (case blank_quoted q s of (out, rest) \<Rightarrow> ((if a = NL then NL else CHR '' '') # out, rest)))"

lemma blank_quoted_length: "length (snd (blank_quoted q s)) \<le> length s"
proof (induction q s rule: blank_quoted.induct)
  case (2 q a s)
  then show ?case by (auto split: prod.splits)
qed simp

function blank_strings :: "string \<Rightarrow> string" where
  "blank_strings [] = []"
| "blank_strings (c # s) =
     (if c = DQ \<or> c = SQ then (case blank_quoted c s of (out, rest) \<Rightarrow> c # out @ blank_strings rest)
      else c # blank_strings s)"
  by pat_completeness auto
termination
proof (relation "measure length", goal_cases)
  case (2 c s out rest)
  then have "length rest \<le> length s" using blank_quoted_length[of c s] by (metis snd_conv)
  then show ?case by simp
qed auto

declare blank_strings.simps(2) [simp del]

definition strip_string_literals :: "string \<Rightarrow> string option" where
  "strip_string_literals source = from_utf8 (blank_strings source)"

section \<open>Assertions\<close>

datatype assertion =
    AssertEq string string
  | AssertTrue string
  | AssertFalse string
  | ExpectRevert
  | HalmosAssert string

record parsed_test =
  pt_name :: string
  pt_doc_comment :: "string option"
  pt_body :: string
  pt_assertions :: "assertion list"
  pt_source_path :: string

datatype test_parser_error = TpNotADirectory string | TpIo string

definition try_match_keyword :: "string \<Rightarrow> nat \<Rightarrow> string \<Rightarrow> bool" where
  "try_match_keyword s at kw \<longleftrightarrow>
     starts_with (drop at s) kw
     \<and> (length s \<le> at + length kw \<or> \<not> is_ident (s ! (at + length kw)))"

definition capture_call_args :: "string \<Rightarrow> nat \<Rightarrow> (string \<times> nat) option" where
  "capture_call_args hay start =
     (let k = start + length (takeWhile byte_space (drop start hay)) in
      if length hay \<le> k \<or> hay ! k \<noteq> CHR ''('' then None
      else map_option (\<lambda>cl. (take (cl - (k + 1)) (drop (k + 1) hay), cl)) (match_paren hay k))"

definition try_match_call :: "string \<Rightarrow> nat \<Rightarrow> string \<Rightarrow> (string \<times> nat) option" where
  "try_match_call s at kw =
     (if \<not> try_match_keyword s at kw then None else capture_call_args s (at + length kw))"

text \<open>The offset of the first comma outside brackets.\<close>

fun top_comma :: "nat \<Rightarrow> string \<Rightarrow> nat option" where
  "top_comma d [] = None"
| "top_comma d (c # s) =
     (if c \<in> {CHR ''('', CHR ''['', CHR ''{''} then map_option Suc (top_comma (d + 1) s)
      else if c \<in> {CHR '')'', CHR '']'', CHR ''}''} then map_option Suc (top_comma (d - 1) s)
      else if c = CHR '','' \<and> d = 0 then Some 0
      else map_option Suc (top_comma d s))"

definition has_top_level_comma :: "string \<Rightarrow> bool" where
  "has_top_level_comma s \<longleftrightarrow> top_comma 0 s \<noteq> None"

definition split_top_level_two :: "string \<Rightarrow> (string \<times> string) option" where
  "split_top_level_two s =
     (case top_comma 0 s of
        None \<Rightarrow> None
      | Some i \<Rightarrow> (let rhs = drop (i + 1) s in if has_top_level_comma rhs then None else Some (take i s, rhs)))"

text \<open>The assertion at an index with the index of its closing parenthesis, tried in the order of the code.\<close>

definition assertion_at :: "string \<Rightarrow> nat \<Rightarrow> (assertion \<times> nat) option" where
  "assertion_at s i =
     (case (case try_match_call s i ''assertEq'' of
              None \<Rightarrow> None
            | Some (args, e) \<Rightarrow> map_option (\<lambda>(l, r). (AssertEq (trim l) (trim r), e)) (split_top_level_two args)) of
        Some x \<Rightarrow> Some x
      | None \<Rightarrow>
     (case try_match_call s i ''assertTrue'' of
        Some (args, e) \<Rightarrow> Some (AssertTrue (trim args), e)
      | None \<Rightarrow>
     (case try_match_call s i ''assertFalse'' of
        Some (args, e) \<Rightarrow> Some (AssertFalse (trim args), e)
      | None \<Rightarrow>
     (case try_match_call s i ''vm.expectRevert'' of
        Some (args, e) \<Rightarrow> Some (ExpectRevert, e)
      | None \<Rightarrow>
     (case try_match_call s i ''assert'' of
        Some (args, e) \<Rightarrow> Some (HalmosAssert (trim args), e)
      | None \<Rightarrow> None)))))"

lemma capture_call_args_ge: "capture_call_args hay start = Some (a, e) \<Longrightarrow> start \<le> e"
  by (auto simp: capture_call_args_def match_paren_def Let_def split: if_splits)

lemma assertion_at_ge: "assertion_at s i = Some (a, e) \<Longrightarrow> i \<le> e"
  by (auto simp: assertion_at_def try_match_call_def split: option.splits if_splits dest!: capture_call_args_ge)

function assertions_from :: "string \<Rightarrow> nat \<Rightarrow> assertion list" where
  "assertions_from s i =
     (if length s \<le> i then []
      else if \<not> is_token_start s i then assertions_from s (i + 1)
      else (case assertion_at s i of
              None \<Rightarrow> assertions_from s (i + 1)
            | Some (a, e) \<Rightarrow> a # assertions_from s (e + 1)))"
  by pat_completeness auto
termination
  by (relation "measure (\<lambda>(s, i). length s - i)") (auto dest: sym[THEN assertion_at_ge] assertion_at_ge)

declare assertions_from.simps [simp del]

definition scan_assertions :: "string \<Rightarrow> assertion list option" where
  "scan_assertions body = do {
     b \<leftarrow> test_blank body;
     s \<leftarrow> strip_string_literals b;
     Some (assertions_from s 0)
   }"

section \<open>Test functions\<close>

definition is_test_like_name :: "string \<Rightarrow> bool" where
  "is_test_like_name name \<longleftrightarrow>
     starts_with name ''test'' \<or> starts_with name ''invariant_'' \<or> starts_with name ''invariant''
     \<or> starts_with name ''check_''"

definition extract_leading_doc_comment :: "string \<Rightarrow> nat \<Rightarrow> string option option" where
  "extract_leading_doc_comment source fn_start =
     (case head_of (take fn_start source) of
        None \<Rightarrow> None
      | Some head0 \<Rightarrow>
          (let trimmed = trim_end head0 in
           if ends_with trimmed ''*/'' then
             (case block_lines trimmed of
                None \<Rightarrow> None
              | Some None \<Rightarrow> Some None
              | Some (Some (ls, start)) \<Rightarrow>
                  (let cleaned = join [NL] (filter (\<lambda>l. l \<noteq> []) ls) in
                   Some (if cleaned = [] then None else Some cleaned)))
           else
             (let collected = rev (map fst (doc_lines head0 (length head0))) in
              Some (if collected = [] then None else Some (join [NL] collected)))))"

text \<open>The open brace of the body from an index on: its offset, or where the search ends without one.\<close>

fun body_search :: "nat \<Rightarrow> string \<Rightarrow> nat + nat" where
  "body_search d [] = Inl 0"
| "body_search d (c # s) =
     (if c = CHR ''{'' \<and> d = 0 then Inr 0
      else if c = CHR '';'' \<and> d = 0 then Inl 0
      else
        (let d' = (if c = CHR ''('' then d + 1 else if c = CHR '')'' \<and> 0 < d then d - 1 else d) in
         case body_search d' s of Inl n \<Rightarrow> Inl (Suc n) | Inr n \<Rightarrow> Inr (Suc n)))"

definition test_at :: "string \<Rightarrow> string \<Rightarrow> nat \<Rightarrow> nat \<Rightarrow> nat \<Rightarrow> parsed_test option" where
  "test_at source name fn_start body_open body_close =
     (let body = take (body_close - (body_open + 1)) (drop (body_open + 1) source) in do {
        doc \<leftarrow> extract_leading_doc_comment source fn_start;
        assertions \<leftarrow> scan_assertions body;
        Some \<lparr>pt_name = name, pt_doc_comment = doc, pt_body = body, pt_assertions = assertions, pt_source_path = []\<rparr>
      })"

text \<open>One round of the scan from index \<open>i\<close>: nothing left, or the index of the next round and the function
  found in this one (name, start, opening and closing brace), if any.\<close>

definition test_step :: "string \<Rightarrow> string \<Rightarrow> nat \<Rightarrow> (nat \<times> (string \<times> nat \<times> nat \<times> nat) option) option" where
  "test_step source blanked i =
     (if length blanked \<le> i then None
      else
        (case find_sub (drop i blanked) ''function '' of
           None \<Rightarrow> None
         | Some rel \<Rightarrow>
             (let fn_start = i + rel;
                  name = takeWhile is_ident (drop (fn_start + 9) blanked);
                  name_end = fn_start + 9 + length name in
              if \<not> is_test_like_name name then Some (name_end, None)
              else
                (let j = name_end + length (takeWhile byte_space (drop name_end blanked)) in
                 if length blanked \<le> j \<or> blanked ! j \<noteq> CHR ''('' then Some (max j (fn_start + 1), None)
                 else
                   (case match_paren source j of
                      None \<Rightarrow> Some (j + 1, None)
                    | Some args_end \<Rightarrow>
                        (case body_search 0 (drop (args_end + 1) blanked) of
                           Inl n \<Rightarrow> Some (max (args_end + 1 + n) (fn_start + 1), None)
                         | Inr n \<Rightarrow>
                             (let body_open = args_end + 1 + n in
                              case match_brace source body_open of
                                None \<Rightarrow> Some (body_open + 1, None)
                              | Some body_close \<Rightarrow>
                                  Some (body_close + 1, Some (name, fn_start, body_open, body_close)))))))))"

lemma test_step_progress: "test_step source blanked i = Some (k, f) \<Longrightarrow> i < length blanked \<and> i < k"
  by (auto simp: test_step_def Let_def match_paren_def match_brace_def split: if_splits option.splits sum.splits)

function tests_from :: "string \<Rightarrow> string \<Rightarrow> nat \<Rightarrow> parsed_test list option" where
  "tests_from source blanked i =
     (case test_step source blanked i of
        None \<Rightarrow> Some []
      | Some (k, None) \<Rightarrow> tests_from source blanked k
      | Some (k, Some (name, fn_start, body_open, body_close)) \<Rightarrow> do {
          t \<leftarrow> test_at source name fn_start body_open body_close;
          ts \<leftarrow> tests_from source blanked k;
          Some (t # ts)
        })"
  by pat_completeness auto
termination
  by (relation "measure (\<lambda>(source, blanked, i). length blanked - i)")
    (auto dest: sym[THEN test_step_progress] test_step_progress)

declare tests_from.simps [simp del]

definition parse_tests_from_source :: "string \<Rightarrow> parsed_test list option" where
  "parse_tests_from_source source = do { b \<leftarrow> test_blank source; tests_from source b 0 }"

section \<open>The tests of a project\<close>

definition is_solidity_test_file :: "string \<Rightarrow> bool" where
  "is_solidity_test_file name \<longleftrightarrow>
     ends_with name ''.t.sol'' \<or> ends_with name ''.sol'' \<and> contains name ''Properties''"

fun collect_test_files :: "string \<Rightarrow> (string \<times> fs_node) list \<Rightarrow> test_parser_error + (string \<times> string option) list" where
  "collect_test_files dir [] = Inr []"
| "collect_test_files dir ((name, DirN None) # es) = Inl (TpIo (path_join dir name))"
| "collect_test_files dir ((name, DirN (Some sub)) # es) =
     (case collect_test_files (path_join dir name) sub of
        Inl e \<Rightarrow> Inl e
      | Inr xs \<Rightarrow> (case collect_test_files dir es of Inl e \<Rightarrow> Inl e | Inr ys \<Rightarrow> Inr (xs @ ys)))"
| "collect_test_files dir ((name, FileN body) # es) =
     (case collect_test_files dir es of
        Inl e \<Rightarrow> Inl e
      | Inr ys \<Rightarrow> Inr ((if is_solidity_test_file name then [(path_join dir name, body)] else []) @ ys))"

fun collect_test_files_shallow :: "string \<Rightarrow> (string \<times> fs_node) list \<Rightarrow> (string \<times> string option) list" where
  "collect_test_files_shallow dir [] = []"
| "collect_test_files_shallow dir ((name, DirN sub) # es) = collect_test_files_shallow dir es"
| "collect_test_files_shallow dir ((name, FileN body) # es) =
     (if is_solidity_test_file name then [(path_join dir name, body)] else []) @ collect_test_files_shallow dir es"

fun collect_test_dirs :: "string \<Rightarrow> fs_node \<Rightarrow> string list \<Rightarrow> test_parser_error + (string \<times> string option) list" where
  "collect_test_dirs root_path node [] = Inr []"
| "collect_test_dirs root_path node (sub # subs) =
     (case (case child node sub of
              Some (DirN (Some es)) \<Rightarrow> collect_test_files (path_join root_path sub) es
            | Some (DirN None) \<Rightarrow> Inl (TpIo (path_join root_path sub))
            | _ \<Rightarrow> Inr []) of
        Inl e \<Rightarrow> Inl e
      | Inr xs \<Rightarrow> (case collect_test_dirs root_path node subs of Inl e \<Rightarrow> Inl e | Inr ys \<Rightarrow> Inr (xs @ ys)))"

fun tests_of_files ::
    "string \<Rightarrow> (string \<times> string option) list \<Rightarrow> (test_parser_error + parsed_test list) option" where
  "tests_of_files root_path [] = Some (Inr [])"
| "tests_of_files root_path ((path, None) # fs) = Some (Inl (TpIo path))"
| "tests_of_files root_path ((path, Some src) # fs) =
     (case parse_tests_from_source src of
        None \<Rightarrow> None
      | Some ts \<Rightarrow>
          (case tests_of_files root_path fs of
             Some (Inr rest) \<Rightarrow>
               Some (Inr (map (\<lambda>t. t\<lparr>pt_source_path :=
                  (case path_strip_prefix path root_path of Some r \<Rightarrow> r | None \<Rightarrow> path)\<rparr>) ts @ rest))
           | r \<Rightarrow> r))"

text \<open>\<open>dedup\<close> of the sorted files: a path names one file, so equal neighbours have equal contents.\<close>

definition parse_tests :: "string \<Rightarrow> fs_node \<Rightarrow> (test_parser_error + parsed_test list) option" where
  "parse_tests root_path node =
     (if \<not> is_dir_node node then Some (Inl (TpNotADirectory root_path))
      else
        (case collect_test_dirs root_path node [''test'', ''tests''] of
           Inl e \<Rightarrow> Some (Inl e)
         | Inr xs \<Rightarrow>
             (case node of
                DirN (Some es) \<Rightarrow>
                  tests_of_files root_path (remdups_adj (sort_key (path_key \<circ> fst) (xs @ collect_test_files_shallow root_path es)))
              | _ \<Rightarrow> Some (Inl (TpIo root_path)))))"

section \<open>Properties\<close>

lemma test_blank_aligned: "test_blank s = Some b \<Longrightarrow> list_all2 blanked_as b s"
  using blank_with_aligned[of any_line any_block s]
  by (auto simp: test_blank_def from_utf8_def any_line_def any_block_def split: if_splits)

lemma blanked_nth: "list_all2 blanked_as b s \<Longrightarrow> i < length b \<Longrightarrow> b ! i \<noteq> CHR '' '' \<Longrightarrow> s ! i = b ! i"
  by (auto simp: list_all2_conv_all_nth blanked_as_def)

text \<open>What an entry of the result must be: a test name declared in the text without comments, and a body that
  stands between braces in the source.\<close>

definition real_test :: "string \<Rightarrow> string \<Rightarrow> parsed_test \<Rightarrow> bool" where
  "real_test source blanked t \<longleftrightarrow>
     is_test_like_name (pt_name t) \<and> contains blanked (''function '' @ pt_name t)
     \<and> contains source (''{'' @ pt_body t @ ''}'')"

lemma match_close_hit: "match_close op cl d s = Some n \<Longrightarrow> n < length s \<and> s ! n = cl"
  by (induction op cl d s arbitrary: n rule: match_close.induct) (auto split: if_splits)

lemma match_brace_hit:
  assumes "match_brace s i = Some e"
  shows "i \<le> e \<and> e < length s \<and> s ! e = CHR ''}''"
proof -
  obtain n where "match_close (CHR ''{'') (CHR ''}'') 0 (drop i s) = Some n" "e = i + n"
    using assms by (auto simp: match_brace_def)
  with match_close_hit[OF this(1)] show ?thesis by auto
qed

lemma braces_contained:
  assumes "match_brace s i = Some e" "s ! i = CHR ''{''"
  shows "contains s (''{'' @ take (e - (i + 1)) (drop (i + 1) s) @ ''}'')"
proof -
  note h = match_brace_hit[OF assms(1)]
  then have lt: "i < e" using assms(2) by (cases "i = e") auto
  have k: "e - (i + 1) < length (drop (i + 1) s)" "Suc (e - (i + 1)) = e - i" "i + 1 + (e - (i + 1)) = e"
    using h lt by auto
  have "take (e - (i + 1)) (drop (i + 1) s) @ [s ! e] = take (e - i) (drop (i + 1) s)"
    using take_Suc_conv_app_nth[OF k(1)] k(2,3) h by (metis nth_drop add_leD1 le_less_trans less_imp_le_nat lt Suc_eq_plus1 Suc_leI)
  then have "drop i s = ''{'' @ take (e - (i + 1)) (drop (i + 1) s) @ ''}'' @ drop (e - i) (drop (i + 1) s)"
    using assms(2) h lt by (metis Cons_nth_drop_Suc Suc_eq_plus1 append.assoc append_Cons append_Nil append_take_drop_id le_less_trans order_less_imp_le)
  then have "contains (drop i s) (''{'' @ take (e - (i + 1)) (drop (i + 1) s) @ ''}'')"
    by (metis append_Nil append.assoc contains_infix)
  then show ?thesis by (metis append_take_drop_id contains_append_left)
qed

lemma body_search_hit: "body_search d s = Inr n \<Longrightarrow> n < length s \<and> s ! n = CHR ''{''"
  by (induction d s arbitrary: n rule: body_search.induct) (auto simp: Let_def split: if_splits sum.splits)

lemma test_step_found:
  assumes "test_step source blanked i = Some (k, Some (name, fn_start, body_open, body_close))"
  shows "is_test_like_name name" "contains blanked (''function '' @ name)"
    "body_open < length blanked" "blanked ! body_open = CHR ''{''" "match_brace source body_open = Some body_close"
proof -
  obtain rel args_end n where f: "find_sub (drop i blanked) ''function '' = Some rel" "fn_start = i + rel"
    "name = takeWhile is_ident (drop (fn_start + 9) blanked)" "is_test_like_name name"
    and b: "body_search 0 (drop (args_end + 1) blanked) = Inr n" "body_open = args_end + 1 + n"
    "match_brace source body_open = Some body_close"
    using assms by (auto simp: test_step_def Let_def split: if_splits option.splits sum.splits)
  show "is_test_like_name name" "match_brace source body_open = Some body_close" by fact+
  show "body_open < length blanked" "blanked ! body_open = CHR ''{''"
    using body_search_hit[OF b(1)] b(2) by auto
  have "drop i blanked = take rel (drop i blanked) @ ''function '' @ drop (rel + 9) (drop i blanked)"
    using find_sub_Some[OF f(1)] by (simp only: add.commute list.size) (simp add: numeral_eq_Suc)
  also have "drop (rel + 9) (drop i blanked) = name @ dropWhile is_ident (drop (fn_start + 9) blanked)"
    using f(2,3) by (simp add: ac_simps)
  finally have "contains (drop i blanked) (''function '' @ name)"
    by (metis append.assoc contains_infix)
  then show "contains blanked (''function '' @ name)" by (metis append_take_drop_id contains_append_left)
qed

lemma test_at_simps:
  "test_at source name a bo bc = Some t
   \<Longrightarrow> pt_name t = name \<and> pt_body t = take (bc - (bo + 1)) (drop (bo + 1) source)"
  by (auto simp: test_at_def Let_def bind_eq_Some_conv)

lemma tests_from_real:
  assumes "list_all2 blanked_as blanked source"
  shows "tests_from source blanked i = Some ts \<Longrightarrow> list_all (real_test source blanked) ts"
proof (induction "length blanked - i" arbitrary: i ts rule: less_induct)
  case less
  show ?case
  proof (cases "test_step source blanked i")
    case None
    with less(2) show ?thesis by (subst (asm) tests_from.simps) simp
  next
    case (Some r)
    obtain k f where r: "r = (k, f)" by (cases r)
    have lt: "length blanked - k < length blanked - i" using test_step_progress[OF Some[unfolded r]] by auto
    show ?thesis
    proof (cases f)
      case None
      with less(2) Some r have "tests_from source blanked k = Some ts" by (subst (asm) tests_from.simps) simp
      then show ?thesis by (rule less(1)[OF lt])
    next
      case (Some x)
      obtain name a bo bc where x: "x = (name, a, bo, bc)" by (cases x)
      with \<open>test_step source blanked i = Some r\<close> r Some
      have st: "test_step source blanked i = Some (k, Some (name, a, bo, bc))" by simp
      obtain t us where t: "test_at source name a bo bc = Some t" "tests_from source blanked k = Some us" "ts = t # us"
        using less(2) st by (subst (asm) tests_from.simps) (auto simp: bind_eq_Some_conv)
      note found = test_step_found[OF st]
      have "source ! bo = CHR ''{''" using blanked_nth[OF assms found(3)] found(4) by simp
      from braces_contained[OF found(5) this] test_at_simps[OF t(1)] found(1,2)
      have "real_test source blanked t" by (simp add: real_test_def)
      with less(1)[OF lt t(2)] t(3) show ?thesis by simp
    qed
  qed
qed

text \<open>Every test the parser reports is real: its name has a test prefix and is declared outside comments, and
  its body is the text between a pair of matching braces of the source.\<close>

theorem parsed_tests_are_real:
  "case (test_blank source, parse_tests_from_source source) of
     (Some blanked, Some ts) \<Rightarrow> list_all (real_test source blanked) ts
   | (None, Some ts) \<Rightarrow> False
   | (b, None) \<Rightarrow> True"
  by (cases "test_blank source"; cases "parse_tests_from_source source")
    (auto simp: parse_tests_from_source_def dest: tests_from_real[OF test_blank_aligned])

text \<open>Three ways a comment makes both parsers panic: a letter whose last byte reads as white space (as the
  a with a grave accent) right before the line end above a declaration, an empty block comment above
  a declaration, and an unclosed block comment that ends in a letter beyond ASCII.\<close>

theorem comment_panics:
  "list_all (\<lambda>s. parse_natspec s = None \<and> parse_tests_from_source s = None)
     [''// voil'' @ [CHR 0xC3, CHR 0xA0, NL] @ ''function testA() public { }'',
      ''/**/'' @ [NL] @ ''function testA() public { }'',
      ''contract C {} /* caf'' @ [CHR 0xC3, CHR 0xA9]]"
  by code_simp

section \<open>Totality\<close>

lemma ascii_drop_take: "ascii_text s \<Longrightarrow> ascii_text (take n (drop m s))"
  by (auto simp: list_all_iff dest: in_set_takeD in_set_dropD)

lemma contains_of_drop: "contains (drop n s) p \<Longrightarrow> contains s p"
  by (metis append_take_drop_id contains_append_left)

lemma blank_quoted_ascii:
  "ascii_text s \<Longrightarrow> ascii_text (fst (blank_quoted q s)) \<and> ascii_text (snd (blank_quoted q s))"
proof (induction q s rule: blank_quoted.induct)
  case (2 q a s)
  have d: "ascii_text (drop 1 s)" "ascii_text s" using 2(3) by (auto simp: list_all_iff dest: in_set_dropD)
  have sp: "is_ascii (CHR '' '')" "is_ascii NL" by (simp_all add: char_class_defs)
  consider "a = q" | "a \<noteq> q" "a = BSL \<and> s \<noteq> []" | "a \<noteq> q" "\<not> (a = BSL \<and> s \<noteq> [])" by blast
  then show ?case
  proof cases
    case 1
    with 2(3) show ?thesis by simp
  next
    case b: 2
    with 2(1)[OF b d(1)] sp show ?thesis by (simp add: split_beta)
  next
    case b: 3
    with 2(2)[OF b d(2)] sp show ?thesis by (simp add: split_beta)
  qed
qed simp

lemma blank_strings_ascii: "ascii_text s \<Longrightarrow> ascii_text (blank_strings s)"
proof (induction s rule: blank_strings.induct)
  case (2 c s)
  obtain out rest where r: "blank_quoted c s = (out, rest)" by (cases "blank_quoted c s")
  have "ascii_text out" "ascii_text rest" using blank_quoted_ascii[of s c] 2(3) r by auto
  with 2 r show ?case by (subst blank_strings.simps) auto
qed simp

lemma test_blank_ascii: "ascii_text s \<Longrightarrow> \<exists>b. test_blank s = Some b \<and> ascii_text b"
  using ascii_blanked[OF blank_with_aligned[of any_line any_block s]] utf8_valid_ascii
  by (auto simp: test_blank_def from_utf8_def any_line_def any_block_def)

lemma scan_assertions_ascii: "ascii_text body \<Longrightarrow> scan_assertions body \<noteq> None"
  using test_blank_ascii[of body] blank_strings_ascii utf8_valid_ascii
  by (auto simp: scan_assertions_def strip_string_literals_def from_utf8_def)

lemma leading_doc_ascii:
  assumes "ascii_text source" "\<not> contains source ''/**/''"
  shows "extract_leading_doc_comment source n \<noteq> None"
proof -
  let ?pre = "take n source"
  have "ascii_text ?pre" using ascii_drop_take[OF assms(1), of n 0] by simp
  then obtain h where h: "head_of ?pre = Some h" using ascii_head by blast
  have "\<not> contains (trim_end h) ''/**/''"
    using assms(2) contains_take contains_trim_end head_of_take[OF h] by metis
  then have "ends_with (trim_end h) ''*/'' \<Longrightarrow> block_lines (trim_end h) \<noteq> None"
    using block_lines_None by blast
  with h show ?thesis by (auto simp: extract_leading_doc_comment_def Let_def split: option.split)
qed

lemma test_at_ascii:
  assumes "ascii_text source" "\<not> contains source ''/**/''"
  shows "test_at source name a bo bc \<noteq> None"
  using leading_doc_ascii[OF assms, of a] scan_assertions_ascii[OF ascii_drop_take[OF assms(1), of "bc - (bo + 1)" "bo + 1"]]
  by (auto simp: test_at_def Let_def)

lemma tests_from_ascii:
  assumes "ascii_text source" "\<not> contains source ''/**/''"
  shows "tests_from source blanked i \<noteq> None"
proof (induction "length blanked - i" arbitrary: i rule: less_induct)
  case less
  show ?case
  proof (cases "test_step source blanked i")
    case None
    then show ?thesis by (subst tests_from.simps) simp
  next
    case (Some r)
    obtain k f where r: "r = (k, f)" by (cases r)
    have "length blanked - k < length blanked - i" using test_step_progress[OF Some[unfolded r]] by auto
    then have ih: "tests_from source blanked k \<noteq> None" by (rule less)
    show ?thesis
    proof (cases f)
      case None
      with Some r ih show ?thesis by (subst tests_from.simps) simp
    next
      case x: (Some x)
      obtain name a bo bc where "x = (name, a, bo, bc)" by (cases x)
      with Some r x ih test_at_ascii[OF assms, of name a bo bc] show ?thesis by (subst tests_from.simps) auto
    qed
  qed
qed

text \<open>On ASCII text without an empty block comment both parsers return.\<close>

theorem comment_parsers_total:
  assumes "ascii_text source" "\<not> contains source ''/**/''"
  shows "parse_natspec source \<noteq> None \<and> parse_tests_from_source source \<noteq> None"
  using natspec_total[OF assms] test_blank_ascii[OF assms(1)] tests_from_ascii[OF assms]
  by (auto simp: parse_tests_from_source_def)

theorem comment_parsers_total_witness:
  "parse_natspec (''/** @dev x */ contract C { }'') \<noteq> None
   \<and> parse_tests_from_source (''/** @dev x */ contract C { }'') \<noteq> None"
  by (rule comment_parsers_total) code_simp+

end
