(* ===== verification/Fingerprint.thy ===== *)
theory Fingerprint
  imports Classify TestParser
begin

text \<open>
  Stage 0 (\<open>crates/vergil-core/src/fingerprint.rs\<close>): what a project offers to the later stages, read off
  its directory tree. \<open>canon\<close> is \<open>Path::canonicalize\<close> and the tree is what stands at the canonical path.
  The text of an I/O error is left out; \<open>None\<close> is a panic of a parser.
\<close>

section \<open>The fingerprint\<close>

record available_oracles =
  avo_tests :: bool
  avo_natspec :: bool
  avo_readme :: "string option"
  avo_recognized_fork :: "string option"

record fingerprint_data =
  fp_project_root :: string
  fp_interfaces :: "string list"
  fp_primitives :: "string list"
  fp_available_oracles :: available_oracles
  fp_contract_sources :: "(string \<times> string option) list"
  fp_primitive_classification :: primitive_classification

datatype fingerprint_error = FpNotAProject string | FpIo string

section \<open>Sources\<close>

fun walk_sol :: "string \<Rightarrow> (string \<times> fs_node) list \<Rightarrow> (string \<times> string option) list" where
  "walk_sol dir [] = []"
| "walk_sol dir ((name, DirN None) # es) = walk_sol dir es"
| "walk_sol dir ((name, DirN (Some sub)) # es) = walk_sol (path_join dir name) sub @ walk_sol dir es"
| "walk_sol dir ((name, FileN body) # es) =
     (if extension name = Some ''sol'' then [(path_join dir name, body)] else []) @ walk_sol dir es"

text \<open>A source is kept with its content, which the later reads find unchanged; \<open>dedup\<close> as in \<open>parse_tests\<close>.\<close>

definition collect_contract_sources :: "string \<Rightarrow> fs_node \<Rightarrow> (string \<times> string option) list" where
  "collect_contract_sources root_path node =
     (let found =
        (case child node ''src'' of
           Some (DirN None) \<Rightarrow> []
         | Some (DirN (Some es)) \<Rightarrow> walk_sol (path_join root_path ''src'') es
         | _ \<Rightarrow> (case node of
                   DirN (Some es) \<Rightarrow> collect_sol_files_shallow root_path es
                 | _ \<Rightarrow> []))
      in remdups_adj (sort_key (path_key \<circ> fst) found))"

fun join_sources :: "(string \<times> string option) list \<Rightarrow> fingerprint_error + string" where
  "join_sources [] = Inr []"
| "join_sources ((path, None) # fs) = Inl (FpIo path)"
| "join_sources ((path, Some body) # fs) =
     (case join_sources fs of Inl e \<Rightarrow> Inl e | Inr rest \<Rightarrow> Inr (body @ [NL] @ rest))"

section \<open>Interfaces and primitives\<close>

definition sorted_interfaces :: "string \<Rightarrow> string list option" where
  "sorted_interfaces joined =
     map_option (\<lambda>found.
        sort (remdups (found
          @ sig (function_transfer joined \<and> function_transferfrom joined \<and> public_allowance joined
                 \<and> \<not> erc721_shape joined) ''ERC20''
          @ sig (public_balanceof joined \<and> function_transfer joined \<and> public_allowance joined
                 \<and> \<not> erc721_shape joined) ''ERC20''
          @ sig (erc721_shape joined) ''ERC721''
          @ sig (erc1155_shape joined) ''ERC1155''
          @ (if erc4626_shape joined then [''ERC4626'', ''ERC20''] else []))))
       (detect_interfaces joined)"

definition detect_primitives :: "string list \<Rightarrow> string \<Rightarrow> string list" where
  "detect_primitives interfaces joined =
     (let has = List.member interfaces;
          lending = (contains joined ''function borrow('' \<and> contains joined ''function repay(''
                     \<and> contains joined ''function liquidate('');
          amm = (contains joined ''function swap('' \<and> (contains joined ''reserves0'' \<or> contains joined ''reserve0''))
      in sort (remdups
           ((if has ''ERC4626'' then [''vault'']
             else if has ''ERC20'' then [''token-erc20'']
             else if has ''ERC721'' then [''token-erc721'']
             else if has ''ERC1155'' then [''token-erc1155''] else [])
            @ sig lending ''lending-market'' @ sig amm ''amm'')))"

section \<open>Oracles\<close>

definition detect_available_oracles :: "string \<Rightarrow> fs_node \<Rightarrow> (fingerprint_error + available_oracles) option" where
  "detect_available_oracles root_path node = do {
     tests \<leftarrow> parse_tests root_path node;
     (case tests of
        Inl (TpIo path) \<Rightarrow> Some (Inl (FpIo path))
      | _ \<Rightarrow> do {
          blocks \<leftarrow> parse_natspec_dir root_path node;
          Some (case blocks of
             Inl (NsIo path) \<Rightarrow> Inl (FpIo path)
           | _ \<Rightarrow> Inr
               \<lparr>avo_tests = (case tests of Inr ts \<Rightarrow> ts \<noteq> [] | Inl e \<Rightarrow> False),
                avo_natspec = (case blocks of Inr bs \<Rightarrow> bs \<noteq> [] | Inl e \<Rightarrow> False),
                avo_readme = map_option (path_join root_path)
                  (List.find (child_is_file node) [''README.md'', ''README'', ''readme.md'']),
                avo_recognized_fork = None\<rparr>)
        })
   }"

section \<open>Stage 0\<close>

definition make_fingerprint ::
    "string \<Rightarrow> (string \<times> string option) list \<Rightarrow> string \<Rightarrow> string list \<Rightarrow> primitive_classification
     \<Rightarrow> available_oracles \<Rightarrow> fingerprint_data" where
  "make_fingerprint root_path sources joined interfaces classification ao =
     \<lparr>fp_project_root = root_path, fp_interfaces = interfaces,
      fp_primitives = (case classification_top classification of
         Some best \<Rightarrow> [primitive_id (pm_primitive best)]
       | None \<Rightarrow> detect_primitives interfaces joined),
      fp_available_oracles = ao, fp_contract_sources = sources,
      fp_primitive_classification = classification\<rparr>"

definition fingerprint ::
    "(string \<Rightarrow> string option) \<Rightarrow> fs_node \<Rightarrow> string \<Rightarrow> (fingerprint_error + fingerprint_data) option" where
  "fingerprint canon node project_root =
     (case canon project_root of
        None \<Rightarrow> Some (Inl (FpNotAProject project_root))
      | Some root_path \<Rightarrow>
          (if \<not> is_dir_node node \<or> \<not> child_is_file node ''foundry.toml'' then Some (Inl (FpNotAProject root_path))
           else
             (let sources = collect_contract_sources root_path node in
              case join_sources sources of
                Inl e \<Rightarrow> Some (Inl e)
              | Inr joined \<Rightarrow> do {
                  interfaces \<leftarrow> sorted_interfaces joined;
                  classification \<leftarrow> classify joined;
                  oracles \<leftarrow> detect_available_oracles root_path node;
                  Some (map_sum id (make_fingerprint root_path sources joined interfaces classification) oracles)
                })))"

section \<open>Lemmas\<close>

lemma top_in_matches: "classification_top c = Some m \<Longrightarrow> m \<in> set (pc_matches c)"
proof -
  have "fold (\<lambda>b a. later_max a b) ms m0 \<in> insert m0 (set ms)" for ms m0
    by (induction ms arbitrary: m0) (auto simp: later_max_def)
  then show "classification_top c = Some m \<Longrightarrow> m \<in> set (pc_matches c)"
    by (cases "pc_matches c") (auto simp: classification_top_def)
qed

lemma sources_have_content: "join_sources fs = Inr joined \<Longrightarrow> list_all (\<lambda>(path, body). body \<noteq> None) fs"
  by (induction fs arbitrary: joined rule: join_sources.induct) (auto split: sum.splits)

lemma sorted_interfaces_strict: "sorted_interfaces joined = Some ifs \<Longrightarrow> sorted ifs \<and> distinct ifs"
  by (auto simp: sorted_interfaces_def)

lemma detect_primitives_strict: "sorted (detect_primitives ifs joined) \<and> distinct (detect_primitives ifs joined)"
  by (simp add: detect_primitives_def Let_def del: remdups.simps sort_key_simps)

lemma top_none: "classification_top c = None \<longleftrightarrow> pc_matches c = []"
  by (cases "pc_matches c") (auto simp: classification_top_def)

text \<open>A vault is also an ERC-20 share token.\<close>

lemma vault_shape_is_token:
  "erc4626_shape joined \<Longrightarrow> sorted_interfaces joined = Some ifs \<Longrightarrow> {''ERC4626'', ''ERC20''} \<subseteq> set ifs"
  by (auto simp: sorted_interfaces_def)

lemma collected_sorted: "sorted (map (path_key \<circ> fst) (collect_contract_sources root_path node))"
proof -
  have "sorted (map (path_key \<circ> fst) (remdups_adj xs))" if "sorted (map (path_key \<circ> fst) xs)" for xs :: "(string \<times> string option) list"
    using that by (induction xs rule: remdups_adj.induct) auto
  then show ?thesis by (simp add: collect_contract_sources_def)
qed

text \<open>What the success of stage 0 comes from.\<close>

lemma fingerprint_inv:
  assumes "fingerprint canon node project_root = Some (Inr fp)"
  shows "\<exists>root_path joined. canon project_root = Some root_path \<and> is_dir_node node
    \<and> child_is_file node ''foundry.toml'' \<and> join_sources (collect_contract_sources root_path node) = Inr joined
    \<and> fp_project_root fp = root_path \<and> fp_contract_sources fp = collect_contract_sources root_path node
    \<and> sorted_interfaces joined = Some (fp_interfaces fp)
    \<and> fp_primitives fp = (case classification_top (fp_primitive_classification fp) of
        Some best \<Rightarrow> [primitive_id (pm_primitive best)] | None \<Rightarrow> detect_primitives (fp_interfaces fp) joined)"
proof -
  obtain root_path joined interfaces classification ao where
      "canon project_root = Some root_path" "is_dir_node node" "child_is_file node ''foundry.toml''"
      "join_sources (collect_contract_sources root_path node) = Inr joined"
      "sorted_interfaces joined = Some interfaces"
      "fp = make_fingerprint root_path (collect_contract_sources root_path node) joined interfaces classification ao"
    using assms
    by (auto simp: fingerprint_def Let_def bind_eq_Some_conv map_sum_inr split: option.splits sum.splits if_split_asm)
  then show ?thesis
    by (auto simp: make_fingerprint_def cong: option.case_cong)
qed

section \<open>The property\<close>

text \<open>C29: a fingerprint is made only of a canonical directory with a foundry.toml; its sources are in the
  order of their paths and every one of them was read, the interface tags and the primitives are in order
  and without repetition, and when the classifier matches anything, the primitives are the one identifier
  of its best match.\<close>

theorem fingerprint_exact:
  "(case fingerprint canon node project_root of
      Some (Inr fp) \<Rightarrow>
        canon project_root = Some (fp_project_root fp) \<and> is_dir_node node \<and> child_is_file node ''foundry.toml''
        \<and> sorted (map (path_key \<circ> fst) (fp_contract_sources fp))
        \<and> list_all (\<lambda>(path, body). body \<noteq> None) (fp_contract_sources fp)
        \<and> sorted (fp_interfaces fp) \<and> distinct (fp_interfaces fp)
        \<and> sorted (fp_primitives fp) \<and> distinct (fp_primitives fp)
        \<and> (case classification_top (fp_primitive_classification fp) of
             Some best \<Rightarrow> fp_primitives fp = [primitive_id (pm_primitive best)]
                \<and> List.member (pc_matches (fp_primitive_classification fp)) best
           | None \<Rightarrow> pc_matches (fp_primitive_classification fp) = [])
    | _ \<Rightarrow> True)"
proof (cases "\<exists>fp. fingerprint canon node project_root = Some (Inr fp)")
  case True
  then obtain fp where f: "fingerprint canon node project_root = Some (Inr fp)"
    by blast
  obtain root_path joined where j: "canon project_root = Some root_path" "is_dir_node node"
      "child_is_file node ''foundry.toml''" "join_sources (collect_contract_sources root_path node) = Inr joined"
    "fp_project_root fp = root_path" "fp_contract_sources fp = collect_contract_sources root_path node"
    "sorted_interfaces joined = Some (fp_interfaces fp)"
    "fp_primitives fp = (case classification_top (fp_primitive_classification fp) of
       Some best \<Rightarrow> [primitive_id (pm_primitive best)] | None \<Rightarrow> detect_primitives (fp_interfaces fp) joined)"
    using fingerprint_inv [OF f] by blast
  show ?thesis
    using j sources_have_content [OF j(4)] sorted_interfaces_strict [OF j(7)] top_in_matches
      detect_primitives_strict collected_sorted
    by (simp add: f top_none split: option.splits)
next
  case False
  then show ?thesis
    by (auto split: option.splits sum.splits)
qed

end
