(* ===== verification/BTree.thy ===== *)
theory BTree
  imports RustStr "HOL-Library.List_Lexorder" "HOL-Library.Char_ord"
begin

text \<open>
  \<open>BTreeMap\<close> and \<open>BTreeSet\<close> with string keys: lists in the order of their keys, each key once. A map is
  read with \<open>map_of\<close>. Also the loader both catalogues share, behind the contract of a kind of template.
\<close>

section \<open>Maps\<close>

definition btree_ok :: "(string \<times> 'v) list \<Rightarrow> bool" where
  "btree_ok m \<longleftrightarrow> sorted_wrt (<) (map fst m)"

text \<open>\<open>BTreeMap::insert\<close>: a key that is present gets the new value.\<close>

fun btree_insert :: "string \<Rightarrow> 'v \<Rightarrow> (string \<times> 'v) list \<Rightarrow> (string \<times> 'v) list" where
  "btree_insert k v [] = [(k, v)]"
| "btree_insert k v ((k', v') # m) =
     (if k < k' then (k, v) # (k', v') # m
      else if k = k' then (k, v) # m
      else (k', v') # btree_insert k v m)"

definition btree_of :: "(string \<times> 'v) list \<Rightarrow> (string \<times> 'v) list" where
  "btree_of ps = fold (\<lambda>(k, v). btree_insert k v) ps []"

lemma btree_insert_keys: "set (map fst (btree_insert k v m)) = insert k (set (map fst m))"
  by (induction k v m rule: btree_insert.induct) auto

lemma btree_insert_ok [inv_intros]: "btree_ok m \<Longrightarrow> btree_ok (btree_insert k v m)"
proof (induction k v m rule: btree_insert.induct)
  case (2 k v k' v' m)
  then show ?case
    using btree_insert_keys[of k v m] by (auto simp: btree_ok_def intro: less_trans)
qed (simp add: btree_ok_def)

lemma btree_get_insert: "btree_ok m \<Longrightarrow> map_of (btree_insert k v m) = (map_of m)(k \<mapsto> v)"
proof (induction k v m rule: btree_insert.induct)
  case (2 k v k' v' m)
  have "map_of m k = None" if "k < k'"
    using that 2(2) by (force simp: btree_ok_def map_of_eq_None_iff)
  with 2 show ?case by (auto simp: btree_ok_def fun_upd_twist)
qed simp

lemma btree_insert_new:
  "map_of m k = None \<Longrightarrow> set (btree_insert k v m) = insert (k, v) (set m) \<and> length (btree_insert k v m) = Suc (length m)"
  by (induction k v m rule: btree_insert.induct) (auto split: if_split_asm)

lemma btree_of_ok: "btree_ok (btree_of ps)"
proof -
  have "btree_ok (fold (\<lambda>(k, v). btree_insert k v) ps m)" if "btree_ok m" for m :: "(string \<times> 'a) list"
    using that by (induction ps arbitrary: m) (auto intro: btree_insert_ok)
  then show ?thesis by (simp add: btree_of_def btree_ok_def)
qed

section \<open>Sets\<close>

definition bset_insert :: "string \<Rightarrow> string list \<Rightarrow> string list" where
  "bset_insert x xs = (if List.member xs x then xs else insort x xs)"

lemma set_bset_insert [simp]: "set (bset_insert x xs) = insert x (set xs)"
  by (auto simp: bset_insert_def List.member_iff set_insort_key)

lemma bset_insert_ok [inv_intros]: "sorted xs \<and> distinct xs \<Longrightarrow> sorted (bset_insert x xs) \<and> distinct (bset_insert x xs)"
  by (auto simp: bset_insert_def List.member_iff sorted_insort distinct_insort)

section \<open>Loading a catalogue of templates\<close>

text \<open>
  The loop of \<open>Catalog::load\<close> and \<open>AttackCatalog::load\<close>: read, lint, refuse a second template of one
  identifier, insert. The first error ends it.
\<close>

fun load_templates ::
    "('d \<Rightarrow> 'e + 't) \<Rightarrow> ('t \<Rightarrow> 'e option) \<Rightarrow> ('t \<Rightarrow> string) \<Rightarrow> (string \<Rightarrow> 'e) \<Rightarrow> 'd list
     \<Rightarrow> (string \<times> 't) list \<Rightarrow> 'e + (string \<times> 't) list" where
  "load_templates load lint ident dup [] m = Inr m"
| "load_templates load lint ident dup (d # ds) m =
     (case load d of
        Inl e \<Rightarrow> Inl e
      | Inr t \<Rightarrow>
          (case lint t of
             Some e \<Rightarrow> Inl e
           | None \<Rightarrow>
               if map_of m (ident t) \<noteq> None then Inl (dup (ident t))
               else load_templates load lint ident dup ds (btree_insert (ident t) t m)))"

text \<open>What a kind of template promises: a template comes from its directory, and the lint refuses what is not clean.\<close>

locale template_kind =
  fixes load :: "'d \<Rightarrow> 'e + 't" and lint :: "'t \<Rightarrow> 'e option"
    and read_from :: "'d \<Rightarrow> 't \<Rightarrow> bool" and clean :: "'t \<Rightarrow> bool"
  assumes load_reads: "load d = Inr t \<Longrightarrow> read_from d t"
    and lint_clean: "lint t = None \<Longrightarrow> clean t"
begin

definition entry_ok :: "('t \<Rightarrow> string) \<Rightarrow> 'd list \<Rightarrow> string \<times> 't \<Rightarrow> bool" where
  "entry_ok ident ds kt \<longleftrightarrow> fst kt = ident (snd kt) \<and> clean (snd kt) \<and> list_ex (\<lambda>d. read_from d (snd kt)) ds"

lemma entry_ok_mono: "entry_ok ident ds kt \<Longrightarrow> entry_ok ident (d # ds) kt"
  by (simp add: entry_ok_def)

lemma load_templates_invariant:
  assumes "load_templates load lint ident dup ds m = Inr cat" and "btree_ok m" and "\<forall>kt \<in> set m. entry_ok ident ds0 kt"
  shows "btree_ok cat \<and> length cat = length m + length ds \<and> (\<forall>kt \<in> set cat. entry_ok ident (ds0 @ ds) kt)"
  using assms
proof (induction ds arbitrary: m ds0)
  case Nil
  then show ?case by simp
next
  case (Cons d ds)
  then obtain t where t: "load d = Inr t" "lint t = None" "map_of m (ident t) = None"
      "load_templates load lint ident dup ds (btree_insert (ident t) t m) = Inr cat"
    by (auto split: sum.splits option.splits if_split_asm)
  have "entry_ok ident (ds0 @ [d]) (ident t, t)"
    using load_reads[OF t(1)] lint_clean[OF t(2)] by (simp add: entry_ok_def)
  moreover have "\<forall>kt \<in> set m. entry_ok ident (ds0 @ [d]) kt"
    using Cons.prems(3) by (auto simp: entry_ok_def)
  ultimately have "\<forall>kt \<in> set (btree_insert (ident t) t m). entry_ok ident (ds0 @ [d]) kt"
    using btree_insert_new[OF t(3)] by auto
  from Cons.IH[OF t(4) btree_insert_ok[OF Cons.prems(2)] this] show ?case
    using btree_insert_new[OF t(3)] by auto
qed

lemma load_templates_sound:
  "load_templates load lint ident dup ds [] = Inr cat \<Longrightarrow>
     btree_ok cat \<and> length cat = length ds \<and> (\<forall>kt \<in> set cat. entry_ok ident ds kt)"
  using load_templates_invariant[of ident dup ds "[]" cat "[]"] by (simp add: btree_ok_def)

end

end
