(* ===== verification/AttackTemplates.thy ===== *)
theory AttackTemplates
  imports BTree Disk
begin

text \<open>
  The catalogue of attack templates (\<open>crates/vergil-properties/src/attack_catalog.rs\<close>, with the types it
  takes from \<open>catalog.rs\<close>): manifests, loading, lint, and which templates apply to a contract. The
  catalogue directory is a tree as in Disk; the YAML decoder is a parameter.
\<close>

section \<open>Types shared with the conformance catalogue\<close>

datatype cat_tier = Vendored | Original | ReferenceOnly

record storage_slot_req =
  sq_name :: string
  sq_solidity_type :: string

section \<open>The manifest\<close>

datatype severity = Informational | LowSeverity | MediumSeverity | HighSeverity | CriticalSeverity

fun severity_str :: "severity \<Rightarrow> string" where
  "severity_str Informational = ''informational''"
| "severity_str LowSeverity = ''low''"
| "severity_str MediumSeverity = ''medium''"
| "severity_str HighSeverity = ''high''"
| "severity_str CriticalSeverity = ''critical''"

datatype decidability_status = Decidable | Frontier | DocumentOnly

datatype expected_solver = ExpectZ3 | ExpectCvc5 | EitherSolver

datatype expected_theory = Lia | Bv | Uf | MixedTheory

record decidability =
  dy_smt_status :: decidability_status
  dy_over_approximation :: "string option"
  dy_expected_solver :: expected_solver
  dy_expected_theory :: expected_theory

record applies_to =
  ap_interfaces :: "string list"
  ap_primitives :: "string list"
  ap_patterns :: "(string \<times> bool) list"

datatype modifier_presence = RequiredModifier | OptionalModifier | AbsentRequired

record attack_requires =
  aq_storage_slots :: "storage_slot_req list"
  aq_modifiers :: "(string \<times> modifier_presence) list"
  aq_external_call_handling :: "string option"

record attack_encoding =
  an_halmos :: string
  an_smtchecker :: "string option"

record attack_fixtures =
  af_vulnerable :: string
  af_clean :: string

record real_world_exploit =
  rw_name :: string
  rw_year :: "u32 option"
  rw_loss_usd_approx :: "u64 option"
  rw_chain :: "string option"
  rw_url :: "string option"

record attack_provenance =
  av_tier :: cat_tier
  av_source :: string
  av_license :: string
  av_references :: "string list"
  av_real_world :: "real_world_exploit list"

record attack_manifest =
  am_id :: string
  am_name :: string
  am_category :: string
  am_severity :: severity
  am_decidability :: decidability
  am_applies_to :: applies_to
  am_requires :: attack_requires
  am_negation_property :: string
  am_encoding :: "attack_encoding option"
  am_fixtures :: "attack_fixtures option"
  am_provenance :: attack_provenance
  am_mitigation :: string
  am_engineering_notes :: "string option"

record attack_template =
  at_manifest :: attack_manifest
  at_dir :: string
  at_halmos_source :: string
  at_smtchecker_source :: string
  at_vulnerable_source :: string
  at_clean_source :: string

abbreviation at_id :: "attack_template \<Rightarrow> string" where
  "at_id t \<equiv> am_id (at_manifest t)"

abbreviation at_status :: "attack_template \<Rightarrow> decidability_status" where
  "at_status t \<equiv> dy_smt_status (am_decidability (at_manifest t))"

text \<open>The I/O error without its text; the YAML error is the decoder's.\<close>

datatype attack_error =
    AtIo string
  | AtYaml string string
  | AtMissingEncoding string string string
  | AtMissingFixture string string string
  | AtEscapingPath string string
  | AtDuplicateId string
  | AtFrontierMissingOverApprox string
  | AtLicenseTierViolation string cat_tier string

section \<open>Static facts and activation\<close>

record static_facts =
  sf_interfaces :: "string list"
  sf_primitives :: "string list"
  sf_patterns :: "(string \<times> bool) list"

definition static_facts_new :: static_facts where
  "static_facts_new = \<lparr>sf_interfaces = [], sf_primitives = [], sf_patterns = []\<rparr>"

definition with_interface :: "string \<Rightarrow> static_facts \<Rightarrow> static_facts" where
  "with_interface i f = f\<lparr>sf_interfaces := bset_insert i (sf_interfaces f)\<rparr>"

definition with_primitive :: "string \<Rightarrow> static_facts \<Rightarrow> static_facts" where
  "with_primitive p f = f\<lparr>sf_primitives := bset_insert p (sf_primitives f)\<rparr>"

definition with_pattern :: "string \<Rightarrow> bool \<Rightarrow> static_facts \<Rightarrow> static_facts" where
  "with_pattern k v f = f\<lparr>sf_patterns := btree_insert k v (sf_patterns f)\<rparr>"

record skipped_attack =
  sx_id :: string
  sx_reason :: string

record activation_result =
  ar_templates :: "attack_template list"
  ar_skipped :: "skipped_attack list"

text \<open>\<open>Debug\<close> of a string and of a vector of strings, for texts in ASCII; other control characters are
  written by their number in hexadecimal.\<close>

definition hex_char :: "nat \<Rightarrow> char" where
  "hex_char d = (if d < 10 then digit_char d else char_of (87 + d))"

definition debug_char :: "char \<Rightarrow> string" where
  "debug_char c =
     (if c = DQ then [BSL, DQ] else if c = BSL then [BSL, BSL]
      else if c = NL then [BSL, CHR ''n''] else if c = CR then [BSL, CHR ''r'']
      else if byte c = 9 then [BSL, CHR ''t''] else if c = NUL then [BSL, CHR ''0'']
      else if byte c < 16 then [BSL] @ ''u{'' @ [hex_char (byte c)] @ ''}''
      else if byte c < 32 \<or> byte c = 127
        then [BSL] @ ''u{'' @ [hex_char (byte c div 16), hex_char (byte c mod 16)] @ ''}''
      else [c])"

definition debug_str :: "string \<Rightarrow> string" where
  "debug_str s = [DQ] @ concat (map debug_char s) @ [DQ]"

definition debug_strs :: "string list \<Rightarrow> string" where
  "debug_strs xs = ''['' @ join '', '' (map debug_str xs) @ '']''"

definition contains_any_tag :: "string list \<Rightarrow> bool" where
  "contains_any_tag tags = list_ex (\<lambda>t. t = ''any'') tags"

definition bool_str :: "bool \<Rightarrow> string" where
  "bool_str b = (if b then ''true'' else ''false'')"

definition pattern_value :: "(string \<times> bool) list \<Rightarrow> string \<Rightarrow> bool" where
  "pattern_value ps k = (case map_of ps k of Some v \<Rightarrow> v | None \<Rightarrow> False)"

fun pattern_miss :: "(string \<times> bool) list \<Rightarrow> (string \<times> bool) list \<Rightarrow> string option" where
  "pattern_miss [] facts = None"
| "pattern_miss ((k, want) # ps) facts =
     (let got = pattern_value facts k in
      if got \<noteq> want then Some (''pattern '' @ k @ ''='' @ bool_str want @ '' not satisfied (got '' @ bool_str got @ '')'')
      else pattern_miss ps facts)"

text \<open>\<open>None\<close> is \<open>Ok(())\<close>, else the reason.\<close>

definition matches_applies_to :: "applies_to \<Rightarrow> static_facts \<Rightarrow> string option" where
  "matches_applies_to a facts =
     (if ap_interfaces a \<noteq> [] \<and> \<not> contains_any_tag (ap_interfaces a)
         \<and> \<not> list_ex (\<lambda>t. List.member (sf_interfaces facts) t) (ap_interfaces a)
      then Some (''no overlap with required interfaces '' @ debug_strs (ap_interfaces a))
      else if ap_primitives a \<noteq> [] \<and> \<not> contains_any_tag (ap_primitives a)
         \<and> \<not> list_ex (\<lambda>t. List.member (sf_primitives facts) t) (ap_primitives a)
      then Some (''no overlap with required primitives '' @ debug_strs (ap_primitives a))
      else pattern_miss (ap_patterns a) (sf_patterns facts))"

definition activate_one :: "static_facts \<Rightarrow> attack_template \<Rightarrow> activation_result \<Rightarrow> activation_result" where
  "activate_one facts t out =
     (case matches_applies_to (am_applies_to (at_manifest t)) facts of
        None \<Rightarrow> out\<lparr>ar_templates := ar_templates out @ [t]\<rparr>
      | Some reason \<Rightarrow> out\<lparr>ar_skipped := ar_skipped out @ [\<lparr>sx_id = at_id t, sx_reason = reason\<rparr>]\<rparr>)"

definition activate :: "(string \<times> attack_template) list \<Rightarrow> static_facts \<Rightarrow> activation_result" where
  "activate cat facts = fold (activate_one facts) (map snd cat) \<lparr>ar_templates = [], ar_skipped = []\<rparr>"

section \<open>Loading\<close>

text \<open>A template directory is its path and what stands there.\<close>

definition walk_template_dirs :: "string \<Rightarrow> fs_node option \<Rightarrow> attack_error + (string \<times> fs_node) list" where
  "walk_template_dirs root_path node =
     (case node of
        Some (DirN (Some es)) \<Rightarrow>
          Inr (sort_key (path_key \<circ> fst)
            (map (\<lambda>(name, n). (path_join root_path name, n))
              (filter (\<lambda>(name, n). is_dir_node n \<and> child_is_file n ''manifest.yaml'') es)))
      | _ \<Rightarrow> Inl (AtIo root_path))"

definition resolve_under :: "string \<Rightarrow> string \<Rightarrow> string option" where
  "resolve_under dir rel = (if contains rel ''..'' \<or> starts_with rel ''/'' then None else Some (path_join dir rel))"

text \<open>What stands at a relative path below a directory.\<close>

fun node_at :: "fs_node \<Rightarrow> string list \<Rightarrow> fs_node option" where
  "node_at n [] = Some n"
| "node_at n (c # cs) =
     (if c = [] \<or> c = ''.'' then (if is_dir_node n then node_at n cs else None)
      else case child n c of None \<Rightarrow> None | Some m \<Rightarrow> node_at m cs)"

definition read_below :: "fs_node \<Rightarrow> string \<Rightarrow> string option" where
  "read_below node rel =
     (case node_at node (split_char (CHR ''/'') rel) of Some (FileN body) \<Rightarrow> body | _ \<Rightarrow> None)"

definition read_under :: "string \<Rightarrow> fs_node \<Rightarrow> string \<Rightarrow> string \<Rightarrow> bool \<Rightarrow> attack_error + string" where
  "read_under dir node tid rel is_fixture =
     (case resolve_under dir rel of
        None \<Rightarrow> Inl (AtEscapingPath tid rel)
      | Some path \<Rightarrow>
          (case read_below node rel of
             Some body \<Rightarrow> Inr body
           | None \<Rightarrow> Inl (if is_fixture then AtMissingFixture tid rel dir else AtMissingEncoding tid rel dir)))"

definition load_encoding :: "string \<Rightarrow> fs_node \<Rightarrow> attack_manifest \<Rightarrow> attack_error + string \<times> string" where
  "load_encoding dir node m =
     (case am_encoding m of
        Some enc \<Rightarrow>
          (case read_under dir node (am_id m) (an_halmos enc) False of
             Inl e \<Rightarrow> Inl e
           | Inr h \<Rightarrow>
               (case an_smtchecker enc of
                  None \<Rightarrow> Inr (h, [])
                | Some rel \<Rightarrow>
                    (case read_under dir node (am_id m) rel False of Inl e \<Rightarrow> Inl e | Inr s \<Rightarrow> Inr (h, s))))
      | None \<Rightarrow>
          if dy_smt_status (am_decidability m) = DocumentOnly then Inr ([], [])
          else Inl (AtMissingEncoding (am_id m) ''encoding section in manifest'' dir))"

definition load_fixtures :: "string \<Rightarrow> fs_node \<Rightarrow> attack_manifest \<Rightarrow> attack_error + string \<times> string" where
  "load_fixtures dir node m =
     (case am_fixtures m of
        Some fx \<Rightarrow>
          (case read_under dir node (am_id m) (af_vulnerable fx) True of
             Inl e \<Rightarrow> Inl e
           | Inr v \<Rightarrow>
               (case read_under dir node (am_id m) (af_clean fx) True of Inl e \<Rightarrow> Inl e | Inr c \<Rightarrow> Inr (v, c)))
      | None \<Rightarrow>
          if dy_smt_status (am_decidability m) = DocumentOnly then Inr ([], [])
          else Inl (AtMissingFixture (am_id m) ''fixtures section in manifest'' dir))"

text \<open>\<open>yaml\<close> is serde's decoder of a manifest, with the text of its error.\<close>

definition load_attack_template ::
    "(string \<Rightarrow> string + attack_manifest) \<Rightarrow> string \<times> fs_node \<Rightarrow> attack_error + attack_template" where
  "load_attack_template yaml entry =
     (let (dir, node) = entry; manifest_path = path_join dir ''manifest.yaml'' in
      case child_read node ''manifest.yaml'' of
        None \<Rightarrow> Inl (AtIo manifest_path)
      | Some bytes \<Rightarrow>
          (case yaml bytes of
             Inl e \<Rightarrow> Inl (AtYaml manifest_path e)
           | Inr m \<Rightarrow>
               (case load_encoding dir node m of
                  Inl e \<Rightarrow> Inl e
                | Inr (h, s) \<Rightarrow>
                    (case load_fixtures dir node m of
                       Inl e \<Rightarrow> Inl e
                     | Inr (v, c) \<Rightarrow>
                         Inr \<lparr>at_manifest = m, at_dir = dir, at_halmos_source = h, at_smtchecker_source = s,
                              at_vulnerable_source = v, at_clean_source = c\<rparr>))))"

definition to_upper :: "string \<Rightarrow> string" where
  "to_upper s = map (\<lambda>c. if is_lower c then char_of (byte c - 32) else c) s"

definition forbidden_licenses :: "string list" where
  "forbidden_licenses = [''GPL'', ''GPL-2.0'', ''GPL-3.0'', ''AGPL'', ''AGPL-3.0'', ''BUSL'', ''BUSL-1.1'']"

definition license_forbidden :: "cat_tier \<Rightarrow> string \<Rightarrow> bool" where
  "license_forbidden t license =
     ((t = Vendored \<or> t = Original) \<and> list_ex (\<lambda>f. starts_with (to_upper license) f) forbidden_licenses)"

definition lacks_over_approximation :: "attack_manifest \<Rightarrow> bool" where
  "lacks_over_approximation m =
     (dy_smt_status (am_decidability m) = Frontier
      \<and> (case dy_over_approximation (am_decidability m) of Some s \<Rightarrow> trim s = [] | None \<Rightarrow> True))"

definition lint_attack_template :: "attack_template \<Rightarrow> attack_error option" where
  "lint_attack_template t =
     (let m = at_manifest t; pv = am_provenance m in
      if lacks_over_approximation m then Some (AtFrontierMissingOverApprox (am_id m))
      else if license_forbidden (av_tier pv) (av_license pv)
      then Some (AtLicenseTierViolation (am_id m) (av_tier pv) (av_license pv))
      else None)"

definition attack_catalog_load ::
    "(string \<Rightarrow> string + attack_manifest) \<Rightarrow> string \<Rightarrow> fs_node option \<Rightarrow> attack_error + (string \<times> attack_template) list" where
  "attack_catalog_load yaml root_path node =
     (case walk_template_dirs root_path node of
        Inl e \<Rightarrow> Inl e
      | Inr dirs \<Rightarrow> load_templates (load_attack_template yaml) lint_attack_template at_id AtDuplicateId dirs [])"

definition attack_catalog_get :: "(string \<times> attack_template) list \<Rightarrow> string \<Rightarrow> attack_template option" where
  "attack_catalog_get cat tid = map_of cat tid"


section \<open>Lemmas\<close>

text \<open>An encoding or a fixture as it was read.\<close>

definition file_under :: "fs_node \<Rightarrow> string \<Rightarrow> string \<Rightarrow> bool" where
  "file_under node rel body \<longleftrightarrow>
     \<not> contains rel ''..'' \<and> \<not> starts_with rel ''/'' \<and> read_below node rel = Some body"

definition template_read_from :: "(string \<Rightarrow> string + attack_manifest) \<Rightarrow> string \<times> fs_node \<Rightarrow> attack_template \<Rightarrow> bool" where
  "template_read_from yaml entry t \<longleftrightarrow>
     (let m = at_manifest t; node = snd entry in
      at_dir t = fst entry
      \<and> map_option yaml (child_read node ''manifest.yaml'') = Some (Inr m)
      \<and> (case am_encoding m of
           Some enc \<Rightarrow> file_under node (an_halmos enc) (at_halmos_source t)
             \<and> (case an_smtchecker enc of None \<Rightarrow> at_smtchecker_source t = [] | Some rel \<Rightarrow> file_under node rel (at_smtchecker_source t))
         | None \<Rightarrow> at_status t = DocumentOnly \<and> at_halmos_source t = [])
      \<and> (case am_fixtures m of
           Some fx \<Rightarrow> file_under node (af_vulnerable fx) (at_vulnerable_source t) \<and> file_under node (af_clean fx) (at_clean_source t)
         | None \<Rightarrow> at_status t = DocumentOnly))"

definition template_clean :: "attack_template \<Rightarrow> bool" where
  "template_clean t \<longleftrightarrow>
     \<not> lacks_over_approximation (at_manifest t)
     \<and> \<not> license_forbidden (av_tier (am_provenance (at_manifest t))) (av_license (am_provenance (at_manifest t)))"

lemma read_under_Inr: "read_under dir node tid rel fx = Inr body \<longleftrightarrow> file_under node rel body"
  by (auto simp: read_under_def resolve_under_def file_under_def split: option.splits)

lemma load_attack_template_reads:
  assumes "load_attack_template yaml entry = Inr t"
  shows "template_read_from yaml entry t"
proof -
  obtain dir node where e: "entry = (dir, node)" by fastforce
  with assms obtain bytes m h s v c where r: "child_read node ''manifest.yaml'' = Some bytes" "yaml bytes = Inr m"
      "load_encoding dir node m = Inr (h, s)" "load_fixtures dir node m = Inr (v, c)"
      "t = \<lparr>at_manifest = m, at_dir = dir, at_halmos_source = h, at_smtchecker_source = s,
            at_vulnerable_source = v, at_clean_source = c\<rparr>"
    by (auto simp: load_attack_template_def Let_def split: option.splits sum.splits)
  from r(3) have "case am_encoding m of
      Some enc \<Rightarrow> file_under node (an_halmos enc) h
        \<and> (case an_smtchecker enc of None \<Rightarrow> s = [] | Some rel \<Rightarrow> file_under node rel s)
    | None \<Rightarrow> dy_smt_status (am_decidability m) = DocumentOnly \<and> h = []"
    by (auto simp: load_encoding_def read_under_Inr split: option.splits sum.splits if_split_asm)
  moreover from r(4) have "case am_fixtures m of
      Some fx \<Rightarrow> file_under node (af_vulnerable fx) v \<and> file_under node (af_clean fx) c
    | None \<Rightarrow> dy_smt_status (am_decidability m) = DocumentOnly"
    by (auto simp: load_fixtures_def read_under_Inr split: option.splits sum.splits if_split_asm)
  ultimately show ?thesis
    using e r(1,2,5) by (simp add: template_read_from_def cong: option.case_cong)
qed

lemma lint_attack_template_clean: "lint_attack_template t = None \<longleftrightarrow> template_clean t"
  by (simp add: lint_attack_template_def template_clean_def Let_def)

interpretation attack: template_kind "load_attack_template yaml" lint_attack_template "template_read_from yaml" template_clean
  for yaml
  by unfold_locales (simp_all add: load_attack_template_reads lint_attack_template_clean)

text \<open>When a manifest applies to a contract, as one condition.\<close>

definition tags_overlap :: "string list \<Rightarrow> string list \<Rightarrow> bool" where
  "tags_overlap required have_tags \<longleftrightarrow> required = [] \<or> ''any'' \<in> set required \<or> set required \<inter> set have_tags \<noteq> {}"

definition applies :: "applies_to \<Rightarrow> static_facts \<Rightarrow> bool" where
  "applies a facts \<longleftrightarrow>
     tags_overlap (ap_interfaces a) (sf_interfaces facts)
     \<and> tags_overlap (ap_primitives a) (sf_primitives facts)
     \<and> list_all (\<lambda>(k, want). pattern_value (sf_patterns facts) k = want) (ap_patterns a)"

lemma pattern_miss_None: "pattern_miss ps facts = None \<longleftrightarrow> list_all (\<lambda>(k, want). pattern_value facts k = want) ps"
  by (induction ps facts rule: pattern_miss.induct) (auto simp: Let_def)

lemma matches_None: "matches_applies_to a facts = None \<longleftrightarrow> applies a facts"
  by (auto simp: matches_applies_to_def applies_def tags_overlap_def contains_any_tag_def list_ex_iff
      List.member_iff pattern_miss_None)

lemma activate_fold:
  "fold (activate_one facts) ts out =
     \<lparr>ar_templates = ar_templates out @ filter (\<lambda>t. applies (am_applies_to (at_manifest t)) facts) ts,
      ar_skipped = ar_skipped out @
        map (\<lambda>t. \<lparr>sx_id = at_id t, sx_reason = the (matches_applies_to (am_applies_to (at_manifest t)) facts)\<rparr>)
          (filter (\<lambda>t. \<not> applies (am_applies_to (at_manifest t)) facts) ts)\<rparr>"
proof (induction ts arbitrary: out)
  case (Cons t ts)
  then show ?case
    by (cases "matches_applies_to (am_applies_to (at_manifest t)) facts")
       (auto simp: activate_one_def matches_None[symmetric])
qed simp

lemmas activate_eq = activate_fold[where out = "\<lparr>ar_templates = [], ar_skipped = []\<rparr>", simplified]

section \<open>Properties\<close>


text \<open>C34: Activation splits the catalogue in order and loses nothing: the templates whose interfaces and
  primitives overlap the contract's (or name any, or are not given) and whose pattern flags all have the
  value the contract has (an unknown flag is false) are activated, every other one is listed as skipped.\<close>

theorem activate_exact:
  "ar_templates (activate cat facts) = filter (\<lambda>t. applies (am_applies_to (at_manifest t)) facts) (map snd cat)
   \<and> map sx_id (ar_skipped (activate cat facts))
       = map at_id (filter (\<lambda>t. \<not> applies (am_applies_to (at_manifest t)) facts) (map snd cat))
   \<and> length (ar_templates (activate cat facts)) + length (ar_skipped (activate cat facts)) = length cat"
  using sum_length_filter_compl[of "\<lambda>t. applies (am_applies_to (at_manifest t)) facts" "map snd cat"]
  by (simp add: activate_def activate_eq comp_def)

end
