(* ===== verification/Unified.thy ===== *)
theory Unified
  imports Verdict Confirm Dispatcher Fingerprint AttackTemplates
begin

text \<open>
  The unified command after its candidates are known (\<open>crates/vergil-cli/src/commands/verify_unified.rs\<close>,
  stages 2 to 4, and \<open>crates/vergil-cli/src/output/cex_sink.rs\<close>): proposals for the confirmation gate,
  the dispatch of the confirmed candidates with the streaming of counterexamples, the outcomes, the
  proof artifact, the files that are written and the exit code.
\<close>

section \<open>From candidates to proposals\<close>

fun unified_source_label :: "source \<Rightarrow> string" where
  "unified_source_label UserIntent = ''user_intent''"
| "unified_source_label AttackCatalog = ''attack_catalog''"
| "unified_source_label Conformance = ''conformance''"
| "unified_source_label Tests = ''tests''"
| "unified_source_label NatSpec = ''nat_spec''"
| "unified_source_label Structural = ''structural''"

fun proof_source_of :: "source \<Rightarrow> proof_source" where
  "proof_source_of UserIntent = PsUserIntent"
| "proof_source_of AttackCatalog = PsAttackCatalog"
| "proof_source_of Conformance = PsConformance"
| "proof_source_of Tests = PsTests"
| "proof_source_of NatSpec = PsNatSpec"
| "proof_source_of Structural = PsStructural"

definition tier_for_source :: "source \<Rightarrow> tier" where
  "tier_for_source s = (case s of UserIntent \<Rightarrow> Intent | _ \<Rightarrow> ZeroConfig)"

text \<open>\<open>f32::min\<close> gives the other argument for a NaN.\<close>

definition fmin :: "float \<Rightarrow> float \<Rightarrow> float" where
  "fmin x y = (case x of NaN \<Rightarrow> y | _ \<Rightarrow> (case y of NaN \<Rightarrow> x | _ \<Rightarrow> if fle x y then x else y))"

definition critique_min_axis :: "critique_result \<Rightarrow> float" where
  "critique_min_axis r =
     (let s = ct_scores r in
      fmin (fmin (fmin (cs_vacuity s) (cs_body_independence s)) (cs_testability s)) (cs_restate_the_source s))"

definition candidate_id :: "spec_candidate \<Rightarrow> string" where
  "candidate_id c = unified_source_label (sp_source c) @ '':'' @ sp_name c"

definition spec_to_proposed :: "spec_candidate \<Rightarrow> critique_result \<Rightarrow> proposed_intent" where
  "spec_to_proposed c r =
     \<lparr>pi_id = candidate_id c, pi_source = sp_source c,
      pi_intent_text = (case sp_intent_text c of Some t \<Rightarrow> t | None \<Rightarrow> sp_name c),
      pi_rationale = ct_rationale r, pi_confidence = critique_min_axis r, pi_template_ref = sp_template_ref c\<rparr>"

text \<open>A later candidate with the same id replaces the earlier one.\<close>

fun index_candidates :: "(spec_candidate \<times> critique_result) list \<Rightarrow> (string \<rightharpoonup> spec_candidate) \<Rightarrow> (string \<rightharpoonup> spec_candidate)" where
  "index_candidates [] m = m"
| "index_candidates ((c, r) # kept) m = index_candidates kept (m(candidate_id c \<mapsto> c))"

section \<open>Streaming counterexamples\<close>

record counterexample_record =
  cr_property :: string
  cr_source :: source
  cr_template_ref :: "string option"
  cr_source_sol :: string
  cr_trace_summary :: string

fun cex_source_wire :: "source \<Rightarrow> string" where
  "cex_source_wire UserIntent = ''user_intent''"
| "cex_source_wire AttackCatalog = ''attack_catalog''"
| "cex_source_wire Conformance = ''conformance''"
| "cex_source_wire Tests = ''tests''"
| "cex_source_wire NatSpec = ''nat_spec''"
| "cex_source_wire Structural = ''structural''"

text \<open>
  The sink works on the disk, the telemetry log \<open>'t\<close> and standard error. \<open>cx_mkdir\<close>, \<open>cx_write\<close> and
  \<open>cx_now\<close> are the machine's answers, \<open>cx_record\<close> the telemetry sink it was built with.
\<close>

record 't cex_sink =
  cx_project :: string
  cx_tenant :: string
  cx_run_id :: string
  cx_record :: "telemetry_event \<Rightarrow> 't \<Rightarrow> 't"
  cx_mkdir :: "string \<Rightarrow> string option"
  cx_write :: write_oracle
  cx_now :: "nat \<Rightarrow> string"

record 't world =
  wd_disk :: disk
  wd_log :: 't
  wd_stderr :: "string list"

definition cex_file_name :: "string \<Rightarrow> string" where
  "cex_file_name property = ''Cex_'' @ property @ ''.t.sol''"

definition cex_event_fields :: "counterexample_record \<Rightarrow> string \<Rightarrow> json" where
  "cex_event_fields r relative =
     JObj [(''property'', JStr (cr_property r)), (''source'', JStr (cex_source_wire (cr_source r))),
           (''template_ref'', opt_json JStr (cr_template_ref r)), (''cex_file'', JStr relative),
           (''trace_summary'', JStr (cr_trace_summary r))]"

definition cex_notice :: "counterexample_record \<Rightarrow> string \<Rightarrow> string" where
  "cex_notice r relative =
     ''[CEX] '' @ cr_property r @ '' (source: '' @ cex_source_wire (cr_source r)
     @ (case cr_template_ref r of None \<Rightarrow> [] | Some t \<Rightarrow> '', template: '' @ t) @ ('') '' @ [CHR 0xE2, CHR 0x86, CHR 0x92] @ '' '') @ relative"

definition cex_emit :: "'t cex_sink \<Rightarrow> counterexample_record \<Rightarrow> 't world \<Rightarrow> (string + string) \<times> 't world" where
  "cex_emit sk r w =
     (let dir = counterexamples_dir (cx_project sk); file = path_join dir (cex_file_name (cr_property r)) in
      case cx_mkdir sk dir of
        Some e \<Rightarrow> (Inl e, w)
      | None \<Rightarrow>
          (case fs_write (cx_write sk) file (cr_source_sol r) (wd_disk w) of
             (Some e, d1) \<Rightarrow> (Inl e, w\<lparr>wd_disk := d1\<rparr>)
           | (None, d1) \<Rightarrow>
               (let relative = (case path_strip_prefix file (cx_project sk) of Some p \<Rightarrow> p | None \<Rightarrow> file);
                    evt = telemetry_event_of (cx_now sk (dk_writes d1)) (cx_tenant sk) (cx_run_id sk) 0
                            COUNTEREXAMPLE_FOUND (cex_event_fields r relative)
                in (Inr file, w\<lparr>wd_disk := d1, wd_log := cx_record sk evt (wd_log w),
                                wd_stderr := wd_stderr w @ [cex_notice r relative]\<rparr>))))"

section \<open>Outcomes\<close>

definition refuted_cex_file :: "string \<Rightarrow> string" where
  "refuted_cex_file name = ''vergil-out/counterexamples/Cex_'' @ name @ ''.t.sol''"

fun property_verdict_of :: "string \<Rightarrow> verifier_verdict \<Rightarrow> property_verdict" where
  "property_verdict_of name (VvVerified b sha) = PvVerified b sha"
| "property_verdict_of name (VvCounterexample message) = PvRefuted ''halmos'' (refuted_cex_file name) message"
| "property_verdict_of name (VvUnknown detail) = PvUnknown detail None"
| "property_verdict_of name (VvError detail) = PvError detail"
| "property_verdict_of name VvNotRun = PvUnknown ''verifier did not run'' None"

definition build_outcome :: "spec_candidate \<Rightarrow> proposed_intent \<Rightarrow> verifier_verdict \<Rightarrow> property_outcome" where
  "build_outcome c i v =
     \<lparr>po_name = sp_name c, po_source = proof_source_of (sp_source c), po_tier = tier_for_source (sp_source c),
      po_verdict = property_verdict_of (sp_name c) v, po_template_ref = sp_template_ref c,
      po_intent_text = (case sp_intent_text c of Some t \<Rightarrow> Some t | None \<Rightarrow> Some (pi_intent_text i))\<rparr>"

definition edited_outcome :: "spec_candidate \<Rightarrow> string \<Rightarrow> property_outcome" where
  "edited_outcome c new_text =
     \<lparr>po_name = sp_name c, po_source = proof_source_of (sp_source c), po_tier = tier_for_source (sp_source c),
      po_verdict = PvUnknown ((''intent edited at Stage 2 (new text: '' @ [SQ]) @ new_text @ ([SQ] @ ''); re-synthesis not yet wired'')) None,
      po_template_ref = sp_template_ref c, po_intent_text = Some new_text\<rparr>"

definition render_simple_cex :: "string \<Rightarrow> string \<Rightarrow> string" where
  "render_simple_cex property message =
     (''// SPDX-License-Identifier: UNLICENSED'' @ [NL] @ ''pragma solidity ^0.8.20;'' @ [NL]
     @ [NL] @ ''// Counterexample for '') @ property @ (''.'' @ [NL] @ ''// Trace: '') @ message @ ([NL] @ ''//'' @ [NL]
     @ ''// This is a minimal placeholder. Slice 8 emits the file at the moment'' @ [NL]
     @ ''// of refutation; Slice 11 will render the full Halmos trace.'' @ [NL] @ [NL]
     @ ''contract Cex_'') @ property @ ('' {}'' @ [NL])"

text \<open>
  Stage 3: \<open>env n\<close> is what the \<open>n\<close>-th dispatch meets. A failure of the counterexample sink is ignored.
\<close>

fun dispatch_confirmed ::
    "(nat \<Rightarrow> dispatch_env) \<Rightarrow> dispatcher \<Rightarrow> 't cex_sink \<Rightarrow> (string \<rightharpoonup> spec_candidate) \<Rightarrow> nat
     \<Rightarrow> (proposed_intent \<times> decision) list \<Rightarrow> 't world \<Rightarrow> property_outcome list \<times> 't world" where
  "dispatch_confirmed env dp sk cands n [] w = ([], w)"
| "dispatch_confirmed env dp sk cands n ((intent, dec) # rest) w =
     (case cands (pi_id intent) of
        None \<Rightarrow> dispatch_confirmed env dp sk cands n rest w
      | Some c \<Rightarrow>
          (case dec of
             DEdit new_text \<Rightarrow>
               (let (os, w1) = dispatch_confirmed env dp sk cands n rest w in (edited_outcome c new_text # os, w1))
           | _ \<Rightarrow>
               (let (v, d1) = dispatch_spec (env n) dp c (wd_disk w);
                    w1 = w\<lparr>wd_disk := d1\<rparr>;
                    w2 = (case v of
                            VvCounterexample message \<Rightarrow>
                              snd (cex_emit sk \<lparr>cr_property = sp_name c, cr_source = sp_source c,
                                cr_template_ref = sp_template_ref c,
                                cr_source_sol = render_simple_cex (sp_name c) message,
                                cr_trace_summary = message\<rparr> w1)
                          | _ \<Rightarrow> w1);
                    (os, w3) = dispatch_confirmed env dp sk cands (Suc n) rest w2
                in (build_outcome c intent v # os, w3))))"

section \<open>The proof artifact\<close>

text \<open>
  \<open>src_entries\<close> are the entries of \<open>src\<close>: \<open>None\<close> when it is no directory, an error when it cannot be
  listed; \<open>read_file\<close> reads a file, \<open>sha\<close> is SHA-256, and \<open>stamp\<close> and \<open>now\<close> are the formatted clock.
\<close>

fun hash_sources ::
    "(string \<Rightarrow> string + string) \<Rightarrow> (string \<Rightarrow> u8 list) \<Rightarrow> string \<Rightarrow> string list \<Rightarrow> string + source_file list" where
  "hash_sources read_file sha project [] = Inr []"
| "hash_sources read_file sha project (p # ps) =
     (if is_sol p then
        (case read_file p of
           Inl e \<Rightarrow> Inl e
         | Inr bytes \<Rightarrow>
             (case hash_sources read_file sha project ps of
                Inl e \<Rightarrow> Inl e
              | Inr fs \<Rightarrow>
                  Inr (\<lparr>sf_path = (case path_strip_prefix p project of Some r \<Rightarrow> r | None \<Rightarrow> p),
                        sf_sha256 = sha256_hex sha bytes\<rparr> # fs)))
      else hash_sources read_file sha project ps)"

definition source_files_of ::
    "(string + string list) option \<Rightarrow> (string \<Rightarrow> string + string) \<Rightarrow> (string \<Rightarrow> u8 list) \<Rightarrow> string \<Rightarrow> string + source_file list" where
  "source_files_of src_entries read_file sha project =
     (case src_entries of
        None \<Rightarrow> Inr []
      | Some (Inl e) \<Rightarrow> Inl e
      | Some (Inr ps) \<Rightarrow> hash_sources read_file sha project ps)"

definition clean_manifest :: manifest_validation_status where
  "clean_manifest = \<lparr>mv_storage_ok = True, mv_modifiers_ok = True, mv_external_calls_ok = True, mv_warnings = []\<rparr>"

definition proved_property :: "(string \<Rightarrow> u8 list) \<Rightarrow> property_outcome \<Rightarrow> verified_property option" where
  "proved_property sha p =
     (case po_verdict p of
        PvVerified backend smt \<Rightarrow>
          Some \<lparr>vp_name = po_name p, vp_backend = backend, vp_spec_sha256 = sha256_hex sha (po_name p),
                vp_template_ref = po_template_ref p, vp_wall_clock_ms = 0, vp_smt_query_sha256 = smt,
                vp_manifest_validation = clean_manifest, vp_tier = po_tier p, vp_source = po_source p\<rparr>
      | _ \<Rightarrow> None)"

definition unified_toolchain :: toolchain_versions where
  "unified_toolchain = \<lparr>tv_solc = ''0.8.20'', tv_halmos = ''0.3.3'', tv_slither = ''0.11.0'', tv_z3 = ''4.15.4'',
     tv_cvc5 = ''1.3.0'', tv_gambit = None\<rparr>"

definition unified_proof_artifact ::
    "(string + string list) option \<Rightarrow> (string \<Rightarrow> string + string) \<Rightarrow> (string \<Rightarrow> u8 list) \<Rightarrow> string \<Rightarrow> string
     \<Rightarrow> string \<Rightarrow> string \<Rightarrow> property_outcome list \<Rightarrow> string + proof_artifact" where
  "unified_proof_artifact src_entries read_file sha version stamp now project outcomes =
     (case source_files_of src_entries read_file sha project of
        Inl e \<Rightarrow> Inl e
      | Inr files \<Rightarrow>
          Inr \<lparr>pa_vergil_version = version, pa_schema_version = schema_version_current,
               pa_run = \<lparr>rm_run_id = ''unified-'' @ stamp, rm_intent = ''vergil verify (unified, Phase 6)'',
                 rm_project_root = project, rm_started_at = now\<rparr>,
               pa_toolchain = unified_toolchain, pa_source_files = files,
               pa_verified_properties = List.map_filter (proved_property sha) outcomes,
               pa_counterexamples = [],
               pa_quality_metrics = \<lparr>qm_mutation_coverage_min = None, qm_critique_pass_rate = Fin 0,
                 qm_mutation_testing_enabled = False\<rparr>,
               pa_cost = \<lparr>pc_tokens_in = 0, pc_tokens_out = 0, pc_usd_estimate = Fin 0, pc_wall_clock_ms = 0\<rparr>\<rparr>)"

section \<open>The report of a run\<close>

datatype run_report =
    RrListApplicable nat nat
  | RrVerdict headline "property_outcome list"

fun report_exit_code :: "run_report \<Rightarrow> u8" where
  "report_exit_code (RrListApplicable activated skipped) = 0"
| "report_exit_code (RrVerdict h outcomes) =
     (case h of
        HlRefuted \<Rightarrow> 1
      | HlVerifiedInScope \<Rightarrow> 0
      | HlIncomplete \<Rightarrow> if list_ex (\<lambda>p. case po_verdict p of PvError d \<Rightarrow> True | _ \<Rightarrow> False) outcomes then 3 else 2)"

section \<open>Stages 2 to 4\<close>

datatype unified_error =
    UeBadProject string
  | UeFingerprint fingerprint_error
  | UeCatalog attack_error
  | UeProviderInit string
  | UeSynthesis synthesis_error
  | UeConfirm confirm_error
  | UeScaffold string
  | UeTelemetry string
  | UeIo string
  | UeSerialize string

text \<open>
  What the stages are run with: the project, the run id and the clock, whether to resume, the scaffold
  as it was resolved, the opening of the telemetry sink, the counterexample sink, the inputs of the
  verdict that earlier stages gave, serde's printer of the proof file and the machine's answers.
\<close>

record 't stage_env =
  st_confirm :: confirm_env
  st_read_error :: string
  st_project :: string
  st_run_id :: string
  st_now :: string
  st_stamp :: string
  st_version :: string
  st_resume :: bool
  st_scaffold :: "string + string"
  st_telemetry_error :: "string option"
  st_sink :: "'t cex_sink"
  st_budget_ms :: u64
  st_dispatch :: "nat \<Rightarrow> dispatch_env"
  st_base :: stratified_inputs
  st_write :: write_oracle
  st_src_entries :: "(string + string list) option"
  st_read :: "string \<Rightarrow> string + string"
  st_sha :: "string \<Rightarrow> u8 list"
  st_ser :: "proof_artifact \<Rightarrow> json \<Rightarrow> string + string"

definition confirm_stage ::
    "'t stage_env \<Rightarrow> (proposed_intent \<Rightarrow> 's \<Rightarrow> (confirm_error + decision) \<times> 's) \<Rightarrow> 's
     \<Rightarrow> (spec_candidate \<times> critique_result) list \<Rightarrow> disk \<Rightarrow> (confirm_error + confirm_state) \<times> disk" where
  "confirm_stage env driver s kept d =
     (let proposed = map (\<lambda>(c, r). spec_to_proposed c r) kept;
          state_path = confirm_state_path (st_project env);
          start = (if st_resume env
                   then resume_or_new (st_confirm env) (st_read_error env) state_path (st_run_id env) proposed (st_now env) d
                   else Inr (confirm_state_new (st_run_id env) proposed (st_now env)))
      in case start of
           Inl e \<Rightarrow> (Inl e, d)
         | Inr st \<Rightarrow>
             (let (r, s1, d1) = run_gate (st_confirm env) driver state_path (st_now env) st s d in (r, d1)))"

definition write_verdict ::
    "'t stage_env \<Rightarrow> property_outcome list \<Rightarrow> 't world \<Rightarrow> (unified_error + run_report) option \<times> 't world" where
  "write_verdict env outcomes w =
     (let vo = format_verdict ((st_base env)\<lparr>si_properties := outcomes\<rparr>) in
      case report_md vo of
        None \<Rightarrow> (None, w)
      | Some body \<Rightarrow>
          (case fs_write (st_write env) (report_md_path (st_project env)) body (wd_disk w) of
             (Some e, d1) \<Rightarrow> (Some (Inl (UeIo e)), w\<lparr>wd_disk := d1\<rparr>)
           | (None, d1) \<Rightarrow>
               (case unified_proof_artifact (st_src_entries env) (st_read env) (st_sha env) (st_version env)
                       (st_stamp env) (st_now env) (st_project env) outcomes of
                  Inl e \<Rightarrow> (Some (Inl (UeIo e)), w\<lparr>wd_disk := d1\<rparr>)
                | Inr art \<Rightarrow>
                    (case st_ser env art (proof_json vo) of
                       Inl e \<Rightarrow> (Some (Inl (UeSerialize e)), w\<lparr>wd_disk := d1\<rparr>)
                     | Inr body2 \<Rightarrow>
                         (case fs_write (st_write env) (top_level_proof_json (st_project env)) body2 d1 of
                            (Some e, d2) \<Rightarrow> (Some (Inl (UeIo e)), w\<lparr>wd_disk := d2\<rparr>)
                          | (None, d2) \<Rightarrow>
                              (Some (Inr (RrVerdict (vo_headline vo) outcomes)), w\<lparr>wd_disk := d2\<rparr>))))))"

definition unified_stages ::
    "'t stage_env \<Rightarrow> (proposed_intent \<Rightarrow> 's \<Rightarrow> (confirm_error + decision) \<times> 's) \<Rightarrow> 's
     \<Rightarrow> (spec_candidate \<times> critique_result) list \<Rightarrow> 't world \<Rightarrow> (unified_error + run_report) option \<times> 't world" where
  "unified_stages env driver s kept w =
     (case confirm_stage env driver s kept (wd_disk w) of
        (Inl e, d1) \<Rightarrow> (Some (Inl (UeConfirm e)), w\<lparr>wd_disk := d1\<rparr>)
      | (Inr final, d1) \<Rightarrow>
          (case st_scaffold env of
             Inl e \<Rightarrow> (Some (Inl (UeScaffold e)), w\<lparr>wd_disk := d1\<rparr>)
           | Inr scaffold \<Rightarrow>
               (case st_telemetry_error env of
                  Some e \<Rightarrow> (Some (Inl (UeTelemetry e)), w\<lparr>wd_disk := d1\<rparr>)
                | None \<Rightarrow>
                    (let dp = dispatcher_new (st_project env) scaffold (st_budget_ms env);
                         (outcomes, w2) = dispatch_confirmed (st_dispatch env) dp (st_sink env)
                           (index_candidates kept Map.empty) 0 (confirmed_intents final) (w\<lparr>wd_disk := d1\<rparr>)
                     in write_verdict env outcomes w2))))"

text \<open>The exit code of the process: an error is 3, a panic 101.\<close>

definition unified_exit :: "(unified_error + run_report) option \<Rightarrow> u8" where
  "unified_exit r = (case r of None \<Rightarrow> 101 | Some (Inl e) \<Rightarrow> 3 | Some (Inr rep) \<Rightarrow> report_exit_code rep)"

section \<open>Lemmas\<close>

definition evidence :: "dispatch_env \<Rightarrow> dispatcher \<Rightarrow> spec_candidate \<Rightarrow> property_verdict \<Rightarrow> bool" where
  "evidence env dp c v =
     (case v of
        PvVerified b sha \<Rightarrow> b = ''halmos'' \<and> halmos_evidence env dp c \<or> b = ''smtchecker'' \<and> smt_evidence env dp
      | _ \<Rightarrow> True)"

text \<open>The outcome a confirmed intent must have.\<close>

definition outcome_matches ::
    "(nat \<Rightarrow> dispatch_env) \<Rightarrow> dispatcher \<Rightarrow> (string \<rightharpoonup> spec_candidate) \<Rightarrow> proposed_intent \<times> decision \<Rightarrow> property_outcome \<Rightarrow> bool" where
  "outcome_matches env dp cands x p \<longleftrightarrow>
     (case cands (pi_id (fst x)) of
        None \<Rightarrow> False
      | Some c \<Rightarrow>
          (case snd x of
             DEdit t \<Rightarrow> p = edited_outcome c t
           | _ \<Rightarrow> \<exists>n v. p = build_outcome c (fst x) v \<and> evidence (env n) dp c (po_verdict p)))"

lemma evidence_dispatch:
  "dispatch_spec env dp c d = (v, d') \<Longrightarrow> evidence env dp c (property_verdict_of name v)"
  by (cases v) (auto simp: evidence_def dest: dispatch_Verified)

lemma dispatch_confirmed_matches:
  "list_all2 (outcome_matches env dp cands) (filter (\<lambda>x. cands (pi_id (fst x)) \<noteq> None) confirmed)
     (fst (dispatch_confirmed env dp sk cands n confirmed w))"
proof (induction confirmed arbitrary: n w)
  case Nil
  then show ?case by simp
next
  case (Cons x rest)
  obtain intent dec where x: "x = (intent, dec)" by fastforce
  show ?case
  proof (cases "cands (pi_id intent)")
    case None
    with Cons x show ?thesis by simp
  next
    case (Some c)
    obtain v d1 where v: "dispatch_spec (env n) dp c (wd_disk w) = (v, d1)" by fastforce
    have m: "\<exists>m v'. build_outcome c intent v = build_outcome c intent v'
        \<and> evidence (env m) dp c (po_verdict (build_outcome c intent v))"
      using evidence_dispatch[OF v] by (auto simp: build_outcome_def)
    show ?thesis
      using Cons.IH x Some v m
      by (cases dec) (auto simp: outcome_matches_def Let_def split_beta)
  qed
qed

lemma write_verdict_report:
  "fst (write_verdict env os w) = Some (Inr rep) \<Longrightarrow>
     rep = RrVerdict (vo_headline (format_verdict ((st_base env)\<lparr>si_properties := os\<rparr>))) os"
  by (auto simp: write_verdict_def Let_def split: option.splits prod.splits sum.splits)

lemma vo_headline_zero:
  "(report_exit_code (RrVerdict (vo_headline (format_verdict v)) os) = 0) =
     (si_properties v \<noteq> [] \<and> list_all (\<lambda>p. pv_verified (po_verdict p)) (si_properties v))"
proof -
  have n: "\<not> pv_refuted x \<and> \<not> pv_undecided x \<longleftrightarrow> pv_verified x" for x by (cases x) auto
  have "(report_exit_code (RrVerdict h os) = 0) = (h = HlVerifiedInScope)" for h by (cases h) simp_all
  then show ?thesis
    unfolding format_verdict_def Let_def
    by (cases "si_properties v") (auto simp: list_ex_iff list_all_iff n[symmetric])
qed

section \<open>The counterexample files\<close>

lemma path_join_join:
  assumes "b \<noteq> []" "\<not> starts_with b ''/''" "\<not> ends_with b ''/''" "\<not> starts_with c ''/''"
  shows "path_join (path_join a b) c = path_join a (b @ ''/'' @ c)"
proof -
  have e: "ends_with (x @ b) ''/'' = ends_with b ''/''" for x
    using assms(1) unfolding ends_with_def by (cases "rev b") auto
  have s: "starts_with (b @ y) ''/'' = starts_with b ''/''" for y
    using assms(1) by (cases b) auto
  show ?thesis using assms e[of "a @ ''/''"] by (auto simp: path_join_def e s)
qed

lemma cex_path: "path_join (counterexamples_dir project) (cex_file_name name) = path_join project (refuted_cex_file name)"
  unfolding counterexamples_dir_def vergil_out_def cex_file_name_def refuted_cex_file_def
  by (subst path_join_join[of "''vergil-out''"]) (simp_all add: ends_with_def, subst path_join_join, simp_all add: ends_with_def)

lemma path_join_inj: "path_join a b = path_join a c \<Longrightarrow> \<not> starts_with b ''/'' \<Longrightarrow> \<not> starts_with c ''/'' \<Longrightarrow> b = c"
  by (simp add: path_join_def split: if_splits)

lemma cex_path_inj: "path_join project (refuted_cex_file n) = path_join project (refuted_cex_file m) \<Longrightarrow> n = m"
  by (drule path_join_inj) (simp_all add: refuted_cex_file_def)

lemma test_file_differs: "cegis_test_file dp \<noteq> path_join (hd_project dp) (refuted_cex_file n)"
proof -
  have t: "cegis_test_file dp = path_join (hd_project dp) ''test/CegisProperties.t.sol''"
    unfolding cegis_test_file_def by (subst path_join_join) (simp_all add: ends_with_def)
  show ?thesis
    unfolding t by (rule notI, drule path_join_inj) (simp_all add: refuted_cex_file_def)
qed

definition cex_present :: "string \<Rightarrow> string \<Rightarrow> disk \<Rightarrow> bool" where
  "cex_present project name d \<longleftrightarrow>
     (\<exists>m. dk_files d (path_join project (refuted_cex_file name)) = Some (render_simple_cex name m))"

lemma dispatch_spec_keeps_cex:
  "dispatch_spec env dp c d = (v, d') \<Longrightarrow> cex_present (hd_project dp) name d \<Longrightarrow> cex_present (hd_project dp) name d'"
  using test_file_differs[of dp name] fs_write_other[of _ "cegis_test_file dp" "de_write env" "render_spec dp c" d]
  by (auto simp: dispatch_spec_def Let_def cex_present_def split: option.splits prod.splits)

text \<open>A sink whose operations succeed leaves the file and keeps those of other properties.\<close>

lemma cex_emit_present:
  assumes "cx_mkdir sk (counterexamples_dir (cx_project sk)) = None" and "cx_write sk (dk_writes (wd_disk w)) = None"
    and "cr_source_sol r = render_simple_cex (cr_property r) m"
  shows "cex_present (cx_project sk) (cr_property r) (wd_disk (snd (cex_emit sk r w)))"
    and "cex_present (cx_project sk) name (wd_disk w) \<Longrightarrow> cex_present (cx_project sk) name (wd_disk (snd (cex_emit sk r w)))"
proof -
  let ?p = "cx_project sk"
  let ?f = "path_join ?p (refuted_cex_file (cr_property r))"
  have f: "dk_files (wd_disk (snd (cex_emit sk r w))) = (dk_files (wd_disk w))(?f \<mapsto> cr_source_sol r)"
    using assms(1,2) by (simp add: cex_emit_def Let_def fs_write_def cex_path)
  show "cex_present ?p (cr_property r) (wd_disk (snd (cex_emit sk r w)))"
    unfolding cex_present_def f using assms(3) by auto
  show "cex_present ?p name (wd_disk (snd (cex_emit sk r w)))" if "cex_present ?p name (wd_disk w)"
  proof (cases "name = cr_property r")
    case True
    then show ?thesis unfolding cex_present_def f using assms(3) by auto
  next
    case False
    then have "path_join ?p (refuted_cex_file name) \<noteq> ?f" using cex_path_inj by blast
    with that show ?thesis unfolding cex_present_def f by simp
  qed
qed

definition sink_works :: "'t cex_sink \<Rightarrow> bool" where
  "sink_works sk \<longleftrightarrow> cx_mkdir sk = (\<lambda>_. None) \<and> cx_write sk = (\<lambda>_. None)"

lemma refutation_step:
  assumes "sink_works sk" and "cx_project sk = hd_project dp" and v: "dispatch_spec env dp c (wd_disk w) = (v, d1)"
    and w2: "w2 = (case v of
        VvCounterexample message \<Rightarrow>
          snd (cex_emit sk \<lparr>cr_property = sp_name c, cr_source = sp_source c, cr_template_ref = sp_template_ref c,
            cr_source_sol = render_simple_cex (sp_name c) message, cr_trace_summary = message\<rparr> (w\<lparr>wd_disk := d1\<rparr>))
      | _ \<Rightarrow> w\<lparr>wd_disk := d1\<rparr>)"
  shows "cex_present (hd_project dp) name (wd_disk w) \<Longrightarrow> cex_present (hd_project dp) name (wd_disk w2)"
    and "pv_refuted (property_verdict_of name v) \<Longrightarrow> cex_present (hd_project dp) (sp_name c) (wd_disk w2)"
proof -
  let ?w1 = "w\<lparr>wd_disk := d1\<rparr>" and ?p = "hd_project dp"
  let ?r = "\<lambda>m. \<lparr>cr_property = sp_name c, cr_source = sp_source c, cr_template_ref = sp_template_ref c,
      cr_source_sol = render_simple_cex (sp_name c) m, cr_trace_summary = m\<rparr>"
  have E: "cex_present ?p (sp_name c) (wd_disk (snd (cex_emit sk (?r m) ?w1)))"
    "cex_present ?p name (wd_disk ?w1) \<Longrightarrow> cex_present ?p name (wd_disk (snd (cex_emit sk (?r m) ?w1)))" for m
    using cex_emit_present(1)[of sk ?w1 "?r m" m] cex_emit_present(2)[of sk ?w1 "?r m" m name] assms(1,2) by (simp_all add: sink_works_def)
  show "cex_present ?p name (wd_disk w2)" if "cex_present ?p name (wd_disk w)"
  proof -
    have "cex_present ?p name (wd_disk ?w1)" using dispatch_spec_keeps_cex[OF v that] by simp
    then show ?thesis unfolding w2 using E(2) by (cases v) simp_all
  qed
  show "cex_present ?p (sp_name c) (wd_disk w2)" if "pv_refuted (property_verdict_of name v)"
    using that E(1) unfolding w2 by (cases v) simp_all
qed

lemma dispatch_confirmed_keeps_cex:
  assumes "sink_works sk" and "cx_project sk = hd_project dp"
  shows "cex_present (hd_project dp) name (wd_disk w) \<Longrightarrow>
    cex_present (hd_project dp) name (wd_disk (snd (dispatch_confirmed env dp sk cands n confirmed w)))"
proof (induction confirmed arbitrary: n w)
  case Nil
  then show ?case by simp
next
  case (Cons x rest)
  obtain intent dec where x: "x = (intent, dec)" by fastforce
  show ?case
  proof (cases "cands (pi_id intent)")
    case None
    with Cons x show ?thesis by simp
  next
    case (Some c)
    obtain v d1 where v: "dispatch_spec (env n) dp c (wd_disk w) = (v, d1)" by fastforce
    show ?thesis
      using Cons.IH Cons.prems refutation_step(1)[OF assms v refl Cons.prems] x Some v
      by (cases dec) (simp_all add: Let_def split_beta)
  qed
qed

section \<open>Properties\<close>

text \<open>The command exits with 0 only on evidence: it does so exactly when it got as far as a verdict with at
  least one property and every property verified; the properties are then, one for one and in order, those
  the gate confirmed, each with the outcome of its candidate, an edited intent never with a verdict of a
  tool, and each Verified one backed by the output of Halmos on a test file with that candidate or by
  solc's diagnostics on the contract. Every failure on the way, a panic included, gives another code.\<close>

theorem verify_zero_exit_has_evidence:
  "case fst (unified_stages env driver s kept w) of
     Some (Inr (RrVerdict h outcomes)) \<Rightarrow>
       (unified_exit (fst (unified_stages env driver s kept w)) = 0)
         = (outcomes \<noteq> [] \<and> list_all (\<lambda>p. pv_verified (po_verdict p)) outcomes)
       \<and> (\<exists>scaffold final. st_scaffold env = Inr scaffold
            \<and> fst (confirm_stage env driver s kept (wd_disk w)) = Inr final
            \<and> list_all2 (outcome_matches (st_dispatch env) (dispatcher_new (st_project env) scaffold (st_budget_ms env))
                  (index_candidates kept Map.empty))
                (filter (\<lambda>x. index_candidates kept Map.empty (pi_id (fst x)) \<noteq> None) (confirmed_intents final)) outcomes)
   | _ \<Rightarrow> unified_exit (fst (unified_stages env driver s kept w)) \<noteq> 0"
proof -
  obtain r d1 where cs: "confirm_stage env driver s kept (wd_disk w) = (r, d1)" by fastforce
  show ?thesis
  proof (cases "isl r \<or> isl (st_scaffold env) \<or> st_telemetry_error env \<noteq> None")
    case True
    then show ?thesis
      using cs by (cases r; cases "st_scaffold env"; cases "st_telemetry_error env")
        (auto simp: unified_stages_def unified_exit_def)
  next
    case False
    then obtain final scaffold where f: "r = Inr final" "st_scaffold env = Inr scaffold" "st_telemetry_error env = None"
      by (cases r; cases "st_scaffold env") auto
    let ?dp = "dispatcher_new (st_project env) scaffold (st_budget_ms env)"
    let ?c = "index_candidates kept Map.empty"
    obtain os w2 where dc: "dispatch_confirmed (st_dispatch env) ?dp (st_sink env) ?c 0 (confirmed_intents final)
        (w\<lparr>wd_disk := d1\<rparr>) = (os, w2)" by fastforce
    have u: "fst (unified_stages env driver s kept w) = fst (write_verdict env os w2)"
      using cs f dc by (simp add: unified_stages_def Let_def)
    have m: "list_all2 (outcome_matches (st_dispatch env) ?dp ?c)
        (filter (\<lambda>x. ?c (pi_id (fst x)) \<noteq> None) (confirmed_intents final)) os"
      using dispatch_confirmed_matches[where env = "st_dispatch env" and dp = ?dp and cands = ?c
          and confirmed = "confirmed_intents final" and sk = "st_sink env" and n = 0 and w = "w\<lparr>wd_disk := d1\<rparr>"] dc
      by simp
    have z: "(report_exit_code rep = 0) = (os \<noteq> [] \<and> list_all (\<lambda>p. pv_verified (po_verdict p)) os) \<and> (\<exists>h. rep = RrVerdict h os)"
      if "fst (write_verdict env os w2) = Some (Inr rep)" for rep
      using write_verdict_report[OF that] vo_headline_zero[of "(st_base env)\<lparr>si_properties := os\<rparr>" os] by simp
    show ?thesis
    proof (cases "fst (write_verdict env os w2)")
      case None
      then show ?thesis unfolding u by (simp add: unified_exit_def)
    next
      case (Some x)
      show ?thesis
      proof (cases x)
        case (Inl e)
        with Some show ?thesis unfolding u by (simp add: unified_exit_def)
      next
        case (Inr rep)
        with Some z obtain h where h: "rep = RrVerdict h os" by blast
        have "(report_exit_code (RrVerdict h os) = 0) = (os \<noteq> [] \<and> list_all (\<lambda>p. pv_verified (po_verdict p)) os)"
          using z Some Inr h by blast
        then show ?thesis
          unfolding u Some Inr h option.case sum.case run_report.case unified_exit_def cs fst_conv f using m by blast
      qed
    qed
  qed
qed

text \<open>C24: A refutation comes with its file: when the disk takes the sink's writes, every property the report calls
  refuted names a counterexample file that is on the disk when the dispatch ends, under the project, and
  holds the counterexample contract of that property, whatever was dispatched afterwards.\<close>

theorem refuted_file_on_disk:
  assumes "sink_works sk" and "cx_project sk = hd_project dp"
  shows "case dispatch_confirmed env dp sk cands n confirmed w of (outcomes, w') \<Rightarrow>
     list_all (\<lambda>p. case po_verdict p of
        PvRefuted b file msg \<Rightarrow> \<exists>m. dk_files (wd_disk w') (path_join (hd_project dp) file) = Some (render_simple_cex (po_name p) m)
      | _ \<Rightarrow> True) outcomes"
proof (induction confirmed arbitrary: n w)
  case Nil
  then show ?case by simp
next
  case (Cons x rest)
  obtain intent dec where x: "x = (intent, dec)" by fastforce
  show ?case
  proof (cases "cands (pi_id intent)")
    case None
    with Cons x show ?thesis by simp
  next
    case (Some c)
    obtain v d1 where v: "dispatch_spec (env n) dp c (wd_disk w) = (v, d1)" by fastforce
    have r: "case po_verdict (build_outcome c intent v) of
        PvRefuted b file msg \<Rightarrow> \<exists>m. dk_files (wd_disk (snd (dispatch_confirmed env dp sk cands (Suc n) rest w2)))
          (path_join (hd_project dp) file) = Some (render_simple_cex (po_name (build_outcome c intent v)) m)
      | _ \<Rightarrow> True"
      if "cex_present (hd_project dp) (sp_name c) (wd_disk w2) \<or> \<not> pv_refuted (property_verdict_of (sp_name c) v)" for w2
      using that dispatch_confirmed_keeps_cex[OF assms, of "sp_name c" w2 env cands "Suc n" rest]
      by (cases v) (auto simp: build_outcome_def cex_present_def)
    show ?thesis
      using Cons.IH[of "Suc n"] Cons.IH[of n w] r[OF disjI1[OF refutation_step(2)[OF assms v refl]]] x Some v r
        refutation_step(2)[OF assms v refl, of "sp_name c"]
      by (cases dec) (auto simp: Let_def split_beta edited_outcome_def)
  qed
qed


section \<open>Witnesses\<close>

definition demo_sink :: "unit cex_sink" where
  "demo_sink = \<lparr>cx_project = ''p'', cx_tenant = ''t'', cx_run_id = ''r'', cx_record = (\<lambda>e s. s),
     cx_mkdir = (\<lambda>_. None), cx_write = (\<lambda>_. None), cx_now = (\<lambda>_. ''now'')\<rparr>"

theorem refuted_file_on_disk_witness:
  "case dispatch_confirmed (\<lambda>_. demo_dispatch_env) demo_dispatcher demo_sink [''a'' \<mapsto> demo_spec ''assert(false);''] 0
       [(demo_intent ''a'', DConfirm)] \<lparr>wd_disk = empty_disk, wd_log = (), wd_stderr = []\<rparr> of (outcomes, w') \<Rightarrow>
     list_all (\<lambda>p. case po_verdict p of
        PvRefuted b file msg \<Rightarrow>
          \<exists>m. dk_files (wd_disk w') (path_join (hd_project demo_dispatcher) file) = Some (render_simple_cex (po_name p) m)
      | _ \<Rightarrow> True) outcomes"
  by (rule refuted_file_on_disk) (simp_all add: sink_works_def demo_sink_def demo_dispatcher_def dispatcher_new_def)

definition demo_critique :: critique_result where
  "demo_critique = reject_with [] (demo_spec [])"


end
