(* ===== verification/Foundry.thy ===== *)
theory Foundry
  imports Halmos
begin

text \<open>
  The Foundry test that replays a counterexample (\<open>crates/vergil-solidity/src/foundry.rs\<close>): one declaration
  for every parameter of the property, with the value Halmos found as a literal of its type, and the call.
\<close>

record property_context =
  px_contract_name :: string
  px_import_path :: string
  px_params :: "(string \<times> string) list"
  px_constructor_args :: "string list"

definition trace_property_name :: "trace \<Rightarrow> string" where
  "trace_property_name t =
     (case find_sub (tr_property t) ''('' of Some i \<Rightarrow> take i (tr_property t) | None \<Rightarrow> tr_property t)"

definition sanitize_ident_char :: "char \<Rightarrow> char" where
  "sanitize_ident_char c = (if is_alnum c \<or> c = CHR ''_'' then c else CHR ''_'')"

text \<open>One underscore for every character that is no letter or digit, and one in front of a digit.\<close>

definition sanitize_identifier :: "string \<Rightarrow> string" where
  "sanitize_identifier name =
     (let out = (case name of c # cs \<Rightarrow> (if is_digit c then ''_'' else []) | [] \<Rightarrow> [])
                @ map sanitize_ident_char (char_heads name)
      in if out = [] then ''_arg'' else out)"

section \<open>Literals\<close>

definition hexval_digit :: "char \<Rightarrow> nat" where
  "hexval_digit c = (if is_digit c then digit_val c else byte c - 87)"

text \<open>The value of a text of lower-case hexadecimal digits; \<open>None\<close> for any other.\<close>

definition hexval :: "string \<Rightarrow> nat" where
  "hexval ds = foldl (\<lambda>a c. 16 * a + hexval_digit c) 0 ds"

definition lower_hex :: "string \<Rightarrow> bool" where
  "lower_hex ds \<longleftrightarrow> list_all (\<lambda>c. is_hexdigit c \<and> \<not> is_upper c) ds"

text \<open>\<open>u128::from_str_radix(lower, 16)\<close>; a leading plus sign is accepted.\<close>

definition parse_hex_u128 :: "string \<Rightarrow> nat option" where
  "parse_hex_u128 s =
     (let ds = (case s of c # cs \<Rightarrow> if c = CHR ''+'' \<and> cs \<noteq> [] then cs else s | [] \<Rightarrow> s) in
      if ds = [] \<or> \<not> lower_hex ds \<or> 2 ^ 128 \<le> hexval ds then None else Some (hexval ds))"

text \<open>\<open>pad_to\<close> cuts on the left or fills with zeros; the digits Halmos prints are ASCII.\<close>

definition pad_to :: "string \<Rightarrow> nat \<Rightarrow> string" where
  "pad_to hex target_len =
     (if target_len \<le> length hex then drop (length hex - target_len) hex
      else replicate (target_len - length hex) (CHR ''0'') @ hex)"

definition solidity_literal :: "string \<Rightarrow> string \<Rightarrow> string" where
  "solidity_literal sol_type hex_value =
     (let lower = map to_lower1 (trim_start_str ''0X'' (trim_start_str ''0x'' hex_value)) in
      if sol_type = ''address'' then (''address(bytes20(hex'' @ [DQ]) @ pad_to lower 40 @ ([DQ] @ ''))'')
      else if starts_with sol_type ''bytes'' \<and> 5 < length sol_type then
        (let bytes_n = (case parse_uint 64 (drop 5 sol_type) of Some n \<Rightarrow> n | None \<Rightarrow> 32) in
         sol_type @ (''(hex'' @ [DQ]) @ pad_to lower (bytes_n * 2) @ ([DQ] @ '')''))
      else if sol_type = ''bool'' then
        (case parse_hex_u128 lower of
           None \<Rightarrow> ''false''
         | Some n \<Rightarrow> if n = 0 then ''false'' else ''true'')
      else if lower = [] then ''0'' else ''0x'' @ lower)"

section \<open>The test\<close>

text \<open>The last input of a name counts; a parameter Halmos gave no value for is zero.\<close>

definition input_value :: "trace \<Rightarrow> string \<Rightarrow> string" where
  "input_value t name =
     (case map_of (rev (map (\<lambda>i. (nv_name i, nv_hex_value i)) (tr_inputs t))) name of Some v \<Rightarrow> v | None \<Rightarrow> ''0x0'')"

definition cex_declaration :: "trace \<Rightarrow> string \<times> string \<Rightarrow> string" where
  "cex_declaration t p =
     (case p of (name, sol_type) \<Rightarrow>
        ''        '' @ sol_type @ '' '' @ sanitize_identifier name @ '' = ''
        @ solidity_literal sol_type (input_value t name) @ '';'' @ [NL])"

definition emit_counterexample :: "trace \<Rightarrow> property_context \<Rightarrow> string" where
  "emit_counterexample t ctx =
     (let property = trace_property_name t; ty = px_contract_name ctx in
      (''// SPDX-License-Identifier: MIT'' @ [NL]
     @ ''// Generated by Vergil. Reproduces a Halmos counterexample for `'') @ property @ (''`.'' @ [NL] @ ''pragma solidity ^0.8.20;'' @ [NL] @ [NL] @ ''import {Test} from '' @ [DQ]
     @ ''forge-std/Test.sol'' @ [DQ] @ '';'' @ [NL] @ ''import {'') @ ty @ (''} from '' @ [DQ]) @ px_import_path ctx @ ([DQ] @ '';'' @ [NL] @ [NL] @ ''contract Cex_'') @ property @ (''_Test is Test {'' @ [NL] @ ''    '') @ ty @ ('' internal props;'' @ [NL] @ [NL] @ ''    function setUp() public {'' @ [NL]
     @ ''        props = new '') @ ty @ ''('' @ join '', '' (px_constructor_args ctx) @ ('');'' @ [NL] @ ''    }'' @ [NL] @ [NL] @ ''    function test_Cex_'') @ property @ (''() public {'' @ [NL]) @ concat (map (cex_declaration t) (px_params ctx))
      @ ''        props.'' @ property @ ''('' @ join '', '' (map (\<lambda>(name, ty). sanitize_identifier name) (px_params ctx)) @ ('');'' @ [NL] @ ''    }'' @ [NL] @ ''}'' @ [NL]))"

section \<open>Lemmas\<close>

lemma lower_hex_digit:
  assumes "lower_hex ds" and "c \<in> set ds"
  shows "hexval_digit c < 16" and "to_lower1 c = c" and "c \<noteq> CHR ''x''" and "c \<noteq> CHR ''X''" and "c \<noteq> CHR ''+''"
proof -
  have h: "is_hexdigit c" "\<not> is_upper c" using assms by (auto simp: lower_hex_def list_all_iff)
  show "hexval_digit c < 16" "to_lower1 c = c" using h
    by (auto simp: hexval_digit_def is_hexdigit_def is_upper_def is_digit_def digit_val_def to_lower1_def)
  show "c \<noteq> CHR ''x''" "c \<noteq> CHR ''X''" "c \<noteq> CHR ''+''"
    using h by (auto simp: char_class_defs)
qed

lemma lower_hex_append [simp]: "lower_hex (xs @ ys) \<longleftrightarrow> lower_hex xs \<and> lower_hex ys"
  by (simp add: lower_hex_def)

lemma lower_hex_drop [intro]: "lower_hex ds \<Longrightarrow> lower_hex (drop n ds)"
  by (auto simp: lower_hex_def list_all_iff dest: in_set_dropD)

lemma lower_hex_zeros [simp]: "lower_hex (replicate n (CHR ''0''))"
  by (simp add: lower_hex_def list_all_iff char_class_defs)

lemma hexval_snoc: "hexval (ys @ [y]) = hexval ys * 16 + hexval_digit y"
  by (simp add: hexval_def)

lemma hexval_append: "hexval (xs @ ys) = hexval xs * 16 ^ length ys + hexval ys"
proof (induction ys rule: rev_induct)
  case (snoc y ys)
  have "hexval (xs @ ys @ [y]) = hexval (xs @ ys) * 16 + hexval_digit y"
    using hexval_snoc[of "xs @ ys" y] by simp
  also have "\<dots> = (hexval xs * 16 ^ length ys + hexval ys) * 16 + hexval_digit y"
    by (simp only: snoc.IH)
  also have "\<dots> = hexval xs * 16 ^ length (ys @ [y]) + hexval (ys @ [y])"
    by (simp add: hexval_snoc add_mult_distrib mult.assoc mult.commute[of 16])
  finally show ?case .
qed (simp add: hexval_def)

lemma hexval_bound: "lower_hex ds \<Longrightarrow> hexval ds < 16 ^ length ds"
proof (induction ds rule: rev_induct)
  case (snoc d ds)
  then have "hexval ds < 16 ^ length ds" "hexval_digit d < 16"
    using lower_hex_digit(1)[of "ds @ [d]" d] by simp_all
  moreover have "hexval [d] = hexval_digit d" by (simp add: hexval_def)
  ultimately show ?case by (simp add: hexval_append)
qed (simp add: hexval_def)

lemma hexval_zeros: "hexval (replicate n (CHR ''0'')) = 0"
proof (induction n)
  case (Suc n)
  have "hexval (replicate n (CHR ''0'') @ [CHR ''0'']) = 0"
    unfolding hexval_append using Suc by (simp add: hexval_def hexval_digit_def char_class_defs digit_val_def)
  then show ?case by (simp add: replicate_append_same)
qed (simp add: hexval_def)

lemma pad_to_value:
  assumes "lower_hex ds"
  shows "length (pad_to ds n) = n" and "lower_hex (pad_to ds n)" and "hexval (pad_to ds n) = hexval ds mod 16 ^ n"
proof -
  show "length (pad_to ds n) = n" by (simp add: pad_to_def)
  show "lower_hex (pad_to ds n)"
    using assms by (auto simp: pad_to_def)
  show "hexval (pad_to ds n) = hexval ds mod 16 ^ n"
  proof (cases "n \<le> length ds")
    case True
    have "hexval ds = hexval (take (length ds - n) ds) * 16 ^ n + hexval (drop (length ds - n) ds)"
      using hexval_append[of "take (length ds - n) ds" "drop (length ds - n) ds"] True by simp
    moreover have "hexval (drop (length ds - n) ds) < 16 ^ n"
      using hexval_bound[OF lower_hex_drop[OF assms, of "length ds - n"]] True by simp
    ultimately show ?thesis using True by (simp add: pad_to_def)
  next
    case False
    have "hexval ds < 16 ^ n"
      using hexval_bound[OF assms] False power_increasing[of "length ds" n "16 :: nat"] by linarith
    with False show ?thesis by (simp add: pad_to_def hexval_append hexval_zeros)
  qed
qed

lemma stripped_digits:
  assumes "lower_hex ds"
  shows "map to_lower1 (trim_start_str ''0X'' (trim_start_str ''0x'' (''0x'' @ ds))) = ds"
proof -
  have n: "\<not> starts_with ds ''0x''" "\<not> starts_with ds ''0X''"
    using lower_hex_digit(3)[OF assms, of "CHR ''x''"] lower_hex_digit(4)[OF assms, of "CHR ''X''"]
    by (auto simp: starts_with_iff)
  then have "trim_start_str ''0X'' (trim_start_str ''0x'' (''0x'' @ ds)) = ds"
    by (simp add: trim_start_str.simps[of "''0x''" "CHR ''0'' # CHR ''x'' # ds"] trim_start_str.simps[of _ ds])
  then show ?thesis
    using lower_hex_digit(2)[OF assms] by (simp add: map_idI)
qed

section \<open>Properties\<close>

text \<open>A replayed input has the value the verifier found: for digits in lower case an address literal has 40
  digits and the value modulo \<open>2^160\<close>, a \<open>bytes32\<close> literal 64 digits and the value modulo \<open>2^256\<close>, an
  integer literal is the value itself. Only a bool loses information: it is true exactly for the values
  from 1 to \<open>2^128 - 1\<close>, so a larger one is replayed as false.\<close>

theorem literals_keep_value:
  assumes "lower_hex ds"
  shows "(\<exists>h. solidity_literal ''address'' (''0x'' @ ds) = ''address(bytes20(hex'' @ [DQ] @ h @ [DQ] @ ''))''
           \<and> length h = 40 \<and> lower_hex h \<and> hexval h = hexval ds mod 2 ^ 160)
    \<and> (\<exists>h. solidity_literal ''bytes32'' (''0x'' @ ds) = ''bytes32(hex'' @ [DQ] @ h @ [DQ] @ '')''
           \<and> length h = 64 \<and> lower_hex h \<and> hexval h = hexval ds mod 2 ^ 256)
    \<and> solidity_literal ''uint256'' (''0x'' @ ds) = (if ds = [] then ''0'' else ''0x'' @ ds)
    \<and> solidity_literal ''bool'' (''0x'' @ ds) = (if hexval ds = 0 \<or> 2 ^ 128 \<le> hexval ds then ''false'' else ''true'')"
proof -
  note s = stripped_digits[OF assms]
  have p: "(16 :: nat) ^ 40 = 2 ^ 160" "(16 :: nat) ^ 64 = 2 ^ 256" by simp_all
  have u: "parse_uint 64 (drop 5 ''bytes32'') = Some 32" by code_simp
  have b: "parse_hex_u128 ds = (if ds = [] \<or> 2 ^ 128 \<le> hexval ds then None else Some (hexval ds))"
    using assms lower_hex_digit(5)[OF assms] by (cases ds) (auto simp: parse_hex_u128_def Let_def)
  have e: "hexval [] = 0" by (simp add: hexval_def)
  have "solidity_literal ''address'' (''0x'' @ ds) = ''address(bytes20(hex'' @ [DQ] @ pad_to ds 40 @ [DQ] @ ''))''"
    unfolding solidity_literal_def s by simp
  moreover have "solidity_literal ''bytes32'' (''0x'' @ ds) = ''bytes32(hex'' @ [DQ] @ pad_to ds 64 @ [DQ] @ '')''"
    unfolding solidity_literal_def s u by simp
  moreover have "solidity_literal ''uint256'' (''0x'' @ ds) = (if ds = [] then ''0'' else ''0x'' @ ds)"
    unfolding solidity_literal_def s by simp
  moreover have "solidity_literal ''bool'' (''0x'' @ ds) = (if hexval ds = 0 \<or> 2 ^ 128 \<le> hexval ds then ''false'' else ''true'')"
  proof -
    have "solidity_literal ''bool'' (''0x'' @ ds)
        = (case parse_hex_u128 ds of None \<Rightarrow> ''false'' | Some n \<Rightarrow> if n = 0 then ''false'' else ''true'')"
      unfolding solidity_literal_def s by simp
    then show ?thesis unfolding b using e by auto
  qed
  ultimately show ?thesis
    using pad_to_value[OF assms, of 40] pad_to_value[OF assms, of 64] unfolding p by blast
qed

theorem literals_keep_value_witness:
  "solidity_literal ''uint256'' ''0xff'' = ''0xff'' \<and> solidity_literal ''bool'' ''0xff'' = ''true''"
proof -
  have "lower_hex ''ff''" by code_simp
  from literals_keep_value[OF this] have "solidity_literal ''uint256'' (''0x'' @ ''ff'') = ''0x'' @ ''ff''"
    "solidity_literal ''bool'' (''0x'' @ ''ff'') = (if hexval ''ff'' = 0 \<or> 2 ^ 128 \<le> hexval ''ff'' then ''false'' else ''true'')"
    by simp_all
  moreover have "hexval ''ff'' = 255" by code_simp
  ultimately show ?thesis by simp
qed

end
