(* ===== verification/PropertiesRun.thy ===== *)
theory PropertiesRun
  imports PropertiesReport Unified Foundry
begin

text \<open>
  The run over \<open>properties.yaml\<close> (\<open>run\<close> in \<open>crates/vergil-cli/src/commands/verify.rs\<close>): every listed property goes
  through the portfolio, counterexamples become Foundry tests, the artifact and the report are written.
\<close>

section \<open>What the run meets\<close>

text \<open>
  One dispatch meets Halmos and solc, the content of the persist directory, panics of the two tasks and
  which back end is found finished first. The rest are the file system, serde, SHA-256 and the clock;
  \<open>rv_trace n\<close> is the second Halmos run on the \<open>n\<close>-th property, \<open>None\<close> when its thread fails.
\<close>

record portfolio_env =
  pn_halmos :: halmos_env
  pn_smt :: smt_env
  pn_persisted :: "string \<rightharpoonup> string"
  pn_halmos_panic :: "string option"
  pn_smt_panic :: "string option"
  pn_halmos_first :: bool

record properties_env =
  rv_canon :: "string \<Rightarrow> string + string"
  rv_read :: "string \<Rightarrow> string + string"
  rv_yaml :: "string \<Rightarrow> string + properties_file"
  rv_test_entries :: "string list option"
  rv_remove :: "string \<Rightarrow> bool"
  rv_src_entries :: "(string + string list) option"
  rv_dispatch :: "nat \<Rightarrow> portfolio_env"
  rv_trace :: "nat \<Rightarrow> halmos_env option"
  rv_mkdir :: "string \<Rightarrow> string option"
  rv_write :: write_oracle
  rv_sha :: "string \<Rightarrow> u8 list"
  rv_version :: string
  rv_stamp :: string
  rv_now :: string
  rv_ser_proof :: "proof_artifact \<Rightarrow> string + string"
  rv_ser_report :: "verify_report \<Rightarrow> string"

datatype output_format = FmtText | FmtMarkdown | FmtJson

definition default_budget_ms :: u64 where "default_budget_ms = 120000"

section \<open>Before the run\<close>

definition stale_cex_file :: "string \<Rightarrow> bool" where
  "stale_cex_file p = (starts_with (path_file_name p) ''Cex_'' \<and> ends_with (path_file_name p) ''.t.sol'')"

definition fs_remove :: "(string \<Rightarrow> bool) \<Rightarrow> string \<Rightarrow> disk \<Rightarrow> disk" where
  "fs_remove rm p d = (if rm p then d\<lparr>dk_files := (dk_files d)(p := None)\<rparr> else d)"

definition cleanup_stale_cex_files :: "properties_env \<Rightarrow> disk \<Rightarrow> disk" where
  "cleanup_stale_cex_files env d =
     (case rv_test_entries env of
        None \<Rightarrow> d
      | Some es \<Rightarrow> fold (fs_remove (rv_remove env)) (filter stale_cex_file es) d)"

definition default_smt_source :: "properties_env \<Rightarrow> string \<Rightarrow> string" where
  "default_smt_source env project =
     (let src = path_join project ''src'' in
      case rv_src_entries env of
        Some (Inr es) \<Rightarrow> (case find is_sol es of Some p \<Rightarrow> p | None \<Rightarrow> path_join src ''Token.sol'')
      | _ \<Rightarrow> path_join src ''Token.sol'')"

section \<open>The run\<close>

definition property_config :: "properties_env \<Rightarrow> string \<Rightarrow> property_entry \<Rightarrow> portfolio_config" where
  "property_config env project entry =
     \<lparr>pc_project = project, pc_property = pe_name entry,
      pc_smtchecker_source = (case pe_smtchecker_source entry of
                                Some s \<Rightarrow> path_join project s
                              | None \<Rightarrow> default_smt_source env project),
      pc_budget_ms = default_budget_ms, pc_capture_smt_queries = True,
      pc_smt_persist_dir = Some (path_join (path_join project ''vergil-out'') ''smt'')\<rparr>"

definition run_property :: "portfolio_env \<Rightarrow> portfolio_config \<Rightarrow> portfolio_result" where
  "run_property pv c =
     portfolio_dispatch (pn_halmos pv) (pn_smt pv) path_parent (pn_persisted pv) (pn_halmos_panic pv)
       (pn_smt_panic pv) (pn_halmos_first pv) c"

fun run_all_properties :: "properties_env \<Rightarrow> string \<Rightarrow> nat \<Rightarrow> property_entry list \<Rightarrow> checked_property list" where
  "run_all_properties env project n [] = []"
| "run_all_properties env project n (entry # es) =
     \<lparr>kp_name = pe_name entry, kp_result = run_property (rv_dispatch env n) (property_config env project entry)\<rparr>
     # run_all_properties env project (Suc n) es"

section \<open>Counterexamples\<close>

definition halmos_trace_for :: "properties_env \<Rightarrow> string \<Rightarrow> nat \<Rightarrow> string \<Rightarrow> trace option" where
  "halmos_trace_for env project n property =
     (case rv_trace env n of
        None \<Rightarrow> None
      | Some henv \<Rightarrow>
          (case fst (halmos_run_simple henv project property default_budget_ms Map.empty) of
             HCounterexample t ms \<Rightarrow> Some t
           | _ \<Rightarrow> None))"

definition replay_context :: "properties_file \<Rightarrow> property_entry \<Rightarrow> property_context" where
  "replay_context props entry =
     \<lparr>px_contract_name = (case yf_property_contract props of Some pc \<Rightarrow> pcr_name pc | None \<Rightarrow> ''Properties''),
      px_import_path = (case yf_property_contract props of Some pc \<Rightarrow> pcr_path pc | None \<Rightarrow> ''./Properties.t.sol''),
      px_params = map (\<lambda>p. (pm_param_name p, pm_solidity_type p)) (pe_params entry),
      px_constructor_args = (case yf_property_contract props of Some pc \<Rightarrow> pcr_constructor_args pc | None \<Rightarrow> [])\<rparr>"

text \<open>What is to be written for one property: nothing, or the test that replays its trace.\<close>

definition replay_of :: "properties_env \<Rightarrow> string \<Rightarrow> properties_file \<Rightarrow> nat \<Rightarrow> checked_property \<Rightarrow> string option" where
  "replay_of env project props n p =
     (case kp_verdict p of
        VCounterexample b q m ms \<Rightarrow>
          (case find (\<lambda>e. pe_name e = kp_name p) (yf_properties props) of
             None \<Rightarrow> None
           | Some entry \<Rightarrow>
               (case halmos_trace_for env project n (kp_name p) of
                  None \<Rightarrow> None
                | Some t \<Rightarrow> Some (emit_counterexample t (replay_context props entry))))
      | _ \<Rightarrow> None)"

definition live_cex_file :: "string \<Rightarrow> string" where
  "live_cex_file name = ''test/Cex_'' @ name @ ''.t.sol''"

fun emit_counterexample_files ::
    "properties_env \<Rightarrow> string \<Rightarrow> properties_file \<Rightarrow> bool \<Rightarrow> nat \<Rightarrow> checked_property list \<Rightarrow> disk
     \<Rightarrow> string option \<times> disk" where
  "emit_counterexample_files env project props any n [] d = (None, d)"
| "emit_counterexample_files env project props any n (p # ps) d =
     (case replay_of env project props n p of
        None \<Rightarrow> emit_counterexample_files env project props any (Suc n) ps d
      | Some src \<Rightarrow>
          (let dir = counterexamples_dir project in
           case (if any then None else rv_mkdir env dir) of
             Some e \<Rightarrow> (Some (''create '' @ dir @ '': '' @ e), d)
           | None \<Rightarrow>
               (let file = path_join dir (cex_file_name (kp_name p));
                    live = path_join (path_join project ''test'') (cex_file_name (kp_name p)) in
                case fs_write (rv_write env) file src d of
                  (Some e, d1) \<Rightarrow> (Some (''write '' @ file @ '': '' @ e), d1)
                | (None, d1) \<Rightarrow>
                    (case fs_write (rv_write env) live src d1 of
                       (Some e, d2) \<Rightarrow> (Some (''write '' @ live @ '': '' @ e), d2)
                     | (None, d2) \<Rightarrow> emit_counterexample_files env project props True (Suc n) ps d2))))"

section \<open>The proof artifact\<close>

definition phase1_verified :: "(string \<Rightarrow> u8 list) \<Rightarrow> checked_property \<Rightarrow> verified_property option" where
  "phase1_verified sha p =
     (case kp_verdict p of
        VVerified b ms smt \<Rightarrow>
          Some \<lparr>vp_name = kp_name p, vp_backend = backend_name b, vp_spec_sha256 = sha256_hex sha (kp_name p),
                vp_template_ref = None, vp_wall_clock_ms = ms, vp_smt_query_sha256 = smt,
                vp_manifest_validation = clean_manifest, vp_tier = Intent, vp_source = PsUserIntent\<rparr>
      | _ \<Rightarrow> None)"

definition phase1_counterexample :: "checked_property \<Rightarrow> counterexample_summary option" where
  "phase1_counterexample p =
     (case kp_verdict p of
        VCounterexample b q message ms \<Rightarrow>
          Some \<lparr>cx_property = kp_name p, cx_backend = backend_name b,
                cx_cex_file = ''counterexamples/Cex_'' @ kp_name p @ ''.t.sol'', cx_wall_clock_ms = ms,
                cx_trace_summary = message\<rparr>
      | _ \<Rightarrow> None)"

fun verdict_ms :: "verdict \<Rightarrow> u64" where
  "verdict_ms (VVerified b ms sha) = ms"
| "verdict_ms (VCounterexample b q m ms) = ms"
| "verdict_ms v = 0"

definition phase1_toolchain :: toolchain_versions where
  "phase1_toolchain = unified_toolchain\<lparr>tv_gambit := Some ''0.2.1''\<rparr>"

definition phase1_sources :: "properties_env \<Rightarrow> string \<Rightarrow> string + source_file list" where
  "phase1_sources env project =
     source_files_of (map_option (map_sum (\<lambda>e. ''read src/: '' @ e) id) (rv_src_entries env))
       (\<lambda>p. map_sum (\<lambda>e. ''read '' @ p @ '': '' @ e) id (rv_read env p)) (rv_sha env) project"

definition phase1_artifact ::
    "properties_env \<Rightarrow> string \<Rightarrow> string \<Rightarrow> verify_report \<Rightarrow> source_file list \<Rightarrow> proof_artifact" where
  "phase1_artifact env project intent report files =
     \<lparr>pa_vergil_version = rv_version env, pa_schema_version = schema_version_current,
      pa_run = \<lparr>rm_run_id = rv_stamp env, rm_intent = intent, rm_project_root = project, rm_started_at = rv_now env\<rparr>,
      pa_toolchain = phase1_toolchain, pa_source_files = files,
      pa_verified_properties = List.map_filter (phase1_verified (rv_sha env)) (vr_properties report),
      pa_counterexamples = List.map_filter phase1_counterexample (vr_properties report),
      pa_quality_metrics = \<lparr>qm_mutation_coverage_min = None, qm_critique_pass_rate = Fin 1,
        qm_mutation_testing_enabled = False\<rparr>,
      pa_cost = \<lparr>pc_tokens_in = 0, pc_tokens_out = 0, pc_usd_estimate = Fin 0,
        pc_wall_clock_ms = sum_list (map (\<lambda>p. verdict_ms (kp_verdict p)) (vr_properties report))\<rparr>\<rparr>"

definition emit_phase1_proof ::
    "properties_env \<Rightarrow> string \<Rightarrow> string \<Rightarrow> verify_report \<Rightarrow> disk \<Rightarrow> string option \<times> disk" where
  "emit_phase1_proof env project intent report d =
     (case phase1_sources env project of
        Inl e \<Rightarrow> (Some e, d)
      | Inr files \<Rightarrow>
          (case fst (ensure_tree (rv_mkdir env) project) of
             Some e \<Rightarrow> (Some (''ensure vergil-out tree: '' @ e), d)
           | None \<Rightarrow>
               (case rv_ser_proof env (phase1_artifact env project intent report files) of
                  Inl e \<Rightarrow> (Some (''serialize proof.json: '' @ e), d)
                | Inr body \<Rightarrow>
                    (let out = top_level_proof_json project in
                     case fs_write (rv_write env) out body d of
                       (Some e, d1) \<Rightarrow> (Some (''write '' @ out @ '': '' @ e), d1)
                     | (None, d1) \<Rightarrow> (None, d1)))))"

section \<open>The command\<close>

text \<open>The exit code, what is printed on standard output, and the message on standard error if there is one.\<close>

type_synonym command_result = "u8 \<times> string \<times> string option"

definition fail_with :: "u8 \<Rightarrow> string \<Rightarrow> disk \<Rightarrow> command_result \<times> disk" where
  "fail_with code msg d = ((code, [], Some msg), d)"

definition print_report ::
    "properties_env \<Rightarrow> output_format \<Rightarrow> string \<Rightarrow> verify_report \<Rightarrow> disk \<Rightarrow> command_result \<times> disk" where
  "print_report env fmt project report d =
     (case fmt of
        FmtText \<Rightarrow> ((verify_exit_code report, text_render report, None), d)
      | FmtMarkdown \<Rightarrow>
          (case rv_mkdir env (vergil_out project) of
             Some e \<Rightarrow> fail_with 3 (''create vergil-out: '' @ e) d
           | None \<Rightarrow>
               (let file = report_md_path project in
                case fs_write (rv_write env) file (markdown_render report) d of
                  (Some e, d1) \<Rightarrow> fail_with 3 (''write '' @ file @ '': '' @ e) d1
                | (None, d1) \<Rightarrow> ((verify_exit_code report, ''wrote '' @ file @ [NL], None), d1)))
      | FmtJson \<Rightarrow> ((verify_exit_code report, rv_ser_report env report @ [NL], None), d))"

definition properties_report :: "properties_env \<Rightarrow> string \<Rightarrow> properties_file \<Rightarrow> verify_report" where
  "properties_report env project props =
     \<lparr>vr_project = project, vr_properties = run_all_properties env project 0 (yf_properties props)\<rparr>"

definition properties_run ::
    "properties_env \<Rightarrow> string \<Rightarrow> string option \<Rightarrow> output_format \<Rightarrow> disk \<Rightarrow> command_result \<times> disk" where
  "properties_run env path properties fmt d =
     (case rv_canon env path of
        Inl e \<Rightarrow> fail_with 3 (''invalid project path '' @ path @ '': '' @ e) d
      | Inr project \<Rightarrow>
          (let props_path = (case properties of Some p \<Rightarrow> p | None \<Rightarrow> path_join project ''properties.yaml'') in
           case properties_load (rv_read env) (rv_yaml env) props_path of
             Inl e \<Rightarrow> fail_with 3 (''properties: '' @ e) d
           | Inr props \<Rightarrow>
               (let d1 = cleanup_stale_cex_files env d; report = properties_report env project props in
                case emit_counterexample_files env project props False 0 (vr_properties report) d1 of
                  (Some e, d2) \<Rightarrow> fail_with 3 e d2
                | (None, d2) \<Rightarrow>
                    (case emit_phase1_proof env project (''properties.yaml: '' @ props_path) report d2 of
                       (Some e, d3) \<Rightarrow> fail_with 3 (''proof.json: '' @ e) d3
                     | (None, d3) \<Rightarrow> print_report env fmt project report d3))))"

section \<open>Lemmas\<close>

lemma run_all_properties_eq:
  "run_all_properties env project n es =
     map (\<lambda>(i, e). \<lparr>kp_name = pe_name e, kp_result = run_property (rv_dispatch env i) (property_config env project e)\<rparr>)
       (enumerate n es)"
  by (induction es arbitrary: n) simp_all

lemma map_enumerate_snd: "map (\<lambda>(i, x). f x) (enumerate n xs) = map f xs"
  by (induction xs arbitrary: n) simp_all

lemma run_all_properties_names: "map kp_name (run_all_properties env project n es) = map pe_name es"
  using map_enumerate_snd[of pe_name n es] by (simp add: run_all_properties_eq comp_def case_prod_beta')

text \<open>The evidence behind a Verified property: a passing run of Halmos, or a clean run of solc's model checker.\<close>

definition tool_backed :: "portfolio_env \<Rightarrow> portfolio_config \<Rightarrow> bool" where
  "tool_backed pv c \<longleftrightarrow>
     (pn_halmos_panic pv = None
      \<and> (\<exists>args out err. env_child (pn_halmos pv) args (pc_budget_ms c) = ChildOutput out err
           \<and> \<not> build_failed (strip_ansi (out @ err)) \<and> has_status ''PASS'' (strip_ansi (out @ err))))
     \<or> (pn_smt_panic pv = None
      \<and> (\<exists>content input out ms ds. se_read (pn_smt pv) (pc_smtchecker_source c) = Inr content
           \<and> se_child (pn_smt pv) input (pc_budget_ms c) = SolcOutput out ms \<and> se_decode (pn_smt pv) out = Inr ds
           \<and> \<not> list_ex hard_error ds \<and> \<not> list_ex adverse ds \<and> list_ex chc_diag ds))"

lemma run_property_backed:
  assumes "is_VVerified (pr_verdict (run_property pv c))"
  shows "tool_backed pv c"
proof -
  note S = portfolio_verified_source[where henv = "pn_halmos pv" and senv = "pn_smt pv" and parent = path_parent
      and dest = "pn_persisted pv" and hpanic = "pn_halmos_panic pv" and spanic = "pn_smt_panic pv"
      and halmos_first = "pn_halmos_first pv" and c = c, folded run_property_def]
  from assms obtain b ms sha where v: "pr_verdict (run_property pv c) = VVerified b ms sha"
    by (cases "pr_verdict (run_property pv c)") simp_all
  show ?thesis
    using S unfolding v tool_backed_def verdict.case by (cases b; simp only: backend.case) blast+
qed

lemma proof_path: "top_level_proof_json project = path_join project ''vergil-out/proof.json''"
  unfolding top_level_proof_json_def vergil_out_def by (subst path_join_join) (simp_all add: ends_with_def)

lemma report_path: "report_md_path project = path_join project ''vergil-out/report.md''"
  unfolding report_md_path_def vergil_out_def by (subst path_join_join) (simp_all add: ends_with_def)

lemma proof_not_report: "top_level_proof_json project \<noteq> report_md_path project"
  unfolding proof_path report_path by (rule notI, drule path_join_inj) simp_all

lemma emit_phase1_None:
  assumes "emit_phase1_proof env project intent report d = (None, d1)"
  obtains files body where "phase1_sources env project = Inr files"
    "rv_ser_proof env (phase1_artifact env project intent report files) = Inr body"
    "dk_files d1 (top_level_proof_json project) = Some body"
  using assms by (auto simp: emit_phase1_proof_def Let_def dest: fs_write_None split: sum.splits option.splits prod.splits)

lemma print_report_result:
  assumes "print_report env fmt project report d = ((code, out, err), d')"
  shows "code = (case err of Some m \<Rightarrow> 3 | None \<Rightarrow> verify_exit_code report)"
    and "dk_files d' (top_level_proof_json project) = dk_files d (top_level_proof_json project)"
proof -
  show "code = (case err of Some m \<Rightarrow> 3 | None \<Rightarrow> verify_exit_code report)"
    using assms by (auto simp: print_report_def fail_with_def Let_def split: output_format.splits option.splits prod.splits)
  show "dk_files d' (top_level_proof_json project) = dk_files d (top_level_proof_json project)"
    using assms fs_write_other[OF proof_not_report, of "rv_write env" project "markdown_render report" d]
    by (auto simp: print_report_def fail_with_def Let_def split: output_format.splits option.splits prod.splits)
qed

text \<open>A run without a message on standard error went through every stage.\<close>

lemma properties_run_done [consumes 1, case_names through]:
  assumes "properties_run env path properties fmt d = ((code, out, None), d')"
  obtains project props files body props_path where "rv_canon env path = Inr project"
    "props_path = (case properties of Some p \<Rightarrow> p | None \<Rightarrow> path_join project ''properties.yaml'')"
    "properties_load (rv_read env) (rv_yaml env) props_path = Inr props"
    "code = verify_exit_code (properties_report env project props)"
    "phase1_sources env project = Inr files"
    "rv_ser_proof env (phase1_artifact env project (''properties.yaml: '' @ props_path)
       (properties_report env project props) files) = Inr body"
    "dk_files d' (top_level_proof_json project) = Some body"
proof -
  obtain project where c: "rv_canon env path = Inr project"
    using assms by (cases "rv_canon env path") (simp_all add: properties_run_def fail_with_def)
  define pp where "pp = (case properties of Some p \<Rightarrow> p | None \<Rightarrow> path_join project ''properties.yaml'')"
  obtain props where l: "properties_load (rv_read env) (rv_yaml env) pp = Inr props"
    using assms c unfolding pp_def[symmetric]
    by (cases "properties_load (rv_read env) (rv_yaml env) pp") (simp_all add: properties_run_def fail_with_def pp_def[symmetric])
  let ?r = "properties_report env project props"
  obtain e2 d2 where e: "emit_counterexample_files env project props False 0 (vr_properties ?r) (cleanup_stale_cex_files env d)
      = (e2, d2)" by fastforce
  obtain e3 d3 where p: "emit_phase1_proof env project (''properties.yaml: '' @ pp) ?r d2 = (e3, d3)" by fastforce
  have n: "e2 = None" "e3 = None" and pr: "print_report env fmt project ?r d3 = ((code, out, None), d')"
    using assms c l e p
    by (auto simp: properties_run_def fail_with_def Let_def pp_def[symmetric] split: option.splits)
  from emit_phase1_None[OF p[unfolded n]] obtain files body where f: "phase1_sources env project = Inr files"
    "rv_ser_proof env (phase1_artifact env project (''properties.yaml: '' @ pp) ?r files) = Inr body"
    "dk_files d3 (top_level_proof_json project) = Some body" by blast
  show thesis
    using that[OF c pp_def l _ f(1,2)] f(3) print_report_result[OF pr] by simp
qed

lemma properties_run_failed: "properties_run env path properties fmt d = ((code, out, Some m), d') \<Longrightarrow> code = 3"
  by (auto simp: properties_run_def fail_with_def Let_def dest!: print_report_result(1) split: sum.splits prod.splits option.splits)

lemma map_filter_names:
  "map vp_name (List.map_filter (phase1_verified sha) ps) = map kp_name (filter (\<lambda>p. is_VVerified (kp_verdict p)) ps)"
  "map cx_property (List.map_filter phase1_counterexample ps)
     = map kp_name (filter (\<lambda>p. is_VCounterexample (kp_verdict p)) ps)"
  by (induction ps) (auto simp: List.map_filter_simps phase1_verified_def phase1_counterexample_def split: verdict.splits)

section \<open>The files of the counterexamples\<close>

lemma live_path: "path_join (path_join project ''test'') (cex_file_name name) = path_join project (live_cex_file name)"
  unfolding cex_file_name_def live_cex_file_def by (subst path_join_join) (simp_all add: ends_with_def)

lemma live_path_inj: "path_join project (live_cex_file n) = path_join project (live_cex_file m) \<Longrightarrow> n = m"
  by (drule path_join_inj) (simp_all add: live_cex_file_def)

lemma live_not_refuted: "path_join project (live_cex_file n) \<noteq> path_join project (refuted_cex_file m)"
  by (rule notI, drule path_join_inj) (simp_all add: live_cex_file_def refuted_cex_file_def)

lemmas refuted_not_live = live_not_refuted[THEN not_sym]

lemma fs_write_files: "fs_write wr p b d = (None, d') \<Longrightarrow> dk_files d' = (dk_files d)(p \<mapsto> b)"
  by (auto simp: fs_write_def split: option.splits prod.splits)

lemma emit_files_step:
  assumes "emit_counterexample_files env project props any n (p # ps) d = (None, d')"
  obtains (none) "replay_of env project props n p = None"
      "emit_counterexample_files env project props any (Suc n) ps d = (None, d')"
  | (some) src d2 where "replay_of env project props n p = Some src"
      "emit_counterexample_files env project props True (Suc n) ps d2 = (None, d')"
      "dk_files d2 = (dk_files d)(path_join project (refuted_cex_file (kp_name p)) \<mapsto> src,
         path_join project (live_cex_file (kp_name p)) \<mapsto> src)"
proof (cases "replay_of env project props n p")
  case None
  with assms none show ?thesis by simp
next
  case (Some src)
  let ?f = "path_join project (refuted_cex_file (kp_name p))" and ?g = "path_join project (live_cex_file (kp_name p))"
  obtain e1 d1 where w1: "fs_write (rv_write env) ?f src d = (e1, d1)" by fastforce
  obtain e2 d2 where w2: "fs_write (rv_write env) ?g src d1 = (e2, d2)" by fastforce
  from assms Some have ok: "e1 = None" "e2 = None"
    and rest: "emit_counterexample_files env project props True (Suc n) ps d2 = (None, d')"
    by (simp_all add: Let_def cex_path live_path w1 w2 split: option.splits)
  have "dk_files d2 = (dk_files d)(?f \<mapsto> src, ?g \<mapsto> src)"
    using fs_write_files[OF w1[unfolded ok]] fs_write_files[OF w2[unfolded ok]] by simp
  from some[OF Some rest this] show ?thesis .
qed

lemma emit_files_other:
  assumes "emit_counterexample_files env project props any n ps d = (None, d')" and "name \<notin> kp_name ` set ps"
  shows "dk_files d' (path_join project (refuted_cex_file name)) = dk_files d (path_join project (refuted_cex_file name))
    \<and> dk_files d' (path_join project (live_cex_file name)) = dk_files d (path_join project (live_cex_file name))"
  using assms
proof (induction ps arbitrary: any n d)
  case (Cons p ps)
  from Cons.prems(1) show ?case
  proof (cases rule: emit_files_step)
    case none
    with Cons show ?thesis by auto
  next
    case (some src d2)
    have "path_join project (refuted_cex_file name) \<noteq> path_join project (refuted_cex_file (kp_name p))"
      "path_join project (live_cex_file name) \<noteq> path_join project (live_cex_file (kp_name p))"
      using Cons.prems(2) cex_path_inj[of project name "kp_name p"] live_path_inj[of project name "kp_name p"]
      by (simp_all, metis+)
    moreover have "name \<notin> kp_name ` set ps" using Cons.prems(2) by simp
    note Cons.IH[OF some(2) this]
    ultimately show ?thesis
      by (simp add: some(3) live_not_refuted refuted_not_live)
  qed
qed simp

section \<open>Properties\<close>

text \<open>C11: The verdict of a run over \<open>properties.yaml\<close>: a run that reports a problem exits with 3; any other wrote a
  proof artifact, whose verified properties and counterexamples are exactly those of the portfolio, in the
  order of the file. It exits with 0 exactly when every listed property is Verified (a file that lists none
  included) and with 1 exactly when one has a counterexample; a Verified one is backed by the output of a
  tool for that property.\<close>

theorem properties_run_honest:
  "case properties_run env path properties fmt d of ((code, out, err), d') \<Rightarrow>
     (case err of
        Some m \<Rightarrow> code = 3
      | None \<Rightarrow>
          (\<exists>project props files body.
             rv_canon env path = Inr project
             \<and> (let report = properties_report env project props;
                    props_path = (case properties of Some p \<Rightarrow> p | None \<Rightarrow> path_join project ''properties.yaml'');
                    proof_art = phase1_artifact env project (''properties.yaml: '' @ props_path) report files;
                    ps = vr_properties report
                in properties_load (rv_read env) (rv_yaml env) props_path = Inr props
                   \<and> map kp_name ps = map pe_name (yf_properties props)
                   \<and> (code = 0) = list_all (\<lambda>p. is_VVerified (kp_verdict p)) ps
                   \<and> (code = 1) = list_ex (\<lambda>p. is_VCounterexample (kp_verdict p)) ps
                   \<and> list_all (\<lambda>(n, e). tool_backed (rv_dispatch env n) (property_config env project e))
                       (filter (\<lambda>(n, e). is_VVerified (pr_verdict (run_property (rv_dispatch env n) (property_config env project e))))
                         (enumerate 0 (yf_properties props)))
                   \<and> rv_ser_proof env proof_art = Inr body \<and> dk_files d' (top_level_proof_json project) = Some body
                   \<and> map vp_name (pa_verified_properties proof_art) = map kp_name (filter (\<lambda>p. is_VVerified (kp_verdict p)) ps)
                   \<and> map cx_property (pa_counterexamples proof_art)
                       = map kp_name (filter (\<lambda>p. is_VCounterexample (kp_verdict p)) ps))))"
proof -
  obtain code out err d' where r: "properties_run env path properties fmt d = ((code, out, err), d')"
    by (metis surj_pair)
  show ?thesis
  proof (cases err)
    case (Some m)
    with r properties_run_failed show ?thesis by auto
  next
    case None
    from r[unfolded None] show ?thesis
    proof (cases rule: properties_run_done)
      case (through project props files body pp)
      have 1: "(verify_exit_code q = 1) = list_ex (\<lambda>p. is_VCounterexample (kp_verdict p)) (vr_properties q)" for q
        by (simp add: verify_exit_code_eq)
      have 2: "list_all (\<lambda>(n, e). tool_backed (rv_dispatch env n) (property_config env project e))
          (filter (\<lambda>(n, e). is_VVerified (pr_verdict (run_property (rv_dispatch env n) (property_config env project e))))
            (enumerate 0 (yf_properties props)))"
        using run_property_backed by (auto simp: list_all_iff)
      have 3: "map kp_name (vr_properties (properties_report env project props)) = map pe_name (yf_properties props)"
        by (simp add: properties_report_def run_all_properties_names)
      have 4: "pa_verified_properties (phase1_artifact env project i q files) = List.map_filter (phase1_verified (rv_sha env)) (vr_properties q)"
        "pa_counterexamples (phase1_artifact env project i q files) = List.map_filter phase1_counterexample (vr_properties q)" for i q
        by (simp_all add: phase1_artifact_def)
      show ?thesis
        unfolding r None prod.case option.case Let_def
        by (intro exI[of _ project] exI[of _ props] exI[of _ files] exI[of _ body] conjI;
            (rule through(1) 2 3 through(7))?)
          (use through in \<open>simp_all add: verify_exit_code_0 1 4 map_filter_names\<close>)
    qed
  qed
qed


section \<open>Re-verification of what was written\<close>

lemma hash_sources_reverify:
  assumes "hash_sources rd sha project ps = Inr files"
    and "list_all (\<lambda>p. path_join project (case path_strip_prefix p project of Some r \<Rightarrow> r | None \<Rightarrow> p) = p) ps"
  shows "list_all (file_matches sha rd project) files" and "length files = length (filter is_sol ps)"
    and "list_all (\<lambda>f. path_join project (sf_path f) \<in> set ps \<and> (\<exists>s. sf_sha256 f = sha256_hex sha s)) files"
proof -
  have "list_all (file_matches sha rd project) files \<and> length files = length (filter is_sol ps)
      \<and> list_all (\<lambda>f. path_join project (sf_path f) \<in> set ps \<and> (\<exists>s. sf_sha256 f = sha256_hex sha s)) files"
    using assms
  proof (induction ps arbitrary: files)
    case (Cons p ps)
    show ?case
    proof (cases "is_sol p")
      case False
      with Cons.prems Cons.IH[of files] show ?thesis by (auto simp: list_all_iff)
    next
      case True
      from Cons.prems(1) True obtain bytes fs where b: "rd p = Inr bytes" and h: "hash_sources rd sha project ps = Inr fs"
        and f: "files = \<lparr>sf_path = (case path_strip_prefix p project of Some r \<Rightarrow> r | None \<Rightarrow> p),
                         sf_sha256 = sha256_hex sha bytes\<rparr> # fs"
        by (auto split: sum.splits)
      have "path_join project (case path_strip_prefix p project of Some r \<Rightarrow> r | None \<Rightarrow> p) = p" using Cons.prems(2) by simp
      then have "file_matches sha rd project (hd files)" "path_join project (sf_path (hd files)) = p"
        unfolding f by (simp_all add: file_matches_def b)
      moreover have "list_all (\<lambda>p. path_join project (case path_strip_prefix p project of Some r \<Rightarrow> r | None \<Rightarrow> p) = p) ps"
        using Cons.prems(2) by simp
      note Cons.IH[OF h this]
      ultimately show ?thesis using True unfolding f by (auto simp: list_all_iff)
    qed
  qed simp
  then show "list_all (file_matches sha rd project) files" "length files = length (filter is_sol ps)"
    "list_all (\<lambda>f. path_join project (sf_path f) \<in> set ps \<and> (\<exists>s. sf_sha256 f = sha256_hex sha s)) files" by simp_all
qed

lemma sources_come_back:
  assumes "\<not> starts_with q ''/''" and "q \<noteq> []"
  shows "path_join project (case path_strip_prefix (path_join project q) project of Some r \<Rightarrow> r | None \<Rightarrow> path_join project q)
    = path_join project q"
  using assms by (simp add: path_strip_prefix_join)

lemma file_matches_map_error:
  "file_matches sha (\<lambda>p. map_sum (g p) id (rd p)) project f = file_matches sha rd project f"
  by (simp add: file_matches_def split: sum.splits)

lemma verify_artifact_rehashed:
  assumes "rd path = Inr body" and "dec body = Inr a" and "pa_schema_version a = schema_version_current"
    and "list_all (\<lambda>f. length (sf_sha256 f) = 64) (pa_source_files a)"
    and "list_all (file_matches sha rd (rm_project_root (pa_run a))) (pa_source_files a)"
  shows "verify_artifact sha rd dec path None =
    (if pa_source_files a = [] then Inl (PeSchema ''source_files must not be empty'')
     else Inr \<lparr>pv_artifact_path = path, pv_source_files_rehashed = length (pa_source_files a),
              pv_verified_properties = length (pa_verified_properties a), pv_re_dispatch_attempted = 0\<rparr>)"
proof -
  have "artifact_validate a = (if pa_source_files a = [] then Inl ''source_files must not be empty'' else Inr ())"
    using assms(3,4) check_hash_lengths_Inr[of "pa_source_files a" "()"] by (simp add: artifact_validate_def)
  moreover have "rehash_loop sha rd (rm_project_root (pa_run a)) (pa_source_files a) 0 = Inr (length (pa_source_files a))"
    using assms(5) by (simp add: rehash_loop_Inr)
  ultimately show ?thesis by (simp add: verify_artifact_def assms(1,2))
qed


section \<open>Witnesses\<close>

definition demo_out :: string where
  "demo_out = (''Counterexample:'' @ [NL] @ ''    p_x_uint256 = 0x01'' @ [NL]
     @ ''[FAIL] check_a(uint256) (paths: 1, time: 0.1s)'' @ [NL])"

definition demo_props :: properties_file where
  "demo_props = \<lparr>yf_version = 1, yf_property_contract = None,
     yf_properties = [\<lparr>pe_name = ''check_a'', pe_params = [\<lparr>pm_param_name = ''x'', pm_solidity_type = ''uint256''\<rparr>],
                      pe_smtchecker_source = None\<rparr>]\<rparr>"

definition demo_properties_env :: properties_env where
  "demo_properties_env =
     \<lparr>rv_canon = (\<lambda>p. Inr p), rv_read = (\<lambda>p. Inr ''contract A {}''), rv_yaml = (\<lambda>s. Inr demo_props),
      rv_test_entries = None, rv_remove = (\<lambda>p. True), rv_src_entries = Some (Inr [''/p/src/A.sol'']),
      rv_dispatch = (\<lambda>n. \<lparr>pn_halmos = demo_env, pn_smt = demo_smt_env, pn_persisted = (\<lambda>_. None),
        pn_halmos_panic = Some ''p'', pn_smt_panic = Some ''p'', pn_halmos_first = True\<rparr>),
      rv_trace = (\<lambda>n. Some (demo_env\<lparr>env_is_file := (\<lambda>p. True), env_child := (\<lambda>as b. ChildOutput demo_out [])\<rparr>)),
      rv_mkdir = (\<lambda>p. None), rv_write = (\<lambda>n. None), rv_sha = (\<lambda>s. replicate 32 0), rv_version = ''0.1'',
      rv_stamp = ''t'', rv_now = ''t'', rv_ser_proof = (\<lambda>a. Inr ''json''), rv_ser_report = (\<lambda>r. ''json'')\<rparr>"

definition demo_refuted :: checked_property where
  "demo_refuted = \<lparr>kp_name = ''check_a'',
     kp_result = \<lparr>pr_property = ''check_a'', pr_verdict = VCounterexample BHalmos ''check_a'' ''m'' 5\<rparr>\<rparr>"

lemma demo_replay: "replay_of demo_properties_env ''/p'' demo_props 0 demo_refuted \<noteq> None"
proof -
  have p: "(case halmos_parse demo_out of HCounterexample t ms \<Rightarrow> True | _ \<Rightarrow> False) = True" by code_simp
  then obtain t ms where "halmos_parse demo_out = HCounterexample t ms"
    by (cases "halmos_parse demo_out") simp_all
  then have "halmos_trace_for demo_properties_env ''/p'' 0 ''check_a'' = Some t"
    by (simp add: halmos_trace_for_def demo_properties_env_def halmos_run_simple_def halmos_exec_def halmos_run_new_def
        hr_with_wall_clock_def attach_hash_def Let_def)
  then show ?thesis by (simp add: replay_of_def demo_refuted_def demo_props_def)
qed


text \<open>A run in which both tasks panic, on a project with one source file.\<close>

definition demo_art :: proof_artifact where
  "demo_art = phase1_artifact demo_properties_env ''/p'' ''properties.yaml: /p/properties.yaml''
     (properties_report demo_properties_env ''/p'' demo_props)
     [\<lparr>sf_path = ''src/A.sol'', sf_sha256 = hex_lower (replicate 32 0)\<rparr>]"

definition demo_reverify_env :: properties_env where
  "demo_reverify_env = demo_properties_env\<lparr>rv_ser_proof := (\<lambda>a. if a = demo_art then Inr ''json'' else Inl ''x'')\<rparr>"

lemma demo_reverify_simps [simp]:
  "rv_canon demo_reverify_env p = Inr p" "rv_mkdir demo_reverify_env = (\<lambda>p. None)" "rv_write demo_reverify_env = (\<lambda>n. None)"
  "rv_test_entries demo_reverify_env = None" "rv_src_entries demo_reverify_env = Some (Inr [''/p/src/A.sol''])"
  "rv_sha demo_reverify_env = (\<lambda>s. replicate 32 0)" "rv_read demo_reverify_env = (\<lambda>p. Inr ''contract A {}'')"
  "rv_ser_proof demo_reverify_env a = (if a = demo_art then Inr ''json'' else Inl ''x'')"
  by (simp_all add: demo_reverify_env_def demo_properties_env_def)

lemma demo_report: "properties_report demo_reverify_env p ps = properties_report demo_properties_env p ps"
proof -
  have "default_smt_source demo_reverify_env p = default_smt_source demo_properties_env p"
    by (simp add: default_smt_source_def demo_properties_env_def)
  then have "property_config demo_reverify_env p e = property_config demo_properties_env p e" for e
    by (simp add: property_config_def split: option.split)
  moreover have "rv_dispatch demo_reverify_env = rv_dispatch demo_properties_env" by (simp add: demo_reverify_env_def)
  ultimately show ?thesis by (simp add: properties_report_def run_all_properties_eq)
qed

lemma demo_verdict: "\<exists>bs. pr_verdict (run_property (rv_dispatch demo_properties_env n) c) = VError bs"
  by (simp add: run_property_def demo_properties_env_def portfolio_dispatch_def Let_def dispatch_loop_def select_start_def
      halmos_branch_def smt_branch_def try_definitive_def outcome_def aggregate_def)

lemma demo_run:
  "\<exists>d'. properties_run demo_reverify_env ''/p'' None FmtJson \<lparr>dk_files = Map.empty, dk_writes = 0\<rparr> = ((3, (''json'' @ [NL]), None), d')"
proof -
  obtain bs where v: "pr_verdict (run_property (rv_dispatch demo_properties_env 0)
      (property_config demo_properties_env ''/p'' (hd (yf_properties demo_props)))) = VError bs"
    using demo_verdict by blast
  let ?r = "properties_report demo_properties_env ''/p'' demo_props"
  obtain p where r: "vr_properties ?r = [p]" "kp_verdict p = VError bs"
    using v by (simp add: properties_report_def demo_props_def)
  have l: "properties_load (rv_read demo_reverify_env) (rv_yaml demo_reverify_env) q = Inr demo_props" for q
    by (simp add: properties_load_def demo_reverify_env_def demo_properties_env_def demo_props_def)
  have pp: "path_join ''/p'' ''properties.yaml'' = ''/p/properties.yaml''" by code_simp
  have "is_sol ''/p/src/A.sol''" "path_strip_prefix ''/p/src/A.sol'' ''/p'' = Some ''src/A.sol''" by code_simp+
  then have s: "phase1_sources demo_reverify_env ''/p'' = Inr [\<lparr>sf_path = ''src/A.sol'', sf_sha256 = hex_lower (replicate 32 0)\<rparr>]"
    by (simp add: phase1_sources_def source_files_of_def sha256_hex_def)
  have a: "phase1_artifact demo_reverify_env ''/p'' i q fs = phase1_artifact demo_properties_env ''/p'' i q fs" for i q fs
    by (simp add: phase1_artifact_def demo_reverify_env_def)
  have t: "fst (ensure_tree (\<lambda>p. None) ''/p'') = None" by (simp add: ensure_tree_def)
  have "emit_counterexample_files demo_reverify_env ''/p'' demo_props False 0 [p] d = (None, d)" for d
    by (simp add: replay_of_def r)
  moreover obtain d2 where "emit_phase1_proof demo_reverify_env ''/p'' ''properties.yaml: /p/properties.yaml'' ?r
      \<lparr>dk_files = Map.empty, dk_writes = 0\<rparr> = (None, d2)"
    using t by (simp add: emit_phase1_proof_def s a demo_art_def[symmetric] fs_write_def Let_def)
  moreover have "verify_exit_code ?r = 3" by (simp add: verify_exit_code_eq r)
  moreover have "rv_ser_report demo_reverify_env ?r = ''json''" by (simp add: demo_reverify_env_def demo_properties_env_def)
  ultimately show ?thesis
    by (simp add: properties_run_def l[simplified demo_reverify_simps] demo_report r pp cleanup_stale_cex_files_def print_report_def Let_def
        del: emit_counterexample_files.simps)
qed


end
