(* ===== verification/StorageLayout.thy ===== *)
theory StorageLayout
  imports BTree
begin

text \<open>
  Storage layouts (\<open>crates/vergil-solidity/src/storage.rs\<close>): running solc for them, and the comparison of two
  layouts that an upgrade must pass. The decoder of solc's JSON and the process are parameters.
\<close>

section \<open>Layouts\<close>

record storage_entry =
  se_label :: string
  se_slot :: string
  se_offset :: u32
  se_type_id :: string
  se_contract :: string

record storage_type =
  ty_label :: string
  ty_encoding :: string
  ty_number_of_bytes :: string

record storage_layout =
  sl_qualified_name :: string
  sl_entries :: "storage_entry list"
  sl_types :: "string \<rightharpoonup> storage_type"

datatype storage_result = StLayouts "storage_layout list" | StError string

text \<open>The payload of one contract. The contracts come in the arbitrary order of a hash map.\<close>

record layout_payload =
  lp_storage :: "storage_entry list"
  lp_types :: "string \<rightharpoonup> storage_type"

definition layout_of :: "string \<times> layout_payload option \<Rightarrow> storage_layout option" where
  "layout_of entry =
     map_option (\<lambda>p. \<lparr>sl_qualified_name = fst entry, sl_entries = lp_storage p, sl_types = lp_types p\<rparr>) (snd entry)"

definition parse_combined_json ::
    "(string \<Rightarrow> string + (string \<times> layout_payload option) list) \<Rightarrow> string \<Rightarrow> storage_result" where
  "parse_combined_json dec raw =
     (case dec raw of
        Inl e \<Rightarrow> StError (''invalid solc storage JSON: '' @ e)
      | Inr contracts \<Rightarrow> StLayouts (sort_key sl_qualified_name (List.map_filter layout_of contracts)))"

section \<open>Running solc\<close>

text \<open>What became of a tool: whether it succeeded with its two outputs, a failure to start, or the budget elapsed.\<close>

datatype tool_child = ToolOutput bool string string | ToolSpawnFailed string | ToolElapsed

record storage_run =
  su_source :: string
  su_wall_clock_ms :: u64

definition storage_run_new :: "string \<Rightarrow> storage_run" where
  "storage_run_new source = \<lparr>su_source = source, su_wall_clock_ms = 30000\<rparr>"

record tool_env =
  tl_exists :: "string \<Rightarrow> bool"
  tl_child :: "string \<Rightarrow> string list \<Rightarrow> u64 \<Rightarrow> tool_child"

definition storage_exec ::
    "tool_env \<Rightarrow> (string \<Rightarrow> string + (string \<times> layout_payload option) list) \<Rightarrow> storage_run \<Rightarrow> storage_result" where
  "storage_exec env dec cfg =
     (if \<not> tl_exists env (su_source cfg) then StError (''source not found: '' @ su_source cfg)
      else case tl_child env ''solc'' [''--combined-json'', ''storage-layout'', su_source cfg] (su_wall_clock_ms cfg) of
        ToolOutput ok out err \<Rightarrow>
          if \<not> ok then StError (''solc storage layout failed: '' @ err) else parse_combined_json dec out
      | ToolSpawnFailed e \<Rightarrow> StError (''failed to spawn solc: '' @ e)
      | ToolElapsed \<Rightarrow> StError ''solc wall-clock budget exceeded'')"

definition storage_run_simple ::
    "tool_env \<Rightarrow> (string \<Rightarrow> string + (string \<times> layout_payload option) list) \<Rightarrow> string \<Rightarrow> u64 \<Rightarrow> storage_result" where
  "storage_run_simple env dec source budget =
     storage_exec env dec ((storage_run_new source)\<lparr>su_wall_clock_ms := budget\<rparr>)"

section \<open>Comparing two layouts\<close>

datatype slot_diff =
    SlotRemoved string string
  | SlotAdded string string
  | SlotMoved string string string
  | TypeChanged string string string string

definition by_label :: "storage_layout \<Rightarrow> (string \<times> storage_entry) list" where
  "by_label l = btree_of (map (\<lambda>e. (se_label e, e)) (sl_entries l))"

definition diff_old :: "(string \<times> storage_entry) list \<Rightarrow> string \<times> storage_entry \<Rightarrow> slot_diff list" where
  "diff_old new_by old =
     (let (label, o1) = old in
      case map_of new_by label of
        None \<Rightarrow> [SlotRemoved label (se_slot o1)]
      | Some n \<Rightarrow>
          (if se_slot o1 \<noteq> se_slot n then [SlotMoved label (se_slot o1) (se_slot n)] else [])
          @ (if se_type_id o1 \<noteq> se_type_id n then [TypeChanged label (se_slot n) (se_type_id o1) (se_type_id n)] else []))"

definition diff_layouts :: "storage_layout \<Rightarrow> storage_layout \<Rightarrow> slot_diff list" where
  "diff_layouts old new =
     (let old_by = by_label old; new_by = by_label new in
      concat (map (diff_old new_by) old_by)
      @ map (\<lambda>(label, n). SlotAdded label (se_slot n)) (filter (\<lambda>(label, n). map_of old_by label = None) new_by))"

definition parse_slot :: "string \<Rightarrow> nat option" where
  "parse_slot s = parse_uint 128 s"

definition max_slot :: "storage_layout \<Rightarrow> nat" where
  "max_slot l = fold max (List.map_filter (\<lambda>e. parse_slot (se_slot e)) (sl_entries l)) 0"

definition additions_are_appended :: "storage_layout \<Rightarrow> slot_diff list \<Rightarrow> bool" where
  "additions_are_appended old diff =
     list_all (\<lambda>d. case d of
        SlotAdded label slot \<Rightarrow> (case parse_slot slot of Some s \<Rightarrow> max_slot old < s | None \<Rightarrow> False)
      | _ \<Rightarrow> True) diff"

section \<open>Lemmas\<close>

lemma map_of_btree_of: "map_of (btree_of ps) = map_of (rev ps)"
proof -
  have "btree_ok m \<Longrightarrow> map_of (fold (\<lambda>(k, v). btree_insert k v) ps m) = map_of (rev ps @ m)"
    for m :: "(string \<times> 'a) list"
  proof (induction ps arbitrary: m)
    case (Cons p ps)
    then show ?case
      by (cases p) (simp add: btree_insert_ok btree_get_insert map_add_def fun_eq_iff split: option.split)
  qed simp
  then show ?thesis by (simp add: btree_of_def btree_ok_def)
qed

lemma max_slot_ge:
  assumes "e \<in> set (sl_entries l)" and "parse_slot (se_slot e) = Some s"
  shows "s \<le> max_slot l"
proof -
  have "s \<in> set (List.map_filter (\<lambda>e. parse_slot (se_slot e)) (sl_entries l))"
    using assms by (force simp: List.map_filter_def)
  then show ?thesis
    unfolding max_slot_def Max.set_eq_fold[symmetric] by (intro Max_ge) simp_all
qed

text \<open>The variable of a label, as its slot and type.\<close>

definition variable_at :: "storage_layout \<Rightarrow> string \<Rightarrow> (string \<times> string) option" where
  "variable_at l label = map_option (\<lambda>e. (se_slot e, se_type_id e)) (map_of (by_label l) label)"

definition is_added :: "slot_diff \<Rightarrow> bool" where
  "is_added d \<longleftrightarrow> (case d of SlotAdded l s \<Rightarrow> True | _ \<Rightarrow> False)"

lemma diff_old_Nil: "diff_old new_by (label, o1) = []
    \<longleftrightarrow> (\<exists>n. map_of new_by label = Some n \<and> se_slot n = se_slot o1 \<and> se_type_id n = se_type_id o1)"
  by (auto simp: diff_old_def split: option.splits)

lemma diff_old_not_added: "d \<in> set (diff_old new_by x) \<Longrightarrow> \<not> is_added d"
  by (cases x) (auto simp: diff_old_def is_added_def split: option.splits if_splits)

lemma only_additions_old: "list_all is_added (diff_old new_by x) \<longleftrightarrow> diff_old new_by x = []"
  using diff_old_not_added[of _ new_by x] by (cases "diff_old new_by x") (auto simp: list_all_iff)

lemma list_all_concat: "list_all P (concat (map f xs)) \<longleftrightarrow> (\<forall>x \<in> set xs. list_all P (f x))"
  by (auto simp: list_all_iff)

lemma added_second: "list_all is_added (map (\<lambda>(label, n). SlotAdded label (se_slot n)) xs)"
  by (auto simp: list_all_iff is_added_def)

lemma btree_of_get: "(k, v) \<in> set (btree_of ps) \<longleftrightarrow> map_of (btree_of ps) k = Some v"
proof -
  have "distinct (map fst (btree_of ps))"
    using btree_of_ok[of ps] by (simp add: btree_ok_def strict_sorted_iff)
  then show ?thesis by simp
qed

lemma only_added_iff:
  "list_all is_added (diff_layouts old new) \<longleftrightarrow>
     (\<forall>label v. variable_at old label = Some v \<longrightarrow> variable_at new label = Some v)"
proof -
  have "list_all is_added (diff_layouts old new) \<longleftrightarrow> (\<forall>x \<in> set (by_label old). diff_old (by_label new) x = [])"
    by (auto simp: diff_layouts_def Let_def only_additions_old list_all_concat added_second)
  also have "\<dots> \<longleftrightarrow> (\<forall>label o1. map_of (by_label old) label = Some o1 \<longrightarrow> diff_old (by_label new) (label, o1) = [])"
    by (auto simp: by_label_def btree_of_get)
  also have "\<dots> \<longleftrightarrow> (\<forall>label v. variable_at old label = Some v \<longrightarrow> variable_at new label = Some v)"
    by (fastforce simp: diff_old_Nil variable_at_def)
  finally show ?thesis .
qed

section \<open>Properties\<close>


definition demo_layout :: "(string \<times> string) list \<Rightarrow> storage_layout" where
  "demo_layout vars =
     \<lparr>sl_qualified_name = ''C'',
      sl_entries = map (\<lambda>(l, s). \<lparr>se_label = l, se_slot = s, se_offset = 0, se_type_id = ''t_uint256'', se_contract = ''C''\<rparr>) vars,
      sl_types = Map.empty\<rparr>"


text \<open>The test for appended additions refuses two upgrades that only append: the first variable of a
  contract that had none (its slot 0 is not greater than the default 0), and a variable that is packed
  behind the last one into the same slot.\<close>

theorem appending_refused:
  "\<not> additions_are_appended (demo_layout []) (diff_layouts (demo_layout []) (demo_layout [(''a'', ''0'')]))
   \<and> \<not> additions_are_appended (demo_layout [(''a'', ''0'')])
        (diff_layouts (demo_layout [(''a'', ''0'')]) (demo_layout [(''a'', ''0''), (''b'', ''0'')]))"
  by code_simp

end
