(* ===== verification/StaticAnalysis.thy ===== *)
theory StaticAnalysis
  imports StorageLayout
begin

text \<open>
  Static analysis of a source (\<open>crates/vergil-solidity/src/slither.rs\<close> and \<open>static_analysis.rs\<close>): slither's report,
  and its check against solc's storage layouts. Both runs are started together; neither sees the other.
\<close>

section \<open>Slither\<close>

record detector =
  dt_check :: string
  dt_impact :: string
  dt_confidence :: string
  dt_description :: string

text \<open>A report is its list of detectors.\<close>

type_synonym slither_report = "detector list"

datatype slither_result = SlReport slither_report | SlError string

text \<open>The decoded output: success, the error and the detectors.\<close>

definition parse_slither_json ::
    "(string \<Rightarrow> string + bool \<times> string option \<times> detector list) \<Rightarrow> string \<Rightarrow> slither_result" where
  "parse_slither_json dec raw =
     (case dec raw of
        Inl e \<Rightarrow> SlError (''invalid slither JSON: '' @ e)
      | Inr (success, error, detectors) \<Rightarrow>
          if \<not> success then SlError (case error of Some e \<Rightarrow> e | None \<Rightarrow> ''slither failed'')
          else SlReport detectors)"

record slither_run =
  sn_source :: string
  sn_wall_clock_ms :: u64

definition slither_run_new :: "string \<Rightarrow> slither_run" where
  "slither_run_new source = \<lparr>sn_source = source, sn_wall_clock_ms = 60000\<rparr>"

definition sn_with_wall_clock :: "slither_run \<Rightarrow> u64 \<Rightarrow> slither_run" where
  "sn_with_wall_clock r b = r\<lparr>sn_wall_clock_ms := b\<rparr>"

text \<open>The exit status of slither is not looked at.\<close>

definition slither_exec ::
    "tool_env \<Rightarrow> (string \<Rightarrow> string + bool \<times> string option \<times> detector list) \<Rightarrow> slither_run \<Rightarrow> slither_result" where
  "slither_exec env dec cfg =
     (if \<not> tl_exists env (sn_source cfg) then SlError (''source not found: '' @ sn_source cfg)
      else case tl_child env ''slither'' [sn_source cfg, ''--json'', ''-''] (sn_wall_clock_ms cfg) of
        ToolOutput ok out err \<Rightarrow> parse_slither_json dec out
      | ToolSpawnFailed e \<Rightarrow> SlError (''failed to spawn slither: '' @ e)
      | ToolElapsed \<Rightarrow> SlError ''slither wall-clock budget exceeded'')"

definition slither_run_simple ::
    "tool_env \<Rightarrow> (string \<Rightarrow> string + bool \<times> string option \<times> detector list) \<Rightarrow> string \<Rightarrow> u64 \<Rightarrow> slither_result" where
  "slither_run_simple env dec source budget = slither_exec env dec (sn_with_wall_clock (slither_run_new source) budget)"

section \<open>The cross-check\<close>

datatype static_analysis_error = SlitherFailed string | StorageFailed string | SlitherStorageMismatch string

record static_analysis_report =
  sr_slither :: slither_report
  sr_storage :: "storage_layout list"

definition storage_checks :: "string list" where
  "storage_checks =
     [''uninitialized-state'', ''storage-array'', ''uninitialized-storage'', ''storage-collision'',
      ''reentrancy-eth'', ''reentrancy-no-eth'', ''incorrect-shift'']"

definition is_storage_relevant :: "string \<Rightarrow> bool" where
  "is_storage_relevant check = List.member storage_checks check"

definition cross_check :: "slither_report \<Rightarrow> storage_layout list \<Rightarrow> static_analysis_error option" where
  "cross_check slither storage =
     (if storage = [] then Some (SlitherStorageMismatch ''solc returned no storage layouts'')
      else map_option
        (\<lambda>d. SlitherStorageMismatch (''slither '' @ dt_check d @ '' ('' @ dt_impact d @ '') on storage layout''))
        (List.find (\<lambda>d. dt_impact d = ''High'' \<and> is_storage_relevant (dt_check d)) slither))"

definition analyze ::
    "tool_env \<Rightarrow> (string \<Rightarrow> string + bool \<times> string option \<times> detector list)
     \<Rightarrow> (string \<Rightarrow> string + (string \<times> layout_payload option) list) \<Rightarrow> string \<Rightarrow> u64
     \<Rightarrow> static_analysis_error + static_analysis_report" where
  "analyze env dec_slither dec_solc source budget =
     (case slither_run_simple env dec_slither source budget of
        SlError e \<Rightarrow> Inl (SlitherFailed e)
      | SlReport r \<Rightarrow>
          (case storage_run_simple env dec_solc source budget of
             StError e \<Rightarrow> Inl (StorageFailed e)
           | StLayouts l \<Rightarrow>
               (case cross_check r l of
                  Some e \<Rightarrow> Inl e
                | None \<Rightarrow> Inr \<lparr>sr_slither = r, sr_storage = l\<rparr>)))"

section \<open>Lemmas\<close>

lemma layouts_sorted:
  "storage_run_simple env dec source budget = StLayouts ls \<Longrightarrow> sorted (map sl_qualified_name ls)"
  by (auto simp: storage_run_simple_def storage_exec_def parse_combined_json_def
      split: if_split_asm tool_child.split_asm sum.split_asm)

text \<open>A report that comes out holds at least one layout, the layouts in the order of their names, and no
  high-impact finding about storage.\<close>

lemma analyze_sound:
  "(case analyze env dec_slither dec_solc source budget of
      Inl e \<Rightarrow> True
    | Inr r \<Rightarrow> sr_storage r \<noteq> [] \<and> sorted (map sl_qualified_name (sr_storage r))
        \<and> list_all (\<lambda>d. dt_impact d = ''High'' \<longrightarrow> dt_check d \<notin> set storage_checks) (sr_slither r))"
  by (auto simp: analyze_def cross_check_def is_storage_relevant_def List.member_iff find_None_iff list_all_iff
      dest: layouts_sorted split: slither_result.split storage_result.split option.split)

end
