(* ===== verification/PropertyCatalog.thy ===== *)
theory PropertyCatalog
  imports AttackTemplates StaticAnalysis
begin

text \<open>
  The conformance catalogue (\<open>crates/vergil-properties/src/catalog.rs\<close>) and the check of a manifest against
  the authoritative static analysis before a property goes to a solver (\<open>manifest.rs\<close>).
\<close>

section \<open>The catalogue\<close>

datatype template_error =
    TeIo string
  | TeYaml string string
  | TeMissingEncoding string string string
  | TeEscapingPath string string
  | TeLicenseTierViolation string cat_tier string
  | TeDuplicateId string

datatype cost_class = Trivial | Cheap | MediumCost | Hard

fun cost_class_str :: "cost_class \<Rightarrow> string" where
  "cost_class_str Trivial = ''trivial''"
| "cost_class_str Cheap = ''cheap''"
| "cost_class_str MediumCost = ''medium''"
| "cost_class_str Hard = ''hard''"

record cat_provenance =
  cp_tier :: cat_tier
  cp_source :: string
  cp_inspired_by :: "string option"
  cp_license :: string
  cp_upstream_commit :: "string option"

record cat_requires =
  cq_storage_slots :: "storage_slot_req list"
  cq_modifiers :: "string list"
  cq_external_call_handling :: "string option"

record encoding_paths =
  ep_halmos :: string
  ep_smtchecker :: "string option"

record property_manifest =
  pf_id :: string
  pf_description :: string
  pf_cost_class :: cost_class
  pf_interfaces :: "string list"
  pf_requires :: cat_requires
  pf_encoding :: encoding_paths
  pf_provenance :: cat_provenance

record property_template =
  pl_manifest :: property_manifest
  pl_dir :: string
  pl_halmos_source :: string
  pl_smtchecker_source :: string

text \<open>\<open>sha\<close> is SHA-256 of the bytes the hasher was fed.\<close>

definition content_sha :: "(string \<Rightarrow> u8 list) \<Rightarrow> property_template \<Rightarrow> u8 list" where
  "content_sha sha t =
     sha (pf_id (pl_manifest t) @ [NUL] @ pf_description (pl_manifest t) @ [NUL] @ pl_halmos_source t)"

definition walk_property_dirs :: "string \<Rightarrow> fs_node option \<Rightarrow> template_error + (string \<times> fs_node) list" where
  "walk_property_dirs root_path node =
     (case node of
        Some (DirN (Some es)) \<Rightarrow>
          Inr (sort_key (path_key \<circ> fst)
            (map (\<lambda>(name, n). (path_join root_path name, n))
              (filter (\<lambda>(name, n). is_dir_node n \<and> child_is_file n ''manifest.yaml'') es)))
      | _ \<Rightarrow> Inl (TeIo root_path))"

definition read_property_file :: "string \<Rightarrow> fs_node \<Rightarrow> string \<Rightarrow> string \<Rightarrow> template_error + string" where
  "read_property_file dir node tid rel =
     (case resolve_under dir rel of
        None \<Rightarrow> Inl (TeEscapingPath tid rel)
      | Some path \<Rightarrow>
          (case read_below node rel of Some body \<Rightarrow> Inr body | None \<Rightarrow> Inl (TeMissingEncoding tid rel dir)))"

definition load_property_template ::
    "(string \<Rightarrow> string + property_manifest) \<Rightarrow> string \<times> fs_node \<Rightarrow> template_error + property_template" where
  "load_property_template yaml entry =
     (let (dir, node) = entry; manifest_path = path_join dir ''manifest.yaml'' in
      case child_read node ''manifest.yaml'' of
        None \<Rightarrow> Inl (TeIo manifest_path)
      | Some bytes \<Rightarrow>
          (case yaml bytes of
             Inl e \<Rightarrow> Inl (TeYaml manifest_path e)
           | Inr m \<Rightarrow>
               (case read_property_file dir node (pf_id m) (ep_halmos (pf_encoding m)) of
                  Inl e \<Rightarrow> Inl e
                | Inr h \<Rightarrow>
                    (case (case ep_smtchecker (pf_encoding m) of
                             None \<Rightarrow> Inr []
                           | Some rel \<Rightarrow> read_property_file dir node (pf_id m) rel) of
                       Inl e \<Rightarrow> Inl e
                     | Inr s \<Rightarrow>
                         Inr \<lparr>pl_manifest = m, pl_dir = dir, pl_halmos_source = h, pl_smtchecker_source = s\<rparr>))))"

definition lint_property_template :: "property_template \<Rightarrow> template_error option" where
  "lint_property_template t =
     (let m = pl_manifest t; pv = pf_provenance m in
      if license_forbidden (cp_tier pv) (cp_license pv)
      then Some (TeLicenseTierViolation (pf_id m) (cp_tier pv) (cp_license pv)) else None)"

definition property_catalog_load ::
    "(string \<Rightarrow> string + property_manifest) \<Rightarrow> string \<Rightarrow> fs_node option \<Rightarrow> template_error + (string \<times> property_template) list" where
  "property_catalog_load yaml root_path node =
     (case walk_property_dirs root_path node of
        Inl e \<Rightarrow> Inl e
      | Inr dirs \<Rightarrow>
          load_templates (load_property_template yaml) lint_property_template (\<lambda>t. pf_id (pl_manifest t)) TeDuplicateId dirs [])"

definition property_catalog_get :: "(string \<times> property_template) list \<Rightarrow> string \<Rightarrow> property_template option" where
  "property_catalog_get cat tid = map_of cat tid"

section \<open>Checking a manifest\<close>

datatype manifest_error =
    StorageSlotMissing string string nat
  | StorageSlotTypeMismatch string string string string
  | NoLayouts string

text \<open>A report is its warnings.\<close>

type_synonym validation_report = "string list"

definition normalize_ws :: "string \<Rightarrow> string" where
  "normalize_ws s = join '' '' (split_whitespace s)"

definition types_match :: "string \<Rightarrow> string \<Rightarrow> bool" where
  "types_match expected actual = (normalize_ws expected = normalize_ws actual)"

definition entry_type :: "storage_layout \<Rightarrow> storage_entry \<Rightarrow> string" where
  "entry_type layout entry =
     (case sl_types layout (se_type_id entry) of Some t \<Rightarrow> ty_label t | None \<Rightarrow> se_type_id entry)"

definition check_storage_slot :: "string \<Rightarrow> storage_slot_req \<Rightarrow> storage_layout list \<Rightarrow> manifest_error option" where
  "check_storage_slot template req layouts =
     (case List.find (\<lambda>(l, e). se_label e = sq_name req) (concat (map (\<lambda>l. map (Pair l) (sl_entries l)) layouts)) of
        None \<Rightarrow> Some (StorageSlotMissing template (sq_name req) (length layouts))
      | Some (l, e) \<Rightarrow>
          if types_match (sq_solidity_type req) (entry_type l e) then None
          else Some (StorageSlotTypeMismatch template (sq_name req) (sq_solidity_type req) (entry_type l e)))"

fun check_storage_slots :: "string \<Rightarrow> storage_slot_req list \<Rightarrow> storage_layout list \<Rightarrow> manifest_error option" where
  "check_storage_slots template [] layouts = None"
| "check_storage_slots template (req # reqs) layouts =
     (case check_storage_slot template req layouts of
        Some e \<Rightarrow> Some e
      | None \<Rightarrow> check_storage_slots template reqs layouts)"

definition risky_detector :: "detector \<Rightarrow> bool" where
  "risky_detector det =
     (dt_impact det = ''High''
      \<and> (contains (dt_check det) ''reentrancy'' \<or> contains (dt_check det) ''unchecked-lowlevel''
         \<or> contains (dt_check det) ''arbitrary-send''))"

definition soft_check_external_calls :: "property_manifest \<Rightarrow> slither_report \<Rightarrow> string list" where
  "soft_check_external_calls m slither =
     (if (case cq_external_call_handling (pf_requires m) of Some s \<Rightarrow> to_lower s = ''havoc'' | None \<Rightarrow> False)
      then map (\<lambda>det. pf_id m @ '': slither HIGH `'' @ dt_check det @ (''` may interact with havoc'' @ [SQ] @ ''d external-call assumption''))
             (filter risky_detector slither)
      else [])"

definition manifest_validate ::
    "property_manifest \<Rightarrow> storage_layout list \<Rightarrow> slither_report \<Rightarrow> manifest_error + validation_report" where
  "manifest_validate m storage slither =
     (if storage = [] then Inl (NoLayouts (pf_id m))
      else case check_storage_slots (pf_id m) (cq_storage_slots (pf_requires m)) storage of
        Some e \<Rightarrow> Inl e
      | None \<Rightarrow> Inr (soft_check_external_calls m slither))"

section \<open>Lemmas\<close>

definition property_read_from :: "(string \<Rightarrow> string + property_manifest) \<Rightarrow> string \<times> fs_node \<Rightarrow> property_template \<Rightarrow> bool" where
  "property_read_from yaml entry t \<longleftrightarrow>
     (let m = pl_manifest t; node = snd entry in
      pl_dir t = fst entry
      \<and> map_option yaml (child_read node ''manifest.yaml'') = Some (Inr m)
      \<and> file_under node (ep_halmos (pf_encoding m)) (pl_halmos_source t)
      \<and> (case ep_smtchecker (pf_encoding m) of
           None \<Rightarrow> pl_smtchecker_source t = []
         | Some rel \<Rightarrow> file_under node rel (pl_smtchecker_source t)))"

definition property_clean :: "property_template \<Rightarrow> bool" where
  "property_clean t \<longleftrightarrow>
     \<not> license_forbidden (cp_tier (pf_provenance (pl_manifest t))) (cp_license (pf_provenance (pl_manifest t)))"

lemma read_property_file_Inr: "read_property_file dir node tid rel = Inr body \<longleftrightarrow> file_under node rel body"
  by (auto simp: read_property_file_def resolve_under_def file_under_def split: option.splits)

lemma load_property_reads: "load_property_template yaml entry = Inr t \<Longrightarrow> property_read_from yaml entry t"
  by (cases entry)
     (auto simp: load_property_template_def property_read_from_def Let_def read_property_file_Inr
       split: option.splits sum.splits)

interpretation conformance: template_kind "load_property_template yaml" lint_property_template
    "property_read_from yaml" property_clean
  for yaml
  by unfold_locales (auto simp: load_property_reads lint_property_template_def property_clean_def Let_def)

lemma property_catalog_sound:
  "(case property_catalog_load yaml root_path node of
      Inl e \<Rightarrow> True
    | Inr cat \<Rightarrow>
        (case walk_property_dirs root_path node of
           Inl e \<Rightarrow> False
         | Inr dirs \<Rightarrow>
             btree_ok cat \<and> length cat = length dirs
             \<and> list_all (\<lambda>(k, t). k = pf_id (pl_manifest t) \<and> property_clean t
                                  \<and> list_ex (\<lambda>d. property_read_from yaml d t) dirs) cat))"
  using conformance.load_templates_sound[of yaml "\<lambda>t. pf_id (pl_manifest t)" TeDuplicateId
      "projr (walk_property_dirs root_path node)"]
  by (cases "walk_property_dirs root_path node"; cases "property_catalog_load yaml root_path node")
     (auto simp: property_catalog_load_def conformance.entry_ok_def list_all_iff)

text \<open>The first entry with the label, in the order of the layouts, is the one that must have the type.\<close>

definition slot_agrees :: "storage_layout list \<Rightarrow> storage_slot_req \<Rightarrow> bool" where
  "slot_agrees layouts req \<longleftrightarrow>
     (case filter (\<lambda>(l, e). se_label e = sq_name req) (concat (map (\<lambda>l. map (Pair l) (sl_entries l)) layouts)) of
        [] \<Rightarrow> False
      | (l, e) # _ \<Rightarrow> types_match (sq_solidity_type req) (entry_type l e))"

lemma find_filter: "List.find P xs = (case filter P xs of [] \<Rightarrow> None | x # _ \<Rightarrow> Some x)"
  by (induction xs) auto

lemma check_storage_slot_None: "check_storage_slot template req layouts = None \<longleftrightarrow> slot_agrees layouts req"
  by (auto simp: check_storage_slot_def slot_agrees_def find_filter split: list.split)

lemma check_storage_slots_None:
  "check_storage_slots template reqs layouts = None \<longleftrightarrow> list_all (slot_agrees layouts) reqs"
proof (induction reqs)
  case (Cons req reqs)
  then show ?case
    using check_storage_slot_None[of template req layouts] by (cases "check_storage_slot template req layouts") auto
qed simp

section \<open>The property\<close>

text \<open>A manifest passes exactly when solc reported some layout and every storage slot it declares is there, the
  first variable of that name having the declared type up to white space; the warnings never turn a
  failure into a pass, and are one per high-impact reentrancy, low-level-call or arbitrary-send finding
  when the manifest treats external calls as havoc.\<close>

theorem manifest_validate_exact:
  "(case manifest_validate m storage slither of
      Inl e \<Rightarrow> \<not> (storage \<noteq> [] \<and> list_all (slot_agrees storage) (cq_storage_slots (pf_requires m)))
    | Inr warnings \<Rightarrow>
        storage \<noteq> [] \<and> list_all (slot_agrees storage) (cq_storage_slots (pf_requires m))
        \<and> length warnings =
            (if map_option to_lower (cq_external_call_handling (pf_requires m)) = Some ''havoc''
             then length (filter risky_detector slither) else 0))"
  using check_storage_slots_None[of "pf_id m" "cq_storage_slots (pf_requires m)" storage]
  by (auto simp: manifest_validate_def soft_check_external_calls_def split: option.split)

end
