(* ===== verification/Retrieval.thy ===== *)
theory Retrieval
  imports PropertyCatalog RustFloat "HOL-Library.Multiset"
begin

text \<open>
  Which templates of the property catalogue are shown to the synthesiser
  (\<open>crates/vergil-properties/src/retrieval.rs\<close>, \<open>embed.rs\<close>): every template is embedded once, the vectors
  are kept in a SQLite table, and an intent is ranked against them by a dot product.
\<close>

section \<open>Arithmetic on f32\<close>

fun fadd32 :: "float \<Rightarrow> float \<Rightarrow> float" where
  "fadd32 (Fin a) (Fin b) = to_f32 (a + b)"
| "fadd32 x y = fadd64 x y"

fun fmul32 :: "float \<Rightarrow> float \<Rightarrow> float" where
  "fmul32 (Fin a) (Fin b) = to_f32 (a * b)"
| "fmul32 x y = fmul64 x y"

definition fsum32 :: "float list \<Rightarrow> float" where
  "fsum32 xs = fold (\<lambda>x acc. fadd32 acc x) xs (Fin 0)"

definition dot :: "float list \<Rightarrow> float list \<Rightarrow> float" where
  "dot a b = fsum32 (map (\<lambda>(x, y). fmul32 x y) (zip a b))"

text \<open>The root of a number, rounded down.\<close>

fun isqrt :: "nat \<Rightarrow> nat" where
  "isqrt n = (if n = 0 then 0 else let r = 2 * isqrt (n div 4) in if (r + 1) * (r + 1) \<le> n then r + 1 else r)"

declare isqrt.simps [simp del]

text \<open>
  The square root of an \<open>f32\<close>, correctly rounded: 64 bits behind the point are enough, as the exact root
  of an \<open>f32\<close> never lies half way between two of them, and one more bit tells whether it was cut.
\<close>

definition sqrt_rat :: "rat \<Rightarrow> rat" where
  "sqrt_rat x =
     (let e = 2 * (128 + nat \<bar>ilog2 x\<bar>); n = nat \<lfloor>x * 2 ^ e\<rfloor>; r = isqrt n in
      (if r * r = n then of_nat (2 * r) else of_nat (2 * r + 1)) / 2 ^ (e div 2 + 1))"

fun fsqrt32 :: "float \<Rightarrow> float" where
  "fsqrt32 (Fin x) = (if x < 0 then NaN else if x = 0 then Fin 0 else to_f32 (sqrt_rat x))"
| "fsqrt32 PInf = PInf"
| "fsqrt32 NInf = NaN"
| "fsqrt32 NaN = NaN"

text \<open>Division of an \<open>f32\<close> by a positive one.\<close>

fun fdiv32_pos :: "float \<Rightarrow> float \<Rightarrow> float" where
  "fdiv32_pos (Fin a) (Fin b) = to_f32 (a / b)"
| "fdiv32_pos NaN _ = NaN"
| "fdiv32_pos _ NaN = NaN"
| "fdiv32_pos (Fin a) _ = Fin 0"
| "fdiv32_pos x (Fin b) = x"
| "fdiv32_pos _ _ = NaN"

section \<open>Embedders\<close>

datatype embed_error = EmApi string | EmTransport string | EmSchema string

text \<open>The trait object: its id, the length of its vectors, and what it answers for a batch of texts.\<close>

record embedder_face =
  ed_id :: string
  ed_dim :: nat
  ed_embed :: "string list \<Rightarrow> embed_error + float list list"

text \<open>
  The embedder of the tests and of runs without a key. \<open>sha\<close> is SHA-256: a digest has 32 bytes, so every
  counter gives eight numbers.
\<close>

definition le_bytes :: "nat \<Rightarrow> string" where
  "le_bytes n = map (\<lambda>i. char_of (n div 256 ^ i mod 256)) [0..<4]"

definition u32_to_unit :: "nat \<Rightarrow> float" where
  "u32_to_unit n = fadd32 (fmul32 (fdiv32_pos (to_f32 (of_nat n)) (Fin (2 ^ 32))) (Fin 2)) (Fin (- 1))"

fun chunk_floats :: "u8 list \<Rightarrow> float list" where
  "chunk_floats (a # b # c # d # rest) =
     u32_to_unit (unat a + 256 * unat b + 65536 * unat c + 16777216 * unat d) # chunk_floats rest"
| "chunk_floats _ = []"

definition hash_vector :: "(string \<Rightarrow> u8 list) \<Rightarrow> string \<Rightarrow> nat \<Rightarrow> float list" where
  "hash_vector sha s dims =
     (let out = take dims (concat (map (\<lambda>counter. chunk_floats (sha (s @ le_bytes counter))) [0..<(dims + 7) div 8]));
          norm = fsqrt32 (fsum32 (map (\<lambda>x. fmul32 x x) out))
      in if flt (Fin 0) norm then map (\<lambda>x. fdiv32_pos x norm) out else out)"

definition mock_embedder :: "(string \<Rightarrow> u8 list) \<Rightarrow> string \<Rightarrow> nat \<Rightarrow> embedder_face" where
  "mock_embedder sha eid dims =
     \<lparr>ed_id = eid, ed_dim = dims, ed_embed = (\<lambda>inputs. Inr (map (\<lambda>s. hash_vector sha s dims) inputs))\<rparr>"

text \<open>Voyage: \<open>post url key model inputs\<close> is the HTTP request, \<open>dec\<close> serde's decoder of the answer.\<close>

datatype http_result =
    HttpSendFailed string
  | HttpBodyFailed string
  | HttpAnswer bool string string

record voyage_embedder =
  vy_api_key :: string
  vy_base_url :: string
  vy_model :: string
  vy_dim :: nat

definition voyage_with_model :: "string \<Rightarrow> string \<Rightarrow> nat \<Rightarrow> voyage_embedder" where
  "voyage_with_model key model dims =
     \<lparr>vy_api_key = key, vy_base_url = ''https://api.voyageai.com/v1'', vy_model = model, vy_dim = dims\<rparr>"

definition voyage_new :: "string \<Rightarrow> voyage_embedder" where
  "voyage_new key = voyage_with_model key ''voyage-3'' 1024"

definition with_base_url :: "string \<Rightarrow> voyage_embedder \<Rightarrow> voyage_embedder" where
  "with_base_url url v = v\<lparr>vy_base_url := url\<rparr>"

definition voyage_embed ::
    "(string \<Rightarrow> string \<Rightarrow> string \<Rightarrow> string list \<Rightarrow> http_result) \<Rightarrow> (string \<Rightarrow> string + float list list)
     \<Rightarrow> voyage_embedder \<Rightarrow> string list \<Rightarrow> embed_error + float list list" where
  "voyage_embed post dec v inputs =
     (case post (vy_base_url v @ ''/embeddings'') (vy_api_key v) (vy_model v) inputs of
        HttpSendFailed e \<Rightarrow> Inl (EmTransport e)
      | HttpBodyFailed e \<Rightarrow> Inl (EmTransport e)
      | HttpAnswer ok status body \<Rightarrow>
          (if \<not> ok then Inl (EmApi (status @ '': '' @ body))
           else case dec body of Inl e \<Rightarrow> Inl (EmSchema e) | Inr vs \<Rightarrow> Inr vs))"

definition voyage_face ::
    "(string \<Rightarrow> string \<Rightarrow> string \<Rightarrow> string list \<Rightarrow> http_result) \<Rightarrow> (string \<Rightarrow> string + float list list)
     \<Rightarrow> voyage_embedder \<Rightarrow> embedder_face" where
  "voyage_face post dec v = \<lparr>ed_id = vy_model v, ed_dim = vy_dim v, ed_embed = voyage_embed post dec v\<rparr>"

section \<open>The cache\<close>

datatype retrieval_error =
    ReSqlite string
  | ReEmbed embed_error
  | ReDimMismatch nat nat

text \<open>
  The table of embeddings: its key is the template and the embedder, its row the digest of the content and
  the vector as a blob. \<open>ca_encode\<close> and \<open>ca_decode\<close> are the casts of bytemuck (\<open>None\<close> is its panic),
  the errors are those of SQLite and of the disk.
\<close>

type_synonym 'b embedding_table = "string \<times> string \<rightharpoonup> u8 list \<times> 'b"

record 'b cache_env =
  ca_mkdir_err :: "string option"
  ca_open_err :: "string option"
  ca_schema_err :: "string option"
  ca_read_err :: "string \<Rightarrow> string option"
  ca_write_err :: "string \<Rightarrow> string option"
  ca_encode :: "float list \<Rightarrow> 'b"
  ca_decode :: "'b \<Rightarrow> float list option"

definition read_cached ::
    "'b cache_env \<Rightarrow> 'b embedding_table \<Rightarrow> string \<Rightarrow> string \<Rightarrow> u8 list \<Rightarrow> (string + float list option) option" where
  "read_cached env db tid eid sha =
     (case ca_read_err env tid of
        Some e \<Rightarrow> Some (Inl e)
      | None \<Rightarrow>
          (case db (tid, eid) of
             None \<Rightarrow> Some (Inr None)
           | Some (stored, blob) \<Rightarrow>
               if stored = sha then map_option (\<lambda>v. Inr (Some v)) (ca_decode env blob) else Some (Inr None)))"

definition write_cached ::
    "'b cache_env \<Rightarrow> 'b embedding_table \<Rightarrow> string \<Rightarrow> string \<Rightarrow> u8 list \<Rightarrow> float list \<Rightarrow> string option \<times> 'b embedding_table" where
  "write_cached env db tid eid sha v =
     (case ca_write_err env tid of
        Some e \<Rightarrow> (Some e, db)
      | None \<Rightarrow> (None, db((tid, eid) \<mapsto> (sha, ca_encode env v))))"

section \<open>Building the retriever\<close>

record retriever =
  rt_catalog :: "(string \<times> property_template) list"
  rt_embedder :: embedder_face
  rt_vectors :: "(string \<times> float list) list"

definition embed_text :: "property_template \<Rightarrow> string" where
  "embed_text t =
     pf_id (pl_manifest t) @ [NL] @ pf_description (pl_manifest t) @ [NL] @ take_chars 512 (pl_halmos_source t)"

text \<open>The templates that are cached, and what is left to embed.\<close>

fun scan_templates ::
    "'b cache_env \<Rightarrow> (string \<Rightarrow> u8 list) \<Rightarrow> embedder_face \<Rightarrow> 'b embedding_table \<Rightarrow> property_template list
     \<Rightarrow> (retrieval_error + (string \<times> float list) list \<times> (string \<times> string \<times> u8 list) list) option" where
  "scan_templates env sha ed db [] = Some (Inr ([], []))"
| "scan_templates env sha ed db (t # ts) =
     (let tid = pf_id (pl_manifest t); digest = content_sha sha t in
      case read_cached env db tid (ed_id ed) digest of
        None \<Rightarrow> None
      | Some (Inl e) \<Rightarrow> Some (Inl (ReSqlite e))
      | Some (Inr (Some v)) \<Rightarrow>
          (if length v \<noteq> ed_dim ed then Some (Inl (ReDimMismatch (ed_dim ed) (length v)))
           else map_option (map_sum id (\<lambda>(vs, todo). ((tid, v) # vs, todo))) (scan_templates env sha ed db ts))
      | Some (Inr None) \<Rightarrow>
          map_option (map_sum id (\<lambda>(vs, todo). (vs, (tid, embed_text t, digest) # todo)))
            (scan_templates env sha ed db ts))"

fun store_vectors ::
    "'b cache_env \<Rightarrow> embedder_face \<Rightarrow> ((string \<times> string \<times> u8 list) \<times> float list) list \<Rightarrow> 'b embedding_table
     \<Rightarrow> (retrieval_error + (string \<times> float list) list) \<times> 'b embedding_table" where
  "store_vectors env ed [] db = (Inr [], db)"
| "store_vectors env ed (((tid, body, digest), v) # rest) db =
     (if length v \<noteq> ed_dim ed then (Inl (ReDimMismatch (ed_dim ed) (length v)), db)
      else case write_cached env db tid (ed_id ed) digest v of
        (Some e, db1) \<Rightarrow> (Inl (ReSqlite e), db1)
      | (None, db1) \<Rightarrow>
          (let (r, db2) = store_vectors env ed rest db1 in (map_sum id (\<lambda>vs. (tid, v) # vs) r, db2)))"

definition open_cache :: "'b cache_env \<Rightarrow> string \<Rightarrow> retrieval_error option" where
  "open_cache env cache_dir =
     (case ca_mkdir_err env of
        Some e \<Rightarrow> Some (ReSqlite (''create cache dir '' @ cache_dir @ '': '' @ e))
      | None \<Rightarrow> (case ca_open_err env of Some e \<Rightarrow> Some (ReSqlite e)
                 | None \<Rightarrow> map_option ReSqlite (ca_schema_err env)))"

text \<open>\<open>None\<close> is a panic. The answers of the embedder are paired with the texts, so a short answer leaves templates out.\<close>

definition retriever_new ::
    "'b cache_env \<Rightarrow> (string \<Rightarrow> u8 list) \<Rightarrow> (string \<times> property_template) list \<Rightarrow> embedder_face \<Rightarrow> string
     \<Rightarrow> 'b embedding_table \<Rightarrow> (retrieval_error + retriever) option \<times> 'b embedding_table" where
  "retriever_new env sha cat ed cache_dir db =
     (case open_cache env cache_dir of
        Some e \<Rightarrow> (Some (Inl e), db)
      | None \<Rightarrow>
          (case scan_templates env sha ed db (map snd cat) of
             None \<Rightarrow> (None, db)
           | Some (Inl e) \<Rightarrow> (Some (Inl e), db)
           | Some (Inr (cached, todo)) \<Rightarrow>
               (if todo = [] then (Some (Inr \<lparr>rt_catalog = cat, rt_embedder = ed, rt_vectors = cached\<rparr>), db)
                else case ed_embed ed (map (fst \<circ> snd) todo) of
                  Inl e \<Rightarrow> (Some (Inl (ReEmbed e)), db)
                | Inr embeds \<Rightarrow>
                    (case store_vectors env ed (zip todo embeds) db of
                       (Inl e, db1) \<Rightarrow> (Some (Inl e), db1)
                     | (Inr fresh, db1) \<Rightarrow>
                         (Some (Inr \<lparr>rt_catalog = cat, rt_embedder = ed, rt_vectors = cached @ fresh\<rparr>), db1)))))"

section \<open>Ranking\<close>

record retrieved_template =
  rv_template_id :: string
  rv_score :: float

definition eq_ignore_case :: "string \<Rightarrow> string \<Rightarrow> bool" where
  "eq_ignore_case a b \<longleftrightarrow> map to_lower1 a = map to_lower1 b"

definition interface_compatible :: "string list \<Rightarrow> string list \<Rightarrow> bool" where
  "interface_compatible ifaces target \<longleftrightarrow>
     ifaces = [] \<or> list_ex (\<lambda>i. eq_ignore_case i ''Generic'') ifaces
     \<or> list_ex (\<lambda>ti. list_ex (\<lambda>t. eq_ignore_case t ti) target) ifaces"

definition eligible :: "retriever \<Rightarrow> string list \<Rightarrow> string \<Rightarrow> bool" where
  "eligible rt interfaces tid =
     (if interfaces = [] then True
      else case property_catalog_get (rt_catalog rt) tid of
        Some t \<Rightarrow> interface_compatible (pf_interfaces (pl_manifest t)) interfaces
      | None \<Rightarrow> True)"

definition score_all :: "float list \<Rightarrow> (string \<times> float list) list \<Rightarrow> retrieved_template list" where
  "score_all query vs = map (\<lambda>(tid, v). \<lparr>rv_template_id = tid, rv_score = dot query v\<rparr>) vs"

text \<open>
  The stable sort by falling score, as insertion from the back; scores that do not compare count as equal
  (the order Rust leaves a slice with a NaN in is unspecified).
\<close>

fun insert_back :: "retrieved_template \<Rightarrow> retrieved_template list \<Rightarrow> retrieved_template list" where
  "insert_back x [] = [x]"
| "insert_back x (y # ys) = (if flt (rv_score y) (rv_score x) then y # insert_back x ys else x # y # ys)"

definition rank_hits :: "retrieved_template list \<Rightarrow> retrieved_template list" where
  "rank_hits hs = rev (fold insert_back hs [])"

definition candidates_for :: "retriever \<Rightarrow> string list \<Rightarrow> (string \<times> float list) list" where
  "candidates_for rt interfaces =
     (let fit = filter (\<lambda>(tid, v). eligible rt interfaces tid) (rt_vectors rt) in
      if fit = [] \<and> interfaces \<noteq> [] then rt_vectors rt else fit)"

definition retrieve_for_interfaces ::
    "retriever \<Rightarrow> string \<Rightarrow> nat \<Rightarrow> string list \<Rightarrow> retrieval_error + retrieved_template list" where
  "retrieve_for_interfaces rt intent k interfaces =
     (case ed_embed (rt_embedder rt) [intent] of
        Inl e \<Rightarrow> Inl (ReEmbed e)
      | Inr [] \<Rightarrow> Inl (ReEmbed (EmSchema ''empty embedding''))
      | Inr (query # qs) \<Rightarrow> Inr (take k (rank_hits (score_all query (candidates_for rt interfaces)))))"

definition retrieve :: "retriever \<Rightarrow> string \<Rightarrow> nat \<Rightarrow> retrieval_error + retrieved_template list" where
  "retrieve rt intent k = retrieve_for_interfaces rt intent k []"

definition retriever_template :: "retriever \<Rightarrow> string \<Rightarrow> property_template option" where
  "retriever_template rt tid = property_catalog_get (rt_catalog rt) tid"

section \<open>Lemmas\<close>

lemma mset_rank_hits: "mset (rank_hits hs) = mset hs"
proof -
  have i: "mset (insert_back x ys) = add_mset x (mset ys)" for x ys
    by (induction ys) auto
  have "mset (fold insert_back hs acc) = mset hs + mset acc" for acc
    by (induction hs arbitrary: acc) (auto simp: i)
  then show ?thesis by (simp add: rank_hits_def)
qed

definition comparable :: "retrieved_template list \<Rightarrow> bool" where
  "comparable hs \<longleftrightarrow> list_all (\<lambda>h. rv_score h \<noteq> NaN) hs"

definition rising :: "retrieved_template list \<Rightarrow> bool" where
  "rising hs \<longleftrightarrow> sorted_wrt (\<lambda>a b. fle (rv_score a) (rv_score b)) hs"

lemma insert_back_rising:
  "rising ys \<Longrightarrow> comparable (x # ys) \<Longrightarrow> rising (insert_back x ys) \<and> comparable (insert_back x ys)
     \<and> set (insert_back x ys) = insert x (set ys)"
proof (induction ys)
  case Nil
  then show ?case by (simp add: rising_def)
next
  case (Cons y ys)
  show ?case
  proof (cases "flt (rv_score y) (rv_score x)")
    case True
    with Cons show ?thesis
      using flt_iff_not_fle[of "rv_score y" "rv_score x"] fle_total[of "rv_score y" "rv_score x"]
      by (auto simp: rising_def comparable_def)
  next
    case False
    with Cons.prems have "fle (rv_score x) (rv_score y)"
      using flt_iff_not_fle[of "rv_score y" "rv_score x"] by (auto simp: comparable_def)
    with Cons.prems False show ?thesis
      by (auto simp: rising_def comparable_def intro: fle_trans)
  qed
qed

lemma rank_hits_sorted:
  assumes "comparable hs"
  shows "sorted_wrt (\<lambda>a b. fle (rv_score b) (rv_score a)) (rank_hits hs)"
proof -
  have "rising (fold insert_back hs acc)" if "rising acc" "comparable acc" "comparable hs" for acc
    using that
  proof (induction hs arbitrary: acc)
    case (Cons h hs)
    then show ?case
      using insert_back_rising[of acc h] by (simp add: comparable_def)
  qed simp
  from this[of "[]"] assms show ?thesis
    by (simp add: rank_hits_def rising_def comparable_def sorted_wrt_rev)
qed

text \<open>What the table holds for a template.\<close>

definition lookup_vector ::
    "'b cache_env \<Rightarrow> (string \<Rightarrow> u8 list) \<Rightarrow> string \<Rightarrow> 'b embedding_table \<Rightarrow> property_template \<Rightarrow> float list option" where
  "lookup_vector env sha eid db t =
     (case db (pf_id (pl_manifest t), eid) of
        Some (stored, blob) \<Rightarrow> if stored = content_sha sha t then ca_decode env blob else None
      | None \<Rightarrow> None)"

definition usable :: "'b cache_env \<Rightarrow> (string \<Rightarrow> u8 list) \<Rightarrow> embedder_face \<Rightarrow> 'b embedding_table \<Rightarrow> property_template \<Rightarrow> bool" where
  "usable env sha ed db t \<longleftrightarrow> ca_read_err env (pf_id (pl_manifest t)) = None
     \<and> (case lookup_vector env sha (ed_id ed) db t of Some v \<Rightarrow> length v = ed_dim ed | None \<Rightarrow> True)"

definition vector_row :: "'b cache_env \<Rightarrow> (string \<Rightarrow> u8 list) \<Rightarrow> embedder_face \<Rightarrow> 'b embedding_table \<Rightarrow> property_template \<Rightarrow> string \<times> float list" where
  "vector_row env sha ed db t = (pf_id (pl_manifest t), the (lookup_vector env sha (ed_id ed) db t))"

lemma scan_templates_Inr:
  "scan_templates env sha ed db ts = Some (Inr (vs, todo)) \<Longrightarrow>
     vs = map (vector_row env sha ed db) (filter (\<lambda>t. lookup_vector env sha (ed_id ed) db t \<noteq> None) ts)
     \<and> todo = map (\<lambda>t. (pf_id (pl_manifest t), embed_text t, content_sha sha t))
                (filter (\<lambda>t. lookup_vector env sha (ed_id ed) db t = None) ts)
     \<and> list_all (usable env sha ed db) ts"
proof (induction ts arbitrary: vs todo)
  case (Cons t ts)
  let ?r = "read_cached env db (pf_id (pl_manifest t)) (ed_id ed) (content_sha sha t)"
  consider (hit) v vs2 where "?r = Some (Inr (Some v))" "length v = ed_dim ed" "vs = (pf_id (pl_manifest t), v) # vs2"
      "scan_templates env sha ed db ts = Some (Inr (vs2, todo))"
    | (miss) todo2 where "?r = Some (Inr None)" "todo = (pf_id (pl_manifest t), embed_text t, content_sha sha t) # todo2"
      "scan_templates env sha ed db ts = Some (Inr (vs, todo2))"
    using Cons.prems by (auto simp: Let_def map_sum_inr split: option.splits sum.splits if_splits prod.splits)
  then show ?case
  proof cases
    case hit
    then show ?thesis
      using Cons.IH[OF hit(4)]
      by (auto simp: read_cached_def lookup_vector_def usable_def vector_row_def split: option.splits if_splits)
  next
    case miss
    then show ?thesis
      using Cons.IH[OF miss(3)]
      by (auto simp: read_cached_def lookup_vector_def usable_def vector_row_def split: option.splits if_splits)
  qed
qed simp

lemma scan_templates_hit:
  "list_all (\<lambda>t. usable env sha ed db t \<and> lookup_vector env sha (ed_id ed) db t \<noteq> None) ts \<Longrightarrow>
     scan_templates env sha ed db ts = Some (Inr (map (vector_row env sha ed db) ts, []))"
  by (induction ts)
     (auto simp: Let_def read_cached_def lookup_vector_def usable_def vector_row_def split: option.splits if_splits)

definition stored_row :: "'b cache_env \<Rightarrow> string \<Rightarrow> (string \<times> string \<times> u8 list) \<times> float list \<Rightarrow> (string \<times> string) \<times> u8 list \<times> 'b" where
  "stored_row env eid i = (case i of ((tid, body, digest), v) \<Rightarrow> ((tid, eid), (digest, ca_encode env v)))"

lemma store_vectors_Inr:
  "store_vectors env ed items db = (Inr fresh, db') \<Longrightarrow>
     fresh = map (\<lambda>((tid, body, digest), v). (tid, v)) items
     \<and> db' = db ++ map_of (rev (map (stored_row env (ed_id ed)) items))
     \<and> list_all (\<lambda>(i, v). length v = ed_dim ed) items"
proof (induction items arbitrary: db fresh)
  case (Cons i items)
  obtain tid body digest v where i: "i = ((tid, body, digest), v)" by (metis prod_cases4 surj_pair)
  from Cons.prems obtain fresh2 where
    f: "length v = ed_dim ed" "fresh = (tid, v) # fresh2"
      "store_vectors env ed items (db((tid, ed_id ed) \<mapsto> (digest, ca_encode env v))) = (Inr fresh2, db')"
    unfolding i
    by (auto simp: write_cached_def Let_def map_sum_inr split: if_splits option.splits prod.splits)
  from Cons.IH[OF this(3)] f(1,2) show ?case
    by (simp add: i stored_row_def map_add_def fun_eq_iff split: option.split)
qed simp

lemma candidates_for_eq:
  "candidates_for rt interfaces =
     (if list_ex (\<lambda>(tid, v). eligible rt interfaces tid) (rt_vectors rt)
      then filter (\<lambda>(tid, v). eligible rt interfaces tid) (rt_vectors rt) else rt_vectors rt)"
proof -
  have "filter (\<lambda>(tid, v). eligible rt interfaces tid) (rt_vectors rt) = [] \<longleftrightarrow>
      \<not> list_ex (\<lambda>(tid, v). eligible rt interfaces tid) (rt_vectors rt)"
    by (auto simp: filter_empty_conv list_ex_iff)
  moreover have "filter (\<lambda>(tid, v). eligible rt [] tid) (rt_vectors rt) = rt_vectors rt"
    by (simp add: eligible_def filter_id_conv split_beta)
  ultimately show ?thesis
    by (auto simp: candidates_for_def Let_def)
qed

text \<open>A row that was stored is found again, when no two templates share an id.\<close>

lemma map_of_stored:
  assumes "distinct (map (\<lambda>t. pf_id (pl_manifest t)) ts)" and "length vs = length ts" and "(t, v) \<in> set (zip ts vs)"
  shows "map_of (rev (map (stored_row env eid)
      (zip (map (\<lambda>t. (pf_id (pl_manifest t), embed_text t, content_sha sha t)) ts) vs))) (pf_id (pl_manifest t), eid)
    = Some (content_sha sha t, ca_encode env v)"
proof -
  let ?ms = "map (stored_row env eid) (zip (map (\<lambda>t. (pf_id (pl_manifest t), embed_text t, content_sha sha t)) ts) vs)"
  have m: "?ms = map (\<lambda>(t, v). ((pf_id (pl_manifest t), eid), (content_sha sha t, ca_encode env v))) (zip ts vs)"
    by (simp add: zip_map1 stored_row_def split_beta)
  have "map fst ?ms = map (\<lambda>t. (pf_id (pl_manifest t), eid)) (map fst (zip ts vs))"
    unfolding m by (simp add: split_beta)
  also have "map fst (zip ts vs) = ts"
    using assms(2) by simp
  finally have "distinct (map fst (rev ?ms))"
    using assms(1) by (simp add: rev_map[symmetric] distinct_map inj_on_def)
  moreover have "((pf_id (pl_manifest t), eid), (content_sha sha t, ca_encode env v)) \<in> set (rev ?ms)"
    using assms(3) unfolding m by force
  ultimately show ?thesis
    using map_of_eq_Some_iff by fastforce
qed

lemma map_of_stored_None:
  assumes "pf_id (pl_manifest t) \<notin> (\<lambda>t. pf_id (pl_manifest t)) ` set ts"
  shows "map_of (rev (map (stored_row env eid)
      (zip (map (\<lambda>t. (pf_id (pl_manifest t), embed_text t, content_sha sha t)) ts) vs))) (pf_id (pl_manifest t), eid) = None"
  using assms by (auto simp: map_of_eq_None_iff stored_row_def zip_map1 dest: set_zip_leftD)

text \<open>After a start that embedded the missing templates the table holds a vector for every template.\<close>

lemma stored_lookup:
  assumes codec: "\<And>v. ca_decode env (ca_encode env v) = Some v"
    and distinct: "distinct (map (\<lambda>t. pf_id (pl_manifest t)) ts)"
    and miss: "miss = filter (\<lambda>t. lookup_vector env sha eid db t = None) ts"
    and len: "length vs = length miss"
    and db': "db' = db ++ map_of (rev (map (stored_row env eid)
      (zip (map (\<lambda>t. (pf_id (pl_manifest t), embed_text t, content_sha sha t)) miss) vs)))"
  shows "(t, v) \<in> set (zip miss vs) \<Longrightarrow> lookup_vector env sha eid db' t = Some v"
    and "t \<in> set ts \<Longrightarrow> lookup_vector env sha eid db t = Some w \<Longrightarrow> lookup_vector env sha eid db' t = Some w"
proof -
  have dm: "distinct (map (\<lambda>t. pf_id (pl_manifest t)) miss)"
    using distinct unfolding miss by (rule distinct_map_filter)
  show "lookup_vector env sha eid db' t = Some v" if "(t, v) \<in> set (zip miss vs)"
    using map_of_stored[OF dm len that, of env eid sha] codec
    by (simp add: db' lookup_vector_def)
  show "lookup_vector env sha eid db' t = Some w" if t: "t \<in> set ts" "lookup_vector env sha eid db t = Some w"
  proof -
    have "pf_id (pl_manifest t) \<notin> (\<lambda>t. pf_id (pl_manifest t)) ` set miss"
      using t distinct unfolding miss by (auto simp: distinct_map inj_on_def)
    from map_of_stored_None[OF this, of env eid sha vs] t(2) show ?thesis
      by (simp add: db' lookup_vector_def map_add_def)
  qed
qed

section \<open>Properties\<close>

text \<open>C38: Retrieval gives the best hits and no more than asked for: out of the templates whose interfaces fit
  the contract (out of all of them when none fits) it returns the first \<open>k\<close> of an arrangement by falling
  score, so no template that was left out scores higher than one that was returned.\<close>

theorem retrieval_gives_best:
  assumes "ed_embed (rt_embedder rt) [intent] = Inr (query # qs)"
    and "list_all (\<lambda>(tid, v). dot query v \<noteq> NaN) (rt_vectors rt)"
  shows "case retrieve_for_interfaces rt intent k interfaces of
      Inl e \<Rightarrow> False
    | Inr hits \<Rightarrow>
        (let fit = filter (\<lambda>(tid, v). eligible rt interfaces tid) (rt_vectors rt);
             pool = score_all query (if fit \<noteq> [] then fit else rt_vectors rt)
         in \<exists>rest. mset (hits @ rest) = mset pool \<and> length hits = min k (length pool)
            \<and> sorted_wrt (\<lambda>a b. fle (rv_score b) (rv_score a)) (hits @ rest))"
proof -
  let ?pool = "score_all query (candidates_for rt interfaces)"
  have c: "(if filter (\<lambda>(tid, v). eligible rt interfaces tid) (rt_vectors rt) \<noteq> []
      then filter (\<lambda>(tid, v). eligible rt interfaces tid) (rt_vectors rt) else rt_vectors rt) = candidates_for rt interfaces"
    unfolding candidates_for_eq by (auto simp: filter_empty_conv list_ex_iff)
  have "comparable ?pool"
    using assms(2) by (auto simp: comparable_def score_all_def candidates_for_eq list_all_iff)
  from rank_hits_sorted[OF this]
  have "mset (take k (rank_hits ?pool) @ drop k (rank_hits ?pool)) = mset ?pool
      \<and> length (take k (rank_hits ?pool)) = min k (length ?pool)
      \<and> sorted_wrt (\<lambda>a b. fle (rv_score b) (rv_score a)) (take k (rank_hits ?pool) @ drop k (rank_hits ?pool))"
    using mset_rank_hits[of ?pool] mset_eq_length[OF mset_rank_hits[of ?pool]] by (simp add: min.commute)
  then show ?thesis
    unfolding Let_def c retrieve_for_interfaces_def assms(1) sum.case list.case by (rule exI)
qed

text \<open>A start of the retriever that succeeds makes every later one free: with one vector for every text the
  embedder was asked for, a blob that decodes to the vector it was made of and no two templates of one id,
  the next start on the table that was left asks for no embedding at all (any embedder of that name and
  length will do, one that always fails included) and ranks with the same vectors.\<close>

theorem second_start_embeds_nothing:
  assumes codec: "\<And>v. ca_decode env (ca_encode env v) = Some v"
    and distinct: "distinct (map (\<lambda>t. pf_id (pl_manifest t)) (map snd cat))"
    and answers: "\<And>texts vs. ed_embed ed texts = Inr vs \<Longrightarrow> length vs = length texts"
    and start: "retriever_new env sha cat ed dir db = (Some (Inr rt), db')"
    and same: "ed_id ed' = ed_id ed" "ed_dim ed' = ed_dim ed"
  shows "\<exists>vs. retriever_new env sha cat ed' dir db' =
      (Some (Inr \<lparr>rt_catalog = cat, rt_embedder = ed', rt_vectors = vs\<rparr>), db') \<and> mset vs = mset (rt_vectors rt)"
proof -
  let ?ts = "map snd cat" and ?look = "\<lambda>db t. lookup_vector env sha (ed_id ed) db t"
  let ?miss = "filter (\<lambda>t. ?look db t = None) ?ts" and ?hit = "filter (\<lambda>t. ?look db t \<noteq> None) ?ts"
  let ?row = "vector_row env sha ed"
  have none: "open_cache env dir = None"
    using start by (auto simp: retriever_new_def split: option.splits)
  with start obtain cached todo where scan: "scan_templates env sha ed db ?ts = Some (Inr (cached, todo))"
    by (auto simp: retriever_new_def split: option.splits sum.splits)
  note sc = scan_templates_Inr[OF scan]
  obtain vs where vs: "length vs = length ?miss" "list_all (\<lambda>v. length v = ed_dim ed) vs"
    "rt_vectors rt = cached @ map (\<lambda>((tid, body, digest), v). (tid, v)) (zip todo vs)"
    "db' = db ++ map_of (rev (map (stored_row env (ed_id ed)) (zip todo vs)))"
  proof (cases "todo = []")
    case True
    with start scan none sc show ?thesis
      by (intro that[of "[]"]) (auto simp: retriever_new_def)
  next
    case False
    with start scan none obtain embeds fresh where e: "ed_embed ed (map (fst \<circ> snd) todo) = Inr embeds"
      "store_vectors env ed (zip todo embeds) db = (Inr fresh, db')" "rt_vectors rt = cached @ fresh"
      by (auto simp: retriever_new_def split: sum.splits prod.splits)
    from answers[OF e(1)] sc have l: "length embeds = length todo" "length embeds = length ?miss" by simp_all
    have "list_all (\<lambda>v. length v = ed_dim ed) (map snd (zip todo embeds))"
      using store_vectors_Inr[OF e(2)] by (auto simp: list_all_iff)
    with l(1) have "list_all (\<lambda>v. length v = ed_dim ed) embeds" by simp
    with store_vectors_Inr[OF e(2)] e(3) l show ?thesis
      by (intro that[of embeds]) simp_all
  qed
  have db': "db' = db ++ map_of (rev (map (stored_row env (ed_id ed))
      (zip (map (\<lambda>t. (pf_id (pl_manifest t), embed_text t, content_sha sha t)) ?miss) vs)))"
    using vs(4) sc by simp
  note found = stored_lookup[OF codec distinct refl vs(1) db']
  have look: "list_all (\<lambda>t. usable env sha ed db' t \<and> ?look db' t \<noteq> None) ?ts"
    unfolding list_all_iff
  proof
    fix t assume t: "t \<in> set ?ts"
    show "usable env sha ed db' t \<and> ?look db' t \<noteq> None"
    proof (cases "?look db t")
      case None
      then have "t \<in> set (map fst (zip ?miss vs))" using t vs(1) by simp
      then obtain v where v: "(t, v) \<in> set (zip ?miss vs)" by auto
      then have "length v = ed_dim ed" using vs(2) by (auto simp: list_all_iff dest: set_zip_rightD)
      then show ?thesis using found(1)[OF v] sc t by (auto simp: usable_def list_all_iff)
    next
      case (Some w)
      then show ?thesis using found(2)[OF t Some] sc t by (auto simp: usable_def list_all_iff)
    qed
  qed
  have rows: "map (?row db') ?hit = map (?row db) ?hit"
    using found(2) by (fastforce simp: vector_row_def)
  have fresh: "map (?row db') ?miss = map (\<lambda>((tid, body, digest), v). (tid, v)) (zip todo vs)"
  proof -
    have "map (?row db') ?miss = map (?row db') (map fst (zip ?miss vs))" using vs(1) by simp
    also have "\<dots> = map (\<lambda>(t, v). (pf_id (pl_manifest t), v)) (zip ?miss vs)"
      using found(1) by (auto simp: vector_row_def)
    also have "\<dots> = map (\<lambda>((tid, body, digest), v). (tid, v)) (zip todo vs)"
      using sc by (simp add: zip_map1 split_beta)
    finally show ?thesis .
  qed
  have "mset (map f xs) = mset (map f (filter (\<lambda>x. \<not> P x) xs)) + mset (map f (filter P xs))" for f :: "property_template \<Rightarrow> string \<times> float list" and P xs
    by (induction xs) auto
  from this[of "?row db'" ?ts "\<lambda>t. ?look db t = None"] have "mset (map (?row db') ?ts) = mset (rt_vectors rt)"
    unfolding vs(3) rows fresh using sc by simp
  moreover have "scan_templates env sha ed' db' ?ts = Some (Inr (map (?row db') ?ts, []))"
  proof -
    have "usable env sha ed' db' = usable env sha ed db'" "?row = vector_row env sha ed'"
      using same by (auto simp: fun_eq_iff usable_def vector_row_def split: option.split)
    with scan_templates_hit[of env sha ed' db' ?ts] look same show ?thesis by simp
  qed
  ultimately show ?thesis
    using none by (simp add: retriever_new_def)
qed

section \<open>Witnesses\<close>

definition demo_face :: "float \<Rightarrow> embedder_face" where
  "demo_face x = \<lparr>ed_id = ''demo'', ed_dim = 1, ed_embed = (\<lambda>texts. Inr (map (\<lambda>t. [x]) texts))\<rparr>"

definition demo_retriever :: retriever where
  "demo_retriever = \<lparr>rt_catalog = [], rt_embedder = demo_face (Fin 1),
     rt_vectors = [(''a'', [Fin (1 / 2)]), (''b'', [Fin 1]), (''c'', [Fin (1 / 4)])]\<rparr>"

theorem retrieval_gives_best_witness:
  "case retrieve_for_interfaces demo_retriever ''i'' 2 [''ERC20''] of
      Inl e \<Rightarrow> False
    | Inr hits \<Rightarrow> length hits = 2"
proof -
  have "list_all (\<lambda>(tid, v). dot [Fin 1] v \<noteq> NaN) (rt_vectors demo_retriever)" by code_simp
  from retrieval_gives_best[where rt = demo_retriever and intent = "''i''" and qs = "[]" and k = 2
      and interfaces = "[''ERC20'']", OF _ this]
  show ?thesis
    by (auto simp: demo_retriever_def demo_face_def score_all_def Let_def eligible_def property_catalog_get_def numeral_2_eq_2 split: sum.splits)
qed

definition demo_property :: "string \<Rightarrow> property_template" where
  "demo_property tid = \<lparr>pl_manifest = \<lparr>pf_id = tid, pf_description = [], pf_cost_class = Cheap, pf_interfaces = [],
       pf_requires = \<lparr>cq_storage_slots = [], cq_modifiers = [], cq_external_call_handling = None\<rparr>,
       pf_encoding = \<lparr>ep_halmos = [], ep_smtchecker = None\<rparr>,
       pf_provenance = \<lparr>cp_tier = Original, cp_source = [], cp_inspired_by = None, cp_license = [], cp_upstream_commit = None\<rparr>\<rparr>,
     pl_dir = [], pl_halmos_source = [], pl_smtchecker_source = []\<rparr>"

definition demo_cache :: "float list cache_env" where
  "demo_cache = \<lparr>ca_mkdir_err = None, ca_open_err = None, ca_schema_err = None, ca_read_err = (\<lambda>_. None),
     ca_write_err = (\<lambda>_. None), ca_encode = (\<lambda>v. v), ca_decode = Some\<rparr>"

definition failing_face :: embedder_face where
  "failing_face = \<lparr>ed_id = ''demo'', ed_dim = 1, ed_embed = (\<lambda>texts. Inl (EmTransport ''offline''))\<rparr>"

definition demo_start :: "(retrieval_error + retriever) option \<times> float list embedding_table" where
  "demo_start = retriever_new demo_cache (\<lambda>s. []) [(''a'', demo_property ''a''), (''b'', demo_property ''b'')] (demo_face (Fin 1)) ''d'' Map.empty"

theorem second_start_embeds_nothing_witness:
  "\<exists>rt. fst (retriever_new demo_cache (\<lambda>s. []) [(''a'', demo_property ''a''), (''b'', demo_property ''b'')] failing_face ''d''
       (snd demo_start)) = Some (Inr rt) \<and> length (rt_vectors rt) = 2"
proof -
  have "fst demo_start = Some (Inr \<lparr>rt_catalog = [(''a'', demo_property ''a''), (''b'', demo_property ''b'')],
      rt_embedder = demo_face (Fin 1), rt_vectors = [(''a'', [Fin 1]), (''b'', [Fin 1])]\<rparr>)"
    by (simp add: demo_start_def retriever_new_def open_cache_def demo_cache_def demo_property_def demo_face_def
        read_cached_def write_cached_def Let_def)
  then have s: "demo_start = (Some (Inr \<lparr>rt_catalog = [(''a'', demo_property ''a''), (''b'', demo_property ''b'')],
      rt_embedder = demo_face (Fin 1), rt_vectors = [(''a'', [Fin 1]), (''b'', [Fin 1])]\<rparr>), snd demo_start)"
    by (simp add: prod_eq_iff)
  have st: "retriever_new demo_cache (\<lambda>s. []) [(''a'', demo_property ''a''), (''b'', demo_property ''b'')] (demo_face (Fin 1)) ''d''
      Map.empty = (Some (Inr \<lparr>rt_catalog = [(''a'', demo_property ''a''), (''b'', demo_property ''b'')],
      rt_embedder = demo_face (Fin 1), rt_vectors = [(''a'', [Fin 1]), (''b'', [Fin 1])]\<rparr>), snd demo_start)"
    using s by (simp add: demo_start_def[symmetric])
  have "\<exists>vs. retriever_new demo_cache (\<lambda>s. []) [(''a'', demo_property ''a''), (''b'', demo_property ''b'')] failing_face ''d''
       (snd demo_start) = (Some (Inr \<lparr>rt_catalog = [(''a'', demo_property ''a''), (''b'', demo_property ''b'')],
         rt_embedder = failing_face, rt_vectors = vs\<rparr>), snd demo_start)
      \<and> mset vs = mset (rt_vectors \<lparr>rt_catalog = [(''a'', demo_property ''a''), (''b'', demo_property ''b'')],
      rt_embedder = demo_face (Fin 1), rt_vectors = [(''a'', [Fin 1]), (''b'', [Fin 1])]\<rparr>)"
    by (rule second_start_embeds_nothing[OF _ _ _ st])
       (auto simp: demo_cache_def demo_property_def demo_face_def failing_face_def)
  then show ?thesis
    by (auto dest: arg_cong[where f = size])
qed

end
