(* ===== verification/Providers.thy ===== *)
theory Providers
  imports Retrieval Cegis Layout
begin

text \<open>
  The clients a run talks to and its errors (\<open>crates/vergil-cli/src/commands/intent.rs\<close>). A client is a
  value of type \<open>'p\<close>; \<open>getenv\<close> reads the environment, \<open>anthropic\<close> and \<open>openai\<close> make a client of a key.
\<close>

datatype intent_error =
    IeMissingEnv string
  | IeAnthropic string
  | IeTraceOpen string string
  | IeProject string
  | IeRetrieval string retrieval_error
  | IeCegis cegis_error
  | IeIo string
  | IeSerialize string

fun embed_error_str :: "embed_error \<Rightarrow> string" where
  "embed_error_str (EmApi e) = ''voyage api: '' @ e"
| "embed_error_str (EmTransport e) = ''voyage transport: '' @ e"
| "embed_error_str (EmSchema e) = ''voyage response shape: '' @ e"

fun retrieval_error_str :: "retrieval_error \<Rightarrow> string" where
  "retrieval_error_str (ReSqlite e) = ''sqlite: '' @ e"
| "retrieval_error_str (ReEmbed e) = ''embedder: '' @ embed_error_str e"
| "retrieval_error_str (ReDimMismatch e c) =
     ''cache dim mismatch: embedder produces '' @ show_nat e @ '' but cache has '' @ show_nat c"

fun cegis_error_str :: "cegis_error \<Rightarrow> string" where
  "cegis_error_str (CeSynthesis e) = ''synthesis: '' @ synthesis_error_str e"

fun intent_error_str :: "intent_error \<Rightarrow> string" where
  "intent_error_str (IeMissingEnv v) = ''missing env var '' @ v @ '' (set it in .env or your shell)''"
| "intent_error_str (IeAnthropic e) = ''anthropic client init: '' @ e"
| "intent_error_str (IeTraceOpen p e) = ''trace recorder open at '' @ p @ '': '' @ e"
| "intent_error_str (IeProject e) = ''project layout: '' @ e"
| "intent_error_str (IeRetrieval i e) = ''retrieval failed (intent: '' @ i @ ''): '' @ retrieval_error_str e"
| "intent_error_str (IeCegis e) = ''cegis loop: '' @ cegis_error_str e"
| "intent_error_str (IeIo e) = ''io: '' @ e"
| "intent_error_str (IeSerialize e) = ''serialization: '' @ e"

definition intent_preview :: "string \<Rightarrow> string" where
  "intent_preview s =
     (if 80 < length (char_heads s) then take_chars 80 s @ [CHR 0xE2, CHR 0x80, CHR 0xA6] else take_chars 80 s)"

section \<open>Providers from the environment\<close>

datatype embedder_choice = ChooseVoyage voyage_embedder | ChooseMock string nat

record 'p provider_bundle =
  pb_synthesizer :: 'p
  pb_critic :: 'p
  pb_diagnostician :: 'p
  pb_refiner :: 'p
  pb_embedder :: embedder_choice
  pb_synth_provider_id :: provider_id

fun env_or_missing :: "(string \<Rightarrow> string option) \<Rightarrow> string list \<Rightarrow> string option" where
  "env_or_missing getenv [] = None"
| "env_or_missing getenv (k # ks) =
     (case getenv k of
        Some v \<Rightarrow> if v \<noteq> [] then Some v else env_or_missing getenv ks
      | None \<Rightarrow> env_or_missing getenv ks)"

definition build_providers_from_env ::
    "(string \<Rightarrow> string option) \<Rightarrow> (string \<Rightarrow> string + 'p) \<Rightarrow> (string \<Rightarrow> 'p) \<Rightarrow> intent_error + 'p provider_bundle" where
  "build_providers_from_env getenv anthropic openai =
     (case env_or_missing getenv [''VERGIL_ANTHROPIC_API_KEY'', ''ANTHROPIC_API_KEY''] of
        None \<Rightarrow> Inl (IeMissingEnv ''VERGIL_ANTHROPIC_API_KEY'')
      | Some key \<Rightarrow>
          (case anthropic key of
             Inl e \<Rightarrow> Inl (IeAnthropic e)
           | Inr a \<Rightarrow>
               Inr \<lparr>pb_synthesizer = a,
                    pb_critic = (case env_or_missing getenv [''VERGIL_OPENAI_API_KEY'', ''OPENAI_API_KEY''] of
                       Some k \<Rightarrow> openai k
                     | None \<Rightarrow> a),
                    pb_diagnostician = a, pb_refiner = a,
                    pb_embedder = (case env_or_missing getenv [''VOYAGE_API_KEY''] of
                       Some k \<Rightarrow> ChooseVoyage (voyage_new k)
                     | None \<Rightarrow> ChooseMock ''mock-1024'' 1024),
                    pb_synth_provider_id = Anthropic\<rparr>))"

section \<open>Where the templates are\<close>

text \<open>\<open>cwd.pop()\<close> fails at the root; the search looks at six directories.\<close>

fun search_up :: "(string \<Rightarrow> bool) \<Rightarrow> nat \<Rightarrow> string \<Rightarrow> string option" where
  "search_up is_dir 0 cwd = None"
| "search_up is_dir (Suc n) cwd =
     (let p = path_join (path_join (path_join cwd ''crates'') ''vergil-properties'') ''templates'' in
      if is_dir p then Some p
      else case path_parent cwd of Some up \<Rightarrow> search_up is_dir n up | None \<Rightarrow> None)"

definition locate_templates_dir ::
    "string option \<Rightarrow> (string \<Rightarrow> bool) \<Rightarrow> string option \<Rightarrow> string option" where
  "locate_templates_dir manifest_dir is_dir cwd =
     (let up = (case cwd of None \<Rightarrow> None | Some d \<Rightarrow> search_up is_dir 6 d) in
      case manifest_dir of
        Some mf \<Rightarrow>
          (let p = path_join (path_join (path_join mf ''..'') ''vergil-properties'') ''templates'' in
           if is_dir p then Some p else up)
      | None \<Rightarrow> up)"

section \<open>Lemmas\<close>

text \<open>A key that is set to the empty text counts as missing; the first key that is set wins.\<close>

lemma env_or_missing_find:
  "env_or_missing getenv ks =
     (case List.find (\<lambda>k. getenv k \<noteq> None \<and> getenv k \<noteq> Some []) ks of None \<Rightarrow> None | Some k \<Rightarrow> getenv k)"
  by (induction ks) (auto split: option.splits)

lemma build_providers_cases:
  "case build_providers_from_env getenv anthropic openai of
     Inl e \<Rightarrow> e = IeMissingEnv ''VERGIL_ANTHROPIC_API_KEY'' \<or> (\<exists>m. e = IeAnthropic m)
   | Inr b \<Rightarrow> pb_diagnostician b = pb_synthesizer b \<and> pb_refiner b = pb_synthesizer b"
  by (auto simp: build_providers_from_env_def split: option.split sum.split)

end
