(* ===== verification/IntentRun.thy ===== *)
theory IntentRun
  imports Providers Unified
begin

text \<open>
  The run for an intent in natural language (\<open>run_intent\<close> in \<open>crates/vergil-cli/src/commands/intent.rs\<close>): the sources and their
  analysis, the retrieved templates, the CEGIS loop over the portfolio, and the two files it leaves. The test file
  that every dispatch overwrites is the matter of theory Dispatcher and is left out of the disk here.
\<close>

section \<open>The run's input and its world\<close>

record intent_spec =
  in_project :: string
  in_intent :: string
  in_description :: "string option"
  in_scaffold :: string
  in_catalog :: "(string \<times> property_template) list"
  in_cegis :: cegis_config
  in_min_critique_axis :: "float option"
  in_mutation_min :: float
  in_budget_ms :: u64

text \<open>
  A client is a value of type \<open>'p\<close>; what the clients answer in the loop is given for each of them. \<open>ie_loop\<close> holds
  the clock, serde's decoders and the prompt templates of the loop, \<open>ie_dispatch i j\<close> what the \<open>j\<close>-th
  dispatch of iteration \<open>i\<close> meets, and \<open>'b\<close> is a blob of the embedding cache.
\<close>

record ('p, 'b) intent_env =
  ie_mkdir :: "string \<Rightarrow> string option"
  ie_trace_error :: "string option"
  ie_getenv :: "string \<Rightarrow> string option"
  ie_anthropic :: "string \<Rightarrow> string + 'p"
  ie_openai :: "string \<Rightarrow> 'p"
  ie_provider_id :: "'p \<Rightarrow> provider_id"
  ie_src_entries :: "string + string list"
  ie_read_text :: "string \<Rightarrow> string + string"
  ie_read :: "string \<Rightarrow> string + string"
  ie_tools :: tool_env
  ie_dec_slither :: "string \<Rightarrow> string + bool \<times> string option \<times> detector list"
  ie_dec_solc :: "string \<Rightarrow> string + (string \<times> layout_payload option) list"
  ie_cache :: "'b cache_env"
  ie_db :: "'b embedding_table"
  ie_sha :: "string \<Rightarrow> u8 list"
  ie_post :: "string \<Rightarrow> string \<Rightarrow> string \<Rightarrow> string list \<Rightarrow> http_result"
  ie_dec_embeddings :: "string \<Rightarrow> string + float list list"
  ie_loop :: cegis_env
  ie_synth :: "'p \<Rightarrow> nat \<Rightarrow> nat \<Rightarrow> completion_request \<Rightarrow> llm_error + completion"
  ie_critic :: "'p \<Rightarrow> nat \<Rightarrow> nat \<Rightarrow> structured_request \<Rightarrow> llm_error + structured_response"
  ie_diagnose :: "'p \<Rightarrow> nat \<Rightarrow> structured_request \<Rightarrow> llm_error + structured_response"
  ie_refine :: "'p \<Rightarrow> nat \<Rightarrow> structured_request \<Rightarrow> llm_error + structured_response"
  ie_dispatch :: "nat \<Rightarrow> nat \<Rightarrow> dispatch_env"
  ie_elapsed_ms :: u64
  ie_write :: write_oracle
  ie_version :: string
  ie_stamp :: string
  ie_now :: string
  ie_ser_proof :: "proof_artifact \<Rightarrow> string + string"
  ie_ser_run :: "cegis_run \<Rightarrow> string + string"

section \<open>Sources\<close>

definition no_sources :: "string \<Rightarrow> intent_error" where
  "no_sources project = IeProject (''no .sol files found under '' @ path_join project ''src'')"

definition src_listing :: "('p, 'b) intent_env \<Rightarrow> string \<Rightarrow> intent_error + string list" where
  "src_listing env project =
     (case ie_src_entries env of
        Inl e \<Rightarrow> Inl (IeProject (''read '' @ path_join project ''src'' @ '': '' @ e))
      | Inr es \<Rightarrow> Inr es)"

definition first_solidity_source :: "('p, 'b) intent_env \<Rightarrow> string \<Rightarrow> intent_error + string" where
  "first_solidity_source env project =
     (case src_listing env project of
        Inl e \<Rightarrow> Inl e
      | Inr es \<Rightarrow> (case find is_sol es of Some p \<Rightarrow> Inr p | None \<Rightarrow> Inl (no_sources project)))"

definition source_block :: "string \<Rightarrow> string \<Rightarrow> string" where
  "source_block path body =
     (''// '' @ [CHR 0xE2, CHR 0x94, CHR 0x80] @ [CHR 0xE2, CHR 0x94, CHR 0x80] @ '' src/'') @ path_file_name path @ ('' '' @ [CHR 0xE2, CHR 0x94, CHR 0x80] @ [CHR 0xE2, CHR 0x94, CHR 0x80] @ [NL]) @ body @ (if ends_with body [NL] then [] else [NL])"

fun join_blocks :: "(string \<Rightarrow> string + string) \<Rightarrow> string list \<Rightarrow> string + string" where
  "join_blocks read [] = Inr []"
| "join_blocks read (p # ps) =
     (case read p of
        Inl e \<Rightarrow> Inl e
      | Inr body \<Rightarrow>
          (case join_blocks read ps of Inl e \<Rightarrow> Inl e | Inr rest \<Rightarrow> Inr (source_block p body @ rest)))"

definition combine_solidity_sources :: "('p, 'b) intent_env \<Rightarrow> string \<Rightarrow> intent_error + string" where
  "combine_solidity_sources env project =
     (case src_listing env project of
        Inl e \<Rightarrow> Inl e
      | Inr es \<Rightarrow>
          (let files = filter is_sol es in
           if files = [] then Inl (no_sources project)
           else (case join_blocks (ie_read_text env) (sort_key path_key files) of
                   Inl e \<Rightarrow> Inl (IeIo e) | Inr s \<Rightarrow> Inr s)))"

fun static_analysis_error_str :: "static_analysis_error \<Rightarrow> string" where
  "static_analysis_error_str (SlitherFailed e) = ''slither failed: '' @ e"
| "static_analysis_error_str (StorageFailed e) = ''solc storage layout failed: '' @ e"
| "static_analysis_error_str (SlitherStorageMismatch e) = ''slither and solc disagree on storage: '' @ e"

definition layout_text :: "storage_layout \<Rightarrow> string" where
  "layout_text l =
     ''contract '' @ sl_qualified_name l @ ('':'' @ [NL])
     @ concat (map (\<lambda>e. ''  slot '' @ se_slot e @ '' = '' @ se_label e @ '' : '' @ se_type_id e @ [NL]) (sl_entries l))"

definition build_static_analysis_summary :: "('p, 'b) intent_env \<Rightarrow> string \<Rightarrow> string" where
  "build_static_analysis_summary env source =
     (case analyze (ie_tools env) (ie_dec_slither env) (ie_dec_solc env) source 60000 of
        Inr report \<Rightarrow>
          concat (map layout_text (sr_storage report))
          @ (if sr_slither report = [] then []
             else ([NL] @ ''slither detectors:'' @ [NL])
               @ concat (map (\<lambda>d. ''  ['' @ dt_impact d @ ''] '' @ dt_check d @ '': '' @ dt_description d @ [NL])
                   (sr_slither report)))
      | Inl e \<Rightarrow> ''(static analysis unavailable: '' @ static_analysis_error_str e @ '')'')"

section \<open>Retrieval\<close>

fun embedder_of :: "('p, 'b) intent_env \<Rightarrow> embedder_choice \<Rightarrow> embedder_face" where
  "embedder_of env (ChooseVoyage v) = voyage_face (ie_post env) (ie_dec_embeddings env) v"
| "embedder_of env (ChooseMock eid dims) = mock_embedder (ie_sha env) eid dims"

definition hint_of :: "property_template \<Rightarrow> retrieved_hint" where
  "hint_of t = \<lparr>rh_template_id = pf_id (pl_manifest t), rh_description = pf_description (pl_manifest t),
     rh_halmos_snippet = take_chars 800 (pl_halmos_source t)\<rparr>"

definition retrieve_hints ::
    "('p, 'b) intent_env \<Rightarrow> intent_spec \<Rightarrow> 'p provider_bundle \<Rightarrow> string list
     \<Rightarrow> (intent_error + retrieved_hint list) option" where
  "retrieve_hints env spec b interfaces =
     (let failed = (\<lambda>e. Some (Inl (IeRetrieval (intent_preview (in_intent spec)) e)));
          cache_dir = path_join (vergil_out (in_project spec)) ''retrieval-cache'' in
      case fst (retriever_new (ie_cache env) (ie_sha env) (in_catalog spec) (embedder_of env (pb_embedder b)) cache_dir
                  (ie_db env)) of
        None \<Rightarrow> None
      | Some (Inl e) \<Rightarrow> failed e
      | Some (Inr rt) \<Rightarrow>
          (case retrieve_for_interfaces rt (in_intent spec) 5 interfaces of
             Inl e \<Rightarrow> failed e
           | Inr hits \<Rightarrow>
               Some (Inr (List.map_filter (\<lambda>h. map_option hint_of (retriever_template rt (rv_template_id h))) hits))))"

section \<open>The loop\<close>

definition intent_dispatcher :: "intent_spec \<Rightarrow> dispatcher" where
  "intent_dispatcher spec = dispatcher_new (in_project spec) (in_scaffold spec) (in_budget_ms spec)"

definition intent_loop_env :: "('p, 'b) intent_env \<Rightarrow> intent_spec \<Rightarrow> 'p provider_bundle \<Rightarrow> disk \<Rightarrow> cegis_env" where
  "intent_loop_env env spec b d =
     (ie_loop env)\<lparr>ev_synth := ie_synth env (pb_synthesizer b), ev_critic := ie_critic env (pb_critic b),
        ev_diagnose := ie_diagnose env (pb_diagnostician b), ev_refine := ie_refine env (pb_refiner b),
        ev_mutation_gate := None,
        ev_dispatch := (\<lambda>i j c. fst (dispatch_spec (ie_dispatch env i j) (intent_dispatcher spec) c d))\<rparr>"

definition intent_critique_config :: "intent_spec \<Rightarrow> critique_config" where
  "intent_critique_config spec =
     (case in_min_critique_axis spec of
        Some m \<Rightarrow> critique_default_for_openai\<lparr>cc_min_axis := m\<rparr>
      | None \<Rightarrow> critique_default_for_openai)"

definition intent_loop_cfg :: "('p, 'b) intent_env \<Rightarrow> intent_spec \<Rightarrow> 'p provider_bundle \<Rightarrow> cegis_loop_cfg" where
  "intent_loop_cfg env spec b =
     \<lparr>cl_critic = \<lparr>ck_provider = ie_provider_id env (pb_critic b), ck_synth_provider = pb_synth_provider_id b,
        ck_cfg = intent_critique_config spec\<rparr>,
      cl_diagnosis = diagnosis_default, cl_refiner = refinement_default, cl_cfg = in_cegis spec,
      cl_mutation_min = in_mutation_min spec\<rparr>"

definition intent_input :: "intent_spec \<Rightarrow> string \<Rightarrow> string \<Rightarrow> retrieved_hint list \<Rightarrow> string \<Rightarrow> cegis_input" where
  "intent_input spec methods analysis hints source =
     \<lparr>ci_intent = in_intent spec, ci_description = in_description spec, ci_methods = methods,
      ci_analysis = analysis, ci_hints = hints, ci_source = source, ci_scaffold = in_scaffold spec\<rparr>"

section \<open>The artifact\<close>

definition total_wall_clock :: "iteration_stats list \<Rightarrow> u64" where
  "total_wall_clock its = sum_list (map it_wall_clock_ms its)"

fun bridge_source :: "source \<Rightarrow> proof_source" where
  "bridge_source UserIntent = PsUserIntent"
| "bridge_source AttackCatalog = PsAttackCatalog"
| "bridge_source Conformance = PsConformance"
| "bridge_source Tests = PsTests"
| "bridge_source NatSpec = PsNatSpec"
| "bridge_source Structural = PsStructural"

definition bridge_tier :: "source \<Rightarrow> tier" where
  "bridge_tier s = (case s of UserIntent \<Rightarrow> Intent | _ \<Rightarrow> ZeroConfig)"

definition intent_verified :: "(string \<Rightarrow> u8 list) \<Rightarrow> cegis_run \<Rightarrow> candidate_outcome \<Rightarrow> verified_property option" where
  "intent_verified sha run x =
     (case cn_verdict x of
        VvVerified backend smt \<Rightarrow>
          Some \<lparr>vp_name = sp_name (cn_candidate x), vp_backend = backend,
                vp_spec_sha256 = sha256_hex sha (sp_halmos (cn_candidate x)),
                vp_template_ref = sp_template_ref (cn_candidate x),
                vp_wall_clock_ms = total_wall_clock (rn_iterations run), vp_smt_query_sha256 = smt,
                vp_manifest_validation = clean_manifest\<lparr>mv_warnings := cn_manifest_warnings x\<rparr>,
                vp_tier = bridge_tier (sp_source (cn_candidate x)),
                vp_source = bridge_source (sp_source (cn_candidate x))\<rparr>
      | _ \<Rightarrow> None)"

definition intent_counterexample :: "candidate_outcome \<Rightarrow> counterexample_summary option" where
  "intent_counterexample x =
     (case cn_verdict x of
        VvCounterexample message \<Rightarrow>
          Some \<lparr>cx_property = sp_name (cn_candidate x), cx_backend = ''halmos'',
                cx_cex_file = ''counterexamples/Cex_'' @ sp_name (cn_candidate x) @ ''.t.sol'', cx_wall_clock_ms = 0,
                cx_trace_summary = message\<rparr>
      | _ \<Rightarrow> None)"

text \<open>\<open>f32\<close> arithmetic on counts; a count fits without overflow.\<close>

definition ratio32 :: "nat \<Rightarrow> nat \<Rightarrow> float" where
  "ratio32 a b = (case (to_f32 (of_nat a), to_f32 (of_nat b)) of (Fin x, Fin y) \<Rightarrow> to_f32 (x / y) | _ \<Rightarrow> NaN)"

definition one_minus32 :: "float \<Rightarrow> float" where
  "one_minus32 q = (case q of Fin x \<Rightarrow> to_f32 (1 - x) | PInf \<Rightarrow> NInf | NInf \<Rightarrow> PInf | NaN \<Rightarrow> NaN)"

definition critique_pass_rate :: "cegis_run \<Rightarrow> float" where
  "critique_pass_rate run =
     (let synth = sum_list (map it_synthesized (rn_iterations run));
          dropped = sum_list (map it_dropped_critique (rn_iterations run)) in
      if synth = 0 then Fin 0 else one_minus32 (ratio32 dropped synth))"

definition intent_toolchain :: toolchain_versions where
  "intent_toolchain = unified_toolchain\<lparr>tv_gambit := Some ''0.2.1''\<rparr>"

definition build_proof_artifact ::
    "('p, 'b) intent_env \<Rightarrow> string \<Rightarrow> string \<Rightarrow> cegis_run \<Rightarrow> u64 \<Rightarrow> intent_error + proof_artifact" where
  "build_proof_artifact env project intent run wall =
     (case source_files_of (Some (ie_src_entries env)) (ie_read env) (ie_sha env) project of
        Inl e \<Rightarrow> Inl (IeIo e)
      | Inr files \<Rightarrow>
          (if files = [] then Inl (IeProject ''no source files to hash in src/'')
           else Inr
             \<lparr>pa_vergil_version = ie_version env, pa_schema_version = schema_version_current,
              pa_run = \<lparr>rm_run_id = ie_stamp env, rm_intent = intent, rm_project_root = project, rm_started_at = ie_now env\<rparr>,
              pa_toolchain = intent_toolchain, pa_source_files = files,
              pa_verified_properties = List.map_filter (intent_verified (ie_sha env) run) (rn_outcomes run),
              pa_counterexamples = List.map_filter intent_counterexample (rn_outcomes run),
              pa_quality_metrics = \<lparr>qm_mutation_coverage_min = None, qm_critique_pass_rate = critique_pass_rate run,
                qm_mutation_testing_enabled = False\<rparr>,
              pa_cost = \<lparr>pc_tokens_in = sum_list (map it_tokens_in (rn_iterations run)),
                pc_tokens_out = sum_list (map it_tokens_out (rn_iterations run)),
                pc_usd_estimate = rn_total_cost_usd run, pc_wall_clock_ms = wall\<rparr>\<rparr>))"

section \<open>The run\<close>

text \<open>What the loop is given, or the error of an earlier stage; \<open>None\<close> is a panic of a scanner.\<close>

definition prepare_intent ::
    "('p, 'b) intent_env \<Rightarrow> intent_spec \<Rightarrow> (intent_error + 'p provider_bundle \<times> cegis_input) option" where
  "prepare_intent env spec =
     (let project = in_project spec in
      case fst (ensure_tree (ie_mkdir env) project) of
        Some e \<Rightarrow> Some (Inl (IeIo e))
      | None \<Rightarrow>
      (case ie_mkdir env (path_join (vergil_out project) ''spec'') of
        Some e \<Rightarrow> Some (Inl (IeIo e))
      | None \<Rightarrow>
      (case ie_trace_error env of
        Some e \<Rightarrow> Some (Inl (IeTraceOpen (vergil_out project) e))
      | None \<Rightarrow>
      (case build_providers_from_env (ie_getenv env) (ie_anthropic env) (ie_openai env) of
        Inl e \<Rightarrow> Some (Inl e)
      | Inr b \<Rightarrow>
      (case first_solidity_source env project of
        Inl e \<Rightarrow> Some (Inl e)
      | Inr primary \<Rightarrow>
      (case combine_solidity_sources env project of
        Inl e \<Rightarrow> Some (Inl e)
      | Inr source \<Rightarrow>
      (case detect_interfaces source of
        None \<Rightarrow> None
      | Some interfaces \<Rightarrow>
      (case retrieve_hints env spec b interfaces of
        None \<Rightarrow> None
      | Some (Inl e) \<Rightarrow> Some (Inl e)
      | Some (Inr hints) \<Rightarrow>
      (case extract_signatures source of
        None \<Rightarrow> None
      | Some sigs \<Rightarrow>
          Some (Inr (b, intent_input spec (render_available_methods sigs)
            (build_static_analysis_summary env primary) hints source)))))))))))"

definition write_run ::
    "('p, 'b) intent_env \<Rightarrow> intent_spec \<Rightarrow> cegis_run \<Rightarrow> disk \<Rightarrow> (intent_error + cegis_run \<times> string) \<times> disk" where
  "write_run env spec run d =
     (let project = in_project spec; proof = top_level_proof_json project;
          drafts = path_join (path_join (vergil_out project) ''spec'') ''candidates.json'' in
      case build_proof_artifact env project (in_intent spec) run (ie_elapsed_ms env) of
        Inl e \<Rightarrow> (Inl e, d)
      | Inr art \<Rightarrow>
      (case ie_ser_proof env art of
        Inl e \<Rightarrow> (Inl (IeSerialize e), d)
      | Inr body \<Rightarrow>
      (case fs_write (ie_write env) proof body d of
        (Some e, d1) \<Rightarrow> (Inl (IeIo e), d1)
      | (None, d1) \<Rightarrow>
      (case ie_ser_run env run of
        Inl e \<Rightarrow> (Inl (IeSerialize e), d1)
      | Inr spec_json \<Rightarrow>
      (case fs_write (ie_write env) drafts spec_json d1 of
        (Some e, d2) \<Rightarrow> (Inl (IeIo e), d2)
      | (None, d2) \<Rightarrow> (Inr (run, proof), d2))))))"

definition run_intent ::
    "('p, 'b) intent_env \<Rightarrow> intent_spec \<Rightarrow> disk \<Rightarrow> (intent_error + cegis_run \<times> string) option \<times> disk" where
  "run_intent env spec d =
     (case prepare_intent env spec of
        None \<Rightarrow> (None, d)
      | Some (Inl e) \<Rightarrow> (Some (Inl e), d)
      | Some (Inr (b, inp)) \<Rightarrow>
          (case run_with_description (intent_loop_env env spec b d) (intent_loop_cfg env spec b) inp of
             None \<Rightarrow> (None, d)
           | Some (Inl e) \<Rightarrow> (Some (Inl (IeCegis e)), d)
           | Some (Inr st) \<Rightarrow> (let (r, d1) = write_run env spec (cs_run st) d in (Some r, d1))))"

section \<open>Lemmas\<close>

lemma bridge_agrees: "bridge_source = proof_source_of" "bridge_tier = tier_for_source"
proof -
  show "bridge_source = proof_source_of"
  proof
    fix s show "bridge_source s = proof_source_of s" by (cases s) simp_all
  qed
  show "bridge_tier = tier_for_source" by (simp add: fun_eq_iff bridge_tier_def tier_for_source_def)
qed

text \<open>A run that succeeds: the loop's run, its outcomes all vetted, and the artifact on the disk.\<close>

lemma drafts_differ:
  "path_join (path_join (vergil_out project) ''spec'') ''candidates.json'' \<noteq> top_level_proof_json project"
proof -
  have d: "path_join (path_join (vergil_out project) ''spec'') ''candidates.json'' = path_join project ''vergil-out/spec/candidates.json''"
    unfolding vergil_out_def by (subst path_join_join, simp_all add: ends_with_def, subst path_join_join, simp_all add: ends_with_def)
  have p: "top_level_proof_json project = path_join project ''vergil-out/proof.json''"
    unfolding top_level_proof_json_def vergil_out_def by (subst path_join_join) (simp_all add: ends_with_def)
  show ?thesis unfolding d p by (rule notI, drule path_join_inj) simp_all
qed

lemma write_run_Inr:
  assumes "write_run env spec run d = (Inr (run', proof), d')"
  obtains art body where "run' = run" "proof = top_level_proof_json (in_project spec)"
    "build_proof_artifact env (in_project spec) (in_intent spec) run (ie_elapsed_ms env) = Inr art"
    "ie_ser_proof env art = Inr body" "dk_files d' proof = Some body"
proof -
  let ?proof = "top_level_proof_json (in_project spec)"
    and ?drafts = "path_join (path_join (vergil_out (in_project spec)) ''spec'') ''candidates.json''"
  obtain art where a: "build_proof_artifact env (in_project spec) (in_intent spec) run (ie_elapsed_ms env) = Inr art"
    using assms by (cases "build_proof_artifact env (in_project spec) (in_intent spec) run (ie_elapsed_ms env)")
      (simp_all add: write_run_def Let_def)
  obtain body where b: "ie_ser_proof env art = Inr body"
    using assms a by (cases "ie_ser_proof env art") (simp_all add: write_run_def Let_def)
  obtain e1 d1 where w1: "fs_write (ie_write env) ?proof body d = (e1, d1)" by fastforce
  obtain j where j: "e1 = None" "ie_ser_run env run = Inr j"
    using assms a b w1 by (cases "ie_ser_run env run") (auto simp: write_run_def Let_def split: option.splits)
  obtain e2 d2 where w2: "fs_write (ie_write env) ?drafts j d1 = (e2, d2)" by fastforce
  have e: "run' = run" "proof = ?proof" "d' = d2"
    using assms a b w1 w2 j by (auto simp: write_run_def Let_def split: option.splits)
  have "dk_files d2 ?proof = Some body"
    using fs_write_None[OF w1[unfolded j(1)]] fs_write_other[OF drafts_differ[symmetric], of "ie_write env" "in_project spec" j d1]
    by (simp add: w2)
  with a b e that show thesis by simp
qed

lemma run_intent_Inr:
  assumes "run_intent env spec d = (Some (Inr (run, proof)), d')"
  obtains b inp st art body where "prepare_intent env spec = Some (Inr (b, inp))"
    "run_with_description (intent_loop_env env spec b d) (intent_loop_cfg env spec b) inp = Some (Inr st)"
    "run = cs_run st" "proof = top_level_proof_json (in_project spec)"
    "build_proof_artifact env (in_project spec) (in_intent spec) run (ie_elapsed_ms env) = Inr art"
    "ie_ser_proof env art = Inr body" "dk_files d' proof = Some body"
  using assms
  by (auto simp: run_intent_def split: option.splits sum.splits prod.splits elim!: write_run_Inr intro: that)

lemma intent_verified_names:
  "map vp_name (List.map_filter (intent_verified sha run) xs)
     = map (sp_name \<circ> cn_candidate) (filter (\<lambda>x. is_verified (cn_verdict x)) xs)"
  "map cx_property (List.map_filter intent_counterexample xs)
     = map (sp_name \<circ> cn_candidate) (filter (\<lambda>x. is_counterexample (cn_verdict x)) xs)"
  by (induction xs) (auto simp: List.map_filter_simps intent_verified_def intent_counterexample_def split: verifier_verdict.splits)

text \<open>What stands behind an outcome of the run: the critic's acceptance, and for a Verified one a tool.\<close>

definition intent_vetted :: "('p, 'b) intent_env \<Rightarrow> intent_spec \<Rightarrow> candidate_outcome \<Rightarrow> bool" where
  "intent_vetted env spec x \<longleftrightarrow>
     (\<exists>r. cn_critique x = Some r \<and> accepted (intent_critique_config spec) (cn_candidate x, r))
     \<and> (\<exists>i j d. cn_verdict x = fst (dispatch_spec (ie_dispatch env i j) (intent_dispatcher spec) (cn_candidate x) d)
          \<and> (is_verified (cn_verdict x) \<longrightarrow>
               halmos_evidence (ie_dispatch env i j) (intent_dispatcher spec) (cn_candidate x)
               \<or> smt_evidence (ie_dispatch env i j) (intent_dispatcher spec)))"

lemma intent_outcome_vetted:
  assumes "outcome_ok (intent_loop_env env spec b d) (intent_loop_cfg env spec b) x"
  shows "intent_vetted env spec x"
proof -
  let ?dp = "intent_dispatcher spec"
  from assms obtain r where r: "cn_critique x = Some r" "accepted (intent_critique_config spec) (cn_candidate x, r)"
    by (auto simp: outcome_ok_def intent_loop_cfg_def)
  from assms have "cn_mutation_coverage x = None" by (auto simp: outcome_ok_def intent_loop_env_def)
  with assms obtain i j where v: "cn_verdict x = fst (dispatch_spec (ie_dispatch env i j) ?dp (cn_candidate x) d)"
    by (auto simp: outcome_ok_def intent_loop_env_def)
  have "is_verified (cn_verdict x) \<Longrightarrow> halmos_evidence (ie_dispatch env i j) ?dp (cn_candidate x)
      \<or> smt_evidence (ie_dispatch env i j) ?dp"
  proof -
    assume "is_verified (cn_verdict x)"
    then obtain bk sha d1 where "dispatch_spec (ie_dispatch env i j) ?dp (cn_candidate x) d = (VvVerified bk sha, d1)"
      using v by (cases "dispatch_spec (ie_dispatch env i j) ?dp (cn_candidate x) d"; cases "cn_verdict x") auto
    from dispatch_Verified[OF this] show ?thesis by blast
  qed
  with r v show ?thesis unfolding intent_vetted_def by blast
qed

lemma intent_artifact:
  assumes "run_intent env spec d = (Some (Inr (run, proof)), d')"
  shows "\<exists>art body. ie_ser_proof env art = Inr body \<and> dk_files d' proof = Some body
       \<and> map vp_name (pa_verified_properties art)
           = map (sp_name \<circ> cn_candidate) (filter (\<lambda>x. is_verified (cn_verdict x)) (rn_outcomes run))
       \<and> map cx_property (pa_counterexamples art)
           = map (sp_name \<circ> cn_candidate) (filter (\<lambda>x. is_counterexample (cn_verdict x)) (rn_outcomes run))
       \<and> pa_source_files art \<noteq> []"
    and "list_all (intent_vetted env spec) (rn_outcomes run)"
    and "length (rn_iterations run) \<le> cg_max_iterations (in_cegis spec)"
proof -
  from run_intent_Inr[OF assms] obtain b inp st art body
    where r: "run_with_description (intent_loop_env env spec b d) (intent_loop_cfg env spec b) inp = Some (Inr st)"
      "run = cs_run st"
    and a: "build_proof_artifact env (in_project spec) (in_intent spec) run (ie_elapsed_ms env) = Inr art"
      "ie_ser_proof env art = Inr body" "dk_files d' proof = Some body" by metis
  from a(1) have "pa_verified_properties art = List.map_filter (intent_verified (ie_sha env) run) (rn_outcomes run)"
    "pa_counterexamples art = List.map_filter intent_counterexample (rn_outcomes run)" "pa_source_files art \<noteq> []"
    by (auto simp: build_proof_artifact_def split: sum.splits if_splits)
  with intent_verified_names(1)[of "ie_sha env" run "rn_outcomes run"] intent_verified_names(2)[of "rn_outcomes run"] a(2,3)
  show "\<exists>art body. ie_ser_proof env art = Inr body \<and> dk_files d' proof = Some body
       \<and> map vp_name (pa_verified_properties art)
           = map (sp_name \<circ> cn_candidate) (filter (\<lambda>x. is_verified (cn_verdict x)) (rn_outcomes run))
       \<and> map cx_property (pa_counterexamples art)
           = map (sp_name \<circ> cn_candidate) (filter (\<lambda>x. is_counterexample (cn_verdict x)) (rn_outcomes run))
       \<and> pa_source_files art \<noteq> []"
    by (intro exI[of _ art] exI[of _ body]) simp
  have inv: "list_all (outcome_ok (intent_loop_env env spec b d) (intent_loop_cfg env spec b)) (rn_outcomes run)"
    "length (rn_iterations run) \<le> cg_max_iterations (cl_cfg (intent_loop_cfg env spec b))"
    using run_with_description_inv[where ev = "intent_loop_env env spec b d" and lp = "intent_loop_cfg env spec b" and inp = inp] r
    by simp_all
  from inv(2) show "length (rn_iterations run) \<le> cg_max_iterations (in_cegis spec)" by (simp add: intent_loop_cfg_def)
  from inv(1) show "list_all (intent_vetted env spec) (rn_outcomes run)"
    unfolding list_all_iff using intent_outcome_vetted by blast
qed

section \<open>Properties\<close>

text \<open>C12: What a run for an intent records is what was checked: after a run that succeeds the artifact is on the disk and
  lists, in the order of the run, exactly the Verified outcomes and the counterexamples; every outcome is of
  a candidate the critic accepted on all axes and has the verdict of its dispatch, and a Verified one is backed
  by the output of a tool. The artifact has at least one source file, and the loop respected its cap.\<close>

theorem intent_artifact_vetted:
  "case run_intent env spec d of
     (Some (Inr (run, proof)), d') \<Rightarrow>
       (\<exists>art body. ie_ser_proof env art = Inr body \<and> dk_files d' proof = Some body
          \<and> map vp_name (pa_verified_properties art)
              = map (sp_name \<circ> cn_candidate) (filter (\<lambda>x. is_verified (cn_verdict x)) (rn_outcomes run))
          \<and> map cx_property (pa_counterexamples art)
              = map (sp_name \<circ> cn_candidate) (filter (\<lambda>x. is_counterexample (cn_verdict x)) (rn_outcomes run))
          \<and> pa_source_files art \<noteq> [])
       \<and> list_all (intent_vetted env spec) (rn_outcomes run)
       \<and> length (rn_iterations run) \<le> cg_max_iterations (in_cegis spec)
   | _ \<Rightarrow> True"
  using intent_artifact[of env spec d] by (auto split: prod.split option.split sum.split)

end
