(* ===== verification/Scaffold.thy ===== *)
theory Scaffold
  imports Signatures BTree Dispatcher
begin

text \<open>
  The harness a candidate is put into (\<open>resolve_scaffold\<close> and its helpers in
  \<open>crates/vergil-cli/src/commands/verify.rs\<close>, the default in \<open>intent.rs\<close>): read from a file the user names, or
  made from the contracts under \<open>src\<close>. The project is a tree as in Disk.
\<close>

section \<open>The contracts of a source\<close>

definition contract_on_line :: "string \<Rightarrow> string option" where
  "contract_on_line line =
     (let trimmed = trim_start line in
      if starts_with trimmed ''abstract'' \<or> starts_with trimmed ''library'' \<or> starts_with trimmed ''interface'' then None
      else case strip_prefix trimmed ''contract '' of
        None \<Rightarrow> None
      | Some rest \<Rightarrow>
          (let name = trim (takeWhile (\<lambda>c. \<not> is_space c \<and> c \<noteq> CHR ''{'') rest) in
           if name \<noteq> [] \<and> list_all is_ident name then Some name else None))"

definition extract_all_contract_names :: "string \<Rightarrow> string list" where
  "extract_all_contract_names source = List.map_filter contract_on_line (lines source)"

section \<open>Scaffolds\<close>

definition assert_helpers :: string where
  "assert_helpers =
     (''    // Foundry-style assertion helpers (synthesized candidates expect these).'' @ [NL]
     @ ''    function assertEq(uint256 a, uint256 b) internal pure { assert(a == b); }'' @ [NL]
     @ ''    function assertEq(address a, address b) internal pure { assert(a == b); }'' @ [NL]
     @ ''    function assertEq(bool a, bool b) internal pure { assert(a == b); }'' @ [NL]
     @ ''    function assertEq(bytes32 a, bytes32 b) internal pure { assert(a == b); }'' @ [NL]
     @ ''    function assertTrue(bool c) internal pure { assert(c); }'' @ [NL]
     @ ''    function assertFalse(bool c) internal pure { assert(!c); }'' @ [NL]
     @ ''    function assertGt(uint256 a, uint256 b) internal pure { assert(a > b); }'' @ [NL]
     @ ''    function assertGe(uint256 a, uint256 b) internal pure { assert(a >= b); }'' @ [NL]
     @ ''    function assertLt(uint256 a, uint256 b) internal pure { assert(a < b); }'' @ [NL]
     @ ''    function assertLe(uint256 a, uint256 b) internal pure { assert(a <= b); }'')"

definition default_scaffold_for_erc20 :: string where
  "default_scaffold_for_erc20 =
     (''// SPDX-License-Identifier: MIT'' @ [NL] @ ''pragma solidity ^0.8.20;'' @ [NL] @ [NL]
     @ ''import {Token} from '' @ [DQ] @ ''../src/Token.sol'' @ [DQ] @ '';'' @ [NL] @ [NL]
     @ ''contract CegisProperties {'' @ [NL] @ ''    Token internal token;'' @ [NL] @ [NL]
     @ ''    constructor() {'' @ [NL] @ ''        token = new Token(1_000_000 ether);'' @ [NL]
     @ ''    }'' @ [NL] @ [NL] @ ''    '') @ check_fn_mark @ ([NL] @ ''}'' @ [NL])"

definition import_line :: "string \<times> string \<Rightarrow> string" where
  "import_line i = ''import {'' @ fst i @ (''} from '' @ [DQ] @ ''../src/'') @ snd i @ ([DQ] @ '';'' @ [NL])"

definition single_scaffold :: "string \<Rightarrow> string \<Rightarrow> string \<Rightarrow> string" where
  "single_scaffold ident filename deploy =
     ((''// SPDX-License-Identifier: MIT'' @ [NL] @ ''pragma solidity ^0.8.20;'' @ [NL] @ [NL]
     @ ''import {'') @ ident @ (''} from '' @ [DQ] @ ''../src/'') @ filename @ ([DQ] @ '';'' @ [NL] @ [NL] @ ''contract CegisProperties {'' @ [NL] @ ''    '') @ ident @ ('' internal token;'' @ [NL] @ [NL] @ ''    constructor() {'' @ [NL] @ ''        token = '') @ deploy @ ('';'' @ [NL] @ ''    }'' @ [NL] @ [NL]) @ assert_helpers @ ([NL] @ ''    '')) @ check_fn_mark @ ([NL] @ ''}'' @ [NL])"

definition multi_scaffold :: "(string \<times> string) list \<Rightarrow> string" where
  "multi_scaffold imports_of =
     ((''// SPDX-License-Identifier: MIT'' @ [NL] @ ''pragma solidity ^0.8.20;'' @ [NL] @ [NL]) @ concat (map import_line imports_of) @ ([NL] @ ''// Phase 4 Slice A4: multi-contract scaffold. Constructor signatures'' @ [NL]
     @ ''// vary across imported contracts so we leave instance creation to'' @ [NL]
     @ ''// each check_ function. Example pattern:'' @ [NL]
     @ ''//   function check_foo() external {'' @ [NL]
     @ ''//       Token t = new Token(1_000_000 ether);'' @ [NL]
     @ ''//       Vault v = new Vault(t);'' @ [NL]
     @ ''//       assert(v.totalAssets() == t.balanceOf(address(v)));'' @ [NL] @ ''//   }'' @ [NL]
     @ ''contract CegisProperties {'' @ [NL]) @ assert_helpers @ ([NL] @ ''    '')) @ check_fn_mark @ ([NL] @ ''}'' @ [NL])"

text \<open>The entries of \<open>src\<close> that end in \<open>.sol\<close>, in order; a directory of that name cannot be read.\<close>

definition src_sol_entries :: "fs_node \<Rightarrow> (string \<times> fs_node) list option" where
  "src_sol_entries project =
     (case child project ''src'' of
        Some (DirN (Some es)) \<Rightarrow> Some (sort_key fst (filter (\<lambda>(name, n). extension name = Some ''sol'') es))
      | _ \<Rightarrow> None)"

fun collect_imports :: "(string \<times> fs_node) list \<Rightarrow> (string \<times> string) list option" where
  "collect_imports [] = Some []"
| "collect_imports ((name, FileN (Some body)) # es) =
     map_option (\<lambda>rest. map (\<lambda>ident. (ident, name)) (extract_all_contract_names body) @ rest) (collect_imports es)"
| "collect_imports ((name, n) # es) = None"

definition single_deploy :: "string \<Rightarrow> string \<Rightarrow> string" where
  "single_deploy ident body =
     (case synthesize_ctor_args (extract_constructor body) of
        Some args \<Rightarrow> ''new '' @ ident @ ''('' @ args @ '')''
      | None \<Rightarrow> ''new '' @ ident @ ''()'')"

definition autodetect_scaffold :: "fs_node \<Rightarrow> string option" where
  "autodetect_scaffold project =
     (case src_sol_entries project of
        None \<Rightarrow> None
      | Some [] \<Rightarrow> None
      | Some es \<Rightarrow>
          (case collect_imports es of
             None \<Rightarrow> None
           | Some [] \<Rightarrow> None
           | Some [(ident, filename)] \<Rightarrow>
               (let body = (case map_of es filename of Some (FileN (Some b)) \<Rightarrow> b | _ \<Rightarrow> []) in
                Some (single_scaffold ident filename (single_deploy ident body)))
           | Some imports_of \<Rightarrow> Some (multi_scaffold imports_of)))"

text \<open>\<open>read\<close> is \<open>read_to_string\<close> on the path the user gave.\<close>

definition resolve_scaffold ::
    "(string \<Rightarrow> string + string) \<Rightarrow> fs_node \<Rightarrow> string option \<Rightarrow> string + string" where
  "resolve_scaffold read project override_path =
     (case override_path of
        Some p \<Rightarrow>
          (case read p of
             Inl e \<Rightarrow> Inl (''could not read scaffold '' @ p @ '': '' @ e)
           | Inr body \<Rightarrow>
               if contains body check_fn_mark then Inr body
               else Inl (''scaffold '' @ p @ '' must contain `{{CHECK_FN}}` placeholder''))
      | None \<Rightarrow>
          Inr (case autodetect_scaffold project of Some s \<Rightarrow> s | None \<Rightarrow> default_scaffold_for_erc20))"

section \<open>Lemmas\<close>

lemma contract_names_ident: "list_all (\<lambda>n. n \<noteq> [] \<and> list_all is_ident n) (extract_all_contract_names s)"
  by (auto simp: extract_all_contract_names_def List.map_filter_def contract_on_line_def Let_def list_all_iff
      split: option.splits if_split_asm)

lemma scaffold_marks:
  "contains (single_scaffold ident filename deploy) check_fn_mark"
  "contains (multi_scaffold imports_of) check_fn_mark"
  unfolding single_scaffold_def multi_scaffold_def by (rule contains_infix)+

lemma autodetect_has_mark: "autodetect_scaffold project = Some s \<Longrightarrow> contains s check_fn_mark"
  by (auto simp: autodetect_scaffold_def Let_def scaffold_marks split: option.splits list.splits)

lemma replace_str_contains: "p \<noteq> [] \<Longrightarrow> contains s p \<Longrightarrow> contains (replace_str p r s) r"
proof (induction p r s rule: replace_str.induct)
  case (2 p r c s)
  show ?case
  proof (cases "starts_with (c # s) p")
    case True
    with 2(3) show ?thesis
      using contains_append_right[of r r] starts_with_contains[OF starts_with_refl[of r]] by simp
  next
    case False
    then have "contains s p"
      using 2(4) by (auto simp: contains_def)
    then show ?thesis
      using 2 False contains_append_left[of "replace_str p r s" r "[c]"] by simp
  qed
qed (auto simp: contains_def)

lemma contract_name_tests:
  "extract_all_contract_names (''abstract contract A {'' @ [NL] @ ''contract B is A{'' @ [NL] @ ''  contract C_1 {'') = [''B'', ''C_1'']"
  "extract_all_contract_names (''/* The owner of this'' @ [NL] @ ''contract can pause it. */'') = [''can'']"
  by code_simp+

section \<open>Properties\<close>

text \<open>Every scaffold that is resolved has the place for the check function, so the code of a candidate is
  in the file that goes to the verifiers (up to marks for its name); an error comes only from a file the
  user named, which cannot be read or has no such place.\<close>

theorem scaffold_carries_check:
  "(case resolve_scaffold read project override_path of
      Inr s \<Rightarrow>
        contains s check_fn_mark
        \<and> contains (replace_str check_fn_mark (sp_halmos spec) s) (sp_halmos spec)
        \<and> render_spec (dispatcher_new path s budget) spec
            = replace_str name_mark (sp_name spec) (replace_str check_fn_mark (sp_halmos spec) s)
    | Inl e \<Rightarrow>
        (case override_path of
           None \<Rightarrow> False
         | Some p \<Rightarrow> (case read p of Inl m \<Rightarrow> True | Inr body \<Rightarrow> \<not> contains body check_fn_mark)))"
proof -
  have m: "check_fn_mark \<noteq> []" by (simp add: check_fn_mark_def)
  have d: "contains default_scaffold_for_erc20 check_fn_mark"
    unfolding default_scaffold_for_erc20_def by (rule contains_infix)
  show ?thesis
    using m d replace_str_contains[OF m]
    by (auto simp: resolve_scaffold_def render_spec_def dispatcher_new_def
        dest: autodetect_has_mark split: option.splits sum.splits if_splits)
qed

text \<open>A line of a comment that starts with the word contract counts as a contract: the scaffold for a
  project with one real contract then imports a name that the source does not declare.\<close>

theorem comment_taken_for_contract:
  "(case autodetect_scaffold (DirN (Some [(''src'', DirN (Some
       [(''T.sol'', FileN (Some (''/* This'' @ [NL] @ ''contract can pause. */'' @ [NL] @ ''contract T {}'')))]))])) of
      None \<Rightarrow> False
    | Some s \<Rightarrow> contains s (import_line (''can'', ''T.sol'')))"
  by code_simp

end
