(* ===== verification/IntentCommand.thy ===== *)
theory IntentCommand
  imports PropertiesRun IntentRun Scaffold
begin

text \<open>
  The command \<open>vergil verify --intent\<close> (\<open>run_with_intent\<close> in \<open>crates/vergil-cli/src/commands/verify.rs\<close>): its set-up, the run, the
  quality statistics, the three output formats and the exit code.
\<close>

section \<open>Arithmetic on \<open>f32\<close>\<close>

fun fadd32 :: "float \<Rightarrow> float \<Rightarrow> float" where
  "fadd32 (Fin a) (Fin b) = to_f32 (a + b)"
| "fadd32 NaN _ = NaN"
| "fadd32 _ NaN = NaN"
| "fadd32 PInf NInf = NaN"
| "fadd32 NInf PInf = NaN"
| "fadd32 PInf _ = PInf"
| "fadd32 NInf _ = NInf"
| "fadd32 _ PInf = PInf"
| "fadd32 _ NInf = NInf"

text \<open>Multiplication by and division by a finite number that is not zero.\<close>

definition scale32 :: "(rat \<Rightarrow> rat) \<Rightarrow> float \<Rightarrow> float" where
  "scale32 f x = (case x of Fin a \<Rightarrow> to_f32 (f a) | _ \<Rightarrow> x)"

definition count32 :: "nat \<Rightarrow> rat" where
  "count32 n = (case to_f32 (of_nat n) of Fin x \<Rightarrow> x | _ \<Rightarrow> of_nat n)"

text \<open>\<open>{:.0}\<close> and \<open>{:.4}\<close>.\<close>

definition fixed :: "nat \<Rightarrow> float \<Rightarrow> string" where
  "fixed places x =
     (case x of
        Fin a \<Rightarrow>
          (let n = nat (rne (\<bar>a\<bar> * 10 ^ places)); frac = n mod 10 ^ places in
           (if a < 0 then ''-'' else []) @ show_nat (n div 10 ^ places)
           @ (if places = 0 then [] else ''.'' @ pad_left places (show_nat frac)))
      | PInf \<Rightarrow> ''inf'' | NInf \<Rightarrow> ''-inf'' | NaN \<Rightarrow> ''NaN'')"

section \<open>Quality statistics\<close>

record quality_stats =
  qs_critique_total :: nat
  qs_critique_accepted :: nat
  qs_critique_pass_rate :: float
  qs_vacuity_min :: "float option"
  qs_vacuity_avg :: "float option"
  qs_vacuity_max :: "float option"
  qs_mutation_coverage_avg :: "float option"
  qs_mutation_testing_enabled :: bool
  qs_spec_doc_consistency :: "float option"

text \<open>The three accumulators of the loop over the scores: smallest, largest, sum.\<close>

fun vacuity_loop :: "float list \<Rightarrow> float \<times> float \<times> float \<Rightarrow> float \<times> float \<times> float" where
  "vacuity_loop [] acc = acc"
| "vacuity_loop (v # vs) (lo, hi, s) =
     vacuity_loop vs (if flt v lo then v else lo, if flt hi v then v else hi, fadd32 s v)"

definition compute_quality_stats :: "cegis_run \<Rightarrow> quality_stats" where
  "compute_quality_stats run =
     (let critiques = List.map_filter cn_critique (rn_outcomes run);
          critique_total = length critiques;
          critique_accepted = length (filter (\<lambda>c. ct_verdict c = Accept) critiques);
          vac = map (\<lambda>c. cs_vacuity (ct_scores c)) critiques;
          mut = List.map_filter cn_mutation_coverage (rn_outcomes run);
          (lo, hi, s) = vacuity_loop vac (PInf, NInf, Fin 0)
      in \<lparr>qs_critique_total = critique_total, qs_critique_accepted = critique_accepted,
          qs_critique_pass_rate = (if critique_total = 0 then Fin 0 else ratio32 critique_accepted critique_total),
          qs_vacuity_min = (if vac = [] then None else Some lo),
          qs_vacuity_avg = (if vac = [] then None else Some (scale32 (\<lambda>x. x / count32 (length vac)) s)),
          qs_vacuity_max = (if vac = [] then None else Some hi),
          qs_mutation_coverage_avg = (if mut = [] then None
            else Some (fdiv64_by (fold (\<lambda>x acc. fadd64 acc x) mut (Fin 0)) (of_nat (length mut)))),
          qs_mutation_testing_enabled = (mut \<noteq> []), qs_spec_doc_consistency = None\<rparr>)"

definition format_vacuity :: "quality_stats \<Rightarrow> string" where
  "format_vacuity q =
     (case (qs_vacuity_min q, qs_vacuity_avg q, qs_vacuity_max q) of
        (Some lo, Some avg, Some hi) \<Rightarrow> fmt2 lo @ '' / '' @ fmt2 avg @ '' / '' @ fmt2 hi
      | _ \<Rightarrow> ''no critique data (degraded mode)'')"

definition format_mutation :: "quality_stats \<Rightarrow> string" where
  "format_mutation q =
     (if \<not> qs_mutation_testing_enabled q then (''disabled (CLI default '' @ em_dash @ '' opt in with --mutation-test in Phase 4)'')
      else case qs_mutation_coverage_avg q of
        Some v \<Rightarrow> fixed 0 (fmul64 v (Fin 100)) @ ''% (avg across verified)''
      | None \<Rightarrow> ''enabled but no coverage recorded'')"

definition format_spec_doc :: "quality_stats \<Rightarrow> string" where
  "format_spec_doc q =
     (case qs_spec_doc_consistency q of
        Some v \<Rightarrow> fixed 0 (scale32 (\<lambda>x. x * 100) v) @ ''%''
      | None \<Rightarrow> ''disabled (LLM-graded check is opt-in, ~$0.02/property)'')"

definition pass_rate_text :: "quality_stats \<Rightarrow> string" where
  "pass_rate_text q =
     fixed 0 (scale32 (\<lambda>x. x * 100) (qs_critique_pass_rate q)) @ ''% ('' @ show_nat (qs_critique_accepted q)
     @ '' accepted / '' @ show_nat (qs_critique_total q) @ '' synthesized)''"

section \<open>Output\<close>

definition total_tokens :: "cegis_run \<Rightarrow> bool \<Rightarrow> u32" where
  "total_tokens run is_in = sum_list (map (if is_in then it_tokens_in else it_tokens_out) (rn_iterations run))"

definition verified_names :: "cegis_run \<Rightarrow> string list" where
  "verified_names run =
     map (sp_name \<circ> cn_candidate) (filter (\<lambda>x. is_verified (cn_verdict x)) (rn_outcomes run))"

definition intent_text :: "string \<Rightarrow> string \<Rightarrow> cegis_run \<Rightarrow> string" where
  "intent_text intent proof run =
     (let q = compute_quality_stats run in
      ''intent: '' @ intent @ ([NL] @ ''iterations: '') @ show_nat (length (rn_iterations run))
      @ ([NL] @ ''synthesized: '') @ show_nat (length (rn_outcomes run)) @ ('' candidates'' @ [NL] @ ''verified: '')
      @ show_nat (length (verified_names run)) @ [NL]
      @ concat (map (\<lambda>n. (''  '' @ [CHR 0xE2, CHR 0x9C, CHR 0x93] @ '' '') @ n @ [NL]) (verified_names run))
      @ concat (map (\<lambda>x. case cn_verdict x of
            VvCounterexample m \<Rightarrow> (''  '' @ [CHR 0xE2, CHR 0x9C, CHR 0x97] @ '' '') @ sp_name (cn_candidate x) @ '': '' @ m @ [NL] | _ \<Rightarrow> []) (rn_outcomes run))
      @ ''cost: $'' @ fixed 4 (rn_total_cost_usd run) @ '' ('' @ show_nat (unat (total_tokens run True)) @ ''/''
      @ show_nat (unat (total_tokens run False)) @ ('' tokens)'' @ [NL] @ ''proof: '') @ proof @ [NL]
      @ (case rn_stop_reason run of Some r \<Rightarrow> ''stop_reason: '' @ r @ [NL] | None \<Rightarrow> [])
      @ ([NL] @ ''quality:'' @ [NL] @ ''  critique pass-rate: '') @ pass_rate_text q @ ([NL] @ ''  vacuity score (min/avg/max): '') @ format_vacuity q
      @ ([NL] @ ''  mutation coverage: '') @ format_mutation q @ ([NL] @ ''  spec-doc consistency: '') @ format_spec_doc q @ [NL])"

definition intent_markdown :: "string \<Rightarrow> string \<Rightarrow> cegis_run \<Rightarrow> string" where
  "intent_markdown intent proof run =
     (let q = compute_quality_stats run in
      (''# Vergil intent run'' @ [NL] @ [NL] @ ''- intent: `'') @ intent @ (''`'' @ [NL] @ ''- iterations: '') @ show_nat (length (rn_iterations run))
      @ ([NL] @ ''- verified: '') @ show_nat (length (verified_names run)) @ '' / '' @ show_nat (length (rn_outcomes run))
      @ ([NL] @ ''- cost: $'') @ fixed 4 (rn_total_cost_usd run) @ ([NL] @ ''- proof: `'') @ proof @ (''`'' @ [NL])
      @ ([NL] @ ''## Quality'' @ [NL] @ [NL]) @ ''- **Critique pass-rate:** '' @ pass_rate_text q
      @ ([NL] @ ''- **Vacuity score (min / avg / max):** '') @ format_vacuity q @ ([NL] @ ''- **Mutation coverage:** '') @ format_mutation q
      @ ([NL] @ ''- **Spec-doc consistency:** '') @ format_spec_doc q @ [NL])"

definition intent_json :: "string \<Rightarrow> string \<Rightarrow> cegis_run \<Rightarrow> json" where
  "intent_json intent proof run =
     (let q = compute_quality_stats run in
      JObj [(''intent'', JStr intent), (''iterations'', JNum (int (length (rn_iterations run)))),
            (''synthesized'', JNum (int (length (rn_outcomes run)))),
            (''verified'', JArr (map JStr (verified_names run))), (''cost_usd'', JFloat (rn_total_cost_usd run)),
            (''proof_path'', JStr proof), (''stop_reason'', opt_json JStr (rn_stop_reason run)),
            (''quality'', JObj
              [(''critique_pass_rate'', JFloat (qs_critique_pass_rate q)),
               (''critique_accepted'', JNum (int (qs_critique_accepted q))),
               (''critique_total'', JNum (int (qs_critique_total q))),
               (''vacuity_min'', opt_json JFloat (qs_vacuity_min q)), (''vacuity_avg'', opt_json JFloat (qs_vacuity_avg q)),
               (''vacuity_max'', opt_json JFloat (qs_vacuity_max q)),
               (''mutation_coverage_avg'', opt_json JFloat (qs_mutation_coverage_avg q)),
               (''mutation_testing_enabled'', JBool (qs_mutation_testing_enabled q)),
               (''spec_doc_consistency'', opt_json JFloat (qs_spec_doc_consistency q))])])"

section \<open>The command\<close>

record intent_args =
  ig_project :: string
  ig_intent :: string
  ig_format :: output_format
  ig_scaffold :: "string option"
  ig_telemetry_json :: "string option"
  ig_tenant :: string
  ig_cost_budget :: "float option"
  ig_samples :: "nat option"
  ig_min_critique_axis :: "float option"

record ('p, 'b) intent_command_env =
  ic_canon :: "string \<Rightarrow> string + string"
  ic_manifest_dir :: "string option"
  ic_is_dir :: "string \<Rightarrow> bool"
  ic_cwd :: "string option"
  ic_templates :: "string \<Rightarrow> fs_node option"
  ic_yaml :: "string \<Rightarrow> string + property_manifest"
  ic_read :: "string \<Rightarrow> string + string"
  ic_node :: fs_node
  ic_sink_error :: "string \<Rightarrow> string option"
  ic_run :: "('p, 'b) intent_env"
  ic_ser :: "json \<Rightarrow> string"
  ic_template_error :: "template_error \<Rightarrow> string"

definition command_cegis_config :: "intent_args \<Rightarrow> cegis_config" where
  "command_cegis_config args =
     cegis_default\<lparr>cg_max_iterations := 3,
       cg_synthesis := (cg_synthesis cegis_default)\<lparr>sc_samples := (case ig_samples args of Some n \<Rightarrow> n | None \<Rightarrow> 4)\<rparr>,
       cg_cost_budget_usd := (case ig_cost_budget args of Some b \<Rightarrow> b | None \<Rightarrow> to_f64 10),
       cg_tenant_id := ig_tenant args, cg_run_id := None\<rparr>"

definition command_spec :: "intent_args \<Rightarrow> string \<Rightarrow> string \<Rightarrow> (string \<times> property_template) list \<Rightarrow> intent_spec" where
  "command_spec args project scaffold cat =
     \<lparr>in_project = project, in_intent = ig_intent args, in_description = None, in_scaffold = scaffold,
      in_catalog = cat, in_cegis = command_cegis_config args, in_min_critique_axis = ig_min_critique_axis args,
      in_mutation_min = to_f64 (2 / 5), in_budget_ms = default_budget_ms\<rparr>"

definition print_run ::
    "('p, 'b) intent_command_env \<Rightarrow> intent_args \<Rightarrow> string \<Rightarrow> cegis_run \<Rightarrow> string \<Rightarrow> disk \<Rightarrow> command_result \<times> disk" where
  "print_run env args project run proof d =
     (let code = (if verified_names run = [] then 1 else 0) in
      case ig_format args of
        FmtText \<Rightarrow> ((code, intent_text (ig_intent args) proof run, None), d)
      | FmtMarkdown \<Rightarrow>
          (let file = path_join (path_join project ''vergil-out'') ''report.md'' in
           case fs_write (ie_write (ic_run env)) file (intent_markdown (ig_intent args) proof run) d of
             (Some e, d1) \<Rightarrow> fail_with 3 (''write '' @ file @ '': '' @ e) d1
           | (None, d1) \<Rightarrow> ((code, ''wrote '' @ file @ [NL], None), d1))
      | FmtJson \<Rightarrow> ((code, ic_ser env (intent_json (ig_intent args) proof run) @ [NL], None), d))"

definition run_with_intent ::
    "('p, 'b) intent_command_env \<Rightarrow> intent_args \<Rightarrow> disk \<Rightarrow> command_result option \<times> disk" where
  "run_with_intent env args d =
     (let fail = (\<lambda>code m. (Some (code, [], Some m), d)) in
      case ic_canon env (ig_project args) of
        Inl e \<Rightarrow> fail 3 (''invalid project path '' @ ig_project args @ '': '' @ e)
      | Inr project \<Rightarrow>
      (case locate_templates_dir (ic_manifest_dir env) (ic_is_dir env) (ic_cwd env) of
        None \<Rightarrow> fail 2 (''could not locate property templates dir. Run from the Vergil repo root, or ''
                 @ ''set CARGO_MANIFEST_DIR to a workspace member.'')
      | Some dir \<Rightarrow>
      (case property_catalog_load (ic_yaml env) dir (ic_templates env dir) of
        Inl e \<Rightarrow> fail 2 (''templates '' @ dir @ '': '' @ ic_template_error env e)
      | Inr cat \<Rightarrow>
      (case resolve_scaffold (ic_read env) (ic_node env) (ig_scaffold args) of
        Inl e \<Rightarrow> fail 3 (''scaffold: '' @ e)
      | Inr scaffold \<Rightarrow>
      (case (case ig_telemetry_json args of None \<Rightarrow> None | Some p \<Rightarrow> map_option (Pair p) (ic_sink_error env p)) of
        Some (p, e) \<Rightarrow> fail 3 (''telemetry json sink '' @ p @ '': '' @ e)
      | None \<Rightarrow>
      (case run_intent (ic_run env) (command_spec args project scaffold cat) d of
        (None, d1) \<Rightarrow> (None, d1)
      | (Some (Inl e), d1) \<Rightarrow> (Some (2, [], Some (''intent run failed: '' @ intent_error_str e)), d1)
      | (Some (Inr (run, proof)), d1) \<Rightarrow>
          (let (r, d2) = print_run env args project run proof d1 in (Some r, d2))))))))"

section \<open>Lemmas\<close>

lemma accepted_all:
  assumes "list_all (intent_vetted env spec) xs"
  shows "filter (\<lambda>c. ct_verdict c = Accept) (List.map_filter cn_critique xs) = List.map_filter cn_critique xs"
    and "length (List.map_filter cn_critique xs) = length xs"
  using assms by (induction xs) (auto simp: List.map_filter_simps intent_vetted_def accepted_def)

lemma quality_counts:
  "qs_critique_total (compute_quality_stats run) = length (List.map_filter cn_critique (rn_outcomes run))"
  "qs_critique_accepted (compute_quality_stats run)
     = length (filter (\<lambda>c. ct_verdict c = Accept) (List.map_filter cn_critique (rn_outcomes run)))"
  by (simp_all add: compute_quality_stats_def Let_def case_prod_beta')

lemma verified_names_empty: "verified_names run = [] \<longleftrightarrow> \<not> list_ex (\<lambda>x. is_verified (cn_verdict x)) (rn_outcomes run)"
  by (auto simp: verified_names_def filter_empty_conv list_ex_iff)

lemma print_run_code:
  assumes "print_run env args project run proof d = ((code, out, err), d')"
  shows "case err of Some m \<Rightarrow> code = 3 | None \<Rightarrow> code = (if list_ex (\<lambda>x. is_verified (cn_verdict x)) (rn_outcomes run) then 0 else 1)"
  using assms unfolding print_run_def Let_def verified_names_empty
  by (auto simp: fail_with_def split: output_format.splits option.splits prod.splits)

lemma run_with_intent_result:
  assumes "run_with_intent env args d = (Some (code, out, err), d')"
  shows "(err \<noteq> None \<and> (code = 2 \<or> code = 3))
    \<or> (\<exists>project scaffold cat run proof d1.
         run_intent (ic_run env) (command_spec args project scaffold cat) d = (Some (Inr (run, proof)), d1)
         \<and> print_run env args project run proof d1 = ((code, out, err), d'))"
  using assms unfolding run_with_intent_def Let_def
  by (auto split: sum.splits option.splits prod.splits)

section \<open>Properties\<close>

text \<open>C18: The exit code of a run for an intent: 2 or 3 with a message when something failed; otherwise 0 exactly when at
  least one outcome is Verified and 1 when none is, so a run in which another property has a counterexample
  still exits with 0. In a run that got this far every outcome was accepted by the critic and every Verified one
  is backed by the output of a tool.\<close>

theorem intent_exit_code:
  "case run_with_intent env args d of
     (None, d') \<Rightarrow> True
   | (Some (code, out, err), d') \<Rightarrow>
       (case err of
          Some m \<Rightarrow> code = 2 \<or> code = 3
        | None \<Rightarrow>
            (\<exists>project scaffold cat run proof d1.
               run_intent (ic_run env) (command_spec args project scaffold cat) d = (Some (Inr (run, proof)), d1)
               \<and> code = (if list_ex (\<lambda>x. is_verified (cn_verdict x)) (rn_outcomes run) then 0 else 1)
               \<and> list_all (intent_vetted (ic_run env) (command_spec args project scaffold cat)) (rn_outcomes run)))"
proof -
  have "case err of
          Some m \<Rightarrow> code = 2 \<or> code = 3
        | None \<Rightarrow>
            (\<exists>project scaffold cat run proof d1.
               run_intent (ic_run env) (command_spec args project scaffold cat) d = (Some (Inr (run, proof)), d1)
               \<and> code = (if list_ex (\<lambda>x. is_verified (cn_verdict x)) (rn_outcomes run) then 0 else 1)
               \<and> list_all (intent_vetted (ic_run env) (command_spec args project scaffold cat)) (rn_outcomes run))"
    if r: "run_with_intent env args d = (Some (code, out, err), d')" for code out err d'
  proof (cases err)
    case (Some m)
    with run_with_intent_result[OF r] print_run_code show ?thesis by fastforce
  next
    case None
    with run_with_intent_result[OF r] obtain project scaffold cat run pth d1 where
      i: "run_intent (ic_run env) (command_spec args project scaffold cat) d = (Some (Inr (run, pth)), d1)"
      and p: "print_run env args project run pth d1 = ((code, out, None), d')" by auto
    have c: "code = (if list_ex (\<lambda>x. is_verified (cn_verdict x)) (rn_outcomes run) then 0 else 1)"
      using print_run_code[OF p] by simp
    show ?thesis
      unfolding None option.case
      by (intro exI[of _ project] exI[of _ scaffold] exI[of _ cat] exI[of _ run] exI[of _ pth] exI[of _ d1] conjI i c
          intent_artifact(2)[OF i])
  qed
  note claim = this
  obtain r d' where e: "run_with_intent env args d = (r, d')" by fastforce
  show ?thesis
  proof (cases r)
    case None
    then show ?thesis by (simp add: e)
  next
    case (Some x)
    obtain code out err where x: "x = (code, out, err)" by (cases x)
    show ?thesis
      unfolding e Some x prod.case option.case by (rule claim) (simp add: e Some x)
  qed
qed

text \<open>The pass rate of the critique that the report prints is empty: it is counted over the outcomes of the run, and a
  candidate the critic rejected is no outcome, so after every run as many candidates were accepted as were
  counted, whatever the critic rejected.\<close>

theorem printed_pass_rate_is_full:
  "case run_intent env spec d of
     (Some (Inr (run, proof)), d') \<Rightarrow>
       qs_critique_accepted (compute_quality_stats run) = length (rn_outcomes run)
       \<and> qs_critique_total (compute_quality_stats run) = length (rn_outcomes run)
   | _ \<Rightarrow> True"
proof -
  have "qs_critique_accepted (compute_quality_stats run) = length (rn_outcomes run)
      \<and> qs_critique_total (compute_quality_stats run) = length (rn_outcomes run)"
    if "run_intent env spec d = (Some (Inr (run, pth)), d')" for run pth d'
    using accepted_all[OF intent_artifact(2)[OF that]] by (simp add: quality_counts)
  then show ?thesis by (auto split: prod.split option.split sum.split)
qed

end
