(* ===== verification/IntentQuality.thy ===== *)
theory IntentQuality
  imports IntentCommand 
begin

text \<open>
  The intent-quality overlay of VergilBench (\<open>vergilbench/src/intent_quality/\<close>): the classifier of intents, the loaders
  of the hand-written and of the proposed intents, the score of a contract, the aggregate over a sweep with its
  Markdown table, and the entry point. Texts are in ASCII; the YAML and JSON decoders are parameters, and so
  is the state of a project's directory.
\<close>

section \<open>The classifier\<close>

datatype intent_taxon =
    BalanceConservation | SupplyConservation | Monotonicity | AccessPolicy | StateMachineGuard | ApprovalSemantics
  | Reentrancy | BoundsAndOverflow | ConfigurationAndIntrospection | EncodingAndCrypto | OtherTaxon

fun taxon_id :: "intent_taxon \<Rightarrow> string" where
  "taxon_id BalanceConservation = ''balance-conservation''"
| "taxon_id SupplyConservation = ''supply-conservation''"
| "taxon_id Monotonicity = ''monotonicity''"
| "taxon_id AccessPolicy = ''access-policy''"
| "taxon_id StateMachineGuard = ''state-machine-guard''"
| "taxon_id ApprovalSemantics = ''approval-semantics''"
| "taxon_id Reentrancy = ''reentrancy''"
| "taxon_id BoundsAndOverflow = ''bounds-and-overflow''"
| "taxon_id ConfigurationAndIntrospection = ''configuration-and-introspection''"
| "taxon_id EncodingAndCrypto = ''encoding-and-crypto''"
| "taxon_id OtherTaxon = ''other''"

definition taxon_keywords :: "(intent_taxon \<times> string list) list" where
  "taxon_keywords =
     [
      (Reentrancy,
        [''reentrant'', ''reentrancy'']),
      (BalanceConservation,
        [''conserve balances'', ''preserve balances'', ''preserve total supply'',
         ''preserves total supply'', ''preserves the supply'', ''preserve totalassets'',
         ''conserve assets'', ''conserve shares'', ''transfers preserve'', ''constant-product'']),
      (SupplyConservation,
        [''supply by exactly'', ''supply grows by'', ''supply reduces'', ''credits'', ''debits'',
         ''per-id balance'', ''per-id supply'', ''per-id total supply'', ''burn debits'',
         ''supply increment'', ''minted amount'', ''burned amount'', ''grows total supply'',
         ''reduces it by'', ''decrements the enumerable total supply'', ''grows enumerable supply'',
         ''increments enumerable supply'', ''grows by the minted amount'', ''reduces supply'']),
      (Monotonicity,
        [''consecutive'', ''increments by exactly one'', ''increment the'', ''monotonic'',
         ''exactly one per mint'', ''by exactly one'', ''round-trips membership'',
         ''pushing one element'', ''set then get'', ''grows the set by one'', ''grows the map'',
         ''setting a bit'', ''pushing a (key,value)'', ''incrementing tokenid'', ''auto-increment'',
         ''consuming one increments'']),
      (AccessPolicy,
        [''only the owner'', ''only signers'', ''only the forwarder'', ''only undercollateralized'',
         ''role-gated'', ''role_gated'', ''default_admin_role'', ''default admin'', ''admin_role'',
         ''admin role'', ''minter role'', ''minter_role'', ''transferownership'',
         ''renounceownership'', ''owner-gated'', ''non-admin'', ''ownable'', ''accesscontrol'',
         ''grant roles'', ''borrowing requires'', ''execution requires meeting the confirmation'',
         ''trusted'', ''operations that were never scheduled'']),
      (StateMachineGuard,
        [''paused'', ''pausable'', ''unpause'', ''while paused'', ''before the deadline'',
         ''blocked'', ''blocklist'', ''soulbound'', ''transfer-blocking'', ''timelock'',
         ''stages a pending owner'', ''until acceptance'']),
      (ApprovalSemantics,
        [''approve'', ''allowance'', ''approval'', ''permit'', ''nonce'', ''delegation'',
         ''delegated'', ''self-delegation'']),
      (BoundsAndOverflow,
        [''cap'', ''max_supply'', ''max_wallet'', ''max-supply'', ''max-wallet'', ''never exceeds'',
         ''exceeds the'', ''breach'', ''downcast'', ''in-range'', ''out-of-range'', ''headroom'',
         ''saturat'', ''overflow'', ''max dominates'', ''min is never greater'']),
      (EncodingAndCrypto,
        [''encode'', ''encoding'', ''digest'', ''hash'', ''domain separator'', ''signature'',
         ''ecdsa'', ''signed'', ''signer'', ''eip-191'', ''eip-712'', ''round-trip'',
         ''computeaddress'', ''deterministic'', ''salt'', ''clones'', ''tostring'', ''shortstring'',
         ''ec recovery'', ''recovers'']),
      (ConfigurationAndIntrospection,
        [''decimals'', ''interface id'', ''interface ids'', ''supportsinterface'', ''reports the'',
         ''reports its'', ''reports support'', ''advertises'', ''advertised'',
         ''configured at construction'', ''default royalty'', ''royalty fraction'', ''receiver'',
         ''delay configured'', ''cliff'', ''schedule end'', ''constant'', ''underlying'',
         ''implementation address'', ''proxiableuuid'', ''proxiable uuid'',
         ''implementation storage slot'', ''vault decimals'', ''default flash fee'',
         ''maxflashloan'', ''applies both state writes atomically'', ''reads back'', ''no-op'',
         ''round-trips'', ''exact'', ''exactly'', ''sqrt'', ''muldiv'', ''lt and gt agree''])
     ]"

definition classify_intent :: "string \<Rightarrow> intent_taxon" where
  "classify_intent s =
     (let l = to_lower s in
      case find (\<lambda>(taxon, phrases). list_ex (contains l) phrases) taxon_keywords of
        Some (taxon, phrases) \<Rightarrow> taxon
      | None \<Rightarrow> OtherTaxon)"

text \<open>The derived order is the order of the constructors.\<close>

definition taxon_all :: "intent_taxon list" where
  "taxon_all =
     [BalanceConservation, SupplyConservation, Monotonicity, AccessPolicy, StateMachineGuard, ApprovalSemantics,
      Reentrancy, BoundsAndOverflow, ConfigurationAndIntrospection, EncodingAndCrypto, OtherTaxon]"

fun taxon_rank :: "intent_taxon \<Rightarrow> nat" where
  "taxon_rank BalanceConservation = 0"
| "taxon_rank SupplyConservation = 1"
| "taxon_rank Monotonicity = 2"
| "taxon_rank AccessPolicy = 3"
| "taxon_rank StateMachineGuard = 4"
| "taxon_rank ApprovalSemantics = 5"
| "taxon_rank Reentrancy = 6"
| "taxon_rank BoundsAndOverflow = 7"
| "taxon_rank ConfigurationAndIntrospection = 8"
| "taxon_rank EncodingAndCrypto = 9"
| "taxon_rank OtherTaxon = 10"

lemma taxon_rank_inj: "taxon_rank a = taxon_rank b \<Longrightarrow> a = b"
  by (cases a; cases b) simp_all

instantiation intent_taxon :: linorder
begin

definition less_eq_intent_taxon :: "intent_taxon \<Rightarrow> intent_taxon \<Rightarrow> bool" where
  "less_eq_intent_taxon a b \<longleftrightarrow> taxon_rank a \<le> taxon_rank b"

definition less_intent_taxon :: "intent_taxon \<Rightarrow> intent_taxon \<Rightarrow> bool" where
  "less_intent_taxon a b \<longleftrightarrow> taxon_rank a < taxon_rank b"

instance
  by standard (auto simp: less_eq_intent_taxon_def less_intent_taxon_def taxon_rank_inj)

end

section \<open>The hand-written intents\<close>

record bench_provenance =
  bv_source :: "string option"
  bv_version :: "string option"
  bv_commit :: "string option"
  bv_license :: "string option"

record bench_ground_truth =
  bg_intent_text :: string
  bg_property_names :: "string list"
  bg_provenance :: "bench_provenance option"

record bench_properties_file =
  bf_intent :: "string option"
  bf_properties :: "string list"
  bf_provenance :: "bench_provenance option"

text \<open>\<open>None\<close> is a contract that is logged and left out: no file, unreadable, not YAML, or an empty intent.\<close>

definition ground_truth_one :: "(string \<Rightarrow> string + bench_properties_file) \<Rightarrow> fs_node \<Rightarrow> bench_ground_truth option" where
  "ground_truth_one yaml node =
     (case child_read node ''properties.yaml'' of
        None \<Rightarrow> None
      | Some body \<Rightarrow>
          (case yaml body of
             Inl e \<Rightarrow> None
           | Inr parsed \<Rightarrow>
               (let t = trim (case bf_intent parsed of Some i \<Rightarrow> i | None \<Rightarrow> []) in
                if t = [] then None
                else Some \<lparr>bg_intent_text = t, bg_property_names = bf_properties parsed, bg_provenance = bf_provenance parsed\<rparr>)))"

fun ground_truth_entries ::
    "(string \<Rightarrow> string + bench_properties_file) \<Rightarrow> (string \<times> fs_node) list \<Rightarrow> (string \<rightharpoonup> bench_ground_truth)
     \<Rightarrow> (string \<rightharpoonup> bench_ground_truth)" where
  "ground_truth_entries yaml [] m = m"
| "ground_truth_entries yaml ((name, node) # es) m =
     ground_truth_entries yaml es
       (if is_dir_node node then (case ground_truth_one yaml node of Some gt \<Rightarrow> m(name \<mapsto> gt) | None \<Rightarrow> m) else m)"

definition ground_truth_load ::
    "(string \<Rightarrow> string + bench_properties_file) \<Rightarrow> string \<Rightarrow> fs_node \<Rightarrow> string + (string \<rightharpoonup> bench_ground_truth)" where
  "ground_truth_load yaml corpus node =
     (case child node ''contracts'' of
        Some (DirN (Some es)) \<Rightarrow> Inr (ground_truth_entries yaml es Map.empty)
      | Some (DirN None) \<Rightarrow> Inl (''read '' @ path_join corpus ''contracts'')
      | _ \<Rightarrow> Inl (''no contracts directory at '' @ path_join corpus ''contracts''))"

section \<open>The proposed intents\<close>

definition proposed_load :: "(string \<Rightarrow> string + confirm_state) \<Rightarrow> string \<Rightarrow> fs_node \<Rightarrow> string + proposed_intent list" where
  "proposed_load json project node =
     (let path = path_join (path_join (path_join project ''vergil-out'') ''confirm'') ''state.json'' in
      case (case child node ''vergil-out'' of None \<Rightarrow> None | Some v \<Rightarrow>
             (case child v ''confirm'' of None \<Rightarrow> None | Some c \<Rightarrow> child c ''state.json'')) of
        Some (FileN None) \<Rightarrow> Inl (''read '' @ path)
      | Some (FileN (Some body)) \<Rightarrow>
          (case json body of
             Inl e \<Rightarrow> Inl (''parse '' @ path @ '': '' @ e)
           | Inr st \<Rightarrow>
               (if cf_schema_version st \<noteq> CONFIRM_STATE_SCHEMA_VERSION
                then Inl (''confirm/state.json schema version mismatch at '' @ path @ '': expected ''
                       @ show_nat (unat CONFIRM_STATE_SCHEMA_VERSION) @ '', found '' @ show_nat (unat (cf_schema_version st)))
                else Inr (cf_proposed_intents st)))
      | _ \<Rightarrow> Inr [])"

section \<open>The score of a contract\<close>

definition stop_words :: "string list" where
  "stop_words =
     [''the'', ''a'', ''an'', ''of'', ''is'', ''and'', ''to'', ''in'', ''on'', ''for'', ''verify'', ''that'', ''are'', ''be'',
      ''as'', ''by'', ''or'', ''with'', ''it'', ''its'']"

fun split_on :: "(char \<Rightarrow> bool) \<Rightarrow> string \<Rightarrow> string list" where
  "split_on sep [] = [[]]"
| "split_on sep (c # cs) =
     (if sep c then [] # split_on sep cs
      else case split_on sep cs of [] \<Rightarrow> [[c]] | w # ws \<Rightarrow> (c # w) # ws)"

text \<open>A hash set of words, each once.\<close>

definition tokenize :: "string \<Rightarrow> string list" where
  "tokenize s =
     remdups (filter (\<lambda>t. t \<noteq> [] \<and> \<not> List.member stop_words t) (split_on (\<lambda>c. \<not> is_alnum c) (to_lower s)))"

definition jaccard :: "string list \<Rightarrow> string list \<Rightarrow> float" where
  "jaccard a b =
     (let union_count = length (remdups (a @ b)) in
      if union_count = 0 then Fin 0 else ratio32 (length (filter (List.member b) a)) union_count)"

text \<open>\<open>f32::max\<close> gives the other argument for a NaN.\<close>

definition fmax :: "float \<Rightarrow> float \<Rightarrow> float" where
  "fmax x y = (case x of NaN \<Rightarrow> y | _ \<Rightarrow> (case y of NaN \<Rightarrow> x | _ \<Rightarrow> if flt x y then y else x))"

record contract_intent_score =
  qc_contract :: string
  qc_ground_truth_taxon :: intent_taxon
  qc_proposed_taxons :: "intent_taxon list"
  qc_recall :: bool
  qc_matching_source :: "source option"
  qc_precision :: float
  qc_lexical_jaccard_max :: float

fun first_match :: "intent_taxon \<Rightarrow> proposed_intent list \<Rightarrow> source option" where
  "first_match t [] = None"
| "first_match t (p # ps) = (if classify_intent (pi_intent_text p) = t then Some (pi_source p) else first_match t ps)"

definition score_contract :: "string \<Rightarrow> bench_ground_truth \<Rightarrow> proposed_intent list \<Rightarrow> contract_intent_score" where
  "score_contract name gt proposed =
     (let gt_taxon = classify_intent (bg_intent_text gt);
          gt_tokens = tokenize (bg_intent_text gt);
          taxons = map (classify_intent \<circ> pi_intent_text) proposed;
          matching = first_match gt_taxon proposed
      in \<lparr>qc_contract = name, qc_ground_truth_taxon = gt_taxon, qc_proposed_taxons = taxons,
          qc_recall = (matching \<noteq> None), qc_matching_source = matching,
          qc_precision = (if proposed = [] then Fin 0
            else ratio32 (length (filter (\<lambda>t. t \<noteq> OtherTaxon) taxons)) (length proposed)),
          qc_lexical_jaccard_max =
            fold (\<lambda>p acc. fmax acc (jaccard gt_tokens (tokenize (pi_intent_text p)))) proposed (Fin 0)\<rparr>)"

section \<open>The aggregate\<close>

record taxon_stats =
  tx_total :: nat
  tx_recalled :: nat
  tx_rate :: float

definition taxon_stats_default :: taxon_stats where
  "taxon_stats_default = \<lparr>tx_total = 0, tx_recalled = 0, tx_rate = Fin 0\<rparr>"

definition bump_stats :: "bool \<Rightarrow> taxon_stats \<Rightarrow> taxon_stats" where
  "bump_stats recall st =
     st\<lparr>tx_total := tx_total st + 1, tx_recalled := (if recall then tx_recalled st + 1 else tx_recalled st)\<rparr>"

text \<open>\<open>entry(key).or_default()\<close> of an ordered map, followed by the change.\<close>

fun entry_upd :: "'k::linorder \<Rightarrow> 'v \<Rightarrow> ('v \<Rightarrow> 'v) \<Rightarrow> ('k \<times> 'v) list \<Rightarrow> ('k \<times> 'v) list" where
  "entry_upd k d f [] = [(k, f d)]"
| "entry_upd k d f ((k', v) # m) =
     (if k < k' then (k, f d) # (k', v) # m
      else if k = k' then (k, f v) # m
      else (k', v) # entry_upd k d f m)"

fun quality_source_label :: "source \<Rightarrow> string" where
  "quality_source_label AttackCatalog = ''catalog''"
| "quality_source_label Tests = ''tests''"
| "quality_source_label NatSpec = ''natspec''"
| "quality_source_label Structural = ''structural''"
| "quality_source_label UserIntent = ''user-intent''"
| "quality_source_label Conformance = ''conformance''"

record aggregate_intent_report =
  ai_per_taxon :: "(intent_taxon \<times> taxon_stats) list"
  ai_source_contribution :: "(string \<times> nat) list"
  ai_precision_histogram :: "nat list"
  ai_low_recall_contracts :: "string list"
  ai_zero_proposed_contracts :: "string list"
  ai_total_contracts :: nat
  ai_total_recalled :: nat
  ai_overall_recall_rate :: float
  ai_mean_jaccard :: float

text \<open>\<open>as usize\<close> truncates; \<open>clamp\<close> keeps a NaN.\<close>

fun float_as_nat :: "float \<Rightarrow> nat" where
  "float_as_nat (Fin a) = nat \<lfloor>a\<rfloor>"
| "float_as_nat PInf = 2 ^ 64 - 1"
| "float_as_nat NInf = 0"
| "float_as_nat NaN = 0"

definition clamp01 :: "float \<Rightarrow> float" where
  "clamp01 x = (if flt x (Fin 0) then Fin 0 else if flt (Fin 1) x then Fin 1 else x)"

definition precision_bin :: "float \<Rightarrow> nat" where
  "precision_bin p = min (float_as_nat (scale32 (\<lambda>x. x * 10) (clamp01 p))) 9"

definition per_taxon_counts :: "contract_intent_score list \<Rightarrow> (intent_taxon \<times> taxon_stats) list" where
  "per_taxon_counts scores =
     fold (\<lambda>s. entry_upd (qc_ground_truth_taxon s) taxon_stats_default (bump_stats (qc_recall s))) scores []"

definition set_rate :: "taxon_stats \<Rightarrow> taxon_stats" where
  "set_rate st = st\<lparr>tx_rate := (if 0 < tx_total st then ratio32 (tx_recalled st) (tx_total st) else Fin 0)\<rparr>"

definition source_counts :: "contract_intent_score list \<Rightarrow> (string \<times> nat) list" where
  "source_counts scores =
     fold (\<lambda>s m. case qc_matching_source s of Some src \<Rightarrow> entry_upd (quality_source_label src) 0 Suc m | None \<Rightarrow> m) scores []"

definition histogram_of :: "contract_intent_score list \<Rightarrow> nat list" where
  "histogram_of scores =
     fold (\<lambda>s h. (let i = precision_bin (qc_precision s) in h[i := h ! i + 1])) scores (replicate 10 0)"

definition aggregate_scores :: "contract_intent_score list \<Rightarrow> aggregate_intent_report" where
  "aggregate_scores scores =
     (let n = length scores; recalled = length (filter qc_recall scores) in
      \<lparr>ai_per_taxon = map (\<lambda>(t, st). (t, set_rate st)) (per_taxon_counts scores),
       ai_source_contribution = source_counts scores,
       ai_precision_histogram = histogram_of scores,
       ai_low_recall_contracts = sort (map qc_contract (filter (\<lambda>s. \<not> qc_recall s \<and> qc_proposed_taxons s \<noteq> []) scores)),
       ai_zero_proposed_contracts = sort (map qc_contract (filter (\<lambda>s. qc_proposed_taxons s = []) scores)),
       ai_total_contracts = n, ai_total_recalled = recalled,
       ai_overall_recall_rate = (if 0 < n then ratio32 recalled n else Fin 0),
       ai_mean_jaccard = (if 0 < n
         then scale32 (\<lambda>x. x / count32 n) (fold (\<lambda>s acc. fadd32 acc (qc_lexical_jaccard_max s)) scores (Fin 0))
         else Fin 0)\<rparr>)"

section \<open>The table\<close>

definition percent1 :: "float \<Rightarrow> string" where
  "percent1 x = fixed 1 (scale32 (\<lambda>a. a * 100) x)"

definition bucket_row :: "nat \<Rightarrow> nat \<Rightarrow> string" where
  "bucket_row i hits =
     ''| ['' @ fixed 1 (ratio32 i 10) @ '', '' @ fixed 1 (ratio32 (i + 1) 10) @ '') | '' @ show_nat hits @ '' |'' @ [NL]"

definition quality_markdown :: "aggregate_intent_report \<Rightarrow> string" where
  "quality_markdown r =
     ''# Intent-quality overlay'' @ [NL] @ [NL]
     @ ''**Overall recall**: '' @ show_nat (ai_total_recalled r) @ ''/'' @ show_nat (ai_total_contracts r) @ '' (''
     @ percent1 (ai_overall_recall_rate r) @ ''%)  '' @ [NL]
     @ ''**Mean lexical Jaccard (max-per-contract)**: '' @ fmt2 (ai_mean_jaccard r) @ [NL] @ [NL]
     @ ''## Per-taxon recall'' @ [NL] @ [NL]
     @ ''| Taxon | Recalled | Total | Rate |'' @ [NL] @ ''|---|---|---|---|'' @ [NL]
     @ concat (map (\<lambda>(t, st). ''| `'' @ taxon_id t @ ''` | '' @ show_nat (tx_recalled st) @ '' | '' @ show_nat (tx_total st)
         @ '' | '' @ percent1 (tx_rate st) @ ''% |'' @ [NL]) (ai_per_taxon r))
     @ [NL] @ ''## Source contribution (which oracle drove the match)'' @ [NL] @ [NL]
     @ ''| Source | Matches |'' @ [NL] @ ''|---|---|'' @ [NL]
     @ concat (map (\<lambda>(src, n). ''| `'' @ src @ ''` | '' @ show_nat n @ '' |'' @ [NL]) (ai_source_contribution r))
     @ [NL] @ ''## Precision histogram'' @ [NL] @ [NL]
     @ ''Fraction of proposals classified into a non-Other taxon.'' @ [NL] @ [NL]
     @ ''| Bucket | Contracts |'' @ [NL] @ ''|---|---|'' @ [NL]
     @ concat (map (\<lambda>(i, c). bucket_row i c) (enumerate 0 (ai_precision_histogram r)))
     @ (if ai_zero_proposed_contracts r \<noteq> []
        then [NL] @ ''## Contracts with zero proposed intents'' @ [NL] @ [NL]
          @ ''Typically utility libraries: the catalog activates nothing and there are no tests / natspec.'' @ [NL] @ [NL]
          @ concat (map (\<lambda>c. ''- `'' @ c @ ''`'' @ [NL]) (ai_zero_proposed_contracts r)) else [])
     @ (if ai_low_recall_contracts r \<noteq> []
        then [NL] @ ''## Low-recall contracts (proposals exist, none match the ground-truth taxon)'' @ [NL] @ [NL]
          @ ''Worth manual review '' @ em_dash @ '' the proposed intents may be correct-but-tangential, or the ground-truth intent may be unusual.''
          @ [NL] @ [NL]
          @ concat (map (\<lambda>c. ''- `'' @ c @ ''`'' @ [NL]) (ai_low_recall_contracts r)) else [])"

section \<open>The entry point\<close>

record overlay_env =
  ov_yaml :: "string \<Rightarrow> string + bench_properties_file"
  ov_json :: "string \<Rightarrow> string + confirm_state"
  ov_corpus :: fs_node
  ov_project :: "string \<Rightarrow> fs_node"
  ov_ser :: "aggregate_intent_report \<Rightarrow> string + string"
  ov_write :: write_oracle

fun overlay_scores ::
    "overlay_env \<Rightarrow> (string \<rightharpoonup> bench_ground_truth) \<Rightarrow> string list \<Rightarrow> string + contract_intent_score list" where
  "overlay_scores env gts [] = Inr []"
| "overlay_scores env gts (path # paths) =
     (case gts (path_file_name path) of
        None \<Rightarrow> overlay_scores env gts paths
      | Some gt \<Rightarrow>
          (case proposed_load (ov_json env) path (ov_project env path) of
             Inl e \<Rightarrow> Inl e
           | Inr proposed \<Rightarrow>
               (case overlay_scores env gts paths of
                  Inl e \<Rightarrow> Inl e
                | Inr rest \<Rightarrow> Inr (score_contract (path_file_name path) gt proposed # rest))))"

definition overlay_paths :: "string \<Rightarrow> (string \<times> string) option" where
  "overlay_paths sweep_result =
     (case path_parent sweep_result of
        None \<Rightarrow> None
      | Some dir \<Rightarrow>
          (let stem = file_stem (path_file_name sweep_result) in
           Some (path_join dir (stem @ ''.intent-quality.json''), path_join dir (stem @ ''.intent-quality.md''))))"

definition run_overlay :: "overlay_env \<Rightarrow> string \<Rightarrow> string list \<Rightarrow> string \<Rightarrow> disk \<Rightarrow> (string + aggregate_intent_report) \<times> disk" where
  "run_overlay env corpus contracts sweep_result d =
     (case ground_truth_load (ov_yaml env) corpus (ov_corpus env) of
        Inl e \<Rightarrow> (Inl e, d)
      | Inr gts \<Rightarrow>
          (case overlay_scores env gts contracts of
             Inl e \<Rightarrow> (Inl e, d)
           | Inr scores \<Rightarrow>
               (let agg = aggregate_scores scores in
                case overlay_paths sweep_result of
                  None \<Rightarrow> (Inl (''sweep result has no parent dir: '' @ sweep_result), d)
                | Some (json_out, md_out) \<Rightarrow>
                    (case ov_ser env agg of
                       Inl e \<Rightarrow> (Inl (''serialize intent-quality: '' @ e), d)
                     | Inr body \<Rightarrow>
                         (case fs_write (ov_write env) json_out body d of
                            (Some e, d1) \<Rightarrow> (Inl (''write '' @ json_out @ '': '' @ e), d1)
                          | (None, d1) \<Rightarrow>
                              (case fs_write (ov_write env) md_out (quality_markdown agg) d1 of
                                 (Some e, d2) \<Rightarrow> (Inl (''write '' @ md_out @ '': '' @ e), d2)
                               | (None, d2) \<Rightarrow> (Inr agg, d2)))))))"

section \<open>Lemmas\<close>

text \<open>One of the examples that document the taxon of monotonicity belongs to another: the phrase for round trips of
  encodings is looked for first, which also makes the phrase of the last taxon unreachable.\<close>

lemma round_trips_are_encodings:
  "classify_intent ''push then pop round-trips'' = EncodingAndCrypto"
  "contains ''round-trips'' ''round-trip''"
  by code_simp+

text \<open>The upper end of the last bucket is printed as excluded, but one is counted in it.\<close>

lemma full_precision_bucket:
  "precision_bin (Fin 1) = 9"
  by code_simp

text \<open>Ordered maps built by entries.\<close>

definition keys_ok :: "('k::linorder \<times> 'v) list \<Rightarrow> bool" where
  "keys_ok m \<longleftrightarrow> sorted_wrt (<) (map fst m)"

lemma entry_upd_keys: "set (map fst (entry_upd k d f m)) = insert k (set (map fst m))"
  by (induction k d f m rule: entry_upd.induct) auto

lemma entry_upd_ok: "keys_ok m \<Longrightarrow> keys_ok (entry_upd k d f m)"
proof (induction k d f m rule: entry_upd.induct)
  case (2 k d f k' v m)
  then show ?case
    using entry_upd_keys[of k d f m] by (auto simp: keys_ok_def intro: less_trans)
qed (simp add: keys_ok_def)

lemma entry_upd_get:
  "keys_ok m \<Longrightarrow> map_of (entry_upd k d f m) = (map_of m)(k \<mapsto> f (case map_of m k of None \<Rightarrow> d | Some v \<Rightarrow> v))"
proof (induction k d f m rule: entry_upd.induct)
  case (2 k d f k' v m)
  have "map_of m k = None" if "k < k'"
    using that 2(2) by (force simp: keys_ok_def map_of_eq_None_iff)
  with 2 show ?case by (auto simp: keys_ok_def fun_upd_twist)
qed simp

lemma entry_upd_sum:
  assumes "\<And>v. g (f v) = g v + (1::nat)" and "g d = 0"
  shows "sum_list (map (g \<circ> snd) (entry_upd k d f m)) = Suc (sum_list (map (g \<circ> snd) m))"
  using assms by (induction k d f m rule: entry_upd.induct) auto

text \<open>The counts per taxon.\<close>

lemma per_taxon_snoc:
  "per_taxon_counts (xs @ [x]) =
     entry_upd (qc_ground_truth_taxon x) taxon_stats_default (bump_stats (qc_recall x)) (per_taxon_counts xs)"
  by (simp add: per_taxon_counts_def)

lemma per_taxon_ok: "keys_ok (per_taxon_counts xs)"
  by (induction xs rule: rev_induct) (simp_all add: per_taxon_snoc entry_upd_ok, simp add: per_taxon_counts_def keys_ok_def)

definition taxon_count :: "(contract_intent_score \<Rightarrow> bool) \<Rightarrow> intent_taxon \<Rightarrow> contract_intent_score list \<Rightarrow> nat" where
  "taxon_count P t xs = length (filter (\<lambda>s. qc_ground_truth_taxon s = t \<and> P s) xs)"

lemma per_taxon_get:
  "map_of (per_taxon_counts xs) t =
     (if taxon_count (\<lambda>s. True) t xs = 0 then None
      else Some \<lparr>tx_total = taxon_count (\<lambda>s. True) t xs, tx_recalled = taxon_count qc_recall t xs, tx_rate = Fin 0\<rparr>)"
proof (induction xs rule: rev_induct)
  case Nil
  then show ?case by (simp add: per_taxon_counts_def taxon_count_def)
next
  case (snoc x xs)
  have z: "taxon_count qc_recall t xs = 0" if "taxon_count (\<lambda>s. True) t xs = 0"
    using that by (auto simp: taxon_count_def filter_empty_conv)
  have c: "taxon_count P t (xs @ [x]) = taxon_count P t xs + (if qc_ground_truth_taxon x = t \<and> P x then 1 else 0)" for P
    by (simp add: taxon_count_def)
  show ?case
  proof (cases "qc_ground_truth_taxon x = t")
    case True
    with snoc.IH z show ?thesis
      by (cases "taxon_count (\<lambda>s. True) t xs = 0")
         (simp_all add: per_taxon_snoc entry_upd_get[OF per_taxon_ok] c bump_stats_def taxon_stats_default_def)
  next
    case False
    with snoc.IH show ?thesis by (simp add: per_taxon_snoc entry_upd_get[OF per_taxon_ok] c)
  qed
qed

lemma source_counts_sum: "sum_list (map snd (source_counts xs)) = length (filter (\<lambda>s. qc_matching_source s \<noteq> None) xs)"
proof (induction xs rule: rev_induct)
  case (snoc x xs)
  have "source_counts (xs @ [x]) = (case qc_matching_source x of
      Some src \<Rightarrow> entry_upd (quality_source_label src) 0 Suc (source_counts xs) | None \<Rightarrow> source_counts xs)"
    by (simp add: source_counts_def split: option.split)
  moreover have "sum_list (map snd (entry_upd k 0 Suc m)) = Suc (sum_list (map snd m))" for k and m :: "(string \<times> nat) list"
    using entry_upd_sum[of "\<lambda>v. v" Suc 0 k m] by (simp add: comp_def)
  ultimately show ?case
    using snoc.IH by (cases "qc_matching_source x") simp_all
qed (simp add: source_counts_def)

lemma histogram_sum: "sum_list (histogram_of xs) = length xs \<and> length (histogram_of xs) = 10"
proof (induction xs rule: rev_induct)
  case (snoc x xs)
  have b: "precision_bin p < 10" for p by (simp add: precision_bin_def min_def)
  have "histogram_of (xs @ [x]) =
      (histogram_of xs)[precision_bin (qc_precision x) := histogram_of xs ! precision_bin (qc_precision x) + 1]"
    by (simp add: histogram_of_def Let_def)
  then show ?case
    using snoc.IH b by (simp add: sum_list_update)
qed (simp add: histogram_of_def)

lemma first_match_find:
  "first_match t ps = map_option pi_source (find (\<lambda>p. classify_intent (pi_intent_text p) = t) ps)"
  by (induction ps) simp_all

lemma first_match_Some:
  "(first_match t ps \<noteq> None) = list_ex (\<lambda>p. classify_intent (pi_intent_text p) = t) ps"
  by (induction ps) simp_all

lemma length_three:
  assumes "\<And>x. P x \<Longrightarrow> \<not> R x"
  shows "length (filter R xs) + length (filter (\<lambda>x. \<not> R x \<and> \<not> P x) xs) + length (filter P xs) = length xs"
  using assms by (induction xs) auto

section \<open>Property\<close>

text \<open>C39: The aggregate of the intent-quality overlay accounts for every contract once: a contract is recalled exactly
  when some proposal has the taxon of its hand-written intent, and the recalled ones, those listed as low in
  recall and those without proposals add up to all; the matches of the sources add up to the recalled
  ones, the histogram to all; and each taxon, in the order of the taxons, has exactly its own counts.\<close>

theorem overlay_accounts_for_all:
  "let scores = map (\<lambda>(name, gt, proposed). score_contract name gt proposed) contracts;
       agg = aggregate_scores scores
   in ai_total_contracts agg = length contracts
      \<and> ai_total_recalled agg = length (filter (\<lambda>(name, gt, proposed).
            list_ex (\<lambda>p. classify_intent (pi_intent_text p) = classify_intent (bg_intent_text gt)) proposed) contracts)
      \<and> ai_total_recalled agg + length (ai_low_recall_contracts agg) + length (ai_zero_proposed_contracts agg)
          = ai_total_contracts agg
      \<and> sum_list (map snd (ai_source_contribution agg)) = ai_total_recalled agg
      \<and> sum_list (ai_precision_histogram agg) = ai_total_contracts agg
      \<and> sorted_wrt (<) (map fst (ai_per_taxon agg))
      \<and> map_of (ai_per_taxon agg) t =
          (let n = taxon_count (\<lambda>s. True) t scores; r = taxon_count qc_recall t scores
           in if n = 0 then None else Some \<lparr>tx_total = n, tx_recalled = r, tx_rate = ratio32 r n\<rparr>)"
proof -
  let ?f = "\<lambda>(name, gt, proposed). score_contract name gt proposed"
  let ?s = "map ?f contracts"
  have r: "(qc_recall \<circ> ?f) = (\<lambda>(name, gt, proposed).
      list_ex (\<lambda>p. classify_intent (pi_intent_text p) = classify_intent (bg_intent_text gt)) proposed)"
    by (auto simp: fun_eq_iff score_contract_def Let_def first_match_Some simp del: not_None_eq)
  have none: "\<not> qc_recall (?f x)" if "qc_proposed_taxons (?f x) = []" for x
    using that by (auto simp: score_contract_def Let_def split: prod.splits)
  have same: "(qc_matching_source (?f x) \<noteq> None) = qc_recall (?f x)" for x
    by (cases x) (simp add: score_contract_def Let_def)
  have three: "length (filter qc_recall ?s) + length (filter (\<lambda>s. \<not> qc_recall s \<and> qc_proposed_taxons s \<noteq> []) ?s)
      + length (filter (\<lambda>s. qc_proposed_taxons s = []) ?s) = length ?s"
    using length_three[of "\<lambda>x. qc_proposed_taxons (?f x) = []" "\<lambda>x. qc_recall (?f x)" contracts] none
    by (simp add: filter_map comp_def)
  have src: "sum_list (map snd (source_counts ?s)) = length (filter qc_recall ?s)"
    unfolding source_counts_sum filter_map length_map comp_def same ..
  have keys: "map fst (map (\<lambda>(t, st). (t, set_rate st)) m) = map fst m" for m :: "(intent_taxon \<times> taxon_stats) list"
    by (induction m) auto
  have get: "map_of (map (\<lambda>(t, st). (t, set_rate st)) m) t = map_option set_rate (map_of m t)"
    for m :: "(intent_taxon \<times> taxon_stats) list"
    by (induction m) auto
  show ?thesis
    unfolding Let_def aggregate_scores_def aggregate_intent_report.select_convs keys get
    using three src histogram_sum[of ?s] per_taxon_ok[of ?s]
    by (simp add: keys_ok_def per_taxon_get set_rate_def filter_map r)
qed

end
