(* ===== verification/SourceScan.thy ===== *)
theory SourceScan
  imports Signatures "HOL-Library.Monad_Syntax"
begin

text \<open>
  The scans of Solidity text on which the structural miners rest
  (\<open>crates/vergil-core/src/structural.rs\<close>): keyword constants, declared literals, writes to a state
  variable and their polarity, modifiers, paired mapping operations and guards. A scan walks an index
  over the bytes, as the code does. \<open>None\<close> where a Boolean or a list is expected is a run that does not
  return a value: a slice off a character boundary panics, and the two scans for writes never end on
  an empty variable name. The module's private copies of \<open>strip_comments\<close>, \<open>match_brace\<close> and
  \<open>match_paren_in_str\<close> are line for line those of \<open>signatures.rs\<close>, whose definitions are used here.
\<close>

section \<open>Indices\<close>

text \<open>The loop \<open>while i < len && p(bytes[i]) { i += 1 }\<close>.\<close>

definition skip_while :: "(char \<Rightarrow> bool) \<Rightarrow> string \<Rightarrow> nat \<Rightarrow> nat" where
  "skip_while P s i = i + length (takeWhile P (drop i s))"

lemma skip_while_ge: "i \<le> skip_while P s i"
  by (simp add: skip_while_def)

lemma skip_while_le: "i \<le> length s \<Longrightarrow> skip_while P s i \<le> length s"
  using length_takeWhile_le[of P "drop i s"] by (simp add: skip_while_def)

lemma skip_while_stop: "skip_while P s i < length s \<Longrightarrow> \<not> P (s ! skip_while P s i)"
  using nth_length_takeWhile[of P "drop i s"] by (auto simp: skip_while_def)

lemma skip_while_inside: "i \<le> k \<Longrightarrow> k < skip_while P s i \<Longrightarrow> P (s ! k)"
proof -
  assume k: "i \<le> k" "k < skip_while P s i"
  then have l: "k - i < length (takeWhile P (drop i s))" by (auto simp: skip_while_def)
  then have "P (takeWhile P (drop i s) ! (k - i))" using set_takeWhileD nth_mem by fastforce
  moreover have "i \<le> length s" using l by (cases "i \<le> length s") auto
  ultimately show "P (s ! k)" using k l by (simp add: takeWhile_nth)
qed

lemma skip_while_progress: "i < length s \<Longrightarrow> P (s ! i) \<Longrightarrow> i < skip_while P s i"
  by (cases "drop i s") (auto simp: skip_while_def nth_via_drop)

definition skip_ws :: "string \<Rightarrow> nat \<Rightarrow> nat" where
  "skip_ws s i = skip_while is_space s i"

lemma skip_ws_ge: "i \<le> skip_ws s i"
  by (simp add: skip_ws_def skip_while_ge)

definition is_word_boundary_at :: "string \<Rightarrow> nat \<Rightarrow> nat \<Rightarrow> bool" where
  "is_word_boundary_at s start n \<longleftrightarrow>
     (start = 0 \<or> \<not> is_ident (s ! (start - 1)))
     \<and> (length s \<le> start + n \<or> \<not> is_ident (s ! (start + n)))"

text \<open>The two bytes at an index, where both exist.\<close>

definition two_at :: "string \<Rightarrow> nat \<Rightarrow> char \<Rightarrow> char \<Rightarrow> bool" where
  "two_at s i a b \<longleftrightarrow> i + 1 < length s \<and> s ! i = a \<and> s ! (i + 1) = b"

definition match_bracket :: "string \<Rightarrow> nat \<Rightarrow> nat option" where
  "match_bracket s i = map_option (\<lambda>n. i + n) (match_close (CHR ''['') (CHR '']'') 0 (drop i s))"

lemma match_paren_ge: "match_paren s i = Some e \<Longrightarrow> i \<le> e"
  by (auto simp: match_paren_def)

lemma match_bracket_ge: "match_bracket s i = Some e \<Longrightarrow> i \<le> e"
  by (auto simp: match_bracket_def)

section \<open>Declarations\<close>

record keyword_constant =
  kc_name :: string
  kc_literal :: string
  kc_keyword :: string

definition ident_of :: "string \<Rightarrow> string option" where
  "ident_of s0 =
     (let s = trim s0 in
      if s = [] then None
      else if list_all is_ident s \<and> \<not> is_digit (hd s) then Some s else None)"

definition parse_name_and_literal :: "string \<Rightarrow> string option \<times> string option" where
  "parse_name_and_literal s =
     (let body = trim (trim_end_char (CHR '';'') s) in
      case split_once body ''='' of
        Some (name, lit) \<Rightarrow> (ident_of (trim name), Some (trim lit))
      | None \<Rightarrow> (ident_of body, None))"

fun top_level_semicolon :: "nat \<Rightarrow> string \<Rightarrow> nat option" where
  "top_level_semicolon d [] = None"
| "top_level_semicolon d (c # s) =
     (if c = CHR ''('' then map_option Suc (top_level_semicolon (d + 1) s)
      else if c = CHR '')'' then map_option Suc (top_level_semicolon (d - 1) s)
      else if c = CHR '';'' \<and> d = 0 then Some 0
      else map_option Suc (top_level_semicolon d s))"

definition find_top_level_semicolon :: "string \<Rightarrow> nat option" where
  "find_top_level_semicolon s = top_level_semicolon 0 s"

text \<open>The start of the declaration around an index: behind the nearest brace, semicolon or new line.\<close>

definition line_start :: "string \<Rightarrow> nat \<Rightarrow> nat" where
  "line_start s k = k - length (takeWhile (\<lambda>c. c \<notin> {CHR ''{'', CHR ''}'', CHR '';'', NL}) (rev (take k s)))"

function scan_keyword_from :: "string \<Rightarrow> string \<Rightarrow> nat \<Rightarrow> keyword_constant list" where
  "scan_keyword_from s kw i =
     (let needle = '' '' @ kw @ '' '' in
      if length s \<le> i + length needle then []
      else
        (case find_sub (drop i s) needle of
           None \<Rightarrow> []
         | Some rel \<Rightarrow>
             (let kw_start = i + rel + 1; after_kw = kw_start + length kw + 1 in
              case find_top_level_semicolon (drop after_kw s) of
                None \<Rightarrow> scan_keyword_from s kw after_kw
              | Some e \<Rightarrow>
                  (let dl = trim (take (after_kw + e - line_start s kw_start) (drop (line_start s kw_start) s)) in
                   if contains dl ''function '' then scan_keyword_from s kw (after_kw + e)
                   else
                     (let at = (case find_sub dl kw of Some n \<Rightarrow> n | None \<Rightarrow> 0) in
                      (case parse_name_and_literal (trim (drop (at + length kw) dl)) of
                         (Some name, lit) \<Rightarrow>
                           [\<lparr>kc_name = name, kc_literal = (case lit of Some l \<Rightarrow> l | None \<Rightarrow> []), kc_keyword = kw\<rparr>]
                       | (None, lit) \<Rightarrow> [])
                      @ scan_keyword_from s kw (after_kw + e))))))"
  by pat_completeness auto
termination
  by (relation "measure (\<lambda>(s, kw, i). Suc (length s) - i)") (auto dest: find_sub_bound)

declare scan_keyword_from.simps [simp del]

definition scan_keyword_kind :: "string \<Rightarrow> string \<Rightarrow> keyword_constant list" where
  "scan_keyword_kind stripped kw = scan_keyword_from stripped kw 0"

definition scan_keyword_constants :: "string \<Rightarrow> keyword_constant list" where
  "scan_keyword_constants source =
     (let stripped = strip_comments source in
      concat (map (scan_keyword_kind stripped) [''constant'', ''immutable'']))"

definition is_simple_literal :: "string \<Rightarrow> bool" where
  "is_simple_literal s0 =
     (let s = trim s0 in
      if s = [] then False
      else if starts_with s [DQ] \<and> ends_with s [DQ] then True
      else if starts_with s [SQ] \<and> ends_with s [SQ] then True
      else if starts_with s ''0x'' then list_all is_hexdigit (drop 2 s)
      else if s = ''address(0)'' \<or> s = ''address(this)'' then True
      else if list_all (\<lambda>c. is_digit c \<or> c \<in> {CHR ''_'', CHR ''e'', CHR ''E''}) s then True
      else
        (case split_once s '' '' of
           Some (num, unit) \<Rightarrow>
             list_all (\<lambda>c. is_digit c \<or> c = CHR ''_'') (trim num)
             \<and> trim unit \<in> {''wei'', ''gwei'', ''ether'', ''seconds'', ''minutes'', ''hours'', ''days'', ''weeks''}
         | None \<Rightarrow> s = ''true'' \<or> s = ''false''))"

text \<open>The walk back over the bytes before a position, given last byte first.\<close>

fun enclosing_scan :: "int \<Rightarrow> string \<Rightarrow> bool" where
  "enclosing_scan d [] = False"
| "enclosing_scan d (c # s) =
     (if c = CHR ''}'' then enclosing_scan (d - 1) s
      else if c = CHR ''{'' then (if 2 \<le> d + 1 then True else enclosing_scan (d + 1) s)
      else enclosing_scan d s)"

definition is_inside_function_body :: "string \<Rightarrow> nat \<Rightarrow> bool" where
  "is_inside_function_body stripped pos = enclosing_scan 0 (rev (take pos stripped))"

function declaration_literal_from :: "string \<Rightarrow> string \<Rightarrow> nat \<Rightarrow> string option" where
  "declaration_literal_from s v i =
     (let needle = '' '' @ v @ '' '' in
      if length s \<le> i + length needle then None
      else
        (case find_sub (drop i s) needle of
           None \<Rightarrow> None
         | Some rel \<Rightarrow>
             (let after = i + rel + length needle in
              if is_inside_function_body s (i + rel + 1) then declaration_literal_from s v after
              else
                (let tail = trim_start (drop after s) in
                 if \<not> starts_with tail ''='' then declaration_literal_from s v after
                 else
                   (let rhs = trim (trim_start_char (CHR ''='') tail) in
                    case find_top_level_semicolon rhs of
                      None \<Rightarrow> None
                    | Some e \<Rightarrow>
                        (let lit = trim (take e rhs) in
                         if is_simple_literal lit then Some lit else None))))))"
  by pat_completeness auto
termination
  by (relation "measure (\<lambda>(s, v, i). Suc (length s) - i)") (auto dest: find_sub_bound)

declare declaration_literal_from.simps [simp del]

definition declaration_literal :: "string \<Rightarrow> string \<Rightarrow> string option" where
  "declaration_literal source v = declaration_literal_from (strip_comments source) v 0"

section \<open>Writes\<close>

function writes_scan :: "string \<Rightarrow> string \<Rightarrow> nat \<Rightarrow> bool option" where
  "writes_scan body v i =
     (let n = length v in
      if length body < i + n then Some False
      else if \<not> is_word_boundary_at body i n then writes_scan body v (i + 1)
      else if take n (drop i body) \<noteq> v then writes_scan body v (i + 1)
      else
        (let j = skip_ws body (i + n) in
         if length body \<le> j then Some False
         else if two_at body j (CHR ''+'') (CHR ''+'') then Some True
         else if two_at body j (CHR ''-'') (CHR ''-'') then Some True
         else if body ! j = CHR ''='' then
           (if j + 1 < length body \<and> (body ! (j + 1) = CHR ''='' \<or> body ! (j + 1) = CHR ''>'')
            then writes_scan body v (j + 1) else Some True)
         else if body ! j \<in> {CHR ''+'', CHR ''-'', CHR ''*'', CHR ''/'', CHR ''%''}
              \<and> j + 1 < length body \<and> body ! (j + 1) = CHR ''=''
         then Some True
         else if j = i then None
         else writes_scan body v j))"
  by pat_completeness auto
termination
proof (relation "measure (\<lambda>(body, v, i). Suc (length body) - i)", goal_cases)
  case 1
  then show ?case by simp
next
  case (4 body v i n j)
  then show ?case using skip_ws_ge[of "i + n" body] by auto
next
  case (5 body v i n j)
  then show ?case using skip_ws_ge[of "i + n" body] by auto
qed auto

declare writes_scan.simps [simp del]

definition body_writes_to :: "string \<Rightarrow> string \<Rightarrow> bool option" where
  "body_writes_to body v = writes_scan body v 0"

datatype write_polarity = Increment | Decrement | Overwrite

text \<open>The write that follows an occurrence of the name whose operator starts at \<open>j\<close>, with the index
  where the scan goes on.\<close>

definition postfix_write :: "string \<Rightarrow> nat \<Rightarrow> (write_polarity \<times> nat) option" where
  "postfix_write body j =
     (if length body \<le> j + 1 then None
      else if two_at body j (CHR ''+'') (CHR ''+'') then Some (Increment, j + 2)
      else if two_at body j (CHR ''-'') (CHR ''-'') then Some (Decrement, j + 2)
      else if two_at body j (CHR ''+'') (CHR ''='') then Some (Increment, j + 2)
      else if two_at body j (CHR ''-'') (CHR ''='') then Some (Decrement, j + 2)
      else if body ! j \<in> {CHR ''*'', CHR ''/'', CHR ''%''} \<and> body ! (j + 1) = CHR ''='' then Some (Overwrite, j + 2)
      else if body ! j = CHR ''='' \<and> body ! (j + 1) \<noteq> CHR ''='' \<and> body ! (j + 1) \<noteq> CHR ''>'' then Some (Overwrite, j + 1)
      else None)"

definition prefix_write :: "string \<Rightarrow> nat \<Rightarrow> write_polarity option" where
  "prefix_write body i =
     (if i < 2 then None
      else if body ! (i - 1) = CHR ''+'' \<and> body ! (i - 2) = CHR ''+'' then Some Increment
      else if body ! (i - 1) = CHR ''-'' \<and> body ! (i - 2) = CHR ''-'' then Some Decrement
      else None)"

lemma postfix_write_ge: "postfix_write body j = Some (p, k) \<Longrightarrow> j < k"
  by (auto simp: postfix_write_def split: if_splits)

function polarities_from :: "string \<Rightarrow> string \<Rightarrow> nat \<Rightarrow> write_polarity list option" where
  "polarities_from body v i =
     (let n = length v in
      if length body < i + n then Some []
      else if \<not> is_word_boundary_at body i n \<or> take n (drop i body) \<noteq> v then polarities_from body v (i + 1)
      else
        (case postfix_write body (skip_ws body (i + n)) of
           Some (p, k) \<Rightarrow> map_option (Cons p) (polarities_from body v k)
         | None \<Rightarrow>
             (if n = 0 then None
              else (case prefix_write body i of
                      Some p \<Rightarrow> map_option (Cons p) (polarities_from body v (i + n))
                    | None \<Rightarrow> polarities_from body v (i + n)))))"
  by pat_completeness auto
termination
proof (relation "measure (\<lambda>(body, v, i). Suc (length body) - i)", goal_cases)
  case 1
  then show ?case by simp
next
  case (5 body v i n pk p k)
  then have "skip_ws body (i + n) < k" using postfix_write_ge by metis
  with 5(2) skip_ws_ge[of "i + n" body] show ?case by auto
qed (auto simp flip: length_greater_0_conv)

declare polarities_from.simps [simp del]

definition scan_polarities :: "string \<Rightarrow> string \<Rightarrow> write_polarity list option" where
  "scan_polarities body v = polarities_from body v 0"

section \<open>Constructors and functions\<close>

definition project_to_original :: "string \<Rightarrow> nat \<Rightarrow> nat option" where
  "project_to_original original stripped_idx =
     (case project_index original stripped_idx of
        Some i \<Rightarrow> if i < length original then Some i else None
      | None \<Rightarrow> None)"

definition constructor_body :: "string \<Rightarrow> string option option" where
  "constructor_body source =
     (case find_sub (strip_comments source) ''constructor'' of
        None \<Rightarrow> Some None
      | Some idx \<Rightarrow>
          (case project_to_original source idx of
             None \<Rightarrow> Some None
           | Some original_idx \<Rightarrow>
               (case slice_from source original_idx of
                  None \<Rightarrow> None
                | Some from0 \<Rightarrow>
                    (case find_body_open from0 of
                       None \<Rightarrow> Some None
                     | Some op \<Rightarrow>
                         (let body_open = original_idx + op in
                          case match_brace source body_open of
                            None \<Rightarrow> Some None
                          | Some body_close \<Rightarrow>
                              (if body_close \<le> body_open + 1 then Some (Some [])
                               else Some (Some (take (body_close - (body_open + 1)) (drop (body_open + 1) source)))))))))"

text \<open>The loops over function names that keep those for which a test holds, and the runs that end
  without a value.\<close>

fun filter_opt :: "('a \<Rightarrow> bool option) \<Rightarrow> 'a list \<Rightarrow> 'a list option" where
  "filter_opt p [] = Some []"
| "filter_opt p (x # xs) = do { b \<leftarrow> p x; ys \<leftarrow> filter_opt p xs; Some (if b then x # ys else ys) }"

fun concat_opt :: "('a \<Rightarrow> 'b list option) \<Rightarrow> 'a list \<Rightarrow> 'b list option" where
  "concat_opt f [] = Some []"
| "concat_opt f (x # xs) = do { ys \<leftarrow> f x; zs \<leftarrow> concat_opt f xs; Some (ys @ zs) }"

definition test_body :: "string \<Rightarrow> (string \<Rightarrow> bool option) \<Rightarrow> string \<Rightarrow> bool option" where
  "test_body source test name =
     do { b \<leftarrow> body_for name source; (case b of None \<Rightarrow> Some False | Some body \<Rightarrow> test body) }"

definition writers_of :: "string \<Rightarrow> string \<Rightarrow> string list option" where
  "writers_of source v = do {
     cb \<leftarrow> constructor_body source;
     ctor \<leftarrow> (case cb of None \<Rightarrow> Some False | Some body \<Rightarrow> body_writes_to body v);
     sigs \<leftarrow> extract_signatures source;
     ws \<leftarrow> filter_opt (test_body source (\<lambda>body. body_writes_to body v)) (map fs_name sigs);
     Some ((if ctor then [''constructor''] else []) @ ws)
   }"

definition polarities_in :: "string \<Rightarrow> string \<Rightarrow> string \<Rightarrow> (string \<times> write_polarity) list option" where
  "polarities_in source v name = do {
     b \<leftarrow> body_for name source;
     (case b of None \<Rightarrow> Some [] | Some body \<Rightarrow> map_option (map (Pair name)) (scan_polarities body v))
   }"

definition writer_polarities :: "string \<Rightarrow> string \<Rightarrow> (string \<times> write_polarity) list option" where
  "writer_polarities source v = do {
     cb \<leftarrow> constructor_body source;
     ctor \<leftarrow> (case cb of None \<Rightarrow> Some [] | Some body \<Rightarrow> scan_polarities body v);
     sigs \<leftarrow> extract_signatures source;
     ws \<leftarrow> concat_opt (polarities_in source v) (map fs_name sigs);
     Some (map (Pair ''constructor'') ctor @ ws)
   }"

definition signature_for :: "string \<Rightarrow> string \<Rightarrow> function_signature option option" where
  "signature_for source name =
     map_option (\<lambda>sigs. List.find (\<lambda>s. fs_name s = name) sigs) (extract_signatures source)"

definition is_externally_callable :: "function_signature \<Rightarrow> bool" where
  "is_externally_callable s \<longleftrightarrow> fs_visibility s = ''external'' \<or> fs_visibility s = ''public''"

definition external_writers_of :: "string \<Rightarrow> string \<Rightarrow> string list option" where
  "external_writers_of source v = do {
     sigs \<leftarrow> extract_signatures source;
     filter_opt (test_body source (\<lambda>body. body_writes_to body v))
       (map fs_name (filter is_externally_callable sigs))
   }"

definition forward_arg_names :: "string \<Rightarrow> string" where
  "forward_arg_names args_paren =
     (let t = trim args_paren;
          inner = (if starts_with t ''('' \<and> ends_with (drop 1 t) '')'' then butlast (drop 1 t) else t)
      in join '', '' (List.map_filter (\<lambda>p. (let w = split_whitespace (trim p) in
                                             if trim p = [] \<or> w = [] then None else Some (List.last w)))
                       (split_char (CHR '','') inner)))"

section \<open>Modifiers\<close>

text \<open>Where the modifiers end: the first brace or semicolon outside parentheses, or the end of the text.\<close>

fun mods_end :: "int \<Rightarrow> string \<Rightarrow> nat" where
  "mods_end d [] = 0"
| "mods_end d (c # s) =
     (if c = CHR ''('' then Suc (mods_end (d + 1) s)
      else if c = CHR '')'' then Suc (mods_end (d - 1) s)
      else if (c = CHR ''{'' \<or> c = CHR '';'') \<and> d = 0 then 0
      else Suc (mods_end d s))"

definition reserved_modifiers :: "string list" where
  "reserved_modifiers =
     [''external'', ''public'', ''internal'', ''private'', ''view'', ''pure'', ''payable'', ''nonpayable'',
      ''constant'', ''virtual'', ''override'', ''returns'']"

function parse_modifiers_from :: "string \<Rightarrow> nat \<Rightarrow> string list" where
  "parse_modifiers_from s i =
     (let start = skip_while (\<lambda>c. \<not> is_ident c) s i in
      if length s \<le> start then []
      else
        (let stop = skip_while is_ident s start;
             ident = take (stop - start) (drop start s);
             k = skip_ws s stop;
             next = (if k < length s \<and> s ! k = CHR ''('' then
                       (case match_paren s k of Some e \<Rightarrow> e + 1 | None \<Rightarrow> k)
                     else k);
             rest = parse_modifiers_from s next
         in if ident \<in> set reserved_modifiers then rest else ident # rest))"
  by pat_completeness auto
termination
proof (relation "measure (\<lambda>(s, i). length s - i)", goal_cases)
  case 1
  then show ?case by simp
next
  case (2 s i start stop ident k nxt)
  have st: "i \<le> start" "start < length s" using 2(1,2) skip_while_ge by simp_all
  then have "is_ident (s ! start)"
    using skip_while_stop[of "\<lambda>c. \<not> is_ident c" s i] 2(1) by simp
  then have "start < stop" using skip_while_progress[of start s is_ident] st(2) 2(3) by simp
  moreover have "stop \<le> k" using 2(5) skip_ws_ge by simp
  moreover have "k \<le> nxt" using 2(6) by (auto split: option.splits dest: match_paren_ge)
  ultimately show ?case using st by simp
qed

declare parse_modifiers_from.simps [simp del]

definition parse_modifier_list :: "string \<Rightarrow> string list" where
  "parse_modifier_list s = parse_modifiers_from s 0"

definition modifiers_of :: "string \<Rightarrow> string \<Rightarrow> string list" where
  "modifiers_of fn_name source =
     (let stripped = strip_comments source; needle = ''function '' @ fn_name in
      case find_sub stripped needle of
        None \<Rightarrow> []
      | Some rel \<Rightarrow>
          (let i = skip_ws stripped (rel + length needle) in
           if length stripped \<le> i \<or> stripped ! i \<noteq> CHR ''('' then []
           else (case match_paren stripped i of
                   None \<Rightarrow> []
                 | Some args_end \<Rightarrow>
                     (let r = drop (args_end + 1) stripped in parse_modifier_list (take (mods_end 0 r) r)))))"

section \<open>Mapping operations\<close>

record mapping_op =
  mo_mapping :: string
  mo_index :: string
  mo_op :: string
  mo_operand :: string

function mapping_ops_from :: "string \<Rightarrow> nat \<Rightarrow> mapping_op list" where
  "mapping_ops_from body i =
     (let id_start = skip_while (\<lambda>c. \<not> is_ident c) body i in
      if length body \<le> id_start then []
      else
        (let id_end = skip_while is_ident body id_start; j = skip_ws body id_end in
         if length body \<le> j \<or> body ! j \<noteq> CHR ''['' then mapping_ops_from body id_end
         else
           (case match_bracket body j of
              None \<Rightarrow> mapping_ops_from body (j + 1)
            | Some bracket_close \<Rightarrow>
                (let k = skip_ws body (bracket_close + 1) in
                 if length body \<le> k + 1 then mapping_ops_from body (bracket_close + 1)
                 else if take 2 (drop k body) \<notin> {''+='', ''-=''} then mapping_ops_from body (bracket_close + 1)
                 else
                   (let m = skip_ws body (k + 2) in
                    case find_sub (drop m body) '';'' of
                      None \<Rightarrow> mapping_ops_from body m
                    | Some semi_rel \<Rightarrow>
                        \<lparr>mo_mapping = take (id_end - id_start) (drop id_start body),
                         mo_index = trim (take (bracket_close - (j + 1)) (drop (j + 1) body)),
                         mo_op = take 2 (drop k body),
                         mo_operand = trim (take semi_rel (drop m body))\<rparr>
                        # mapping_ops_from body (m + semi_rel + 1))))))"
  by pat_completeness auto
termination
proof -
  have id: "i < skip_while is_ident body (skip_while (\<lambda>c. \<not> is_ident c) body i)"
    if "\<not> length body \<le> skip_while (\<lambda>c. \<not> is_ident c) body i" for body i
    using skip_while_stop[of "\<lambda>c. \<not> is_ident c" body i] that
      skip_while_progress[of "skip_while (\<lambda>c. \<not> is_ident c) body i" body is_ident]
      skip_while_ge[of i "\<lambda>c. \<not> is_ident c" body] by simp
  have lt: "i < length body" if "\<not> length body \<le> skip_while (\<lambda>c. \<not> is_ident c) body i" for body i
    using that skip_while_ge[of i "\<lambda>c. \<not> is_ident c" body] by simp
  have dec: "length body - k < length body - i"
    if "\<not> length body \<le> skip_while (\<lambda>c. \<not> is_ident c) body i"
      and "skip_while is_ident body (skip_while (\<lambda>c. \<not> is_ident c) body i) \<le> k" for body i k
    using id[OF that(1)] lt[OF that(1)] that(2) by linarith
  show ?thesis
  proof (relation "measure (\<lambda>(body, i). length body - i)", goal_cases)
    case 1
    then show ?case by simp
  next
    case (2 body i id_start id_end j)
    then show ?case using dec[of body i id_end] by simp
  next
    case (3 body i id_start id_end j)
    then show ?case using dec[of body i "j + 1"] skip_ws_ge[of id_end body] by simp
  next
    case (4 body i id_start id_end j cl k)
    then show ?case using dec[of body i "cl + 1"] skip_ws_ge[of id_end body] match_bracket_ge[OF 4(6)] by simp
  next
    case (5 body i id_start id_end j cl k)
    then show ?case using dec[of body i "cl + 1"] skip_ws_ge[of id_end body] match_bracket_ge[OF 5(6)] by simp
  next
    case (6 body i id_start id_end j cl k m)
    then show ?case
      using dec[of body i m] skip_ws_ge[of id_end body] match_bracket_ge[OF 6(6)]
        skip_ws_ge[of "cl + 1" body] skip_ws_ge[of "k + 2" body] by simp
  next
    case (7 body i id_start id_end j cl k m semi)
    then show ?case
      using dec[of body i "m + semi + 1"] skip_ws_ge[of id_end body] match_bracket_ge[OF 7(6)]
        skip_ws_ge[of "cl + 1" body] skip_ws_ge[of "k + 2" body] by simp
  qed
qed

declare mapping_ops_from.simps [simp del]

definition scan_mapping_ops :: "string \<Rightarrow> mapping_op list" where
  "scan_mapping_ops body = mapping_ops_from body 0"

section \<open>Guards\<close>

definition mentions_gate :: "string \<Rightarrow> string \<Rightarrow> bool" where
  "mentions_gate expr gate \<longleftrightarrow>
     (let n = length gate in
      list_ex (\<lambda>i. take n (drop i expr) = gate \<and> is_word_boundary_at expr i n) [0..<length expr + 1 - n])"

function require_scan :: "string \<Rightarrow> string \<Rightarrow> nat \<Rightarrow> bool" where
  "require_scan body gate i =
     (if length body \<le> i + 8 then False
      else
        (case find_sub (drop i body) ''require('' of
           None \<Rightarrow> False
         | Some rel \<Rightarrow>
             (let op = i + rel + 7 in
              case match_paren body op of
                Some cl \<Rightarrow>
                  (if mentions_gate (take (cl - (op + 1)) (drop (op + 1) body)) gate then True
                   else require_scan body gate (cl + 1))
              | None \<Rightarrow> require_scan body gate (op + 1))))"
  by pat_completeness auto
termination
  by (relation "measure (\<lambda>(body, gate, i). length body - i)") (auto dest: match_paren_ge)

declare require_scan.simps [simp del]

definition contains_require_with :: "string \<Rightarrow> string \<Rightarrow> bool" where
  "contains_require_with body gate = require_scan body gate 0"

text \<open>A slice of at most 200 bytes; it panics when it ends inside a character.\<close>

definition look_ahead :: "string \<Rightarrow> nat \<Rightarrow> string option" where
  "look_ahead body after =
     (let stop = min (length body) (after + 200) in
      if stop < length body \<and> is_cont (body ! stop) then None
      else Some (take (stop - after) (drop after body)))"

definition mentions_negated :: "string \<Rightarrow> string \<Rightarrow> bool" where
  "mentions_negated cond0 gate \<longleftrightarrow>
     starts_with cond0 ''!'' \<and> mentions_gate (drop 1 cond0) gate
     \<or> mentions_gate cond0 gate \<and> (contains cond0 ''== false'' \<or> contains cond0 ''== 0'')"

definition find_if :: "string \<Rightarrow> nat option" where
  "find_if s = (case find_sub s ''if ('' of Some n \<Rightarrow> Some n | None \<Rightarrow> find_sub s ''if('')"

function negated_scan :: "string \<Rightarrow> string \<Rightarrow> nat \<Rightarrow> bool option" where
  "negated_scan body gate i =
     (if length body \<le> i + 4 then Some False
      else
        (case find_if (drop i body) of
           None \<Rightarrow> Some False
         | Some rel \<Rightarrow>
             (let op = i + rel + (case find_sub (drop (i + rel) body) ''('' of Some n \<Rightarrow> n | None \<Rightarrow> 0) in
              case match_paren body op of
                None \<Rightarrow> negated_scan body gate (op + 1)
              | Some cl \<Rightarrow>
                  (if mentions_negated (trim (take (cl - (op + 1)) (drop (op + 1) body))) gate then
                     (case look_ahead body (cl + 1) of
                        None \<Rightarrow> None
                      | Some look \<Rightarrow>
                          (if contains look ''revert'' then Some True else negated_scan body gate (cl + 1)))
                   else negated_scan body gate (cl + 1)))))"
  by pat_completeness auto
termination
  by (relation "measure (\<lambda>(body, gate, i). length body - i)") (auto dest!: match_paren_ge)

declare negated_scan.simps [simp del]

definition contains_if_negated_revert :: "string \<Rightarrow> string \<Rightarrow> bool option" where
  "contains_if_negated_revert body gate = negated_scan body gate 0"

definition body_requires_gate :: "string \<Rightarrow> string \<Rightarrow> bool option" where
  "body_requires_gate body gate =
     (let stripped = strip_comments body in
      if contains_require_with stripped gate then Some True
      else contains_if_negated_revert stripped gate)"

definition external_requirers_of :: "string \<Rightarrow> string \<Rightarrow> string list option" where
  "external_requirers_of source gate = do {
     sigs \<leftarrow> extract_signatures source;
     filter_opt (test_body source (\<lambda>body. body_requires_gate body gate))
       (map fs_name (filter is_externally_callable sigs))
   }"

section \<open>What the scans for writes compute\<close>

definition occurs_at :: "string \<Rightarrow> string \<Rightarrow> nat \<Rightarrow> bool" where
  "occurs_at body v i \<longleftrightarrow>
     i + length v \<le> length body \<and> is_word_boundary_at body i (length v) \<and> take (length v) (drop i body) = v"

definition assigns :: "string \<Rightarrow> bool" where
  "assigns s \<longleftrightarrow>
     list_ex (starts_with s) [''++'', ''--'', ''+='', ''-='', ''*='', ''/='', ''%='']
     \<or> starts_with s ''='' \<and> \<not> starts_with s ''=='' \<and> \<not> starts_with s ''=>''"

definition assigned_at :: "string \<Rightarrow> string \<Rightarrow> nat \<Rightarrow> bool" where
  "assigned_at body v i \<longleftrightarrow> occurs_at body v i \<and> assigns (drop (skip_ws body (i + length v)) body)"

text \<open>The names the scans look for: identifiers.\<close>

definition is_name :: "string \<Rightarrow> bool" where
  "is_name v \<longleftrightarrow> v \<noteq> [] \<and> list_all is_ident v"

lemma ident_not_space: "is_ident c \<Longrightarrow> \<not> is_space c"
  by (auto simp: is_ident_def char_class_defs)

lemma occurs_char: "occurs_at body v i \<Longrightarrow> k < length v \<Longrightarrow> body ! (i + k) = v ! k"
  unfolding occurs_at_def by (metis add.commute nth_drop nth_take add_leD1)

lemma occurs_first: "is_name v \<Longrightarrow> occurs_at body v k \<Longrightarrow> k < length body \<and> is_ident (body ! k)"
  using occurs_char[of body v k 0] by (cases v) (auto simp: is_name_def occurs_at_def)

lemma occurs_gap:
  assumes "is_name v" "occurs_at body v i" "i < k" "k < skip_ws body (i + length v)"
  shows "\<not> occurs_at body v k"
proof
  assume k: "occurs_at body v k"
  show False
  proof (cases "k < i + length v")
    case True
    with assms(3) have m: "k - 1 - i < length v" "i + (k - 1 - i) = k - 1" by auto
    have "is_ident (body ! (k - 1))"
      using occurs_char[OF assms(2) m(1)] m assms(1) by (simp add: is_name_def list_all_length)
    with k assms(3) show False by (simp add: occurs_at_def is_word_boundary_at_def)
  next
    case False
    with assms(4) have "is_space (body ! k)" unfolding skip_ws_def by (intro skip_while_inside) auto
    with occurs_first[OF assms(1) k] show False by (auto dest: ident_not_space)
  qed
qed

lemma two_at_starts: "two_at s j a b \<longleftrightarrow> starts_with (drop j s) [a, b]"
proof (cases "j + 1 < length s")
  case True
  then have "drop j s = s ! j # s ! Suc j # drop (j + 2) s"
    by (metis Suc_eq_plus1 Suc_lessD add_2_eq_Suc' Cons_nth_drop_Suc)
  with True show ?thesis by (auto simp: two_at_def)
next
  case False
  then show ?thesis using starts_with_length[of "drop j s" "[a, b]"] by (auto simp: two_at_def)
qed

lemma eq_at_starts: "j < length s \<Longrightarrow> (s ! j = a) = starts_with (drop j s) [a]"
  by (cases "drop j s") (auto simp: nth_via_drop)

lemma assigns_at:
  assumes "j < length body"
  shows "assigns (drop j body) \<longleftrightarrow>
    two_at body j (CHR ''+'') (CHR ''+'') \<or> two_at body j (CHR ''-'') (CHR ''-'')
    \<or> (body ! j = CHR ''='' \<and> \<not> (j + 1 < length body \<and> (body ! (j + 1) = CHR ''='' \<or> body ! (j + 1) = CHR ''>'')))
    \<or> (body ! j \<in> {CHR ''+'', CHR ''-'', CHR ''*'', CHR ''/'', CHR ''%''} \<and> j + 1 < length body \<and> body ! (j + 1) = CHR ''='')"
  unfolding assigns_def using eq_at_starts[OF assms, of "CHR ''=''"]
  by (auto simp: two_at_starts[symmetric] two_at_def)

lemma ex_ge_Suc: "(\<exists>k\<ge>i. P k) = (P i \<or> (\<exists>k\<ge>i + 1. P (k::nat)))"
proof
  assume "\<exists>k\<ge>i. P k"
  then obtain k where "i \<le> k" "P k" by blast
  then show "P i \<or> (\<exists>k\<ge>i + 1. P k)" by (cases "k = i") auto
qed (use le_add1 le_trans in blast)

lemma ex_ge_skip:
  assumes "i \<le> m" "\<And>k. i \<le> k \<Longrightarrow> k < m \<Longrightarrow> \<not> P (k::nat)"
  shows "(\<exists>k\<ge>i. P k) = (\<exists>k\<ge>m. P k)"
  using assms by (metis le_trans not_less)

lemma writes_scan_step:
  "writes_scan body v i =
     (let j = skip_ws body (i + length v) in
      if length body < i + length v then Some False
      else if \<not> occurs_at body v i then writes_scan body v (i + 1)
      else if length body \<le> j then Some False
      else if assigns (drop j body) then Some True
      else if body ! j = CHR ''='' then writes_scan body v (j + 1)
      else if j = i then None else writes_scan body v j)"
proof (cases "length body \<le> skip_ws body (i + length v)")
  case True
  then show ?thesis by (subst writes_scan.simps) (simp add: Let_def occurs_at_def)
next
  case False
  then have j: "skip_ws body (i + length v) < length body" by simp
  show ?thesis
    unfolding Let_def assigns_at[OF j]
    by (subst writes_scan.simps, unfold Let_def) (auto simp: occurs_at_def)
qed

lemma occurs_later:
  assumes "is_name v" "occurs_at body v i" "skip_ws body (i + length v) \<le> m"
    and "\<And>k. skip_ws body (i + length v) \<le> k \<Longrightarrow> k < m \<Longrightarrow> \<not> is_ident (body ! k)"
  shows "i + 1 \<le> m" "\<And>k. i + 1 \<le> k \<Longrightarrow> k < m \<Longrightarrow> \<not> occurs_at body v k"
proof -
  show "i + 1 \<le> m"
    using assms(1,3) skip_ws_ge[of "i + length v" body] by (cases v) (auto simp: is_name_def)
  show "\<not> occurs_at body v k" if "i + 1 \<le> k" "k < m" for k
    using occurs_gap[OF assms(1,2), of k] assms(4)[of k] occurs_first[OF assms(1), of body k] that
    by (cases "skip_ws body (i + length v) \<le> k") auto
qed

lemma writes_scan_spec:
  assumes "is_name v"
  shows "writes_scan body v i = Some (\<exists>k\<ge>i. assigned_at body v k)"
proof (induction "Suc (length body) - i" arbitrary: i rule: less_induct)
  case less
  let ?j = "skip_ws body (i + length v)"
  have ij: "i + length v \<le> ?j" by (rule skip_ws_ge)
  then have lt: "i < ?j" using assms by (cases v) (auto simp: is_name_def)
  have jump: "writes_scan body v m = Some (\<exists>k\<ge>i. assigned_at body v k)"
    if "i < m" "i \<le> length body" "\<And>k. i \<le> k \<Longrightarrow> k < m \<Longrightarrow> \<not> assigned_at body v k" for m
    using less[of m] ex_ge_skip[of i m "assigned_at body v"] that by simp
  show ?case
  proof (cases "occurs_at body v i")
    case False
    then have na: "\<not> assigned_at body v i" by (simp add: assigned_at_def)
    show ?thesis
    proof (cases "length body < i + length v")
      case True
      then have "\<not> assigned_at body v k" if "i \<le> k" for k
        using that by (auto simp: assigned_at_def occurs_at_def)
      with True show ?thesis by (subst writes_scan_step) (auto simp: Let_def)
    next
      case f: False
      have "writes_scan body v (i + 1) = Some (\<exists>k\<ge>i. assigned_at body v k)"
        using f na by (intro jump) (auto simp: le_less_Suc_eq)
      with f False show ?thesis by (subst writes_scan_step) (simp add: Let_def)
    qed
  next
    case o: True
    then have il: "i + length v \<le> length body" by (simp add: occurs_at_def)
    have gone: "\<not> assigned_at body v k" if "i \<le> k" "k < m" "?j \<le> m" "\<not> assigns (drop ?j body)"
      "\<And>k. ?j \<le> k \<Longrightarrow> k < m \<Longrightarrow> \<not> is_ident (body ! k)" for k m
      using occurs_later(2)[OF assms o, of m k] that by (cases "k = i") (auto simp: assigned_at_def)
    show ?thesis
    proof (cases "length body \<le> ?j")
      case l: True
      have "\<not> assigned_at body v k" if "i \<le> k" for k
      proof (cases "k < ?j")
        case True
        with gone[of k ?j] l that show ?thesis by (auto simp: assigns_def)
      next
        case False
        with l occurs_first[OF assms, of body k] show ?thesis by (auto simp: assigned_at_def)
      qed
      with o l il show ?thesis by (subst writes_scan_step) (auto simp: Let_def)
    next
      case l: False
      show ?thesis
      proof (cases "assigns (drop ?j body)")
        case True
        with o have "assigned_at body v i" by (simp add: assigned_at_def)
        with True o l il show ?thesis by (subst writes_scan_step) (auto simp: Let_def)
      next
        case n: False
        show ?thesis
        proof (cases "body ! ?j = CHR ''=''")
          case eq: True
          then have "\<not> is_ident (body ! ?j)" by (simp add: is_ident_def char_class_defs)
          then have "writes_scan body v (?j + 1) = Some (\<exists>k\<ge>i. assigned_at body v k)"
            using n lt il gone[of _ "?j + 1"] by (intro jump) (auto simp: le_less_Suc_eq)
          with eq n o l il show ?thesis by (subst writes_scan_step) (simp add: Let_def)
        next
          case ne: False
          have "writes_scan body v ?j = Some (\<exists>k\<ge>i. assigned_at body v k)"
            using n lt il gone[of _ ?j] by (intro jump) auto
          with ne n o l il lt show ?thesis by (subst writes_scan_step) (simp add: Let_def)
        qed
      qed
    qed
  qed
qed

text \<open>The polarity of the write at an occurrence of the name.\<close>

definition polarity_at :: "string \<Rightarrow> string \<Rightarrow> nat \<Rightarrow> write_polarity option" where
  "polarity_at body v i =
     (if \<not> occurs_at body v i then None
      else (case postfix_write body (skip_ws body (i + length v)) of
              Some (p, k) \<Rightarrow> Some p
            | None \<Rightarrow> prefix_write body i))"

text \<open>Where the scan goes on after an occurrence.\<close>

definition scan_next :: "string \<Rightarrow> string \<Rightarrow> nat \<Rightarrow> nat" where
  "scan_next body v i =
     (case postfix_write body (skip_ws body (i + length v)) of Some (p, k) \<Rightarrow> k | None \<Rightarrow> i + length v)"

lemma polarities_step:
  assumes "v \<noteq> []"
  shows "polarities_from body v i =
     (if length body < i + length v then Some []
      else if \<not> occurs_at body v i then polarities_from body v (i + 1)
      else
        (case polarity_at body v i of
           Some p \<Rightarrow> map_option (Cons p) (polarities_from body v (scan_next body v i))
         | None \<Rightarrow> polarities_from body v (scan_next body v i)))"
  using assms
  by (subst polarities_from.simps, unfold Let_def polarity_at_def scan_next_def)
    (auto simp: occurs_at_def split: option.splits prod.splits)

lemma postfix_write_ops:
  assumes "postfix_write body j = Some (p, k)"
  shows "k \<le> length body" "\<And>m. j \<le> m \<Longrightarrow> m < k \<Longrightarrow> \<not> is_ident (body ! m)"
proof -
  have k: "k = j + 1 \<or> k = j + 2 \<and> \<not> is_ident (body ! (j + 1))" "\<not> is_ident (body ! j)" "j + 1 < length body"
    using assms by (auto simp: postfix_write_def two_at_def is_ident_def char_class_defs split: if_splits)
  then show "k \<le> length body" by auto
  show "\<not> is_ident (body ! m)" if "j \<le> m" "m < k" for m
    using k that by (cases "m = j"; cases "m = j + 1") auto
qed

lemma map_filter_skip:
  assumes "i \<le> m" "m \<le> n" "\<And>k. i \<le> k \<Longrightarrow> k < m \<Longrightarrow> f k = None"
  shows "List.map_filter f [i..<n] = List.map_filter f [m..<n]"
proof -
  have "[i..<n] = [i..<m] @ [m..<n]" using assms(1,2) by (metis le_add_diff_inverse upt_add_eq_append)
  moreover have "List.map_filter f [i..<m] = []" using assms(3) by (auto simp: List.map_filter_def filter_empty_conv)
  ultimately show ?thesis by (simp add: List.map_filter_def)
qed

lemma scan_next_bounds:
  assumes "is_name v" "occurs_at body v i"
  shows "i < scan_next body v i" "scan_next body v i \<le> length body"
    "\<And>m. i < m \<Longrightarrow> m < scan_next body v i \<Longrightarrow> \<not> occurs_at body v m"
proof -
  let ?j = "skip_ws body (i + length v)"
  have "i < scan_next body v i \<and> scan_next body v i \<le> length body
      \<and> (\<forall>m. i < m \<longrightarrow> m < scan_next body v i \<longrightarrow> \<not> occurs_at body v m)"
  proof (cases "postfix_write body ?j")
    case None
    then have n: "scan_next body v i = i + length v" by (simp add: scan_next_def)
    have "\<not> occurs_at body v m" if "i < m" "m < i + length v" for m
      using occurs_gap[OF assms, of m] that skip_ws_ge[of "i + length v" body] by simp
    with n assms show ?thesis by (auto simp: occurs_at_def is_name_def)
  next
    case (Some pk)
    then obtain p k where pk: "postfix_write body ?j = Some (p, k)" by (cases pk) auto
    note ops = postfix_write_ops[OF pk] postfix_write_ge[OF pk]
    have later: "i + 1 \<le> k" "\<And>m. i + 1 \<le> m \<Longrightarrow> m < k \<Longrightarrow> \<not> occurs_at body v m"
      using occurs_later[OF assms, of k] ops by auto
    with pk ops(1) show ?thesis by (simp add: scan_next_def)
  qed
  then show "i < scan_next body v i" "scan_next body v i \<le> length body"
    "\<And>m. i < m \<Longrightarrow> m < scan_next body v i \<Longrightarrow> \<not> occurs_at body v m"
    by blast+
qed

lemma polarities_from_spec:
  assumes "is_name v"
  shows "polarities_from body v i = Some (List.map_filter (polarity_at body v) [i..<length body])"
proof (induction "Suc (length body) - i" arbitrary: i rule: less_induct)
  case less
  let ?j = "skip_ws body (i + length v)"
  let ?k = "scan_next body v i"
  have v: "v \<noteq> []" using assms by (simp add: is_name_def)
  show ?case
  proof (cases "i + length v \<le> length body")
    case short: False
    then have "polarity_at body v k = None" if "i \<le> k" for k
      using that by (auto simp: polarity_at_def occurs_at_def)
    then have "List.map_filter (polarity_at body v) [i..<length body] = []"
      by (auto simp: List.map_filter_def filter_empty_conv)
    with short show ?thesis by (subst polarities_step[OF v]) auto
  next
    case il: True
    with v have ib: "i < length body" by (cases v) auto
    show ?thesis
    proof (cases "occurs_at body v i")
      case False
      then have "polarity_at body v i = None" by (simp add: polarity_at_def)
      then have "List.map_filter (polarity_at body v) [i..<length body]
          = List.map_filter (polarity_at body v) [i + 1..<length body]"
        using ib by (intro map_filter_skip) (auto simp: le_less_Suc_eq)
      with False il ib less[of "i + 1"] show ?thesis by (subst polarities_step[OF v]) auto
    next
      case o: True
      note k = scan_next_bounds[OF assms o]
      have none: "polarity_at body v m = None" if "i + 1 \<le> m" "m < ?k" for m
        using k(3)[of m] that by (simp add: polarity_at_def)
      have "List.map_filter (polarity_at body v) [i + 1..<length body]
          = List.map_filter (polarity_at body v) [?k..<length body]"
        using none k(1,2) by (intro map_filter_skip) auto
      moreover have "List.map_filter (polarity_at body v) [i..<length body] =
          (case polarity_at body v i of Some p \<Rightarrow> [p] | None \<Rightarrow> [])
          @ List.map_filter (polarity_at body v) [i + 1..<length body]"
        using ib by (simp add: upt_conv_Cons List.map_filter_simps split: option.splits)
      moreover have "polarities_from body v ?k = Some (List.map_filter (polarity_at body v) [?k..<length body])"
        using less[of ?k] k(1,2) by simp
      ultimately show ?thesis
        using o il by (subst polarities_step[OF v]) (simp add: Let_def split: option.split)
    qed
  qed
qed

section \<open>Totality on ASCII\<close>

abbreviation ascii :: "string \<Rightarrow> bool" where
  "ascii s \<equiv> list_all is_ascii s"

lemma ascii_drop [intro]: "ascii s \<Longrightarrow> ascii (drop n s)" "ascii s \<Longrightarrow> ascii (take n s)"
  by (auto simp: list_all_iff dest: in_set_dropD in_set_takeD)

lemma ascii_dropWhile [intro]: "ascii s \<Longrightarrow> ascii (dropWhile P s)"
  by (auto simp: list_all_iff dest: set_dropWhileD)

lemma ascii_skip_block: "ascii s \<Longrightarrow> ascii (skip_block s)"
  by (induction s rule: skip_block.induct) auto

lemma ascii_strip_comments: "ascii s \<Longrightarrow> ascii (strip_comments s)"
proof (induction s rule: strip_comments.induct)
  case (2 c s)
  have "ascii (dropWhile (\<lambda>x. x \<noteq> NL) s)" "ascii (skip_block (drop 1 s))" "ascii s"
    using 2(4) ascii_skip_block by auto
  with 2 show ?case by (auto simp: push_byte_def)
qed simp

lemma ascii_slice: "ascii s \<Longrightarrow> i \<le> length s \<Longrightarrow> slice_from s i \<noteq> None"
  using ascii_drop(1)[of s i] by (cases "drop i s") (auto simp: slice_from_def ascii_not_cont)

lemma extract_loop_ascii: "ascii rest \<Longrightarrow> extract_loop rest \<noteq> None"
proof (induction "length rest" arbitrary: rest rule: less_induct)
  case less
  show ?case
  proof (cases "rest = []")
    case True
    then show ?thesis by (subst extract_loop.simps) simp
  next
    case ne: False
    have ih: "extract_loop (drop n rest) \<noteq> None" if "0 < n" for n
      using less ne that ascii_drop(1)[of rest n] by simp
    have "\<not> is_cont (hd rest)" using less(2) ne by (cases rest) (auto simp: ascii_not_cont)
    then show ?thesis
      using ne ih by (subst extract_loop.simps) (simp add: Let_def dropWhile_eq_drop split: option.split)
  qed
qed

lemma extract_signatures_ascii: "ascii source \<Longrightarrow> extract_signatures source \<noteq> None"
  by (simp add: extract_signatures_def extract_loop_ascii ascii_strip_comments)

lemma locate_from_bound: "locate_from f i rest = Some j \<Longrightarrow> i \<le> j \<and> j < i + length rest"
proof (induction f i rest rule: locate_from.induct)
  case (1 f i rest)
  show ?case
  proof (cases "length rest \<le> 9 \<or> find_sub rest ''function '' = None")
    case True
    with 1(2) show ?thesis by (subst (asm) locate_from.simps) (auto split: if_splits option.splits)
  next
    case False
    then obtain rel where r: "\<not> length rest \<le> 9" "find_sub rest ''function '' = Some rel" by auto
    have l: "rel + 9 \<le> length rest" using find_sub_bound[OF r(2)] by simp
    let ?w = "takeWhile is_ident (drop (rel + 9) rest)"
    have w: "length (dropWhile is_ident (drop (rel + 9) rest)) + length ?w = length rest - (rel + 9)"
      by (metis add.commute length_append length_drop takeWhile_dropWhile_id)
    show ?thesis
    proof (cases "?w = f")
      case True
      with 1(2) r l show ?thesis by (subst (asm) locate_from.simps) (auto simp: Let_def)
    next
      case n: False
      have "locate_from f (i + rel + 9 + length ?w) (dropWhile is_ident (drop (rel + 9) rest)) = Some j"
        using 1(2) r n by (subst (asm) locate_from.simps) (simp add: Let_def)
      from 1(1)[OF r refl refl n this] w l show ?thesis by linarith
    qed
  qed
qed

lemma drop_block_length: "drop (block_length s) s = skip_block s"
  by (induction s rule: skip_block.induct) auto

lemma project_from_ascii:
  "ascii s \<Longrightarrow> k < length (strip_comments s) \<Longrightarrow> \<exists>j. project_from k i s = Some j \<and> j < i + length s"
proof (induction k i s rule: project_from.induct)
  case (2 k i c s)
  consider "k = 0" | "0 < k" "starts_with (c # s) ''//''" | "0 < k" "\<not> starts_with (c # s) ''//''" "starts_with (c # s) ''/*''"
    | "0 < k" "\<not> starts_with (c # s) ''//''" "\<not> starts_with (c # s) ''/*''" by blast
  then show ?case
  proof cases
    case 1
    then show ?thesis by simp
  next
    case b: 2
    let ?n = "length (takeWhile (\<lambda>x. x \<noteq> NL) (c # s))"
    have d: "drop ?n (c # s) = dropWhile (\<lambda>x. x \<noteq> NL) s" using b by (simp add: dropWhile_eq_drop)
    have "?n \<le> length (c # s)" by (rule length_takeWhile_le)
    moreover have "ascii (drop ?n (c # s))" "k < length (strip_comments (drop ?n (c # s)))"
      unfolding d using 2(4,5) b by auto
    then obtain j where "project_from k (i + ?n) (drop ?n (c # s)) = Some j" "j < i + ?n + length (drop ?n (c # s))"
      using 2(1)[OF _ b(2) refl] b(1) by auto
    ultimately show ?thesis using b by (auto simp del: takeWhile.simps drop.simps simp: Let_def)
  next
    case b: 3
    let ?n = "2 + block_length (drop 1 s)"
    have d: "drop ?n (c # s) = skip_block (drop 1 s)"
      by (simp add: drop_block_length[symmetric] add.commute)
    have kl: "k < length (strip_comments (drop ?n (c # s)))" and as: "ascii (drop ?n (c # s))"
      using 2(4,5) b d by (auto simp: ascii_skip_block ascii_drop)
    then obtain j where j: "project_from k (i + ?n) (drop ?n (c # s)) = Some j" "j < i + ?n + length (drop ?n (c # s))"
      using 2(2)[OF _ b(2,3) refl as kl] b(1) by auto
    have "drop ?n (c # s) \<noteq> []" using kl by auto
    then have "?n \<le> length (c # s)" by simp
    with j b show ?thesis by (auto simp del: drop.simps simp: Let_def)
  next
    case b: 4
    have "push_byte c = [c]" using 2(4) by (simp add: push_byte_def)
    then have "k - 1 < length (strip_comments s)" using 2(5) b by auto
    then show ?thesis using 2(3)[OF _ b(2,3)] 2(4) b by auto
  qed
qed simp

lemma project_index_ascii:
  assumes "ascii s" "k < length (strip_comments s)" "project_index s k = Some j"
  shows "j < length s"
  using project_from_ascii[OF assms(1,2), of 0] assms(3) by (auto simp: project_index_def)

lemma ascii_body:
  assumes "ascii source"
  shows "body_for name source \<noteq> None" "\<And>b. body_for name source = Some (Some b) \<Longrightarrow> ascii b"
    "constructor_body source \<noteq> None" "\<And>b. constructor_body source = Some (Some b) \<Longrightarrow> ascii b"
proof -
  have p: "slice_from source i \<noteq> None" if "project_to_original source n = Some i" for n i
    using that ascii_slice[OF assms, of i] by (auto simp: project_to_original_def split: option.splits if_splits)
  have q: "slice_from source i \<noteq> None"
    if "locate_function (strip_comments source) name = Some n" "project_index source n = Some i" for n i
    using locate_from_bound[of name 0 "strip_comments source" n] project_index_ascii[OF assms, of n i] that
      ascii_slice[OF assms, of i] by (auto simp: locate_function_def)
  show "constructor_body source \<noteq> None"
    using p by (fastforce simp: constructor_body_def Let_def split: option.splits)
  show "body_for name source \<noteq> None"
    using q by (fastforce simp: body_for_def Let_def split: option.splits)
  show "ascii b" if "body_for name source = Some (Some b)" for b
    using assms that by (auto simp: body_for_def Let_def split: option.splits if_splits)
  show "ascii b" if "constructor_body source = Some (Some b)" for b
    using assms that by (auto simp: constructor_body_def Let_def split: option.splits if_splits)
qed

lemma writes_scan_total: "v \<noteq> [] \<Longrightarrow> writes_scan body v i \<noteq> None"
proof (induction "Suc (length body) - i" arbitrary: i rule: less_induct)
  case less
  let ?j = "skip_ws body (i + length v)"
  have lt: "i < ?j" using less(2) skip_ws_ge[of "i + length v" body] by (cases v) auto
  have ih: "writes_scan body v m \<noteq> None" if "i < m" "\<not> length body < i + length v" for m
    using less that by simp
  show ?case
    using lt ih[of "i + 1"] ih[of ?j] ih[of "?j + 1"]
    by (subst writes_scan_step) (auto simp: Let_def)
qed

lemma polarities_total: "v \<noteq> [] \<Longrightarrow> polarities_from body v i \<noteq> None"
proof (induction "Suc (length body) - i" arbitrary: i rule: less_induct)
  case less
  show ?case
  proof (cases "length body < i + length v")
    case True
    then show ?thesis by (subst polarities_step[OF less(2)]) simp
  next
    case False
    have "i < scan_next body v i"
      using less(2) skip_ws_ge[of "i + length v" body] postfix_write_ge[of body "skip_ws body (i + length v)"]
      by (cases v) (force simp: scan_next_def split: option.splits)+
    then have "polarities_from body v (scan_next body v i) \<noteq> None" "polarities_from body v (i + 1) \<noteq> None"
      using less(1)[of "scan_next body v i"] less(1)[of "i + 1"] less(2) False by auto
    then show ?thesis by (subst polarities_step[OF less(2)]) (auto split: option.splits)
  qed
qed

lemma negated_scan_ascii: "ascii body \<Longrightarrow> negated_scan body gate i \<noteq> None"
proof (induction "length body - i" arbitrary: i rule: less_induct)
  case less
  have l: "look_ahead body k \<noteq> None" for k
    using less(2) by (auto simp: look_ahead_def Let_def list_all_length dest!: ascii_not_cont)
  show ?case
  proof (cases "length body \<le> i + 4 \<or> find_if (drop i body) = None")
    case True
    then show ?thesis by (subst negated_scan.simps) (auto split: option.split)
  next
    case False
    then obtain rel where r: "\<not> length body \<le> i + 4" "find_if (drop i body) = Some rel" by auto
    let ?op = "i + rel + (case find_sub (drop (i + rel) body) ''('' of Some n \<Rightarrow> n | None \<Rightarrow> 0)"
    have ih: "negated_scan body gate m \<noteq> None" if "i < m" for m using less r(1) that by simp
    show ?thesis
    proof (cases "match_paren body ?op")
      case None
      with r ih[of "?op + 1"] show ?thesis by (subst negated_scan.simps) (simp add: Let_def)
    next
      case (Some cl)
      have "?op \<le> cl" by (rule match_paren_ge[OF Some])
      then have "negated_scan body gate (cl + 1) \<noteq> None" by (intro ih) linarith
      moreover obtain look where "look_ahead body (cl + 1) = Some look" using l by blast
      ultimately show ?thesis using r Some by (subst negated_scan.simps) (simp add: Let_def del: not_None_eq)
    qed
  qed
qed

lemma bind_total: "m \<noteq> None \<Longrightarrow> (\<And>x. m = Some x \<Longrightarrow> f x \<noteq> None) \<Longrightarrow> Option.bind m f \<noteq> None"
  by auto

lemma body_requires_gate_ascii: "ascii body \<Longrightarrow> body_requires_gate body gate \<noteq> None"
  unfolding body_requires_gate_def Let_def contains_if_negated_revert_def
  by (simp add: negated_scan_ascii ascii_strip_comments del: not_None_eq)

lemma filter_opt_total: "(\<And>x. x \<in> set xs \<Longrightarrow> p x \<noteq> None) \<Longrightarrow> filter_opt p xs \<noteq> None"
proof (induction xs)
  case (Cons x xs)
  then have "p x \<noteq> None" "filter_opt p xs \<noteq> None" by (simp_all del: not_None_eq)
  then show ?case by auto
qed simp

lemma concat_opt_total: "(\<And>x. x \<in> set xs \<Longrightarrow> f x \<noteq> None) \<Longrightarrow> concat_opt f xs \<noteq> None"
proof (induction xs)
  case (Cons x xs)
  then have "f x \<noteq> None" "concat_opt f xs \<noteq> None" by (simp_all del: not_None_eq)
  then show ?case by auto
qed simp

lemma test_body_total:
  "ascii source \<Longrightarrow> (\<And>b. ascii b \<Longrightarrow> test b \<noteq> None) \<Longrightarrow> test_body source test name \<noteq> None"
  using ascii_body(1,2)[of source name] unfolding test_body_def
  by (intro bind_total) (auto simp del: not_None_eq split: option.split)

lemma external_total:
  assumes "ascii source"
  shows "v \<noteq> [] \<Longrightarrow> external_writers_of source v \<noteq> None" "external_requirers_of source gate \<noteq> None"
proof -
  assume v: "v \<noteq> []"
  have t: "test_body source (\<lambda>body. body_writes_to body v) name \<noteq> None" for name
    using writes_scan_total[OF v] by (intro test_body_total[OF assms]) (simp add: body_writes_to_def)
  show "external_writers_of source v \<noteq> None"
    unfolding external_writers_of_def by (rule bind_total[OF extract_signatures_ascii[OF assms] filter_opt_total[OF t]])
next
  have t: "test_body source (\<lambda>body. body_requires_gate body gate) name \<noteq> None" for name
    by (intro test_body_total[OF assms] body_requires_gate_ascii)
  show "external_requirers_of source gate \<noteq> None"
    unfolding external_requirers_of_def by (rule bind_total[OF extract_signatures_ascii[OF assms] filter_opt_total[OF t]])
qed

lemma writers_total:
  assumes "ascii source" "v \<noteq> []"
  shows "writers_of source v \<noteq> None" "writer_polarities source v \<noteq> None"
proof -
  have w: "\<exists>y. body_writes_to b v = Some y" "\<exists>y. scan_polarities b v = Some y" for b
    using writes_scan_total[OF assms(2)] polarities_total[OF assms(2)]
    by (simp_all add: body_writes_to_def scan_polarities_def)
  obtain cb where cb: "constructor_body source = Some cb" using ascii_body(3)[OF assms(1)] by blast
  obtain sigs where sg: "extract_signatures source = Some sigs" using extract_signatures_ascii[OF assms(1)] by blast
  have t: "test_body source (\<lambda>body. body_writes_to body v) name \<noteq> None" for name
    using w by (intro test_body_total[OF assms(1)]) auto
  obtain ws where ws: "filter_opt (test_body source (\<lambda>body. body_writes_to body v)) (map fs_name sigs) = Some ws"
    using filter_opt_total[where p = "test_body source (\<lambda>body. body_writes_to body v)" and xs = "map fs_name sigs", OF t]
    by blast
  obtain c where "(case cb of None \<Rightarrow> Some False | Some body \<Rightarrow> body_writes_to body v) = Some c"
    using w by (cases cb) auto
  with cb sg ws show "writers_of source v \<noteq> None" by (simp add: writers_of_def)
  have q: "polarities_in source v name \<noteq> None" for name
    using w unfolding polarities_in_def by (intro bind_total ascii_body(1)[OF assms(1)]) (auto split: option.split)
  obtain ps where ps: "concat_opt (polarities_in source v) (map fs_name sigs) = Some ps"
    using concat_opt_total[where f = "polarities_in source v" and xs = "map fs_name sigs", OF q] by blast
  obtain c where "(case cb of None \<Rightarrow> Some [] | Some body \<Rightarrow> scan_polarities body v) = Some c"
    using w by (cases cb) auto
  with cb sg ps show "writer_polarities source v \<noteq> None" by (simp add: writer_polarities_def)
qed



end
