(* ===== verification/Structural.thy ===== *)
theory Structural
  imports SourceScan Synthesis Disk StorageLayout
begin

text \<open>
  The structural miners (\<open>crates/vergil-core/src/structural.rs\<close>): five passes over the sources and the
  storage layouts that solc reports propose properties with a confidence, and the report splits them
  at a threshold. A confidence is the \<open>f32\<close> nearest to the written decimal. \<open>None\<close> is a run that does
  not return, as in SourceScan. The unused path argument of the makers is left out.
\<close>

section \<open>Candidates and the report\<close>

datatype structural_miner = InvariantConstants | Monotonicity | AccessPolicy | Conservation | TwoStep

fun miner_id :: "structural_miner \<Rightarrow> string" where
  "miner_id InvariantConstants = ''invariant-constants''"
| "miner_id Monotonicity = ''monotonicity''"
| "miner_id AccessPolicy = ''access-policy''"
| "miner_id Conservation = ''conservation''"
| "miner_id TwoStep = ''two-step''"

definition miner_all :: "structural_miner list" where
  "miner_all = [InvariantConstants, Monotonicity, AccessPolicy, Conservation, TwoStep]"

record structural_candidate =
  stc_spec :: spec_candidate
  stc_confidence :: float
  stc_miner :: structural_miner

definition into_spec_candidate :: "structural_candidate \<Rightarrow> spec_candidate" where
  "into_spec_candidate c =
     (let spec = stc_spec c in
      spec\<lparr>sp_source := Structural,
           sp_template_ref := Some (case sp_template_ref spec of
              Some t \<Rightarrow> t
            | None \<Rightarrow> ''structural:'' @ miner_id (stc_miner c) @ '':'' @ fmt2 (stc_confidence c))\<rparr>)"

record low_confidence_finding =
  lf_miner :: structural_miner
  lf_description :: string
  lf_confidence :: string
  lf_fn_or_var :: "string option"

definition low_confidence_finding_new :: "structural_miner \<Rightarrow> string \<Rightarrow> float \<Rightarrow> low_confidence_finding" where
  "low_confidence_finding_new miner description confidence =
     \<lparr>lf_miner = miner, lf_description = description, lf_confidence = fmt2 confidence, lf_fn_or_var = None\<rparr>"

definition with_target :: "string \<Rightarrow> low_confidence_finding \<Rightarrow> low_confidence_finding" where
  "with_target fn_or_var f = f\<lparr>lf_fn_or_var := Some fn_or_var\<rparr>"

record structural_report =
  rep_candidates :: "spec_candidate list"
  rep_low_confidence_findings :: "low_confidence_finding list"
  rep_miner_counts :: "structural_miner \<rightharpoonup> nat"

record structural_config =
  stg_min_confidence :: float

definition structural_config_default :: structural_config where
  "structural_config_default = \<lparr>stg_min_confidence = to_f32 (6 / 10)\<rparr>"

definition split_one :: "structural_config \<Rightarrow> structural_candidate \<Rightarrow> structural_report \<Rightarrow> structural_report" where
  "split_one cfg c report =
     (if fle (stg_min_confidence cfg) (stc_confidence c) then
        report\<lparr>rep_miner_counts := (rep_miner_counts report)(stc_miner c \<mapsto>
                  (case rep_miner_counts report (stc_miner c) of Some n \<Rightarrow> n | None \<Rightarrow> 0) + 1),
               rep_candidates := rep_candidates report @ [into_spec_candidate c]\<rparr>
      else
        report\<lparr>rep_low_confidence_findings := rep_low_confidence_findings report @
                 [with_target (sp_name (stc_spec c))
                    (low_confidence_finding_new (stc_miner c)
                       (case sp_intent_text (stc_spec c) of Some t \<Rightarrow> t | None \<Rightarrow> sp_name (stc_spec c))
                       (stc_confidence c))]\<rparr>)"

definition split_by_confidence ::
    "structural_candidate list \<Rightarrow> low_confidence_finding list \<Rightarrow> structural_config \<Rightarrow> structural_report" where
  "split_by_confidence candidates extra_low cfg =
     fold (split_one cfg) candidates
       \<lparr>rep_candidates = [], rep_low_confidence_findings = extra_low, rep_miner_counts = (\<lambda>_. None)\<rparr>"

text \<open>The candidate a maker returns.\<close>

definition mined :: "structural_miner \<Rightarrow> float \<Rightarrow> string \<Rightarrow> string \<Rightarrow> string \<Rightarrow> structural_candidate" where
  "mined miner confidence name halmos intent =
     \<lparr>stc_spec = \<lparr>sp_name = name, sp_halmos = halmos, sp_smtchecker = [], sp_template_ref = None,
        sp_intent_satisfied = False, sp_source = Structural, sp_intent_text = Some intent\<rparr>,
      stc_confidence = confidence, stc_miner = miner\<rparr>"

section \<open>The entries a pass visits\<close>

definition layout_belongs_to :: "storage_layout \<Rightarrow> string \<Rightarrow> bool" where
  "layout_belongs_to layout path =
     (let fname = path_file_name path in
      if fname = [] then False else contains (sl_qualified_name layout) fname)"

definition is_mapping_or_array_type :: "storage_layout \<Rightarrow> string \<Rightarrow> bool" where
  "is_mapping_or_array_type layout type_id =
     (case sl_types layout type_id of
        Some t \<Rightarrow> starts_with (ty_label t) ''mapping'' \<or> ends_with (ty_label t) ''[]'' \<or> contains (ty_label t) ''array''
      | None \<Rightarrow> contains type_id ''mapping'' \<or> contains type_id ''array'')"

text \<open>The entries of the layouts of a file, each label once: \<open>seen\<close> holds the labels already met.\<close>

fun unseen_entries :: "string list \<Rightarrow> (storage_layout \<times> storage_entry) list \<Rightarrow> (storage_layout \<times> storage_entry) list" where
  "unseen_entries seen [] = []"
| "unseen_entries seen (x # xs) =
     (if List.member seen (se_label (snd x)) then unseen_entries seen xs
      else x # unseen_entries (se_label (snd x) # seen) xs)"

definition entries_of :: "storage_layout list \<Rightarrow> string \<Rightarrow> (storage_layout \<times> storage_entry) list" where
  "entries_of layouts path =
     unseen_entries [] (concat (map (\<lambda>l. map (Pair l) (sl_entries l))
       (filter (\<lambda>l. layout_belongs_to l path) layouts)))"

section \<open>Invariant constants\<close>

text \<open>The confidences of the tiers and miners, as \<open>f32\<close> literals.\<close>

definition conf_95 :: float where "conf_95 = to_f32 (95 / 100)"
definition conf_80 :: float where "conf_80 = to_f32 (80 / 100)"
definition conf_55 :: float where "conf_55 = to_f32 (55 / 100)"
definition conf_85 :: float where "conf_85 = to_f32 (85 / 100)"
definition conf_65 :: float where "conf_65 = to_f32 (65 / 100)"

definition make_invariant_candidate :: "string \<Rightarrow> string \<Rightarrow> float \<Rightarrow> string \<Rightarrow> structural_candidate" where
  "make_invariant_candidate v literal confidence intent =
     mined InvariantConstants confidence (''check_invariant_'' @ v)
       (if literal = [] then
          ''function check_invariant_'' @ v @ (''() public view {'' @ [NL] @ ''    c.'') @ v @ (''();'' @ [NL] @ ''}'' @ [NL])
        else if starts_with literal [DQ] then
          ''function check_invariant_'' @ v @ (''() public view {'' @ [NL] @ ''    assertEq('' @ [NL] @ ''        keccak256(bytes(c.'') @ v @ (''())),'' @ [NL] @ ''        keccak256(bytes('') @ literal @ (''))'' @ [NL] @ ''    );'' @ [NL] @ ''}'' @ [NL])
        else
          ''function check_invariant_'' @ v @ (''() public view {'' @ [NL] @ ''    assertEq(uint256(c.'') @ v @ ''()), uint256('' @ literal @ (''));'' @ [NL] @ ''}'' @ [NL]))
       intent"

text \<open>The three tiers of a pass over one file. An entry yields a candidate, a finding, or nothing.\<close>

definition keyword_candidate :: "keyword_constant \<Rightarrow> structural_candidate" where
  "keyword_candidate dl =
     make_invariant_candidate (kc_name dl) (kc_literal dl) conf_95
       (kc_name dl @ '' declared `'' @ kc_keyword dl @ (''` '' @ em_dash @ '' value cannot change post-deployment''))"

definition invariant_entry ::
    "string \<Rightarrow> storage_layout \<times> storage_entry \<Rightarrow> (structural_candidate list \<times> low_confidence_finding list) option" where
  "invariant_entry source x =
     (let label = se_label (snd x) in
      if is_mapping_or_array_type (fst x) (se_type_id (snd x)) then Some ([], [])
      else do {
        writers \<leftarrow> writers_of source label;
        Some (if list_ex (\<lambda>w. w \<noteq> ''constructor'') writers then ([], [])
              else
                (case (declaration_literal source label, writers = []) of
                   (Some lit, _) \<Rightarrow>
                     ([make_invariant_candidate label lit conf_80
                         (label @ ('' declared with literal initializer '' @ em_dash @ '' never re-written''))], [])
                 | (None, False) \<Rightarrow>
                     ([], [with_target label (low_confidence_finding_new InvariantConstants
                        (label @ ('' written only in constructor; value depends on constructor arg '' @ em_dash
     @ '' verify invariance manually''))
                        conf_55)])
                 | (None, True) \<Rightarrow> ([], [])))
      })"

definition invariant_file ::
    "storage_layout list \<Rightarrow> string \<times> string \<Rightarrow> (structural_candidate list \<times> low_confidence_finding list) option" where
  "invariant_file layouts src = (case src of (path, source) \<Rightarrow> do {
     rs \<leftarrow> concat_opt (\<lambda>x. map_option (\<lambda>r. [r]) (invariant_entry source x)) (entries_of layouts path);
     Some (map keyword_candidate (scan_keyword_constants source) @ concat (map fst rs), concat (map snd rs))
   })"

definition mine_invariant_constants ::
    "(string \<times> string) list \<Rightarrow> storage_layout list \<Rightarrow> (structural_candidate list \<times> low_confidence_finding list) option" where
  "mine_invariant_constants sources layouts = do {
     rs \<leftarrow> concat_opt (\<lambda>src. map_option (\<lambda>r. [r]) (invariant_file layouts src)) sources;
     Some (concat (map fst rs), concat (map snd rs))
   }"

section \<open>Monotonicity\<close>

datatype direction = Inc | Dec

fun direction_label :: "direction \<Rightarrow> string" where
  "direction_label Inc = ''inc''"
| "direction_label Dec = ''dec''"

fun direction_op :: "direction \<Rightarrow> string" where
  "direction_op Inc = ''>=''"
| "direction_op Dec = ''<=''"

fun direction_english :: "direction \<Rightarrow> string" where
  "direction_english Inc = ''monotonically increasing''"
| "direction_english Dec = ''monotonically decreasing''"

definition make_monotonic_candidate :: "string \<Rightarrow> string \<Rightarrow> string \<Rightarrow> direction \<Rightarrow> structural_candidate" where
  "make_monotonic_candidate v writer writer_args dir =
     (let call_args = forward_arg_names writer_args;
          name = ''check_monotonic_'' @ v @ ''_'' @ direction_label dir @ ''_via_'' @ writer
      in mined Monotonicity conf_85 name
           (''function '' @ name @ writer_args @ ('' public {'' @ [NL] @ ''    uint256 pre = token.'') @ v @ (''();'' @ [NL] @ ''    try token.'') @ writer @ ''('' @ call_args @ ('') {} catch { return; }'' @ [NL] @ ''    uint256 post = token.'') @ v @ (''();'' @ [NL] @ ''    assert(post '') @ direction_op dir @ ('' pre);'' @ [NL] @ ''}'' @ [NL]))
           (v @ '' is '' @ direction_english dir @ '' across calls to '' @ writer))"

text \<open>The direction in which every write after construction moves the variable, if there is one.\<close>

definition common_direction :: "(string \<times> write_polarity) list \<Rightarrow> direction option" where
  "common_direction post_ctor =
     (if post_ctor = [] then None
      else if list_ex (\<lambda>x. snd x = Overwrite) post_ctor then None
      else if list_all (\<lambda>x. snd x = Increment) post_ctor then Some Inc
      else if list_all (\<lambda>x. snd x = Decrement) post_ctor then Some Dec
      else None)"

definition monotonic_writer ::
    "string \<Rightarrow> string \<Rightarrow> direction \<Rightarrow> string \<Rightarrow> structural_candidate list option" where
  "monotonic_writer source v dir writer = do {
     sig \<leftarrow> signature_for source writer;
     Some (case sig of
        None \<Rightarrow> []
      | Some s \<Rightarrow> (if is_externally_callable s then [make_monotonic_candidate v writer (fs_args s) dir] else []))
   }"

definition monotonic_entry :: "string \<Rightarrow> storage_layout \<times> storage_entry \<Rightarrow> structural_candidate list option" where
  "monotonic_entry source x =
     (let v = se_label (snd x) in
      if is_mapping_or_array_type (fst x) (se_type_id (snd x)) then Some []
      else do {
        wp \<leftarrow> writer_polarities source v;
        (let post_ctor = filter (\<lambda>y. fst y \<noteq> ''constructor'') wp in
         case common_direction post_ctor of
           None \<Rightarrow> Some []
         | Some dir \<Rightarrow> concat_opt (monotonic_writer source v dir) (sort (remdups (map fst post_ctor))))
      })"

definition mine_monotonicity ::
    "(string \<times> string) list \<Rightarrow> storage_layout list \<Rightarrow> (structural_candidate list \<times> low_confidence_finding list) option" where
  "mine_monotonicity sources layouts =
     map_option (\<lambda>high. (high, []))
       (concat_opt (\<lambda>(path, source). concat_opt (monotonic_entry source) (entries_of layouts path)) sources)"

section \<open>Access policy\<close>

definition make_access_policy_candidate :: "string \<Rightarrow> string \<Rightarrow> string list \<Rightarrow> structural_candidate" where
  "make_access_policy_candidate v modifier writers =
     (let writers_list = join '', '' writers; name = ''check_access_'' @ v @ ''_via_'' @ modifier in
      mined AccessPolicy conf_80 name
        (''function '' @ name @ (''() public view {'' @ [NL] @ ''    // Property: every external writer of '') @ v @ '' carries the '' @ modifier @ ('' modifier.'' @ [NL] @ ''    // Writers: '') @ writers_list @ (''.'' @ [NL] @ ''    // Source-structural fact (Phase 5 invariant; modifier body'' @ [NL]
     @ ''    // semantics not symbolically modeled here).'' @ [NL] @ ''    assert(true);'' @ [NL]
     @ ''}'' @ [NL]))
        (''every external write to '' @ v @ '' requires the '' @ modifier @ '' modifier (writers: '' @ writers_list @ '')''))"

text \<open>The loop over the remaining writers stops at an empty intersection; sets are listed in order.\<close>

fun intersect_loop :: "string \<Rightarrow> string list \<Rightarrow> string list \<Rightarrow> string list" where
  "intersect_loop source acc [] = acc"
| "intersect_loop source acc (name # names) =
     (let acc' = filter (List.member (modifiers_of name source)) acc in
      if acc' = [] then [] else intersect_loop source acc' names)"

definition intersect_modifiers :: "string \<Rightarrow> string list \<Rightarrow> string list" where
  "intersect_modifiers source fn_names =
     (case fn_names of
        [] \<Rightarrow> []
      | f # fs \<Rightarrow> intersect_loop source (sort (remdups (modifiers_of f source))) fs)"

definition access_entry :: "string \<Rightarrow> storage_layout \<times> storage_entry \<Rightarrow> structural_candidate list option" where
  "access_entry source x =
     (let v = se_label (snd x) in do {
        writers \<leftarrow> external_writers_of source v;
        Some (map (\<lambda>m. make_access_policy_candidate v m writers) (intersect_modifiers source writers))
      })"

definition mine_access_policy ::
    "(string \<times> string) list \<Rightarrow> storage_layout list \<Rightarrow> (structural_candidate list \<times> low_confidence_finding list) option" where
  "mine_access_policy sources layouts =
     map_option (\<lambda>high. (high, []))
       (concat_opt (\<lambda>(path, source). concat_opt (access_entry source) (entries_of layouts path)) sources)"

section \<open>Conservation\<close>

record conservation_pair =
  cv_mapping :: string
  cv_debit_index :: string
  cv_credit_index :: string
  cv_operand :: string

text \<open>The credit that answers the debit: the first later operation on the same mapping, with the same
  amount, that is not used yet.\<close>

definition credits :: "mapping_op \<Rightarrow> mapping_op \<Rightarrow> bool" where
  "credits a b \<longleftrightarrow> mo_op b = ''+='' \<and> mo_mapping b = mo_mapping a \<and> trim (mo_operand b) = trim (mo_operand a)"

text \<open>The two loops; \<open>used\<close> holds the indices of the operations already in a pair.\<close>

fun pair_loop :: "mapping_op list \<Rightarrow> nat list \<Rightarrow> nat list \<Rightarrow> (nat \<times> nat) list" where
  "pair_loop ops used [] = []"
| "pair_loop ops used (i # is0) =
     (if List.member used i \<or> mo_op (ops ! i) \<noteq> ''-='' then pair_loop ops used is0
      else
        (case List.find (\<lambda>j. \<not> List.member used j \<and> credits (ops ! i) (ops ! j)) [i + 1..<length ops] of
           None \<Rightarrow> pair_loop ops used is0
         | Some j \<Rightarrow> (i, j) # pair_loop ops (j # i # used) is0))"

definition pair_indices :: "mapping_op list \<Rightarrow> (nat \<times> nat) list" where
  "pair_indices ops = pair_loop ops [] [0..<length ops]"

definition pair_of :: "mapping_op list \<Rightarrow> nat \<times> nat \<Rightarrow> conservation_pair" where
  "pair_of ops x =
     (let a = ops ! fst x; b = ops ! snd x in
      \<lparr>cv_mapping = mo_mapping a, cv_debit_index = mo_index a, cv_credit_index = mo_index b,
       cv_operand = mo_operand a\<rparr>)"

definition find_conservation_pairs :: "string \<Rightarrow> conservation_pair list" where
  "find_conservation_pairs body =
     (let ops = scan_mapping_ops (strip_comments body) in map (pair_of ops) (pair_indices ops))"

definition make_conservation_candidate :: "string \<Rightarrow> string \<Rightarrow> conservation_pair \<Rightarrow> structural_candidate" where
  "make_conservation_candidate fn_name fn_args p =
     (let call_args = forward_arg_names fn_args;
          name = ''check_conservation_'' @ cv_mapping p @ ''_via_'' @ fn_name;
          balance = (\<lambda>i. ''token.'' @ cv_mapping p @ ''('' @ i @ '')'');
          sum2 = balance (cv_debit_index p) @ '' + '' @ balance (cv_credit_index p)
      in mined Conservation conf_65 name
           (''function '' @ name @ fn_args @ ('' public {'' @ [NL] @ ''    uint256 pre = '') @ sum2 @ ('';'' @ [NL] @ ''    try token.'') @ fn_name @ ''('' @ call_args @ ('') {} catch { return; }'' @ [NL] @ ''    uint256 post = '') @ sum2 @ ('';'' @ [NL] @ ''    assert(post == pre);'' @ [NL] @ ''}'' @ [NL]))
           (cv_mapping p @ ''['' @ cv_debit_index p @ ''] + '' @ cv_mapping p @ ''['' @ cv_credit_index p
            @ ''] preserved across '' @ fn_name @ '' (operand: '' @ cv_operand p @ '')''))"

definition conservation_fn :: "string \<Rightarrow> function_signature \<Rightarrow> structural_candidate list option" where
  "conservation_fn source sig =
     (if \<not> is_externally_callable sig then Some []
      else do {
        b \<leftarrow> body_for (fs_name sig) source;
        Some (case b of
           None \<Rightarrow> []
         | Some body \<Rightarrow> map (make_conservation_candidate (fs_name sig) (fs_args sig)) (find_conservation_pairs body))
      })"

definition mine_conservation ::
    "(string \<times> string) list \<Rightarrow> (structural_candidate list \<times> low_confidence_finding list) option" where
  "mine_conservation sources =
     map_option (\<lambda>high. (high, []))
       (concat_opt (\<lambda>(path, source). do {
          sigs \<leftarrow> extract_signatures source;
          concat_opt (conservation_fn source) sigs
        }) sources)"

section \<open>Two-step patterns\<close>

definition make_two_step_candidate :: "string \<Rightarrow> string \<Rightarrow> string \<Rightarrow> string \<Rightarrow> structural_candidate" where
  "make_two_step_candidate f1 f2 gate f2_args =
     (let call_args = forward_arg_names f2_args; name = ''check_two_step_'' @ f2 @ ''_requires_'' @ f1 in
      mined TwoStep conf_65 name
        (''function '' @ name @ f2_args @ ('' public {'' @ [NL] @ ''    // Property: '') @ f2 @ '' must revert if '' @ f1 @ ('' (which writes the gate'' @ [NL] @ ''    // variable `'') @ gate @ (''`) hasn'' @ [SQ] @ ''t been called yet. Halmos'' @ [NL]
     @ ''    // symbolically initializes `token` with the gate at its zero'' @ [NL]
     @ ''    // value; the call should revert.'' @ [NL] @ ''    try token.'') @ f2 @ ''('' @ call_args @ ('') { assert(false); } catch {}'' @ [NL] @ ''}'' @ [NL]))
        (f2 @ '' requires '' @ f1 @ '' first (via gate `'' @ gate @ ''`)''))"

definition two_step_pair :: "string \<Rightarrow> string \<Rightarrow> string \<times> string \<Rightarrow> structural_candidate list option" where
  "two_step_pair source gate p =
     (let f1 = fst p; f2 = snd p in
      if f1 = f2 then Some []
      else do {
        sig \<leftarrow> signature_for source f2;
        Some (case sig of
           None \<Rightarrow> []
         | Some s \<Rightarrow> (if is_externally_callable s then [make_two_step_candidate f1 f2 gate (fs_args s)] else []))
      })"

definition two_step_entry :: "string \<Rightarrow> storage_layout \<times> storage_entry \<Rightarrow> structural_candidate list option" where
  "two_step_entry source x =
     (let gate = se_label (snd x) in
      if is_mapping_or_array_type (fst x) (se_type_id (snd x)) then Some []
      else do {
        writers \<leftarrow> external_writers_of source gate;
        requirers \<leftarrow> external_requirers_of source gate;
        concat_opt (two_step_pair source gate) (List.product writers requirers)
      })"

definition mine_two_step ::
    "(string \<times> string) list \<Rightarrow> storage_layout list \<Rightarrow> (structural_candidate list \<times> low_confidence_finding list) option" where
  "mine_two_step sources layouts =
     map_option (\<lambda>high. (high, []))
       (concat_opt (\<lambda>(path, source). concat_opt (two_step_entry source) (entries_of layouts path)) sources)"

section \<open>The pass as a whole\<close>

definition mine_all ::
    "(string \<times> string) list \<Rightarrow> storage_layout list \<Rightarrow> (structural_candidate list \<times> low_confidence_finding list) option" where
  "mine_all sources layouts = do {
     ic \<leftarrow> mine_invariant_constants sources layouts;
     mn \<leftarrow> mine_monotonicity sources layouts;
     ap \<leftarrow> mine_access_policy sources layouts;
     cs \<leftarrow> mine_conservation sources;
     ts \<leftarrow> mine_two_step sources layouts;
     Some (fst ic @ fst mn @ fst ap @ fst cs @ fst ts, snd ic @ snd mn @ snd ap @ snd cs @ snd ts)
   }"

definition extract_from_structural ::
    "(string \<times> string) list \<Rightarrow> storage_layout list \<Rightarrow> structural_config \<Rightarrow> structural_report option" where
  "extract_from_structural sources layouts cfg =
     map_option (\<lambda>(high, low). split_by_confidence high low cfg) (mine_all sources layouts)"

section \<open>The report\<close>

lemma mined_simps [simp]:
  "stc_confidence (mined m c n h i) = c" "stc_miner (mined m c n h i) = m"
  "stc_spec (mined m c n h i) = \<lparr>sp_name = n, sp_halmos = h, sp_smtchecker = [], sp_template_ref = None,
     sp_intent_satisfied = False, sp_source = Structural, sp_intent_text = Some i\<rparr>"
  by (simp_all add: mined_def)

text \<open>What the report must be: the candidates at or above the threshold are proposed and counted by
  miner, the others are findings.\<close>

definition above :: "structural_config \<Rightarrow> structural_candidate \<Rightarrow> bool" where
  "above cfg c \<longleftrightarrow> fle (stg_min_confidence cfg) (stc_confidence c)"

definition finding_of :: "structural_candidate \<Rightarrow> low_confidence_finding" where
  "finding_of c = with_target (sp_name (stc_spec c))
     (low_confidence_finding_new (stc_miner c)
        (case sp_intent_text (stc_spec c) of Some t \<Rightarrow> t | None \<Rightarrow> sp_name (stc_spec c)) (stc_confidence c))"

definition miner_tally :: "structural_candidate list \<Rightarrow> structural_miner \<rightharpoonup> nat" where
  "miner_tally cs m = (let n = length (filter (\<lambda>c. stc_miner c = m) cs) in if n = 0 then None else Some n)"

definition report_spec ::
    "structural_candidate list \<Rightarrow> low_confidence_finding list \<Rightarrow> structural_config \<Rightarrow> structural_report" where
  "report_spec high low cfg =
     \<lparr>rep_candidates = map into_spec_candidate (filter (above cfg) high),
      rep_low_confidence_findings = low @ map finding_of (filter (\<lambda>c. \<not> above cfg c) high),
      rep_miner_counts = miner_tally (filter (above cfg) high)\<rparr>"

lemma miner_tally_snoc: "miner_tally (cs @ [c]) =
    (miner_tally cs)(stc_miner c \<mapsto> (case miner_tally cs (stc_miner c) of Some n \<Rightarrow> n | None \<Rightarrow> 0) + 1)"
  by (rule ext) (simp add: miner_tally_def Let_def)

lemma split_one_report: "split_one cfg c (report_spec cs low cfg) = report_spec (cs @ [c]) low cfg"
  by (auto simp: split_one_def report_spec_def above_def finding_of_def miner_tally_snoc)

lemma split_by_confidence_spec: "split_by_confidence high low cfg = report_spec high low cfg"
proof -
  have "fold (split_one cfg) hs (report_spec cs low cfg) = report_spec (cs @ hs) low cfg" for hs cs
    by (induction hs arbitrary: cs) (simp_all add: split_one_report)
  from this[of high "[]"] show ?thesis
    by (simp add: split_by_confidence_def) (simp add: report_spec_def miner_tally_def[abs_def] Let_def)
qed

text \<open>The five confidences and the default threshold.\<close>

definition miner_confidences :: "float list" where
  "miner_confidences = [conf_95, conf_80, conf_85, conf_65]"

lemma default_confidences:
  "list_all (fle (stg_min_confidence structural_config_default)) miner_confidences"
  "\<not> fle (stg_min_confidence structural_config_default) conf_55"
  "map fmt2 miner_confidences = [''0.95'', ''0.80'', ''0.85'', ''0.65'']"
  by (code_simp, code_simp, code_simp)

definition well_mined :: "structural_candidate \<Rightarrow> bool" where
  "well_mined c \<longleftrightarrow> stc_confidence c \<in> set miner_confidences
     \<and> sp_template_ref (stc_spec c) = None \<and> sp_source (stc_spec c) = Structural
     \<and> sp_smtchecker (stc_spec c) = []"

lemma concat_opt_Some:
  "concat_opt f xs = Some ys \<Longrightarrow> y \<in> set ys \<Longrightarrow> \<exists>x\<in>set xs. \<exists>zs. f x = Some zs \<and> y \<in> set zs"
proof (induction xs arbitrary: ys)
  case (Cons x xs)
  then show ?case by (auto simp: bind_eq_Some_conv)
qed simp

lemma concat_opt_all:
  assumes "concat_opt f xs = Some ys" "\<And>x zs. x \<in> set xs \<Longrightarrow> f x = Some zs \<Longrightarrow> list_all P zs"
  shows "list_all P ys"
  unfolding list_all_iff
proof
  fix y assume "y \<in> set ys"
  from concat_opt_Some[OF assms(1) this] assms(2) show "P y" by (metis list_all_iff)
qed

lemma well_mined_mined: "well_mined (mined m c n h i) = (c \<in> set miner_confidences)"
  by (simp add: well_mined_def)

lemma makers_well_mined [simp]:
  "well_mined (keyword_candidate k)" "well_mined (make_monotonic_candidate v w a d)"
  "well_mined (make_access_policy_candidate v m ws)" "well_mined (make_conservation_candidate f a p)"
  "well_mined (make_two_step_candidate f g v a)" "well_mined (make_invariant_candidate v l conf_80 i)"
  by (simp_all add: keyword_candidate_def make_invariant_candidate_def make_monotonic_candidate_def Let_def
      make_access_policy_candidate_def make_conservation_candidate_def make_two_step_candidate_def
      well_mined_mined miner_confidences_def)

text \<open>The only findings the miners report on their own.\<close>

definition constructor_only :: "low_confidence_finding \<Rightarrow> bool" where
  "constructor_only f \<longleftrightarrow> lf_miner f = InvariantConstants \<and> lf_confidence f = ''0.55''
     \<and> lf_fn_or_var f \<noteq> None"

lemma fmt_tier_c: "fmt2 conf_55 = ''0.55''"
  by code_simp

lemma invariant_entry_ok:
  "invariant_entry source x = Some (h, l) \<Longrightarrow> list_all well_mined h \<and> list_all constructor_only l"
  by (auto simp: invariant_entry_def Let_def bind_eq_Some_conv constructor_only_def with_target_def
      low_confidence_finding_new_def fmt_tier_c split: if_splits option.splits bool.splits)

lemma mine_invariant_ok:
  assumes "mine_invariant_constants sources layouts = Some (h, l)"
  shows "list_all well_mined h \<and> list_all constructor_only l"
proof -
  have each_entry: "list_all (\<lambda>r. list_all well_mined (fst r) \<and> list_all constructor_only (snd r)) rs"
    if "concat_opt (\<lambda>x. map_option (\<lambda>r. [r]) (invariant_entry source x)) es = Some rs" for source es rs
    by (rule concat_opt_all[OF that]) (auto dest: invariant_entry_ok)
  have each_file: "list_all well_mined (fst r) \<and> list_all constructor_only (snd r)"
    if "invariant_file layouts src = Some r" for src r
    using that each_entry by (auto simp: invariant_file_def bind_eq_Some_conv list_all_iff split: prod.splits)
  obtain rs where rs: "concat_opt (\<lambda>src. map_option (\<lambda>r. [r]) (invariant_file layouts src)) sources = Some rs"
    "h = concat (map fst rs)" "l = concat (map snd rs)"
    using assms by (auto simp: mine_invariant_constants_def bind_eq_Some_conv)
  have "list_all (\<lambda>r. list_all well_mined (fst r) \<and> list_all constructor_only (snd r)) rs"
    by (rule concat_opt_all[OF rs(1)]) (auto dest: each_file)
  with rs(2,3) show ?thesis by (auto simp: list_all_iff)
qed

lemma monotonic_writer_ok: "monotonic_writer source v d w = Some cs \<Longrightarrow> list_all well_mined cs"
  by (auto simp: monotonic_writer_def bind_eq_Some_conv split: if_splits option.splits)

lemma monotonic_entry_ok: "monotonic_entry source x = Some cs \<Longrightarrow> list_all well_mined cs"
  by (auto simp: monotonic_entry_def Let_def bind_eq_Some_conv elim!: concat_opt_all monotonic_writer_ok
      split: if_splits option.splits)

lemma access_entry_ok: "access_entry source x = Some cs \<Longrightarrow> list_all well_mined cs"
  by (auto simp: access_entry_def Let_def bind_eq_Some_conv list_all_iff)

lemma conservation_fn_ok: "conservation_fn source x = Some cs \<Longrightarrow> list_all well_mined cs"
  by (auto simp: conservation_fn_def bind_eq_Some_conv list_all_iff split: if_splits option.splits)

lemma two_step_pair_ok: "two_step_pair source gate p = Some cs \<Longrightarrow> list_all well_mined cs"
  by (auto simp: two_step_pair_def Let_def bind_eq_Some_conv split: if_splits option.splits)

lemma two_step_entry_ok: "two_step_entry source x = Some cs \<Longrightarrow> list_all well_mined cs"
  by (auto simp: two_step_entry_def Let_def bind_eq_Some_conv elim!: concat_opt_all two_step_pair_ok
      split: if_splits option.splits)

lemma per_file_ok:
  assumes "map_option (\<lambda>high. (high, [])) (concat_opt (\<lambda>(path, source). concat_opt (f source) (g path)) sources) = Some (h, l)"
    and "\<And>source x cs. f source x = Some cs \<Longrightarrow> list_all well_mined cs"
  shows "list_all well_mined h" "l = []"
  using assms by (auto elim!: concat_opt_all)

lemma mine_all_ok:
  assumes "mine_all sources layouts = Some (h, l)"
  shows "list_all well_mined h" "list_all constructor_only l"
proof -
  from assms obtain ic mn ap cs ts where m:
    "mine_invariant_constants sources layouts = Some ic" "mine_monotonicity sources layouts = Some mn"
    "mine_access_policy sources layouts = Some ap" "mine_conservation sources = Some cs"
    "mine_two_step sources layouts = Some ts"
    and hl: "h = fst ic @ fst mn @ fst ap @ fst cs @ fst ts" "l = snd ic @ snd mn @ snd ap @ snd cs @ snd ts"
    by (auto simp: mine_all_def bind_eq_Some_conv)
  have "list_all well_mined (fst ic)" "list_all constructor_only (snd ic)"
    using mine_invariant_ok[of sources layouts "fst ic" "snd ic"] m(1) by simp_all
  moreover have "list_all well_mined (fst mn)" "snd mn = []"
    using per_file_ok[of monotonic_entry _ sources "fst mn" "snd mn"] m(2) monotonic_entry_ok
    by (simp_all add: mine_monotonicity_def)
  moreover have "list_all well_mined (fst ap)" "snd ap = []"
    using per_file_ok[of access_entry _ sources "fst ap" "snd ap"] m(3) access_entry_ok
    by (simp_all add: mine_access_policy_def)
  moreover have "list_all well_mined (fst cs)" "snd cs = []"
    using m(4) by (auto simp: mine_conservation_def bind_eq_Some_conv elim!: concat_opt_all conservation_fn_ok)
  moreover have "list_all well_mined (fst ts)" "snd ts = []"
    using per_file_ok[of two_step_entry _ sources "fst ts" "snd ts"] m(5) two_step_entry_ok
    by (simp_all add: mine_two_step_def)
  ultimately show "list_all well_mined h" "list_all constructor_only l" by (simp_all add: hl)
qed
section \<open>Pairs of operations\<close>

definition good_pair :: "mapping_op list \<Rightarrow> nat \<times> nat \<Rightarrow> bool" where
  "good_pair ops p \<longleftrightarrow> fst p < snd p \<and> snd p < length ops \<and> mo_op (ops ! fst p) = ''-=''
     \<and> credits (ops ! fst p) (ops ! snd p)"

lemma find_upt_Some: "List.find P [a..<b] = Some j \<Longrightarrow> a \<le> j \<and> j < b \<and> P j"
  by (auto simp: find_Some_iff)

lemma pair_loop_inv:
  assumes "distinct is0" "\<And>i. i \<in> set is0 \<Longrightarrow> i < length ops"
  shows "list_all (good_pair ops) (pair_loop ops used is0)
    \<and> distinct (map fst (pair_loop ops used is0) @ map snd (pair_loop ops used is0))
    \<and> set (map fst (pair_loop ops used is0)) \<subseteq> set is0
    \<and> (set (map fst (pair_loop ops used is0)) \<union> set (map snd (pair_loop ops used is0))) \<inter> set used = {}"
  using assms
proof (induction ops used is0 rule: pair_loop.induct)
  case (2 ops used i is0)
  let ?f = "List.find (\<lambda>j. \<not> List.member used j \<and> credits (ops ! i) (ops ! j)) [i + 1..<length ops]"
  show ?case
  proof (cases "List.member used i \<or> mo_op (ops ! i) \<noteq> ''-=''")
    case True
    with 2 show ?thesis by auto
  next
    case n: False
    show ?thesis
    proof (cases ?f)
      case None
      with 2 n show ?thesis by auto
    next
      case (Some j)
      note j = find_upt_Some[OF Some]
      have "good_pair ops (i, j)" using j n by (simp add: good_pair_def)
      moreover have "credits (ops ! i) (ops ! j) \<Longrightarrow> mo_op (ops ! j) = ''+=''" by (simp add: credits_def)
      ultimately show ?thesis
        using 2(3)[OF n Some] 2(4,5) n j Some by (auto simp: List.member_iff good_pair_def list_all_iff)
    qed
  qed
qed simp

text \<open>Greedy: a debit that stays alone has no later credit that stays alone.\<close>

lemma pair_loop_greedy:
  assumes "distinct is0" "i \<in> set is0" "mo_op (ops ! i) = ''-=''" "i < j" "j < length ops" "credits (ops ! i) (ops ! j)"
  shows "i \<in> set used \<or> i \<in> fst ` set (pair_loop ops used is0) \<or> i \<in> snd ` set (pair_loop ops used is0)
    \<or> j \<in> set used \<or> j \<in> snd ` set (pair_loop ops used is0)"
  using assms
proof (induction ops used is0 rule: pair_loop.induct)
  case (2 ops used k is0)
  let ?f = "List.find (\<lambda>j. \<not> List.member used j \<and> credits (ops ! k) (ops ! j)) [k + 1..<length ops]"
  show ?case
  proof (cases "List.member used k \<or> mo_op (ops ! k) \<noteq> ''-=''")
    case True
    with 2 show ?thesis by (cases "i = k") (auto simp: List.member_iff)
  next
    case n: False
    show ?thesis
    proof (cases ?f)
      case None
      then have "j \<in> set used" if "i = k"
        using that 2(7-9) by (auto simp: find_None_iff List.member_iff)
      with 2 n None show ?thesis by (cases "i = k") auto
    next
      case (Some m)
      have "j \<noteq> k" using 2(9) n by (auto simp: credits_def)
      with Some show ?thesis using 2(3)[OF n Some] 2(4-) n by (cases "i = k") auto
    qed
  qed
qed simp
lemma concat_opt_mem:
  "concat_opt f xs = Some ys \<Longrightarrow> x \<in> set xs \<Longrightarrow> f x = Some zs \<Longrightarrow> set zs \<subseteq> set ys"
proof (induction xs arbitrary: ys)
  case (Cons a xs)
  then show ?case by (cases "x = a") (fastforce simp: bind_eq_Some_conv)+
qed simp

lemma writer_polarities_mem:
  assumes "writer_polarities source v = Some wp" "extract_signatures source = Some sigs"
    and "List.member (map fs_name sigs) f" "body_for f source = Some (Some body)"
    and "scan_polarities body v = Some ps" "p \<in> set ps"
  shows "(f, p) \<in> set wp"
proof -
  obtain ws where ws: "concat_opt (polarities_in source v) (map fs_name sigs) = Some ws" "set ws \<subseteq> set wp"
    using assms(1,2) by (auto simp: writer_polarities_def bind_eq_Some_conv)
  have "polarities_in source v f = Some (map (Pair f) ps)"
    using assms(4,5) by (simp add: polarities_in_def)
  from concat_opt_mem[OF ws(1) _ this] assms(3,6) ws(2) show ?thesis by (auto simp: List.member_iff)
qed

section \<open>Properties\<close>

text \<open>With the default threshold nothing the five miners propose is held back: the report holds every
  mined candidate in the order of the miners, marked structural with its miner and confidence, counts
  them by miner, and its findings are exactly the variables that only the constructor writes.\<close>

theorem structural_default_report:
  "case extract_from_structural sources layouts structural_config_default of
     None \<Rightarrow> mine_all sources layouts = None
   | Some r \<Rightarrow>
       (case mine_all sources layouts of None \<Rightarrow> False
        | Some (high, low) \<Rightarrow>
            r = \<lparr>rep_candidates = map into_spec_candidate high, rep_low_confidence_findings = low,
                 rep_miner_counts = miner_tally high\<rparr>
            \<and> list_all constructor_only low
            \<and> list_all (\<lambda>c. sp_template_ref (into_spec_candidate c) \<in>
                 (\<lambda>conf. Some (''structural:'' @ miner_id (stc_miner c) @ '':'' @ conf))
                   ` {''0.95'', ''0.80'', ''0.85'', ''0.65''}) high)"
proof (cases "mine_all sources layouts")
  case None
  then show ?thesis by (simp add: extract_from_structural_def)
next
  case (Some hl)
  obtain high low where hl: "hl = (high, low)" by (cases hl)
  note ok = mine_all_ok[OF Some[unfolded hl]]
  have f: "above structural_config_default c \<and> fmt2 (stc_confidence c) \<in> {''0.95'', ''0.80'', ''0.85'', ''0.65''}"
    if "well_mined c" for c
    using that default_confidences(1,3)
    by (auto simp: well_mined_def above_def list_all_iff miner_confidences_def)
  have a: "filter (above structural_config_default) high = high"
    "filter (\<lambda>c. \<not> above structural_config_default c) high = []"
    using ok(1) f by (auto simp: list_all_iff filter_id_conv filter_empty_conv)
  have "list_all (\<lambda>c. sp_template_ref (into_spec_candidate c) \<in>
       (\<lambda>conf. Some (''structural:'' @ miner_id (stc_miner c) @ '':'' @ conf)) ` {''0.95'', ''0.80'', ''0.85'', ''0.65''}) high"
    using ok(1) f by (force simp: list_all_iff into_spec_candidate_def well_mined_def Let_def)
  with Some hl ok(2) a show ?thesis
    by (simp add: extract_from_structural_def split_by_confidence_spec report_spec_def)
qed

text \<open>The pairs of a body are sound: each joins a debit to a later credit of the same mapping and amount, no
  operation is in two pairs, and the pairing is greedy, so no debit stays alone before a matching
  credit that stays alone.\<close>

theorem conservation_pairs_sound:
  "list_all (good_pair ops) (pair_indices ops)
   \<and> distinct (map fst (pair_indices ops) @ map snd (pair_indices ops))
   \<and> list_all (\<lambda>i. list_all (\<lambda>j. \<not> (mo_op (ops ! i) = ''-='' \<and> i < j \<and> credits (ops ! i) (ops ! j)
          \<and> \<not> List.member (map fst (pair_indices ops)) i \<and> \<not> List.member (map snd (pair_indices ops)) j))
        [0..<length ops]) [0..<length ops]"
proof -
  let ?ps = "pair_loop ops [] [0..<length ops]"
  have inv: "list_all (good_pair ops) ?ps \<and> distinct (map fst ?ps @ map snd ?ps)"
    using pair_loop_inv[of "[0..<length ops]" ops "[]"] by simp
  have op: "mo_op (ops ! j) = ''+=''" if "j \<in> snd ` set ?ps" for j
    using inv that by (auto simp: list_all_iff good_pair_def credits_def)
  have greedy: "\<not> (mo_op (ops ! i) = ''-='' \<and> i < j \<and> credits (ops ! i) (ops ! j)
          \<and> \<not> List.member (map fst ?ps) i \<and> \<not> List.member (map snd ?ps) j)"
    if "i < length ops" "j < length ops" for i j
    using pair_loop_greedy[of "[0..<length ops]" i ops j "[]"] op[of i] that by (simp add: List.member_iff) fastforce
  show ?thesis
    unfolding pair_indices_def using inv greedy by (simp add: list_all_iff)
qed

definition named_layout :: "storage_layout \<Rightarrow> bool" where
  "named_layout l \<longleftrightarrow> list_all (\<lambda>e. se_label e \<noteq> []) (sl_entries l)"

lemma unseen_entries_subset: "set (unseen_entries seen xs) \<subseteq> set xs"
  by (induction seen xs rule: unseen_entries.induct) auto

lemma entries_of_named:
  assumes "list_all named_layout layouts" "x \<in> set (entries_of layouts path)"
  shows "se_label (snd x) \<noteq> []"
  using assms unseen_entries_subset[of "[]" "concat (map (\<lambda>l. map (Pair l) (sl_entries l))
       (filter (\<lambda>l. layout_belongs_to l path) layouts))"]
  by (fastforce simp: entries_of_def named_layout_def list_all_iff)

lemma signature_for_ascii: "ascii source \<Longrightarrow> signature_for source name \<noteq> None"
  using extract_signatures_ascii[of source] by (simp add: signature_for_def)

lemma entries_total:
  assumes "ascii source" "se_label (snd x) \<noteq> []"
  shows "invariant_entry source x \<noteq> None" "monotonic_entry source x \<noteq> None"
    "access_entry source x \<noteq> None" "two_step_entry source x \<noteq> None"
proof -
  let ?v = "se_label (snd x)"
  note t = writers_total[OF assms] external_total(1)[OF assms] external_total(2)[OF assms(1), of ?v]
  show "invariant_entry source x \<noteq> None" using t(1) by (auto simp: invariant_entry_def Let_def)
  show "access_entry source x \<noteq> None" using t(3) by (auto simp: access_entry_def Let_def)
  have m: "monotonic_writer source ?v dir w \<noteq> None" for dir w
    using signature_for_ascii[OF assms(1), of w] by (auto simp: monotonic_writer_def)
  have "concat_opt (monotonic_writer source ?v dir) ws \<noteq> None" for dir ws
    by (rule concat_opt_total[OF m])
  with t(2) show "monotonic_entry source x \<noteq> None"
    by (auto simp: monotonic_entry_def Let_def split: option.split)
  have s: "two_step_pair source ?v p \<noteq> None" for p
    using signature_for_ascii[OF assms(1), of "snd p"] by (auto simp: two_step_pair_def Let_def)
  have "concat_opt (two_step_pair source ?v) ps \<noteq> None" for ps
    by (rule concat_opt_total[OF s])
  with t(3,4) show "two_step_entry source x \<noteq> None" by (auto simp: two_step_entry_def Let_def)
qed

lemma conservation_fn_ascii: "ascii source \<Longrightarrow> conservation_fn source sig \<noteq> None"
  using ascii_body(1)[of source "fs_name sig"] by (auto simp: conservation_fn_def)

lemma per_file_total:
  assumes "list_all (\<lambda>s. ascii (snd s)) sources" "list_all named_layout layouts"
    and "\<And>source x. ascii source \<Longrightarrow> se_label (snd x) \<noteq> [] \<Longrightarrow> f source x \<noteq> None"
  shows "concat_opt (\<lambda>(path, source). concat_opt (f source) (entries_of layouts path)) sources \<noteq> None"
proof (rule concat_opt_total)
  fix s assume s: "s \<in> set sources"
  obtain path source where ps: "s = (path, source)" by (cases s)
  have "ascii source" using assms(1) s ps by (auto simp: list_all_iff)
  then have "concat_opt (f source) (entries_of layouts path) \<noteq> None"
    by (intro concat_opt_total assms(3) entries_of_named[OF assms(2)])
  with ps show "(case s of (path, source) \<Rightarrow> concat_opt (f source) (entries_of layouts path)) \<noteq> None" by simp
qed

text \<open>On a contract in ASCII whose variables have names the miners always return: no slice of the source
  panics and no scan runs for ever.\<close>

theorem structural_total:
  assumes "list_all (\<lambda>s. ascii (snd s)) sources" "list_all named_layout layouts"
  shows "extract_from_structural sources layouts cfg \<noteq> None"
proof -
  note each = per_file_total[OF assms]
  have i: "invariant_file layouts s \<noteq> None" if "s \<in> set sources" for s
  proof -
    obtain path source where ps: "s = (path, source)" by (cases s)
    have "ascii source" using assms(1) that ps by (auto simp: list_all_iff)
    then have "map_option (\<lambda>r. [r]) (invariant_entry source x) \<noteq> None" if "x \<in> set (entries_of layouts path)" for x
      using entries_total(1)[of source x] entries_of_named[OF assms(2) that] by simp
    then have "concat_opt (\<lambda>x. map_option (\<lambda>r. [r]) (invariant_entry source x)) (entries_of layouts path) \<noteq> None"
      by (rule concat_opt_total)
    with ps show ?thesis by (auto simp: invariant_file_def)
  qed
  have "map_option (\<lambda>r. [r]) (invariant_file layouts s) \<noteq> None" if "s \<in> set sources" for s
    using i[OF that] by simp
  then have "concat_opt (\<lambda>s. map_option (\<lambda>r. [r]) (invariant_file layouts s)) sources \<noteq> None"
    by (rule concat_opt_total)
  then have "mine_invariant_constants sources layouts \<noteq> None" by (auto simp: mine_invariant_constants_def)
  moreover have "mine_monotonicity sources layouts \<noteq> None" "mine_access_policy sources layouts \<noteq> None"
    "mine_two_step sources layouts \<noteq> None"
    using each[of monotonic_entry] each[of access_entry] each[of two_step_entry] entries_total
    by (simp_all add: mine_monotonicity_def mine_access_policy_def mine_two_step_def)
  moreover have "(case s of (path, source) \<Rightarrow> do { sigs \<leftarrow> extract_signatures source; concat_opt (conservation_fn source) sigs }) \<noteq> None"
    if "s \<in> set sources" for s
  proof -
    obtain path source where ps: "s = (path, source)" by (cases s)
    have a: "ascii source" using assms(1) that ps by (auto simp: list_all_iff)
    have "concat_opt (conservation_fn source) sigs \<noteq> None" for sigs
      by (rule concat_opt_total[OF conservation_fn_ascii[OF a]])
    with extract_signatures_ascii[OF a] ps show ?thesis by auto
  qed
  then have "mine_conservation sources \<noteq> None"
    unfolding mine_conservation_def by (simp add: concat_opt_total del: not_None_eq)
  ultimately show ?thesis by (auto simp: extract_from_structural_def mine_all_def)
qed

definition demo_layout :: storage_layout where
  "demo_layout =
     \<lparr>sl_qualified_name = ''src/T.sol:T'',
      sl_entries = [\<lparr>se_label = ''x'', se_slot = ''0'', se_offset = 0, se_type_id = ''t_uint256'', se_contract = ''T''\<rparr>],
      sl_types = Map.empty\<rparr>"

definition demo_source :: string where
  "demo_source = ''contract T { uint x; function f() public onlyOwner { x += 1; } }''"

theorem structural_total_witness:
  "extract_from_structural [(''T.sol'', demo_source)] [demo_layout] structural_config_default \<noteq> None"
  by (rule structural_total) (code_simp, code_simp)

lemma monotonic_writer_shape:
  "monotonic_writer source v d w = Some zs \<Longrightarrow> list_all (\<lambda>k. \<exists>w a. k = make_monotonic_candidate v w a d) zs"
  by (cases "signature_for source w"; cases "the (signature_for source w)")
    (auto simp: monotonic_writer_def split: if_splits intro!: exI)

definition polarity_of :: "direction \<Rightarrow> write_polarity" where
  "polarity_of d = (case d of Inc \<Rightarrow> Increment | Dec \<Rightarrow> Decrement)"



text \<open>The pass on a small contract: one variable, one writer, one modifier.\<close>

lemma demo_pass:
  "monotonic_entry demo_source (demo_layout, hd (sl_entries demo_layout))
   = Some [make_monotonic_candidate ''x'' ''f'' ''()'' Inc]"
  "extract_signatures demo_source
   = Some [\<lparr>fs_name = ''f'', fs_args = ''()'', fs_visibility = ''public'', fs_returns = [], fs_is_view_pure = False\<rparr>]"
  "body_for ''f'' demo_source = Some (Some '' x += 1; '')"
  "access_entry demo_source (demo_layout, hd (sl_entries demo_layout))
   = Some [make_access_policy_candidate ''x'' ''onlyOwner'' [''f'']]"
  by (code_simp, code_simp, code_simp, code_simp)


text \<open>The access-policy miner proposes, for a variable, exactly the modifiers that every external writer of
  it carries, in order and without repetition, and one candidate for each.\<close>

theorem access_policy_exact:
  "case external_writers_of source (se_label e) of
     None \<Rightarrow> access_entry source (l, e) = None
   | Some ws \<Rightarrow>
       access_entry source (l, e)
         = Some (map (\<lambda>m. make_access_policy_candidate (se_label e) m ws) (intersect_modifiers source ws))
       \<and> sorted (intersect_modifiers source ws) \<and> distinct (intersect_modifiers source ws)
       \<and> (if ws = [] then intersect_modifiers source ws = []
          else set (intersect_modifiers source ws) = {m. list_all (\<lambda>w. List.member (modifiers_of w source) m) ws})"
proof -
  have loop: "sorted (intersect_loop source acc fs) \<and> distinct (intersect_loop source acc fs)
      \<and> set (intersect_loop source acc fs) = {m \<in> set acc. list_all (\<lambda>w. List.member (modifiers_of w source) m) fs}"
    if "sorted acc" "distinct acc" for acc fs
    using that
  proof (induction fs arbitrary: acc)
    case (Cons f fs)
    let ?acc = "filter (List.member (modifiers_of f source)) acc"
    have s: "sorted ?acc" "distinct ?acc" using Cons(2,3) by (simp_all add: sorted_wrt_filter)
    show ?case
    proof (cases "?acc = []")
      case True
      then have "\<not> List.member (modifiers_of f source) m" if "m \<in> set acc" for m
        using that by (auto simp: filter_empty_conv)
      with True show ?thesis by (auto simp: Let_def)
    next
      case False
      with Cons(1)[OF s] show ?thesis by (auto simp: Let_def)
    qed
  qed simp
  have "sorted (intersect_modifiers source ws) \<and> distinct (intersect_modifiers source ws)
      \<and> (if ws = [] then intersect_modifiers source ws = []
         else set (intersect_modifiers source ws) = {m. list_all (\<lambda>w. List.member (modifiers_of w source) m) ws})" for ws
  proof (cases ws)
    case (Cons f fs)
    with loop[of "sort (remdups (modifiers_of f source))" fs] show ?thesis
      by (auto simp: intersect_modifiers_def List.member_iff)
  qed (simp add: intersect_modifiers_def)
  then show ?thesis
    by (cases "external_writers_of source (se_label e)") (simp_all add: access_entry_def Let_def)
qed

end
