(* ===== verification/IntentOracles.thy ===== *)
theory IntentOracles
  imports AttackTemplates Synthesis TestParser
begin

text \<open>
  Three oracles that turn what a project already says into candidates: activated attack templates
  (\<open>crates/vergil-core/src/catalog_intent.rs\<close>), Foundry tests (\<open>tests_intent.rs\<close>) and NatSpec blocks
  (\<open>natspec_intent.rs\<close>). Each has intents, from the templates or from a model, and has every intent
  synthesised. The model is a function of the position of the request and the request (\<open>join_all\<close> keeps the
  order of the tasks); the decoders of serde are parameters.
\<close>

section \<open>What all of them do\<close>

text \<open>The arguments every synthesis of a run shares.\<close>

record synth_setting =
  ys_vec :: "string \<Rightarrow> spec_candidate list option"
  ys_one :: "string \<Rightarrow> spec_candidate option"
  ys_template :: prompt
  ys_methods :: string
  ys_static_analysis :: string
  ys_retrieved :: "retrieved_hint list"
  ys_contract_source :: string
  ys_scaffold :: string

definition synthesize_intent ::
    "synth_setting \<Rightarrow> synthesis_config \<Rightarrow> (nat \<Rightarrow> completion_request \<Rightarrow> llm_error + completion) \<Rightarrow> string
     \<Rightarrow> synthesis_error + synthesis_report" where
  "synthesize_intent y cfg answer intent =
     synthesize (ys_vec y) (ys_one y) answer (ys_template y) intent (ys_methods y) (ys_static_analysis y)
       (ys_retrieved y) (ys_contract_source y) (ys_scaffold y) cfg"

definition stamp_intent :: "source \<Rightarrow> string \<Rightarrow> spec_candidate \<Rightarrow> spec_candidate" where
  "stamp_intent src intent c =
     c\<lparr>sp_source := src, sp_intent_text := Some (case sp_intent_text c of Some t \<Rightarrow> t | None \<Rightarrow> intent)\<rparr>"

text \<open>\<open>sanitize_name\<close>: one character for each of the text, lower case, no underscore at either end.\<close>

definition sanitize_char :: "char \<Rightarrow> char" where
  "sanitize_char c = (if is_alnum c \<or> c = CHR ''_'' then to_lower1 c else CHR ''_'')"

definition sanitize_name :: "string \<Rightarrow> string" where
  "sanitize_name raw =
     (let s = trim_char (CHR ''_'') (map sanitize_char (char_heads raw)) in if s = [] then ''intent'' else s)"

text \<open>An intent as the models of the two extractors answer it.\<close>

record raw_candidate =
  rc_name :: string
  rc_intent_text :: string
  rc_rationale :: string

record extract_setting =
  xs_vec :: "string \<Rightarrow> raw_candidate list option"
  xs_one :: "string \<Rightarrow> raw_candidate option"
  xs_template :: prompt

definition extraction_request :: "string \<Rightarrow> u32 \<Rightarrow> float \<Rightarrow> string \<Rightarrow> string \<Rightarrow> completion_request" where
  "extraction_request model max_tokens temperature subject prompt_text =
     \<lparr>cr_model = model, cr_messages = [\<lparr>ms_role = User, ms_content = prompt_text\<rparr>],
      cr_system = Some (''You extract property invariants from a Solidity '' @ subject
        @ (''. Reply with ONLY a JSON array per the user prompt'' @ [SQ]
     @ ''s schema. No prose. No code fences.'')),
      cr_temperature = temperature, cr_max_tokens = max_tokens\<rparr>"

section \<open>The catalogue\<close>

record catalog_intent =
  ci_name :: string
  ci_template_id :: string
  ci_display_name :: string
  ci_intent_text :: string
  ci_category :: string
  ci_severity :: string
  ci_decidability :: decidability_status
  ci_over_approximation :: "string option"

record per_template_failure =
  pt_template_id :: string
  pt_reason :: string

record catalog_intent_report =
  cir_intents :: "catalog_intent list"
  cir_candidates :: "spec_candidate list"
  cir_samples :: "sample_stat list"
  cir_failures :: "per_template_failure list"

definition catalog_samples_per_intent :: nat where
  "catalog_samples_per_intent = 1"

definition catalog_intent_of :: "attack_template \<Rightarrow> catalog_intent option" where
  "catalog_intent_of t =
     (let m = at_manifest t; d = am_decidability m in
      if dy_smt_status d = DocumentOnly then None
      else Some \<lparr>ci_name = sanitize_name (am_id m), ci_template_id = am_id m, ci_display_name = am_name m,
                 ci_intent_text = am_negation_property m, ci_category = am_category m,
                 ci_severity = severity_str (am_severity m), ci_decidability = dy_smt_status d,
                 ci_over_approximation = dy_over_approximation d\<rparr>)"

definition catalog_intents :: "activation_result \<Rightarrow> catalog_intent list" where
  "catalog_intents activation = List.map_filter catalog_intent_of (ar_templates activation)"

definition stamp_catalog :: "catalog_intent \<Rightarrow> spec_candidate \<Rightarrow> spec_candidate" where
  "stamp_catalog intent c =
     (stamp_intent AttackCatalog (ci_intent_text intent) c)
       \<lparr>sp_template_ref := Some (case sp_template_ref c of Some t \<Rightarrow> t | None \<Rightarrow> ci_template_id intent)\<rparr>"

definition add_catalog_intent ::
    "synth_setting \<Rightarrow> synthesis_config \<Rightarrow> (nat \<Rightarrow> nat \<Rightarrow> completion_request \<Rightarrow> llm_error + completion)
     \<Rightarrow> nat \<times> catalog_intent \<Rightarrow> catalog_intent_report \<Rightarrow> catalog_intent_report" where
  "add_catalog_intent y cfg answer ni rep =
     (let (n, intent) = ni in
      case synthesize_intent y cfg (answer n) (ci_intent_text intent) of
        Inl e \<Rightarrow>
          rep\<lparr>cir_failures := cir_failures rep
                @ [\<lparr>pt_template_id = ci_template_id intent, pt_reason = synthesis_error_str e\<rparr>]\<rparr>
      | Inr report \<Rightarrow>
          rep\<lparr>cir_samples := cir_samples rep @ sr_samples report,
              cir_candidates := cir_candidates rep @ map (stamp_catalog intent) (sr_candidates report)\<rparr>)"

text \<open>It never fails: an intent that cannot be synthesised is a failure of its template.\<close>

definition extract_from_catalog ::
    "activation_result \<Rightarrow> nat \<Rightarrow> synth_setting \<Rightarrow> synthesis_config
     \<Rightarrow> (nat \<Rightarrow> nat \<Rightarrow> completion_request \<Rightarrow> llm_error + completion) \<Rightarrow> catalog_intent_report" where
  "extract_from_catalog activation samples_per_intent y cfg answer =
     (let intents = catalog_intents activation;
          cfg1 = (if 0 < samples_per_intent then cfg\<lparr>sc_samples := samples_per_intent\<rparr> else cfg)
      in fold (add_catalog_intent y cfg1 answer) (enumerate 0 intents)
           \<lparr>cir_intents = intents, cir_candidates = [], cir_samples = [], cir_failures = []\<rparr>)"

section \<open>Tests\<close>

record test_intent =
  ti_name :: string
  ti_intent_text :: string
  ti_rationale :: string
  ti_source_test_name :: string

record tests_intent_config =
  tc_model :: string
  tc_max_tokens :: u32
  tc_max_candidates_per_test :: nat
  tc_temperature :: float

definition tests_config_anthropic :: tests_intent_config where
  "tests_config_anthropic =
     \<lparr>tc_model = ''claude-sonnet-4-6'', tc_max_tokens = 2048, tc_max_candidates_per_test = 4,
      tc_temperature = to_f32 (2 / 10)\<rparr>"

fun assertion_line :: "assertion \<Rightarrow> string" where
  "assertion_line (AssertEq lhs rhs) = ''- assertEq('' @ lhs @ '', '' @ rhs @ '')''"
| "assertion_line (AssertTrue e) = ''- assertTrue('' @ e @ '')''"
| "assertion_line (AssertFalse e) = ''- assertFalse('' @ e @ '')''"
| "assertion_line ExpectRevert = ''- vm.expectRevert(...)''"
| "assertion_line (HalmosAssert e) = ''- assert('' @ e @ '')''"

definition render_assertions :: "assertion list \<Rightarrow> string" where
  "render_assertions as =
     (if as = [] then ''(no assertion sites detected)'' else join [NL] (map assertion_line as))"

definition test_prompt_vars :: "parsed_test \<Rightarrow> tests_intent_config \<Rightarrow> string \<rightharpoonup> string" where
  "test_prompt_vars t cfg =
     [''test_name'' \<mapsto> parsed_test.pt_name t,
      ''test_doc'' \<mapsto> (case pt_doc_comment t of Some d \<Rightarrow> d | None \<Rightarrow> ''(no doc comment)''),
      ''test_body'' \<mapsto> parsed_test.pt_body t,
      ''test_assertions'' \<mapsto> render_assertions (pt_assertions t),
      ''max_candidates'' \<mapsto> show_nat (tc_max_candidates_per_test cfg)]"

definition parse_test_response :: "extract_setting \<Rightarrow> string \<Rightarrow> raw_candidate list" where
  "parse_test_response x raw = parse_candidates (xs_vec x) (xs_one x) raw"

definition extract_one_test ::
    "extract_setting \<Rightarrow> tests_intent_config \<Rightarrow> (completion_request \<Rightarrow> llm_error + completion) \<Rightarrow> parsed_test
     \<Rightarrow> test_intent list" where
  "extract_one_test x cfg answer t =
     (case prompt_render (xs_template x) (test_prompt_vars t cfg) of
        Inl e \<Rightarrow> []
      | Inr prompt_text \<Rightarrow>
          (case answer (extraction_request (tc_model cfg) (tc_max_tokens cfg) (tc_temperature cfg) ''test'' prompt_text) of
             Inl e \<Rightarrow> []
           | Inr c \<Rightarrow>
               map (\<lambda>raw. \<lparr>ti_name = sanitize_name (rc_name raw), ti_intent_text = rc_intent_text raw,
                           ti_rationale = rc_rationale raw, ti_source_test_name = parsed_test.pt_name t\<rparr>)
                 (take (tc_max_candidates_per_test cfg) (parse_test_response x (co_content c)))))"

definition test_intents ::
    "extract_setting \<Rightarrow> tests_intent_config \<Rightarrow> (nat \<Rightarrow> completion_request \<Rightarrow> llm_error + completion)
     \<Rightarrow> parsed_test list \<Rightarrow> test_intent list" where
  "test_intents x cfg answer tests =
     concat (map (\<lambda>(n, t). extract_one_test x cfg (answer n) t) (enumerate 0 tests))"

text \<open>The first intent whose prompt does not render ends the oracle.\<close>

fun synthesize_all ::
    "source \<Rightarrow> synth_setting \<Rightarrow> synthesis_config \<Rightarrow> (nat \<Rightarrow> nat \<Rightarrow> completion_request \<Rightarrow> llm_error + completion)
     \<Rightarrow> nat \<Rightarrow> string list \<Rightarrow> synthesis_error + spec_candidate list \<times> sample_stat list" where
  "synthesize_all src y cfg answer n [] = Inr ([], [])"
| "synthesize_all src y cfg answer n (intent # rest) =
     (case synthesize_intent y cfg (answer n) intent of
        Inl e \<Rightarrow> Inl e
      | Inr report \<Rightarrow>
          (case synthesize_all src y cfg answer (Suc n) rest of
             Inl e \<Rightarrow> Inl e
           | Inr (cs, ss) \<Rightarrow> Inr (map (stamp_intent src intent) (sr_candidates report) @ cs, sr_samples report @ ss)))"

record tests_intent_report =
  tir_intents :: "test_intent list"
  tir_candidates :: "spec_candidate list"
  tir_samples :: "sample_stat list"

definition extract_from_tests ::
    "extract_setting \<Rightarrow> tests_intent_config \<Rightarrow> (nat \<Rightarrow> completion_request \<Rightarrow> llm_error + completion)
     \<Rightarrow> synth_setting \<Rightarrow> synthesis_config \<Rightarrow> (nat \<Rightarrow> nat \<Rightarrow> completion_request \<Rightarrow> llm_error + completion)
     \<Rightarrow> parsed_test list \<Rightarrow> synthesis_error + tests_intent_report" where
  "extract_from_tests x cfg extract_answer y synth_cfg answer tests =
     (let intents = test_intents x cfg extract_answer tests in
      case synthesize_all Tests y synth_cfg answer 0 (map ti_intent_text intents) of
        Inl e \<Rightarrow> Inl e
      | Inr (cs, ss) \<Rightarrow> Inr \<lparr>tir_intents = intents, tir_candidates = cs, tir_samples = ss\<rparr>)"

section \<open>NatSpec\<close>

record natspec_intent =
  ni_name :: string
  ni_intent_text :: string
  ni_rationale :: string
  ni_target_kind :: string
  ni_target_name :: string

record natspec_intent_config =
  nc_model :: string
  nc_max_tokens :: u32
  nc_max_candidates_per_block :: nat
  nc_temperature :: float

definition natspec_config_anthropic :: natspec_intent_config where
  "natspec_config_anthropic =
     \<lparr>nc_model = ''claude-sonnet-4-6'', nc_max_tokens = 2048, nc_max_candidates_per_block = 3,
      nc_temperature = to_f32 (2 / 10)\<rparr>"

definition is_actionable :: "natspec_block \<Rightarrow> bool" where
  "is_actionable b = (nb_notice b \<noteq> None \<or> nb_dev b \<noteq> [] \<or> nb_invariant b \<noteq> [] \<or> nb_custom_security b \<noteq> [])"

fun target_kind_and_name :: "natspec_target \<Rightarrow> string \<times> string" where
  "target_kind_and_name (NtContract n) = (''contract'', n)"
| "target_kind_and_name (NtFunction n) = (''function'', n)"
| "target_kind_and_name (NtStorage n) = (''storage'', n)"

definition render_list :: "string list \<Rightarrow> string" where
  "render_list items = (if items = [] then ''(none)'' else join [NL] (map (\<lambda>s. ''- '' @ s) items))"

definition natspec_prompt_vars :: "natspec_block \<Rightarrow> natspec_intent_config \<Rightarrow> string \<rightharpoonup> string" where
  "natspec_prompt_vars b cfg =
     (let (kind, name) = target_kind_and_name (nb_target b) in
      [''target_kind'' \<mapsto> kind, ''target_name'' \<mapsto> name,
       ''notice'' \<mapsto> (case nb_notice b of Some s \<Rightarrow> s | None \<Rightarrow> ''(none)''),
       ''dev'' \<mapsto> render_list (nb_dev b), ''invariant'' \<mapsto> render_list (nb_invariant b),
       ''custom_security'' \<mapsto> render_list (nb_custom_security b),
       ''max_candidates'' \<mapsto> show_nat (nc_max_candidates_per_block cfg)])"

definition parse_natspec_response :: "extract_setting \<Rightarrow> string \<Rightarrow> raw_candidate list" where
  "parse_natspec_response x raw = parse_candidates (xs_vec x) (xs_one x) raw"

definition extract_one_block ::
    "extract_setting \<Rightarrow> natspec_intent_config \<Rightarrow> (completion_request \<Rightarrow> llm_error + completion) \<Rightarrow> natspec_block
     \<Rightarrow> natspec_intent list" where
  "extract_one_block x cfg answer b =
     (let (kind, name) = target_kind_and_name (nb_target b) in
      case prompt_render (xs_template x) (natspec_prompt_vars b cfg) of
        Inl e \<Rightarrow> []
      | Inr prompt_text \<Rightarrow>
          (case answer (extraction_request (nc_model cfg) (nc_max_tokens cfg) (nc_temperature cfg) ''NatSpec block'' prompt_text) of
             Inl e \<Rightarrow> []
           | Inr c \<Rightarrow>
               map (\<lambda>raw. \<lparr>ni_name = sanitize_name (rc_name raw), ni_intent_text = rc_intent_text raw,
                           ni_rationale = rc_rationale raw, ni_target_kind = kind, ni_target_name = name\<rparr>)
                 (take (nc_max_candidates_per_block cfg) (parse_natspec_response x (co_content c)))))"

definition natspec_intents ::
    "extract_setting \<Rightarrow> natspec_intent_config \<Rightarrow> (nat \<Rightarrow> completion_request \<Rightarrow> llm_error + completion)
     \<Rightarrow> natspec_block list \<Rightarrow> natspec_intent list" where
  "natspec_intents x cfg answer blocks =
     concat (map (\<lambda>(n, b). extract_one_block x cfg (answer n) b) (enumerate 0 (filter is_actionable blocks)))"

record natspec_intent_report =
  nir_intents :: "natspec_intent list"
  nir_candidates :: "spec_candidate list"
  nir_samples :: "sample_stat list"

definition extract_from_natspec ::
    "extract_setting \<Rightarrow> natspec_intent_config \<Rightarrow> (nat \<Rightarrow> completion_request \<Rightarrow> llm_error + completion)
     \<Rightarrow> synth_setting \<Rightarrow> synthesis_config \<Rightarrow> (nat \<Rightarrow> nat \<Rightarrow> completion_request \<Rightarrow> llm_error + completion)
     \<Rightarrow> natspec_block list \<Rightarrow> synthesis_error + natspec_intent_report" where
  "extract_from_natspec x cfg extract_answer y synth_cfg answer blocks =
     (let intents = natspec_intents x cfg extract_answer blocks in
      case synthesize_all NatSpec y synth_cfg answer 0 (map ni_intent_text intents) of
        Inl e \<Rightarrow> Inl e
      | Inr (cs, ss) \<Rightarrow> Inr \<lparr>nir_intents = intents, nir_candidates = cs, nir_samples = ss\<rparr>)"

section \<open>Lemmas\<close>

text \<open>Whether the prompt for an intent renders; this does not depend on the model.\<close>

definition renders :: "synth_setting \<Rightarrow> string \<Rightarrow> bool" where
  "renders y intent \<longleftrightarrow>
     isl (render_prompt (ys_template y) intent (ys_methods y) (ys_static_analysis y) (ys_retrieved y)
            (ys_contract_source y) (ys_scaffold y)) = False"

lemma synthesize_intent_cases:
  "(case synthesize_intent y cfg answer intent of
      Inl e \<Rightarrow> \<not> renders y intent
    | Inr rep \<Rightarrow> renders y intent \<and> length (sr_samples rep) = max (sc_samples cfg) 1)"
proof -
  have "case synthesize_intent y cfg answer intent of
      Inl e \<Rightarrow> \<not> renders y intent
    | Inr rep \<Rightarrow> renders y intent \<and> map ss_index (sr_samples rep) = [0..<max (sc_samples cfg) 1]"
    using synthesize_report[where dec_vec = "ys_vec y" and dec_one = "ys_one y" and answer = answer
        and tpl = "ys_template y" and intent = intent and methods = "ys_methods y" and sa = "ys_static_analysis y"
        and hints = "ys_retrieved y" and src = "ys_contract_source y" and scaffold = "ys_scaffold y" and cfg = cfg]
    by (auto simp: synthesize_intent_def renders_def split: sum.splits)
  then show ?thesis
    by (auto split: sum.splits dest: arg_cong[where f = length])
qed

text \<open>What a candidate owes to its oracle.\<close>

definition stamped :: "source \<Rightarrow> spec_candidate \<Rightarrow> bool" where
  "stamped src c \<longleftrightarrow> sp_source c = src \<and> sp_intent_text c \<noteq> None"

lemma stamped_stamp [simp]: "stamped src (stamp_intent src intent c)"
  by (simp add: stamped_def stamp_intent_def)

definition catalog_stamped :: "spec_candidate \<Rightarrow> bool" where
  "catalog_stamped c \<longleftrightarrow> stamped AttackCatalog c \<and> sp_template_ref c \<noteq> None"

lemma stamped_stamp_catalog: "catalog_stamped (stamp_catalog intent c)"
  by (simp add: catalog_stamped_def stamped_def stamp_intent_def stamp_catalog_def)

lemma add_catalog_step:
  fixes y cfg answer n i rep
  defines "out \<equiv> add_catalog_intent y cfg answer (n, i) rep"
  shows "cir_intents out = cir_intents rep"
    and "map pt_template_id (cir_failures out) = map pt_template_id (cir_failures rep)
      @ (if renders y (ci_intent_text i) then [] else [ci_template_id i])"
    and "length (cir_samples out) = length (cir_samples rep)
      + (if renders y (ci_intent_text i) then max (sc_samples cfg) 1 else 0)"
    and "list_all catalog_stamped (cir_candidates rep) \<Longrightarrow> list_all catalog_stamped (cir_candidates out)"
  unfolding out_def
  using synthesize_intent_cases[where y = y and cfg = cfg and answer = "answer n" and intent = "ci_intent_text i"]
    stamped_stamp_catalog[of i]
  by (cases "synthesize_intent y cfg (answer n) (ci_intent_text i)"; force simp: add_catalog_intent_def list_all_iff)+

lemma add_catalog_intents:
  fixes y cfg answer intents rep n
  defines "out \<equiv> fold (add_catalog_intent y cfg answer) (enumerate n intents) rep"
  shows "cir_intents out = cir_intents rep"
    and "map pt_template_id (cir_failures out) = map pt_template_id (cir_failures rep)
      @ map ci_template_id (filter (\<lambda>i. \<not> renders y (ci_intent_text i)) intents)"
    and "length (cir_samples out) = length (cir_samples rep)
      + max (sc_samples cfg) 1 * length (filter (\<lambda>i. renders y (ci_intent_text i)) intents)"
    and "list_all catalog_stamped (cir_candidates rep) \<Longrightarrow> list_all catalog_stamped (cir_candidates out)"
  unfolding out_def
  by (induction intents arbitrary: n rep) (simp_all add: add_catalog_step)

lemma synthesize_all_result:
  "(case synthesize_all src y cfg answer n intents of
      Inl e \<Rightarrow> \<not> list_all (renders y) intents
    | Inr (cs, ss) \<Rightarrow>
        list_all (renders y) intents \<and> list_all (stamped src) cs \<and> length ss = max (sc_samples cfg) 1 * length intents)"
proof (induction intents arbitrary: n)
  case (Cons i intents)
  show ?case
    using Cons[of "Suc n"] synthesize_intent_cases[where y = y and cfg = cfg and answer = "answer n" and intent = i]
    by (auto simp: list_all_iff split: sum.splits)
qed simp

lemma length_concat_le: "(\<And>x. x \<in> set xs \<Longrightarrow> length (f x) \<le> k) \<Longrightarrow> length (concat (map f xs)) \<le> k * length xs"
  by (induction xs) fastforce+

lemma test_intents_bound: "length (test_intents x cfg answer tests) \<le> tc_max_candidates_per_test cfg * length tests"
proof -
  have "length (extract_one_test x cfg a t) \<le> tc_max_candidates_per_test cfg" for a t
    by (simp add: extract_one_test_def split: sum.split)
  then have "length (concat (map (\<lambda>(n, t). extract_one_test x cfg (answer n) t) (enumerate 0 tests))) \<le> tc_max_candidates_per_test cfg * length (enumerate 0 tests)"
    by (intro length_concat_le) auto
  then show ?thesis
    by (simp add: test_intents_def)
qed

lemma natspec_intents_bound:
  "length (natspec_intents x cfg answer blocks) \<le> nc_max_candidates_per_block cfg * length (filter is_actionable blocks)"
proof -
  have "length (extract_one_block x cfg a b) \<le> nc_max_candidates_per_block cfg" for a b
    by (simp add: extract_one_block_def split: sum.split prod.split)
  then have "length (concat (map (\<lambda>(n, b). extract_one_block x cfg (answer n) b) (enumerate 0 (filter is_actionable blocks)))) \<le> nc_max_candidates_per_block cfg * length (enumerate 0 (filter is_actionable blocks))"
    by (intro length_concat_le) auto
  then show ?thesis
    by (simp add: natspec_intents_def)
qed

section \<open>Properties\<close>

text \<open>The catalogue oracle never fails. It reports one intent for each activated template that is not
  document-only; a template whose prompt does not render is listed as failed, every other one costs
  exactly the configured number of samples, and no other template is affected. Every candidate carries
  the catalogue as its source, a template and an intent.\<close>

theorem catalog_oracle_isolates:
  "(let rep = extract_from_catalog activation k y cfg answer;
        ok = (\<lambda>i. renders y (ci_intent_text i))
    in map ci_template_id (cir_intents rep)
         = map at_id (filter (\<lambda>t. at_status t \<noteq> DocumentOnly) (ar_templates activation))
       \<and> map pt_template_id (cir_failures rep) = map ci_template_id (filter (\<lambda>i. \<not> ok i) (cir_intents rep))
       \<and> length (cir_samples rep)
           = max (if 0 < k then k else sc_samples cfg) 1 * length (filter ok (cir_intents rep))
       \<and> list_all catalog_stamped (cir_candidates rep))"
proof -
  have ids: "map ci_template_id (List.map_filter catalog_intent_of ts) = map at_id (filter (\<lambda>t. at_status t \<noteq> DocumentOnly) ts)"
    for ts
    by (induction ts) (auto simp: List.map_filter_def catalog_intent_of_def Let_def)
  show ?thesis
    using add_catalog_intents(4)
    by (simp add: extract_from_catalog_def Let_def add_catalog_intents(1,2,3) ids catalog_intents_def del: not_None_eq)
qed

text \<open>The other two oracles are bounded and all-or-nothing: at most the configured number of intents is
  taken per test or per documented block, synthesis costs exactly the configured number of samples per
  intent, every candidate carries its oracle as source and an intent; and if the prompt of one intent
  does not render, the oracle fails as a whole, which happens only then.\<close>

theorem text_oracles_bounded:
  "(case extract_from_tests xt ct ta y cfg answer tests of
      Inl e \<Rightarrow> \<not> list_all (renders y) (map ti_intent_text (test_intents xt ct ta tests))
    | Inr r \<Rightarrow>
        length (tir_intents r) \<le> tc_max_candidates_per_test ct * length tests
        \<and> length (tir_samples r) = max (sc_samples cfg) 1 * length (tir_intents r)
        \<and> list_all (stamped Tests) (tir_candidates r))
   \<and> (case extract_from_natspec xn cn na y cfg answer blocks of
        Inl e \<Rightarrow> \<not> list_all (renders y) (map ni_intent_text (natspec_intents xn cn na blocks))
      | Inr r \<Rightarrow>
          length (nir_intents r) \<le> nc_max_candidates_per_block cn * length (filter is_actionable blocks)
          \<and> length (nir_samples r) = max (sc_samples cfg) 1 * length (nir_intents r)
          \<and> list_all (stamped NatSpec) (nir_candidates r))"
  using synthesize_all_result[where src = Tests and y = y and cfg = cfg and answer = answer and n = 0
      and intents = "map ti_intent_text (test_intents xt ct ta tests)"]
    synthesize_all_result[where src = NatSpec and y = y and cfg = cfg and answer = answer and n = 0
      and intents = "map ni_intent_text (natspec_intents xn cn na blocks)"]
    test_intents_bound[of xt ct ta tests] natspec_intents_bound[of xn cn na blocks]
  by (auto simp: extract_from_tests_def extract_from_natspec_def Let_def split: sum.splits)

end
