(* ===== verification/Stage1.thy ===== *)
theory Stage1
  imports Unified Structural IntentOracles Scaffold Providers
begin

text \<open>
  Stages 0 and 1 of the unified command (\<open>crates/vergil-cli/src/commands/verify_unified.rs\<close>): the facts a
  fingerprint gives the attack catalogue, the four oracles, the projections into the verdict, and the
  command from its arguments to its report.
\<close>

section \<open>Arguments and clients\<close>

record unified_args =
  ua_project :: string
  ua_scaffold_override :: "string option"
  ua_no_tests :: bool
  ua_no_natspec :: bool
  ua_catalog_categories :: "string list"
  ua_auto_confirm :: bool
  ua_resume :: bool
  ua_list_applicable :: bool
  ua_telemetry_json :: "string option"
  ua_tenant_id :: string
  ua_dispatch_budget_ms :: u64

definition unified_args_default :: unified_args where
  "unified_args_default =
     \<lparr>ua_project = [], ua_scaffold_override = None, ua_no_tests = False, ua_no_natspec = False,
      ua_catalog_categories = [], ua_auto_confirm = False, ua_resume = False, ua_list_applicable = False,
      ua_telemetry_json = None, ua_tenant_id = ''internal'', ua_dispatch_budget_ms = 120000\<rparr>"

record 'p provider_handles =
  ph_synthesizer :: "'p option"
  ph_critic :: "'p option"
  ph_extractor :: "'p option"
  ph_critic_provider_id :: "provider_id option"

definition no_handles :: "'p provider_handles" where
  "no_handles = \<lparr>ph_synthesizer = None, ph_critic = None, ph_extractor = None, ph_critic_provider_id = None\<rparr>"

definition handles_from_env ::
    "(string \<Rightarrow> string option) \<Rightarrow> (string \<Rightarrow> string + 'p) \<Rightarrow> (string \<Rightarrow> 'p) \<Rightarrow> string + 'p provider_handles" where
  "handles_from_env getenv anthropic openai =
     (case build_providers_from_env getenv anthropic openai of
        Inl e \<Rightarrow> Inl (intent_error_str e)
      | Inr b \<Rightarrow> Inr \<lparr>ph_synthesizer = Some (pb_synthesizer b), ph_critic = Some (pb_critic b),
                       ph_extractor = Some (pb_synthesizer b), ph_critic_provider_id = Some OpenAi\<rparr>)"

section \<open>Activation\<close>

definition known_flags :: "string list" where
  "known_flags =
     [''state_change_present'', ''no_auth_check'', ''unchecked_block_present'', ''external_call_present'',
      ''initialize_present'', ''cancel_present'', ''deposit_present'', ''uups_proxy'', ''bit_shift_present'']"

definition classifier_matches :: "fingerprint_data \<Rightarrow> string list" where
  "classifier_matches fp =
     map (\<lambda>m. primitive_id (pm_primitive m)) (classification_above threshold_06 (fp_primitive_classification fp))"

definition fingerprint_to_facts :: "fingerprint_data \<Rightarrow> static_facts" where
  "fingerprint_to_facts fp =
     (let f1 = fold with_interface (fp_interfaces fp) (with_interface ''any'' static_facts_new);
          f2 = with_primitive ''any'' f1;
          f3 = fold with_primitive (if classifier_matches fp \<noteq> [] then classifier_matches fp else fp_primitives fp) f2
      in fold (\<lambda>flag. with_pattern flag True) known_flags f3)"

definition filter_activation_by_category :: "string list \<Rightarrow> activation_result \<Rightarrow> activation_result" where
  "filter_activation_by_category categories act =
     (let keep = (\<lambda>t. List.member categories (am_category (at_manifest t)));
          dropped = filter (\<lambda>t. \<not> keep t) (ar_templates act)
      in act\<lparr>ar_templates := filter keep (ar_templates act),
             ar_skipped := ar_skipped act @
               map (\<lambda>d. \<lparr>sx_id = am_id (at_manifest d),
                         sx_reason = ''category '' @ am_category (at_manifest d) @ '' not in --catalog-subset''\<rparr>) dropped\<rparr>)"

definition collect_document_only_templates :: "activation_result \<Rightarrow> document_only_template list" where
  "collect_document_only_templates act =
     map (\<lambda>t. \<lparr>do_id = am_id (at_manifest t), do_name = am_name (at_manifest t)\<rparr>)
       (filter (\<lambda>t. dy_smt_status (am_decidability (at_manifest t)) = DocumentOnly) (ar_templates act))"

text \<open>The lines of the listing on standard output.\<close>

definition or_none :: "string list \<Rightarrow> string" where
  "or_none xs = (if xs = [] then ''(none)'' else join '', '' xs)"

definition list_applicable_lines :: "fingerprint_data \<Rightarrow> activation_result \<Rightarrow> string list" where
  "list_applicable_lines fp act =
     (let ao = fp_available_oracles fp in
      [''# vergil verify --list-applicable'', [], ''Project: '' @ fp_project_root fp,
       ''Interfaces: '' @ or_none (fp_interfaces fp), ''Primitives: '' @ or_none (fp_primitives fp),
       ''Oracles available: tests='' @ bool_str (avo_tests ao) @ '' natspec='' @ bool_str (avo_natspec ao)
         @ '' readme='' @ bool_str (avo_readme ao \<noteq> None), [],
       ''Activated attack-catalog templates ('' @ show_nat (length (ar_templates act)) @ ''):'']
      @ map (\<lambda>t. ''  - '' @ am_id (at_manifest t) @ ''  ['' @ am_category (at_manifest t) @ '']  ''
               @ am_name (at_manifest t)) (ar_templates act)
      @ [[], ''Skipped templates ('' @ show_nat (length (ar_skipped act)) @ ''):'']
      @ map (\<lambda>s. ''  - '' @ sx_id s @ ''  ('' @ sx_reason s @ '')'') (ar_skipped act))"

section \<open>What the oracles read\<close>

definition read_contract_source :: "(string \<times> string option) list \<Rightarrow> string" where
  "read_contract_source sources =
     concat (map (\<lambda>(p, body). case body of Some s \<Rightarrow> s @ [NL] | None \<Rightarrow> []) sources)"

definition load_structural_sources :: "(string \<times> string option) list \<Rightarrow> (string \<times> string) list" where
  "load_structural_sources paths = List.map_filter (\<lambda>(p, body). map_option (Pair p) body) paths"

definition load_storage_layouts ::
    "tool_env \<Rightarrow> (string \<Rightarrow> string + (string \<times> layout_payload option) list) \<Rightarrow> string list \<Rightarrow> storage_layout list" where
  "load_storage_layouts env dec paths =
     concat (map (\<lambda>p. case storage_run_simple env dec p 30000 of StLayouts ls \<Rightarrow> ls | StError e \<Rightarrow> []) paths)"

definition render_available_methods_for :: "(string \<times> string option) list \<Rightarrow> string option" where
  "render_available_methods_for sources =
     map_option render_available_methods (extract_signatures (read_contract_source sources))"

section \<open>Stage 1\<close>

text \<open>
  \<open>se_read\<close> and \<open>se_node\<close> are the file system, then come serde's decoders and the prompt templates, the
  answers of a client \<open>'p\<close> for each oracle by position (\<open>join!\<close> and \<open>join_all\<close> keep the order), and solc.
\<close>

record 'p stage1_env =
  se_read :: "string \<Rightarrow> string + string"
  se_node :: fs_node
  se_vec :: "string \<Rightarrow> spec_candidate list option"
  se_one :: "string \<Rightarrow> spec_candidate option"
  se_synthesize_tpl :: prompt
  se_tests_x :: extract_setting
  se_natspec_x :: extract_setting
  se_catalog_llm :: "'p \<Rightarrow> nat \<Rightarrow> nat \<Rightarrow> completion_request \<Rightarrow> llm_error + completion"
  se_tests_extract :: "'p \<Rightarrow> nat \<Rightarrow> completion_request \<Rightarrow> llm_error + completion"
  se_tests_llm :: "'p \<Rightarrow> nat \<Rightarrow> nat \<Rightarrow> completion_request \<Rightarrow> llm_error + completion"
  se_natspec_extract :: "'p \<Rightarrow> nat \<Rightarrow> completion_request \<Rightarrow> llm_error + completion"
  se_natspec_llm :: "'p \<Rightarrow> nat \<Rightarrow> nat \<Rightarrow> completion_request \<Rightarrow> llm_error + completion"
  se_tools :: tool_env
  se_solc :: "string \<Rightarrow> string + (string \<times> layout_payload option) list"

record stage1_outputs =
  so_candidates :: "spec_candidate list"
  so_catalog :: "catalog_intent_report option"
  so_tests :: "tests_intent_report option"
  so_natspec :: "natspec_intent_report option"
  so_structural :: "structural_report option"

definition no_outputs :: stage1_outputs where
  "no_outputs = \<lparr>so_candidates = [], so_catalog = None, so_tests = None, so_natspec = None, so_structural = None\<rparr>"

definition synthesis_samples_1 :: synthesis_config where
  "synthesis_samples_1 = default_for_anthropic\<lparr>sc_samples := 1\<rparr>"

text \<open>What an oracle has to read; an error of a parser counts as nothing to read.\<close>

definition tests_data :: "unified_args \<Rightarrow> fingerprint_data \<Rightarrow> fs_node \<Rightarrow> parsed_test list option" where
  "tests_data args fp node =
     (if ua_no_tests args \<or> \<not> avo_tests (fp_available_oracles fp) then Some []
      else map_option (\<lambda>r. case r of Inr ts \<Rightarrow> ts | Inl e \<Rightarrow> []) (parse_tests (fp_project_root fp) node))"

definition natspec_data :: "unified_args \<Rightarrow> fingerprint_data \<Rightarrow> fs_node \<Rightarrow> natspec_block list option" where
  "natspec_data args fp node =
     (if ua_no_natspec args \<or> \<not> avo_natspec (fp_available_oracles fp) then Some []
      else map_option (\<lambda>r. case r of Inr bs \<Rightarrow> map snd bs | Inl e \<Rightarrow> []) (parse_natspec_dir (fp_project_root fp) node))"

definition cands_of :: "('r \<Rightarrow> spec_candidate list) \<Rightarrow> 'r option \<Rightarrow> spec_candidate list" where
  "cands_of f r = (case r of Some x \<Rightarrow> f x | None \<Rightarrow> [])"

text \<open>The reports of the oracles that had something to read and did not fail.\<close>

definition join_oracles ::
    "activation_result \<Rightarrow> parsed_test list \<Rightarrow> natspec_block list \<Rightarrow> catalog_intent_report
     \<Rightarrow> synthesis_error + tests_intent_report \<Rightarrow> synthesis_error + natspec_intent_report \<Rightarrow> structural_report
     \<Rightarrow> stage1_outputs" where
  "join_oracles act tests blocks cat_r test_r ns_r struct_r =
     (let cat = (if ar_templates act \<noteq> [] then Some cat_r else None);
          tst = (if tests \<noteq> [] then (case test_r of Inr r \<Rightarrow> Some r | Inl e \<Rightarrow> None) else None);
          nat_r = (if blocks \<noteq> [] then (case ns_r of Inr r \<Rightarrow> Some r | Inl e \<Rightarrow> None) else None)
      in \<lparr>so_candidates = cands_of cir_candidates cat @ cands_of tir_candidates tst
            @ cands_of nir_candidates nat_r @ rep_candidates struct_r,
          so_catalog = cat, so_tests = tst, so_natspec = nat_r, so_structural = Some struct_r\<rparr>)"

definition synth_setting_of :: "'p stage1_env \<Rightarrow> string \<Rightarrow> string \<Rightarrow> string \<Rightarrow> synth_setting" where
  "synth_setting_of env methods source scaffold =
     \<lparr>ys_vec = se_vec env, ys_one = se_one env, ys_template = se_synthesize_tpl env, ys_methods = methods,
      ys_static_analysis = [], ys_retrieved = [], ys_contract_source = source, ys_scaffold = scaffold\<rparr>"

definition run_stage1 ::
    "'p stage1_env \<Rightarrow> unified_args \<Rightarrow> fingerprint_data \<Rightarrow> activation_result \<Rightarrow> 'p provider_handles
     \<Rightarrow> (unified_error + stage1_outputs) option" where
  "run_stage1 env args fp act providers =
     (case ph_synthesizer providers of
        None \<Rightarrow> Some (Inr no_outputs)
      | Some synthesizer \<Rightarrow>
          (let extractor = (case ph_extractor providers of Some p \<Rightarrow> p | None \<Rightarrow> synthesizer);
               cfg = synthesis_samples_1; sources = fp_contract_sources fp in
           case resolve_scaffold (se_read env) (se_node env) (ua_scaffold_override args) of
             Inl e \<Rightarrow> Some (Inl (UeScaffold e))
           | Inr scaffold \<Rightarrow> do {
               methods \<leftarrow> render_available_methods_for sources;
               tests \<leftarrow> tests_data args fp (se_node env);
               blocks \<leftarrow> natspec_data args fp (se_node env);
               (let y = synth_setting_of env methods (read_contract_source sources) scaffold;
                    loaded = load_structural_sources sources;
                    layouts = load_storage_layouts (se_tools env) (se_solc env) (map fst loaded) in
                do {
                  struct_r \<leftarrow> extract_from_structural loaded layouts structural_config_default;
                  Some (Inr (join_oracles act tests blocks
                    (extract_from_catalog act catalog_samples_per_intent y cfg (se_catalog_llm env synthesizer))
                    (extract_from_tests (se_tests_x env) tests_config_anthropic (se_tests_extract env extractor)
                       y cfg (se_tests_llm env synthesizer) tests)
                    (extract_from_natspec (se_natspec_x env) natspec_config_anthropic (se_natspec_extract env extractor)
                       y cfg (se_natspec_llm env synthesizer) blocks)
                    struct_r))
                })
             }))"

section \<open>Projections into the verdict\<close>

definition fingerprint_summary_of :: "fingerprint_data \<Rightarrow> fingerprint_summary" where
  "fingerprint_summary_of fp =
     \<lparr>fs_interfaces = fp_interfaces fp, fs_primitives = fp_primitives fp,
      fs_available_oracles = \<lparr>ao_tests = avo_tests (fp_available_oracles fp),
        ao_natspec = avo_natspec (fp_available_oracles fp), ao_readme = (avo_readme (fp_available_oracles fp) \<noteq> None)\<rparr>\<rparr>"

definition structural_is_pending :: "stage1_outputs \<Rightarrow> bool" where
  "structural_is_pending s = (case so_structural s of Some r \<Rightarrow> rep_candidates r = [] | None \<Rightarrow> True)"

definition low_confidence_structural_summaries :: "stage1_outputs \<Rightarrow> low_confidence_structural list" where
  "low_confidence_structural_summaries s =
     (case so_structural s of
        None \<Rightarrow> []
      | Some r \<Rightarrow>
          map (\<lambda>f. \<lparr>ls_miner = miner_id (lf_miner f), ls_description = lf_description f,
                    ls_confidence = lf_confidence f, ls_fn_or_var = lf_fn_or_var f\<rparr>) (rep_low_confidence_findings r))"

definition project_primitive_classification :: "fingerprint_data \<Rightarrow> classification_summary option" where
  "project_primitive_classification fp =
     (case classification_top (fp_primitive_classification fp) of
        None \<Rightarrow> None
      | Some best \<Rightarrow>
          Some \<lparr>cl_top = primitive_id (pm_primitive best), cl_top_confidence = fmt2 (pm_confidence best),
                cl_top_signals = join '', '' (pm_signals best),
                cl_low_confidence =
                  map (\<lambda>m. \<lparr>lp_primitive = primitive_id (pm_primitive m), lp_confidence = fmt2 (pm_confidence m),
                            lp_signals = join '', '' (pm_signals m)\<rparr>)
                    (filter (\<lambda>m. flt (pm_confidence m) threshold_06 \<and> pm_primitive m \<noteq> pm_primitive best)
                      (pc_matches (fp_primitive_classification fp)))\<rparr>)"

definition per_template_failures_of :: "stage1_outputs \<Rightarrow> template_failure list" where
  "per_template_failures_of s =
     (case so_catalog s of
        None \<Rightarrow> []
      | Some r \<Rightarrow> map (\<lambda>f. \<lparr>tf_template_id = pt_template_id f, tf_reason = pt_reason f\<rparr>) (cir_failures r))"

definition stratified_base ::
    "string \<Rightarrow> fingerprint_data \<Rightarrow> activation_result \<Rightarrow> stage1_outputs \<Rightarrow> stratified_inputs" where
  "stratified_base project fp act s =
     \<lparr>si_project_path = project, si_fingerprint = fingerprint_summary_of fp, si_properties = [],
      si_skipped_templates = map (\<lambda>x. \<lparr>sk_id = sx_id x, sk_reason = sx_reason x\<rparr>) (ar_skipped act),
      si_per_template_failures = per_template_failures_of s,
      si_document_only = collect_document_only_templates act,
      si_structural_pending = structural_is_pending s,
      si_low_confidence_structural = low_confidence_structural_summaries s,
      si_classification = project_primitive_classification fp\<rparr>"

section \<open>The command\<close>

record ('p, 't) unified_env =
  un_canon :: "string \<Rightarrow> string option"
  un_mkdir :: "string \<Rightarrow> string option"
  un_manifest_dir :: "string option"
  un_is_dir :: "string \<Rightarrow> bool"
  un_templates :: "string \<Rightarrow> fs_node option"
  un_yaml :: "string \<Rightarrow> string + attack_manifest"
  un_getenv :: "string \<Rightarrow> string option"
  un_anthropic :: "string \<Rightarrow> string + 'p"
  un_openai :: "string \<Rightarrow> 'p"
  un_provider_id :: "'p \<Rightarrow> provider_id"
  un_stage1 :: "'p stage1_env"
  un_critique_dec :: "json \<Rightarrow> string + critique_result"
  un_critique_tpl :: prompt
  un_critic_llm :: "'p \<Rightarrow> nat \<Rightarrow> structured_request \<Rightarrow> llm_error + structured_response"
  un_stages :: "'t stage_env"

definition attack_templates_dir :: "string option \<Rightarrow> (string \<Rightarrow> bool) \<Rightarrow> string option" where
  "attack_templates_dir manifest_dir is_dir = do {
     mf \<leftarrow> manifest_dir;
     p \<leftarrow> path_parent mf;
     q \<leftarrow> path_parent p;
     (let candidate = path_join q ''crates/vergil-properties/templates/attacks'' in
      if is_dir candidate then Some candidate else None)
   }"

definition activation_of :: "unified_args \<Rightarrow> (string \<times> attack_template) list \<Rightarrow> fingerprint_data \<Rightarrow> activation_result" where
  "activation_of args cat fp =
     (let act = activate cat (fingerprint_to_facts fp) in
      if ua_catalog_categories args \<noteq> [] then filter_activation_by_category (ua_catalog_categories args) act else act)"

definition need_llm :: "unified_args \<Rightarrow> fingerprint_data \<Rightarrow> activation_result \<Rightarrow> bool" where
  "need_llm args fp act \<longleftrightarrow>
     ar_templates act \<noteq> [] \<or> (\<not> ua_no_tests args \<and> avo_tests (fp_available_oracles fp))
     \<or> (\<not> ua_no_natspec args \<and> avo_natspec (fp_available_oracles fp))"

definition unified_critic :: "('p, 't) unified_env \<Rightarrow> 'p provider_handles \<Rightarrow> 'p \<Rightarrow> critic" where
  "unified_critic env providers p =
     \<lparr>ck_provider = un_provider_id env p,
      ck_synth_provider = (case ph_critic_provider_id providers of Some i \<Rightarrow> i | None \<Rightarrow> Anthropic),
      ck_cfg = critique_default_for_openai\<rparr>"

definition critique_stage ::
    "('p, 't) unified_env \<Rightarrow> critic \<Rightarrow> 'p \<Rightarrow> spec_candidate list \<Rightarrow> filter_outcome option" where
  "critique_stage env k p cands =
     filter_accepted (ck_cfg k) cands
       (if cands = [] then []
        else critique_all (un_critique_dec env) (un_critique_tpl env) k (un_critic_llm env p) cands
               ''Phase 6 stratified verification'' None)"

definition stage_env_of ::
    "('p, 't) unified_env \<Rightarrow> unified_args \<Rightarrow> string \<Rightarrow> stratified_inputs \<Rightarrow> 't stage_env" where
  "stage_env_of env args project base =
     (let se = un_stages env in
      se\<lparr>st_project := project, st_resume := ua_resume args, st_budget_ms := ua_dispatch_budget_ms args,
         st_scaffold := resolve_scaffold (se_read (un_stage1 env)) (se_node (un_stage1 env)) (ua_scaffold_override args),
         st_telemetry_error := (case ua_telemetry_json args of None \<Rightarrow> None | Some p \<Rightarrow> st_telemetry_error se),
         st_sink := (st_sink se)\<lparr>cx_project := project, cx_tenant := ua_tenant_id args, cx_run_id := st_run_id se,
           cx_record := (case ua_telemetry_json args of None \<Rightarrow> (\<lambda>e l. l) | Some p \<Rightarrow> cx_record (st_sink se))\<rparr>,
         st_base := base\<rparr>)"

text \<open>Stages 1.5 to 4. Without a client the command returns before anything is judged or written.\<close>

definition judge_and_report ::
    "('p, 't) unified_env \<Rightarrow> unified_args \<Rightarrow> (proposed_intent \<Rightarrow> 's \<Rightarrow> (confirm_error + decision) \<times> 's) \<Rightarrow> 's
     \<Rightarrow> string \<Rightarrow> fingerprint_data \<Rightarrow> activation_result \<Rightarrow> 'p provider_handles \<Rightarrow> stage1_outputs \<Rightarrow> 't world
     \<Rightarrow> (unified_error + run_report) option \<times> 't world" where
  "judge_and_report env args driver s project fp act providers out w =
     (case (case ph_critic providers of Some p \<Rightarrow> Some p | None \<Rightarrow> ph_synthesizer providers) of
        None \<Rightarrow> (Some (Inr (RrVerdict HlIncomplete [])), w)
      | Some p \<Rightarrow>
          (case critique_stage env (unified_critic env providers p) p (so_candidates out) of
             None \<Rightarrow> (None, w)
           | Some filtered \<Rightarrow>
               unified_stages (stage_env_of env args project (stratified_base project fp act out))
                 (if ua_auto_confirm args then decide_auto else driver) s (fo_kept filtered) w))"

text \<open>The report, the lines on standard output, and the world.\<close>

definition unified_after_activation ::
    "('p, 't) unified_env \<Rightarrow> unified_args \<Rightarrow> (proposed_intent \<Rightarrow> 's \<Rightarrow> (confirm_error + decision) \<times> 's) \<Rightarrow> 's
     \<Rightarrow> string \<Rightarrow> fingerprint_data \<Rightarrow> activation_result \<Rightarrow> 't world
     \<Rightarrow> (unified_error + run_report) option \<times> string list \<times> 't world" where
  "unified_after_activation env args driver s project fp act w =
     (if ua_list_applicable args
      then (Some (Inr (RrListApplicable (length (ar_templates act)) (length (ar_skipped act)))),
            list_applicable_lines fp act, w)
      else case (if need_llm args fp act then handles_from_env (un_getenv env) (un_anthropic env) (un_openai env)
                 else Inr no_handles) of
        Inl e \<Rightarrow> (Some (Inl (UeProviderInit e)), [], w)
      | Inr providers \<Rightarrow>
          (case run_stage1 (un_stage1 env) args fp act providers of
             None \<Rightarrow> (None, [], w)
           | Some (Inl e) \<Rightarrow> (Some (Inl e), [], w)
           | Some (Inr out) \<Rightarrow>
               (let (r, w1) = judge_and_report env args driver s project fp act providers out w in (r, [], w1))))"

definition unified_run ::
    "('p, 't) unified_env \<Rightarrow> unified_args \<Rightarrow> (proposed_intent \<Rightarrow> 's \<Rightarrow> (confirm_error + decision) \<times> 's) \<Rightarrow> 's
     \<Rightarrow> 't world \<Rightarrow> (unified_error + run_report) option \<times> string list \<times> 't world" where
  "unified_run env args driver s w =
     (case un_canon env (ua_project args) of
        None \<Rightarrow> (Some (Inl (UeBadProject (ua_project args))), [], w)
      | Some project \<Rightarrow>
          (if \<not> is_dir_node (se_node (un_stage1 env)) \<or> \<not> child_is_file (se_node (un_stage1 env)) ''foundry.toml''
           then (Some (Inl (UeBadProject project)), [], w)
           else case fst (ensure_tree (un_mkdir env) project) of
             Some e \<Rightarrow> (Some (Inl (UeIo e)), [], w)
           | None \<Rightarrow>
               (case fingerprint (un_canon env) (se_node (un_stage1 env)) project of
                  None \<Rightarrow> (None, [], w)
                | Some (Inl e) \<Rightarrow> (Some (Inl (UeFingerprint e)), [], w)
                | Some (Inr fp) \<Rightarrow>
                    (case attack_templates_dir (un_manifest_dir env) (un_is_dir env) of
                       None \<Rightarrow> (Some (Inl (UeScaffold ''could not locate attack-catalog templates dir'')), [], w)
                     | Some dir \<Rightarrow>
                         (case attack_catalog_load (un_yaml env) dir (un_templates env dir) of
                            Inl e \<Rightarrow> (Some (Inl (UeCatalog e)), [], w)
                          | Inr cat \<Rightarrow>
                              unified_after_activation env args driver s project fp (activation_of args cat fp) w)))))"

section \<open>Lemmas\<close>

lemma cands_of_simps [simp]: "cands_of f None = []" "cands_of f (Some x) = f x"
  by (simp_all add: cands_of_def)

text \<open>What the catalogue oracle reports, over all activated templates.\<close>

lemma catalog_candidates: "list_all catalog_stamped (cir_candidates (extract_from_catalog act k y cfg answer))"
  using add_catalog_intents(4)
  by (simp add: extract_from_catalog_def Let_def del: not_None_eq)

lemma tests_candidates:
  "extract_from_tests x tc ask y cfg answer tests = Inr r \<Longrightarrow> list_all (stamped Tests) (tir_candidates r)"
  using synthesize_all_result[where src = Tests and y = y and cfg = cfg and answer = answer and n = 0
      and intents = "map ti_intent_text (test_intents x tc ask tests)"]
  by (auto simp: extract_from_tests_def Let_def split: sum.splits)

lemma natspec_candidates:
  "extract_from_natspec x nc ask y cfg answer blocks = Inr r \<Longrightarrow> list_all (stamped NatSpec) (nir_candidates r)"
  using synthesize_all_result[where src = NatSpec and y = y and cfg = cfg and answer = answer and n = 0
      and intents = "map ni_intent_text (natspec_intents x nc ask blocks)"]
  by (auto simp: extract_from_natspec_def Let_def split: sum.splits)

lemma structural_candidates:
  "extract_from_structural sources layouts structural_config_default = Some r \<Longrightarrow>
     list_all (\<lambda>c. sp_source c = Structural \<and> sp_template_ref c \<noteq> None) (rep_candidates r)"
  by (auto simp: extract_from_structural_def split_by_confidence_spec report_spec_def list_all_iff
      into_spec_candidate_def Let_def)

section \<open>The contract of an oracle\<close>

text \<open>
  What stage 2 needs of every oracle: its candidates name the oracle, so the ids of two oracles never meet and
  an id leads back to the oracle it came from.
\<close>

locale candidate_oracle =
  fixes produced :: "'r \<Rightarrow> spec_candidate list"
    and origin :: source
    and report_ok :: "'r \<Rightarrow> bool"
  assumes produced_origin: "report_ok r \<Longrightarrow> c \<in> set (produced r) \<Longrightarrow> sp_source c = origin"
begin

lemma sources: "report_ok r \<Longrightarrow> map sp_source (produced r) = replicate (length (produced r)) origin"
  using produced_origin by (simp add: map_replicate_const[symmetric] cong: map_cong)

lemma labelled: "report_ok r \<Longrightarrow> c \<in> set (produced r) \<Longrightarrow> starts_with (candidate_id c) (unified_source_label origin @ '':'')"
  using starts_with_append[of "unified_source_label origin @ '':''" "sp_name c"]
  by (simp add: candidate_id_def produced_origin)

end

interpretation catalog_oracle: candidate_oracle cir_candidates AttackCatalog
    "\<lambda>r. \<exists>act k y cfg answer. r = extract_from_catalog act k y cfg answer"
  using catalog_candidates by unfold_locales (auto simp: list_all_iff catalog_stamped_def stamped_def)

interpretation tests_oracle: candidate_oracle tir_candidates Tests
    "\<lambda>r. \<exists>x tc ask y cfg answer tests. extract_from_tests x tc ask y cfg answer tests = Inr r"
  using tests_candidates by unfold_locales (auto simp: list_all_iff stamped_def)

interpretation natspec_oracle: candidate_oracle nir_candidates NatSpec
    "\<lambda>r. \<exists>x nc ask y cfg answer blocks. extract_from_natspec x nc ask y cfg answer blocks = Inr r"
  using natspec_candidates by unfold_locales (auto simp: list_all_iff stamped_def)

interpretation structural_oracle: candidate_oracle rep_candidates Structural
    "\<lambda>r. \<exists>sources layouts. extract_from_structural sources layouts structural_config_default = Some r"
  using structural_candidates by unfold_locales (auto simp: list_all_iff)

section \<open>The facts\<close>

lemma fold_with_interface:
  "set (sf_interfaces (fold with_interface is f)) = set is \<union> set (sf_interfaces f)
   \<and> sf_primitives (fold with_interface is f) = sf_primitives f \<and> sf_patterns (fold with_interface is f) = sf_patterns f"
  by (induction "is" arbitrary: f) (auto simp: with_interface_def)

lemma fold_with_primitive:
  "set (sf_primitives (fold with_primitive ps f)) = set ps \<union> set (sf_primitives f)
   \<and> sf_interfaces (fold with_primitive ps f) = sf_interfaces f \<and> sf_patterns (fold with_primitive ps f) = sf_patterns f"
  by (induction ps arbitrary: f) (auto simp: with_primitive_def)

lemma fold_with_pattern:
  "btree_ok (sf_patterns f) \<Longrightarrow>
     pattern_value (sf_patterns (fold (\<lambda>k. with_pattern k True) ks f)) k = (k \<in> set ks \<or> pattern_value (sf_patterns f) k)
     \<and> sf_interfaces (fold (\<lambda>k. with_pattern k True) ks f) = sf_interfaces f
     \<and> sf_primitives (fold (\<lambda>k. with_pattern k True) ks f) = sf_primitives f"
proof (induction ks arbitrary: f)
  case (Cons x ks)
  then show ?case
    using Cons.IH[of "with_pattern x True f"]
    by (auto simp: with_pattern_def btree_insert_ok btree_get_insert pattern_value_def)
qed simp

lemma facts_of_fingerprint:
  "set (sf_interfaces (fingerprint_to_facts fp)) = insert ''any'' (set (fp_interfaces fp))"
  "set (sf_primitives (fingerprint_to_facts fp)) =
     insert ''any'' (set (if classifier_matches fp \<noteq> [] then classifier_matches fp else fp_primitives fp))"
  "pattern_value (sf_patterns (fingerprint_to_facts fp)) k = List.member known_flags k"
proof -
  let ?f1 = "fold with_interface (fp_interfaces fp) (with_interface ''any'' static_facts_new)"
  let ?ps = "if classifier_matches fp \<noteq> [] then classifier_matches fp else fp_primitives fp"
  let ?f3 = "fold with_primitive ?ps (with_primitive ''any'' ?f1)"
  have p: "sf_patterns ?f3 = []"
    using fold_with_primitive[of ?ps "with_primitive ''any'' ?f1"]
      fold_with_interface[of "fp_interfaces fp" "with_interface ''any'' static_facts_new"]
    by (simp add: with_primitive_def with_interface_def static_facts_new_def)
  then have "btree_ok (sf_patterns ?f3)" by (simp add: btree_ok_def)
  note pat = fold_with_pattern[OF this]
  show "set (sf_interfaces (fingerprint_to_facts fp)) = insert ''any'' (set (fp_interfaces fp))"
    using pat[of known_flags] fold_with_primitive[of ?ps "with_primitive ''any'' ?f1"]
      fold_with_interface[of "fp_interfaces fp" "with_interface ''any'' static_facts_new"]
    by (simp add: fingerprint_to_facts_def Let_def with_primitive_def with_interface_def static_facts_new_def)
  show "set (sf_primitives (fingerprint_to_facts fp)) = insert ''any'' (set ?ps)"
    using pat[of known_flags] fold_with_primitive[of ?ps "with_primitive ''any'' ?f1"]
      fold_with_interface[of "fp_interfaces fp" "with_interface ''any'' static_facts_new"]
    by (simp add: fingerprint_to_facts_def Let_def with_primitive_def with_interface_def static_facts_new_def)
  show "pattern_value (sf_patterns (fingerprint_to_facts fp)) k = List.member known_flags k"
    using pat[of known_flags k] p
    by (simp add: fingerprint_to_facts_def Let_def pattern_value_def List.member_iff)
qed

text \<open>The primitives of a fingerprint are the classifier's.\<close>

lemma primitive_all_set: "set primitive_all = UNIV"
proof -
  have "p \<in> set primitive_all" for p by (cases p) (simp_all add: primitive_all_def)
  then show ?thesis by auto
qed

lemma fingerprint_primitives_known:
  assumes "fingerprint canon node project = Some (Inr fp)"
  shows "set (fp_primitives fp) \<subseteq> primitive_id ` UNIV" and "set (classifier_matches fp) \<subseteq> primitive_id ` UNIV"
proof -
  have d: "set (detect_primitives is joined) \<subseteq> primitive_id ` set primitive_all" for "is" joined
    by (auto simp: detect_primitives_def Let_def sig_def primitive_all_def split: if_splits)
  obtain joined where "fp_primitives fp = (case classification_top (fp_primitive_classification fp) of
      Some best \<Rightarrow> [primitive_id (pm_primitive best)] | None \<Rightarrow> detect_primitives (fp_interfaces fp) joined)"
    using fingerprint_inv[OF assms] by blast
  then show "set (fp_primitives fp) \<subseteq> primitive_id ` UNIV"
    using d[of "fp_interfaces fp" joined] by (auto split: option.splits)
  show "set (classifier_matches fp) \<subseteq> primitive_id ` UNIV"
    by (auto simp: classifier_matches_def)
qed

lemma activated_apply:
  "t \<in> set (ar_templates (activation_of args cat fp)) \<Longrightarrow> applies (am_applies_to (at_manifest t)) (fingerprint_to_facts fp)"
  by (auto simp: activation_of_def activate_def activate_eq filter_activation_by_category_def Let_def split: if_splits)

section \<open>Properties\<close>

text \<open>What can be activated at all: of a template that is activated every interface list overlaps the tags of
  the project, every primitive list the thirteen identifiers of the classifier, and every flag it names has
  the value true exactly when it is one of nine. A template that asks for any other flag, or only for
  other primitives, is never activated, whatever the project is.\<close>

theorem activation_reads_nine_flags:
  "case fingerprint canon node project of
     Some (Inr fp) \<Rightarrow>
       list_all (\<lambda>t. let a = am_applies_to (at_manifest t) in
            tags_overlap (ap_interfaces a) (''any'' # fp_interfaces fp)
            \<and> tags_overlap (ap_primitives a) (''any'' # map primitive_id primitive_all)
            \<and> list_all (\<lambda>(flag, want). want = List.member known_flags flag) (ap_patterns a))
         (ar_templates (activation_of args cat fp))
   | _ \<Rightarrow> True"
proof (cases "\<exists>fp. fingerprint canon node project = Some (Inr fp)")
  case True
  then obtain fp where f: "fingerprint canon node project = Some (Inr fp)" by blast
  have p: "set (sf_primitives (fingerprint_to_facts fp)) \<subseteq> insert ''any'' (primitive_id ` UNIV)"
    using fingerprint_primitives_known[OF f] by (auto simp: facts_of_fingerprint(2) split: if_splits)
  have "let a = am_applies_to (at_manifest t) in
      tags_overlap (ap_interfaces a) (''any'' # fp_interfaces fp)
      \<and> tags_overlap (ap_primitives a) (''any'' # map primitive_id primitive_all)
      \<and> list_all (\<lambda>(flag, want). want = List.member known_flags flag) (ap_patterns a)"
    if "t \<in> set (ar_templates (activation_of args cat fp))" for t
    using activated_apply[OF that] p
    by (auto simp: applies_def tags_overlap_def Let_def facts_of_fingerprint primitive_all_set list_all_iff)
  then show ?thesis by (simp add: f list_all_iff)
next
  case False
  then show ?thesis by (auto split: option.splits sum.splits)
qed

lemma run_stage1_Inr [consumes 1, case_names none some]:
  assumes "run_stage1 env args fp act providers = Some (Inr out)"
  obtains "out = no_outputs" "ph_synthesizer providers = None"
  | tests blocks y ask_t llm_t ask_n llm_n llm_c sources layouts struct_r
    where "ph_synthesizer providers \<noteq> None"
      "tests_data args fp (se_node env) = Some tests" "natspec_data args fp (se_node env) = Some blocks"
      "extract_from_structural sources layouts structural_config_default = Some struct_r"
      "out = join_oracles act tests blocks
         (extract_from_catalog act catalog_samples_per_intent y synthesis_samples_1 llm_c)
         (extract_from_tests (se_tests_x env) tests_config_anthropic ask_t y synthesis_samples_1 llm_t tests)
         (extract_from_natspec (se_natspec_x env) natspec_config_anthropic ask_n y synthesis_samples_1 llm_n blocks)
         struct_r"
proof (cases "ph_synthesizer providers")
  case None
  with assms that(1) show ?thesis by (simp add: run_stage1_def)
next
  case (Some synthesizer)
  with assms show ?thesis
    by (auto simp: run_stage1_def Let_def bind_eq_Some_conv split: sum.splits intro: that(2))
qed

text \<open>Stage 1 puts the candidates of the four oracles one after the other in a fixed order, each under its
  own source: the catalogue, the tests, NatSpec and the structural miner. An oracle that was switched off,
  had nothing to read or failed gives none and takes nothing from the others; with a client the structural
  miner always reports, without one no oracle does. The only error is the user's scaffold.\<close>

theorem stage1_candidates_in_order:
  "case run_stage1 env args fp act providers of
     None \<Rightarrow> True
   | Some (Inl e) \<Rightarrow>
       Inl e = map_sum UeScaffold id (resolve_scaffold (se_read env) (se_node env) (ua_scaffold_override args))
   | Some (Inr out) \<Rightarrow>
       (let cs = cands_of cir_candidates (so_catalog out); ts = cands_of tir_candidates (so_tests out);
            ns = cands_of nir_candidates (so_natspec out); ss = cands_of rep_candidates (so_structural out)
        in so_candidates out = cs @ ts @ ns @ ss
           \<and> map sp_source (so_candidates out) =
               replicate (length cs) AttackCatalog @ replicate (length ts) Tests
               @ replicate (length ns) NatSpec @ replicate (length ss) Structural
           \<and> (so_catalog out \<noteq> None) = (ph_synthesizer providers \<noteq> None \<and> ar_templates act \<noteq> [])
           \<and> (so_structural out \<noteq> None) = (ph_synthesizer providers \<noteq> None)
           \<and> (case so_tests out of None \<Rightarrow> True
              | Some r \<Rightarrow> \<not> ua_no_tests args \<and> avo_tests (fp_available_oracles fp))
           \<and> (case so_natspec out of None \<Rightarrow> True
              | Some r \<Rightarrow> \<not> ua_no_natspec args \<and> avo_natspec (fp_available_oracles fp)))"
proof (cases "run_stage1 env args fp act providers")
  case None
  then show ?thesis by simp
next
  case (Some r)
  show ?thesis
  proof (cases r)
    case (Inl e)
    with Some show ?thesis
      by (auto simp: run_stage1_def Let_def bind_eq_Some_conv split: option.splits sum.splits)
  next
    case (Inr out)
    from Some[unfolded Inr] show ?thesis
    proof (cases rule: run_stage1_Inr)
      case none
      with Some Inr show ?thesis by (simp add: no_outputs_def)
    next
      case (some tests blocks y ask_t llm_t ask_n llm_n llm_c sources layouts struct_r)
      let ?c = "extract_from_catalog act catalog_samples_per_intent y synthesis_samples_1 llm_c"
      let ?t = "extract_from_tests (se_tests_x env) tests_config_anthropic ask_t y synthesis_samples_1 llm_t tests"
      let ?n = "extract_from_natspec (se_natspec_x env) natspec_config_anthropic ask_n y synthesis_samples_1 llm_n blocks"
      have g: "\<not> ua_no_tests args \<and> avo_tests (fp_available_oracles fp)" if "tests \<noteq> []"
        using that some(2) by (auto simp: tests_data_def split: if_splits)
      have h: "\<not> ua_no_natspec args \<and> avo_natspec (fp_available_oracles fp)" if "blocks \<noteq> []"
        using that some(3) by (auto simp: natspec_data_def split: if_splits)
      have c: "map sp_source (cir_candidates ?c) = replicate (length (cir_candidates ?c)) AttackCatalog"
        by (rule catalog_oracle.sources) blast
      have t: "map sp_source (tir_candidates r) = replicate (length (tir_candidates r)) Tests" if "?t = Inr r" for r
        using that by (intro tests_oracle.sources) blast
      have n: "map sp_source (nir_candidates r) = replicate (length (nir_candidates r)) NatSpec" if "?n = Inr r" for r
        using that by (intro natspec_oracle.sources) blast
      have s: "map sp_source (rep_candidates struct_r) = replicate (length (rep_candidates struct_r)) Structural"
        using some(4) by (intro structural_oracle.sources) blast
      show ?thesis
        using Some Inr some(1) g h c s t n
        by (cases ?t; cases ?n) (simp_all add: some(5) join_oracles_def Let_def)
    qed
  qed
qed

text \<open>What stands behind the verdict of a run: the project was fingerprinted, stage 1 gave candidates, the critic
  accepted those that were kept, the gate confirmed intents of theirs, and the outcomes are those of the
  confirmed ones, each by its candidate.\<close>

definition run_backed ::
    "('p, 't) unified_env \<Rightarrow> unified_args \<Rightarrow> (proposed_intent \<Rightarrow> 's \<Rightarrow> (confirm_error + decision) \<times> 's) \<Rightarrow> 's
     \<Rightarrow> 't world \<Rightarrow> property_outcome list \<Rightarrow> bool" where
  "run_backed env args driver s w outcomes \<longleftrightarrow>
     (\<exists>project fp act (providers :: 'p provider_handles) out kept (senv :: 't stage_env) final scaffold.
        un_canon env (ua_project args) = Some project
        \<and> fingerprint (un_canon env) (se_node (un_stage1 env)) project = Some (Inr fp)
        \<and> run_stage1 (un_stage1 env) args fp act providers = Some (Inr out)
        \<and> list_all (\<lambda>(c, r). List.member (so_candidates out) c \<and> accepted critique_default_for_openai (c, r)) kept
        \<and> st_project senv = project \<and> st_dispatch senv = st_dispatch (un_stages env)
        \<and> fst (confirm_stage senv (if ua_auto_confirm args then decide_auto else driver) s kept (wd_disk w)) = Inr final
        \<and> resolve_scaffold (se_read (un_stage1 env)) (se_node (un_stage1 env)) (ua_scaffold_override args) = Inr scaffold
        \<and> list_all2 (outcome_matches (st_dispatch (un_stages env))
              (dispatcher_new project scaffold (ua_dispatch_budget_ms args)) (index_candidates kept Map.empty))
            (filter (\<lambda>x. index_candidates kept Map.empty (pi_id (fst x)) \<noteq> None) (confirmed_intents final)) outcomes)"

lemma critique_stage_kept:
  "critique_stage env k p cands = Some filtered \<Longrightarrow>
     list_all (\<lambda>(c, r). List.member cands c \<and> accepted (ck_cfg k) (c, r)) (fo_kept filtered)"
  by (cases "cands = []")
     (auto simp: critique_stage_def filter_accepted_def filter_loop_filter list_all_iff List.member_iff dest: set_zip_leftD)

definition exit_honest :: "(unified_error + run_report) option \<Rightarrow> bool" where
  "exit_honest r =
     (case r of
        Some (Inr (RrVerdict h outcomes)) \<Rightarrow>
          (unified_exit r = 0) = (outcomes \<noteq> [] \<and> list_all (\<lambda>p. pv_verified (po_verdict p)) outcomes)
      | Some (Inr (RrListApplicable a k)) \<Rightarrow> unified_exit r = 0
      | _ \<Rightarrow> unified_exit r \<noteq> 0)"

definition verdict_backed ::
    "('p, 't) unified_env \<Rightarrow> unified_args \<Rightarrow> (proposed_intent \<Rightarrow> 's \<Rightarrow> (confirm_error + decision) \<times> 's) \<Rightarrow> 's
     \<Rightarrow> 't world \<Rightarrow> (unified_error + run_report) option \<Rightarrow> bool" where
  "verdict_backed env args driver s w r \<longleftrightarrow>
     exit_honest r
     \<and> (case r of
          Some (Inr (RrVerdict h outcomes)) \<Rightarrow> outcomes = [] \<or> run_backed env args driver s w outcomes
        | Some (Inr (RrListApplicable a k)) \<Rightarrow> False
        | _ \<Rightarrow> True)"

text \<open>Stages 1.5 to 4.\<close>

lemma judge_and_report_backed:
  assumes "un_canon env (ua_project args) = Some project"
    and "fingerprint (un_canon env) (se_node (un_stage1 env)) project = Some (Inr fp)"
    and "run_stage1 (un_stage1 env) args fp act providers = Some (Inr out)"
  shows "verdict_backed env args driver s w (fst (judge_and_report env args driver s project fp act providers out w))"
proof (cases "case ph_critic providers of Some p \<Rightarrow> Some p | None \<Rightarrow> ph_synthesizer providers")
  case None
  then show ?thesis by (simp add: judge_and_report_def verdict_backed_def exit_honest_def unified_exit_def)
next
  case (Some p)
  let ?k = "unified_critic env providers p" and ?d = "if ua_auto_confirm args then decide_auto else driver"
  show ?thesis
  proof (cases "critique_stage env ?k p (so_candidates out)")
    case None
    with Some show ?thesis by (simp add: judge_and_report_def verdict_backed_def exit_honest_def unified_exit_def)
  next
    case (Some filtered)
    let ?e = "stage_env_of env args project (stratified_base project fp act out)"
    have j: "fst (judge_and_report env args driver s project fp act providers out w)
        = fst (unified_stages ?e ?d s (fo_kept filtered) w)"
      using Some \<open>(case ph_critic providers of Some p \<Rightarrow> Some p | None \<Rightarrow> ph_synthesizer providers) = Some p\<close>
      by (simp add: judge_and_report_def)
    have e: "st_project ?e = project" "st_dispatch ?e = st_dispatch (un_stages env)"
      "st_budget_ms ?e = ua_dispatch_budget_ms args"
      "st_scaffold ?e = resolve_scaffold (se_read (un_stage1 env)) (se_node (un_stage1 env)) (ua_scaffold_override args)"
      by (simp_all add: stage_env_of_def Let_def)
    have k: "list_all (\<lambda>(c, r). List.member (so_candidates out) c \<and> accepted critique_default_for_openai (c, r)) (fo_kept filtered)"
      using critique_stage_kept[OF Some] by (simp add: unified_critic_def)
    note z = verify_zero_exit_has_evidence[of ?e ?d s "fo_kept filtered" w]
    have b: "run_backed env args driver s w outcomes"
      if "\<exists>scaffold final. st_scaffold ?e = Inr scaffold
            \<and> fst (confirm_stage ?e ?d s (fo_kept filtered) (wd_disk w)) = Inr final
            \<and> list_all2 (outcome_matches (st_dispatch ?e) (dispatcher_new (st_project ?e) scaffold (st_budget_ms ?e))
                  (index_candidates (fo_kept filtered) Map.empty))
                (filter (\<lambda>x. index_candidates (fo_kept filtered) Map.empty (pi_id (fst x)) \<noteq> None) (confirmed_intents final)) outcomes"
      for outcomes
    proof -
      from that obtain scaffold final where f: "st_scaffold ?e = Inr scaffold"
        "fst (confirm_stage ?e ?d s (fo_kept filtered) (wd_disk w)) = Inr final"
        "list_all2 (outcome_matches (st_dispatch (un_stages env)) (dispatcher_new project scaffold (ua_dispatch_budget_ms args))
           (index_candidates (fo_kept filtered) Map.empty))
           (filter (\<lambda>x. index_candidates (fo_kept filtered) Map.empty (pi_id (fst x)) \<noteq> None) (confirmed_intents final)) outcomes"
        unfolding e by blast
      show ?thesis
        unfolding run_backed_def
        by (rule exI[of _ project], rule exI[of _ fp], rule exI[of _ act], rule exI[of _ providers], rule exI[of _ out],
            rule exI[of _ "fo_kept filtered"], rule exI[of _ ?e], rule exI[of _ final], rule exI[of _ scaffold],
            intro conjI assms k e(1,2) f(2,3) f(1)[unfolded e(4)])
    qed
    show ?thesis
    proof (cases "\<exists>h outcomes. fst (unified_stages ?e ?d s (fo_kept filtered) w) = Some (Inr (RrVerdict h outcomes))")
      case True
      then obtain h outcomes where r: "fst (unified_stages ?e ?d s (fo_kept filtered) w) = Some (Inr (RrVerdict h outcomes))"
        by blast
      note z1 = z[unfolded r option.case sum.case run_report.case]
      have "exit_honest (Some (Inr (RrVerdict h outcomes)))"
        unfolding exit_honest_def option.case sum.case run_report.case by (rule conjunct1[OF z1])
      moreover have "run_backed env args driver s w outcomes"
        by (rule b[OF conjunct2[OF z1]])
      ultimately show ?thesis unfolding j r verdict_backed_def by simp
    next
      case False
      obtain r where r: "fst (unified_stages ?e ?d s (fo_kept filtered) w) = r" by blast
      have "verdict_backed env args driver s w r"
      proof (cases r)
        case None
        then show ?thesis by (simp add: verdict_backed_def exit_honest_def unified_exit_def)
      next
        case (Some x)
        show ?thesis
        proof (cases x)
          case (Inl e)
          with Some show ?thesis by (simp add: verdict_backed_def exit_honest_def unified_exit_def)
        next
          case (Inr rep)
          with Some False r have "rep \<noteq> RrVerdict h outcomes" for h outcomes by simp
          then obtain a k where "rep = RrListApplicable a k" by (cases rep) auto
          with z[unfolded r] Some Inr show ?thesis by (simp add: unified_exit_def)
        qed
      qed
      with r show ?thesis unfolding j by simp
    qed
  qed
qed

text \<open>What the command promises of its result.\<close>

definition unified_ok ::
    "('p, 't) unified_env \<Rightarrow> unified_args \<Rightarrow> (proposed_intent \<Rightarrow> 's \<Rightarrow> (confirm_error + decision) \<times> 's) \<Rightarrow> 's
     \<Rightarrow> 't world \<Rightarrow> (unified_error + run_report) option \<times> string list \<times> 't world \<Rightarrow> bool" where
  "unified_ok env args driver s w res \<longleftrightarrow>
     (case res of (r, lines_out, w') \<Rightarrow>
       exit_honest r
       \<and> (case r of
            Some (Inr (RrListApplicable a k)) \<Rightarrow> ua_list_applicable args \<and> w' = w
          | Some (Inr (RrVerdict h outcomes)) \<Rightarrow>
              \<not> ua_list_applicable args \<and> (outcomes = [] \<or> run_backed env args driver s w outcomes)
          | _ \<Rightarrow> True))"

lemma unified_ok_bad [simp]:
  "unified_ok env args driver s w (None, l, w')" "unified_ok env args driver s w (Some (Inl e), l, w')"
  by (simp_all add: unified_ok_def exit_honest_def unified_exit_def)

lemma unified_ok_backed:
  "verdict_backed env args driver s w r \<Longrightarrow> \<not> ua_list_applicable args \<Longrightarrow> unified_ok env args driver s w (r, l, w')"
  by (auto simp: unified_ok_def verdict_backed_def split: option.splits sum.splits run_report.splits)

lemma unified_after_activation_ok:
  assumes "un_canon env (ua_project args) = Some project"
    and "fingerprint (un_canon env) (se_node (un_stage1 env)) project = Some (Inr fp)"
  shows "unified_ok env args driver s w (unified_after_activation env args driver s project fp act w)"
proof (cases "ua_list_applicable args")
  case True
  then show ?thesis by (simp add: unified_after_activation_def unified_ok_def exit_honest_def unified_exit_def)
next
  case False
  let ?p = "if need_llm args fp act then handles_from_env (un_getenv env) (un_anthropic env) (un_openai env) else Inr no_handles"
  show ?thesis
  proof (cases ?p)
    case (Inl e)
    with False show ?thesis by (simp add: unified_after_activation_def)
  next
    case (Inr providers)
    show ?thesis
    proof (cases "\<exists>out. run_stage1 (un_stage1 env) args fp act providers = Some (Inr out)")
      case True
      then obtain out where o: "run_stage1 (un_stage1 env) args fp act providers = Some (Inr out)" by blast
      have "unified_after_activation env args driver s project fp act w =
          (fst (judge_and_report env args driver s project fp act providers out w), [],
           snd (judge_and_report env args driver s project fp act providers out w))"
        using False Inr o by (simp add: unified_after_activation_def split_beta)
      then show ?thesis
        using unified_ok_backed[OF judge_and_report_backed[OF assms o]] False by simp
    next
      case no: False
      with False Inr show ?thesis
        by (auto simp: unified_after_activation_def split: option.splits sum.splits)
    qed
  qed
qed


text \<open>Without a client nothing is reported: when no template is activated and the oracles have nothing to
  read, the command returns an incomplete verdict without outcomes (exit code 2) although it wrote neither
  the report nor the proof file whose paths it returns; the structural miner, which needs no client, is
  not run either.\<close>

theorem no_client_no_report:
  assumes "\<not> ua_list_applicable args" and "\<not> need_llm args fp act"
  shows "unified_after_activation env args driver s project fp act w = (Some (Inr (RrVerdict HlIncomplete [])), [], w)
    \<and> unified_exit (Some (Inr (RrVerdict HlIncomplete []))) = 2
    \<and> run_stage1 (un_stage1 env) args fp act no_handles = Some (Inr no_outputs)"
  using assms
  by (simp add: unified_after_activation_def run_stage1_def judge_and_report_def no_handles_def no_outputs_def unified_exit_def)

text \<open>The command tells the critic the wrong provider: it passes the critic's own provider (OpenAi) where the
  provider of the synthesiser is asked for, so a critic that is OpenAI's counts as the synthesiser's own,
  and the fallback, in which the synthesiser judges itself, counts as a second provider.\<close>

theorem critic_independence_inverted:
  "case handles_from_env getenv anthropic openai of
     Inl e \<Rightarrow> True
   | Inr providers \<Rightarrow>
       (case ph_critic providers of
          None \<Rightarrow> False
        | Some p \<Rightarrow> is_cross_provider (unified_critic env providers p) = (un_provider_id env p \<noteq> OpenAi))"
  by (auto simp: handles_from_env_def unified_critic_def is_cross_provider_def split: sum.splits)

end
