(* ===== verification/TemplateRender.thy ===== *)
theory TemplateRender
  imports BTree Llm
begin

text \<open>
  The renderer of catalogue templates (\<open>crates/vergil-properties/src/template_render.rs\<close>), and that it
  agrees with the renderer of prompts wherever that one accepts.
\<close>

section \<open>The context\<close>

record render_context =
  rx_vars :: "(string \<times> string) list"

definition render_context_new :: render_context where
  "render_context_new = \<lparr>rx_vars = []\<rparr>"

definition context_set :: "string \<Rightarrow> string \<Rightarrow> render_context \<Rightarrow> render_context" where
  "context_set k v ctx = ctx\<lparr>rx_vars := btree_insert k v (rx_vars ctx)\<rparr>"

definition context_from_pairs :: "(string \<times> string) list \<Rightarrow> render_context" where
  "context_from_pairs pairs = fold (\<lambda>(k, v). context_set k v) pairs render_context_new"

definition context_get :: "render_context \<Rightarrow> string \<Rightarrow> string option" where
  "context_get ctx k = map_of (rx_vars ctx) k"

section \<open>Rendering\<close>

datatype render_error = UndefinedVariable string | Unterminated

function template_loop :: "render_context \<Rightarrow> string \<Rightarrow> string \<Rightarrow> render_error + string" where
  "template_loop ctx rest out =
     (case find_sub rest ''{{'' of
        None \<Rightarrow> Inr (out @ rest)
      | Some op \<Rightarrow>
          (let after = drop (op + 2) rest in
           case find_sub after ''}}'' of
             None \<Rightarrow> Inl Unterminated
           | Some close \<Rightarrow>
               (let key = trim (take close after) in
                case context_get ctx key of
                  None \<Rightarrow> Inl (UndefinedVariable key)
                | Some value \<Rightarrow> template_loop ctx (drop (close + 2) after) (out @ take op rest @ value))))"
  by pat_completeness auto
termination
  by (relation "measure (\<lambda>(ctx, rest, out). length rest)") (auto dest!: find_sub_bound)

declare template_loop.simps [simp del]

definition template_render :: "string \<Rightarrow> render_context \<Rightarrow> render_error + string" where
  "template_render tpl ctx = template_loop ctx tpl []"

section \<open>Lemmas\<close>

lemma context_set_ok: "btree_ok (rx_vars ctx) \<Longrightarrow> btree_ok (rx_vars (context_set k v ctx))"
  by (simp add: context_set_def btree_insert_ok)

lemma context_from_pairs_ok: "btree_ok (rx_vars (context_from_pairs ps))"
proof -
  have "btree_ok (rx_vars (fold (\<lambda>(k, v). context_set k v) ps ctx))" if "btree_ok (rx_vars ctx)" for ctx
    using that by (induction ps arbitrary: ctx) (auto simp: context_set_ok)
  then show ?thesis by (simp add: context_from_pairs_def render_context_new_def btree_ok_def)
qed

lemma context_get_set:
  "btree_ok (rx_vars ctx) \<Longrightarrow> context_get (context_set k v ctx) k' = (if k' = k then Some v else context_get ctx k')"
  by (simp add: context_get_def context_set_def btree_get_insert)

text \<open>The parts of a template from the first hole on.\<close>

lemma template_step:
  assumes "find_sub rest ''{{'' = Some op" "find_sub (drop (op + 2) rest) ''}}'' = Some cl"
  shows "template_parts rest = map_option (\<lambda>ps. Lit (take op rest) # Hole (trim (take cl (drop (op + 2) rest))) # ps)
      (template_parts (drop (cl + 2) (drop (op + 2) rest)))"
    and "context_get ctx (trim (take cl (drop (op + 2) rest))) = Some v \<Longrightarrow>
      template_loop ctx rest out = template_loop ctx (drop (cl + 2) (drop (op + 2) rest)) (out @ take op rest @ v)"
    and "context_get ctx (trim (take cl (drop (op + 2) rest))) = None \<Longrightarrow>
      template_loop ctx rest out = Inl (UndefinedVariable (trim (take cl (drop (op + 2) rest))))"
  using assms by (simp_all add: template_parts.simps[of rest] template_loop.simps[of ctx rest] Let_def)

lemma template_loop_Inr:
  "template_loop ctx rest out = Inr t \<longleftrightarrow>
     (\<exists>ps r. template_parts rest = Some ps \<and> fill (context_get ctx) ps = Some r \<and> t = out @ r)"
proof (induction "length rest" arbitrary: rest out rule: less_induct)
  case less
  consider (plain) "find_sub rest ''{{'' = None"
    | (stuck) op where "find_sub rest ''{{'' = Some op" "find_sub (drop (op + 2) rest) ''}}'' = None"
    | (hole) op cl where "find_sub rest ''{{'' = Some op" "find_sub (drop (op + 2) rest) ''}}'' = Some cl"
    by (cases "find_sub rest ''{{''") auto
  then show ?case
  proof cases
    case plain
    then show ?thesis by (auto simp: template_loop.simps[of ctx rest] template_parts.simps[of rest])
  next
    case stuck
    then show ?thesis by (simp add: template_loop.simps[of ctx rest] template_parts.simps[of rest])
  next
    case hole
    let ?key = "trim (take cl (drop (op + 2) rest))" and ?rest = "drop (cl + 2) (drop (op + 2) rest)"
    have shorter: "length ?rest < length rest"
      using find_sub_bound[OF hole(1)] by auto
    show ?thesis
    proof (cases "context_get ctx ?key")
      case None
      then show ?thesis by (auto simp: template_step[OF hole])
    next
      case (Some v)
      then show ?thesis
        using less.hyps[OF shorter, of "out @ take op rest @ v"]
        by (cases "template_parts ?rest") (fastforce simp: template_step[OF hole])+
    qed
  qed
qed

lemma template_loop_Inl:
  "template_loop ctx rest out = Inl e \<Longrightarrow>
     (case e of Unterminated \<Rightarrow> template_parts rest = None | UndefinedVariable k \<Rightarrow> context_get ctx k = None)"
proof (induction "length rest" arbitrary: rest out rule: less_induct)
  case less
  consider (plain) "find_sub rest ''{{'' = None"
    | (stuck) op where "find_sub rest ''{{'' = Some op" "find_sub (drop (op + 2) rest) ''}}'' = None"
    | (hole) op cl where "find_sub rest ''{{'' = Some op" "find_sub (drop (op + 2) rest) ''}}'' = Some cl"
    by (cases "find_sub rest ''{{''") auto
  then show ?case
  proof cases
    case plain
    with less.prems show ?thesis by (simp add: template_loop.simps[of ctx rest])
  next
    case stuck
    with less.prems show ?thesis by (auto simp: template_loop.simps[of ctx rest] template_parts.simps[of rest])
  next
    case hole
    let ?key = "trim (take cl (drop (op + 2) rest))" and ?rest = "drop (cl + 2) (drop (op + 2) rest)"
    have shorter: "length ?rest < length rest"
      using find_sub_bound[OF hole(1)] by auto
    show ?thesis
    proof (cases "context_get ctx ?key")
      case None
      with less.prems show ?thesis by (auto simp: template_step[OF hole])
    next
      case (Some v)
      with less.prems less.hyps[OF shorter, of "out @ take op rest @ v"] show ?thesis
        by (auto simp: template_step[OF hole] split: render_error.split)
    qed
  qed
qed

lemma template_render_tests:
  "template_render ''contract {{ name }} is {{base}}''
     (context_from_pairs [(''name'', ''C''), (''base'', ''{{name}}''), (''name'', ''D'')]) = Inr ''contract D is {{name}}''"
  "template_render ''a {{ b'' render_context_new = Inl Unterminated"
  "template_render ''a {{ b }}'' render_context_new = Inl (UndefinedVariable ''b'')"
  by code_simp+

section \<open>The property\<close>

text \<open>A template renders to a text exactly when its holes are all closed and name bound variables, and the
  text is one simultaneous substitution (a value that holds braces is not expanded again); an error is a
  variable that is really unbound, or a hole that is really not closed. The renderer of prompts accepts
  the same template with the same result, but for results that hold opening braces, which it refuses.\<close>

theorem template_render_exact:
  "(case template_render (pt_body p) ctx of
      Inr s \<Rightarrow>
        map_option (fill (context_get ctx)) (template_parts (pt_body p)) = Some (Some s)
        \<and> (prompt_render p (context_get ctx) = Inr s) = (\<not> contains s ''{{'')
    | Inl Unterminated \<Rightarrow> template_parts (pt_body p) = None
    | Inl (UndefinedVariable k) \<Rightarrow> context_get ctx k = None)"
proof (cases "template_render (pt_body p) ctx")
  case (Inl e)
  then show ?thesis
    using template_loop_Inl[of ctx "pt_body p" "[]" e] by (simp add: template_render_def split: render_error.splits)
next
  case (Inr s)
  then have "\<exists>ps. template_parts (pt_body p) = Some ps \<and> fill (context_get ctx) ps = Some s"
    using template_loop_Inr[of ctx "pt_body p" "[]" s] by (simp add: template_render_def)
  then show ?thesis
    using Inr by (auto simp: prompt_render_def render_loop_Inr)
qed

end
