(* ===== verification/Doctor.thy ===== *)
theory Doctor
  imports RustStr "HOL-Library.Monad_Syntax"
begin

text \<open>
  The check of the toolchain: the parsers of version lines and the seven tools of
  \<open>crates/vergil-solidity/src/tools.rs\<close>, and the command \<open>vergil doctor\<close>
  (\<open>crates/vergil-cli/src/commands/doctor.rs\<close>). What a tool prints is a parameter, decoded as the code
  decodes it (\<open>from_utf8_lossy\<close>).
\<close>

section \<open>Parsers of version lines\<close>

fun forge_version :: "string list \<Rightarrow> string option" where
  "forge_version [] = None"
| "forge_version (l # ls) =
     (case strip_prefix (trim l) ''forge Version:'' of
        Some rest \<Rightarrow> Some (trim rest)
      | None \<Rightarrow>
          (case strip_prefix (trim l) ''forge '' of
             None \<Rightarrow> forge_version ls
           | Some rest \<Rightarrow>
               (let v = trim (trim_start_char (CHR ''v'') rest) in
                case v of
                  [] \<Rightarrow> forge_version ls
                | c # cs \<Rightarrow>
                    if is_digit c then (case split_whitespace v of [] \<Rightarrow> None | w # ws \<Rightarrow> Some w)
                    else forge_version ls)))"

definition parse_forge :: "string \<Rightarrow> string option" where
  "parse_forge out = forge_version (lines out)"

text \<open>The first line without the blanks around it; \<open>lines().next()?\<close>.\<close>

definition first_line :: "string \<Rightarrow> string option" where
  "first_line out = (case lines out of [] \<Rightarrow> None | l # ls \<Rightarrow> Some (trim l))"

definition first_word :: "string \<Rightarrow> string option" where
  "first_word s = (case split_whitespace s of [] \<Rightarrow> None | w # ws \<Rightarrow> Some w)"

definition parse_halmos :: "string \<Rightarrow> string option" where
  "parse_halmos out = do {
     line \<leftarrow> first_line out;
     rest \<leftarrow> strip_prefix line ''halmos'';
     (let v = trim rest in if v = [] then None else first_word v)
   }"

definition parse_slither :: "string \<Rightarrow> string option" where
  "parse_slither out = do {
     v \<leftarrow> first_line out;
     (case v of [] \<Rightarrow> None | c # cs \<Rightarrow> if is_digit c then Some v else None)
   }"

definition parse_z3 :: "string \<Rightarrow> string option" where
  "parse_z3 out = do {
     line \<leftarrow> first_line out;
     rest \<leftarrow> strip_prefix line ''Z3 version'';
     first_word (trim rest)
   }"

definition parse_cvc5 :: "string \<Rightarrow> string option" where
  "parse_cvc5 out = do {
     line \<leftarrow> first_line out;
     rest \<leftarrow> (case strip_prefix line ''This is cvc5 version'' of Some r \<Rightarrow> Some r | None \<Rightarrow> strip_prefix line ''cvc5'');
     first_word (trim rest)
   }"

fun solc_version :: "string list \<Rightarrow> string option" where
  "solc_version [] = None"
| "solc_version (l # ls) =
     (case strip_prefix (trim l) ''Version:'' of
        Some rest \<Rightarrow> Some (case split_char (CHR ''+'') (trim rest) of [] \<Rightarrow> trim rest | w # ws \<Rightarrow> w)
      | None \<Rightarrow> solc_version ls)"

definition parse_solc :: "string \<Rightarrow> string option" where
  "parse_solc out = solc_version (lines out)"

definition parse_gambit :: "string \<Rightarrow> string option" where
  "parse_gambit out =
     (if list_ex (\<lambda>l. starts_with (trim l) ''Usage: gambit'') (lines out) then Some ''installed'' else None)"

section \<open>The tools\<close>

record tool_info =
  ti_name :: string
  ti_display_name :: string
  ti_version :: "string option"
  ti_install_hint :: string

definition tool_found :: "tool_info \<Rightarrow> bool" where
  "tool_found t \<longleftrightarrow> ti_version t \<noteq> None"

record tool_spec =
  ts_name :: string
  ts_display_name :: string
  ts_cmd :: string
  ts_args :: "string list"
  ts_parser :: "string \<Rightarrow> string option"
  ts_install_hint :: string

definition forge_spec :: tool_spec where
  "forge_spec = \<lparr>ts_name = ''forge'', ts_display_name = ''Foundry (forge)'', ts_cmd = ''forge'', ts_args = [''--version''],
     ts_parser = parse_forge, ts_install_hint = ''curl -L https://foundry.paradigm.xyz | bash && foundryup''\<rparr>"

definition halmos_spec :: tool_spec where
  "halmos_spec = \<lparr>ts_name = ''halmos'', ts_display_name = ''Halmos'', ts_cmd = ''halmos'', ts_args = [''--version''],
     ts_parser = parse_halmos, ts_install_hint = ''uv tool install halmos==0.3.3''\<rparr>"

definition slither_spec :: tool_spec where
  "slither_spec = \<lparr>ts_name = ''slither'', ts_display_name = ''Slither'', ts_cmd = ''slither'', ts_args = [''--version''],
     ts_parser = parse_slither, ts_install_hint = ''uv tool install slither-analyzer==0.11.0''\<rparr>"

definition z3_spec :: tool_spec where
  "z3_spec = \<lparr>ts_name = ''z3'', ts_display_name = ''Z3'', ts_cmd = ''z3'', ts_args = [''--version''],
     ts_parser = parse_z3, ts_install_hint = ''brew install z3   # or: apt-get install z3''\<rparr>"

definition cvc5_spec :: tool_spec where
  "cvc5_spec = \<lparr>ts_name = ''cvc5'', ts_display_name = ''cvc5'', ts_cmd = ''cvc5'', ts_args = [''--version''],
     ts_parser = parse_cvc5, ts_install_hint = ''brew tap cvc5/cvc5 && brew install --cask cvc5/cvc5/cvc5''\<rparr>"

definition solc_spec :: tool_spec where
  "solc_spec = \<lparr>ts_name = ''solc'', ts_display_name = ''solc'', ts_cmd = ''solc'', ts_args = [''--version''],
     ts_parser = parse_solc, ts_install_hint = ''brew install solidity   # or: apt-get install solc''\<rparr>"

definition gambit_spec :: tool_spec where
  "gambit_spec = \<lparr>ts_name = ''gambit'', ts_display_name = ''Gambit'', ts_cmd = ''gambit'', ts_args = [''--help''],
     ts_parser = parse_gambit, ts_install_hint = ''cargo install --git https://github.com/Certora/gambit''\<rparr>"

text \<open>A finished child process: whether it succeeded, and its two streams; \<open>None\<close> if it cannot be started.\<close>

type_synonym tool_runner = "string \<Rightarrow> string list \<Rightarrow> (bool \<times> string \<times> string) option"

definition run_and_parse :: "tool_runner \<Rightarrow> tool_spec \<Rightarrow> string option" where
  "run_and_parse run spec =
     (case run (ts_cmd spec) (ts_args spec) of
        None \<Rightarrow> None
      | Some (ok, out, err) \<Rightarrow>
          if \<not> ok then None
          else (case ts_parser spec out of Some v \<Rightarrow> Some v | None \<Rightarrow> ts_parser spec err))"

definition detect_one :: "tool_runner \<Rightarrow> tool_spec \<Rightarrow> tool_info" where
  "detect_one run spec =
     \<lparr>ti_name = ts_name spec, ti_display_name = ts_display_name spec, ti_version = run_and_parse run spec,
      ti_install_hint = ts_install_hint spec\<rparr>"

definition tool_specs :: "tool_spec list" where
  "tool_specs = [forge_spec, halmos_spec, slither_spec, z3_spec, cvc5_spec, solc_spec, gambit_spec]"

definition detect :: "tool_runner \<Rightarrow> tool_info list" where
  "detect run = map (detect_one run) tool_specs"

section \<open>The command\<close>

definition pad_right :: "nat \<Rightarrow> string \<Rightarrow> string" where
  "pad_right n s = s @ replicate (n - length (char_heads s)) (CHR '' '')"

definition tool_row :: "nat \<Rightarrow> tool_info \<Rightarrow> string" where
  "tool_row w t =
     pad_right w (ti_display_name t) @ ''   ''
     @ (case ti_version t of
          Some v \<Rightarrow> ESC # ''[32m'' @ [CHR 0xE2, CHR 0x9C, CHR 0x93] @ ESC # ''[0m        '' @ v
        | None \<Rightarrow> ESC # ''[31m'' @ [CHR 0xE2, CHR 0x9C, CHR 0x97] @ ESC # ''[0m        missing '' @ em_dash @ '' '' @ ti_install_hint t)"

definition print_table :: "tool_info list \<Rightarrow> string" where
  "print_table tools =
     (let w = fold max (map (length \<circ> ti_display_name) tools) 0 in
      pad_right w ''TOOL'' @ ''   STATUS   VERSION'' @ [NL]
      @ concat (replicate (w + 30) [CHR 0xE2, CHR 0x94, CHR 0x80]) @ [NL]
      @ concat (map (\<lambda>t. tool_row w t @ [NL]) tools))"

definition doctor_run :: "tool_runner \<Rightarrow> u8 \<times> string" where
  "doctor_run run =
     (let tools = detect run; missing = length (filter (\<lambda>t. \<not> tool_found t) tools) in
      if missing = 0
      then (0, print_table tools @ [NL] @ ''All '' @ show_nat (length tools) @ '' tools detected.'' @ [NL])
      else (1, print_table tools @ [NL] @ show_nat missing @ '' of '' @ show_nat (length tools)
             @ '' tools missing. Run scripts/install-deps.sh to install.'' @ [NL]))"

section \<open>Lemmas\<close>

lemma parser_tests:
  "parse_forge (''forge Version: 1.7.1'' @ [NL] @ ''Commit SHA: 4072'' @ [NL]) = Some ''1.7.1''"
  "parse_forge (''forge 0.2.0 (a1b2c3 2024-01-01)'' @ [NL]) = Some ''0.2.0''"
  "parse_forge (''forge: command not found'' @ [NL]) = None"
  "parse_halmos (''halmos 0.3.3 (bundled solc 0.8.20)'' @ [NL]) = Some ''0.3.3''"
  "parse_halmos (''not halmos'' @ [NL]) = None"
  "parse_slither (''0.11.0'' @ [NL]) = Some ''0.11.0''"
  "parse_z3 (''Z3 version 4.15.4 - 64 bit'' @ [NL]) = Some ''4.15.4''"
  "parse_cvc5 (''This is cvc5 version 1.3.0 [git tag 1.3.0 branch HEAD]'' @ [NL]) = Some ''1.3.0''"
  "parse_cvc5 (''cvc5 1.3.4 [git f3b21c4]'' @ [NL]) = Some ''1.3.4''"
  "parse_solc (''solc'' @ [NL] @ ''Version: 0.8.35+commit.47b9dedd'' @ [NL]) = Some ''0.8.35''"
  "parse_gambit (''Usage: gambit <COMMAND>'' @ [NL]) = Some ''installed''"
  by code_simp+

text \<open>The parsers of \<open>forge\<close> and \<open>solc\<close> accept a line without a version, which then counts as one.\<close>

lemma empty_version_accepted:
  "parse_forge ''forge Version:'' = Some []" "parse_solc ''Version:'' = Some []"
  by code_simp+

text \<open>A tool is found when its child succeeds and one of its streams has a version, standard output first.\<close>

definition version_shown :: "tool_runner \<Rightarrow> tool_spec \<Rightarrow> string \<Rightarrow> bool" where
  "version_shown run spec v \<longleftrightarrow>
     (\<exists>out err. run (ts_cmd spec) (ts_args spec) = Some (True, out, err)
        \<and> (ts_parser spec out = Some v \<or> ts_parser spec out = None \<and> ts_parser spec err = Some v))"

lemma run_and_parse_Some: "run_and_parse run spec = Some v \<longleftrightarrow> version_shown run spec v"
  by (auto simp: run_and_parse_def version_shown_def split: option.splits)

lemma detect_infos:
  "map ti_name (detect run) = [''forge'', ''halmos'', ''slither'', ''z3'', ''cvc5'', ''solc'', ''gambit'']"
  "map ti_version (detect run) = map (run_and_parse run) tool_specs"
  by (simp_all add: detect_def detect_one_def tool_specs_def forge_spec_def halmos_spec_def slither_spec_def z3_spec_def
      cvc5_spec_def solc_spec_def gambit_spec_def)

lemma none_found: "list_all (\<lambda>t. \<exists>v. ti_version t = Some v) (map (detect_one run) specs) = list_all (\<lambda>spec. \<exists>v. run_and_parse run spec = Some v) specs"
  by (simp add: list.pred_map comp_def detect_one_def)

lemma none_missing: "(filter (\<lambda>x. f x = None) xs = []) = list_all (\<lambda>x. \<exists>v. f x = Some v) xs"
  by (auto simp: filter_empty_conv list_all_iff)

lemma doctor_exit:
  "fst (doctor_run run) = (if list_all (\<lambda>spec. \<exists>v. version_shown run spec v) tool_specs then 0 else 1)"
  by (simp add: doctor_run_def Let_def detect_def tool_found_def none_found comp_def
      run_and_parse_Some[symmetric] none_missing)

end
