(* ===== verification/CatalogCommand.thy ===== *)
theory CatalogCommand
  imports Stage1 PropertiesRun TemplateRender Doctor
begin

text \<open>
  The command \<open>vergil catalog\<close> (\<open>crates/vergil-cli/src/commands/catalog.rs\<close>): listing, showing and validating the
  attack templates, and the self-test that runs the clean fixture of each template that applies to a project
  through Halmos. Output is collected; a message on standard error is the third part of a result.
\<close>

section \<open>Loading\<close>

text \<open>\<open>PathBuf::pop\<close>; the directory of the manifest is fixed when the binary is built.\<close>

definition path_pop :: "string \<Rightarrow> string" where
  "path_pop p = (case path_parent p of Some q \<Rightarrow> q | None \<Rightarrow> p)"

definition templates_dir :: "string \<Rightarrow> string" where
  "templates_dir manifest_dir = path_join (path_pop (path_pop manifest_dir)) ''crates/vergil-properties/templates/attacks''"

record catalog_env =
  ce_manifest_dir :: string
  ce_templates :: "string \<Rightarrow> fs_node option"
  ce_yaml :: "string \<Rightarrow> string + attack_manifest"
  ce_error_text :: "attack_error \<Rightarrow> string"
  ce_canon :: "string \<Rightarrow> string + string"
  ce_node :: fs_node
  ce_tempdir :: "nat \<Rightarrow> string \<Rightarrow> string option"
  ce_mkdir :: "string \<Rightarrow> bool"
  ce_write :: "string \<Rightarrow> string \<Rightarrow> bool"
  ce_halmos :: "string \<Rightarrow> (string \<times> string) list \<Rightarrow> halmos_env"

definition load_attacks :: "catalog_env \<Rightarrow> string + (string \<times> attack_template) list" where
  "load_attacks env =
     (let dir = templates_dir (ce_manifest_dir env) in
      case attack_catalog_load (ce_yaml env) dir (ce_templates env dir) of
        Inl e \<Rightarrow> Inl (''catalog load failed at '' @ dir @ '': '' @ ce_error_text env e)
      | Inr cat \<Rightarrow> Inr cat)"

section \<open>Listing and showing\<close>

definition decidability_label :: "attack_template \<Rightarrow> string" where
  "decidability_label t =
     (case at_status t of Decidable \<Rightarrow> ''decidable'' | Frontier \<Rightarrow> ''frontier'' | DocumentOnly \<Rightarrow> ''document-only'')"

definition list_row :: "attack_template \<Rightarrow> string" where
  "list_row t =
     pad_right 42 (at_id t) @ '' '' @ pad_right 8 (severity_str (am_severity (at_manifest t))) @ '' ''
     @ pad_right 13 (decidability_label t) @ '' '' @ am_category (at_manifest t) @ [NL]"

definition shown_templates :: "string option \<Rightarrow> (string \<times> attack_template) list \<Rightarrow> attack_template list" where
  "shown_templates category cat =
     filter (\<lambda>t. case category of Some c \<Rightarrow> am_category (at_manifest t) = c | None \<Rightarrow> True) (map snd cat)"

definition catalog_list :: "catalog_env \<Rightarrow> string option \<Rightarrow> command_result" where
  "catalog_list env category =
     (case load_attacks env of
        Inl e \<Rightarrow> (3, [], Some e)
      | Inr cat \<Rightarrow>
          (let shown = shown_templates category cat in
           (0, concat (map list_row shown),
            if cat = [] then Some (''(no attack templates found in '' @ templates_dir (ce_manifest_dir env) @ '')'')
            else if length shown = 0 then Some ''(no templates match the filter)'' else None)))"

fun solver_debug :: "expected_solver \<Rightarrow> string" where
  "solver_debug ExpectZ3 = ''Z3''"
| "solver_debug ExpectCvc5 = ''Cvc5''"
| "solver_debug EitherSolver = ''Either''"

fun theory_debug :: "expected_theory \<Rightarrow> string" where
  "theory_debug Lia = ''Lia''"
| "theory_debug Bv = ''Bv''"
| "theory_debug Uf = ''Uf''"
| "theory_debug MixedTheory = ''Mixed''"

definition indented :: "string \<Rightarrow> string" where
  "indented s = concat (map (\<lambda>l. ''  '' @ l @ [NL]) (lines s))"

definition exploit_line :: "real_world_exploit \<Rightarrow> string" where
  "exploit_line ex =
     ''  - '' @ rw_name ex
     @ (case rw_year ex of Some y \<Rightarrow> '' ('' @ show_nat (unat y) @ '')'' | None \<Rightarrow> [])
     @ (case rw_loss_usd_approx ex of Some l \<Rightarrow> '' ~$'' @ show_nat (unat l) | None \<Rightarrow> [])
     @ (case rw_chain ex of Some c \<Rightarrow> '' on '' @ c | None \<Rightarrow> [])
     @ [NL]"

definition print_manifest :: "attack_template \<Rightarrow> string" where
  "print_manifest t =
     (let m = at_manifest t; a = am_applies_to m; pv = am_provenance m in
      ''id:        '' @ am_id m @ [NL]
      @ ''name:      '' @ am_name m @ [NL]
      @ ''category:  '' @ am_category m @ [NL]
      @ ''severity:  '' @ severity_str (am_severity m) @ [NL]
      @ ''decidability: '' @ decidability_label t @ '' ('' @ solver_debug (dy_expected_solver (am_decidability m))
          @ '' / '' @ theory_debug (dy_expected_theory (am_decidability m)) @ '')'' @ [NL]
      @ (case dy_over_approximation (am_decidability m) of
           Some oa \<Rightarrow> ''over-approximation:'' @ [NL] @ indented oa
         | None \<Rightarrow> [])
      @ [NL] @ ''applies-to:'' @ [NL]
      @ (if ap_interfaces a \<noteq> [] then ''  interfaces: '' @ debug_strs (ap_interfaces a) @ [NL] else [])
      @ (if ap_primitives a \<noteq> [] then ''  primitives: '' @ debug_strs (ap_primitives a) @ [NL] else [])
      @ (if ap_patterns a \<noteq> []
         then ''  patterns:'' @ [NL] @ concat (map (\<lambda>(k, v). ''    '' @ k @ '': '' @ bool_str v @ [NL]) (ap_patterns a)) else [])
      @ [NL] @ ''negation property:'' @ [NL] @ indented (am_negation_property m)
      @ [NL] @ ''mitigation:'' @ [NL] @ indented (am_mitigation m)
      @ (if av_real_world pv \<noteq> []
         then [NL] @ ''real-world exploits:'' @ [NL] @ concat (map exploit_line (av_real_world pv)) else [])
      @ (if av_references pv \<noteq> []
         then [NL] @ ''references:'' @ [NL] @ concat (map (\<lambda>r. ''  - '' @ r @ [NL]) (av_references pv)) else []))"

definition catalog_show :: "catalog_env \<Rightarrow> string \<Rightarrow> command_result" where
  "catalog_show env tid =
     (case load_attacks env of
        Inl e \<Rightarrow> (3, [], Some e)
      | Inr cat \<Rightarrow>
          (case attack_catalog_get cat tid of
             None \<Rightarrow> (3, [], Some (''no such attack template: '' @ tid))
           | Some t \<Rightarrow> (0, print_manifest t, None)))"

definition catalog_validate :: "catalog_env \<Rightarrow> command_result" where
  "catalog_validate env =
     (case load_attacks env of
        Inl e \<Rightarrow> (3, [], Some e)
      | Inr cat \<Rightarrow>
          (0, ''ok: '' @ show_nat (length cat) @ '' attack templates loaded and validated from ''
                @ templates_dir (ce_manifest_dir env) @ [NL], None))"

section \<open>Facts about the project\<close>

text \<open>A file that cannot be read is left out; a directory that cannot be listed is empty.\<close>

definition joined_sources :: "string \<Rightarrow> fs_node \<Rightarrow> string" where
  "joined_sources project src =
     (case src of
        DirN (Some es) \<Rightarrow>
          concat (map (\<lambda>(p, body). case body of Some s \<Rightarrow> s @ [NL] | None \<Rightarrow> []) (walk_sol (path_join project ''src'') es))
      | _ \<Rightarrow> [])"

definition detected_tags :: "string \<Rightarrow> string list option" where
  "detected_tags joined = do {
     found \<leftarrow> detect_interfaces joined;
     (let d0 = fold bset_insert found [];
          d1 = (if function_transfer joined \<and> function_transferfrom joined \<and> public_allowance joined \<and> \<not> erc721_shape joined
                then bset_insert ''ERC20'' d0 else d0);
          d2 = (if public_balanceof joined \<and> function_transfer joined \<and> public_allowance joined \<and> \<not> erc721_shape joined
                then bset_insert ''ERC20'' d1 else d1);
          d3 = (if erc721_shape joined then bset_insert ''ERC721'' d2 else d2);
          d4 = (if erc1155_shape joined then bset_insert ''ERC1155'' d3 else d3);
          d5 = (if erc4626_shape joined then bset_insert ''ERC20'' (bset_insert ''ERC4626'' d4) else d4)
      in Some d5)
   }"

definition add_tag :: "string \<Rightarrow> static_facts \<Rightarrow> static_facts" where
  "add_tag tag facts =
     (let f = with_interface tag facts in
      if tag = ''ERC20'' \<or> tag = ''ERC721'' \<or> tag = ''ERC1155'' then with_primitive ''token'' f
      else if tag = ''ERC4626'' then with_primitive ''vault'' f
      else f)"

definition facts_of_tags :: "string list \<Rightarrow> static_facts" where
  "facts_of_tags tags =
     (let f1 = fold add_tag tags (with_interface ''any'' static_facts_new);
          f2 = with_primitive ''any'' f1
      in fold (\<lambda>flag. with_pattern flag True) known_flags f2)"

definition collect_facts :: "string \<Rightarrow> fs_node \<Rightarrow> (string + static_facts) option" where
  "collect_facts project node =
     (case child node ''src'' of
        Some (DirN es) \<Rightarrow> map_option (\<lambda>tags. Inr (facts_of_tags tags)) (detected_tags (joined_sources project (DirN es)))
      | _ \<Rightarrow> Some (Inl (''no `src/` directory under project: '' @ project)))"

section \<open>The self-test of one template\<close>

definition simple_ctx :: "string \<Rightarrow> render_context" where
  "simple_ctx ident =
     context_from_pairs [(''contract_name'', ''Target''), (''contract_path'', ''src/Target.sol''), (''attack_id_ident'', ident)]"

definition target_ctx :: "(string \<times> string) list \<Rightarrow> string \<Rightarrow> render_context" where
  "target_ctx extra ident =
     context_from_pairs ([(''contract_name'', ''Target''), (''contract_path'', ''src/Target.sol'')] @ extra
       @ [(''attack_id_ident'', ident)])"

definition bindings_table :: "string \<Rightarrow> (string \<times> render_context \<times> string) list" where
  "bindings_table ident =
     [(''access-missing-modifier-state-change'',
         target_ctx [(''setter'', ''setProtected''), (''getter'', ''protectedValue'')] ident,
         ''check_unauthorized_caller_cannot_mutate''),
      (''arith-overflow-underflow-unchecked'', target_ctx [(''op'', ''add'')] ident, ''check_add_does_not_wrap''),
      (''reentrancy-single-function-cei'', target_ctx [(''action'', ''action''), (''getter'', ''counter'')] ident,
         ''check_action_does_not_double_increment''),
      (''access-public-burn-mint'', simple_ctx ident, ''check_unauthorized_mint_cannot_inflate_supply''),
      (''init-unprotected-initializer'', simple_ctx ident, ''check_attacker_cannot_seize_ownership''),
      (''logic-approval-not-revoked-after-cancel'', simple_ctx ident, ''check_cancel_zeros_allowance''),
      (''input-missing-parameter-validation'', simple_ctx ident, ''check_attacker_cannot_cancel''),
      (''vault-inflation-first-depositor-donation'', simple_ctx ident, ''check_no_zero_shares_under_inflation''),
      (''arith-incorrect-overflow-check-shift'', simple_ctx ident, ''check_shift_is_recoverable''),
      (''init-uninitialized-uups-implementation'', simple_ctx ident, ''check_implementation_cannot_be_initialized'')]"

definition ident_of_id :: "string \<Rightarrow> string" where
  "ident_of_id tid = map (\<lambda>c. if c = CHR ''-'' then CHR ''_'' else c) tid"

definition render_for_template :: "attack_template \<Rightarrow> (string \<times> string) option" where
  "render_for_template t =
     (case map_of (bindings_table (ident_of_id (at_id t))) (at_id t) of
        None \<Rightarrow> None
      | Some (ctx, check_fn) \<Rightarrow>
          (case template_render (at_halmos_source t) ctx of
             Inl e \<Rightarrow> None
           | Inr rendered \<Rightarrow> Some (rendered, check_fn)))"

definition self_test_toml :: string where
  "self_test_toml = (''[profile.default]'' @ [NL] @ ''src = '' @ [DQ] @ ''src'' @ [DQ] @ [NL] @ ''test = '' @ [DQ]
     @ ''test'' @ [DQ] @ [NL] @ ''out = '' @ [DQ] @ ''out'' @ [DQ] @ [NL] @ ''libs = ['' @ [DQ]
     @ ''lib'' @ [DQ] @ '']'' @ [NL] @ ''solc = '' @ [DQ] @ ''0.8.20'' @ [DQ] @ [NL]
     @ ''optimizer = true'' @ [NL] @ ''optimizer_runs = 200'' @ [NL])"

definition self_test_files :: "attack_template \<Rightarrow> string \<Rightarrow> (string \<times> string) list" where
  "self_test_files t check_src =
     [(''foundry.toml'', self_test_toml), (''src/Target.sol'', at_clean_source t), (''test/AttackCheck.t.sol'', check_src)]"

definition prepare_self_test_project :: "catalog_env \<Rightarrow> nat \<Rightarrow> attack_template \<Rightarrow> string \<Rightarrow> string option" where
  "prepare_self_test_project env n t check_src =
     (case ce_tempdir env n (''vergil-zc-'' @ at_id t @ ''-'') of
        None \<Rightarrow> None
      | Some dir \<Rightarrow>
          (if ce_mkdir env (path_join dir ''src'') \<and> ce_mkdir env (path_join dir ''test'')
              \<and> list_all (\<lambda>(f, body). ce_write env (path_join dir f) body) (self_test_files t check_src)
           then Some dir else None))"

datatype self_label = LPass | LFail | LUnknown

definition label_str :: "self_label \<Rightarrow> string" where
  "label_str l = (case l of LPass \<Rightarrow> [CHR 0xE2, CHR 0x9C, CHR 0x93] | LFail \<Rightarrow> [CHR 0xE2, CHR 0x9C, CHR 0x97] | LUnknown \<Rightarrow> ''?'')"

text \<open>The label, and whether the template counts as refuted.\<close>

definition run_clean_self_test :: "catalog_env \<Rightarrow> nat \<Rightarrow> attack_template \<Rightarrow> self_label \<times> bool" where
  "run_clean_self_test env n t =
     (case render_for_template t of
        None \<Rightarrow> (LUnknown, False)
      | Some (check_src, check_fn) \<Rightarrow>
          (case prepare_self_test_project env n t check_src of
             None \<Rightarrow> (LFail, True)
           | Some dir \<Rightarrow>
               (case fst (halmos_run_simple (ce_halmos env dir (self_test_files t check_src)) dir check_fn 120000 Map.empty) of
                  HVerified p ms w h \<Rightarrow> (LPass, False)
                | HCounterexample tr ms \<Rightarrow> (LFail, True)
                | _ \<Rightarrow> (LUnknown, False))))"

section \<open>The self-test command\<close>

definition format_set :: "string list \<Rightarrow> string" where
  "format_set tags = (if tags = [] then ''(none)'' else join '', '' (sort tags))"

definition self_test_row :: "self_label \<times> bool \<Rightarrow> attack_template \<Rightarrow> string" where
  "self_test_row r t =
     label_str (fst r) @ ''  '' @ pad_right 42 (at_id t) @ ''  '' @ pad_right 8 (severity_str (am_severity (at_manifest t)))
     @ ''  '' @ am_category (at_manifest t) @ [NL]"

definition self_test_head :: "string \<Rightarrow> static_facts \<Rightarrow> nat \<Rightarrow> nat \<Rightarrow> string" where
  "self_test_head project facts applicable all_templates =
     ''# Catalog self-test (Phase 1 catalog-self-test mode)'' @ [NL] @ [NL]
     @ ''Project:  '' @ project @ [NL]
     @ ''Interfaces detected: '' @ format_set (sf_interfaces facts) @ [NL]
     @ ''Primitives (Phase-1 heuristic): '' @ format_set (sf_primitives facts) @ [NL] @ [NL]
     @ ''## Activated templates ('' @ show_nat applicable @ '' of '' @ show_nat all_templates @ '' catalog entries)'' @ [NL] @ [NL]"

definition skipped_section :: "skipped_attack list \<Rightarrow> nat \<Rightarrow> string" where
  "skipped_section skipped all_templates =
     (if skipped = [] then []
      else [NL] @ ''## Not checked '' @ em_dash @ '' skipped templates ('' @ show_nat (length skipped) @ '' of ''
           @ show_nat all_templates @ '')'' @ [NL] @ [NL]
           @ concat (map (\<lambda>s. ''- '' @ sx_id s @ ''  ('' @ sx_reason s @ '')'' @ [NL]) skipped))"

definition self_test_summary :: "nat \<Rightarrow> nat \<Rightarrow> nat \<Rightarrow> string" where
  "self_test_summary applicable passed skipped =
     [NL] @ ''## Summary'' @ [NL]
     @ ''- Applicable templates: '' @ show_nat applicable @ [NL]
     @ ''- Self-tests passed:    '' @ show_nat passed @ [NL]
     @ ''- Skipped (not applicable): '' @ show_nat skipped @ [NL] @ [NL]
     @ (''Note: catalog self-test runs each applicable template'' @ [SQ] @ ''s `clean.sol`'' @ [NL]
     @ ''fixture, not the user'' @ [SQ] @ ''s source. Per-contract dispatch against the'' @ [NL]
     @ ''user'' @ [SQ] @ ''s contract lands in V1.5 Phase 6 via LLM-mediated binding'' @ [NL]
     @ ''(crates/vergil-core/src/catalog_intent.rs) and surfaces through'' @ [NL]
     @ ''`vergil verify` once Slice 8 wires the unified orchestration.'' @ [NL])"

fun self_test_loop :: "catalog_env \<Rightarrow> nat \<Rightarrow> attack_template list \<Rightarrow> bool \<times> nat \<times> string \<Rightarrow> bool \<times> nat \<times> string" where
  "self_test_loop env n [] acc = acc"
| "self_test_loop env n (t # ts) (any_refuted, passed, out) =
     (let r = run_clean_self_test env n t in
      self_test_loop env (Suc n) ts
        (if snd r then (True, passed, out @ self_test_row r t) else (any_refuted, passed + 1, out @ self_test_row r t)))"

definition self_test_report ::
    "catalog_env \<Rightarrow> string \<Rightarrow> (string \<times> attack_template) list \<Rightarrow> static_facts \<Rightarrow> u8 \<times> string" where
  "self_test_report env project cat facts =
     (let act = activate cat facts;
          (any_refuted, passed, rows) = self_test_loop env 0 (ar_templates act) (False, 0, [])
      in (if any_refuted then 1 else 0,
          self_test_head project facts (length (ar_templates act)) (length cat) @ rows
          @ skipped_section (ar_skipped act) (length cat)
          @ self_test_summary (length (ar_templates act)) passed (length (ar_skipped act))))"

definition catalog_self_test :: "catalog_env \<Rightarrow> string \<Rightarrow> command_result option" where
  "catalog_self_test env path =
     (case ce_canon env path of
        Inl e \<Rightarrow> Some (3, [], Some (''invalid project path '' @ path @ '': '' @ e))
      | Inr project \<Rightarrow>
          (if \<not> child_is_file (ce_node env) ''foundry.toml''
           then Some (3, [], Some (''no foundry.toml in project dir: '' @ project))
           else case load_attacks env of
             Inl e \<Rightarrow> Some (3, [], Some e)
           | Inr cat \<Rightarrow>
               (case collect_facts project (ce_node env) of
                  None \<Rightarrow> None
                | Some (Inl e) \<Rightarrow> Some (3, [], Some e)
                | Some (Inr facts) \<Rightarrow>
                    (let (code, out) = self_test_report env project cat facts in Some (code, out, None)))))"

section \<open>Lemmas\<close>

text \<open>The self-test finds the interfaces that the fingerprint of \<open>vergil verify\<close> finds.\<close>

lemma bset_fold: "sorted xs \<and> distinct xs \<Longrightarrow>
    sorted (fold bset_insert ys xs) \<and> distinct (fold bset_insert ys xs) \<and> set (fold bset_insert ys xs) = set xs \<union> set ys"
proof (induction ys arbitrary: xs)
  case (Cons y ys)
  from Cons.IH[OF bset_insert_ok[OF Cons.prems]] show ?case by auto
qed simp

lemma detected_tags_agree: "detected_tags joined = sorted_interfaces joined"
proof (cases "detect_interfaces joined")
  case None
  then show ?thesis by (simp add: detected_tags_def sorted_interfaces_def)
next
  case (Some found)
  let ?add = "\<lambda>b x xs. if b then bset_insert x xs else xs"
  let ?a = "function_transfer joined \<and> function_transferfrom joined \<and> public_allowance joined \<and> \<not> erc721_shape joined"
  let ?b = "public_balanceof joined \<and> function_transfer joined \<and> public_allowance joined \<and> \<not> erc721_shape joined"
  define ys where "ys = found @ sig ?a ''ERC20'' @ sig ?b ''ERC20'' @ sig (erc721_shape joined) ''ERC721''
    @ sig (erc1155_shape joined) ''ERC1155'' @ (if erc4626_shape joined then [''ERC4626'', ''ERC20''] else [])"
  have "detected_tags joined = Some (fold bset_insert ys [])"
    unfolding detected_tags_def ys_def by (simp add: Some Let_def sig_def)
  moreover have "fold bset_insert ys [] = sort (remdups ys)"
    using bset_fold[of "[]" ys] by (intro sorted_distinct_set_unique) auto
  ultimately show ?thesis by (simp add: sorted_interfaces_def Some ys_def)
qed

text \<open>The facts of a list of tags.\<close>

definition token_tag :: "string \<Rightarrow> bool" where
  "token_tag tag \<longleftrightarrow> tag = ''ERC20'' \<or> tag = ''ERC721'' \<or> tag = ''ERC1155''"

lemma add_tag_facts:
  "set (sf_interfaces (add_tag tag f)) = insert tag (set (sf_interfaces f))"
  "set (sf_primitives (add_tag tag f)) =
     (if token_tag tag then {''token''} else if tag = ''ERC4626'' then {''vault''} else {}) \<union> set (sf_primitives f)"
  "sf_patterns (add_tag tag f) = sf_patterns f"
  by (auto simp: add_tag_def token_tag_def Let_def with_interface_def with_primitive_def)

lemma fold_add_tag:
  "set (sf_interfaces (fold add_tag tags f)) = set tags \<union> set (sf_interfaces f)"
  "set (sf_primitives (fold add_tag tags f)) =
     (if list_ex token_tag tags then {''token''} else {}) \<union> (if ''ERC4626'' \<in> set tags then {''vault''} else {})
     \<union> set (sf_primitives f)"
  "sf_patterns (fold add_tag tags f) = sf_patterns f"
  by (induction tags arbitrary: f) (auto simp: add_tag_facts token_tag_def)

lemma facts_of_tags_facts:
  "set (sf_interfaces (facts_of_tags tags)) = insert ''any'' (set tags)"
  "set (sf_primitives (facts_of_tags tags)) =
     insert ''any'' ((if list_ex token_tag tags then {''token''} else {}) \<union> (if ''ERC4626'' \<in> set tags then {''vault''} else {}))"
  "pattern_value (sf_patterns (facts_of_tags tags)) k = List.member known_flags k"
proof -
  let ?f2 = "with_primitive ''any'' (fold add_tag tags (with_interface ''any'' static_facts_new))"
  have p: "sf_patterns ?f2 = []"
    by (simp add: with_primitive_def fold_add_tag with_interface_def static_facts_new_def)
  then have "btree_ok (sf_patterns ?f2)" by (simp add: btree_ok_def)
  note pat = fold_with_pattern[OF this]
  show "set (sf_interfaces (facts_of_tags tags)) = insert ''any'' (set tags)"
    using pat[of known_flags]
    by (simp add: facts_of_tags_def Let_def fold_add_tag with_primitive_def with_interface_def static_facts_new_def)
  show "set (sf_primitives (facts_of_tags tags)) =
     insert ''any'' ((if list_ex token_tag tags then {''token''} else {}) \<union> (if ''ERC4626'' \<in> set tags then {''vault''} else {}))"
    using pat[of known_flags]
    by (simp add: facts_of_tags_def Let_def fold_add_tag with_primitive_def with_interface_def static_facts_new_def)
  show "pattern_value (sf_patterns (facts_of_tags tags)) k = List.member known_flags k"
    using pat[of known_flags k] p by (simp add: facts_of_tags_def Let_def pattern_value_def List.member_iff)
qed

text \<open>A template is tested at all only if its identifier is one of ten, and refuted only by Halmos or a failed write.\<close>

definition tested_ids :: "string list" where
  "tested_ids = map fst (bindings_table [])"

lemma tested_ids_bindings: "map fst (bindings_table ident) = tested_ids"
  by (simp add: tested_ids_def bindings_table_def)

lemma render_for_untested: "\<not> List.member tested_ids (at_id t) \<Longrightarrow> render_for_template t = None"
proof -
  assume "\<not> List.member tested_ids (at_id t)"
  then have "map_of (bindings_table (ident_of_id (at_id t))) (at_id t) = None"
    using tested_ids_bindings[of "ident_of_id (at_id t)"] by (auto simp: map_of_eq_None_iff List.member_iff set_map[symmetric] simp del: set_map)
  then show ?thesis by (simp add: render_for_template_def)
qed

definition fixture_result :: "catalog_env \<Rightarrow> nat \<Rightarrow> attack_template \<Rightarrow> halmos_result option" where
  "fixture_result env n t = do {
     (check_src, check_fn) \<leftarrow> render_for_template t;
     dir \<leftarrow> prepare_self_test_project env n t check_src;
     Some (fst (halmos_run_simple (ce_halmos env dir (self_test_files t check_src)) dir check_fn 120000 Map.empty))
   }"

definition fixture_refuted :: "catalog_env \<Rightarrow> nat \<times> attack_template \<Rightarrow> bool" where
  "fixture_refuted env x \<longleftrightarrow>
     (case render_for_template (snd x) of
        None \<Rightarrow> False
      | Some (check_src, check_fn) \<Rightarrow>
          (case fixture_result env (fst x) (snd x) of
             None \<Rightarrow> True | Some (HCounterexample tr ms) \<Rightarrow> True | Some h \<Rightarrow> False))"

definition fixture_verified :: "catalog_env \<Rightarrow> nat \<times> attack_template \<Rightarrow> bool" where
  "fixture_verified env x \<longleftrightarrow> (case fixture_result env (fst x) (snd x) of Some (HVerified p ms w h) \<Rightarrow> True | _ \<Rightarrow> False)"

lemma run_clean_self_test_snd: "snd (run_clean_self_test env n t) = fixture_refuted env (n, t)"
  by (auto simp: run_clean_self_test_def fixture_refuted_def fixture_result_def split: option.split halmos_result.split)

lemma verified_not_refuted: "fixture_verified env x \<Longrightarrow> \<not> fixture_refuted env x"
  by (auto simp: fixture_verified_def fixture_refuted_def split: option.splits halmos_result.splits)

lemma untested_not_decided:
  "\<not> List.member tested_ids (at_id (snd x)) \<Longrightarrow> \<not> fixture_refuted env x \<and> \<not> fixture_verified env x"
  using render_for_untested[of "snd x"] by (simp add: fixture_verified_def fixture_refuted_def fixture_result_def)

lemma self_test_loop_eq:
  "self_test_loop env n ts (b, k, out) =
     (b \<or> list_ex (fixture_refuted env) (enumerate n ts),
      k + length (filter (\<lambda>x. \<not> fixture_refuted env x) (enumerate n ts)),
      out @ concat (map (\<lambda>(i, t). self_test_row (run_clean_self_test env i t) t) (enumerate n ts)))"
proof (induction ts arbitrary: n b k out)
  case (Cons t ts)
  then show ?case by (simp add: Let_def run_clean_self_test_snd)
qed simp

lemma activate_templates: "ar_templates (activate cat facts) = filter (\<lambda>t. applies (am_applies_to (at_manifest t)) facts) (map snd cat)"
  by (simp add: activate_def activate_fold)

lemma activate_skipped_count:
  "length (ar_skipped (activate cat facts)) = length cat - length (ar_templates (activate cat facts))"
  using sum_length_filter_compl[of "\<lambda>t. applies (am_applies_to (at_manifest t)) facts" "map snd cat"]
  by (simp add: activate_def activate_fold)

lemma count_split:
  assumes "\<And>x. V x \<Longrightarrow> \<not> R x"
  shows "length (filter (\<lambda>x. \<not> R x) xs) = length (filter V xs) + length (filter (\<lambda>x. \<not> R x \<and> \<not> V x) xs)"
  using assms by (induction xs) auto

lemma count_mono:
  assumes "\<And>x. P x \<Longrightarrow> Q x"
  shows "length (filter P xs) \<le> length (filter Q xs)"
  using assms by (induction xs) auto


text \<open>What the manifest of the critical template \<open>access-public-burn-mint\<close> asks for.\<close>

definition burn_mint_applies :: applies_to where
  "burn_mint_applies =
     \<lparr>ap_interfaces = [''ERC20'', ''ERC721'', ''ERC1155''], ap_primitives = [''token''],
      ap_patterns = [(''no_auth_check'', True), (''state_change_present'', True)]\<rparr>"

section \<open>Properties\<close>

text \<open>C36: The exit code and the counts of the self-test: with a message it is 3 and nothing was printed; otherwise 1
  exactly when the clean fixture of a template that applies is refuted by Halmos or cannot be written, else 0.
  The printed number of passed self-tests is the number of fixtures Halmos verified plus the number it left
  undecided, and every template whose identifier is not one of ten is among the undecided.\<close>

theorem self_test_exit_and_counts:
  "case catalog_self_test env path of
     Some (code, out, Some m) \<Rightarrow> code = 3 \<and> out = []
   | Some (code, out, None) \<Rightarrow>
       (\<exists>project cat facts.
          ce_canon env path = Inr project \<and> load_attacks env = Inr cat
          \<and> collect_facts project (ce_node env) = Some (Inr facts)
          \<and> (let ts = filter (\<lambda>t. applies (am_applies_to (at_manifest t)) facts) (map snd cat);
                 runs = enumerate 0 ts;
                 undecided = filter (\<lambda>x. \<not> fixture_refuted env x \<and> \<not> fixture_verified env x) runs
             in code = (if list_ex (fixture_refuted env) runs then 1 else 0)
                \<and> ends_with out (self_test_summary (length ts) (length (filter (fixture_verified env) runs) + length undecided)
                    (length cat - length ts))
                \<and> length (filter (\<lambda>x. \<not> List.member tested_ids (at_id (snd x))) runs) \<le> length undecided))
   | None \<Rightarrow> True"
proof (cases "catalog_self_test env path")
  case (Some r)
  obtain code out err where r: "r = (code, out, err)" by (cases r)
  show ?thesis
  proof (cases err)
    case (Some m)
    then show ?thesis
      using \<open>catalog_self_test env path = Some r\<close> r
      by (auto simp: catalog_self_test_def Let_def split: sum.splits if_splits option.splits prod.splits)
  next
    case None
    then obtain project cat facts where
      e: "ce_canon env path = Inr project" "load_attacks env = Inr cat"
         "collect_facts project (ce_node env) = Some (Inr facts)"
      and s: "self_test_report env project cat facts = (code, out)"
      using \<open>catalog_self_test env path = Some r\<close> r
      by (auto simp: catalog_self_test_def Let_def split: sum.splits if_splits option.splits prod.splits)
    let ?ts = "filter (\<lambda>t. applies (am_applies_to (at_manifest t)) facts) (map snd cat)"
    let ?runs = "enumerate 0 ?ts"
    let ?und = "filter (\<lambda>x. \<not> fixture_refuted env x \<and> \<not> fixture_verified env x) ?runs"
    have c: "code = (if list_ex (fixture_refuted env) ?runs then 1 else 0)"
      using s by (auto simp: self_test_report_def Let_def self_test_loop_eq activate_templates)
    have k: "length (filter (\<lambda>x. \<not> fixture_refuted env x) ?runs) = length (filter (fixture_verified env) ?runs) + length ?und"
      by (rule count_split) (rule verified_not_refuted)
    have "\<exists>h. out = h @ self_test_summary (length ?ts) (length (filter (\<lambda>x. \<not> fixture_refuted env x) ?runs)) (length cat - length ?ts)"
      using s activate_skipped_count[of cat facts]
      by (auto simp: self_test_report_def Let_def self_test_loop_eq activate_templates)
    then have o: "ends_with out (self_test_summary (length ?ts) (length (filter (fixture_verified env) ?runs) + length ?und)
        (length cat - length ?ts))"
      by (auto simp: k ends_with_def)
    have u: "length (filter (\<lambda>x. \<not> List.member tested_ids (at_id (snd x))) ?runs) \<le> length ?und"
      by (rule count_mono) (use untested_not_decided in blast)
    show ?thesis
      unfolding \<open>catalog_self_test env path = Some r\<close> r None option.case prod.case Let_def
      by (intro exI[of _ project] exI[of _ cat] exI[of _ facts] conjI e c o u)
  qed
qed simp

text \<open>C37: The two activations of the catalogue speak two languages: \<open>vergil verify\<close> hands over the identifiers of the
  classifier, none of which is \<open>token\<close>, so the template against unprotected minting and burning, which is
  critical, applies to no project at all; the self-test, which finds the same interfaces in the same text,
  says \<open>token\<close>, and applies it to exactly the projects with an ERC-20, ERC-721 or ERC-1155 interface.\<close>

theorem burn_mint_only_self_tested:
  "(case fingerprint canon node path of
      Some (Inr fp) \<Rightarrow> matches_applies_to burn_mint_applies (fingerprint_to_facts fp) \<noteq> None
    | _ \<Rightarrow> True)
   \<and> (case collect_facts project node of
        Some (Inr facts) \<Rightarrow> (matches_applies_to burn_mint_applies facts = None) = list_ex token_tag (sf_interfaces facts)
      | _ \<Rightarrow> True)
   \<and> detected_tags joined = sorted_interfaces joined"
proof (intro conjI detected_tags_agree)
  have k: "''token'' \<notin> insert ''any'' (primitive_id ` UNIV)"
    unfolding primitive_all_set[symmetric] by (simp add: primitive_all_def)
  have "matches_applies_to burn_mint_applies (fingerprint_to_facts fp) \<noteq> None"
    if f: "fingerprint canon node path = Some (Inr fp)" for fp
  proof -
    have "set (sf_primitives (fingerprint_to_facts fp)) \<subseteq> insert ''any'' (primitive_id ` UNIV)"
      using fingerprint_primitives_known[OF f] by (auto simp: facts_of_fingerprint(2) split: if_splits)
    with k show ?thesis
      unfolding matches_None by (auto simp: applies_def tags_overlap_def burn_mint_applies_def simp del: not_None_eq)
  qed
  then show "case fingerprint canon node path of
      Some (Inr fp) \<Rightarrow> matches_applies_to burn_mint_applies (fingerprint_to_facts fp) \<noteq> None | _ \<Rightarrow> True"
    by (auto split: option.split sum.split simp del: not_None_eq)
  have t: "applies burn_mint_applies (facts_of_tags tags) = list_ex token_tag (sf_interfaces (facts_of_tags tags))" for tags
  proof -
    have n: "''no_auth_check'' \<in> set known_flags" "''state_change_present'' \<in> set known_flags"
      by (simp_all add: known_flags_def)
    have "list_ex token_tag (sf_interfaces (facts_of_tags tags)) = (\<exists>x\<in>set tags. token_tag x)"
      by (simp add: list_ex_iff facts_of_tags_facts token_tag_def)
    moreover have "list_ex token_tag tags = (\<exists>x\<in>set tags. token_tag x)" by (simp add: list_ex_iff)
    moreover have "applies burn_mint_applies (facts_of_tags tags) = (\<exists>x\<in>set tags. token_tag x)"
      by (simp add: applies_def tags_overlap_def burn_mint_applies_def facts_of_tags_facts n List.member_iff list_ex_iff)
         (auto simp: token_tag_def)
    ultimately show ?thesis by simp
  qed
  show "case collect_facts project node of
        Some (Inr facts) \<Rightarrow> (matches_applies_to burn_mint_applies facts = None) = list_ex token_tag (sf_interfaces facts)
      | _ \<Rightarrow> True"
    unfolding matches_None by (auto simp: collect_facts_def t split: option.split sum.split fs_node.split)
qed

end
