(* ===== verification/Solver.thy ===== *)
theory Solver
  imports RustStr
begin

text \<open>
  Direct SMT-LIB dispatch (\<open>crates/vergil-solidity/src/solver.rs\<close>): the three solvers and
  their names, the command line each gets, the reading of a solver's output, and the error a
  failed process becomes. The operating system is a parameter: \<open>os\<close> says what became of a
  process started with a program, its arguments, its standard input and a time budget.
\<close>

section \<open>Solvers and verdicts\<close>

datatype solver = Z3 | Cvc5 | Bitwuzla

datatype solver_verdict = Unsat | Sat | SUnknown string

datatype solver_error =
    NotInstalled string
  | Spawn string string
  | NonZeroExit string string
  | STimeout string nat
  | Unparseable string string

fun as_str :: "solver \<Rightarrow> string" where
  "as_str Z3 = ''z3''"
| "as_str Cvc5 = ''cvc5''"
| "as_str Bitwuzla = ''bitwuzla''"

definition from_name :: "string \<Rightarrow> solver option" where
  "from_name s =
     (let l = to_lower s in
      if l = ''z3'' then Some Z3
      else if l = ''cvc5'' then Some Cvc5
      else if l = ''bitwuzla'' then Some Bitwuzla
      else None)"

fun alternate :: "solver \<Rightarrow> solver" where
  "alternate Z3 = Cvc5"
| "alternate Cvc5 = Z3"
| "alternate Bitwuzla = Z3"

record solver_run =
  sr_solver :: solver
  sr_query :: string
  sr_budget_ms :: nat

definition solver_run_new :: "solver \<Rightarrow> string \<Rightarrow> solver_run" where
  "solver_run_new s q = \<lparr>sr_solver = s, sr_query = q, sr_budget_ms = 60000\<rparr>"

definition sr_with_wall_clock :: "solver_run \<Rightarrow> nat \<Rightarrow> solver_run" where
  "sr_with_wall_clock r ms = r\<lparr>sr_budget_ms := ms\<rparr>"

section \<open>Reading the output\<close>

fun unknown_reason_in :: "string list \<Rightarrow> string option" where
  "unknown_reason_in [] = None"
| "unknown_reason_in (line # ls) =
     (case strip_prefix (trim line) ''(:reason-unknown '' of
        Some rest \<Rightarrow>
          (let e = (case find_sub rest '')'' of Some i \<Rightarrow> i | None \<Rightarrow> length rest)
           in Some (trim_char DQ (trim (take e rest))))
      | None \<Rightarrow> unknown_reason_in ls)"

definition extract_unknown_reason :: "string \<Rightarrow> string option" where
  "extract_unknown_reason stdout = unknown_reason_in (lines stdout)"

fun verdict_of_lines :: "string \<Rightarrow> string list \<Rightarrow> solver_verdict option" where
  "verdict_of_lines stdout [] = None"
| "verdict_of_lines stdout (line # ls) =
     (let t = trim line in
      if t = ''unsat'' then Some Unsat
      else if t = ''sat'' then Some Sat
      else if t = ''unknown'' then
        Some (SUnknown (case extract_unknown_reason stdout of Some r \<Rightarrow> r | None \<Rightarrow> []))
      else verdict_of_lines stdout ls)"

definition parse_verdict :: "string \<Rightarrow> string \<Rightarrow> string \<Rightarrow> solver_error + solver_verdict" where
  "parse_verdict name stdout stderr =
     (case verdict_of_lines stdout (lines stdout) of
        Some v \<Rightarrow> Inr v
      | None \<Rightarrow>
          Inl (Unparseable name
            (if stderr = [] then stdout
             else ''stdout:'' @ [NL] @ stdout @ [NL] @ ''stderr:'' @ [NL] @ stderr)))"

section \<open>Dispatch\<close>

text \<open>What the operating system makes of a child process.\<close>

datatype proc_outcome =
    PNotFound
  | PSpawnFailed string
  | PStdinFailed string
  | PWaitFailed string
  | PTimedOut
  | POutput string string

type_synonym os = "string \<Rightarrow> string list \<Rightarrow> string \<Rightarrow> nat \<Rightarrow> proc_outcome"

fun solver_args :: "solver \<Rightarrow> string list" where
  "solver_args Z3 = [''-in'']"
| "solver_args Cvc5 = [''--lang=smt2'']"
| "solver_args Bitwuzla = [''--lang'', ''smt2'']"

definition solver_dispatch :: "os \<Rightarrow> solver_run \<Rightarrow> solver_error + solver_verdict" where
  "solver_dispatch os r =
     (let binary = as_str (sr_solver r) in
      case os binary (solver_args (sr_solver r)) (sr_query r) (sr_budget_ms r) of
        PNotFound \<Rightarrow> Inl (NotInstalled binary)
      | PSpawnFailed e \<Rightarrow> Inl (Spawn binary e)
      | PStdinFailed e \<Rightarrow> Inl (Spawn binary e)
      | PWaitFailed e \<Rightarrow> Inl (Spawn binary e)
      | PTimedOut \<Rightarrow> Inl (STimeout binary (sr_budget_ms r))
      | POutput out err \<Rightarrow> parse_verdict binary out err)"

text \<open>\<open>read\<close> is \<open>std::fs::read_to_string\<close>: the error message or the text.\<close>

definition dispatch_file ::
    "os \<Rightarrow> (string \<Rightarrow> string + string) \<Rightarrow> string \<Rightarrow> solver \<Rightarrow> nat \<Rightarrow> solver_error + solver_verdict" where
  "dispatch_file os read path s budget =
     (case read path of
        Inl e \<Rightarrow> Inl (Spawn (as_str s) e)
      | Inr query \<Rightarrow> solver_dispatch os (sr_with_wall_clock (solver_run_new s query) budget))"

section \<open>Facts\<close>

definition decisive :: "string \<Rightarrow> bool" where
  "decisive line \<longleftrightarrow> trim line \<in> {''unsat'', ''sat'', ''unknown''}"

lemma verdict_of_lines_skip:
  "\<forall>u\<in>set us. \<not> decisive u \<Longrightarrow> verdict_of_lines so (us @ vs) = verdict_of_lines so vs"
  by (induction us) (auto simp: decisive_def Let_def)

lemma verdict_of_lines_None: "verdict_of_lines so ls = None \<longleftrightarrow> (\<forall>l\<in>set ls. \<not> decisive l)"
  by (induction ls) (auto simp: decisive_def Let_def)

lemma verdict_of_lines_Unsat:
  "verdict_of_lines so ls = Some Unsat \<longleftrightarrow>
     (\<exists>us l vs. ls = us @ l # vs \<and> (\<forall>u\<in>set us. \<not> decisive u) \<and> trim l = ''unsat'')"
proof
  assume "verdict_of_lines so ls = Some Unsat"
  then show "\<exists>us l vs. ls = us @ l # vs \<and> (\<forall>u\<in>set us. \<not> decisive u) \<and> trim l = ''unsat''"
  proof (induction ls)
    case Nil
    then show ?case by simp
  next
    case (Cons l ls)
    show ?case
    proof (cases "trim l = ''unsat''")
      case True
      then show ?thesis by (intro exI[of _ "[]"] exI[of _ l] exI[of _ ls]) simp
    next
      case False
      with Cons.prems have nd: "\<not> decisive l" and "verdict_of_lines so ls = Some Unsat"
        by (auto simp: decisive_def Let_def split: if_splits)
      with Cons.IH obtain us m vs
        where "ls = us @ m # vs" "\<forall>u\<in>set us. \<not> decisive u" "trim m = ''unsat''" by blast
      with nd show ?thesis
        by (intro exI[of _ "l # us"]) auto
    qed
  qed
next
  assume "\<exists>us l vs. ls = us @ l # vs \<and> (\<forall>u\<in>set us. \<not> decisive u) \<and> trim l = ''unsat''"
  then show "verdict_of_lines so ls = Some Unsat"
    by (auto simp: verdict_of_lines_skip)
qed

lemma parse_verdict_Inr: "parse_verdict n so se = Inr v \<longleftrightarrow> verdict_of_lines so (lines so) = Some v"
  by (auto simp: parse_verdict_def split: option.splits)

lemma solver_dispatch_Inr:
  "solver_dispatch os r = Inr v \<longleftrightarrow>
     (\<exists>out err. os (as_str (sr_solver r)) (solver_args (sr_solver r)) (sr_query r) (sr_budget_ms r)
                  = POutput out err
        \<and> verdict_of_lines out (lines out) = Some v)"
  by (auto simp: solver_dispatch_def Let_def parse_verdict_Inr split: proc_outcome.splits)

section \<open>Properties\<close>

text \<open>A re-dispatched query counts as UNSAT exactly when the solver process ran to the end and
  the first line of its standard output that is one of the three answers is \<open>unsat\<close>: no
  error, time-out, missing solver or later line can produce it.\<close>

theorem redispatch_unsat_iff:
  "solver_dispatch os r = Inr Unsat \<longleftrightarrow>
     (\<exists>out err us l vs.
        os (as_str (sr_solver r)) (solver_args (sr_solver r)) (sr_query r) (sr_budget_ms r) = POutput out err
        \<and> lines out = us @ l # vs \<and> \<not> list_ex decisive us \<and> trim l = ''unsat'')"
  unfolding solver_dispatch_Inr verdict_of_lines_Unsat list_ex_iff by blast

text \<open>Solver names round-trip: a name parses to a solver exactly when its lower-case form is the
  solver's own name, and the solver chosen for a re-dispatch is never the one that answered first.\<close>

theorem solver_name_roundtrip:
  "(from_name n = Some s) = (to_lower n = as_str s) \<and> from_name (as_str s) = Some s \<and> alternate s \<noteq> s"
proof -
  have "from_name n = Some s \<longleftrightarrow> to_lower n = as_str s"
    by (cases s) (auto simp: from_name_def Let_def)
  moreover have "from_name (as_str s) = Some s"
    by (cases s) (simp_all add: from_name_def Let_def char_class_defs)
  moreover have "alternate s \<noteq> s"
    by (cases s) simp_all
  ultimately show ?thesis by blast
qed

end
