(* ===== verification/Prove.thy ===== *)
theory Prove
  imports Solver Layout
begin

text \<open>
  The command \<open>vergil prove\<close> (\<open>crates/vergil-cli/src/commands/prove.rs\<close>): the source digests are checked again, then
  every recorded query is looked up under its digest and handed to another solver.
\<close>

section \<open>Looking a query up\<close>

datatype redispatch_outcome =
    RoReverified
  | RoMismatch string
  | RoMissing
  | RoNoHashRecorded
  | RoSolverError string
  | RoHashMismatch string string

text \<open>
  The environment: reads of the artifact (the command reads it a second time after the check), of a
  file as bytes and as text, serde's decoder, SHA-256, the solvers' processes, and the error with which the
  runtime of a dispatch fails to start.
\<close>

record prove_env =
  pe_read :: "string \<Rightarrow> string + string"
  pe_reread :: "string + string"
  pe_read_text :: "string \<Rightarrow> string + string"
  pe_is_file :: "string \<Rightarrow> bool"
  pe_decode :: "string \<Rightarrow> string + proof_artifact"
  pe_sha :: "string \<Rightarrow> u8 list"
  pe_os :: os
  pe_runtime_error :: "string option"

fun solver_error_str :: "solver_error \<Rightarrow> string" where
  "solver_error_str (NotInstalled name) = ''solver `'' @ name @ ''` not found on PATH''"
| "solver_error_str (Spawn name e) = ''solver `'' @ name @ ''` spawn failed: '' @ e"
| "solver_error_str (NonZeroExit name m) = ''solver `'' @ name @ ''` exit failed: '' @ m"
| "solver_error_str (STimeout name ms) = ''solver `'' @ name @ ''` wall-clock budget '' @ show_nat ms @ ''ms exceeded''"
| "solver_error_str (Unparseable name raw) = ''solver `'' @ name @ (''` produced unparseable output:'' @ [NL]) @ raw"

definition smt_path_for :: "string \<Rightarrow> string \<Rightarrow> string" where
  "smt_path_for project sha = path_join (path_join (path_join project ''vergil-out'') ''smt'') (sha @ ''.smt2'')"

definition file_sha256_hex :: "prove_env \<Rightarrow> string \<Rightarrow> string + string" where
  "file_sha256_hex env path = map_sum id (\<lambda>bytes. hex_lower (pe_sha env bytes)) (pe_read env path)"

fun redispatch_of_solver :: "solver_error + solver_verdict \<Rightarrow> redispatch_outcome" where
  "redispatch_of_solver (Inr Unsat) = RoReverified"
| "redispatch_of_solver (Inr Sat) = RoMismatch ''alternate solver returned `sat` (counterexample exists)''"
| "redispatch_of_solver (Inr (SUnknown reason)) = RoMismatch (''alternate solver returned `unknown`: '' @ reason)"
| "redispatch_of_solver (Inl (NotInstalled name)) =
     RoSolverError (name @ ('' not on PATH '' @ em_dash @ '' install or pass --solver <name>''))"
| "redispatch_of_solver (Inl e) = RoSolverError (solver_error_str e)"

definition dispatch_one :: "prove_env \<Rightarrow> string \<Rightarrow> solver \<Rightarrow> redispatch_outcome" where
  "dispatch_one env path s =
     (case pe_runtime_error env of
        Some e \<Rightarrow> RoSolverError (''build runtime: '' @ e)
      | None \<Rightarrow> redispatch_of_solver (dispatch_file (pe_os env) (pe_read_text env) path s 60000))"

definition redispatch_query :: "prove_env \<Rightarrow> string \<Rightarrow> solver \<Rightarrow> string option \<Rightarrow> redispatch_outcome" where
  "redispatch_query env project s query =
     (case query of
        None \<Rightarrow> RoNoHashRecorded
      | Some sha \<Rightarrow>
          (let path = smt_path_for project sha in
           if \<not> pe_is_file env path then RoMissing
           else case file_sha256_hex env path of
             Inr actual \<Rightarrow> if actual = sha then dispatch_one env path s else RoHashMismatch sha actual
           | Inl e \<Rightarrow> RoSolverError (''hash '' @ path @ '': '' @ e)))"

definition redispatch_all :: "proof_artifact \<Rightarrow> prove_env \<Rightarrow> string \<Rightarrow> solver \<Rightarrow> (string \<times> redispatch_outcome) list" where
  "redispatch_all a env project s =
     map (\<lambda>p. (vp_name p, redispatch_query env project s (vp_smt_query_sha256 p))) (pa_verified_properties a)"

section \<open>The command\<close>

fun prove_error_str :: "prove_error \<Rightarrow> string" where
  "prove_error_str (PeIo path e) = ''read '' @ path @ '': '' @ e"
| "prove_error_str (PeParse path e) = ''parse '' @ path @ '': '' @ e"
| "prove_error_str (PeSchema m) = ''schema invalid: '' @ m"
| "prove_error_str (PeSourceShaMismatch path expected actual) =
     ''source file `'' @ path @ ''` SHA256 mismatch (artifact says '' @ expected @ '', current is '' @ actual @ '')''"

fun prove_error_code :: "prove_error \<Rightarrow> u8" where
  "prove_error_code (PeSourceShaMismatch p e a) = 1"
| "prove_error_code (PeSchema m) = 1"
| "prove_error_code (PeIo p e) = 3"
| "prove_error_code (PeParse p e) = 3"

definition resolve_solver_choice :: "string option \<Rightarrow> string + solver" where
  "resolve_solver_choice override_name =
     (case override_name of
        None \<Rightarrow> Inr Cvc5
      | Some name \<Rightarrow>
          (case from_name name of
             Some s \<Rightarrow> Inr s
           | None \<Rightarrow> Inl (''unknown solver `'' @ name @ ''` (expected: z3, cvc5, bitwuzla)'')))"

definition complaint :: "string \<times> redispatch_outcome \<Rightarrow> string list" where
  "complaint x =
     (case x of (name, o1) \<Rightarrow>
        (case o1 of
           RoMismatch detail \<Rightarrow> [(''  '' @ [CHR 0xE2, CHR 0x9C, CHR 0x97] @ '' '') @ name @ ('': alternate solver disagrees '' @ em_dash @ '' '') @ detail]
         | RoSolverError detail \<Rightarrow> [''  ! '' @ name @ ('': solver dispatch failed '' @ em_dash @ '' '') @ detail]
         | RoHashMismatch recorded actual \<Rightarrow>
             [(''  '' @ [CHR 0xE2, CHR 0x9C, CHR 0x97] @ '' '') @ name @ ('': persisted .smt2 SHA mismatch '' @ em_dash @ '' recorded='') @ recorded @ '', actual='' @ actual]
         | _ \<Rightarrow> []))"

fun is_RoMismatch :: "redispatch_outcome \<Rightarrow> bool" where
  "is_RoMismatch (RoMismatch d) = True"
| "is_RoMismatch r = False"

fun is_RoSolverError :: "redispatch_outcome \<Rightarrow> bool" where
  "is_RoSolverError (RoSolverError d) = True"
| "is_RoSolverError r = False"

fun is_RoHashMismatch :: "redispatch_outcome \<Rightarrow> bool" where
  "is_RoHashMismatch (RoHashMismatch r a) = True"
| "is_RoHashMismatch r = False"

definition count_outcomes :: "(redispatch_outcome \<Rightarrow> bool) \<Rightarrow> (string \<times> redispatch_outcome) list \<Rightarrow> nat" where
  "count_outcomes f xs = length (filter (\<lambda>x. f (snd x)) xs)"

definition prove_summary :: "prove_report \<Rightarrow> solver \<Rightarrow> (string \<times> redispatch_outcome) list \<Rightarrow> string" where
  "prove_summary r s xs =
     (''vergil prove '' @ em_dash @ '' '') @ pv_artifact_path r @ ('':'' @ [NL] @ ''  source files re-hashed: '') @ show_nat (pv_source_files_rehashed r)
     @ ([NL] @ ''  verified properties recorded: '') @ show_nat (pv_verified_properties r)
     @ ([NL] @ ''  re-dispatched via '') @ as_str s @ '': '' @ show_nat (count_outcomes (\<lambda>o1. o1 = RoReverified) xs) @ '' reverified, ''
     @ show_nat (count_outcomes is_RoMismatch xs) @ '' mismatch, '' @ show_nat (count_outcomes (\<lambda>o1. o1 = RoMissing) xs)
     @ '' missing, '' @ show_nat (count_outcomes (\<lambda>o1. o1 = RoNoHashRecorded) xs) @ '' no-hash, ''
     @ show_nat (count_outcomes is_RoHashMismatch xs) @ '' tampered, '' @ show_nat (count_outcomes is_RoSolverError xs)
     @ ('' solver-error'' @ [NL])"

text \<open>The exit code, standard output, and the lines on standard error.\<close>

definition prove_run :: "prove_env \<Rightarrow> string \<Rightarrow> string option \<Rightarrow> u8 \<times> string \<times> string list" where
  "prove_run env artifact solver_override =
     (case verify_artifact (pe_sha env) (pe_read env) (pe_decode env) artifact None of
        Inl e \<Rightarrow> (prove_error_code e, [], [''vergil prove failed: '' @ prove_error_str e])
      | Inr base \<Rightarrow>
          (case pe_reread env of
             Inl e \<Rightarrow> (3, [], [''vergil prove: re-read artifact: '' @ e])
           | Inr bytes \<Rightarrow>
               (case pe_decode env bytes of
                  Inl e \<Rightarrow> (3, [], [''vergil prove: re-parse artifact: '' @ e])
                | Inr parsed \<Rightarrow>
                    (case resolve_solver_choice solver_override of
                       Inl m \<Rightarrow> (3, [], [''vergil prove: '' @ m])
                     | Inr s \<Rightarrow>
                         (let outcomes = redispatch_all parsed env (rm_project_root (pa_run parsed)) s in
                          (if 0 < count_outcomes is_RoMismatch outcomes \<or> 0 < count_outcomes is_RoHashMismatch outcomes
                           then 1 else 0,
                           prove_summary base s outcomes, concat (map complaint outcomes)))))))"

section \<open>Lemmas\<close>

lemma count_outcomes_pos: "0 < count_outcomes f xs \<longleftrightarrow> list_ex (\<lambda>x. f (snd x)) xs"
  by (auto simp: count_outcomes_def list_ex_iff filter_empty_conv)

text \<open>Whether an outcome makes the command fail: the other solver did not answer \<open>unsat\<close>, or the file is another.\<close>

definition refutes :: "redispatch_outcome \<Rightarrow> bool" where
  "refutes o1 \<longleftrightarrow> is_RoMismatch o1 \<or> is_RoHashMismatch o1"

lemma refutes_simps [simp]:
  "\<not> refutes RoReverified" "refutes (RoMismatch d)" "\<not> refutes RoMissing" "\<not> refutes RoNoHashRecorded"
  "\<not> refutes (RoSolverError d)" "refutes (RoHashMismatch r a)"
  by (simp_all add: refutes_def)

lemma refutes_of_solver: "refutes (redispatch_of_solver r) \<longleftrightarrow> (case r of Inl e \<Rightarrow> False | Inr v \<Rightarrow> v \<noteq> Unsat)"
  by (cases r rule: redispatch_of_solver.cases) simp_all

text \<open>A recorded query fails the command exactly when its file is there and either its bytes have another
  digest or the solver ran and answered something else than \<open>unsat\<close>.\<close>

definition query_refuted :: "prove_env \<Rightarrow> string \<Rightarrow> solver \<Rightarrow> string \<Rightarrow> bool" where
  "query_refuted env project s sha \<longleftrightarrow>
     pe_is_file env (smt_path_for project sha)
     \<and> (case pe_read env (smt_path_for project sha) of
          Inl e \<Rightarrow> False
        | Inr bytes \<Rightarrow>
            (if hex_lower (pe_sha env bytes) = sha
             then pe_runtime_error env = None
               \<and> (case dispatch_file (pe_os env) (pe_read_text env) (smt_path_for project sha) s 60000 of
                    Inl e \<Rightarrow> False | Inr v \<Rightarrow> v \<noteq> Unsat)
             else True))"

lemma redispatch_query_refutes:
  "refutes (redispatch_query env project s query) \<longleftrightarrow>
     (case query of None \<Rightarrow> False | Some sha \<Rightarrow> query_refuted env project s sha)"
  by (simp add: redispatch_query_def query_refuted_def file_sha256_hex_def dispatch_one_def Let_def refutes_of_solver
      split: sum.split option.split)

section \<open>What Halmos captures\<close>

text \<open>The bytes whose digest is recorded for a dump: every name and every text is followed by a NUL.\<close>

definition dumped_bytes :: "fs_node \<Rightarrow> string option" where
  "dumped_bytes dir =
     (case dir of
        DirN (Some es) \<Rightarrow>
          (case collect_smt_files [] es of
             None \<Rightarrow> None
           | Some entries \<Rightarrow> dump_bytes (sort_key fst entries))
      | _ \<Rightarrow> None)"

lemma dump_bytes_NUL: "dump_bytes es = Some c \<Longrightarrow> es \<noteq> [] \<Longrightarrow> NUL \<in> set c"
  by (induction es arbitrary: c rule: dump_bytes.induct) auto

lemma hash_smt_dump_bytes:
  assumes "hash_smt_dump sha dir = Some (Some h)"
  obtains c where "dumped_bytes dir = Some c" "h = hex_lower (sha c)" "NUL \<in> set c"
proof -
  from assms obtain es entries where e: "dir = DirN (Some es)" "collect_smt_files [] es = Some entries" "entries \<noteq> []"
    and m: "map_option (\<lambda>bytes. Some (hex_lower (sha bytes))) (dump_bytes (sort_key fst entries)) = Some (Some h)"
    by (auto simp: hash_smt_dump_def split: fs_node.splits option.splits if_splits)
  from m obtain c where c: "dump_bytes (sort_key fst entries) = Some c" "h = hex_lower (sha c)" by auto
  have "sort_key fst entries \<noteq> []" using e(3) by (metis length_0_conv length_sort)
  with dump_bytes_NUL c that[of c] e show thesis by (simp add: dumped_bytes_def)
qed

lemma halmos_exec_persists:
  assumes "halmos_exec env cfg dest = (HVerified p n w (Some h), dest')" and "content_addressed (env_sha env) dest"
  obtains dir where "resolve_dump_dir env cfg = Some dir"
    "hash_smt_dump (env_sha env) (env_dump env dir) = Some (Some h)" "content_addressed (env_sha env) dest'"
proof -
  let ?dd = "if hr_dump_smt2 cfg then resolve_dump_dir env cfg else None"
  from halmos_exec_Verified[of env cfg dest p n w "Some h"] assms(1)
  obtain out err where f: "env_is_file env (path_join (hr_project cfg) ''foundry.toml'')"
    and c: "env_child env (halmos_args cfg ?dd) (hr_wall_clock_ms cfg) = ChildOutput out err"
    and r: "halmos_parse (out @ err) = HVerified p n w None" by auto
  have a: "attach_hash env cfg ?dd (HVerified p n w None) dest = (HVerified p n w (Some h), dest')"
    using assms(1) f c r by (simp add: halmos_exec_def Let_def)
  then obtain dir where d: "?dd = Some dir" "hash_smt_dump (env_sha env) (env_dump env dir) = Some (Some h)"
    using attach_hash_sha[of env cfg ?dd p n w dest h] by auto
  have "content_addressed (env_sha env) dest'"
    using a persist_entries_addressed[OF assms(2)] assms(2) unfolding d(1) attach_hash_def
    by (auto simp: d(2) persist_smt_files_def split: option.splits fs_node.splits if_splits)
  with d that show thesis by (auto split: if_splits)
qed

text \<open>A store of texts named by their digests has no file for the digest of something with a NUL in it.\<close>

lemma nul_digest_absent:
  assumes "content_addressed sha dest" and "\<forall>b \<in> ran dest. NUL \<notin> set b" and "NUL \<in> set c"
    and "\<forall>b \<in> ran dest. sha b = sha c \<longrightarrow> b = c"
  shows "dest (hex_lower (sha c) @ ''.smt2'') = None"
proof (cases "dest (hex_lower (sha c) @ ''.smt2'')")
  case (Some b)
  then have "hex_lower (sha c) @ ''.smt2'' = hex_lower (sha b) @ ''.smt2''" using assms(1) unfolding content_addressed_def by blast
  then have "hex_lower (sha b) = hex_lower (sha c)" by simp
  then have "b = c" using assms(4) Some hex_lower_inj by (metis ranI)
  with Some assms(2,3) show ?thesis by (metis ranI)
qed simp

section \<open>Properties\<close>


text \<open>C13: No captured query is ever proved again: Halmos records the digest of all dumped names and texts, each
  closed by a NUL, but stores every text under its own digest. So in a store of texts, unless one of them
  collides with the dump under SHA-256, there is no file of the recorded name: for a property that Halmos
  verified \<open>vergil prove\<close> reports the query as missing and asks no solver.\<close>

theorem captured_query_never_found:
  assumes "content_addressed sha dest" and "env_sha env = sha"
    and "halmos_exec env cfg dest = (HVerified p n w (Some h), dest')"
    and "\<forall>b \<in> ran dest'. NUL \<notin> set b"
    and "case resolve_dump_dir env cfg of
           None \<Rightarrow> True
         | Some dir \<Rightarrow> (case dumped_bytes (env_dump env dir) of
                         None \<Rightarrow> True | Some c \<Rightarrow> \<forall>b \<in> ran dest'. sha b = sha c \<longrightarrow> b = c)"
    and "\<And>f. pe_is_file penv (path_join (path_join (path_join project ''vergil-out'') ''smt'') f) = (dest' f \<noteq> None)"
  shows "redispatch_query penv project s (Some h) = RoMissing"
  using assms(3)
proof (rule halmos_exec_persists)
  show "content_addressed (env_sha env) dest" using assms(1,2) by simp
next
  fix dir
  assume d: "resolve_dump_dir env cfg = Some dir" "hash_smt_dump (env_sha env) (env_dump env dir) = Some (Some h)"
    and a: "content_addressed (env_sha env) dest'"
  from d(2) obtain c where c: "dumped_bytes (env_dump env dir) = Some c" "h = hex_lower (sha c)" "NUL \<in> set c"
    using assms(2) by (auto elim: hash_smt_dump_bytes)
  have "dest' (h @ ''.smt2'') = None"
    unfolding c(2) using a assms(2,4,5) c d(1) by (intro nul_digest_absent) simp_all
  then show ?thesis by (simp add: redispatch_query_def smt_path_for_def assms(6) Let_def)
qed

section \<open>Witness\<close>

definition demo_digest :: "string \<Rightarrow> u8 list" where
  "demo_digest s = map (\<lambda>c. of_nat (of_char c)) s"

definition demo_dump_env :: halmos_env where
  "demo_dump_env = demo_env\<lparr>env_is_file := (\<lambda>p. True), env_mkdir := (\<lambda>p. True), env_sha := demo_digest, env_write := (\<lambda>p. True),
     env_dump := (\<lambda>p. DirN (Some [(''a.smt2'', FileN (Some ''x''))])),
     env_child := (\<lambda>as b. ChildOutput ''[PASS] check_a() (paths: 3, time: 0.1s)'' [])\<rparr>"

definition demo_persist_cfg :: halmos_run where
  "demo_persist_cfg = with_smt_persist_directory (halmos_run_new ''p'' ''check_a'') ''s''"

definition demo_prove_env :: "(string \<rightharpoonup> string) \<Rightarrow> prove_env" where
  "demo_prove_env dest =
     \<lparr>pe_read = (\<lambda>p. Inl ''e''), pe_reread = Inl ''e'', pe_read_text = (\<lambda>p. Inl ''e''),
      pe_is_file = (\<lambda>p. \<exists>f. p = path_join ''p/vergil-out/smt'' f \<and> dest f \<noteq> None), pe_decode = (\<lambda>s. Inl ''e''),
      pe_sha = demo_digest, pe_os = (\<lambda>b as q t. PTimedOut), pe_runtime_error = None\<rparr>"

theorem captured_query_never_found_witness:
  "\<exists>h dest'. halmos_exec demo_dump_env demo_persist_cfg Map.empty = (HVerified ''check_a()'' 3 0 (Some h), dest')
     \<and> dest' \<noteq> Map.empty \<and> redispatch_query (demo_prove_env dest') ''p'' Cvc5 (Some h) = RoMissing"
proof -
  let ?dest = "[hex_lower (demo_digest ''x'') @ ''.smt2'' \<mapsto> ''x'']" and ?c = "''a.smt2'' @ [NUL] @ ''x'' @ [NUL]"
  have x: "extension ''a.smt2'' = Some ''smt2''" by (simp add: extension_def rfind_sub_def)
  have r: "resolve_dump_dir demo_dump_env demo_persist_cfg \<noteq> None"
    by (simp add: resolve_dump_dir_def demo_dump_env_def demo_persist_cfg_def halmos_run_new_def
        with_smt_persist_directory_def Let_def)
  have run: "halmos_exec demo_dump_env demo_persist_cfg Map.empty
      = (HVerified ''check_a()'' 3 0 (Some (hex_lower (demo_digest ?c))), ?dest)"
    using r demo_parse
    by (auto simp: halmos_exec_def demo_dump_env_def demo_persist_cfg_def halmos_run_new_def with_smt_persist_directory_def
        attach_hash_def hash_smt_dump_def persist_smt_files_def x rel_join_def Let_def)
  have d: "dumped_bytes (env_dump demo_dump_env dir) = Some ?c" for dir
    by (simp add: dumped_bytes_def demo_dump_env_def x rel_join_def)
  have "redispatch_query (demo_prove_env ?dest) ''p'' Cvc5 (Some (hex_lower (demo_digest ?c))) = RoMissing"
  proof (rule captured_query_never_found[OF _ refl run])
    show "content_addressed (env_sha demo_dump_env) Map.empty" by (simp add: content_addressed_def)
    show "\<forall>b \<in> ran ?dest. NUL \<notin> set b" by simp
    show "case resolve_dump_dir demo_dump_env demo_persist_cfg of None \<Rightarrow> True
      | Some dir \<Rightarrow> (case dumped_bytes (env_dump demo_dump_env dir) of None \<Rightarrow> True
          | Some c \<Rightarrow> \<forall>b \<in> ran ?dest. env_sha demo_dump_env b = env_sha demo_dump_env c \<longrightarrow> b = c)"
      unfolding d by (simp add: demo_dump_env_def demo_digest_def split: option.split)
    fix f
    show "pe_is_file (demo_prove_env ?dest) (path_join (path_join (path_join ''p'' ''vergil-out'') ''smt'') f) = (?dest f \<noteq> None)"
    proof -
      let ?f0 = "hex_lower (demo_digest ''x'') @ ''.smt2''"
      have f0: "?f0 = ''78.smt2''" by code_simp
      have j: "path_join (path_join ''p'' ''vergil-out'') ''smt'' = ''p/vergil-out/smt''" by code_simp
      have "f = ?f0" if "path_join ''p/vergil-out/smt'' f = path_join ''p/vergil-out/smt'' ?f0"
        using that unfolding f0 by (auto simp: path_join_def split: if_splits)
      then show ?thesis by (auto simp: demo_prove_env_def j)
    qed
  qed
  with run show ?thesis by (intro exI conjI) simp_all
qed

end
