(* ===== verification/CommandLine.thy ===== *)
theory CommandLine
  imports IntentCommand CatalogCommand Prove
begin

text \<open>
  The program \<open>vergil\<close> from its parsed command line to its exit code (\<open>crates/vergil-cli/src/main.rs\<close>): which of the
  three ways to verify is taken, and the other commands. The parser of the command line is clap's; each command
  has the machine as its own theory describes it. The result is the
  exit code, standard output, and the world that is left.
\<close>

section \<open>The command line\<close>

datatype verify_mode = ZeroConfigMode | IntentMode | BothModes

record verify_opts =
  vo_path :: string
  vo_properties :: "string option"
  vo_format :: output_format
  vo_intent :: "string option"
  vo_scaffold :: "string option"
  vo_telemetry_json :: "string option"
  vo_tenant :: string
  vo_cost_budget :: "float option"
  vo_samples :: "nat option"
  vo_min_critique_axis :: "float option"
  vo_mode :: verify_mode
  vo_no_tests :: bool
  vo_no_natspec :: bool
  vo_catalog_subset :: "string list"
  vo_yes :: bool
  vo_resume :: bool
  vo_list_applicable :: bool

datatype catalog_action = CatList "string option" | CatShow string | CatValidate | CatSelfTest string

datatype command =
    VerifyCommand verify_opts
  | InitCommand
  | ProveCommand string "string option"
  | BenchCommand
  | CorpusCommand
  | CatalogCommand catalog_action
  | DoctorCommand

record ('p, 'b, 't, 's) cli_env =
  ci_runtime_error :: "string option"
  ci_properties :: properties_env
  ci_intent :: "('p, 'b) intent_command_env"
  ci_unified :: "('p, 't) unified_env"
  ci_driver :: "proposed_intent \<Rightarrow> 's \<Rightarrow> (confirm_error + decision) \<times> 's"
  ci_session :: 's
  ci_prove :: prove_env
  ci_catalog :: catalog_env
  ci_tools :: tool_runner

section \<open>Verifying\<close>

definition effective_mode :: "verify_opts \<Rightarrow> verify_mode" where
  "effective_mode vo = (if vo_properties vo \<noteq> None \<and> vo_mode vo = BothModes then IntentMode else vo_mode vo)"

definition intent_args_of :: "verify_opts \<Rightarrow> string \<Rightarrow> intent_args" where
  "intent_args_of vo text_of_intent =
     \<lparr>ig_project = vo_path vo, ig_intent = text_of_intent, ig_format = vo_format vo, ig_scaffold = vo_scaffold vo,
      ig_telemetry_json = vo_telemetry_json vo, ig_tenant = vo_tenant vo, ig_cost_budget = vo_cost_budget vo,
      ig_samples = vo_samples vo, ig_min_critique_axis = vo_min_critique_axis vo\<rparr>"

text \<open>\<open>commands::verify::run\<close>: an intent goes first, and then the properties file is not looked at.\<close>

definition verify_run :: "('p, 'b, 't, 's) cli_env \<Rightarrow> verify_opts \<Rightarrow> 't world \<Rightarrow> u8 \<times> string \<times> 't world" where
  "verify_run env vo w =
     (case vo_intent vo of
        Some i \<Rightarrow>
          (case run_with_intent (ci_intent env) (intent_args_of vo i) (wd_disk w) of
             (None, d) \<Rightarrow> (101, [], w\<lparr>wd_disk := d\<rparr>)
           | (Some (code, out, err), d) \<Rightarrow> (code, out, w\<lparr>wd_disk := d\<rparr>))
      | None \<Rightarrow>
          (case properties_run (ci_properties env) (vo_path vo) (vo_properties vo) (vo_format vo) (wd_disk w) of
             ((code, out, err), d) \<Rightarrow> (code, out, w\<lparr>wd_disk := d\<rparr>)))"

definition unified_args_of :: "verify_opts \<Rightarrow> unified_args" where
  "unified_args_of vo =
     \<lparr>ua_project = vo_path vo, ua_scaffold_override = vo_scaffold vo, ua_no_tests = vo_no_tests vo,
      ua_no_natspec = vo_no_natspec vo, ua_catalog_categories = vo_catalog_subset vo, ua_auto_confirm = vo_yes vo,
      ua_resume = vo_resume vo, ua_list_applicable = vo_list_applicable vo, ua_telemetry_json = vo_telemetry_json vo,
      ua_tenant_id = vo_tenant vo, ua_dispatch_budget_ms = 120000\<rparr>"

definition print_lines :: "string list \<Rightarrow> string" where
  "print_lines ls = concat (map (\<lambda>l. l @ [NL]) ls)"

definition verify_command :: "('p, 'b, 't, 's) cli_env \<Rightarrow> verify_opts \<Rightarrow> 't world \<Rightarrow> u8 \<times> string \<times> 't world" where
  "verify_command env vo w =
     (case ci_runtime_error env of
        Some e \<Rightarrow> (3, [], w)
      | None \<Rightarrow>
          (case effective_mode vo of
             IntentMode \<Rightarrow> if vo_list_applicable vo then (3, [], w) else verify_run env vo w
           | _ \<Rightarrow>
               (case unified_run (ci_unified env) (unified_args_of vo) (ci_driver env) (ci_session env) w of
                  (r, out, w') \<Rightarrow> (unified_exit r, print_lines out, w'))))"

section \<open>The other commands\<close>

fun catalog_command :: "('p, 'b, 't, 's) cli_env \<Rightarrow> catalog_action \<Rightarrow> u8 \<times> string" where
  "catalog_command env (CatList category) = (case catalog_list (ci_catalog env) category of (code, out, err) \<Rightarrow> (code, out))"
| "catalog_command env (CatShow tid) = (case catalog_show (ci_catalog env) tid of (code, out, err) \<Rightarrow> (code, out))"
| "catalog_command env CatValidate = (case catalog_validate (ci_catalog env) of (code, out, err) \<Rightarrow> (code, out))"
| "catalog_command env (CatSelfTest path) =
     (case ci_runtime_error env of
        Some e \<Rightarrow> (3, [])
      | None \<Rightarrow> (case catalog_self_test (ci_catalog env) path of None \<Rightarrow> (101, []) | Some (code, out, err) \<Rightarrow> (code, out)))"

text \<open>\<open>init\<close>, \<open>bench\<close> and \<open>corpus\<close> are stubs that explain themselves on standard error.\<close>

definition stub_exit :: u8 where
  "stub_exit = 3"

fun vergil_main :: "('p, 'b, 't, 's) cli_env \<Rightarrow> command \<Rightarrow> 't world \<Rightarrow> u8 \<times> string \<times> 't world" where
  "vergil_main env (VerifyCommand vo) w = verify_command env vo w"
| "vergil_main env InitCommand w = (stub_exit, [], w)"
| "vergil_main env (ProveCommand artifact s) w =
     (case prove_run (ci_prove env) artifact s of (code, out, err) \<Rightarrow> (code, out, w))"
| "vergil_main env BenchCommand w = (stub_exit, [], w)"
| "vergil_main env CorpusCommand w = (stub_exit, [], w)"
| "vergil_main env (CatalogCommand action) w = (case catalog_command env action of (code, out) \<Rightarrow> (code, out, w))"
| "vergil_main env DoctorCommand w = (case doctor_run (ci_tools env) of (code, out) \<Rightarrow> (code, out, w))"

section \<open>Lemmas\<close>

text \<open>What stands behind an exit code of zero, for each of the ways to verify.\<close>

definition intent_earned :: "('p, 'b, 't, 's) cli_env \<Rightarrow> verify_opts \<Rightarrow> string \<Rightarrow> 't world \<Rightarrow> bool" where
  "intent_earned env vo i w \<longleftrightarrow>
     (\<exists>project scaffold cat run proof_path d.
        run_intent (ic_run (ci_intent env)) (command_spec (intent_args_of vo i) project scaffold cat) (wd_disk w)
          = (Some (Inr (run, proof_path)), d)
        \<and> list_ex (\<lambda>x. is_verified (cn_verdict x)) (rn_outcomes run)
        \<and> list_all (intent_vetted (ic_run (ci_intent env)) (command_spec (intent_args_of vo i) project scaffold cat))
            (rn_outcomes run))"

definition properties_earned :: "('p, 'b, 't, 's) cli_env \<Rightarrow> verify_opts \<Rightarrow> bool" where
  "properties_earned env vo \<longleftrightarrow>
     (\<exists>project props.
        rv_canon (ci_properties env) (vo_path vo) = Inr project
        \<and> properties_load (rv_read (ci_properties env)) (rv_yaml (ci_properties env))
            (case vo_properties vo of Some p \<Rightarrow> p | None \<Rightarrow> path_join project ''properties.yaml'') = Inr props
        \<and> list_all (\<lambda>(n, e). is_VVerified (pr_verdict (run_property (rv_dispatch (ci_properties env) n) (property_config (ci_properties env) project e)))
              \<and> tool_backed (rv_dispatch (ci_properties env) n) (property_config (ci_properties env) project e))
            (enumerate 0 (yf_properties props)))"

definition unified_earned :: "('p, 'b, 't, 's) cli_env \<Rightarrow> verify_opts \<Rightarrow> 't world \<Rightarrow> 't world \<Rightarrow> bool" where
  "unified_earned env vo w w' \<longleftrightarrow>
     (if vo_list_applicable vo then w' = w
      else \<exists>outcomes. outcomes \<noteq> [] \<and> list_all (\<lambda>p. pv_verified (po_verdict p)) outcomes
             \<and> run_backed (ci_unified env) (unified_args_of vo) (ci_driver env) (ci_session env) w outcomes)"

definition zero_earned :: "('p, 'b, 't, 's) cli_env \<Rightarrow> verify_opts \<Rightarrow> 't world \<Rightarrow> 't world \<Rightarrow> bool" where
  "zero_earned env vo w w' \<longleftrightarrow>
     ci_runtime_error env = None
     \<and> (case effective_mode vo of
          IntentMode \<Rightarrow> \<not> vo_list_applicable vo
            \<and> (case vo_intent vo of Some i \<Rightarrow> intent_earned env vo i w | None \<Rightarrow> properties_earned env vo)
        | _ \<Rightarrow> unified_earned env vo w w')"

definition exit_documented :: "u8 \<Rightarrow> bool" where
  "exit_documented code \<longleftrightarrow> code = 1 \<or> code = 2 \<or> code = 3 \<or> code = 101"

lemma intent_zero:
  assumes "run_with_intent (ci_intent env) (intent_args_of vo i) (wd_disk w) = (Some (code, out, err), d)"
  shows "if code = 0 then intent_earned env vo i w else exit_documented code"
  using run_with_intent_result[OF assms]
proof
  assume "err \<noteq> None \<and> (code = 2 \<or> code = 3)"
  then show ?thesis by (auto simp: exit_documented_def)
next
  assume "\<exists>project scaffold cat run pth d1.
      run_intent (ic_run (ci_intent env)) (command_spec (intent_args_of vo i) project scaffold cat) (wd_disk w)
        = (Some (Inr (run, pth)), d1)
      \<and> print_run (ci_intent env) (intent_args_of vo i) project run pth d1 = ((code, out, err), d)"
  then obtain project scaffold cat run pth d1 where
    r: "run_intent (ic_run (ci_intent env)) (command_spec (intent_args_of vo i) project scaffold cat) (wd_disk w)
        = (Some (Inr (run, pth)), d1)"
    and p: "print_run (ci_intent env) (intent_args_of vo i) project run pth d1 = ((code, out, err), d)" by blast
  note v = intent_artifact(2)[OF r]
  show ?thesis
  proof (cases "code = 0")
    case True
    with print_run_code[OF p] have "list_ex (\<lambda>x. is_verified (cn_verdict x)) (rn_outcomes run)"
      by (auto split: option.splits if_splits)
    with r v have "intent_earned env vo i w" unfolding intent_earned_def by blast
    with True show ?thesis by simp
  next
    case False
    with print_run_code[OF p] show ?thesis by (auto simp: exit_documented_def split: option.splits if_splits)
  qed
qed

lemma properties_zero:
  assumes "properties_run (ci_properties env) (vo_path vo) (vo_properties vo) fmt d = ((code, out, err), d')"
  shows "if code = 0 then properties_earned env vo else exit_documented code"
proof (cases err)
  case (Some m)
  with assms properties_run_failed show ?thesis by (fastforce simp: exit_documented_def)
next
  case None
  from assms[unfolded None] show ?thesis
  proof (cases rule: properties_run_done)
    case (through project props files body pp)
    show ?thesis
    proof (cases "code = 0")
      case True
      then have "list_all (\<lambda>p. is_VVerified (kp_verdict p)) (vr_properties (properties_report (ci_properties env) project props))"
        using through by (simp add: verify_exit_code_0)
      then have "list_all (\<lambda>(n, e). is_VVerified (pr_verdict (run_property (rv_dispatch (ci_properties env) n) (property_config (ci_properties env) project e))))
          (enumerate 0 (yf_properties props))"
        by (auto simp: properties_report_def run_all_properties_eq list_all_iff)
      then have "properties_earned env vo"
        unfolding properties_earned_def using through run_property_backed
        by (intro exI[of _ project] exI[of _ props]) (auto simp: list_all_iff)
      with True show ?thesis by simp
    next
      case False
      with through show ?thesis by (auto simp: exit_documented_def verify_exit_code_def split: prod.splits if_splits)
    qed
  qed
qed

lemma unified_zero:
  assumes "unified_run U A driver s w = (r, out, w')"
  shows "if unified_exit r = 0
     then (if ua_list_applicable A then w' = w
           else \<exists>outcomes. outcomes \<noteq> [] \<and> list_all (\<lambda>p. pv_verified (po_verdict p)) outcomes
                  \<and> run_backed U A driver s w outcomes)
     else exit_documented (unified_exit r)"
proof -
  have "unified_ok U A driver s w (unified_run U A driver s w)"
    using unified_after_activation_ok[of U A _ _ driver s w]
    unfolding unified_run_def by (auto split: option.split sum.split)
  then have ok: "exit_honest r"
    "case r of
       Some (Inr (RrListApplicable a k)) \<Rightarrow> ua_list_applicable A \<and> w' = w
     | Some (Inr (RrVerdict h outcomes)) \<Rightarrow> \<not> ua_list_applicable A \<and> (outcomes = [] \<or> run_backed U A driver s w outcomes)
     | _ \<Rightarrow> True"
    by (simp_all add: assms unified_ok_def)
  have "report_exit_code x = 0 \<or> exit_documented (report_exit_code x)" for x
    by (cases x rule: report_exit_code.cases) (simp_all add: exit_documented_def split: headline.split)
  then have d: "unified_exit r = 0 \<or> exit_documented (unified_exit r)"
    by (auto simp: unified_exit_def exit_documented_def split: option.split sum.split)
  show ?thesis
  proof (cases "\<exists>h outcomes. r = Some (Inr (RrVerdict h outcomes))")
    case True
    then obtain h outcomes where r: "r = Some (Inr (RrVerdict h outcomes))" by blast
    have z: "(unified_exit r = 0) = (outcomes \<noteq> [] \<and> list_all (\<lambda>p. pv_verified (po_verdict p)) outcomes)"
      using ok(1) unfolding r exit_honest_def by simp
    have k: "\<not> ua_list_applicable A" "outcomes = [] \<or> run_backed U A driver s w outcomes"
      using ok(2) unfolding r by simp_all
    show ?thesis
    proof (cases "unified_exit r = 0")
      case True
      with z k show ?thesis by auto
    next
      case False
      with d show ?thesis by simp
    qed
  next
    case False
    then show ?thesis
      using ok d by (auto simp: exit_honest_def split: option.splits sum.splits run_report.splits)
  qed
qed

lemma effective_unified:
  "effective_mode vo \<noteq> IntentMode \<Longrightarrow>
     verify_command env vo w =
       (case ci_runtime_error env of
          Some e \<Rightarrow> (3, [], w)
        | None \<Rightarrow> (case unified_run (ci_unified env) (unified_args_of vo) (ci_driver env) (ci_session env) w of
                     (r, out, w') \<Rightarrow> (unified_exit r, print_lines out, w')))"
  by (cases "effective_mode vo") (simp_all add: verify_command_def split: option.split)

section \<open>Properties\<close>


text \<open>What the options do not reach: without \<open>--mode\<close> and \<open>--properties\<close> the text of \<open>--intent\<close>, the format, the cost
  budget, the number of samples and the critic's threshold change neither the exit code nor the world, and no
  \<open>properties.yaml\<close> is read whatever it holds; and with an intent in its own mode the properties file is not read.\<close>

theorem typed_intent_ignored:
  "let default = vo\<lparr>vo_mode := BothModes, vo_properties := None\<rparr> in
     vergil_main env (VerifyCommand (default\<lparr>vo_intent := i, vo_format := f, vo_cost_budget := c, vo_samples := n,
         vo_min_critique_axis := a\<rparr>)) w
       = vergil_main (env\<lparr>ci_properties := any_properties, ci_intent := any_intent\<rparr>) (VerifyCommand default) w
     \<and> vergil_main env (VerifyCommand (vo\<lparr>vo_mode := IntentMode, vo_intent := Some i0, vo_properties := p\<rparr>)) w
       = vergil_main (env\<lparr>ci_properties := any_properties\<rparr>) (VerifyCommand (vo\<lparr>vo_mode := IntentMode, vo_intent := Some i0\<rparr>)) w"
  by (simp add: Let_def verify_command_def effective_mode_def unified_args_of_def verify_run_def intent_args_of_def
      cong: option.case_cong)

end
