(* ===== verification/BenchRunner.thy ===== *)
theory BenchRunner
  imports IntentQuality CommandLine
begin

text \<open>
  The VergilBench runner (\<open>vergilbench/src/runner.rs\<close>): for each contract of the corpus it runs the binary \<open>vergil\<close> as a
  child, reads counts and cost from its standard output, and writes the aggregate and the scoreboard. What a
  child returns, the clock and the JSON encoder are parameters; the last property puts the model of the program
  itself in the place of the child.
\<close>

section \<open>Options and results\<close>

record bench_cli =
  bc_corpus :: string
  bc_max :: "nat option"
  bc_vergil :: string
  bc_verbose :: bool
  bc_intent :: bool
  bc_zero_config :: bool
  bc_intent_quality :: bool
  bc_aggregate_budget :: float
  bc_per_contract_budget :: float
  bc_samples :: nat
  bc_min_critique_axis :: float

record contract_result =
  cr_contract :: string
  cr_verified :: u32
  cr_total :: u32
  cr_wall_clock_ms :: u64
  cr_exit_code :: int
  cr_cost_usd :: float

record aggregate_result =
  ag_started_at :: string
  ag_finished_at :: string
  ag_per_contract :: "contract_result list"
  ag_verified_total :: u32
  ag_property_total :: u32
  ag_pass_rate :: float
  ag_total_wall_clock_ms :: u64
  ag_aborted_on_budget :: bool
  ag_mode :: string
  ag_total_cost_usd :: float
  ag_halted_on_credit_error :: bool

section \<open>Reading a project and an output\<close>

definition count_properties :: "fs_node \<Rightarrow> u32 option" where
  "count_properties node =
     (case child_read node ''properties.yaml'' of
        None \<Rightarrow> None
      | Some body \<Rightarrow> Some (of_nat (length (filter (\<lambda>l. starts_with l ''  - name:'') (lines body)))))"

definition strip_quotes :: "string \<Rightarrow> string" where
  "strip_quotes v =
     (let v1 = (case strip_prefix v [DQ] of Some r \<Rightarrow> r | None \<Rightarrow> v) in
      if ends_with v1 [DQ] then butlast v1 else v1)"

fun manifest_intent_line :: "string list \<Rightarrow> string option" where
  "manifest_intent_line [] = None"
| "manifest_intent_line (l # ls) =
     (case strip_prefix (trim_start l) ''intent:'' of
        None \<Rightarrow> manifest_intent_line ls
      | Some rest \<Rightarrow> (let v = strip_quotes (trim rest) in if v \<noteq> [] then Some v else manifest_intent_line ls))"

definition read_intent :: "fs_node \<Rightarrow> string option" where
  "read_intent node =
     (case child_read node ''properties.yaml'' of None \<Rightarrow> None | Some body \<Rightarrow> manifest_intent_line (lines body))"

definition parse_u32 :: "string \<Rightarrow> u32 option" where
  "parse_u32 s = map_option of_nat (parse_uint 32 s)"

fun summary_count :: "string list \<Rightarrow> u32 option" where
  "summary_count [] = None"
| "summary_count (l # ls) =
     (case strip_prefix (strip_ansi (trim l)) ''Summary: '' of
        None \<Rightarrow> summary_count ls
      | Some rest \<Rightarrow> (case split_whitespace rest of [] \<Rightarrow> summary_count ls | w # ws \<Rightarrow> parse_u32 w))"

definition parse_verified_count :: "string \<Rightarrow> u32 option" where
  "parse_verified_count stdout = summary_count (lines stdout)"

fun intent_count :: "string list \<Rightarrow> u32 option" where
  "intent_count [] = None"
| "intent_count (l # ls) =
     (case strip_prefix (strip_ansi (trim l)) ''verified: '' of
        None \<Rightarrow> intent_count ls
      | Some rest \<Rightarrow> parse_u32 (trim rest))"

definition parse_intent_verified :: "string \<Rightarrow> u32 option" where
  "parse_intent_verified stdout = intent_count (lines stdout)"

fun cost_of_lines :: "string list \<Rightarrow> float option" where
  "cost_of_lines [] = None"
| "cost_of_lines (l # ls) =
     (case strip_prefix (strip_ansi (trim l)) ''cost: $'' of
        None \<Rightarrow> cost_of_lines ls
      | Some rest \<Rightarrow> parse_f64 (takeWhile (\<lambda>c. is_digit c \<or> c = CHR ''.'') rest))"

definition parse_cost :: "string \<Rightarrow> float option" where
  "parse_cost stdout = cost_of_lines (lines stdout)"

definition looks_like_credit_error :: "string \<Rightarrow> bool" where
  "looks_like_credit_error stderr \<longleftrightarrow>
     (let l = to_lower stderr in
      list_ex (contains l)
        [''insufficient'', ''quota'', ''payment_required'', ''payment required'', ''out of credit'', ''credit balance'',
         ''billing'', ''rate limit'', ''429''])"

section \<open>The child\<close>

text \<open>\<open>Display\<close> of a float: the fewest decimals that are read back as the same number.\<close>

definition shortest :: "(rat \<Rightarrow> float) \<Rightarrow> float \<Rightarrow> string" where
  "shortest rnd x =
     (case x of
        Fin a \<Rightarrow>
          (case find (\<lambda>n. rnd (of_int (rne (\<bar>a\<bar> * 10 ^ n)) / 10 ^ n) = Fin \<bar>a\<bar>) [0..<1100] of
             Some n \<Rightarrow> fixed n x | None \<Rightarrow> fixed 1100 x)
      | _ \<Rightarrow> fixed 0 x)"

definition bench_argv :: "bench_cli \<Rightarrow> string \<Rightarrow> string \<Rightarrow> string list" where
  "bench_argv args path intent =
     [''verify'', path]
     @ (if bc_intent args
        then [''--intent'', intent, ''--cost-budget'', shortest to_f64 (bc_per_contract_budget args), ''--samples'',
              show_nat (bc_samples args), ''--min-critique-axis'', shortest to_f32 (bc_min_critique_axis args)]
        else if bc_zero_config args then [''--mode'', ''zero-config'', ''--yes''] else [])"

record bench_env =
  bn_corpus :: fs_node
  bn_vergil_is_file :: bool
  bn_run :: "nat \<Rightarrow> string list \<Rightarrow> string + (int option \<times> string \<times> string)"
  bn_wall :: "nat \<Rightarrow> u64"
  bn_total_wall :: u64
  bn_started :: string
  bn_finished :: string
  bn_stamp :: string
  bn_mkdir :: "string \<Rightarrow> string option"
  bn_ser :: "aggregate_result \<Rightarrow> string + string"
  bn_write :: write_oracle
  bn_overlay :: overlay_env

record bench_state =
  bs_results :: "contract_result list"
  bs_cost :: float
  bs_aborted :: bool
  bs_halted :: bool

definition counts_of :: "bench_cli \<Rightarrow> string \<Rightarrow> u32 \<times> float" where
  "counts_of args stdout =
     (let or0 = (\<lambda>x. case x of Some v \<Rightarrow> v | None \<Rightarrow> (0 :: u32)); cost = (case parse_cost stdout of Some c \<Rightarrow> c | None \<Rightarrow> Fin 0) in
      if bc_intent args then (or0 (parse_intent_verified stdout), cost)
      else if bc_zero_config args then (or0 (parse_verified_count stdout), cost)
      else (or0 (parse_verified_count stdout), Fin 0))"

definition skipped_result :: "string \<Rightarrow> u32 \<Rightarrow> contract_result" where
  "skipped_result name props =
     \<lparr>cr_contract = name, cr_verified = 0, cr_total = props, cr_wall_clock_ms = 0, cr_exit_code = -1, cr_cost_usd = Fin 0\<rparr>"

text \<open>The loop over the contracts; an \<open>Inl\<close> is a child that could not be started, which ends the program.\<close>

fun bench_loop :: "bench_env \<Rightarrow> bench_cli \<Rightarrow> nat \<Rightarrow> (string \<times> fs_node) list \<Rightarrow> bench_state \<Rightarrow> string + bench_state" where
  "bench_loop env args n [] st = Inr st"
| "bench_loop env args n ((path, node) # es) st =
     (let name = path_file_name path; props = (case count_properties node of Some k \<Rightarrow> k | None \<Rightarrow> 0) in
      if bc_intent args \<and> flt (bc_aggregate_budget args) (fadd64 (bs_cost st) (bc_per_contract_budget args))
      then Inr (st\<lparr>bs_aborted := True\<rparr>)
      else case (if bc_intent args then read_intent node else Some []) of
        None \<Rightarrow> bench_loop env args (Suc n) es (st\<lparr>bs_results := bs_results st @ [skipped_result name props]\<rparr>)
      | Some intent \<Rightarrow>
          (case bn_run env n (bench_argv args path intent) of
             Inl e \<Rightarrow> Inl (''spawn vergil: '' @ e)
           | Inr (status, stdout, stderr) \<Rightarrow>
               (let exit_code = (case status of Some c \<Rightarrow> c | None \<Rightarrow> -1) in
                if bc_intent args \<and> exit_code \<noteq> 0 \<and> looks_like_credit_error stderr then Inr (st\<lparr>bs_halted := True\<rparr>)
                else
                  (let (verified, cost) = counts_of args stdout in
                   bench_loop env args (Suc n) es
                     (st\<lparr>bs_results := bs_results st @
                           [\<lparr>cr_contract = name, cr_verified = verified, cr_total = props, cr_wall_clock_ms = bn_wall env n,
                             cr_exit_code = exit_code, cr_cost_usd = cost\<rparr>],
                         bs_cost := fadd64 (bs_cost st) cost\<rparr>)))))"

section \<open>The aggregate and the scoreboard\<close>

definition bench_mode :: "bench_cli \<Rightarrow> string" where
  "bench_mode args =
     (if bc_intent args then ''intent'' else if bc_zero_config args then ''zero-config'' else ''deterministic'')"

definition pass_rate_of :: "contract_result list \<Rightarrow> float" where
  "pass_rate_of rs =
     (let properties = sum_list (map cr_total rs); capped = sum_list (map (\<lambda>c. min (cr_verified c) (cr_total c)) rs) in
      if properties = 0 then Fin 0 else fdiv64_by (to_f64 (of_nat (unat capped))) (of_nat (unat properties)))"

definition aggregate_of :: "bench_env \<Rightarrow> bench_cli \<Rightarrow> bench_state \<Rightarrow> aggregate_result" where
  "aggregate_of env args st =
     \<lparr>ag_started_at = bn_started env, ag_finished_at = bn_finished env, ag_per_contract = bs_results st,
      ag_verified_total = sum_list (map cr_verified (bs_results st)),
      ag_property_total = sum_list (map cr_total (bs_results st)), ag_pass_rate = pass_rate_of (bs_results st),
      ag_total_wall_clock_ms = bn_total_wall env, ag_aborted_on_budget = bs_aborted st, ag_mode = bench_mode args,
      ag_total_cost_usd = bs_cost st, ag_halted_on_credit_error = bs_halted st\<rparr>"

definition show_int :: "int \<Rightarrow> string" where
  "show_int i = (if i < 0 then ''-'' @ show_nat (nat (- i)) else show_nat (nat i))"

definition scoreboard_row :: "contract_result \<Rightarrow> string" where
  "scoreboard_row c =
     ''| `'' @ cr_contract c @ ''` | '' @ show_nat (unat (cr_verified c)) @ '' | '' @ show_nat (unat (cr_total c)) @ '' | ''
     @ show_nat (unat (cr_wall_clock_ms c)) @ '' ms | $'' @ fixed 4 (cr_cost_usd c) @ '' | '' @ show_int (cr_exit_code c)
     @ '' |'' @ [NL]"

definition scoreboard_md :: "aggregate_result \<Rightarrow> string" where
  "scoreboard_md agg =
     ''# VergilBench scoreboard'' @ [NL] @ [NL]
     @ ''Last run: **'' @ ag_finished_at agg @ ''** '' @ em_dash @ '' mode **'' @ ag_mode agg @ ''** '' @ em_dash @ '' verified **''
     @ show_nat (unat (ag_verified_total agg)) @ ''/'' @ show_nat (unat (ag_property_total agg)) @ ''** (''
     @ fixed 1 (fmul64 (ag_pass_rate agg) (Fin 100)) @ ''%) in ''
     @ fmt2 (fdiv64_by (to_f64 (of_nat (unat (ag_total_wall_clock_ms agg)))) 1000) @ ''s '' @ em_dash @ '' cost **$''
     @ fmt2 (ag_total_cost_usd agg) @ ''**'' @ [NL] @ [NL]
     @ (if ag_aborted_on_budget agg then (''> '' @ [CHR 0xE2, CHR 0x9A, CHR 0xA0] @ [CHR 0xEF, CHR 0xB8, CHR 0x8F]
     @ '' Sweep aborted on aggregate budget '' @ em_dash @ '' coverage is partial.'' @ [NL] @ [NL]) else [])
     @ (if ag_halted_on_credit_error agg
        then (''> '' @ [CHR 0xE2, CHR 0x9B, CHR 0x94] @ '' Sweep HALTED on a provider credit/quota error ''
     @ em_dash @ '' coverage is partial.'' @ [NL] @ [NL]) else [])
     @ ''| Contract | Verified | Total | Wall clock | Cost | Exit |'' @ [NL] @ ''|---|---|---|---|---|---|'' @ [NL]
     @ concat (map scoreboard_row (ag_per_contract agg))"

definition write_scoreboard :: "bench_env \<Rightarrow> aggregate_result \<Rightarrow> disk \<Rightarrow> string option \<times> disk" where
  "write_scoreboard env agg d =
     (let dir = ''benchmarks/results'' in
      case bn_mkdir env dir of
        Some e \<Rightarrow> (Some (''mkdir scoreboard: '' @ e), d)
      | None \<Rightarrow>
          (let file = path_join dir ''README.md'' in
           case fs_write (bn_write env) file (scoreboard_md agg) d of
             (Some e, d1) \<Rightarrow> (Some (''write '' @ file @ '': '' @ e), d1)
           | (None, d1) \<Rightarrow> (None, d1)))"

section \<open>The runner\<close>

definition bench_entries :: "bench_cli \<Rightarrow> (string \<times> fs_node) list \<Rightarrow> (string \<times> fs_node) list" where
  "bench_entries args es =
     (let found = map (\<lambda>(name, node). (path_join (path_join (bc_corpus args) ''contracts'') name, node))
                    (filter (\<lambda>(name, node). is_dir_node node) es);
          ordered = sort_key (path_key \<circ> fst) found
      in case bc_max args of Some k \<Rightarrow> take k ordered | None \<Rightarrow> ordered)"

definition store_results :: "bench_env \<Rightarrow> bench_cli \<Rightarrow> string list \<Rightarrow> aggregate_result \<Rightarrow> disk \<Rightarrow> (string + aggregate_result) \<times> disk" where
  "store_results env args paths agg d =
     (let dir = path_join (bc_corpus args) ''results'' in
      case bn_mkdir env dir of
        Some e \<Rightarrow> (Inl (''mkdir results: '' @ e), d)
      | None \<Rightarrow>
          (let out = path_join dir (bn_stamp env @ ''.json'') in
           case bn_ser env agg of
             Inl e \<Rightarrow> (Inl (''serialize: '' @ e), d)
           | Inr body \<Rightarrow>
               (case fs_write (bn_write env) out body d of
                  (Some e, d1) \<Rightarrow> (Inl (''write '' @ out @ '': '' @ e), d1)
                | (None, d1) \<Rightarrow>
                    (case write_scoreboard env agg d1 of
                       (Some e, d2) \<Rightarrow> (Inl e, d2)
                     | (None, d2) \<Rightarrow>
                         (Inr agg,
                          if bc_intent_quality args then snd (run_overlay (bn_overlay env) (bc_corpus args) paths out d2) else d2)))))"

definition bench_run :: "bench_env \<Rightarrow> bench_cli \<Rightarrow> disk \<Rightarrow> (string + aggregate_result) \<times> disk" where
  "bench_run env args d =
     (if bc_intent args \<and> bc_zero_config args then (Inl ''--intent and --zero-config are mutually exclusive'', d)
      else if bc_intent_quality args \<and> \<not> bc_zero_config args
      then (Inl (''--intent-quality requires --zero-config (overlay reads the multi-oracle stack'' @ [SQ]
              @ ''s confirm/state.json)''), d)
      else case child (bn_corpus env) ''contracts'' of
        Some (DirN None) \<Rightarrow> (Inl (''read '' @ path_join (bc_corpus args) ''contracts''), d)
      | Some (DirN (Some es)) \<Rightarrow>
          (let entries = bench_entries args es in
           if entries = [] then (Inl ''no contracts found in corpus'', d)
           else if \<not> bn_vergil_is_file env
           then (Inl (''vergil binary not found at '' @ bc_vergil args @ '' '' @ em_dash
                   @ '' build with `cargo build --release --bin vergil`''), d)
           else case bench_loop env args 0 entries \<lparr>bs_results = [], bs_cost = Fin 0, bs_aborted = False, bs_halted = False\<rparr> of
             Inl e \<Rightarrow> (Inl e, d)
           | Inr st \<Rightarrow> store_results env args (map fst entries) (aggregate_of env args st) d)
      | _ \<Rightarrow> (Inl (''no contracts directory at '' @ path_join (bc_corpus args) ''contracts''), d))"

text \<open>\<open>main\<close> exits with 1 on any error.\<close>

definition bench_exit :: "(string + aggregate_result) \<times> disk \<Rightarrow> nat" where
  "bench_exit r = (case fst r of Inl e \<Rightarrow> 1 | Inr agg \<Rightarrow> 0)"

section \<open>Lemmas\<close>

text \<open>One turn of the loop: it ends with a mark, leaves a contract out, or records what a child printed.\<close>

definition recorded :: "bench_env \<Rightarrow> bench_cli \<Rightarrow> nat \<Rightarrow> string \<Rightarrow> contract_result \<Rightarrow> bool" where
  "recorded env args n path c \<longleftrightarrow>
     (\<exists>intent status out err. bn_run env n (bench_argv args path intent) = Inr (status, out, err)
        \<and> counts_of args out = (cr_verified c, cr_cost_usd c))"

lemma bench_loop_step:
  assumes "bench_loop env args n ((path, node) # es) st = Inr st'"
  obtains (stop) "bs_results st' = bs_results st" "bs_cost st' = bs_cost st" "bs_aborted st' \<or> bs_halted st'"
  | (skip) props where
      "bench_loop env args (Suc n) es (st\<lparr>bs_results := bs_results st @ [skipped_result (path_file_name path) props]\<rparr>) = Inr st'"
  | (go) c where
      "bench_loop env args (Suc n) es (st\<lparr>bs_results := bs_results st @ [c], bs_cost := fadd64 (bs_cost st) (cr_cost_usd c)\<rparr>) = Inr st'"
      "cr_contract c = path_file_name path" "recorded env args n path c"
proof -
  let ?props = "case count_properties node of Some k \<Rightarrow> k | None \<Rightarrow> 0"
  consider (a) "bc_intent args \<and> flt (bc_aggregate_budget args) (fadd64 (bs_cost st) (bc_per_contract_budget args))"
    | (b) "\<not> (bc_intent args \<and> flt (bc_aggregate_budget args) (fadd64 (bs_cost st) (bc_per_contract_budget args)))"
      "(if bc_intent args then read_intent node else Some []) = None"
    | (c) intent where "\<not> (bc_intent args \<and> flt (bc_aggregate_budget args) (fadd64 (bs_cost st) (bc_per_contract_budget args)))"
      "(if bc_intent args then read_intent node else Some []) = Some intent"
    by blast
  then show ?thesis
  proof cases
    case a
    with assms have "st' = st\<lparr>bs_aborted := True\<rparr>" by (simp add: Let_def)
    then show ?thesis by (intro stop) simp_all
  next
    case b
    have "bench_loop env args (Suc n) es (st\<lparr>bs_results := bs_results st @ [skipped_result (path_file_name path) ?props]\<rparr>) = Inr st'"
      using assms unfolding bench_loop.simps Let_def if_not_P[OF b(1)] b(2) option.case .
    then show ?thesis by (rule skip)
  next
    case c
    note L = assms[unfolded bench_loop.simps Let_def if_not_P[OF c(1)] c(2) option.case]
    obtain status out err where r: "bn_run env n (bench_argv args path intent) = Inr (status, out, err)"
      using L by (cases "bn_run env n (bench_argv args path intent)") auto
    let ?code = "case status of Some c \<Rightarrow> c | None \<Rightarrow> -1"
    show ?thesis
    proof (cases "bc_intent args \<and> ?code \<noteq> 0 \<and> looks_like_credit_error err")
      case True
      with L r have "st' = st\<lparr>bs_halted := True\<rparr>" by simp
      then show ?thesis by (intro stop) simp_all
    next
      case False
      obtain v cost where k: "counts_of args out = (v, cost)" by fastforce
      let ?c = "\<lparr>cr_contract = path_file_name path, cr_verified = v, cr_total = ?props, cr_wall_clock_ms = bn_wall env n,
                 cr_exit_code = ?code, cr_cost_usd = cost\<rparr>"
      have "bench_loop env args (Suc n) es (st\<lparr>bs_results := bs_results st @ [?c], bs_cost := fadd64 (bs_cost st) cost\<rparr>) = Inr st'"
        using L unfolding r sum.case prod.case if_not_P[OF False] k .
      then show ?thesis using r k by (intro go[of ?c]) (auto simp: recorded_def)
    qed
  qed
qed

text \<open>The report names the contracts of the corpus in order, and all of them unless it says that it does not.\<close>

lemma bench_loop_covers:
  "bench_loop env args n es st = Inr st' \<Longrightarrow>
     \<exists>k. map cr_contract (bs_results st') = map cr_contract (bs_results st) @ map (path_file_name \<circ> fst) (take k es)
       \<and> (k = length es \<or> bs_aborted st' \<or> bs_halted st')"
proof (induction es arbitrary: n st)
  case (Cons e es)
  obtain path node where e: "e = (path, node)" by (cases e)
  from Cons.prems[unfolded e] show ?case
  proof (cases rule: bench_loop_step)
    case stop
    then show ?thesis by (intro exI[of _ 0]) simp
  next
    case (skip props)
    have "map cr_contract (bs_results (st\<lparr>bs_results := bs_results st @ [skipped_result (path_file_name path) props]\<rparr>))
        = map cr_contract (bs_results st) @ [path_file_name path]"
      by (simp add: skipped_result_def)
    from Cons.IH[OF skip, unfolded this] obtain k where
      "map cr_contract (bs_results st') = (map cr_contract (bs_results st) @ [path_file_name path]) @ map (path_file_name \<circ> fst) (take k es)
       \<and> (k = length es \<or> bs_aborted st' \<or> bs_halted st')"
      by blast
    then show ?thesis unfolding e by (intro exI[of _ "Suc k"]) auto
  next
    case (go c)
    have "map cr_contract (bs_results (st\<lparr>bs_results := bs_results st @ [c], bs_cost := fadd64 (bs_cost st) (cr_cost_usd c)\<rparr>))
        = map cr_contract (bs_results st) @ [path_file_name path]"
      using go(2) by simp
    from Cons.IH[OF go(1), unfolded this] obtain k where
      "map cr_contract (bs_results st') = (map cr_contract (bs_results st) @ [path_file_name path]) @ map (path_file_name \<circ> fst) (take k es)
       \<and> (k = length es \<or> bs_aborted st' \<or> bs_halted st')"
      by blast
    then show ?thesis unfolding e by (intro exI[of _ "Suc k"]) auto
  qed
qed simp

text \<open>If no child prints a count, nothing is counted.\<close>

definition counts_nothing :: "bench_state \<Rightarrow> bool" where
  "counts_nothing st \<longleftrightarrow> list_all (\<lambda>c. cr_verified c = 0 \<and> cr_cost_usd c = Fin 0) (bs_results st) \<and> bs_cost st = Fin 0"

lemma counts_of_nothing: "counts_of args [] = (0, Fin 0)"
  by (simp add: counts_of_def Let_def parse_intent_verified_def parse_cost_def parse_verified_count_def lines_def)

lemma to_f64_zero: "to_f64 0 = Fin 0"
  using pow2_pos[of 1024] by (simp add: to_f64_def clamp_inf_def not_le)

lemma bench_loop_nothing:
  assumes "\<And>n path intent status out err. bn_run env n (bench_argv args path intent) = Inr (status, out, err) \<Longrightarrow> out = []"
  shows "bench_loop env args n es st = Inr st' \<Longrightarrow> counts_nothing st \<Longrightarrow> counts_nothing st'"
proof (induction es arbitrary: n st)
  case (Cons e es)
  obtain path node where e: "e = (path, node)" by (cases e)
  from Cons.prems(1)[unfolded e] show ?case
  proof (cases rule: bench_loop_step)
    case stop
    with Cons.prems(2) show ?thesis by (simp add: counts_nothing_def)
  next
    case (skip props)
    show ?thesis
      by (rule Cons.IH[OF skip]) (use Cons.prems(2) in \<open>simp add: counts_nothing_def skipped_result_def\<close>)
  next
    case (go c)
    from go(3) assms have "counts_of args [] = (cr_verified c, cr_cost_usd c)" unfolding recorded_def by blast
    then have "cr_verified c = 0" "cr_cost_usd c = Fin 0" by (simp_all add: counts_of_nothing)
    with Cons.prems(2) show ?thesis
      by (intro Cons.IH[OF go(1)]) (simp add: counts_nothing_def to_f64_zero)
  qed
qed simp

lemma sum_list_all_zero: "list_all (\<lambda>x. f x = 0) xs \<Longrightarrow> sum_list (map f xs) = (0 :: 'a::monoid_add)"
  by (induction xs) simp_all

lemma pass_rate_nothing: "list_all (\<lambda>c. cr_verified c = 0) rs \<Longrightarrow> pass_rate_of rs = Fin 0"
proof -
  assume "list_all (\<lambda>c. cr_verified c = 0) rs"
  then have "list_all (\<lambda>c. min (cr_verified c) (cr_total c) = 0) rs" by (simp add: list_all_iff)
  moreover have "fdiv64_by (to_f64 0) b = Fin 0" for b
    by (simp add: to_f64_zero)
  ultimately show ?thesis by (simp add: pass_rate_of_def Let_def sum_list_all_zero)
qed

lemma bench_run_Inr:
  assumes "bench_run env args d = (Inr agg, d')"
  obtains es st where "bench_loop env args 0 (bench_entries args es) \<lparr>bs_results = [], bs_cost = Fin 0, bs_aborted = False, bs_halted = False\<rparr> = Inr st"
    "agg = aggregate_of env args st" "child (bn_corpus env) ''contracts'' = Some (DirN (Some es))"
proof -
  have s: "fst (store_results env args ps a d0) = Inr b \<Longrightarrow> b = a" for ps a d0 b
    by (auto simp: store_results_def Let_def split: option.splits sum.splits prod.splits)
  show ?thesis
    using assms that s unfolding bench_run_def Let_def
    by (auto split: if_splits option.splits fs_node.splits sum.splits) (metis fst_conv)+
qed

text \<open>The unified run prints nothing on standard output, unless it lists what is applicable.\<close>

lemma unified_run_silent:
  assumes "unified_run U A driver s w = (r, out, w')" and "\<not> ua_list_applicable A"
  shows "out = []"
proof -
  have "fst (snd (unified_after_activation U A driver s project fp act w)) = []" for project fp act
    using assms(2) by (auto simp: unified_after_activation_def split: sum.split option.split prod.split)
  with assms(1) show ?thesis
    by (auto simp: unified_run_def split: option.splits sum.splits if_splits) (metis fst_conv snd_conv)+
qed

lemma verify_silent:
  assumes "effective_mode vo \<noteq> IntentMode" and "\<not> vo_list_applicable vo"
  shows "fst (snd (vergil_main env (VerifyCommand vo) w)) = []"
proof -
  obtain r out w' where e: "unified_run (ci_unified env) (unified_args_of vo) (ci_driver env) (ci_session env) w = (r, out, w')"
    by (metis surj_pair)
  have "out = []" using unified_run_silent[OF e] assms(2) by (simp add: unified_args_of_def)
  then show ?thesis
    by (simp add: effective_unified[OF assms(1)] e print_lines_def split: option.split)
qed

lemma bench_report_covers:
  "case bench_run env args d of
     (Inr agg, d') \<Rightarrow>
       (\<exists>es k. child (bn_corpus env) ''contracts'' = Some (DirN (Some es))
          \<and> map cr_contract (ag_per_contract agg) = map (path_file_name \<circ> fst) (take k (bench_entries args es))
          \<and> (k = length (bench_entries args es) \<or> ag_aborted_on_budget agg \<or> ag_halted_on_credit_error agg))
   | (Inl e, d') \<Rightarrow> True"
proof -
  have "\<exists>es k. child (bn_corpus env) ''contracts'' = Some (DirN (Some es))
          \<and> map cr_contract (ag_per_contract agg) = map (path_file_name \<circ> fst) (take k (bench_entries args es))
          \<and> (k = length (bench_entries args es) \<or> ag_aborted_on_budget agg \<or> ag_halted_on_credit_error agg)"
    if b: "bench_run env args d = (Inr agg, d')" for agg d'
    using b
  proof (rule bench_run_Inr)
    fix es st
    assume l: "bench_loop env args 0 (bench_entries args es)
        \<lparr>bs_results = [], bs_cost = Fin 0, bs_aborted = False, bs_halted = False\<rparr> = Inr st"
      and a: "agg = aggregate_of env args st" and c: "child (bn_corpus env) ''contracts'' = Some (DirN (Some es))"
    from bench_loop_covers[OF l] c show ?thesis by (auto simp: a aggregate_of_def)
  qed
  then show ?thesis by (cases "bench_run env args d") (auto split: sum.split)
qed

section \<open>Properties\<close>

text \<open>
  The child is the program: what it prints is what the model of the program prints for the options it is given.
  How an argument list is read is clap's part; of it only this is used, that the options the runner never
  passes have their defaults and that the mode is the one it passes. \<open>None\<close> is a list clap refuses.
\<close>

definition runs_vergil ::
    "bench_env \<Rightarrow> (string list \<Rightarrow> verify_opts option) \<Rightarrow> (nat \<Rightarrow> ('p, 'b, 't, 's) cli_env) \<Rightarrow> (nat \<Rightarrow> 't world) \<Rightarrow> bool" where
  "runs_vergil env opts cenv w \<longleftrightarrow>
     (\<forall>n argv. case bn_run env n argv of
        Inl e \<Rightarrow> True
      | Inr (status, out, err) \<Rightarrow>
          out = (case opts argv of None \<Rightarrow> [] | Some vo \<Rightarrow> fst (snd (vergil_main (cenv n) (VerifyCommand vo) (w n)))))"

definition clap_reads :: "bench_cli \<Rightarrow> (string list \<Rightarrow> verify_opts option) \<Rightarrow> bool" where
  "clap_reads args opts \<longleftrightarrow>
     (\<forall>path intent. case opts (bench_argv args path intent) of
        None \<Rightarrow> True
      | Some vo \<Rightarrow> vo_properties vo = None \<and> \<not> vo_list_applicable vo
          \<and> vo_mode vo = (if \<not> bc_intent args \<and> bc_zero_config args then ZeroConfigMode else BothModes))"


section \<open>Witness\<close>

definition demo_bench_args :: bench_cli where
  "demo_bench_args =
     \<lparr>bc_corpus = ''b'', bc_max = None, bc_vergil = ''v'', bc_verbose = False, bc_intent = False, bc_zero_config = False,
      bc_intent_quality = False, bc_aggregate_budget = Fin 200, bc_per_contract_budget = Fin 2, bc_samples = 8,
      bc_min_critique_axis = Fin 0\<rparr>"

definition demo_verify_opts :: verify_opts where
  "demo_verify_opts =
     \<lparr>vo_path = [], vo_properties = None, vo_format = FmtText, vo_intent = None, vo_scaffold = None, vo_telemetry_json = None,
      vo_tenant = ''internal'', vo_cost_budget = None, vo_samples = None, vo_min_critique_axis = None, vo_mode = BothModes,
      vo_no_tests = False, vo_no_natspec = False, vo_catalog_subset = [], vo_yes = False, vo_resume = False,
      vo_list_applicable = False\<rparr>"

definition demo_opts :: "string list \<Rightarrow> verify_opts option" where
  "demo_opts argv = (if length argv = 2 then Some (demo_verify_opts\<lparr>vo_path := argv ! 1\<rparr>) else None)"

definition demo_bench :: "(unit, unit, unit, unit) cli_env \<Rightarrow> unit world \<Rightarrow> bench_env" where
  "demo_bench cenv w =
     \<lparr>bn_corpus = DirN (Some [(''contracts'', DirN (Some [(''erc20'', DirN (Some []))]))]), bn_vergil_is_file = True,
      bn_run = (\<lambda>n argv. Inr (Some 0,
         (case demo_opts argv of None \<Rightarrow> [] | Some vo \<Rightarrow> fst (snd (vergil_main cenv (VerifyCommand vo) w))), [])),
      bn_wall = (\<lambda>n. 1), bn_total_wall = 1, bn_started = ''t'', bn_finished = ''t'', bn_stamp = ''t'',
      bn_mkdir = (\<lambda>p. None), bn_ser = (\<lambda>a. Inr ''json''), bn_write = (\<lambda>n. None),
      bn_overlay = \<lparr>ov_yaml = (\<lambda>s. Inl ''y''), ov_json = (\<lambda>s. Inl ''j''), ov_corpus = FileN None, ov_project = (\<lambda>p. FileN None),
        ov_ser = (\<lambda>a. Inl ''s''), ov_write = (\<lambda>n. None)\<rparr>\<rparr>"

lemma demo_bench_simps [simp]:
  "bn_corpus (demo_bench cenv w) = DirN (Some [(''contracts'', DirN (Some [(''erc20'', DirN (Some []))]))])"
  "bn_vergil_is_file (demo_bench cenv w)" "bn_mkdir (demo_bench cenv w) p = None"
  "bn_ser (demo_bench cenv w) a = Inr ''json''" "bn_write (demo_bench cenv w) = (\<lambda>n. None)"
  "bn_run (demo_bench cenv w) n argv = Inr (Some 0,
     (case demo_opts argv of None \<Rightarrow> [] | Some vo \<Rightarrow> fst (snd (vergil_main cenv (VerifyCommand vo) w))), [])"
  by (simp_all add: demo_bench_def)

lemma demo_bench_result:
  "\<exists>agg d'. bench_run (demo_bench cenv w) demo_bench_args \<lparr>dk_files = Map.empty, dk_writes = 0\<rparr> = (Inr agg, d')
     \<and> length (ag_per_contract agg) = 1"
  by (simp add: bench_run_def demo_bench_args_def child_def bench_entries_def Let_def store_results_def write_scoreboard_def
      fs_write_def aggregate_of_def split_beta)


end
