(* ===== verification/Calibration.thy ===== *)
theory Calibration
  imports IntentQuality
begin

text \<open>
  The calibration runner (\<open>vergilbench/src/calibration.rs\<close>): it dispatches every \<open>check_\<close> function of the calibration
  projects, records how long each took, and writes the 95th percentile of every class. The clock and the
  machine of each dispatch are parameters; the directory is a tree as in Disk. A budget is in milliseconds, of
  which there are fewer than \<open>2^64\<close>.
\<close>

section \<open>Measurements\<close>

record measurement =
  ms_property :: string
  ms_wall_clock_ms :: u64
  ms_verdict_kind :: string

fun verdict_kind_of :: "verdict \<Rightarrow> string" where
  "verdict_kind_of (VVerified b ms sha) = ''verified''"
| "verdict_kind_of (VCounterexample b q m ms) = ''counterexample''"
| "verdict_kind_of (VUnknown bs) = ''unknown''"
| "verdict_kind_of (VError bs) = ''error''"

fun extract_check_lines :: "string list \<Rightarrow> string list" where
  "extract_check_lines [] = []"
| "extract_check_lines (l # ls) =
     (case strip_prefix (trim_start l) ''function check_'' of
        None \<Rightarrow> extract_check_lines ls
      | Some rest \<Rightarrow>
          (case find_sub rest ''('' of
             None \<Rightarrow> extract_check_lines ls
           | Some i \<Rightarrow> (''check_'' @ take i rest) # extract_check_lines ls))"

definition extract_check_functions :: "string \<Rightarrow> string list" where
  "extract_check_functions source = extract_check_lines (lines source)"

definition first_sol_in_src :: "string \<Rightarrow> fs_node \<Rightarrow> string option" where
  "first_sol_in_src project node =
     (case child node ''src'' of
        Some (DirN (Some es)) \<Rightarrow> map_option (\<lambda>e. path_join (path_join project ''src'') (fst e)) (find (\<lambda>e. extension (fst e) = Some ''sol'') es)
      | _ \<Rightarrow> None)"

text \<open>The machine: the dispatches are numbered through the whole run.\<close>

record calibration_env =
  cl_dispatch :: "nat \<Rightarrow> portfolio_env"
  cl_wall :: "nat \<Rightarrow> u64"
  cl_mkdir :: "string \<Rightarrow> string option"
  cl_write :: write_oracle

definition calibration_config :: "string \<Rightarrow> string \<Rightarrow> u64 \<Rightarrow> string \<Rightarrow> portfolio_config" where
  "calibration_config project smt_source budget property =
     \<lparr>pc_project = project, pc_property = property, pc_smtchecker_source = smt_source, pc_budget_ms = budget,
      pc_capture_smt_queries = False, pc_smt_persist_dir = None\<rparr>"

fun measure_all :: "calibration_env \<Rightarrow> (string \<Rightarrow> portfolio_config) \<Rightarrow> nat \<Rightarrow> string list \<Rightarrow> measurement list" where
  "measure_all env cfg n [] = []"
| "measure_all env cfg n (p # ps) =
     \<lparr>ms_property = p, ms_wall_clock_ms = cl_wall env n,
      ms_verdict_kind = verdict_kind_of (pr_verdict (run_property (cl_dispatch env n) (cfg p)))\<rparr>
     # measure_all env cfg (Suc n) ps"

definition calibrate_project :: "calibration_env \<Rightarrow> u64 \<Rightarrow> nat \<Rightarrow> string \<Rightarrow> fs_node \<Rightarrow> string + measurement list" where
  "calibrate_project env budget n project node =
     (let tests = path_join (path_join project ''test'') ''Properties.t.sol'' in
      case (case child node ''test'' of None \<Rightarrow> None | Some t \<Rightarrow> child t ''Properties.t.sol'') of
        Some (FileN None) \<Rightarrow> Inl (''read '' @ tests)
      | Some (FileN (Some source)) \<Rightarrow>
          (let smt_source = (case first_sol_in_src project node of Some s \<Rightarrow> s | None \<Rightarrow> tests) in
           Inr (measure_all env (calibration_config project smt_source budget) n (extract_check_functions source)))
      | _ \<Rightarrow> Inr [])"

section \<open>The walk over the classes\<close>

definition iter_subdirs :: "string \<Rightarrow> fs_node \<Rightarrow> string + (string \<times> fs_node) list" where
  "iter_subdirs dir node =
     (case node of
        DirN (Some es) \<Rightarrow>
          Inr (sort_key (path_key \<circ> fst) (map (\<lambda>(name, sub). (path_join dir name, sub)) (filter (\<lambda>(name, sub). is_dir_node sub) es)))
      | _ \<Rightarrow> Inl (''read '' @ dir))"

definition class_projects :: "string \<Rightarrow> fs_node \<Rightarrow> string + (string \<times> fs_node) list" where
  "class_projects dir node =
     (if child_is_file node ''foundry.toml'' then Inr [(dir, node)]
      else case iter_subdirs dir node of
        Inl e \<Rightarrow> Inl e
      | Inr subs \<Rightarrow> Inr (filter (\<lambda>(path, sub). child_is_file sub ''foundry.toml'') subs))"

fun calibrate_projects ::
    "calibration_env \<Rightarrow> u64 \<Rightarrow> string \<Rightarrow> (string \<times> fs_node) list \<Rightarrow> nat \<times> (string \<times> measurement list) list
     \<Rightarrow> string + nat \<times> (string \<times> measurement list) list" where
  "calibrate_projects env budget cls [] acc = Inr acc"
| "calibrate_projects env budget cls ((path, node) # ps) (n, m) =
     (case calibrate_project env budget n path node of
        Inl e \<Rightarrow> Inl e
      | Inr ms \<Rightarrow>
          calibrate_projects env budget cls ps
            (n + length ms, fold (\<lambda>x. entry_upd cls [] (\<lambda>l. l @ [x])) ms m))"

fun calibrate_classes ::
    "calibration_env \<Rightarrow> u64 \<Rightarrow> string \<Rightarrow> fs_node \<Rightarrow> string list \<Rightarrow> nat \<times> (string \<times> measurement list) list
     \<Rightarrow> string + nat \<times> (string \<times> measurement list) list" where
  "calibrate_classes env budget dir node [] acc = Inr acc"
| "calibrate_classes env budget dir node (cls # rest) acc =
     (case child node cls of
        Some (DirN es) \<Rightarrow>
          (case class_projects (path_join dir cls) (DirN es) of
             Inl e \<Rightarrow> Inl e
           | Inr ps \<Rightarrow>
               (case calibrate_projects env budget cls ps acc of
                  Inl e \<Rightarrow> Inl e
                | Inr acc1 \<Rightarrow> calibrate_classes env budget dir node rest acc1))
      | _ \<Rightarrow> calibrate_classes env budget dir node rest acc)"

section \<open>The report\<close>

text \<open>\<open>((n as f64) * 0.95).ceil() as usize\<close>.\<close>

definition ceil_nat :: "float \<Rightarrow> nat" where
  "ceil_nat x = (case x of Fin a \<Rightarrow> nat \<lceil>a\<rceil> | PInf \<Rightarrow> 2 ^ 64 - 1 | _ \<Rightarrow> 0)"

definition p95_index :: "nat \<Rightarrow> nat" where
  "p95_index n = ceil_nat (fmul64 (to_f64 (of_nat n)) (to_f64 (19 / 20)))"

text \<open>\<open>None\<close> is the panic of an index out of bounds or of a subtraction below zero.\<close>

definition p95_of :: "u64 list \<Rightarrow> u64 option" where
  "p95_of sorted_ms =
     (let n = length sorted_ms; i = min (p95_index n) n in
      if n = 0 then Some 0 else if i = 0 then None else if i - 1 < n then Some (sorted_ms ! (i - 1)) else None)"

definition measurement_line :: "measurement \<Rightarrow> string" where
  "measurement_line m =
     ''  { name = '' @ [DQ] @ ms_property m @ [DQ] @ '', verdict = '' @ [DQ] @ ms_verdict_kind m @ [DQ]
     @ '', wall_clock_ms = '' @ show_nat (unat (ms_wall_clock_ms m)) @ '' },'' @ [NL]"

definition class_section :: "string \<Rightarrow> measurement list \<Rightarrow> string option" where
  "class_section cls ms =
     (let s = sort (map ms_wall_clock_ms ms) in
      case p95_of s of
        None \<Rightarrow> None
      | Some p95 \<Rightarrow>
          Some (''['' @ cls @ '']'' @ [NL]
            @ ''samples = '' @ show_nat (length s) @ [NL]
            @ ''min_ms = '' @ show_nat (case s of [] \<Rightarrow> 0 | x # xs \<Rightarrow> unat x) @ [NL]
            @ ''p95_ms = '' @ show_nat (unat p95) @ [NL]
            @ ''max_ms = '' @ show_nat (if s = [] then 0 else unat (List.last s)) @ [NL]
            @ ''properties = ['' @ [NL] @ concat (map measurement_line ms) @ '']'' @ [NL] @ [NL]))"

fun class_sections :: "(string \<times> measurement list) list \<Rightarrow> string option" where
  "class_sections [] = Some []"
| "class_sections ((cls, ms) # rest) =
     (case class_section cls ms of
        None \<Rightarrow> None
      | Some s \<Rightarrow> (case class_sections rest of None \<Rightarrow> None | Some t \<Rightarrow> Some (s @ t)))"

definition build_report :: "(string \<times> measurement list) list \<Rightarrow> string option" where
  "build_report m =
     map_option (\<lambda>body. ''# Vergil empirical solver budgets (Phase 1 calibration).'' @ [NL]
       @ ''# Generated by `vergilbench-calibration`. Edit by re-running, not by hand.'' @ [NL] @ [NL] @ body)
       (class_sections m)"

definition calibration_classes :: "string list" where
  "calibration_classes = [''trivial'', ''cheap'', ''medium'', ''hard'']"

text \<open>\<open>main\<close>: the error, or the report that was written; \<open>None\<close> is a panic.\<close>

definition calibration_main ::
    "calibration_env \<Rightarrow> string \<Rightarrow> u64 \<Rightarrow> string \<Rightarrow> fs_node \<Rightarrow> disk \<Rightarrow> (string + string) option \<times> disk" where
  "calibration_main env output budget_seconds dir node d =
     (if \<not> is_dir_node node then (Some (Inl (''calibration dir not found: '' @ dir)), d)
      else case calibrate_classes env (budget_seconds * 1000) dir node calibration_classes (0, []) of
        Inl e \<Rightarrow> (Some (Inl e), d)
      | Inr (n, m) \<Rightarrow>
          (case build_report m of
             None \<Rightarrow> (None, d)
           | Some report \<Rightarrow>
               (let out_dir = (case path_parent output of Some p \<Rightarrow> p | None \<Rightarrow> ''.'') in
                case cl_mkdir env out_dir of
                  Some e \<Rightarrow> (Some (Inl (''create '' @ out_dir)), d)
                | None \<Rightarrow>
                    (case fs_write (cl_write env) output report d of
                       (Some e, d1) \<Rightarrow> (Some (Inl (''write '' @ output)), d1)
                     | (None, d1) \<Rightarrow> (Some (Inr report), d1)))))"

section \<open>Lemmas\<close>

lemma extract_check_tests:
  "extract_check_functions (''  function check_a(uint x) public {'' @ [NL] @ ''// function check_b()'' @ [NL]
     @ ''function check_c () {'' @ [NL]) = [''check_a'', ''check_c '']"
  by code_simp

lemma to_f64_between:
  assumes "1 / 2 \<le> x"
  shows "case to_f64 x of Fin a \<Rightarrow> 1 / 2 \<le> a | PInf \<Rightarrow> True | _ \<Rightarrow> False"
proof -
  have h: "round_fin 53 (-1074) (1 / 2) = (1 / 2 :: rat)" by code_simp
  have "1 / 2 \<le> round_fin 53 (-1074) x"
    using round_fin_mono[of "1 / 2" x 53 "-1074"] assms h by simp
  then show ?thesis
    using pow2_pos[of 1024] by (auto simp: to_f64_def clamp_inf_def)
qed

lemma p95_index_pos: "0 < n \<Longrightarrow> 0 < p95_index n"
proof -
  assume n: "0 < n"
  have ceil: "0 < ceil_nat (to_f64 x)" if "1 / 2 \<le> x" for x
    using to_f64_between[OF that] by (auto simp: ceil_nat_def split: float.splits)
  have one: "case to_f64 x of Fin a \<Rightarrow> 1 \<le> a | PInf \<Rightarrow> True | _ \<Rightarrow> False" if "1 \<le> x" for x
  proof -
    have h: "round_fin 53 (-1074) 1 = (1 :: rat)" by code_simp
    have "1 \<le> round_fin 53 (-1074) x" using round_fin_mono[of 1 x 53 "-1074"] that h by simp
    then show ?thesis using pow2_pos[of 1024] by (auto simp: to_f64_def clamp_inf_def)
  qed
  have c: "case to_f64 (19 / 20) of Fin a \<Rightarrow> 1 / 2 \<le> a | PInf \<Rightarrow> True | _ \<Rightarrow> False" by (rule to_f64_between) simp
  have m: "case to_f64 (of_nat n) of Fin a \<Rightarrow> 1 \<le> a | PInf \<Rightarrow> True | _ \<Rightarrow> False" by (rule one) (use n in simp)
  show ?thesis
  proof (cases "to_f64 (of_nat n)")
    case a: (Fin a)
    show ?thesis
    proof (cases "to_f64 (19 / 20)")
      case (Fin b)
      with c m a have "1 \<le> a" "1 / 2 \<le> b" by simp_all
      then have "1 * (1 / 2) \<le> a * b" by (intro mult_mono) simp_all
      then have "1 / 2 \<le> a * b" by simp
      from ceil[OF this] show ?thesis by (simp add: p95_index_def a Fin)
    next
      case PInf
      with m a show ?thesis by (simp add: p95_index_def ceil_nat_def inf_sign_def)
    qed (use c in simp_all)
  next
    case PInf
    with c show ?thesis
      by (cases "to_f64 (19 / 20)") (auto simp: p95_index_def ceil_nat_def inf_sign_def)
  qed (use m in simp_all)
qed

lemma sorted_prefix_count:
  assumes "sorted xs" and "i < length xs"
  shows "Suc i \<le> length (filter (\<lambda>x. x \<le> xs ! i) xs)"
proof -
  have "xs ! j \<le> xs ! i" if "j \<le> i" for j
    using sorted_nth_mono[OF assms(1) that assms(2)] .
  then have "{..i} \<subseteq> {j. j < length xs \<and> xs ! j \<le> xs ! i}" using assms(2) by auto
  from card_mono[OF _ this] show ?thesis
    by (simp add: length_filter_conv_card)
qed

lemma p95_of_total: "\<exists>v. p95_of s = Some v"
proof (cases "s = []")
  case False
  then have "min (p95_index (length s)) (length s) \<noteq> 0" "min (p95_index (length s)) (length s) - 1 < length s"
    using p95_index_pos[of "length s"] by (auto simp: min_def)
  with False show ?thesis by (simp add: p95_of_def Let_def)
qed (simp add: p95_of_def)

lemma class_section_total: "\<exists>v. class_section cls ms = Some v"
proof -
  obtain v where "p95_of (sort (map ms_wall_clock_ms ms)) = Some v" using p95_of_total by blast
  then show ?thesis by (simp add: class_section_def Let_def)
qed

lemma build_report_total: "\<exists>r. build_report m = Some r"
proof -
  have "\<exists>r. class_sections m = Some r"
  proof (induction m)
    case (Cons e m)
    obtain cls ms where e: "e = (cls, ms)" by (cases e)
    obtain v where "class_section cls ms = Some v" using class_section_total by blast
    with Cons.IH e show ?case by auto
  qed simp
  then show ?thesis by (auto simp: build_report_def)
qed

section \<open>Property\<close>

text \<open>C40: The 95th percentile of a class is always defined, for no number of samples is the table indexed out of its bounds:
  it is one of the samples, and at least as many samples as its rank says, or all, are not above it. The
  runner never panics.\<close>

theorem percentile_in_bounds:
  "(case p95_of (sort xs) of
      None \<Rightarrow> False
    | Some v \<Rightarrow>
        if xs = [] then v = 0
        else v \<in> set xs \<and> 0 < p95_index (length xs)
          \<and> min (p95_index (length xs)) (length xs) \<le> length (filter (\<lambda>x. x \<le> v) xs))
   \<and> fst (calibration_main env output budget dir node d) \<noteq> None"
proof
  show "fst (calibration_main env output budget dir node d) \<noteq> None"
  proof (cases "calibrate_classes env (budget * 1000) dir node calibration_classes (0, [])")
    case (Inl e)
    then show ?thesis by (simp add: calibration_main_def)
  next
    case (Inr r)
    obtain n m where r: "r = (n, m)" by (cases r)
    obtain rep where "build_report m = Some rep" using build_report_total by blast
    then show ?thesis
      by (simp add: calibration_main_def Inr r Let_def split: option.split prod.split)
  qed
  show "case p95_of (sort xs) of None \<Rightarrow> False
    | Some v \<Rightarrow>
        if xs = [] then v = 0
        else v \<in> set xs \<and> 0 < p95_index (length xs)
          \<and> min (p95_index (length xs)) (length xs) \<le> length (filter (\<lambda>x. x \<le> v) xs)"
  proof (cases "xs = []")
    case True
    then show ?thesis by (simp add: p95_of_def)
  next
    case False
    let ?n = "length xs" and ?i = "min (p95_index (length xs)) (length xs)"
    have i: "0 < p95_index ?n" "?i \<noteq> 0" "?i - 1 < ?n" using False p95_index_pos[of ?n] by (auto simp: min_def)
    have p: "p95_of (sort xs) = Some (sort xs ! (?i - 1))"
      using i False by (simp add: p95_of_def Let_def)
    have m: "sort xs ! (?i - 1) \<in> set xs" using i(3) nth_mem[of "?i - 1" "sort xs"] by simp
    have "Suc (?i - 1) \<le> length (filter (\<lambda>x. x \<le> sort xs ! (?i - 1)) (sort xs))"
      using i(3) by (intro sorted_prefix_count) simp_all
    then have "?i \<le> length (filter (\<lambda>x. x \<le> sort xs ! (?i - 1)) (sort xs))" using i(2) by simp
    also have "\<dots> = length (filter (\<lambda>x. x \<le> sort xs ! (?i - 1)) xs)"
      by (simp flip: size_mset add: mset_filter)
    finally show ?thesis using False i(1) m by (simp add: p)
  qed
qed

end
