(* ===== verification/KillCriterion.thy ===== *)
theory KillCriterion
  imports IntentCommand
begin

text \<open>
  The kill-criterion runner (\<open>crates/vergil-cli/src/bin/kill_criterion.rs\<close>): five contracts, one run for an intent per
  ground-truth property, the match of its outcomes with the property, the budget over all runs, and the
  verdict. The disk is followed through the runs that succeed; the numbered machines of the runs, the clock,
  the decoders and the copies are parameters.
\<close>

section \<open>Ground truth and results\<close>

record ground_truth_entry =
  ge_name :: string
  ge_expected :: string
  ge_description :: string

record expected_file =
  ef_contract :: string
  ef_intent :: string
  ef_ground_truth :: "ground_truth_entry list"

record per_property =
  pp_contract :: string
  pp_property :: string
  pp_description :: string
  pp_verified :: bool
  pp_matched_candidate :: "string option"
  pp_iterations :: nat
  pp_candidates_synthesized :: nat
  pp_candidates_dispatched :: nat
  pp_cost_usd :: float
  pp_stop_reason :: "string option"

record per_contract =
  pk_contract :: string
  pk_intent :: string
  pk_properties :: "per_property list"
  pk_verified_count :: nat
  pk_ground_truth_count :: nat
  pk_total_cost_usd :: float

record kill_criterion_report =
  kr_started_at :: string
  kr_finished_at :: string
  kr_per_contract :: "per_contract list"
  kr_verified_total :: nat
  kr_ground_truth_total :: nat
  kr_pass_rate :: float
  kr_pass_threshold :: float
  kr_passed :: bool
  kr_total_cost_usd :: float
  kr_aborted_on_budget :: bool

record contract_target =
  tg_source_filename :: string
  tg_contract_ident :: string
  tg_constructor_args :: string
  tg_expected :: string

definition kill_targets :: "string \<Rightarrow> contract_target list" where
  "kill_targets kc_dir =
     (let token = ([DQ] @ ''Vergil'' @ [DQ] @ '','' @ [DQ] @ ''VRT'' @ [DQ] @ '',1_000_000 ether,address(this)'');
          expected = (\<lambda>f. path_join (path_join kc_dir ''expected'') f)
      in [\<lparr>tg_source_filename = ''ERC20.sol'', tg_contract_ident = ''ERC20'', tg_constructor_args = token,
            tg_expected = expected ''erc20.yaml''\<rparr>,
          \<lparr>tg_source_filename = ''ERC20Burnable.sol'', tg_contract_ident = ''ERC20Burnable'', tg_constructor_args = token,
            tg_expected = expected ''erc20-burnable.yaml''\<rparr>,
          \<lparr>tg_source_filename = ''ERC20Pausable.sol'', tg_contract_ident = ''ERC20Pausable'', tg_constructor_args = token,
            tg_expected = expected ''erc20-pausable.yaml''\<rparr>,
          \<lparr>tg_source_filename = ''ERC721.sol'', tg_contract_ident = ''ERC721'', tg_constructor_args = [],
            tg_expected = expected ''erc721.yaml''\<rparr>,
          \<lparr>tg_source_filename = ''ERC4626.sol'', tg_contract_ident = ''ERC4626'',
            tg_constructor_args = ''1_000_000 ether,address(this)'', tg_expected = expected ''erc4626.yaml''\<rparr>])"

definition aggregate_budget_usd :: float where "aggregate_budget_usd = Fin 50"

definition per_property_budget_usd :: float where "per_property_budget_usd = Fin 2"

definition per_halmos_ms :: u64 where "per_halmos_ms = 90000"

definition kill_min_critique_axis :: float where "kill_min_critique_axis = to_f32 (2 / 5)"

section \<open>One property\<close>

definition compose_intent :: "string \<Rightarrow> ground_truth_entry \<Rightarrow> string" where
  "compose_intent contract_intent gt =
     (if trim (ge_description gt) = []
      then contract_intent @ [NL] @ [NL] @ ''Generate a Halmos check_ function named `check_'' @ ge_name gt
        @ ''` that verifies this specific property.''
      else ''Contract context: '' @ contract_intent @ [NL] @ [NL] @ ''Verify the specific property named `check_'' @ ge_name gt
        @ ''`:'' @ [NL] @ trim (ge_description gt) @ [NL] @ [NL]
        @ (''Generate ONE Halmos check_ function targeting this exact property. Use try/catch where ''
     @ ''the description says '' @ [DQ] @ ''reverts'' @ [DQ] @ '' or '' @ [DQ]
     @ ''does not succeed.'' @ [DQ]
     @ '' Always reference the deployed contract through the existing `token` variable in the ''
     @ ''scaffold.''))"

definition names_match :: "string \<Rightarrow> string \<Rightarrow> bool" where
  "names_match candidate ground_truth \<longleftrightarrow>
     (let bare = (\<lambda>s. to_lower (case strip_prefix s ''check_'' of Some r \<Rightarrow> r | None \<Rightarrow> s));
          c = bare candidate; g = bare ground_truth
      in c = g \<or> contains c g \<or> contains g c)"

definition pick_match :: "cegis_run \<Rightarrow> string \<Rightarrow> string option \<times> nat" where
  "pick_match run name =
     (let dispatched = length (filter (\<lambda>o1. cn_verdict o1 \<noteq> VvNotRun) (rn_outcomes run)) in
      case find (\<lambda>o1. is_verified (cn_verdict o1) \<and> names_match (sp_name (cn_candidate o1)) name) (rn_outcomes run) of
        Some o1 \<Rightarrow> (Some (sp_name (cn_candidate o1)), dispatched)
      | None \<Rightarrow>
          (case find (\<lambda>o1. is_verified (cn_verdict o1)) (rn_outcomes run) of
             Some o1 \<Rightarrow> (Some (sp_name (cn_candidate o1)), dispatched)
           | None \<Rightarrow> (None, dispatched)))"

definition build_scaffold :: "contract_target \<Rightarrow> string" where
  "build_scaffold t =
     (let ident = tg_contract_ident t; import = ''../src/'' @ tg_source_filename t;
          args = (if ident = ''ERC721'' then [] else tg_constructor_args t)
      in ''// SPDX-License-Identifier: MIT'' @ [NL] @ ''pragma solidity ^0.8.20;'' @ [NL] @ [NL]
         @ ''import {'' @ ident @ ''} from '' @ [DQ] @ import @ [DQ] @ '';'' @ [NL] @ [NL]
         @ ''contract CegisProperties {'' @ [NL] @ ''    '' @ ident @ '' internal token;'' @ [NL] @ [NL]
         @ ''    constructor() {'' @ [NL] @ ''        token = new '' @ ident @ ''('' @ args @ '');'' @ [NL] @ ''    }'' @ [NL] @ [NL]
         @ ''    {{CHECK_FN}}'' @ [NL] @ ''}'' @ [NL])"

section \<open>The project of a property\<close>

text \<open>The machine of the runner, on Unix. What an earlier run left at the place of a property's project is removed
  first; the result of that is ignored, and what stands there is not followed. \<open>ke_copy\<close> copies one file, \<open>ke_tree\<close> is what stands at a path.\<close>

record ('p, 'b) kill_env =
  ke_manifest_dir :: string
  ke_canon :: "string \<Rightarrow> string + string"
  ke_is_dir :: "string \<Rightarrow> bool"
  ke_cwd :: "string option"
  ke_templates :: "string \<Rightarrow> fs_node option"
  ke_template_yaml :: "string \<Rightarrow> string + property_manifest"
  ke_template_error :: "template_error \<Rightarrow> string"
  ke_mkdir :: "string \<Rightarrow> string option"
  ke_runtime_error :: "string option"
  ke_read :: "string \<Rightarrow> string + string"
  ke_yaml :: "string \<Rightarrow> string + expected_file"
  ke_symlink :: "string \<Rightarrow> string \<Rightarrow> bool"
  ke_copy :: "string \<Rightarrow> string \<Rightarrow> string option"
  ke_tree :: "string \<Rightarrow> fs_node"
  ke_intent :: "nat \<Rightarrow> ('p, 'b) intent_env"
  ke_started :: string
  ke_finished :: string
  ke_ser :: "kill_criterion_report \<Rightarrow> string + string"
  ke_write :: write_oracle

function copy_dir_recursive :: "('p, 'b) kill_env \<Rightarrow> string \<Rightarrow> fs_node \<Rightarrow> string \<Rightarrow> string option"
and copy_entries :: "('p, 'b) kill_env \<Rightarrow> string \<Rightarrow> (string \<times> fs_node) list \<Rightarrow> string \<Rightarrow> string option" where
  "copy_dir_recursive env src (FileN b) dest = Some (''readdir '' @ src)"
| "copy_dir_recursive env src (DirN None) dest =
     (case ke_mkdir env dest of Some e \<Rightarrow> Some (''mkdir '' @ dest @ '': '' @ e) | None \<Rightarrow> Some (''readdir '' @ src))"
| "copy_dir_recursive env src (DirN (Some es)) dest =
     (case ke_mkdir env dest of Some e \<Rightarrow> Some (''mkdir '' @ dest @ '': '' @ e) | None \<Rightarrow> copy_entries env src es dest)"
| "copy_entries env src [] dest = None"
| "copy_entries env src ((name, node) # es) dest =
     (case (case node of
              DirN sub \<Rightarrow> copy_dir_recursive env (path_join src name) node (path_join dest name)
            | FileN b \<Rightarrow> map_option (\<lambda>e. ''copy '' @ path_join src name @ '' '' @ [CHR 0xE2, CHR 0x86, CHR 0x92] @ '' '' @ path_join dest name @ '': '' @ e)
                          (ke_copy env (path_join src name) (path_join dest name))) of
        Some e \<Rightarrow> Some e
      | None \<Rightarrow> copy_entries env src es dest)"
  by pat_completeness auto
termination
  by (relation "measure (\<lambda>x. case x of Inl (env, src, node, dest) \<Rightarrow> size node | Inr (env, src, es, dest) \<Rightarrow> size_list (size_prod (\<lambda>_. 0) size) es)")
     (auto simp: size_list_estimation)

definition symlink_or_copy_project :: "('p, 'b) kill_env \<Rightarrow> string \<Rightarrow> string \<Rightarrow> string option" where
  "symlink_or_copy_project env source dest =
     (case ke_mkdir env dest of
        Some e \<Rightarrow> Some (''create '' @ dest @ '': '' @ e)
      | None \<Rightarrow>
          (case ke_mkdir env (path_join dest ''test'') of
             Some e \<Rightarrow> Some (''create test/: '' @ e)
           | None \<Rightarrow>
               (let toml = path_join source ''foundry.toml''; src = path_join source ''src'' in
                case (if ke_symlink env toml (path_join dest ''foundry.toml'') then None
                      else map_option (\<lambda>e. ''copy foundry.toml: '' @ e) (ke_copy env toml (path_join dest ''foundry.toml''))) of
                  Some e \<Rightarrow> Some e
                | None \<Rightarrow>
                    (if ke_symlink env src (path_join dest ''src'') then None
                     else copy_dir_recursive env src (ke_tree env src) (path_join dest ''src'')))))"

section \<open>The runs\<close>

definition kill_spec :: "contract_target \<Rightarrow> expected_file \<Rightarrow> (string \<times> property_template) list \<Rightarrow> string \<Rightarrow> ground_truth_entry \<Rightarrow> intent_spec" where
  "kill_spec target expected cat project gt =
     \<lparr>in_project = project, in_intent = compose_intent (ef_intent expected) gt, in_description = Some (ge_description gt),
      in_scaffold = build_scaffold target, in_catalog = cat,
      in_cegis = cegis_default\<lparr>cg_max_iterations := 1,
        cg_synthesis := (cg_synthesis cegis_default)\<lparr>sc_samples := 8\<rparr>, cg_cost_budget_usd := per_property_budget_usd\<rparr>,
      in_min_critique_axis = Some kill_min_critique_axis, in_mutation_min = to_f64 (2 / 5), in_budget_ms = per_halmos_ms\<rparr>"

definition property_result :: "contract_target \<Rightarrow> ground_truth_entry \<Rightarrow> intent_error + cegis_run \<times> string \<Rightarrow> per_property" where
  "property_result target gt r =
     (case r of
        Inr (run, proof) \<Rightarrow>
          (let (matched, dispatched) = pick_match run (ge_name gt) in
           \<lparr>pp_contract = tg_contract_ident target, pp_property = ge_name gt, pp_description = ge_description gt,
            pp_verified = (matched \<noteq> None), pp_matched_candidate = matched, pp_iterations = length (rn_iterations run),
            pp_candidates_synthesized = sum_list (map it_synthesized (rn_iterations run)),
            pp_candidates_dispatched = dispatched, pp_cost_usd = rn_total_cost_usd run, pp_stop_reason = rn_stop_reason run\<rparr>)
      | Inl e \<Rightarrow>
          \<lparr>pp_contract = tg_contract_ident target, pp_property = ge_name gt, pp_description = ge_description gt,
           pp_verified = False, pp_matched_candidate = None, pp_iterations = 0, pp_candidates_synthesized = 0,
           pp_candidates_dispatched = 0, pp_cost_usd = Fin 0, pp_stop_reason = Some (''pipeline_error: '' @ intent_error_str e)\<rparr>)"

text \<open>The number of the next run, the cost so far, and the disk.\<close>

record kill_state =
  kz_run :: nat
  kz_cost :: float
  kz_disk :: disk

text \<open>The properties of one contract: \<open>None\<close> is a panic, \<open>Inl\<close> an error; else whether the budget ended the work.\<close>

fun kill_properties ::
    "('p, 'b) kill_env \<Rightarrow> contract_target \<Rightarrow> expected_file \<Rightarrow> (string \<times> property_template) list \<Rightarrow> string \<Rightarrow> string
     \<Rightarrow> ground_truth_entry list \<Rightarrow> float \<times> per_property list \<Rightarrow> kill_state
     \<Rightarrow> (string + bool \<times> (float \<times> per_property list) \<times> kill_state) option" where
  "kill_properties env target expected cat source dir [] acc st = Some (Inr (False, acc, st))"
| "kill_properties env target expected cat source dir (gt # gts) (cost, props) st =
     (if fle aggregate_budget_usd (kz_cost st) then Some (Inr (True, (cost, props), st))
      else
        (let property_dir = path_join dir (ge_name gt); project = path_join property_dir ''project'' in
         case ke_mkdir env property_dir of
           Some e \<Rightarrow> Some (Inl (''mkdir '' @ e))
         | None \<Rightarrow>
             (case symlink_or_copy_project env source project of
                Some e \<Rightarrow> Some (Inl e)
              | None \<Rightarrow>
                  (case run_intent (ke_intent env (kz_run st)) (kill_spec target expected cat project gt) (kz_disk st) of
                     (None, d) \<Rightarrow> None
                   | (Some r, d) \<Rightarrow>
                       (let p = property_result target gt r in
                        kill_properties env target expected cat source dir gts
                          (fadd64 cost (pp_cost_usd p), props @ [p])
                          \<lparr>kz_run = Suc (kz_run st), kz_cost = fadd64 (kz_cost st) (pp_cost_usd p), kz_disk = d\<rparr>)))))"

definition contract_result_of :: "contract_target \<Rightarrow> expected_file \<Rightarrow> float \<times> per_property list \<Rightarrow> per_contract" where
  "contract_result_of target expected acc =
     \<lparr>pk_contract = tg_contract_ident target, pk_intent = ef_intent expected, pk_properties = snd acc,
      pk_verified_count = length (filter pp_verified (snd acc)),
      pk_ground_truth_count = length (ef_ground_truth expected), pk_total_cost_usd = fst acc\<rparr>"

fun kill_contracts ::
    "('p, 'b) kill_env \<Rightarrow> (string \<times> property_template) list \<Rightarrow> string \<Rightarrow> string \<Rightarrow> contract_target list \<Rightarrow> per_contract list
     \<Rightarrow> kill_state \<Rightarrow> (string + bool \<times> per_contract list \<times> kill_state) option" where
  "kill_contracts env cat source run_dir [] done_list st = Some (Inr (False, done_list, st))"
| "kill_contracts env cat source run_dir (target # ts) done_list st =
     (case ke_read env (tg_expected target) of
        Inl e \<Rightarrow> Some (Inl (''read expected: '' @ e))
      | Inr raw \<Rightarrow>
      (case ke_yaml env raw of
        Inl e \<Rightarrow> Some (Inl (''parse expected: '' @ e))
      | Inr expected \<Rightarrow>
          (let dir = path_join run_dir (tg_contract_ident target) in
           case ke_mkdir env dir of
             Some e \<Rightarrow> Some (Inl (''mkdir '' @ e))
           | None \<Rightarrow>
               (case kill_properties env target expected cat source dir (ef_ground_truth expected) (Fin 0, []) st of
                  None \<Rightarrow> None
                | Some (Inl e) \<Rightarrow> Some (Inl e)
                | Some (Inr (True, acc, st1)) \<Rightarrow> Some (Inr (True, done_list, st1))
                | Some (Inr (False, acc, st1)) \<Rightarrow>
                    kill_contracts env cat source run_dir ts (done_list @ [contract_result_of target expected acc]) st1))))"

section \<open>The report\<close>

definition kill_report :: "('p, 'b) kill_env \<Rightarrow> bool \<Rightarrow> per_contract list \<Rightarrow> float \<Rightarrow> kill_criterion_report" where
  "kill_report env aborted cs cost =
     (let verified = sum_list (map pk_verified_count cs); truth = sum_list (map pk_ground_truth_count cs);
          rate = (if truth = 0 then Fin 0 else fdiv64_by (to_f64 (of_nat verified)) (of_nat truth))
      in \<lparr>kr_started_at = ke_started env, kr_finished_at = ke_finished env, kr_per_contract = cs,
          kr_verified_total = verified, kr_ground_truth_total = truth, kr_pass_rate = rate,
          kr_pass_threshold = to_f64 (3 / 5), kr_passed = fle (to_f64 (3 / 5)) rate,
          kr_total_cost_usd = cost, kr_aborted_on_budget = aborted\<rparr>)"

definition stamp_of :: "string \<Rightarrow> string" where
  "stamp_of s = map (\<lambda>c. if c = CHR '':'' \<or> c = CHR ''.'' \<or> c = CHR ''+'' then CHR ''-'' else c) s"

definition kill_summary :: "string \<Rightarrow> string \<Rightarrow> kill_criterion_report \<Rightarrow> string" where
  "kill_summary summary_path run_dir r =
     ''kill-criterion summary: '' @ summary_path @ [NL] @ ''per-property artifacts: '' @ run_dir @ ''/'' @ [NL]
     @ ''verified '' @ show_nat (kr_verified_total r) @ ''/'' @ show_nat (kr_ground_truth_total r) @ ''  pass_rate=''
     @ fixed 1 (fmul64 (kr_pass_rate r) (Fin 100)) @ ''%  cost=$'' @ fmt2 (kr_total_cost_usd r) @ ''  passed=''
     @ (if kr_passed r then ''true'' else ''false'') @ [NL]"

text \<open>The set-up: the project, the directory of this run, and the catalogue.\<close>

definition kill_setup :: "('p, 'b) kill_env \<Rightarrow> string + string \<times> string \<times> string \<times> (string \<times> property_template) list" where
  "kill_setup env =
     (case (case path_parent (ke_manifest_dir env) of None \<Rightarrow> None | Some p \<Rightarrow> path_parent p) of
        None \<Rightarrow> Inl ''cannot locate repo root from CARGO_MANIFEST_DIR''
      | Some repo \<Rightarrow>
      (let kc_dir = path_join (path_join repo ''tests'') ''kill_criterion_month2''; results = path_join kc_dir ''results'' in
       case ke_canon env (path_join kc_dir ''project'') of
         Inl e \<Rightarrow> Inl (''kill criterion project missing at '' @ path_join kc_dir ''project'' @ '': '' @ e)
       | Inr project \<Rightarrow>
       (case ke_mkdir env results of
         Some e \<Rightarrow> Inl (''create results dir: '' @ e)
       | None \<Rightarrow>
       (case locate_templates_dir (Some (ke_manifest_dir env)) (ke_is_dir env) (ke_cwd env) of
         None \<Rightarrow> Inl ''locate templates dir''
       | Some tdir \<Rightarrow>
       (case property_catalog_load (ke_template_yaml env) tdir (ke_templates env tdir) of
         Inl e \<Rightarrow> Inl (''templates: '' @ ke_template_error env e)
       | Inr cat \<Rightarrow>
       (case ke_mkdir env (path_join results (stamp_of (ke_started env))) of
         Some e \<Rightarrow> Inl (''create run dir: '' @ e)
       | None \<Rightarrow>
       (case ke_runtime_error env of
         Some e \<Rightarrow> Inl (''tokio runtime: '' @ e)
       | None \<Rightarrow> Inr (kc_dir, project, results, cat))))))))"

text \<open>\<open>run\<close>: \<open>None\<close> is a panic.\<close>

definition kill_run :: "('p, 'b) kill_env \<Rightarrow> disk \<Rightarrow> (string + kill_criterion_report \<times> string) option" where
  "kill_run env d =
     (case kill_setup env of
        Inl e \<Rightarrow> Some (Inl e)
      | Inr (kc_dir, project, results, cat) \<Rightarrow>
          (let stamp = stamp_of (ke_started env); run_dir = path_join results stamp in
           case kill_contracts env cat project run_dir (kill_targets kc_dir) [] \<lparr>kz_run = 0, kz_cost = Fin 0, kz_disk = d\<rparr> of
             None \<Rightarrow> None
           | Some (Inl e) \<Rightarrow> Some (Inl e)
           | Some (Inr (aborted, cs, st)) \<Rightarrow>
               (let report = kill_report env aborted cs (kz_cost st); path = path_join results (stamp @ ''.json'') in
                case ke_ser env report of
                  Inl e \<Rightarrow> Some (Inl (''serialize report: '' @ e))
                | Inr body \<Rightarrow>
                    (case fs_write (ke_write env) path body (kz_disk st) of
                       (Some e, d1) \<Rightarrow> Some (Inl (''write report: '' @ e))
                     | (None, d1) \<Rightarrow> Some (Inr (report, kill_summary path run_dir report))))))"

definition kill_exit :: "(string + kill_criterion_report \<times> string) option \<Rightarrow> nat" where
  "kill_exit r =
     (case r of None \<Rightarrow> 101 | Some (Inl e) \<Rightarrow> 1 | Some (Inr (report, out)) \<Rightarrow> if kr_passed report then 0 else 2)"

section \<open>Lemmas\<close>

text \<open>A property counts as verified when any candidate was verified, whatever its name.\<close>

lemma pick_match_any: "(fst (pick_match run name) \<noteq> None) = list_ex (\<lambda>o1. is_verified (cn_verdict o1)) (rn_outcomes run)"
  by (auto simp: pick_match_def Let_def find_None_iff find_Some_iff list_ex_iff split: option.split)

definition any_candidate_verified :: "('p, 'b) kill_env \<Rightarrow> per_property \<Rightarrow> bool" where
  "any_candidate_verified env p \<longleftrightarrow>
     (\<exists>n spec d run proof_path d'. run_intent (ke_intent env n) spec d = (Some (Inr (run, proof_path)), d')
        \<and> in_description spec = Some (pp_description p)
        \<and> list_ex (\<lambda>o1. is_verified (cn_verdict o1)) (rn_outcomes run))"

lemma property_result_verified:
  assumes "run_intent (ke_intent env n) (kill_spec target expected cat project gt) d = (Some r, d')"
    and "pp_verified (property_result target gt r)"
  shows "any_candidate_verified env (property_result target gt r)"
proof (cases r)
  case (Inl e)
  with assms(2) show ?thesis by (simp add: property_result_def)
next
  case (Inr x)
  obtain run pth where x: "x = (run, pth)" by (cases x)
  obtain m k where pm: "pick_match run (ge_name gt) = (m, k)" by fastforce
  have v: "list_ex (\<lambda>o1. is_verified (cn_verdict o1)) (rn_outcomes run)"
    using assms(2) pick_match_any[of run "ge_name gt"] by (simp add: property_result_def Inr x pm)
  have d: "in_description (kill_spec target expected cat project gt) = Some (pp_description (property_result target gt r))"
    by (simp add: kill_spec_def property_result_def Inr x pm)
  show ?thesis
    using assms(1) v d unfolding any_candidate_verified_def Inr x by blast
qed

lemma kill_properties_measured:
  "kill_properties env target expected cat source dir gts (cost, props) st = Some (Inr (False, acc, st')) \<Longrightarrow>
     list_all (\<lambda>p. pp_verified p \<longrightarrow> any_candidate_verified env p) props \<Longrightarrow>
     length (snd acc) = length props + length gts
     \<and> list_all (\<lambda>p. pp_verified p \<longrightarrow> any_candidate_verified env p) (snd acc)"
proof (induction gts arbitrary: cost props st)
  case (Cons gt gts)
  let ?pd = "path_join dir (ge_name gt)"
  let ?pr = "path_join ?pd ''project''"
  have b: "\<not> fle aggregate_budget_usd (kz_cost st)" and m: "ke_mkdir env ?pd = None"
    and c: "symlink_or_copy_project env source ?pr = None"
    using Cons.prems(1) by (auto simp: Let_def split: if_splits option.splits)
  obtain r d where r: "run_intent (ke_intent env (kz_run st)) (kill_spec target expected cat ?pr gt) (kz_disk st) = (Some r, d)"
    using Cons.prems(1) b m c
    by (cases "run_intent (ke_intent env (kz_run st)) (kill_spec target expected cat ?pr gt) (kz_disk st)")
       (auto simp: Let_def split: option.splits)
  let ?p = "property_result target gt r"
  have n: "kill_properties env target expected cat source dir gts (fadd64 cost (pp_cost_usd ?p), props @ [?p])
      \<lparr>kz_run = Suc (kz_run st), kz_cost = fadd64 (kz_cost st) (pp_cost_usd ?p), kz_disk = d\<rparr> = Some (Inr (False, acc, st'))"
    using Cons.prems(1) b m c r by (simp add: Let_def)
  have "list_all (\<lambda>p. pp_verified p \<longrightarrow> any_candidate_verified env p) (props @ [?p])"
    using Cons.prems(2) property_result_verified[OF r] by simp
  from Cons.IH[OF n this] show ?case by simp
qed auto

lemma kill_contracts_counted:
  "kill_contracts env cat source run_dir ts done_list st = Some (Inr (aborted, cs, st')) \<Longrightarrow>
     \<exists>k. map pk_contract cs = map pk_contract done_list @ map tg_contract_ident (take k ts)
       \<and> (if aborted then k < length ts else k = length ts)"
proof (induction ts arbitrary: done_list st)
  case (Cons target ts)
  obtain raw expected where e: "ke_read env (tg_expected target) = Inr raw" "ke_yaml env raw = Inr expected"
      "ke_mkdir env (path_join run_dir (tg_contract_ident target)) = None"
    using Cons.prems by (auto simp: Let_def split: sum.splits option.splits)
  obtain b acc st1 where p: "kill_properties env target expected cat source (path_join run_dir (tg_contract_ident target))
      (ef_ground_truth expected) (Fin 0, []) st = Some (Inr (b, acc, st1))"
    using Cons.prems e
    by (cases "kill_properties env target expected cat source (path_join run_dir (tg_contract_ident target))
      (ef_ground_truth expected) (Fin 0, []) st") (auto simp: Let_def split: sum.splits)
  show ?case
  proof (cases b)
    case True
    with Cons.prems e p show ?thesis by (intro exI[of _ 0]) (simp add: Let_def)
  next
    case False
    with Cons.prems e p have "kill_contracts env cat source run_dir ts (done_list @ [contract_result_of target expected acc]) st1
        = Some (Inr (aborted, cs, st'))" by (simp add: Let_def)
    from Cons.IH[OF this] obtain k where
      "map pk_contract cs = map pk_contract (done_list @ [contract_result_of target expected acc]) @ map tg_contract_ident (take k ts)"
      "if aborted then k < length ts else k = length ts" by blast
    then show ?thesis by (intro exI[of _ "Suc k"]) (simp add: contract_result_of_def)
  qed
qed simp

definition fully_measured :: "('p, 'b) kill_env \<Rightarrow> per_contract \<Rightarrow> bool" where
  "fully_measured env c \<longleftrightarrow>
     pk_ground_truth_count c = length (pk_properties c)
     \<and> pk_verified_count c = length (filter pp_verified (pk_properties c))
     \<and> list_all (any_candidate_verified env) (filter pp_verified (pk_properties c))"

lemma kill_contracts_measured:
  "kill_contracts env cat source run_dir ts done_list st = Some (Inr (aborted, cs, st')) \<Longrightarrow>
     list_all (fully_measured env) done_list \<Longrightarrow> list_all (fully_measured env) cs"
proof (induction ts arbitrary: done_list st)
  case (Cons target ts)
  obtain raw expected where e: "ke_read env (tg_expected target) = Inr raw" "ke_yaml env raw = Inr expected"
      "ke_mkdir env (path_join run_dir (tg_contract_ident target)) = None"
    using Cons.prems by (auto simp: Let_def split: sum.splits option.splits)
  obtain b acc st1 where p: "kill_properties env target expected cat source (path_join run_dir (tg_contract_ident target))
      (ef_ground_truth expected) (Fin 0, []) st = Some (Inr (b, acc, st1))"
    using Cons.prems e
    by (cases "kill_properties env target expected cat source (path_join run_dir (tg_contract_ident target))
      (ef_ground_truth expected) (Fin 0, []) st") (auto simp: Let_def split: sum.splits)
  show ?case
  proof (cases b)
    case True
    with Cons.prems e p show ?thesis by (simp add: Let_def)
  next
    case False
    with Cons.prems e p have "kill_contracts env cat source run_dir ts (done_list @ [contract_result_of target expected acc]) st1
        = Some (Inr (aborted, cs, st'))" by (simp add: Let_def)
    moreover have "fully_measured env (contract_result_of target expected acc)"
      using kill_properties_measured[of env target expected cat source _ "ef_ground_truth expected" "Fin 0" "[]" st acc st1] p False
      by (simp add: fully_measured_def contract_result_of_def list_all_iff)
    ultimately show ?thesis using Cons.IH Cons.prems(2) by simp
  qed
qed simp

lemma sum_measured:
  "list_all (fully_measured env) cs \<Longrightarrow>
     sum_list (map pk_ground_truth_count cs) = length (concat (map pk_properties cs))
     \<and> sum_list (map pk_verified_count cs) = length (filter pp_verified (concat (map pk_properties cs)))"
  by (induction cs) (auto simp: fully_measured_def)

section \<open>Property\<close>


text \<open>So a run that was aborted after one contract of one property passes.\<close>

lemma aborted_run_passes:
  assumes "pk_verified_count c = 1" and "pk_ground_truth_count c = 1"
  shows "kr_passed (kill_report env True [c] cost)"
proof -
  have one: "round_fin 53 (-1074) 1 = (1 :: rat)" by code_simp
  have big: "1 < pow2 1024" by (simp add: pow2_def)
  have "0 \<le> round_fin 53 (-1074) (3 / 5)" by (rule round_fin_nonneg) simp
  moreover have le: "round_fin 53 (-1074) (3 / 5) \<le> 1" using round_fin_mono[of "3 / 5" 1 53 "-1074"] one by simp
  ultimately have "to_f64 (3 / 5) = Fin (round_fin 53 (-1074) (3 / 5))" and f: "to_f64 1 = Fin 1"
    using big by (auto simp: to_f64_def clamp_inf_def one)
  then have "fle (to_f64 (3 / 5)) (fdiv64_by (to_f64 1) 1)" using le by (simp add: f)
  then show ?thesis using assms by (simp add: kill_report_def Let_def)
qed

end
