(* ===== verification/Trace.thy ===== *)
theory Trace
  imports Llm Halmos
begin

text \<open>
  The trace of the model calls (\<open>crates/vergil-llm/src/trace.rs\<close>): one line of JSON for each call, the bodies of
  request and answer in files of their own, and the removal of secrets from all three. A write may fail, and
  then leaves nothing or the first bytes of what it was given.
\<close>

section \<open>Writes that are cut\<close>

text \<open>The \<open>n\<close>-th write: \<open>None\<close> if it succeeds, else its error and how much of it was done; \<open>None\<close> leaves the file alone.\<close>

type_synonym cut_oracle = "nat \<Rightarrow> (string \<times> nat option) option"

definition cut_write :: "cut_oracle \<Rightarrow> bool \<Rightarrow> string \<Rightarrow> string \<Rightarrow> disk \<Rightarrow> string option \<times> disk" where
  "cut_write cuts app path body d =
     (let old = (if app then (case dk_files d path of Some c \<Rightarrow> c | None \<Rightarrow> []) else []);
          d1 = d\<lparr>dk_writes := dk_writes d + 1\<rparr> in
      case cuts (dk_writes d) of
        None \<Rightarrow> (None, d1\<lparr>dk_files := (dk_files d)(path \<mapsto> old @ body)\<rparr>)
      | Some (e, None) \<Rightarrow> (Some e, d1)
      | Some (e, Some k) \<Rightarrow> (Some e, d1\<lparr>dk_files := (dk_files d)(path \<mapsto> old @ take k body)\<rparr>))"

section \<open>Events\<close>

record trace_event =
  te_provider :: provider_id
  te_model :: string
  te_temperature :: float
  te_request_sha :: string
  te_response_sha :: string
  te_tokens_in :: u32
  te_tokens_out :: u32
  te_latency_ms :: u64
  te_provider_request_id :: "string option"

text \<open>The provider is written in snake case, which is not what \<open>as_str\<close> gives for OpenAI.\<close>

fun provider_snake :: "provider_id \<Rightarrow> string" where
  "provider_snake Anthropic = ''anthropic''"
| "provider_snake OpenAi = ''open_ai''"
| "provider_snake Voyage = ''voyage''"
| "provider_snake Mock = ''mock''"

definition event_json :: "trace_event \<Rightarrow> json" where
  "event_json e =
     JObj [(''kind'', JStr ''llm_call''), (''provider'', JStr (provider_snake (te_provider e))), (''model'', JStr (te_model e)),
       (''temperature'', JFloat (te_temperature e)), (''request_sha'', JStr (te_request_sha e)),
       (''response_sha'', JStr (te_response_sha e)), (''tokens_in'', JNum (uint (te_tokens_in e))),
       (''tokens_out'', JNum (uint (te_tokens_out e))), (''latency_ms'', JNum (uint (te_latency_ms e))),
       (''provider_request_id'', opt_json JStr (te_provider_request_id e))]"

record llm_call_params =
  lp_provider :: provider_id
  lp_model :: string
  lp_temperature :: float
  lp_request_sha :: "u8 list"
  lp_response_sha :: "u8 list"
  lp_tokens_in :: u32
  lp_tokens_out :: u32
  lp_latency_ms :: u64
  lp_provider_request_id :: "string option"

definition llm_call_event :: "llm_call_params \<Rightarrow> trace_event" where
  "llm_call_event p =
     \<lparr>te_provider = lp_provider p, te_model = lp_model p, te_temperature = lp_temperature p,
      te_request_sha = hex_lower (lp_request_sha p), te_response_sha = hex_lower (lp_response_sha p),
      te_tokens_in = lp_tokens_in p, te_tokens_out = lp_tokens_out p, te_latency_ms = lp_latency_ms p,
      te_provider_request_id = lp_provider_request_id p\<rparr>"

section \<open>Secrets\<close>

definition redacted :: string where
  "redacted = ''<REDACTED>''"

definition secret_env_keys :: "string list" where
  "secret_env_keys = [''VERGIL_ANTHROPIC_API_KEY'', ''VERGIL_OPENAI_API_KEY'', ''VOYAGE_API_KEY'', ''ANTHROPIC_API_KEY'',
     ''OPENAI_API_KEY'']"

definition default_env_secrets :: "(string \<Rightarrow> string option) \<Rightarrow> string list" where
  "default_env_secrets var = filter (\<lambda>v. v \<noteq> []) (List.map_filter var secret_env_keys)"

definition scrub_one :: "string \<Rightarrow> string \<Rightarrow> string" where
  "scrub_one secret out = (if secret \<noteq> [] \<and> contains out secret then replace_str secret redacted out else out)"

definition scrub :: "string list \<Rightarrow> string \<Rightarrow> string" where
  "scrub secrets s = fold scrub_one secrets s"

section \<open>The recorder\<close>

record trace_recorder =
  tr_dir :: string
  tr_secrets :: "string list"

text \<open>The operating system and serde: creating a directory, opening the log, the writes, the flush, and the text of JSON.\<close>

record trace_env =
  tn_mkdir :: "string \<Rightarrow> string option"
  tn_open :: "string \<Rightarrow> string option"
  tn_cuts :: cut_oracle
  tn_flush :: "nat \<Rightarrow> string option"
  tn_json :: "json \<Rightarrow> string"

definition trace_open :: "trace_env \<Rightarrow> string \<Rightarrow> string list \<Rightarrow> disk \<Rightarrow> (string + trace_recorder) \<times> disk" where
  "trace_open env dir secrets d =
     (let trace_dir = path_join dir ''trace''; path = path_join trace_dir ''run.jsonl'' in
      case tn_mkdir env (path_join trace_dir ''prompts'') of
        Some e \<Rightarrow> (Inl e, d)
      | None \<Rightarrow>
          (case tn_mkdir env (path_join trace_dir ''responses'') of
             Some e \<Rightarrow> (Inl e, d)
           | None \<Rightarrow>
               (case tn_open env path of
                  Some e \<Rightarrow> (Inl e, d)
                | None \<Rightarrow>
                    (Inr \<lparr>tr_dir = trace_dir, tr_secrets = filter (\<lambda>s. s \<noteq> []) secrets\<rparr>,
                     (if dk_files d path = None then d\<lparr>dk_files := (dk_files d)(path \<mapsto> [])\<rparr> else d)))))"

definition body_path :: "trace_recorder \<Rightarrow> string \<Rightarrow> string \<Rightarrow> string" where
  "body_path r sub sha = path_join (path_join (tr_dir r) sub) (sha @ ''.txt'')"

definition write_trace_body :: "trace_env \<Rightarrow> trace_recorder \<Rightarrow> string \<Rightarrow> string \<Rightarrow> string \<Rightarrow> disk \<Rightarrow> string option \<times> disk" where
  "write_trace_body env r sub sha body d = cut_write (tn_cuts env) False (body_path r sub sha) body d"

definition log_path :: "trace_recorder \<Rightarrow> string" where
  "log_path r = path_join (tr_dir r) ''run.jsonl''"

definition append_line :: "trace_env \<Rightarrow> trace_recorder \<Rightarrow> string \<Rightarrow> disk \<Rightarrow> string option \<times> disk" where
  "append_line env r line d =
     (case cut_write (tn_cuts env) True (log_path r) line d of
        (Some e, d1) \<Rightarrow> (Some e, d1)
      | (None, d1) \<Rightarrow>
          (case cut_write (tn_cuts env) True (log_path r) [NL] d1 of
             (Some e, d2) \<Rightarrow> (Some e, d2)
           | (None, d2) \<Rightarrow> (tn_flush env (dk_writes d2), d2)))"

definition trace_record :: "trace_env \<Rightarrow> trace_recorder \<Rightarrow> trace_event \<Rightarrow> string \<Rightarrow> string \<Rightarrow> disk \<Rightarrow> string option \<times> disk" where
  "trace_record env r event prompt_body response_body d =
     (case write_trace_body env r ''prompts'' (te_request_sha event) (scrub (tr_secrets r) prompt_body) d of
        (Some e, d1) \<Rightarrow> (Some e, d1)
      | (None, d1) \<Rightarrow>
          (case write_trace_body env r ''responses'' (te_response_sha event) (scrub (tr_secrets r) response_body) d1 of
             (Some e, d2) \<Rightarrow> (Some e, d2)
           | (None, d2) \<Rightarrow> append_line env r (scrub (tr_secrets r) (tn_json env (event_json event))) d2))"

section \<open>Scrubbing\<close>

text \<open>What the vendors' keys look like: letters, digits, dashes and underscores, and no part of the placeholder.\<close>

definition key_char :: "char \<Rightarrow> bool" where
  "key_char c \<longleftrightarrow> is_alnum c \<or> c = CHR ''-'' \<or> c = CHR ''_''"

definition key_shaped :: "string \<Rightarrow> bool" where
  "key_shaped k \<longleftrightarrow> k \<noteq> [] \<and> list_all key_char k \<and> \<not> contains redacted k"

lemma not_key_char [simp]:
  "\<not> key_char (CHR ''<'')" "\<not> key_char (CHR ''>'')" "\<not> key_char (CHR ''{'')" "\<not> key_char NL"
  by code_simp+

lemma contains_append_cases:
  assumes "contains (a @ b) k"
  shows "contains a k \<or> contains b k \<or> (\<exists>k1 k2. k = k1 @ k2 \<and> k1 \<noteq> [] \<and> k2 \<noteq> [] \<and> ends_with a k1 \<and> starts_with b k2)"
proof -
  from assms obtain u v where e: "a @ b = u @ k @ v" by (auto simp: contains_iff)
  then consider (1) us where "u = a @ us" "b = us @ k @ v" | (2) us where "a = u @ us" "us @ b = k @ v"
    by (auto simp: append_eq_append_conv2)
  then show ?thesis
  proof cases
    case 1
    then show ?thesis by (auto simp: contains_iff)
  next
    case 2
    from 2(2) consider (a) vs where "us = k @ vs" "vs @ b = v" | (b) vs where "us @ vs = k" "b = vs @ v"
      by (auto simp: append_eq_append_conv2)
    then show ?thesis
    proof cases
      case a
      then have "a = u @ k @ vs" using 2 by simp
      then show ?thesis by (auto simp: contains_iff)
    next
      case b
      show ?thesis
      proof (cases "us = [] \<or> vs = []")
        case True
        moreover have "contains b k" if "us = []" using that b contains_start[of k v] by simp
        moreover have "contains a k" if "vs = []" using that 2 b contains_infix[of u k "[]"] by simp
        ultimately show ?thesis by blast
      next
        case False
        then have "ends_with a us" "starts_with b vs" using 2 b by (auto simp: ends_with_def)
        then show ?thesis using False b by blast
      qed
    qed
  qed
qed

lemma starts_with_hd: "starts_with s p \<Longrightarrow> p \<noteq> [] \<Longrightarrow> hd p = hd s \<and> s \<noteq> []"
  by (cases s; cases p) auto

text \<open>A character that is in no key separates: an occurrence of a key does not reach across it.\<close>

lemma contains_across:
  assumes k: "list_all key_char k" and s: "b = [] \<or> \<not> key_char (hd b)" and c: "contains (a @ b) k"
  shows "contains a k \<or> contains b k"
proof (rule ccontr)
  assume n: "\<not> (contains a k \<or> contains b k)"
  then obtain k1 k2 where k12: "k = k1 @ k2" "k2 \<noteq> []" "starts_with b k2"
    using contains_append_cases[OF c] by blast
  then have "hd k2 = hd b" "b \<noteq> []" using starts_with_hd by blast+
  moreover have "key_char (hd k2)" using k k12 by (cases k2) auto
  ultimately show False using s by simp
qed

lemma contains_across_end:
  assumes k: "list_all key_char k" and s: "\<not> key_char c" and c: "contains (a @ c # b) k" and ne: "k \<noteq> []"
  shows "contains a k \<or> contains b k"
proof -
  have "contains a k \<or> contains (c # b) k" by (rule contains_across[OF k _ c]) (simp add: s)
  moreover have "\<not> starts_with (c # b) k" using k s ne by (cases k) auto
  ultimately show ?thesis by (auto simp: contains_def split: if_splits option.splits)
qed

lemma contains_after_redacted:
  assumes "key_shaped k" and "contains (redacted @ t) k"
  shows "contains t k"
proof -
  have k: "list_all key_char k" "k \<noteq> []" "\<not> contains redacted k" using assms(1) by (auto simp: key_shaped_def)
  have "contains (''<REDACTED'' @ CHR ''>'' # t) k" using assms(2) by (simp add: redacted_def)
  then have "contains ''<REDACTED'' k \<or> contains t k" using contains_across_end[OF k(1) not_key_char(2) _ k(2)] by blast
  moreover have "contains redacted k" if "contains ''<REDACTED'' k"
    using that contains_append_right[of "''<REDACTED''" k "''>''"] by (simp add: redacted_def)
  ultimately show ?thesis using k(3) by blast
qed

lemma starts_with_replaced: "list_all key_char q \<Longrightarrow> starts_with (replace_str p redacted s) q \<Longrightarrow> starts_with s q"
proof (induction p redacted s arbitrary: q rule: replace_str.induct)
  case (1 p)
  then show ?case by simp
next
  case (2 p c s)
  show ?case
  proof (cases "p \<noteq> [] \<and> starts_with (c # s) p")
    case True
    then show ?thesis using 2(3,4) by (cases q) (auto simp: redacted_def)
  next
    case False
    then show ?thesis using 2(2)[OF False] 2(3,4) by (cases q) auto
  qed
qed

text \<open>Replacing makes no key appear, and makes its own key disappear.\<close>

lemma replaced_contains: "key_shaped q \<Longrightarrow> contains (replace_str p redacted s) q \<Longrightarrow> contains s q \<and> q \<noteq> p"
proof (induction p redacted s rule: replace_str.induct)
  case (1 p)
  then show ?case by (auto simp: contains_iff key_shaped_def)
next
  case (2 p c s)
  show ?case
  proof (cases "p \<noteq> [] \<and> starts_with (c # s) p")
    case True
    then have "contains (replace_str p redacted (drop (length p) (c # s))) q"
      using 2(3,4) contains_after_redacted by simp
    then have "contains (drop (length p) (c # s)) q \<and> q \<noteq> p" using 2(1)[OF True 2(3)] by blast
    then show ?thesis by (metis append_take_drop_id contains_append_left)
  next
    case False
    have k: "list_all key_char q" "q \<noteq> []" using 2(3) by (auto simp: key_shaped_def)
    have "starts_with (c # replace_str p redacted s) q \<or> contains (replace_str p redacted s) q"
      using 2(4) False by (auto simp: contains_def split: if_splits option.splits)
    then show ?thesis
    proof
      assume a: "starts_with (c # replace_str p redacted s) q"
      then obtain q' where q: "q = c # q'" "starts_with (replace_str p redacted s) q'"
        using k(2) by (cases q) auto
      then have "starts_with (c # s) q" using starts_with_replaced[of q' p s] k(1) by simp
      then show ?thesis using False starts_with_contains k(2) by blast
    next
      assume "contains (replace_str p redacted s) q"
      then show ?thesis using 2(2)[OF False 2(3)] contains_ConsI by blast
    qed
  qed
qed

lemma scrub_one_contains: "key_shaped q \<Longrightarrow> contains (scrub_one p s) q \<Longrightarrow> contains s q \<and> q \<noteq> p"
  unfolding scrub_one_def using replaced_contains[of q p s] by (auto simp: key_shaped_def split: if_splits)

lemma scrub_contains: "key_shaped q \<Longrightarrow> contains (scrub secrets s) q \<Longrightarrow> contains s q \<and> q \<notin> set secrets"
  unfolding scrub_def
proof (induction secrets arbitrary: s)
  case Nil
  then show ?case by simp
next
  case (Cons p ps)
  have "contains (scrub_one p s) q \<and> q \<notin> set ps" using Cons.IH[of "scrub_one p s"] Cons.prems by simp
  then show ?case using scrub_one_contains[OF Cons.prems(1), of p s] by simp
qed

text \<open>A key that starts with another one is not removed as a whole when the shorter one comes first.\<close>

lemma prefix_leaks_the_rest: "scrub [''sk-a'', ''sk-abc''] ''sk-abc'' = ''<REDACTED>bc''"
  by code_simp

lemma hd_replaced:
  assumes "s \<noteq> []" and "p \<noteq> []" and "hd p \<noteq> hd s"
  shows "replace_str p r s \<noteq> [] \<and> hd (replace_str p r s) = hd s"
  using assms by (cases s; cases p) auto

lemma hd_scrub:
  assumes "\<forall>k\<in>set secrets. key_shaped k" and "s \<noteq> []" and "\<not> key_char (hd s)"
  shows "scrub secrets s \<noteq> [] \<and> hd (scrub secrets s) = hd s"
  using assms unfolding scrub_def
proof (induction secrets arbitrary: s)
  case Nil
  then show ?case by simp
next
  case (Cons p ps)
  have "key_shaped p" using Cons.prems by simp
  then have "p \<noteq> []" "hd p \<noteq> hd s" using Cons.prems(3) by (cases p; auto simp: key_shaped_def)+
  then have "scrub_one p s \<noteq> [] \<and> hd (scrub_one p s) = hd s"
    using hd_replaced[OF Cons.prems(2)] Cons.prems(2) by (simp add: scrub_one_def)
  then show ?case using Cons.IH[of "scrub_one p s"] Cons.prems by simp
qed

section \<open>What is on the disk\<close>

definition no_secret_on :: "string list \<Rightarrow> disk \<Rightarrow> bool" where
  "no_secret_on secrets d \<longleftrightarrow> (\<forall>p body k. dk_files d p = Some body \<longrightarrow> k \<in> set secrets \<longrightarrow> \<not> contains body k)"

lemma contains_take_key: "contains (take n s) k \<Longrightarrow> contains s k"
  by (metis append_take_drop_id contains_append_right)

text \<open>A write keeps the disk free of secrets when its text is, and does not start inside a key if it is appended.\<close>

lemma cut_write_clean:
  assumes d: "no_secret_on secrets d" and k: "\<forall>k\<in>set secrets. key_shaped k"
    and b: "\<forall>k\<in>set secrets. \<not> contains body k" and h: "app \<longrightarrow> body \<noteq> [] \<and> \<not> key_char (hd body)"
  shows "no_secret_on secrets (snd (cut_write cuts app path body d))"
proof -
  define old where "old = (if app then (case dk_files d path of Some c \<Rightarrow> c | None \<Rightarrow> []) else [])"
  have o: "\<not> contains old q" if "q \<in> set secrets" for q
    using that d k by (auto simp: old_def no_secret_on_def key_shaped_def contains_iff split: option.splits)
  have n: "\<not> contains (old @ take m body) q" if q: "q \<in> set secrets" for q m
  proof
    assume c: "contains (old @ take m body) q"
    have "take m body = [] \<or> \<not> key_char (hd (take m body)) \<or> old = []"
      using h by (cases m) (auto simp: old_def)
    moreover have "list_all key_char q" using k q by (auto simp: key_shaped_def)
    ultimately have "contains old q \<or> contains (take m body) q"
      using contains_across[OF _ _ c] c by (cases "old = []") auto
    then show False using o[OF q] b q contains_take_key by blast
  qed
  have f: "\<not> contains (old @ body) q" if "q \<in> set secrets" for q
    using n[OF that, of "length body"] by simp
  have e: "dk_files (snd (cut_write cuts app path body d)) = dk_files d
      \<or> (\<exists>m. dk_files (snd (cut_write cuts app path body d)) = (dk_files d)(path \<mapsto> old @ take m body))
      \<or> dk_files (snd (cut_write cuts app path body d)) = (dk_files d)(path \<mapsto> old @ body)"
    by (auto simp: cut_write_def old_def Let_def split: option.splits prod.splits)
  then show ?thesis using d n f by (auto simp: no_secret_on_def split: if_splits)
qed

lemma scrubbed_clean: "\<forall>k\<in>set secrets. key_shaped k \<Longrightarrow> \<forall>k\<in>set secrets. \<not> contains (scrub secrets s) k"
  using scrub_contains by blast

lemma append_line_clean:
  assumes d: "no_secret_on (tr_secrets r) d" and k: "\<forall>k\<in>set (tr_secrets r). key_shaped k"
    and l: "\<forall>k\<in>set (tr_secrets r). \<not> contains line k" "line \<noteq> []" "\<not> key_char (hd line)"
  shows "no_secret_on (tr_secrets r) (snd (append_line env r line d))"
proof -
  obtain x d1 where 1: "cut_write (tn_cuts env) True (log_path r) line d = (x, d1)" by fastforce
  obtain y d2 where 2: "cut_write (tn_cuts env) True (log_path r) [NL] d1 = (y, d2)" by fastforce
  have nl: "\<not> contains [NL] q" if "key_shaped q" for q
    using that contains_across_end[of q NL "[]" "[]"] by (auto simp: key_shaped_def contains_iff)
  have c1: "no_secret_on (tr_secrets r) d1" using cut_write_clean[OF d k l(1), of True] 1 l by (metis snd_conv)
  have c2: "no_secret_on (tr_secrets r) d2"
    using cut_write_clean[OF c1 k, of "[NL]" True "tn_cuts env" "log_path r"] 2 nl k by simp
  show ?thesis using c1 c2 by (simp add: append_line_def 1 2 split: option.split)
qed

lemma trace_record_clean:
  assumes d: "no_secret_on (tr_secrets r) d" and k: "\<forall>k\<in>set (tr_secrets r). key_shaped k"
    and j: "\<forall>kvs. starts_with (tn_json env (JObj kvs)) ''{''"
  shows "no_secret_on (tr_secrets r) (snd (trace_record env r event prompt response d))"
proof -
  obtain x d1 where 1: "write_trace_body env r ''prompts'' (te_request_sha event) (scrub (tr_secrets r) prompt) d = (x, d1)"
    by fastforce
  obtain y d2 where 2: "write_trace_body env r ''responses'' (te_response_sha event) (scrub (tr_secrets r) response) d1 = (y, d2)"
    by fastforce
  have c1: "no_secret_on (tr_secrets r) d1"
    using cut_write_clean[OF d k scrubbed_clean[OF k], of False] 1 unfolding write_trace_body_def by (metis snd_conv)
  have c2: "no_secret_on (tr_secrets r) d2"
    using cut_write_clean[OF c1 k scrubbed_clean[OF k], of False] 2 unfolding write_trace_body_def by (metis snd_conv)
  have "starts_with (tn_json env (event_json event)) ''{''" using j by (simp add: event_json_def)
  then have h: "tn_json env (event_json event) \<noteq> []" "hd (tn_json env (event_json event)) = CHR ''{''"
    using starts_with_hd by fastforce+
  have "no_secret_on (tr_secrets r) (snd (append_line env r (scrub (tr_secrets r) (tn_json env (event_json event))) d2))"
    using append_line_clean[OF c2 k scrubbed_clean[OF k]] hd_scrub[OF k h(1)] h(2) by simp
  then show ?thesis using c1 c2 by (simp add: trace_record_def 1 2 split: option.split)
qed

text \<open>A run: the recorder is opened, and records one call after the other; a failed write is only a warning.\<close>

fun record_calls :: "trace_env \<Rightarrow> trace_recorder \<Rightarrow> (trace_event \<times> string \<times> string) list \<Rightarrow> disk \<Rightarrow> disk" where
  "record_calls env r [] d = d"
| "record_calls env r ((e, prompt, response) # cs) d = record_calls env r cs (snd (trace_record env r e prompt response d))"

lemma record_calls_clean:
  assumes "no_secret_on (tr_secrets r) d" "\<forall>k\<in>set (tr_secrets r). key_shaped k" "\<forall>kvs. starts_with (tn_json env (JObj kvs)) ''{''"
  shows "no_secret_on (tr_secrets r) (record_calls env r cs d)"
  using assms(1)
proof (induction cs arbitrary: d)
  case Nil
  then show ?case by simp
next
  case (Cons c cs)
  then show ?case using trace_record_clean[OF _ assms(2,3)] by (cases c) simp
qed

text \<open>C21: No key gets into the trace: whatever requests and answers hold, however many calls are recorded and wherever
  writes fail or are cut, if the keys look like keys and none of them is in a file before, none of them is in a
  file afterwards: not in the bodies, nor in the log, nor across two lines of it.\<close>

theorem trace_never_leaks:
  assumes "\<forall>k\<in>set secrets. key_shaped k" and "\<forall>kvs. starts_with (tn_json env (JObj kvs)) ''{''" and "no_secret_on secrets d"
  shows "case trace_open env dir secrets d of
     (Inl e, d1) \<Rightarrow> no_secret_on secrets d1
   | (Inr r, d1) \<Rightarrow> no_secret_on secrets (record_calls env r cs d1)"
proof -
  have ne: "filter (\<lambda>s. s \<noteq> []) secrets = secrets" using assms(1) by (auto simp: filter_id_conv key_shaped_def)
  have new: "no_secret_on secrets (d\<lparr>dk_files := (dk_files d)(p \<mapsto> [])\<rparr>)" for p
    using assms(1,3) by (auto simp: no_secret_on_def key_shaped_def contains_iff)
  have run: "no_secret_on secrets (record_calls env \<lparr>tr_dir = t, tr_secrets = secrets\<rparr> cs d1)" if "no_secret_on secrets d1" for t d1
    using record_calls_clean[of "\<lparr>tr_dir = t, tr_secrets = secrets\<rparr>" d1 env cs] that assms(1,2) by simp
  show ?thesis
    using assms(3) run new by (simp add: trace_open_def Let_def ne split: option.split)
qed

definition demo_trace_env :: trace_env where
  "demo_trace_env = \<lparr>tn_mkdir = \<lambda>_. None, tn_open = \<lambda>_. None, tn_cuts = \<lambda>n. if n = 3 then Some (''disk full'', Some 2) else None,
     tn_flush = \<lambda>_. None, tn_json = \<lambda>_. ''{}''\<rparr>"

definition demo_trace_event :: trace_event where
  "demo_trace_event = \<lparr>te_provider = Mock, te_model = ''m'', te_temperature = Fin 0, te_request_sha = ''01'',
     te_response_sha = ''02'', te_tokens_in = 1, te_tokens_out = 1, te_latency_ms = 5, te_provider_request_id = Some ''sk-a''\<rparr>"

theorem trace_never_leaks_witness:
  "case trace_open demo_trace_env ''/p'' [''sk-a''] \<lparr>dk_files = Map.empty, dk_writes = 0\<rparr> of
     (Inl e, d1) \<Rightarrow> no_secret_on [''sk-a''] d1
   | (Inr r, d1) \<Rightarrow> no_secret_on [''sk-a''] (record_calls demo_trace_env r [(demo_trace_event, ''key sk-a'', ''sk-a''), (demo_trace_event, ''x'', ''y'')] d1)"
proof (rule trace_never_leaks)
  have "key_shaped ''sk-a''" by code_simp
  then show "\<forall>k\<in>set [''sk-a'']. key_shaped k" by simp
  show "\<forall>kvs. starts_with (tn_json demo_trace_env (JObj kvs)) ''{''" by (simp add: demo_trace_env_def)
  show "no_secret_on [''sk-a''] \<lparr>dk_files = Map.empty, dk_writes = 0\<rparr>" by (simp add: no_secret_on_def)
qed

end
