(* ===== verification/Vendors.thy ===== *)
theory Vendors
  imports Trace
begin

text \<open>
  The clients of the model vendors (\<open>crates/vergil-llm/src/anthropic.rs\<close>, \<open>openai.rs\<close>): the requests they build, the
  mapping of errors, the retried call, and what of it is traced. The vendors' libraries are parameters: what the
  \<open>n\<close>-th call answers, whether a builder refuses, and serde's texts. Of their types only what the code reads is kept.
\<close>

section \<open>Requests and answers of the Anthropic library\<close>

record sdk_tool =
  sl_name :: string
  sl_description :: "string option"
  sl_input_schema :: json

record message_params =
  mp_model :: string
  mp_messages :: "(role \<times> string) list"
  mp_max_tokens :: u32
  mp_tools :: "sdk_tool list option"
  mp_tool_choice :: "string option"
  mp_temperature :: "float option"
  mp_system :: "string option"

datatype content_block = TextBlock string | ToolUseBlock json | OtherBlock

record sdk_response =
  sk_id :: string
  sk_content :: "content_block list"
  sk_input_tokens :: u32
  sk_output_tokens :: u32

definition anthropic_custom_temperature :: "string \<Rightarrow> bool" where
  "anthropic_custom_temperature model =
     (let lower = to_lower model in \<not> (starts_with lower ''claude-opus-4'' \<or> starts_with lower ''claude-opus-5''))"

definition build_message_params :: "completion_request \<Rightarrow> message_params" where
  "build_message_params req =
     \<lparr>mp_model = cr_model req, mp_messages = map (\<lambda>m. (ms_role m, ms_content m)) (cr_messages req),
      mp_max_tokens = cr_max_tokens req, mp_tools = None, mp_tool_choice = None,
      mp_temperature = (if anthropic_custom_temperature (cr_model req) then Some (cr_temperature req) else None),
      mp_system = cr_system req\<rparr>"

definition build_structured_params :: "structured_request \<Rightarrow> message_params" where
  "build_structured_params req =
     \<lparr>mp_model = st_model req, mp_messages = map (\<lambda>m. (ms_role m, ms_content m)) (st_messages req),
      mp_max_tokens = st_max_tokens req,
      mp_tools = Some [\<lparr>sl_name = st_schema_name req,
        sl_description = Some (''Return the answer as structured input to this tool. Schema: '' @ st_schema_name req),
        sl_input_schema = st_schema req\<rparr>],
      mp_tool_choice = Some (st_schema_name req),
      mp_temperature = (if anthropic_custom_temperature (st_model req) then Some (st_temperature req) else None),
      mp_system = st_system req\<rparr>"

text \<open>The texts, with a line feed before each but the first that is not empty.\<close>

definition push_text :: "string \<Rightarrow> string \<Rightarrow> string" where
  "push_text out t = (if out \<noteq> [] then out @ [NL] @ t else t)"

definition flatten_text :: "content_block list \<Rightarrow> string" where
  "flatten_text blocks = foldl (\<lambda>out b. case b of TextBlock t \<Rightarrow> push_text out t | _ \<Rightarrow> out) [] blocks"

fun first_tool_use :: "content_block list \<Rightarrow> json option" where
  "first_tool_use [] = None"
| "first_tool_use (ToolUseBlock v # bs) = Some v"
| "first_tool_use (b # bs) = first_tool_use bs"

definition auth_words :: "string list" where
  "auth_words = [''401'', ''403'', ''authentication'', ''unauthorized'', ''forbidden'', ''invalid api key'', ''invalid x-api-key'',
     ''authentication_error'', ''permission_error'']"

definition rate_words :: "string list" where
  "rate_words = [''429'', ''rate limit'', ''rate_limit'', ''overloaded'', ''too many requests'']"

definition permanent_words :: "string list" where
  "permanent_words = [''invalid_request_error'', ''400'', ''schema'', ''bad request'']"

text \<open>The words of transient errors need no list: what no other list has is transient as well.\<close>

definition map_message_error :: "string \<Rightarrow> llm_error" where
  "map_message_error msg =
     (let lower = to_lower msg in
      if list_ex (contains lower) auth_words then Auth msg
      else if list_ex (contains lower) rate_words then RateLimit 500000000
      else if list_ex (contains lower) permanent_words then Permanent msg
      else Transient msg)"

section \<open>Requests and answers of the OpenAI library\<close>

datatype chat_message = SystemChat string | UserChat string | AssistantChat string

record function_object =
  fo_name :: string
  fo_description :: string
  fo_parameters :: json

record chat_params =
  cp_model :: string
  cp_messages :: "chat_message list"
  cp_max_tokens :: u32
  cp_tools :: "function_object list option"
  cp_tool_choice :: "string option"
  cp_temperature :: "float option"

datatype tool_call = FunctionCall string | OtherCall

record chat_choice =
  cc_content :: "string option"
  cc_tool_calls :: "tool_call list option"

record chat_response =
  cs_id :: string
  cs_choices :: "chat_choice list"
  cs_usage :: "(u32 \<times> u32) option"

record embed_params =
  ep_model :: string
  ep_input :: "string list"

record embed_response =
  eb_vectors :: "float list list"
  eb_prompt_tokens :: u32
  eb_total_tokens :: u32

text \<open>The error of the library with the text it displays; the status of an API error is its number.\<close>

datatype openai_error =
    OaApi nat string
  | OaReqwest string
  | OaStream string
  | OaJson string
  | OaInvalid string
  | OaOther string

fun map_openai_error :: "openai_error \<Rightarrow> llm_error" where
  "map_openai_error (OaApi status m) =
     (if status = 401 \<or> status = 403 then Auth m
      else if status = 429 then RateLimit 500000000
      else if status = 400 \<or> status = 404 \<or> status = 422 then Permanent m
      else Transient m)"
| "map_openai_error (OaReqwest m) = Transient m"
| "map_openai_error (OaStream m) = Transient m"
| "map_openai_error (OaJson m) = Schema m"
| "map_openai_error (OaInvalid m) = Permanent m"
| "map_openai_error (OaOther m) = Transient m"

definition openai_custom_temperature :: "string \<Rightarrow> bool" where
  "openai_custom_temperature model =
     (let lower = to_lower model in \<not> list_ex (starts_with lower) [''gpt-5'', ''o1'', ''o3'', ''o4''])"

definition flatten_choices :: "chat_response \<Rightarrow> string" where
  "flatten_choices resp =
     foldl (\<lambda>out c. case cc_content c of Some t \<Rightarrow> push_text out t | None \<Rightarrow> out) [] (cs_choices resp)"

section \<open>The libraries\<close>

record vendor_env =
  ve_anthropic :: "nat \<Rightarrow> message_params \<Rightarrow> string + sdk_response"
  ve_openai :: "nat \<Rightarrow> chat_params \<Rightarrow> openai_error + chat_response"
  ve_openai_embed :: "nat \<Rightarrow> embed_params \<Rightarrow> openai_error + embed_response"
  ve_build_message :: "chat_message \<Rightarrow> string option"
  ve_build_function :: "function_object \<Rightarrow> string option"
  ve_build_chat :: "chat_params \<Rightarrow> string option"
  ve_build_embed :: "embed_params \<Rightarrow> string option"
  ve_parse_json :: "string \<Rightarrow> json option"
  ve_jitter :: "nat \<Rightarrow> nat"
  ve_latency :: "nat \<Rightarrow> u64"
  ve_completion_text :: "completion_request \<Rightarrow> string"
  ve_structured_text :: "structured_request \<Rightarrow> string"
  ve_embed_text :: "embed_request \<Rightarrow> string"
  ve_str_text :: "string \<Rightarrow> string"
  ve_sdk_text :: "sdk_response \<Rightarrow> string option"
  ve_chat_text :: "chat_response \<Rightarrow> string option"
  ve_embedded_text :: "embed_response \<Rightarrow> string option"
  ve_sha :: "string \<Rightarrow> u8 list"
  ve_trace :: trace_env

text \<open>\<open>serde_json::to_string\<close> with \<open>unwrap_or_default\<close>.\<close>

definition or_default :: "string option \<Rightarrow> string" where
  "or_default x = (case x of Some s \<Rightarrow> s | None \<Rightarrow> [])"

fun first_function :: "vendor_env \<Rightarrow> tool_call list \<Rightarrow> json option" where
  "first_function env [] = None"
| "first_function env (FunctionCall arguments # cs) = ve_parse_json env arguments"
| "first_function env (OtherCall # cs) = first_function env cs"

definition first_function_arguments_json :: "vendor_env \<Rightarrow> chat_response \<Rightarrow> json option" where
  "first_function_arguments_json env resp =
     (case cs_choices resp of
        [] \<Rightarrow> None
      | c # cs \<Rightarrow> (case cc_tool_calls c of None \<Rightarrow> None | Some tcs \<Rightarrow> first_function env tcs))"

definition build_chat_message :: "vendor_env \<Rightarrow> chat_message \<Rightarrow> llm_error + chat_message" where
  "build_chat_message env m =
     (case ve_build_message env m of
        None \<Rightarrow> Inr m
      | Some e \<Rightarrow> Inl (Permanent (''build ''
          @ (case m of SystemChat t \<Rightarrow> ''system'' | UserChat t \<Rightarrow> ''user'' | AssistantChat t \<Rightarrow> ''assistant'') @ '' message: '' @ e)))"

fun build_chat_messages :: "vendor_env \<Rightarrow> chat_message list \<Rightarrow> llm_error + chat_message list" where
  "build_chat_messages env [] = Inr []"
| "build_chat_messages env (m # ms) =
     (case build_chat_message env m of
        Inl e \<Rightarrow> Inl e
      | Inr b \<Rightarrow> (case build_chat_messages env ms of Inl e \<Rightarrow> Inl e | Inr bs \<Rightarrow> Inr (b # bs)))"

definition to_openai_messages :: "vendor_env \<Rightarrow> message list \<Rightarrow> string option \<Rightarrow> llm_error + chat_message list" where
  "to_openai_messages env msgs system =
     build_chat_messages env
       ((case system of Some s \<Rightarrow> [SystemChat s] | None \<Rightarrow> [])
        @ map (\<lambda>m. case ms_role m of User \<Rightarrow> UserChat (ms_content m) | Assistant \<Rightarrow> AssistantChat (ms_content m)) msgs)"

section \<open>The calls\<close>

text \<open>The state: how many calls went to a vendor so far, and the disk.\<close>

type_synonym vendor_state = "nat \<times> disk"

definition numbered_call :: "(nat \<Rightarrow> 'p \<Rightarrow> 'e + 'r) \<Rightarrow> ('e \<Rightarrow> llm_error) \<Rightarrow> 'p \<Rightarrow> vendor_state \<Rightarrow> (llm_error + 'r) \<times> vendor_state" where
  "numbered_call answer map_error p s =
     ((case answer (fst s) p of Inl e \<Rightarrow> Inl (map_error e) | Inr r \<Rightarrow> Inr r), (fst s + 1, snd s))"

definition client_record :: "vendor_env \<Rightarrow> trace_recorder option \<Rightarrow> llm_call_params \<Rightarrow> string \<Rightarrow> string \<Rightarrow> vendor_state \<Rightarrow> vendor_state" where
  "client_record env tracer p prompt response s =
     (case tracer of
        None \<Rightarrow> s
      | Some rec \<Rightarrow> (fst s, snd (trace_record (ve_trace env) rec (llm_call_event p) prompt response (snd s))))"

definition anthropic_params :: "vendor_env \<Rightarrow> string \<Rightarrow> float \<Rightarrow> string \<Rightarrow> sdk_response \<Rightarrow> u64 \<Rightarrow> llm_call_params" where
  "anthropic_params env model temperature prompt resp latency =
     \<lparr>lp_provider = Anthropic, lp_model = model, lp_temperature = temperature, lp_request_sha = ve_sha env prompt,
      lp_response_sha = ve_sha env (ve_str_text env (sk_id resp)), lp_tokens_in = sk_input_tokens resp,
      lp_tokens_out = sk_output_tokens resp, lp_latency_ms = latency, lp_provider_request_id = Some (sk_id resp)\<rparr>"

definition anthropic_complete ::
    "vendor_env \<Rightarrow> trace_recorder option \<Rightarrow> completion_request \<Rightarrow> vendor_state \<Rightarrow> (llm_error + completion) \<times> vendor_state" where
  "anthropic_complete env tracer req s =
     (case with_retry (ve_jitter env) (numbered_call (ve_anthropic env) map_message_error (build_message_params req)) s of
        (Inl e, sleeps, s1) \<Rightarrow> (Inl e, s1)
      | (Inr resp, sleeps, s1) \<Rightarrow>
          (let prompt = ve_completion_text env req; latency = ve_latency env (fst s1) in
           (Inr \<lparr>co_content = flatten_text (sk_content resp), co_tokens_in = sk_input_tokens resp,
                 co_tokens_out = sk_output_tokens resp, co_latency_ms = latency, co_request_id = Some (sk_id resp)\<rparr>,
            client_record env tracer (anthropic_params env (cr_model req) (cr_temperature req) prompt resp latency) prompt
              (or_default (ve_sdk_text env resp)) s1)))"

definition anthropic_complete_structured ::
    "vendor_env \<Rightarrow> trace_recorder option \<Rightarrow> structured_request \<Rightarrow> vendor_state \<Rightarrow> (llm_error + structured_response) \<times> vendor_state" where
  "anthropic_complete_structured env tracer req s =
     (case with_retry (ve_jitter env) (numbered_call (ve_anthropic env) map_message_error (build_structured_params req)) s of
        (Inl e, sleeps, s1) \<Rightarrow> (Inl e, s1)
      | (Inr resp, sleeps, s1) \<Rightarrow>
          (let prompt = ve_structured_text env req; latency = ve_latency env (fst s1) in
           case first_tool_use (sk_content resp) of
             None \<Rightarrow> (Inl (Schema (''structured response missing tool_use block for schema '' @ st_schema_name req)), s1)
           | Some v \<Rightarrow>
               (Inr \<lparr>rs_value = v, rs_tokens_in = sk_input_tokens resp, rs_tokens_out = sk_output_tokens resp,
                     rs_latency_ms = latency, rs_request_id = Some (sk_id resp)\<rparr>,
                client_record env tracer (anthropic_params env (st_model req) (st_temperature req) prompt resp latency) prompt
                  (or_default (ve_sdk_text env resp)) s1)))"

definition anthropic_embed :: "embed_request \<Rightarrow> vendor_state \<Rightarrow> (llm_error + embedding) \<times> vendor_state" where
  "anthropic_embed req s = (Inl (Permanent ''embeddings unsupported on Anthropic; use Voyage or OpenAI''), s)"

definition chat_usage :: "chat_response \<Rightarrow> u32 \<times> u32" where
  "chat_usage resp = (case cs_usage resp of Some u \<Rightarrow> u | None \<Rightarrow> (0, 0))"

definition openai_params :: "vendor_env \<Rightarrow> string \<Rightarrow> float \<Rightarrow> string \<Rightarrow> chat_response \<Rightarrow> u64 \<Rightarrow> llm_call_params" where
  "openai_params env model temperature prompt resp latency =
     \<lparr>lp_provider = OpenAi, lp_model = model, lp_temperature = temperature, lp_request_sha = ve_sha env prompt,
      lp_response_sha = ve_sha env (ve_str_text env (cs_id resp)), lp_tokens_in = fst (chat_usage resp),
      lp_tokens_out = snd (chat_usage resp), lp_latency_ms = latency, lp_provider_request_id = Some (cs_id resp)\<rparr>"

definition openai_chat_request :: "vendor_env \<Rightarrow> completion_request \<Rightarrow> llm_error + chat_params" where
  "openai_chat_request env req =
     (case to_openai_messages env (cr_messages req) (cr_system req) of
        Inl e \<Rightarrow> Inl e
      | Inr messages \<Rightarrow>
          (let p = \<lparr>cp_model = cr_model req, cp_messages = messages, cp_max_tokens = cr_max_tokens req, cp_tools = None,
                    cp_tool_choice = None,
                    cp_temperature = (if openai_custom_temperature (cr_model req) then Some (cr_temperature req) else None)\<rparr>
           in case ve_build_chat env p of Some e \<Rightarrow> Inl (Permanent (''build chat request: '' @ e)) | None \<Rightarrow> Inr p))"

definition openai_complete ::
    "vendor_env \<Rightarrow> trace_recorder option \<Rightarrow> completion_request \<Rightarrow> vendor_state \<Rightarrow> (llm_error + completion) \<times> vendor_state" where
  "openai_complete env tracer req s =
     (case openai_chat_request env req of
        Inl e \<Rightarrow> (Inl e, s)
      | Inr p \<Rightarrow>
     (case with_retry (ve_jitter env) (numbered_call (ve_openai env) map_openai_error p) s of
        (Inl e, sleeps, s1) \<Rightarrow> (Inl e, s1)
      | (Inr resp, sleeps, s1) \<Rightarrow>
          (let prompt = ve_completion_text env req; latency = ve_latency env (fst s1) in
           (Inr \<lparr>co_content = flatten_choices resp, co_tokens_in = fst (chat_usage resp), co_tokens_out = snd (chat_usage resp),
                 co_latency_ms = latency, co_request_id = Some (cs_id resp)\<rparr>,
            client_record env tracer (openai_params env (cr_model req) (cr_temperature req) prompt resp latency) prompt
              (or_default (ve_chat_text env resp)) s1))))"

definition openai_structured_request :: "vendor_env \<Rightarrow> structured_request \<Rightarrow> llm_error + chat_params" where
  "openai_structured_request env req =
     (case to_openai_messages env (st_messages req) (st_system req) of
        Inl e \<Rightarrow> Inl e
      | Inr messages \<Rightarrow>
          (let f = \<lparr>fo_name = st_schema_name req,
                    fo_description = ''Return the answer as structured arguments to this function. Schema: '' @ st_schema_name req,
                    fo_parameters = st_schema req\<rparr>
           in case ve_build_function env f of
                Some e \<Rightarrow> Inl (Permanent (''build function object: '' @ e))
              | None \<Rightarrow>
                  (let p = \<lparr>cp_model = st_model req, cp_messages = messages, cp_max_tokens = st_max_tokens req,
                            cp_tools = Some [f], cp_tool_choice = Some (st_schema_name req),
                            cp_temperature = (if openai_custom_temperature (st_model req) then Some (st_temperature req) else None)\<rparr>
                   in case ve_build_chat env p of Some e \<Rightarrow> Inl (Permanent (''build chat request: '' @ e)) | None \<Rightarrow> Inr p)))"

definition openai_complete_structured ::
    "vendor_env \<Rightarrow> trace_recorder option \<Rightarrow> structured_request \<Rightarrow> vendor_state \<Rightarrow> (llm_error + structured_response) \<times> vendor_state" where
  "openai_complete_structured env tracer req s =
     (case openai_structured_request env req of
        Inl e \<Rightarrow> (Inl e, s)
      | Inr p \<Rightarrow>
     (case with_retry (ve_jitter env) (numbered_call (ve_openai env) map_openai_error p) s of
        (Inl e, sleeps, s1) \<Rightarrow> (Inl e, s1)
      | (Inr resp, sleeps, s1) \<Rightarrow>
          (let prompt = ve_structured_text env req; latency = ve_latency env (fst s1) in
           case first_function_arguments_json env resp of
             None \<Rightarrow> (Inl (Schema (''structured response missing function-tool call for schema '' @ st_schema_name req)), s1)
           | Some v \<Rightarrow>
               (Inr \<lparr>rs_value = v, rs_tokens_in = fst (chat_usage resp), rs_tokens_out = snd (chat_usage resp),
                     rs_latency_ms = latency, rs_request_id = Some (cs_id resp)\<rparr>,
                client_record env tracer (openai_params env (st_model req) (st_temperature req) prompt resp latency) prompt
                  (or_default (ve_chat_text env resp)) s1))))"

text \<open>The digest that names the file of the answer is that of the model's name.\<close>

definition embed_trace_params :: "vendor_env \<Rightarrow> embed_request \<Rightarrow> embed_response \<Rightarrow> u64 \<Rightarrow> llm_call_params" where
  "embed_trace_params env req resp latency =
     \<lparr>lp_provider = OpenAi, lp_model = er_model req, lp_temperature = Fin 0, lp_request_sha = ve_sha env (ve_embed_text env req),
      lp_response_sha = ve_sha env (ve_str_text env (er_model req)), lp_tokens_in = eb_prompt_tokens resp, lp_tokens_out = 0,
      lp_latency_ms = latency, lp_provider_request_id = None\<rparr>"

definition openai_embed ::
    "vendor_env \<Rightarrow> trace_recorder option \<Rightarrow> embed_request \<Rightarrow> vendor_state \<Rightarrow> (llm_error + embedding) \<times> vendor_state" where
  "openai_embed env tracer req s =
     (let p = \<lparr>ep_model = er_model req, ep_input = er_input req\<rparr> in
      case ve_build_embed env p of
        Some e \<Rightarrow> (Inl (Permanent (''build embed request: '' @ e)), s)
      | None \<Rightarrow>
     (case with_retry (ve_jitter env) (numbered_call (ve_openai_embed env) map_openai_error p) s of
        (Inl e, sleeps, s1) \<Rightarrow> (Inl e, s1)
      | (Inr resp, sleeps, s1) \<Rightarrow>
          (let latency = ve_latency env (fst s1) in
           (Inr \<lparr>em_vectors = eb_vectors resp, em_tokens = eb_total_tokens resp, em_latency_ms = latency\<rparr>,
            client_record env tracer (embed_trace_params env req resp latency) (ve_embed_text env req)
              (or_default (ve_embedded_text env resp)) s1))))"

section \<open>Lemmas\<close>

lemma model_tests:
  "\<not> anthropic_custom_temperature ''claude-opus-4-7''" "anthropic_custom_temperature ''claude-sonnet-4-6''"
  "\<not> openai_custom_temperature ''gpt-5-mini''" "openai_custom_temperature ''gpt-4o-mini''"
  "flatten_text [TextBlock ''alpha'', ToolUseBlock JNull, TextBlock ''beta''] = ''alpha'' @ [NL] @ ''beta''"
  by code_simp+

text \<open>The Anthropic errors are told apart by text: a server error whose text happens to hold 401 is not retried.\<close>

lemma digits_decide:
  "map_message_error ''500 Internal'' = Transient ''500 Internal''"
  "map_message_error ''500 Internal (request req_7401x)'' = Auth ''500 Internal (request req_7401x)''"
  "map_message_error ''502: after 1400 ms'' = Permanent ''502: after 1400 ms''"
  by code_simp+

lemma numbered_call_simps [simp]:
  "fst (numbered_call answer me p (n, d)) = (case answer n p of Inl e \<Rightarrow> Inl (me e) | Inr r \<Rightarrow> Inr r)"
  "snd (numbered_call answer me p (n, d)) = (n + 1, d)"
  by (simp_all add: numbered_call_def)

text \<open>
  A retried call: it makes one, two or three calls and touches nothing else, its result is that of the last one, and
  the ones before it ended in an error that passes. It only gives up on such an error after the third.
\<close>

definition last_answer :: "(nat \<Rightarrow> 'p \<Rightarrow> 'e + 'r) \<Rightarrow> ('e \<Rightarrow> llm_error) \<Rightarrow> 'p \<Rightarrow> nat \<Rightarrow> llm_error + 'r" where
  "last_answer answer me p m = (case answer m p of Inl e \<Rightarrow> Inl (me e) | Inr r \<Rightarrow> Inr r)"

definition retried :: "(nat \<Rightarrow> 'p \<Rightarrow> 'e + 'r) \<Rightarrow> ('e \<Rightarrow> llm_error) \<Rightarrow> 'p \<Rightarrow> nat \<Rightarrow> nat \<Rightarrow> bool" where
  "retried answer me p n m \<longleftrightarrow>
     n < m \<and> m \<le> n + 3 \<and> list_all (\<lambda>i. retriable (last_answer answer me p i)) [n..<m - 1]
     \<and> (retriable (last_answer answer me p (m - 1)) \<longrightarrow> m = n + 3)"

lemma numbered_retry:
  "with_retry rnd (numbered_call answer me p) (n, d) = (r, sleeps, s) \<Longrightarrow>
     \<exists>m. s = (m, d) \<and> retried answer me p n m \<and> r = last_answer answer me p (m - 1)"
proof -
  assume a: "with_retry rnd (numbered_call answer me p) (n, d) = (r, sleeps, s)"
  have u: "[0..<max_attempts] = [0, 1, 2]" by (simp add: max_attempts_def upt_rec)
  have c: "numbered_call answer me p (k, d) = (last_answer answer me p k, k + 1, d)" for k
    by (simp add: numbered_call_def last_answer_def)
  have x: "[n..<n] = []" "[n..<Suc n] = [n]" "[n..<Suc (Suc n)] = [n, Suc n]" by (simp_all add: upt_rec)
  have first: ?thesis if "r = last_answer answer me p n" "s = (n + 1, d)" "\<not> retriable r"
    using that by (intro exI[of _ "n + 1"]) (simp add: retried_def x)
  have second: ?thesis if "r = last_answer answer me p (Suc n)" "s = (n + 2, d)" "\<not> retriable r"
    "retriable (last_answer answer me p n)"
    using that by (intro exI[of _ "n + 2"]) (simp add: retried_def x)
  have third: ?thesis if "r = last_answer answer me p (Suc (Suc n))" "s = (n + 3, d)"
    "retriable (last_answer answer me p n)" "retriable (last_answer answer me p (Suc n))"
    using that by (intro exI[of _ "n + 3"]) (simp add: retried_def x numeral_3_eq_3)
  have stop: "retry_delay j e k = None" if "\<not> passing e" for j e k using that by (simp add: retry_delay_None)
  have go: "\<exists>y. retry_delay j e k = Some y" if "passing e" for j e k using that retry_delay_None by blast
  note run = with_retry_def u c
  show ?thesis
  proof (cases "last_answer answer me p n")
    case (Inr v)
    then have "r = Inr v \<and> s = (n + 1, d)" using a by (simp add: run)
    then show ?thesis using Inr by (intro first) simp_all
  next
    case e0: (Inl e0)
    show ?thesis
    proof (cases "passing e0")
      case False
      then have "r = Inl e0 \<and> s = (n + 1, d)" using a e0 stop[OF False] by (simp add: run)
      then show ?thesis using e0 False by (intro first) simp_all
    next
      case p0: True
      obtain y0 where y0: "retry_delay (rnd 0) e0 0 = Some y0" using go[OF p0] by blast
      show ?thesis
      proof (cases "last_answer answer me p (Suc n)")
        case (Inr v)
        then have "r = Inr v \<and> s = (n + 2, d)" using a e0 p0 y0 by (simp add: run)
        then show ?thesis using Inr e0 p0 by (intro second) simp_all
      next
        case e1: (Inl e1)
        show ?thesis
        proof (cases "passing e1")
          case False
          then have "r = Inl e1 \<and> s = (n + 2, d)" using a e0 p0 y0 e1 stop[OF False] by (simp add: run)
          then show ?thesis using e0 p0 e1 False by (intro second) simp_all
        next
          case p1: True
          obtain y1 where y1: "retry_delay (rnd 1) e1 1 = Some y1" using go[OF p1] by blast
          have "r = last_answer answer me p (Suc (Suc n)) \<and> s = (n + 3, d)" using a e0 p0 y0 e1 p1 y1
            by (cases "last_answer answer me p (Suc (Suc n))") (auto simp: run split: option.splits)
          then show ?thesis using e0 p0 e1 p1 by (intro third) simp_all
        qed
      qed
    qed
  qed
qed

lemma client_record_calls [simp]: "fst (client_record env tracer p prompt response s) = fst s"
  by (simp add: client_record_def split: option.split)

text \<open>The bodies of two embedding calls to one model go to one file, and the second replaces the first.\<close>

lemma embeddings_share_a_file:
  "te_response_sha (llm_call_event (embed_trace_params env (er\<lparr>er_input := i\<rparr>) resp1 l1))
     = te_response_sha (llm_call_event (embed_trace_params env er resp2 l2))"
  by (simp add: llm_call_event_def embed_trace_params_def)


end
