(* ===== verification/Sandbox.thy ===== *)
theory Sandbox
  imports ServiceApi
begin

text \<open>
  The sandbox around child processes (\<open>crates/vergil-solidity/src/sandbox.rs\<close>): the profile for \<open>sandbox-exec\<close>, the
  arguments of \<open>bwrap\<close>, and the choice between them. Nothing in the sources calls it yet. The operating system and
  the search path are parameters.
\<close>

record sandbox_config =
  sb_project_dir :: string
  sb_allow_network :: bool
  sb_extra_writable :: "string list"

datatype sandbox_kind = MacosSandboxExec | LinuxBubblewrap | NoSandbox

datatype host_os = HostMacos | HostLinux | HostOther

text \<open>\<open>which_in_path\<close>: the first directory of the search path that holds the file.\<close>

fun first_with_file :: "(string \<Rightarrow> bool) \<Rightarrow> string \<Rightarrow> string list \<Rightarrow> string option" where
  "first_with_file is_file bin [] = None"
| "first_with_file is_file bin (dir # dirs) =
     (if is_file (path_join dir bin) then Some (path_join dir bin) else first_with_file is_file bin dirs)"

definition which_in_path :: "(string \<Rightarrow> bool) \<Rightarrow> string list option \<Rightarrow> string \<Rightarrow> string option" where
  "which_in_path is_file path_env bin = Option.bind path_env (first_with_file is_file bin)"

definition sandbox_detect :: "host_os \<Rightarrow> (string \<Rightarrow> bool) \<Rightarrow> string list option \<Rightarrow> sandbox_kind" where
  "sandbox_detect os is_file path_env =
     (if os = HostMacos \<and> which_in_path is_file path_env ''sandbox-exec'' \<noteq> None then MacosSandboxExec
      else if os = HostLinux \<and> which_in_path is_file path_env ''bwrap'' \<noteq> None then LinuxBubblewrap
      else NoSandbox)"

definition escape_scheme_string :: "string \<Rightarrow> string" where
  "escape_scheme_string s = replace_str [DQ] [BSL, DQ] (replace_str [BSL] [BSL, BSL] s)"

definition write_rule :: "string \<Rightarrow> string" where
  "write_rule p = ''  (allow file-write* (subpath '' @ DQ # escape_scheme_string p @ DQ # ''))'' @ [NL]"

definition profile_head :: string where
  "profile_head = ''(version 1)'' @ [NL] @ '';; Vergil subprocess sandbox profile '' @ em_dash @ '' Phase 4 Slice B1.'' @ [NL]
     @ ''(deny default)'' @ [NL] @ ''(allow process-fork)'' @ [NL] @ ''(allow process-exec)'' @ [NL]
     @ ''(allow signal (target self))'' @ [NL] @ ''(allow file-read*)'' @ [NL]"

definition profile_tail :: string where
  "profile_tail = [NL] @ ''(allow mach-lookup)'' @ [NL] @ ''(allow ipc-posix-shm)'' @ [NL] @ ''(allow ipc-sysv-shm)'' @ [NL]
     @ ''(allow sysctl-read)'' @ [NL]"

definition fixed_rule :: "string \<Rightarrow> string" where
  "fixed_rule p = ''  (allow file-write* (subpath '' @ DQ # p @ DQ # ''))'' @ [NL]"

definition build_macos_profile :: "sandbox_config \<Rightarrow> string" where
  "build_macos_profile cfg =
     profile_head @ write_rule (sb_project_dir cfg) @ concat (map write_rule (sb_extra_writable cfg))
     @ fixed_rule ''/private/tmp'' @ fixed_rule ''/private/var/folders'' @ fixed_rule ''/tmp''
     @ (if sb_allow_network cfg then ''  (allow network*)'' else ''  (deny network*)'') @ profile_tail"

definition build_bwrap_args :: "sandbox_config \<Rightarrow> string list" where
  "build_bwrap_args cfg =
     [''--ro-bind'', ''/usr'', ''/usr'', ''--ro-bind'', ''/lib'', ''/lib'', ''--ro-bind-try'', ''/lib64'', ''/lib64'',
      ''--ro-bind-try'', ''/etc/ssl'', ''/etc/ssl'', ''--ro-bind-try'', ''/etc/resolv.conf'', ''/etc/resolv.conf'',
      ''--proc'', ''/proc'', ''--dev'', ''/dev'', ''--tmpfs'', ''/tmp'', ''--bind'', sb_project_dir cfg, sb_project_dir cfg]
     @ (if \<not> sb_allow_network cfg then [''--unshare-net''] else [])
     @ concat (map (\<lambda>p. [''--bind'', p, p]) (sb_extra_writable cfg))
     @ [''--die-with-parent'']"

text \<open>The program to start and its first arguments.\<close>

definition sandbox_command :: "string \<Rightarrow> sandbox_kind \<Rightarrow> sandbox_config \<Rightarrow> string \<times> string list" where
  "sandbox_command program kind cfg =
     (case kind of
        MacosSandboxExec \<Rightarrow> (''sandbox-exec'', [''-p'', build_macos_profile cfg, program])
      | LinuxBubblewrap \<Rightarrow> (''bwrap'', build_bwrap_args cfg @ [''--'', program])
      | NoSandbox \<Rightarrow> (program, []))"

section \<open>How the profile is read\<close>

text \<open>
  A reader of the profile's language, as far as strings go: a string starts and ends with a quote, and a backslash
  takes the next character as it is. The reader gives all strings of a text.
\<close>

fun read_strings :: "string option \<Rightarrow> string \<Rightarrow> string list option" where
  "read_strings None [] = Some []"
| "read_strings (Some acc) [] = None"
| "read_strings None (c # s) = (if c = DQ then read_strings (Some []) s else read_strings None s)"
| "read_strings (Some acc) (c # s) =
     (if c = DQ then map_option (\<lambda>xs. acc # xs) (read_strings None s)
      else if c = BSL then (case s of [] \<Rightarrow> None | e # s' \<Rightarrow> read_strings (Some (acc @ [e])) s')
      else read_strings (Some (acc @ [c])) s)"

fun scheme_char :: "char \<Rightarrow> string" where
  "scheme_char c = (if c = BSL then [BSL, BSL] else if c = DQ then [BSL, DQ] else [c])"

lemma escape_scheme_chars: "escape_scheme_string s = concat (map scheme_char s)"
  unfolding escape_scheme_string_def by (induction s) (simp_all add: replace_str_single)

lemma read_escaped: "read_strings (Some acc) (concat (map scheme_char p) @ DQ # s) = map_option (\<lambda>xs. (acc @ p) # xs) (read_strings None s)"
proof (induction p arbitrary: acc)
  case Nil
  then show ?case by simp
next
  case (Cons c p)
  then show ?case by (cases "c = BSL"; cases "c = DQ") simp_all
qed

lemma read_plain: "list_all (\<lambda>c. c \<noteq> DQ) t \<Longrightarrow> read_strings None (t @ s) = read_strings None s"
  by (induction t) auto

lemma read_fixed: "list_all (\<lambda>c. c \<noteq> DQ \<and> c \<noteq> BSL) p \<Longrightarrow> read_strings (Some acc) (p @ DQ # s) = map_option (\<lambda>xs. (acc @ p) # xs) (read_strings None s)"
  by (induction p arbitrary: acc) auto

lemma plain_parts: "list_all (\<lambda>c. c \<noteq> DQ) ''  (allow file-write* (subpath ''" "list_all (\<lambda>c. c \<noteq> DQ) (''))'' @ [NL])"
  "list_all (\<lambda>c. c \<noteq> DQ) profile_head" "list_all (\<lambda>c. c \<noteq> DQ) profile_tail"
  "list_all (\<lambda>c. c \<noteq> DQ) ''  (allow network*)''" "list_all (\<lambda>c. c \<noteq> DQ) ''  (deny network*)''"
  by code_simp+

lemma read_write_rule: "read_strings None (write_rule p @ s) = map_option (\<lambda>xs. p # xs) (read_strings None s)"
proof -
  have "write_rule p @ s = ''  (allow file-write* (subpath '' @ DQ # concat (map scheme_char p) @ DQ # (''))'' @ [NL]) @ s"
    by (simp add: write_rule_def escape_scheme_chars)
  then show ?thesis by (simp only: read_plain[OF plain_parts(1)] read_plain[OF plain_parts(2)] read_strings.simps read_escaped) simp
qed

lemma read_fixed_rule:
  assumes "list_all (\<lambda>c. c \<noteq> DQ \<and> c \<noteq> BSL) p"
  shows "read_strings None (fixed_rule p @ s) = map_option (\<lambda>xs. p # xs) (read_strings None s)"
proof -
  have "fixed_rule p @ s = ''  (allow file-write* (subpath '' @ DQ # p @ DQ # (''))'' @ [NL]) @ s"
    by (simp add: fixed_rule_def)
  then show ?thesis
    by (simp only: read_plain[OF plain_parts(1)] read_plain[OF plain_parts(2)] read_strings.simps read_fixed[OF assms]) simp
qed

lemma read_write_rules: "read_strings None (concat (map write_rule ps) @ s) = map_option (\<lambda>xs. ps @ xs) (read_strings None s)"
proof (induction ps)
  case Nil
  then show ?case by (simp add: option.map_ident)
next
  case (Cons p ps)
  then show ?case by (simp add: read_write_rule option.map_comp comp_def)
qed

text \<open>The profile grants no other directory than meant, whatever a path is called: read back, its strings are the
  project, the extra directories and the three temporary ones, in that order, each as it was given.\<close>

theorem profile_paths_exact:
  "read_strings None (build_macos_profile cfg)
     = Some (sb_project_dir cfg # sb_extra_writable cfg @ [''/private/tmp'', ''/private/var/folders'', ''/tmp''])"
proof -
  have e: "read_strings None ((if b then ''  (allow network*)'' else ''  (deny network*)'') @ profile_tail) = Some []" for b
    using read_plain[OF plain_parts(4), of "[]"] read_plain[OF plain_parts(5)] read_plain[OF plain_parts(6)] by simp
  have f: "list_all (\<lambda>c. c \<noteq> DQ \<and> c \<noteq> BSL) ''/private/tmp''" "list_all (\<lambda>c. c \<noteq> DQ \<and> c \<noteq> BSL) ''/private/var/folders''"
    "list_all (\<lambda>c. c \<noteq> DQ \<and> c \<noteq> BSL) ''/tmp''" by code_simp+
  show ?thesis
    by (simp only: build_macos_profile_def read_plain[OF plain_parts(3)] read_write_rule read_write_rules
        read_fixed_rule[OF f(1)] read_fixed_rule[OF f(2)] read_fixed_rule[OF f(3)] e) simp
qed

end
