(* ===== verification/Spec2Isabelle.thy ===== *)
theory Spec2Isabelle
  imports Mutation ServiceApi BenchRunner Calibration KillCriterion Vendors Sandbox
begin

text \<open>
  Verification of Vergil, a tool that proposes formal specifications of Solidity contracts with
  language models and lets verifiers decide them. The Rust sources are under \<open>crates/\<close>.

  \<^bold>\<open>How the program is put together.\<close> A CEGIS loop (\<open>vergil-core/src/cegis.rs\<close>) asks a model for candidate
  specifications (\<open>synthesis.rs\<close>), has a second model score them (\<open>critique.rs\<close>), drops those
  that too few mutants of the contract would falsify (\<open>vergil-mutation\<close>), and sends the rest to a
  portfolio (\<open>portfolio.rs\<close>) of two back ends, Halmos and solc's SMTChecker
  (\<open>vergil-solidity/src/halmos.rs\<close>, \<open>smtchecker.rs\<close>). A counterexample is triaged
  (\<open>diagnosis.rs\<close>) and leads to a repair or a refined specification (\<open>refinement.rs\<close>). What was
  verified is recorded in a proof artifact (\<open>vergil-proof\<close>) that \<open>vergil prove\<close> checks again; a service
  (\<open>vergil-service\<close>) accepts jobs over HTTP. The unified command (\<open>vergil-cli\<close>) puts the candidates of
  several oracles before the user (\<open>confirm.rs\<close>), dispatches the confirmed ones through the portfolio
  and writes a stratified verdict. Models are outside the trusted base: only a back
  end's console output can make a verdict Verified.

  \<^bold>\<open>The theories.\<close>
  \<^item> Prelude: collections of facts, machine integers of the code, list lemmas.
  \<^item> RustStr: Rust's \<open>str\<close> on UTF-8 bytes (searching, trimming, splitting, lines, numbers, paths).
    White space and case are ASCII's.
  \<^item> RustFloat: \<open>f64\<close> and \<open>f32\<close> as rationals with IEEE rounding (ties to even), infinities and NaN;
    a negative zero is not told from zero.
  \<^item> Json: the values of serde\_json for requests, schemas and payloads.
  \<^item> Solver (\<open>solver.rs\<close>): the SMT-LIB solver runner.
  \<^item> Halmos, SmtChecker, Portfolio: the two back ends and their race. The select loop is a step
    relation over all interleavings; the locale of a back end states what the loop needs of the
    conversion of a result to an outcome, and both conversions interpret it.
  \<^item> Llm (\<open>vergil-llm\<close>): requests, errors, the retry primitive, the fixture provider, the prompt
    renderer. Synthesis, Critique, Refinement: the agents on top of it.
  \<^item> Telemetry: the events and sinks; the locale of a sink (appending only) is interpreted by the
    null sink and by the JSON-lines sink on a disk that may cut any write.
  \<^item> Cegis: the outer loop as a function of the oracles' answers, with its mutable state (run and
    telemetry) passed explicitly. It terminates by the iteration cap, so no fuel is needed.
  \<^item> Mutation: mutant generation and the write, run, restore loop of the scorer.
  \<^item> ProofArtifact: schema, validation and re-verification.
  \<^item> JobStore, ServiceApi: the job store behind the locale of the JobStore trait, authentication
    behind the locale of the provider trait, metrics, handlers and routes.
  \<^item> Disk: a disk whose every operation may fail, and paths. Layout: the tree \<open>vergil-out/\<close>.
  \<^item> Confirm: the confirmation gate. Whoever decides is a driver; the locale of a driver that always
    decides is interpreted by \<open>--yes\<close> and by the prompter of a terminal that works.
  \<^item> Dispatcher: from a candidate to the portfolio and back. Verdict: headline, report and document.
    Unified: stages 2 to 4 of the unified command, down to the exit code.
  \<^item> Signatures: the scanner of Solidity sources; a slice off a character boundary is a panic.
    SourceScan and Structural (\<open>structural.rs\<close>): the text scans and the five miners of candidates with
    a confidence on top of it, and the report they give.
  \<^item> DocText, NatSpec, TestParser: the scanners of doc comments and Foundry tests
    (\<open>natspec.rs\<close>, \<open>test_parser.rs\<close>). Classify (\<open>classify.rs\<close>): which primitives a contract is.
    Fingerprint: the project record that stage 0 makes of all of them.
  \<^item> BTree: the sorted association list of a \<open>BTreeMap\<close> and the loading of a catalogue directory; the locale
    of a kind of template is interpreted by the attack templates (AttackTemplates, \<open>attack_catalog.rs\<close>) and
    by the conformance properties (PropertyCatalog, \<open>catalog.rs\<close>, \<open>manifest.rs\<close>). TemplateRender: the
    renderer of their encodings.
  \<^item> StorageLayout, StaticAnalysis (\<open>storage.rs\<close>, \<open>slither.rs\<close>, \<open>static_analysis.rs\<close>): the runs of solc and
    slither, the comparison of layouts and the cross check.
  \<^item> IntentOracles: the oracles over activated templates, tests and NatSpec. Scaffold: the contract the
    candidates are put into (\<open>commands/verify.rs\<close>).
  \<^item> Retrieval (\<open>retrieval.rs\<close>, \<open>embed.rs\<close>): the cosine ranking over cached embeddings. Providers
    (\<open>commands/intent.rs\<close>): the clients and the template directory from the environment.
  \<^item> Stage1: stages 0 and 1 of the unified command and the command as a whole; the locale of a candidate oracle
    (every candidate under its own source) is interpreted by all four oracles.
  \<^item> Foundry (\<open>foundry.rs\<close>): the test that replays a counterexample.
  \<^item> PropertiesReport, PropertiesRun (\<open>config.rs\<close>, \<open>output\<close>, \<open>commands/verify.rs\<close>): the run over \<open>properties.yaml\<close>.
    IntentRun, IntentCommand (\<open>commands/intent.rs\<close>, \<open>commands/verify.rs\<close>): the run for an intent.
  \<^item> Prove (\<open>commands/prove.rs\<close>): the prove command and what it finds of the captured queries.
    Doctor (\<open>tools.rs\<close>, \<open>commands/doctor.rs\<close>): the version probes. CatalogCommand (\<open>commands/catalog.rs\<close>): listing,
    showing, validating and self-testing the attack templates. CommandLine (\<open>main.rs\<close>): every command from its
    options to the exit code.
  \<^item> Trace (\<open>trace.rs\<close>): the log of the model calls and the removal of keys from it. Vendors (\<open>anthropic.rs\<close>,
    \<open>openai.rs\<close>): the clients. Sandbox (\<open>sandbox.rs\<close>): the profiles, read back by a reader of their strings.
  \<^item> The programs around it: IntentQuality, BenchRunner, Calibration (\<open>vergilbench/src\<close>), the sweep over a corpus,
    its scoring and the calibration of budgets; KillCriterion (\<open>bin/kill_criterion.rs\<close>), the acceptance run.

  \<^bold>\<open>Conventions.\<close> A struct is a record (field names carry a two-letter prefix), an enum a datatype, a
  fallible function returns a sum with the error left, a panic is \<open>None\<close>. \<open>u32\<close> and \<open>u64\<close> are words,
  \<open>usize\<close> counters are naturals. What is not under \<open>crates/\<close> is a parameter: processes, clock, file
  system, SHA-256, serde's text decoders, models, random numbers. A scan over text is a recursive
  function with a measure on the text that is left, so every function here is total.

  \<^bold>\<open>What the lemmas show.\<close> The trust boundary: the command exits with 0 only if every property it
  reports was confirmed unedited, came from an oracle, passed the critic and was verified by the output of a
  tool (Stage1), every interleaving of the race gives one of two specified verdicts, the
  critique pass fails closed, no candidate reaches the verifier unvetted, the CEGIS loop ends with a
  reason. Safety of the user's files: the scorer puts the source back, persisted queries keep their
  content, telemetry only appends. The service lets nobody in without the token. The prover accepts
  an artifact exactly when all recorded digests match, and accepts what a run wrote. Some properties pin down where the code
  departs from its documentation or intention; the manifest lists these as findings.

  \<^bold>\<open>Not modelled.\<close> What the vendors' libraries, clap, tokio, axum, serde and SQLite do is left to parameters;
  logging on standard error and the recorder of the intent run, which Trace models on its own, are left out; letters
  beyond ASCII have no case. Structs that only carry data to a library have the fields the code reads.
\<close>

end
